(* ===== verification/Prelude.thy ===== *)
theory Prelude
  imports Main "HOL-Library.Word"
begin

text \<open>
  Shared vocabulary of the development: machine integers as words, the error values of
  the crate, readers over the bytes still to come, writers as the bytes they emit, and
  the little-endian integers of the wire.

  A reader takes the bytes that remain in the stream and returns the value read with the
  bytes after it, or an error. A writer returns the bytes it appends to the stream, or an
  error (the bytes emitted before an error are dropped: the connection is given up then).
  A Rust panic is the error value \<open>Panic\<close>, so every panic of the source is a branch of
  the model; integer overflow panics, as in the profile with overflow checks.
\<close>

unbundle bit_operations_syntax

named_theorems result_simps \<open>equations of the result type\<close>

section \<open>Machine integers and errors\<close>

type_synonym byte = "8 word"
type_synonym u16 = "16 word"
type_synonym u32 = "32 word"
type_synonym u64 = "64 word"
type_synonym u128 = "128 word"

text \<open>
  The variants of \<open>Error\<close> (errors.rs), without their
  messages. \<open>Io\<close> is the end of an asynchronous stream (\<open>UnexpectedEof\<close>), \<open>BytesRead\<close>
  the end of an in-memory buffer.
\<close>

datatype err =
    Io
  | DoubleFetch
  | OutOfBounds
  | MissingField
  | MissingConnectionInformation
  | MalformedConnectionInformation
  | DuplicateField
  | Protocol
  | InternalChannelError
  | ConnectionTimeout
  | ConnectionGone
  | TypeParseError
  | DeserializeError
  | SerializeError
  | DeserializeErrorWithColumn
  | StartupError
  | ServerExceptionErr
  | UnexpectedType
  | UnexpectedTypeWithColumn
  | TypeConversion
  | Utf8Error
  | FromUtf8
  | DateTimeErr
  | ChannelClosed
  | OutgoingTimeout
  | InvalidDnsName
  | UnsupportedSettingType
  | UnsupportedFieldType
  | UndefinedSchemas
  | UndefinedTables
  | SchemaConfig
  | DDLMalformed
  | InsufficientDDLScope
  | ClientErr
  | External
  | Unknown
  | ArrowError
  | InsertArrowRetry
  | ArrowSerialize
  | ArrowDeserialize
  | ArrowTypeMismatch
  | ArrowUnsupportedType
  | BytesRead
  | Panic

type_synonym 'a res = "err + 'a"
type_synonym 'a reader = "byte list \<Rightarrow> err + ('a \<times> byte list)"

section \<open>Results\<close>

text \<open>The \<open>?\<close> operator: stop at the first error.\<close>

definition rbind :: "'e + 'a \<Rightarrow> ('a \<Rightarrow> 'e + 'b) \<Rightarrow> 'e + 'b" where
  "rbind r f = (case r of Inl e \<Rightarrow> Inl e | Inr x \<Rightarrow> f x)"

lemma rbind_simps [simp, result_simps]:
  "rbind (Inl e) f = Inl e"
  "rbind (Inr x) f = f x"
  by (simp_all add: rbind_def)

lemma rbind_cong [fundef_cong]:
  "r = r' \<Longrightarrow> (\<And>x. r' = Inr x \<Longrightarrow> f x = g x) \<Longrightarrow> rbind r f = rbind r' g"
  by (cases r') simp_all

lemma rbind_Inr_iff: "rbind r f = Inr y \<longleftrightarrow> (\<exists>x. r = Inr x \<and> f x = Inr y)"
  by (cases r) simp_all

lemma rbind_Inl_iff: "rbind r f = Inl e \<longleftrightarrow> r = Inl e \<or> (\<exists>x. r = Inr x \<and> f x = Inl e)"
  by (cases r) simp_all

lemma rbind_assoc: "rbind (rbind r f) g = rbind r (\<lambda>x. rbind (f x) g)"
  by (cases r) simp_all

definition rmap :: "('a \<Rightarrow> 'b) \<Rightarrow> 'e + 'a \<Rightarrow> 'e + 'b" where
  "rmap f r = (case r of Inl e \<Rightarrow> Inl e | Inr x \<Rightarrow> Inr (f x))"

lemma rmap_simps [simp, result_simps]:
  "rmap f (Inl e) = Inl e"
  "rmap f (Inr x) = Inr (f x)"
  by (simp_all add: rmap_def)

lemma rmap_Inr_iff: "rmap f r = Inr y \<longleftrightarrow> (\<exists>x. r = Inr x \<and> y = f x)"
  by (cases r) auto

definition is_ok :: "'e + 'a \<Rightarrow> bool" where
  "is_ok r = (case r of Inl _ \<Rightarrow> False | Inr _ \<Rightarrow> True)"

lemma is_ok_simps [simp]: "\<not> is_ok (Inl e)" "is_ok (Inr x)"
  by (simp_all add: is_ok_def)

lemma is_ok_iff: "is_ok r \<longleftrightarrow> (\<exists>x. r = Inr x)"
  by (cases r) simp_all

text \<open>Replace the error of a result (\<open>map_err\<close>).\<close>

definition map_err :: "('e \<Rightarrow> 'f) \<Rightarrow> 'e + 'a \<Rightarrow> 'f + 'a" where
  "map_err g r = (case r of Inl e \<Rightarrow> Inl (g e) | Inr x \<Rightarrow> Inr x)"

lemma map_err_simps [simp, result_simps]:
  "map_err g (Inl e) = Inl (g e)"
  "map_err g (Inr x) = Inr x"
  by (simp_all add: map_err_def)

text \<open>Run a fallible function over a list, stopping at the first error.\<close>

fun traverse :: "('a \<Rightarrow> 'e + 'b) \<Rightarrow> 'a list \<Rightarrow> 'e + 'b list" where
  "traverse f [] = Inr []"
| "traverse f (x # xs) = rbind (f x) (\<lambda>y. rbind (traverse f xs) (\<lambda>ys. Inr (y # ys)))"

lemma traverse_cong [fundef_cong]:
  "xs = ys \<Longrightarrow> (\<And>x. x \<in> set ys \<Longrightarrow> f x = g x) \<Longrightarrow> traverse f xs = traverse g ys"
  by (induction ys arbitrary: xs) (auto simp: rbind_def split: sum.splits)

lemma traverse_Inr_map:
  "(\<And>x. x \<in> set xs \<Longrightarrow> f x = Inr (g x)) \<Longrightarrow> traverse f xs = Inr (map g xs)"
  by (induction xs) auto

lemma traverse_length: "traverse f xs = Inr ys \<Longrightarrow> length ys = length xs"
  by (induction xs arbitrary: ys) (auto simp: rbind_Inr_iff)

section \<open>Readers\<close>

text \<open>
  \<open>read_exact\<close>: the next \<open>n\<close> bytes, or the end-of-input error of the reader (\<open>Io\<close> for
  a stream, \<open>BytesRead\<close> for a buffer).
\<close>

definition read_exact :: "err \<Rightarrow> nat \<Rightarrow> byte list reader" where
  "read_exact eof n s = (if length s < n then Inl eof else Inr (take n s, drop n s))"

lemma read_exact_append [simp]: "length xs = n \<Longrightarrow> read_exact eof n (xs @ r) = Inr (xs, r)"
  by (simp add: read_exact_def)

lemma read_exact_Inr_iff:
  "read_exact eof n s = Inr (xs, r) \<longleftrightarrow> s = xs @ r \<and> length xs = n"
  by (auto simp: read_exact_def)

definition read_u8 :: "err \<Rightarrow> byte reader" where
  "read_u8 eof s = (case s of [] \<Rightarrow> Inl eof | b # r \<Rightarrow> Inr (b, r))"

lemma read_u8_simps [simp]:
  "read_u8 eof [] = Inl eof"
  "read_u8 eof (b # r) = Inr (b, r)"
  by (simp_all add: read_u8_def)

text \<open>The loop \<open>for _ in 0..n\<close> that pushes one item read per turn.\<close>

fun read_n :: "nat \<Rightarrow> 'a reader \<Rightarrow> 'a list reader" where
  "read_n 0 p s = Inr ([], s)"
| "read_n (Suc n) p s =
     rbind (p s) (\<lambda>(x, s). rbind (read_n n p s) (\<lambda>(xs, s). Inr (x # xs, s)))"

lemma read_n_length: "read_n n p s = Inr (xs, r) \<Longrightarrow> length xs = n"
  by (induction n arbitrary: s xs r) (auto simp: rbind_Inr_iff)

section \<open>Little-endian integers\<close>

fun le_bytes :: "nat \<Rightarrow> nat \<Rightarrow> byte list" where
  "le_bytes 0 x = []"
| "le_bytes (Suc n) x = word_of_nat (x mod 256) # le_bytes n (x div 256)"

fun le_nat :: "byte list \<Rightarrow> nat" where
  "le_nat [] = 0"
| "le_nat (b # bs) = unat b + 256 * le_nat bs"

lemma length_le_bytes [simp]: "length (le_bytes n x) = n"
  by (induction n arbitrary: x) auto

lemma unat_byte_less: "unat (b :: byte) < 256"
proof -
  have "unat b < 2 ^ LENGTH(8)" by (rule unsigned_less)
  then show ?thesis by simp
qed

lemma le_nat_bound: "le_nat bs < 256 ^ length bs"
proof (induction bs)
  case Nil
  then show ?case by simp
next
  case (Cons b bs)
  have "unat b < 256" by (rule unat_byte_less)
  moreover have "le_nat bs + 1 \<le> 256 ^ length bs" using Cons.IH by simp
  ultimately have "unat b + 256 * le_nat bs < 256 * 256 ^ length bs" by linarith
  then show ?case by simp
qed

lemma unat_byte_of_nat [simp]: "unat (word_of_nat (x mod 256) :: byte) = x mod 256"
  by (simp add: unat_of_nat)

lemma le_nat_le_bytes: "le_nat (le_bytes n x) = x mod 256 ^ n"
proof (induction n arbitrary: x)
  case 0
  then show ?case by simp
next
  case (Suc n)
  have "x mod (256 * 256 ^ n) = 256 * (x div 256 mod 256 ^ n) + x mod 256"
    by (rule mod_mult2_eq)
  then show ?case using Suc.IH [of "x div 256"] by simp
qed

lemma le_bytes_le_nat: "le_bytes (length bs) (le_nat bs) = bs"
proof (induction bs)
  case Nil
  then show ?case by simp
next
  case (Cons b bs)
  have b: "unat b < 256" by (rule unat_byte_less)
  have "(unat b + 256 * le_nat bs) mod 256 = unat b" using b by simp
  moreover have "(unat b + 256 * le_nat bs) div 256 = le_nat bs" using b by simp
  ultimately show ?case using Cons.IH by simp
qed

definition put_le :: "nat \<Rightarrow> 'a::len word \<Rightarrow> byte list" where
  "put_le n w = le_bytes n (unat w)"

definition read_le :: "err \<Rightarrow> nat \<Rightarrow> 'a::len word reader" where
  "read_le eof n s =
     rbind (read_exact eof n s) (\<lambda>(bs, s). Inr (word_of_nat (le_nat bs), s))"

lemma length_put_le [simp]: "length (put_le n w) = n"
  by (simp add: put_le_def)

lemma read_le_put_le:
  assumes "LENGTH('a::len) = 8 * n"
  shows "read_le eof n (put_le n (w :: 'a word) @ r) = Inr (w, r)"
proof -
  have "(256 :: nat) ^ n = 2 ^ LENGTH('a)" by (simp add: assms power_mult)
  then have "unat w mod 256 ^ n = unat w" by (simp add: mod_less unsigned_less)
  then show ?thesis by (simp add: read_le_def put_le_def le_nat_le_bytes)
qed

lemma read_le_Inr_put:
  assumes "read_le eof n s = Inr (w :: 'a::len word, r)"
  shows "LENGTH('a) = 8 * n \<Longrightarrow> s = put_le n w @ r"
proof -
  obtain bs where bs: "s = bs @ r" "length bs = n" "w = word_of_nat (le_nat bs)"
    using assms by (auto simp: read_le_def rbind_Inr_iff read_exact_Inr_iff)
  assume len: "LENGTH('a) = 8 * n"
  have "le_nat bs < 2 ^ LENGTH('a)"
    using le_nat_bound [of bs] bs(2) by (simp add: len power_mult)
  then have "unat w = le_nat bs" by (simp add: bs(3) unat_of_nat)
  then show ?thesis using bs le_bytes_le_nat [of bs] by (simp add: put_le_def)
qed

abbreviation "put_u16 \<equiv> (put_le 2 :: u16 \<Rightarrow> byte list)"
abbreviation "put_u32 \<equiv> (put_le 4 :: u32 \<Rightarrow> byte list)"
abbreviation "put_u64 \<equiv> (put_le 8 :: u64 \<Rightarrow> byte list)"
abbreviation "put_u128 \<equiv> (put_le 16 :: u128 \<Rightarrow> byte list)"

abbreviation "read_u16 eof \<equiv> (read_le eof 2 :: u16 reader)"
abbreviation "read_u32 eof \<equiv> (read_le eof 4 :: u32 reader)"
abbreviation "read_u64 eof \<equiv> (read_le eof 8 :: u64 reader)"
abbreviation "read_u128 eof \<equiv> (read_le eof 16 :: u128 reader)"

lemma read_uint_put [simp]:
  "read_u16 eof (put_u16 a @ r) = Inr (a, r)"
  "read_u32 eof (put_u32 b @ r) = Inr (b, r)"
  "read_u64 eof (put_u64 c @ r) = Inr (c, r)"
  "read_u128 eof (put_u128 d @ r) = Inr (d, r)"
  by (rule read_le_put_le, simp)+

section \<open>The contract of an encoder and its decoder\<close>

text \<open>
  Everything the crate puts on the wire has an encoder and a decoder; what the code that
  calls them relies on is that decoding gives back the value and exactly the bytes after
  its encoding. The consequences (no two values share an encoding, a sequence of
  encodings decodes to the sequence) are proved once here, for every codec.
\<close>

locale wire_codec =
  fixes ok :: "'a \<Rightarrow> bool"
    and enc :: "'a \<Rightarrow> byte list"
    and dec :: "'a reader"
  assumes dec_enc: "ok x \<Longrightarrow> dec (enc x @ r) = Inr (x, r)"
begin

lemma enc_unambiguous:
  assumes "ok x" and "ok y" and "enc x @ r = enc y @ r'"
  shows "x = y \<and> r = r'"
proof -
  have "Inr (x, r) = dec (enc y @ r')" unfolding assms(3) [symmetric]
    by (rule dec_enc [OF assms(1), symmetric])
  also have "\<dots> = Inr (y, r')" by (rule dec_enc [OF assms(2)])
  finally show ?thesis by simp
qed

lemma dec_enc_n:
  "list_all ok xs \<Longrightarrow> read_n (length xs) dec (concat (map enc xs) @ r) = Inr (xs, r)"
proof (induction xs)
  case Nil
  then show ?case by simp
next
  case (Cons x xs)
  then have "dec (enc x @ concat (map enc xs) @ r) = Inr (x, concat (map enc xs) @ r)"
    by (simp add: dec_enc)
  with Cons show ?case by simp
qed

end

interpretation le_u16: wire_codec "\<lambda>_. True" put_u16 "read_u16 eof"
  by unfold_locales simp

interpretation le_u32: wire_codec "\<lambda>_. True" put_u32 "read_u32 eof"
  by unfold_locales simp

interpretation le_u64: wire_codec "\<lambda>_. True" put_u64 "read_u64 eof"
  by unfold_locales simp

end
