(* ===== verification/Text.thy ===== *)
theory Text
  imports Prelude
begin

text \<open>
  Rust strings. A \<open>String\<close> or \<open>&str\<close> is its UTF-8 bytes, as a HOL \<open>string\<close> with one
  \<open>char\<close> per byte; \<open>str_bytes\<close> and \<open>bytes_str\<close> go to and from the bytes of the wire.
  The validation and the lossy conversion follow the standard library
  (\<open>String::from_utf8\<close>, \<open>String::from_utf8_lossy\<close>). Integers are printed and parsed
  as \<open>Display\<close> and \<open>FromStr\<close> of the standard library do.
\<close>

section \<open>Bytes and characters\<close>

definition str_bytes :: "string \<Rightarrow> byte list" where
  "str_bytes s = map (\<lambda>c. word_of_nat (of_char c)) s"

definition bytes_str :: "byte list \<Rightarrow> string" where
  "bytes_str bs = map (\<lambda>b. char_of (unat b)) bs"

lemma of_char_less: "(of_char c :: nat) < 256"
  by (metis of_char_mod_256 mod_less_divisor zero_less_numeral)

lemma bytes_str_str_bytes [simp]: "bytes_str (str_bytes s) = s"
proof -
  have "char_of (unat (word_of_nat (of_char c) :: byte)) = c" for c
    by (simp add: unat_of_nat)
  then show ?thesis by (simp add: str_bytes_def bytes_str_def o_def)
qed

lemma str_bytes_bytes_str [simp]: "str_bytes (bytes_str bs) = bs"
proof -
  have "word_of_nat (of_char (char_of (unat b) :: char)) = b" for b :: byte
    using unat_byte_less [of b] by simp
  then show ?thesis by (simp add: str_bytes_def bytes_str_def o_def)
qed

lemma length_str_bytes [simp]: "length (str_bytes s) = length s"
  by (simp add: str_bytes_def)

lemma str_bytes_inj [simp]: "str_bytes s = str_bytes t \<longleftrightarrow> s = t"
  by (metis bytes_str_str_bytes)

lemma str_bytes_simps [simp]:
  "str_bytes [] = []"
  "str_bytes (c # s) = word_of_nat (of_char c) # str_bytes s"
  by (simp_all add: str_bytes_def)

section \<open>UTF-8\<close>

definition byte_in :: "nat \<Rightarrow> nat \<Rightarrow> byte \<Rightarrow> bool" where
  "byte_in lo hi b \<longleftrightarrow> lo \<le> unat b \<and> unat b \<le> hi"

definition utf8_cont :: "byte \<Rightarrow> bool" where
  "utf8_cont b \<longleftrightarrow> byte_in 0x80 0xBF b"

text \<open>The byte at an index, 0 past the end, as in the validation loop of the library.\<close>

definition safe_get :: "byte list \<Rightarrow> nat \<Rightarrow> byte" where
  "safe_get s i = (if i < length s then s ! i else 0)"

text \<open>The second byte allowed after the first byte of a three or four byte sequence.\<close>

definition utf8_second :: "byte \<Rightarrow> byte \<Rightarrow> bool" where
  "utf8_second a b \<longleftrightarrow>
     (if unat a = 0xE0 then byte_in 0xA0 0xBF b
      else if unat a = 0xED then byte_in 0x80 0x9F b
      else if unat a = 0xF0 then byte_in 0x90 0xBF b
      else if unat a = 0xF4 then byte_in 0x80 0x8F b
      else utf8_cont b)"

text \<open>
  The sequence at the front of the bytes: whether it encodes a character, and how many
  bytes were taken (when it does not, the bytes that one replacement character stands for).
\<close>

definition utf8_seq :: "byte list \<Rightarrow> bool \<times> nat" where
  "utf8_seq s =
     (let a = safe_get s 0; b = safe_get s 1; c = safe_get s 2; d = safe_get s 3 in
      if unat a < 0x80 then (True, 1)
      else if byte_in 0xC2 0xDF a then (if utf8_cont b then (True, 2) else (False, 1))
      else if byte_in 0xE0 0xEF a then
        (if \<not> utf8_second a b then (False, 1)
         else if \<not> utf8_cont c then (False, 2) else (True, 3))
      else if byte_in 0xF0 0xF4 a then
        (if \<not> utf8_second a b then (False, 1)
         else if \<not> utf8_cont c then (False, 2)
         else if \<not> utf8_cont d then (False, 3) else (True, 4))
      else (False, 1))"

lemma utf8_seq_pos: "0 < snd (utf8_seq s)"
  by (simp add: utf8_seq_def Let_def)

function utf8_valid :: "byte list \<Rightarrow> bool" where
  "utf8_valid s =
     (if s = [] then True
      else if fst (utf8_seq s) then utf8_valid (drop (snd (utf8_seq s)) s)
      else False)"
  by pat_completeness auto
termination
  by (relation "measure length") (auto simp: utf8_seq_pos)

declare utf8_valid.simps [simp del]

text \<open>\<open>from_utf8_lossy\<close>: every invalid sequence becomes U+FFFD (EF BF BD).\<close>

function from_utf8_lossy :: "byte list \<Rightarrow> byte list" where
  "from_utf8_lossy s =
     (if s = [] then []
      else (if fst (utf8_seq s) then take (snd (utf8_seq s)) s else [0xEF, 0xBF, 0xBD])
           @ from_utf8_lossy (drop (snd (utf8_seq s)) s))"
  by pat_completeness auto
termination
  by (relation "measure length") (auto simp: utf8_seq_pos)

declare from_utf8_lossy.simps [simp del]

lemma utf8_valid_Nil [simp]: "utf8_valid []"
  by (simp add: utf8_valid.simps)

lemma utf8_seq_ascii: "unat a < 0x80 \<Longrightarrow> utf8_seq (a # s) = (True, 1)"
  by (simp add: utf8_seq_def safe_get_def Let_def)

lemma utf8_valid_ascii_Cons:
  "unat a < 0x80 \<Longrightarrow> utf8_valid (a # s) = utf8_valid s"
  by (simp add: utf8_valid.simps [of "a # s"] utf8_seq_ascii)

lemma utf8_valid_ascii: "list_all (\<lambda>b. unat b < 0x80) s \<Longrightarrow> utf8_valid s"
  by (induction s) (auto simp: utf8_valid_ascii_Cons)

lemma from_utf8_lossy_valid: "utf8_valid s \<Longrightarrow> from_utf8_lossy s = s"
proof (induction s rule: from_utf8_lossy.induct)
  case (1 s)
  show ?case
  proof (cases "s = []")
    case True
    then show ?thesis by (simp add: from_utf8_lossy.simps)
  next
    case False
    with "1.prems" have "fst (utf8_seq s)" "utf8_valid (drop (snd (utf8_seq s)) s)"
      by (auto simp: utf8_valid.simps [of s] split: if_splits)
    with False "1.IH" show ?thesis by (simp add: from_utf8_lossy.simps [of s])
  qed
qed

text \<open>A Rust string: UTF-8 bytes.\<close>

definition utf8_str :: "string \<Rightarrow> bool" where
  "utf8_str s \<longleftrightarrow> utf8_valid (str_bytes s)"

definition ascii_str :: "string \<Rightarrow> bool" where
  "ascii_str s \<longleftrightarrow> list_all (\<lambda>c. (of_char c :: nat) < 0x80) s"

lemma ascii_str_utf8: "ascii_str s \<Longrightarrow> utf8_str s"
  unfolding utf8_str_def ascii_str_def
  by (rule utf8_valid_ascii) (auto simp: str_bytes_def list_all_iff unat_of_nat)

lemma ascii_str_simps [simp]:
  "ascii_str []"
  "ascii_str (c # s) \<longleftrightarrow> (of_char c :: nat) < 0x80 \<and> ascii_str s"
  "ascii_str (s @ t) \<longleftrightarrow> ascii_str s \<and> ascii_str t"
  by (simp_all add: ascii_str_def)

section \<open>Decimal integers\<close>

definition digit_char :: "nat \<Rightarrow> char" where
  "digit_char d = char_of (48 + d)"

definition is_digit :: "char \<Rightarrow> bool" where
  "is_digit c \<longleftrightarrow> 48 \<le> (of_char c :: nat) \<and> (of_char c :: nat) \<le> 57"

definition digit_val :: "char \<Rightarrow> nat" where
  "digit_val c = of_char c - 48"

fun show_nat :: "nat \<Rightarrow> string" where
  "show_nat n = (if n < 10 then [digit_char n] else show_nat (n div 10) @ [digit_char (n mod 10)])"

declare show_nat.simps [simp del]

definition show_int :: "int \<Rightarrow> string" where
  "show_int i = (if i < 0 then CHR ''-'' # show_nat (nat (- i)) else show_nat (nat i))"

text \<open>The value of a string of digits.\<close>

definition digits_val :: "string \<Rightarrow> nat" where
  "digits_val s = foldl (\<lambda>n c. 10 * n + digit_val c) 0 s"

text \<open>
  \<open>usize::from_str\<close> and \<open>iN::from_str\<close>: an optional sign (\<open>-\<close> for signed types only), at
  least one digit, nothing else, and a value in the range of the type.
\<close>

definition parse_digits :: "string \<Rightarrow> nat option" where
  "parse_digits s = (if s \<noteq> [] \<and> list_all is_digit s then Some (digits_val s) else None)"

definition parse_usize :: "string \<Rightarrow> nat option" where
  "parse_usize s =
     (case parse_digits (case s of [] \<Rightarrow> [] | c # r \<Rightarrow> if c = CHR ''+'' then r else s) of
        None \<Rightarrow> None
      | Some n \<Rightarrow> if n < 2 ^ 64 then Some n else None)"

definition parse_signed :: "nat \<Rightarrow> string \<Rightarrow> int option" where
  "parse_signed w s =
     (let neg = (case s of [] \<Rightarrow> False | c # _ \<Rightarrow> c = CHR ''-'');
          body = (case s of [] \<Rightarrow> []
                  | c # r \<Rightarrow> if c = CHR ''-'' \<or> c = CHR ''+'' then r else s)
      in case parse_digits body of
           None \<Rightarrow> None
         | Some n \<Rightarrow>
             (let i = (if neg then - int n else int n)
              in if - (2 ^ (w - 1)) \<le> i \<and> i < 2 ^ (w - 1) then Some i else None))"

lemma digit_char_props:
  assumes "d < 10"
  shows "is_digit (digit_char d)" "digit_val (digit_char d) = d"
  using assms by (simp_all add: is_digit_def digit_val_def digit_char_def)

lemma digits_val_snoc: "digits_val (s @ [c]) = 10 * digits_val s + digit_val c"
  by (simp add: digits_val_def)

lemma show_nat_digits: "list_all is_digit (show_nat n) \<and> digits_val (show_nat n) = n"
proof (induction n rule: show_nat.induct)
  case (1 n)
  show ?case
  proof (cases "n < 10")
    case True
    then show ?thesis
      by (simp add: show_nat.simps [of n] digit_char_props digits_val_def)
  next
    case False
    have d: "n mod 10 < 10" by simp
    have "digits_val (show_nat n) = 10 * (n div 10) + n mod 10"
      using False "1.IH" by (simp add: show_nat.simps [of n] digits_val_snoc digit_char_props(2) [OF d])
    moreover have "list_all is_digit (show_nat n)"
      using False "1.IH" by (simp add: show_nat.simps [of n] digit_char_props(1) [OF d])
    ultimately show ?thesis by simp
  qed
qed

lemma show_nat_nonempty [simp]: "show_nat n \<noteq> []"
  by (subst show_nat.simps) simp

lemma parse_digits_show_nat [simp]: "parse_digits (show_nat n) = Some n"
  by (simp add: parse_digits_def show_nat_digits)

lemma show_nat_Cons:
  obtains c s where "show_nat n = c # s" "is_digit c"
  using show_nat_digits [of n] show_nat_nonempty [of n] by (cases "show_nat n") auto

lemma is_digit_not_sign [simp]: "\<not> is_digit (CHR ''+'')" "\<not> is_digit (CHR ''-'')"
  by (simp_all add: is_digit_def)

lemma parse_usize_show_nat:
  assumes "n < 2 ^ 64"
  shows "parse_usize (show_nat n) = Some n"
proof -
  obtain c s where cs: "show_nat n = c # s" "is_digit c" by (rule show_nat_Cons)
  then have "c \<noteq> CHR ''+''" by auto
  then show ?thesis
    using assms cs(1) parse_digits_show_nat [of n] by (simp add: parse_usize_def)
qed

lemma parse_signed_show_int:
  assumes "- (2 ^ (w - 1)) \<le> i" and "i < 2 ^ (w - 1)"
  shows "parse_signed w (show_int i) = Some i"
proof (cases "i < 0")
  case True
  then show ?thesis using assms by (simp add: parse_signed_def show_int_def Let_def)
next
  case False
  obtain c s where cs: "show_nat (nat i) = c # s" "is_digit c" by (rule show_nat_Cons)
  then have "c \<noteq> CHR ''+''" "c \<noteq> CHR ''-''" by auto
  then show ?thesis
    using assms False cs(1) parse_digits_show_nat [of "nat i"]
    by (simp add: parse_signed_def show_int_def Let_def)
qed

end
