(* ===== verification/ClickIO.thy ===== *)
theory ClickIO
  imports Text
begin

text \<open>
  The byte-level primitives of io.rs: variable-length unsigned integers and
  length-prefixed strings, in their asynchronous form (\<open>ClickHouseRead\<close>,
  \<open>ClickHouseWrite\<close>) and in their in-memory form (\<open>ClickHouseBytesRead\<close>,
  \<open>ClickHouseBytesWrite\<close>). The two forms are separate code in the source and separate
  definitions here; they are proved to agree.
\<close>

section \<open>Definitions\<close>

definition MAX_STRING_SIZE :: nat where
  "MAX_STRING_SIZE = 2 ^ 30"

subsection \<open>Asynchronous readers and writers\<close>

text \<open>
  The loop \<open>for i in 0..9\<close> of \<open>read_var_uint\<close>: \<open>k\<close> turns are left, \<open>i\<close> is the loop
  variable, \<open>out\<close> the value so far.
\<close>

fun read_var_uint_loop :: "nat \<Rightarrow> nat \<Rightarrow> u64 \<Rightarrow> u64 reader" where
  "read_var_uint_loop 0 i out s = Inr (out, s)"
| "read_var_uint_loop (Suc k) i out s =
     rbind (read_u8 Io s) (\<lambda>(octet, s).
       let out = out OR push_bit (7 * i) (ucast (octet AND 0x7F))
       in if octet AND 0x80 = 0 then Inr (out, s)
          else read_var_uint_loop k (Suc i) out s)"

definition read_var_uint :: "u64 reader" where
  "read_var_uint s = read_var_uint_loop 9 0 0 s"

text \<open>
  The loop \<open>while pos < 9\<close> of \<open>write_var_uint\<close>, with \<open>k = 9 - pos\<close>: it returns the
  bytes stored in \<open>buf[pos..]\<close>.
\<close>

fun write_var_uint_loop :: "nat \<Rightarrow> u64 \<Rightarrow> byte list" where
  "write_var_uint_loop 0 value = []"
| "write_var_uint_loop (Suc k) value =
     (let byte = value AND 0x7F;
          value = drop_bit 7 value;
          byte = (if value > 0 then byte OR 0x80 else byte)
      in ucast byte # (if value = 0 then [] else write_var_uint_loop k value))"

definition write_var_uint :: "u64 \<Rightarrow> byte list" where
  "write_var_uint value = write_var_uint_loop 9 value"

definition read_string :: "byte list reader" where
  "read_string s =
     rbind (read_var_uint s) (\<lambda>(n, s).
       let len = unat n
       in if len > MAX_STRING_SIZE then Inl Protocol
          else if len = 0 then Inr ([], s)
          else read_exact Io len s)"

definition read_utf8_string :: "string reader" where
  "read_utf8_string s =
     rbind (read_string s) (\<lambda>(bs, s).
       if utf8_valid bs then Inr (bytes_str bs, s) else Inl FromUtf8)"

definition write_string :: "byte list \<Rightarrow> byte list" where
  "write_string value = write_var_uint (word_of_nat (length value)) @ value"

subsection \<open>In-memory readers and writers\<close>

text \<open>The loop \<open>for i in 1..9\<close> after the unrolled first byte.\<close>

fun try_get_var_uint_loop :: "nat \<Rightarrow> nat \<Rightarrow> u64 \<Rightarrow> u64 reader" where
  "try_get_var_uint_loop 0 i out s = Inr (out, s)"
| "try_get_var_uint_loop (Suc k) i out s =
     (case s of
        [] \<Rightarrow> Inl Protocol
      | b # s \<Rightarrow>
          (let out = out OR push_bit (7 * i) (ucast (b AND 0x7F))
           in if b AND 0x80 = 0 then Inr (out, s)
              else try_get_var_uint_loop k (Suc i) out s))"

definition try_get_var_uint :: "u64 reader" where
  "try_get_var_uint s =
     (case s of
        [] \<Rightarrow> Inl Protocol
      | b # s \<Rightarrow>
          (let out = ucast (b AND 0x7F)
           in if b AND 0x80 = 0 then Inr (out, s) else try_get_var_uint_loop 8 1 out s))"

definition try_get_string :: "byte list reader" where
  "try_get_string s =
     rbind (try_get_var_uint s) (\<lambda>(n, s).
       let len = unat n
       in if len > MAX_STRING_SIZE then Inl Protocol
          else if len = 0 then Inr ([], s)
          else if length s < len then Inl Protocol
          else Inr (take len s, drop len s))"

text \<open>The in-memory writers repeat the loop of the asynchronous ones.\<close>

fun put_var_uint_loop :: "nat \<Rightarrow> u64 \<Rightarrow> byte list" where
  "put_var_uint_loop 0 value = []"
| "put_var_uint_loop (Suc k) value =
     (let byte = value AND 0x7F;
          value = drop_bit 7 value;
          byte = (if value > 0 then byte OR 0x80 else byte)
      in ucast byte # (if value = 0 then [] else put_var_uint_loop k value))"

definition put_var_uint :: "u64 \<Rightarrow> byte list" where
  "put_var_uint value = put_var_uint_loop 9 value"

definition put_string :: "byte list \<Rightarrow> byte list" where
  "put_string value = put_var_uint (word_of_nat (length value)) @ value"

section \<open>The two forms agree\<close>

lemma put_var_uint_loop_eq: "put_var_uint_loop k v = write_var_uint_loop k v"
  by (induction k arbitrary: v) (simp_all add: Let_def)

lemma put_var_uint_eq [simp]: "put_var_uint v = write_var_uint v"
  by (simp add: put_var_uint_def write_var_uint_def put_var_uint_loop_eq)

lemma put_string_eq [simp]: "put_string bs = write_string bs"
  by (simp add: put_string_def write_string_def)

lemma try_get_var_uint_loop_eq:
  "try_get_var_uint_loop k i out s = map_err (\<lambda>_. Protocol) (read_var_uint_loop k i out s)"
  by (induction k arbitrary: i out s) (auto simp: Let_def split: list.split)

lemma try_get_var_uint_eq:
  "try_get_var_uint s = map_err (\<lambda>_. Protocol) (read_var_uint s)"
  by (simp add: try_get_var_uint_def read_var_uint_def numeral_eq_Suc
        try_get_var_uint_loop_eq [of "Suc (Suc (Suc (Suc (Suc (Suc (Suc (Suc 0)))))))",
          unfolded numeral_eq_Suc] Let_def split: list.split)

section \<open>Variable-length integers\<close>

text \<open>
  Writing \<open>v\<close> with \<open>k\<close> turns left and reading it back from turn \<open>i\<close> adds the low
  \<open>7 * k\<close> bits of \<open>v\<close> at position \<open>7 * i\<close>.
\<close>

lemma mask7: "(0x7F :: 'a::len word) = mask 7"
  by (simp add: mask_eq_exp_minus_1)

lemma bit_0x80: "bit (0x80 :: 'a::len word) n \<longleftrightarrow> n = 7 \<and> 7 < LENGTH('a)"
  using bit_exp_iff [of 7 n, where 'a = "'a word"] by auto

lemma bit_128 [simp]:
  "bit (128 :: nat) n \<longleftrightarrow> n = 7"
  "bit (128 :: int) n \<longleftrightarrow> n = 7"
  using bit_exp_iff [of 7 n, where 'a = nat] bit_exp_iff [of 7 n, where 'a = int] by auto

lemma shift_back: "\<not> n - 7 * i < 7 \<Longrightarrow> 7 + (n - (7 + 7 * i)) = n - 7 * (i :: nat)"
  by arith

lemma low7_last: "ucast (ucast (v AND 0x7F :: u64) AND 0x7F :: byte) = (take_bit 7 v :: u64)"
  unfolding mask7 by (rule bit_word_eqI) (auto simp: bit_simps)

lemma low7_more:
  "ucast ((ucast ((v AND 0x7F) OR 0x80 :: u64) :: byte) AND 0x7F) = (take_bit 7 v :: u64)"
  unfolding mask7 by (rule bit_word_eqI) (auto simp: bit_simps bit_0x80)

lemma high_bit_last: "ucast (v AND 0x7F :: u64) AND (0x80 :: byte) = 0"
  unfolding mask7 by (rule bit_word_eqI) (auto simp: bit_simps bit_0x80)

lemma high_bit_more: "ucast ((v AND 0x7F) OR 0x80 :: u64) AND (0x80 :: byte) \<noteq> 0"
proof -
  have "bit (ucast ((v AND 0x7F) OR 0x80 :: u64) AND (0x80 :: byte)) 7"
    by (simp add: bit_simps bit_0x80)
  then show ?thesis by (metis bit_0_eq bot_apply bot_bool_def)
qed

lemma push_take_step:
  "push_bit (7 * i) (take_bit 7 v) OR push_bit (7 * Suc i) (take_bit (7 * k) (drop_bit 7 v))
     = push_bit (7 * i) (take_bit (7 * Suc k) (v :: u64))"
proof (rule bit_word_eqI)
  fix n
  assume "n < LENGTH(64)"
  then show "bit (push_bit (7 * i) (take_bit 7 v)
        OR push_bit (7 * Suc i) (take_bit (7 * k) (drop_bit 7 v))) n =
      bit (push_bit (7 * i) (take_bit (7 * Suc k) v)) n"
    by (cases "n - 7 * i < 7") (auto simp: bit_simps shift_back)
qed

lemma read_write_loop:
  "read_var_uint_loop k i out (write_var_uint_loop k v @ r) =
     Inr (out OR push_bit (7 * i) (take_bit (7 * k) v), r)"
proof (induction k arbitrary: i out v)
  case 0
  then show ?case by simp
next
  case (Suc k)
  note step = push_take_step [of i v k]
  show ?case
  proof (cases "drop_bit 7 v = 0")
    case True
    then show ?thesis
      using step by (simp add: Let_def low7_last high_bit_last del: mult_Suc_right)
  next
    case False
    then have "drop_bit 7 v > 0" by (simp add: word_gt_0)
    with False show ?thesis
      using Suc.IH [of "Suc i" _ "drop_bit 7 v"] step
      by (simp add: Let_def low7_more high_bit_more or.assoc del: mult_Suc_right)
  qed
qed

lemma read_var_uint_write: "read_var_uint (write_var_uint v @ r) = Inr (take_bit 63 v, r)"
  by (simp add: read_var_uint_def write_var_uint_def read_write_loop)

text \<open>The writer stores between one and nine bytes.\<close>

lemma write_loop_length: "length (write_var_uint_loop k v) \<le> k"
  by (induction k arbitrary: v) (simp_all add: Let_def)

lemma write_var_uint_length: "0 < length (write_var_uint v) \<and> length (write_var_uint v) \<le> 9"
  using write_loop_length [of 9 v]
  by (simp add: write_var_uint_def numeral_eq_Suc Let_def)

lemma take_bit_63: "v < 2 ^ 63 \<Longrightarrow> take_bit 63 (v :: u64) = v"
proof -
  assume "v < 2 ^ 63"
  then have "unat v < 2 ^ 63" by (simp add: word_less_nat_alt)
  then have "unat (take_bit 63 v) = unat v"
    by (simp add: unsigned_take_bit_eq take_bit_nat_eq_self)
  then show ?thesis by (rule unsigned_word_eqI)
qed

lemma unat_of_nat_u64: "n < 2 ^ 64 \<Longrightarrow> unat (word_of_nat n :: u64) = n"
  by (simp add: unat_of_nat)

lemma read_var_uint_small:
  assumes "n < 2 ^ 63"
  shows "read_var_uint (write_var_uint (word_of_nat n) @ r) = Inr (word_of_nat n, r)"
proof -
  have "word_of_nat n < (2 ^ 63 :: u64)"
    using assms by (simp add: word_less_nat_alt unat_of_nat)
  then show ?thesis by (simp add: read_var_uint_write take_bit_63)
qed

interpretation var_uint: wire_codec "\<lambda>v. v < 2 ^ 63" write_var_uint read_var_uint
  by unfold_locales (simp add: read_var_uint_write take_bit_63)

interpretation var_uint_buf: wire_codec "\<lambda>v. v < 2 ^ 63" put_var_uint try_get_var_uint
  by unfold_locales (simp add: try_get_var_uint_eq var_uint.dec_enc)

text \<open>The readers take at least one byte.\<close>

lemma read_var_uint_loop_length:
  "read_var_uint_loop k i out s = Inr (v, r) \<Longrightarrow> length r \<le> length s"
proof (induction k arbitrary: i out s)
  case 0
  then show ?case by simp
next
  case (Suc k)
  then show ?case
    by (cases s) (auto simp: Let_def split: if_splits dest: Suc.IH intro: le_SucI)
qed

lemma read_var_uint_length: "read_var_uint s = Inr (v, r) \<Longrightarrow> length r < length s"
  using read_var_uint_loop_length [of 8]
  by (cases s) (auto simp: read_var_uint_def numeral_eq_Suc Let_def less_Suc_eq_le
      simp del: read_var_uint_loop.simps(2) split: if_splits
      simp: read_var_uint_loop.simps(2) [of "Suc (Suc (Suc (Suc (Suc (Suc (Suc (Suc 0)))))))"])

lemma read_string_length: "read_string s = Inr (v, r) \<Longrightarrow> length r < length s"
  by (auto simp: read_string_def rbind_Inr_iff Let_def read_exact_def
      dest!: read_var_uint_length split: if_splits)

section \<open>Strings\<close>

lemma read_string_write:
  assumes "length bs \<le> MAX_STRING_SIZE"
  shows "read_string (write_string bs @ r) = Inr (bs, r)"
proof -
  have n: "length bs < 2 ^ 63" using assms by (simp add: MAX_STRING_SIZE_def)
  then have "unat (word_of_nat (length bs) :: u64) = length bs"
    by (intro unat_of_nat_u64) simp
  then show ?thesis
    using assms by (simp add: read_string_def write_string_def read_var_uint_small [OF n] Let_def)
qed

lemma try_get_string_eq: "try_get_string s = map_err (\<lambda>_. Protocol) (read_string s)"
  by (auto simp: try_get_string_def read_string_def try_get_var_uint_eq map_err_def rbind_def
      read_exact_def Let_def split: sum.split)

interpretation byte_string: wire_codec "\<lambda>bs. length bs \<le> MAX_STRING_SIZE" write_string read_string
  by unfold_locales (rule read_string_write)

interpretation byte_string_buf:
  wire_codec "\<lambda>bs. length bs \<le> MAX_STRING_SIZE" put_string try_get_string
  by unfold_locales (simp add: try_get_string_eq read_string_write)

text \<open>A Rust string is written as its bytes.\<close>

definition wire_str :: "string \<Rightarrow> bool" where
  "wire_str s \<longleftrightarrow> utf8_str s \<and> length s \<le> MAX_STRING_SIZE"

interpretation utf8_string: wire_codec wire_str "\<lambda>s. write_string (str_bytes s)" read_utf8_string
  by unfold_locales
    (simp add: wire_str_def read_utf8_string_def read_string_write utf8_str_def)

section \<open>Properties\<close>

text \<open>C31. Variable-length integers: reading what was written gives the low 63 bits of the
  value and the bytes after it, for every \<open>u64\<close>, with both readers and both writers. So
  values below \<open>2 ^ 63\<close> come back, and the writers cut larger ones: nine bytes hold 63
  bits, where the comment in the source takes nine for the maximum of a \<open>u64\<close>.\<close>

theorem var_uint_roundtrip:
  "read_var_uint (write_var_uint v @ r) = Inr (take_bit 63 v, r)
   \<and> try_get_var_uint (put_var_uint v @ r) = Inr (take_bit 63 v, r)
   \<and> length (write_var_uint v) \<le> 9"
  using write_var_uint_length [of v] by (simp add: read_var_uint_write try_get_var_uint_eq)

text \<open>The in-memory readers of integers and strings agree with the asynchronous ones on
  every input, well-formed or not: the same value, the same bytes left, an error in the same
  cases (always \<open>Protocol\<close> in memory).\<close>

theorem buffer_readers_agree:
  "try_get_var_uint s = map_err (\<lambda>_. Protocol) (read_var_uint s)
   \<and> try_get_string s = map_err (\<lambda>_. Protocol) (read_string s)"
  by (simp add: try_get_var_uint_eq try_get_string_eq)

text \<open>Length-prefixed strings: a sequence of strings of valid UTF-8, each at most
  \<open>MAX_STRING_SIZE\<close> bytes, is read back string by string, up to the byte after the last.\<close>

theorem utf8_strings_roundtrip:
  assumes "list_all wire_str ss"
  shows "read_n (length ss) read_utf8_string
    (concat (map (\<lambda>s. write_string (str_bytes s)) ss) @ r) = Inr (ss, r)"
  by (rule utf8_string.dec_enc_n [OF assms])

theorem utf8_strings_roundtrip_witness:
  "read_n (length [''ab'', []]) read_utf8_string
    (concat (map (\<lambda>s. write_string (str_bytes s)) [''ab'', []]) @ [7]) = Inr ([''ab'', []], [7])"
  by (rule utf8_strings_roundtrip)
    (simp add: wire_str_def utf8_str_def MAX_STRING_SIZE_def utf8_valid.simps utf8_seq_def
      safe_get_def)

end
