(* ===== verification/ChTypes.thy ===== *)
theory ChTypes
  imports ClickIO
begin

text \<open>
  The data model of the native format: \<open>Type\<close> (native/types.rs) and \<open>Value\<close>
  (native/values.rs), with the operations on them that the codecs use: the accessors,
  the default value of a type, the validity of a type and of a value for a type, the
  equality of values and the type guessed from a value.

  A time zone (\<open>chrono_tz::Tz\<close>) is its IANA name. Signed integers are words read with
  \<open>sint\<close>; floats are their bit patterns (the code compares and encodes them as bits);
  \<open>i256\<close>, \<open>u256\<close> and IPv6 addresses are their bytes, most significant first; a \<open>usize\<close>
  is a \<open>nat\<close>.
\<close>

section \<open>Types and values\<close>

type_synonym tz = string

datatype (plugins only: size code) ty =
    Int8 | Int16 | Int32 | Int64 | Int128 | Int256
  | UInt8 | UInt16 | UInt32 | UInt64 | UInt128 | UInt256
  | Float32 | Float64
  | Decimal32 nat | Decimal64 nat | Decimal128 nat | Decimal256 nat
  | String | FixedSizedString nat | Binary | FixedSizedBinary nat
  | Uuid
  | Date | Date32 | DateTime tz | DateTime64 nat tz
  | Ipv4 | Ipv6
  | Point | Ring | Polygon | MultiPolygon
  | Nullable ty
  | Enum8 "(string \<times> byte) list" | Enum16 "(string \<times> u16) list"
  | LowCardinality ty
  | Array ty
  | Tuple "ty list"
  | Map ty ty
  | Object

type_synonym point = "u64 \<times> u64"

datatype (plugins only: size code) val =
    VInt8 byte | VInt16 u16 | VInt32 u32 | VInt64 u64 | VInt128 u128 | VInt256 "byte list"
  | VUInt8 byte | VUInt16 u16 | VUInt32 u32 | VUInt64 u64 | VUInt128 u128 | VUInt256 "byte list"
  | VFloat32 u32 | VFloat64 u64
  | VDecimal32 nat u32 | VDecimal64 nat u64 | VDecimal128 nat u128 | VDecimal256 nat "byte list"
  | VString "byte list"
  | VUuid u128
  | VDate u16 | VDate32 u32 | VDateTime tz u32 | VDateTime64 tz u64 nat
  | VEnum8 string byte | VEnum16 string u16
  | VArray "val list"
  | VTuple "val list"
  | VNull
  | VMap "val list" "val list"
  | VIpv4 u32 | VIpv6 "byte list"
  | VPoint point | VRing "point list" | VPolygon "point list list"
  | VMultiPolygon "point list list list"
  | VObject "byte list"

section \<open>Operations on types\<close>

definition unwrap_array :: "ty \<Rightarrow> ty res" where
  "unwrap_array t = (case t of Array x \<Rightarrow> Inr x | _ \<Rightarrow> Inl UnexpectedType)"

definition unarray :: "ty \<Rightarrow> ty option" where
  "unarray t = (case t of Array x \<Rightarrow> Some x | _ \<Rightarrow> None)"

definition unwrap_map :: "ty \<Rightarrow> (ty \<times> ty) res" where
  "unwrap_map t = (case t of Map k v \<Rightarrow> Inr (k, v) | _ \<Rightarrow> Inl UnexpectedType)"

definition unmap :: "ty \<Rightarrow> (ty \<times> ty) option" where
  "unmap t = (case t of Map k v \<Rightarrow> Some (k, v) | _ \<Rightarrow> None)"

definition unwrap_tuple :: "ty \<Rightarrow> ty list res" where
  "unwrap_tuple t = (case t of Tuple x \<Rightarrow> Inr x | _ \<Rightarrow> Inl UnexpectedType)"

definition untuple :: "ty \<Rightarrow> ty list option" where
  "untuple t = (case t of Tuple x \<Rightarrow> Some x | _ \<Rightarrow> None)"

definition unnull :: "ty \<Rightarrow> ty option" where
  "unnull t = (case t of Nullable x \<Rightarrow> Some x | _ \<Rightarrow> None)"

definition strip_null :: "ty \<Rightarrow> ty" where
  "strip_null t = (case t of Nullable x \<Rightarrow> x | _ \<Rightarrow> t)"

definition is_nullable :: "ty \<Rightarrow> bool" where
  "is_nullable t = (case t of Nullable _ \<Rightarrow> True | _ \<Rightarrow> False)"

definition strip_low_cardinality :: "ty \<Rightarrow> ty" where
  "strip_low_cardinality t = (case t of LowCardinality x \<Rightarrow> x | _ \<Rightarrow> t)"

fun into_nullable :: "ty \<Rightarrow> ty" where
  "into_nullable (Nullable x) = Nullable x"
| "into_nullable (LowCardinality inner) = LowCardinality (into_nullable inner)"
| "into_nullable t = Nullable t"

text \<open>\<open>map::normalize_map_type\<close> and \<open>geo::normalize_geo_type\<close>.\<close>

definition normalize_map_type :: "ty \<Rightarrow> ty \<Rightarrow> ty" where
  "normalize_map_type key v = Array (Tuple [key, v])"

definition normalize_geo_type :: "ty \<Rightarrow> ty res" where
  "normalize_geo_type t =
     (case t of
        Point \<Rightarrow> Inr (Tuple [Float64, Float64])
      | Ring \<Rightarrow> Inr (Array (Tuple [Float64, Float64]))
      | Polygon \<Rightarrow> Inr (Array (Array (Tuple [Float64, Float64])))
      | MultiPolygon \<Rightarrow> Inr (Array (Array (Array (Tuple [Float64, Float64]))))
      | _ \<Rightarrow> Inl TypeConversion)"

definition zero32 :: "byte list" where
  "zero32 = replicate 32 0"

fun default_value :: "ty \<Rightarrow> val" where
  "default_value Int8 = VInt8 0"
| "default_value Int16 = VInt16 0"
| "default_value Int32 = VInt32 0"
| "default_value Int64 = VInt64 0"
| "default_value Int128 = VInt128 0"
| "default_value Int256 = VInt256 zero32"
| "default_value UInt8 = VUInt8 0"
| "default_value UInt16 = VUInt16 0"
| "default_value UInt32 = VUInt32 0"
| "default_value UInt64 = VUInt64 0"
| "default_value UInt128 = VUInt128 0"
| "default_value UInt256 = VUInt256 zero32"
| "default_value Float32 = VFloat32 0"
| "default_value Float64 = VFloat64 0"
| "default_value (Decimal32 s) = VDecimal32 s 0"
| "default_value (Decimal64 s) = VDecimal64 s 0"
| "default_value (Decimal128 s) = VDecimal128 s 0"
| "default_value (Decimal256 s) = VDecimal256 s zero32"
| "default_value String = VString []"
| "default_value (FixedSizedString _) = VString []"
| "default_value Binary = VString []"
| "default_value (FixedSizedBinary _) = VString []"
| "default_value Date = VDate 0"
| "default_value Date32 = VDate32 0"
| "default_value (DateTime tz) = VDateTime tz 0"
| "default_value (DateTime64 precision tz) = VDateTime64 tz 0 precision"
| "default_value Ipv4 = VIpv4 0"
| "default_value Ipv6 = VIpv6 (replicate 16 0)"
| "default_value (Enum8 _) = VEnum8 [] 0"
| "default_value (Enum16 _) = VEnum16 [] 0"
| "default_value (LowCardinality x) = default_value x"
| "default_value (Array _) = VArray []"
| "default_value (Tuple types) = VTuple (map default_value types)"
| "default_value (Nullable _) = VNull"
| "default_value (Map _ _) = VMap [] []"
| "default_value Point = VPoint (0, 0)"
| "default_value Ring = VRing []"
| "default_value Polygon = VPolygon []"
| "default_value MultiPolygon = VMultiPolygon []"
| "default_value Uuid = VUuid 0"
| "default_value Object = VObject (str_bytes ''{}'')"

section \<open>Validity\<close>

text \<open>The inner types \<open>validate\<close> allows in \<open>LowCardinality\<close>, and the key types of a map.\<close>

definition low_cardinality_inner :: "ty \<Rightarrow> bool" where
  "low_cardinality_inner t =
     (case t of
        String \<Rightarrow> True | FixedSizedString _ \<Rightarrow> True | Binary \<Rightarrow> True | FixedSizedBinary _ \<Rightarrow> True
      | Date \<Rightarrow> True | Date32 \<Rightarrow> True | DateTime _ \<Rightarrow> True | Ipv4 \<Rightarrow> True | Ipv6 \<Rightarrow> True
      | Int8 \<Rightarrow> True | Int16 \<Rightarrow> True | Int32 \<Rightarrow> True | Int64 \<Rightarrow> True | Int128 \<Rightarrow> True | Int256 \<Rightarrow> True
      | UInt8 \<Rightarrow> True | UInt16 \<Rightarrow> True | UInt32 \<Rightarrow> True | UInt64 \<Rightarrow> True | UInt128 \<Rightarrow> True
      | UInt256 \<Rightarrow> True | _ \<Rightarrow> False)"

definition map_key :: "ty \<Rightarrow> bool" where
  "map_key t =
     (case t of
        String \<Rightarrow> True | FixedSizedString _ \<Rightarrow> True
      | Int8 \<Rightarrow> True | Int16 \<Rightarrow> True | Int32 \<Rightarrow> True | Int64 \<Rightarrow> True | Int128 \<Rightarrow> True | Int256 \<Rightarrow> True
      | UInt8 \<Rightarrow> True | UInt16 \<Rightarrow> True | UInt32 \<Rightarrow> True | UInt64 \<Rightarrow> True | UInt128 \<Rightarrow> True
      | UInt256 \<Rightarrow> True | LowCardinality _ \<Rightarrow> True | Uuid \<Rightarrow> True | Date \<Rightarrow> True
      | DateTime _ \<Rightarrow> True | DateTime64 _ _ \<Rightarrow> True | Enum8 _ \<Rightarrow> True | Enum16 _ \<Rightarrow> True
      | _ \<Rightarrow> False)"

definition composite :: "ty \<Rightarrow> bool" where
  "composite t =
     (case t of Array _ \<Rightarrow> True | Map _ _ \<Rightarrow> True | LowCardinality _ \<Rightarrow> True | Tuple _ \<Rightarrow> True
      | Nullable _ \<Rightarrow> True | _ \<Rightarrow> False)"

definition check_scale :: "nat \<Rightarrow> nat \<Rightarrow> unit res" where
  "check_scale limit scale = (if scale = 0 \<or> scale > limit then Inl TypeParseError else Inr ())"

fun validate :: "ty \<Rightarrow> unit res" where
  "validate (Decimal32 scale) = check_scale 9 scale"
| "validate (Decimal128 scale) = check_scale 38 scale"
| "validate (Decimal256 scale) = check_scale 76 scale"
| "validate (DateTime64 precision _) = check_scale 18 precision"
| "validate (Decimal64 precision) = check_scale 18 precision"
| "validate (LowCardinality inner) =
     (if low_cardinality_inner (strip_null inner) then validate inner else Inl TypeParseError)"
| "validate (Array inner) = validate inner"
| "validate (Tuple inner) = rbind (traverse validate inner) (\<lambda>_. Inr ())"
| "validate (Nullable inner) = (if composite inner then Inl TypeParseError else validate inner)"
| "validate (Map key v) =
     (if \<not> map_key key then Inl TypeParseError
      else rbind (validate key) (\<lambda>_. validate v))"
| "validate _ = Inr ()"

definition is_byte_value :: "val \<Rightarrow> bool" where
  "is_byte_value v = (case v of VUInt8 _ \<Rightarrow> True | VInt8 _ \<Rightarrow> True | _ \<Rightarrow> False)"

end
