(* ===== verification/Values.thy ===== *)
theory Values
  imports ChTypes
begin

text \<open>
  Operations of \<open>Value\<close> (native/values.rs) and the checks of a value against a type
  (native/types.rs), with the facts the codecs and the block builder rest on.
\<close>

section \<open>Equality\<close>

text \<open>
  \<open>PartialEq for Value\<close>. The last arm of the source compares the discriminants, and it
  is the arm that two \<open>Object\<close> values reach.
\<close>

fun value_eq :: "val \<Rightarrow> val \<Rightarrow> bool" where
  "value_eq (VInt8 l) v = (case v of VInt8 r \<Rightarrow> l = r | _ \<Rightarrow> False)"
| "value_eq (VInt16 l) v = (case v of VInt16 r \<Rightarrow> l = r | _ \<Rightarrow> False)"
| "value_eq (VInt32 l) v = (case v of VInt32 r \<Rightarrow> l = r | _ \<Rightarrow> False)"
| "value_eq (VInt64 l) v = (case v of VInt64 r \<Rightarrow> l = r | _ \<Rightarrow> False)"
| "value_eq (VInt128 l) v = (case v of VInt128 r \<Rightarrow> l = r | _ \<Rightarrow> False)"
| "value_eq (VInt256 l) v = (case v of VInt256 r \<Rightarrow> l = r | _ \<Rightarrow> False)"
| "value_eq (VUInt8 l) v = (case v of VUInt8 r \<Rightarrow> l = r | _ \<Rightarrow> False)"
| "value_eq (VUInt16 l) v = (case v of VUInt16 r \<Rightarrow> l = r | _ \<Rightarrow> False)"
| "value_eq (VUInt32 l) v = (case v of VUInt32 r \<Rightarrow> l = r | _ \<Rightarrow> False)"
| "value_eq (VUInt64 l) v = (case v of VUInt64 r \<Rightarrow> l = r | _ \<Rightarrow> False)"
| "value_eq (VUInt128 l) v = (case v of VUInt128 r \<Rightarrow> l = r | _ \<Rightarrow> False)"
| "value_eq (VUInt256 l) v = (case v of VUInt256 r \<Rightarrow> l = r | _ \<Rightarrow> False)"
| "value_eq (VFloat32 l) v = (case v of VFloat32 r \<Rightarrow> l = r | _ \<Rightarrow> False)"
| "value_eq (VFloat64 l) v = (case v of VFloat64 r \<Rightarrow> l = r | _ \<Rightarrow> False)"
| "value_eq (VDecimal32 l0 l1) v = (case v of VDecimal32 r0 r1 \<Rightarrow> l0 = r0 \<and> l1 = r1 | _ \<Rightarrow> False)"
| "value_eq (VDecimal64 l0 l1) v = (case v of VDecimal64 r0 r1 \<Rightarrow> l0 = r0 \<and> l1 = r1 | _ \<Rightarrow> False)"
| "value_eq (VDecimal128 l0 l1) v = (case v of VDecimal128 r0 r1 \<Rightarrow> l0 = r0 \<and> l1 = r1 | _ \<Rightarrow> False)"
| "value_eq (VDecimal256 l0 l1) v = (case v of VDecimal256 r0 r1 \<Rightarrow> l0 = r0 \<and> l1 = r1 | _ \<Rightarrow> False)"
| "value_eq (VString l) v = (case v of VString r \<Rightarrow> l = r | _ \<Rightarrow> False)"
| "value_eq (VUuid l) v = (case v of VUuid r \<Rightarrow> l = r | _ \<Rightarrow> False)"
| "value_eq (VDate l) v = (case v of VDate r \<Rightarrow> l = r | _ \<Rightarrow> False)"
| "value_eq (VDate32 l) v = (case v of VDate32 r \<Rightarrow> l = r | _ \<Rightarrow> False)"
| "value_eq (VDateTime l0 l1) v = (case v of VDateTime r0 r1 \<Rightarrow> l0 = r0 \<and> l1 = r1 | _ \<Rightarrow> False)"
| "value_eq (VDateTime64 l0 l1 l2) v =
     (case v of VDateTime64 r0 r1 r2 \<Rightarrow> l0 = r0 \<and> l1 = r1 \<and> l2 = r2 | _ \<Rightarrow> False)"
| "value_eq (VEnum8 v0 l0) v = (case v of VEnum8 v1 r0 \<Rightarrow> l0 = r0 \<and> v0 = v1 | _ \<Rightarrow> False)"
| "value_eq (VEnum16 v0 l0) v = (case v of VEnum16 v1 r0 \<Rightarrow> l0 = r0 \<and> v0 = v1 | _ \<Rightarrow> False)"
| "value_eq (VArray l0) v = (case v of VArray r0 \<Rightarrow> list_all2 value_eq l0 r0 | _ \<Rightarrow> False)"
| "value_eq (VTuple l0) v = (case v of VTuple r0 \<Rightarrow> list_all2 value_eq l0 r0 | _ \<Rightarrow> False)"
| "value_eq (VMap l0 l1) v =
     (case v of VMap r0 r1 \<Rightarrow> list_all2 value_eq l0 r0 \<and> list_all2 value_eq l1 r1 | _ \<Rightarrow> False)"
| "value_eq (VIpv4 l) v = (case v of VIpv4 r \<Rightarrow> l = r | _ \<Rightarrow> False)"
| "value_eq (VIpv6 l) v = (case v of VIpv6 r \<Rightarrow> l = r | _ \<Rightarrow> False)"
| "value_eq (VPoint l) v = (case v of VPoint r \<Rightarrow> l = r | _ \<Rightarrow> False)"
| "value_eq (VRing l) v = (case v of VRing r \<Rightarrow> l = r | _ \<Rightarrow> False)"
| "value_eq (VPolygon l) v = (case v of VPolygon r \<Rightarrow> l = r | _ \<Rightarrow> False)"
| "value_eq (VMultiPolygon l) v = (case v of VMultiPolygon r \<Rightarrow> l = r | _ \<Rightarrow> False)"
| "value_eq VNull v = (case v of VNull \<Rightarrow> True | _ \<Rightarrow> False)"
| "value_eq (VObject _) v = (case v of VObject _ \<Rightarrow> True | _ \<Rightarrow> False)"

text \<open>Values without an \<open>Object\<close> inside: there the equality is equality.\<close>

fun no_object :: "val \<Rightarrow> bool" where
  "no_object (VObject _) = False"
| "no_object (VArray vs) = list_all no_object vs"
| "no_object (VTuple vs) = list_all no_object vs"
| "no_object (VMap ks vs) = (list_all no_object ks \<and> list_all no_object vs)"
| "no_object _ = True"

lemma list_all2_eq_lift:
  assumes "\<And>x y. x \<in> set xs \<Longrightarrow> P x \<Longrightarrow> f x y = (x = y)" and "list_all P xs"
  shows "list_all2 f xs ys \<longleftrightarrow> xs = ys"
  using assms
proof (induction xs arbitrary: ys)
  case Nil
  then show ?case by auto
next
  case (Cons x xs)
  then show ?case by (cases ys) auto
qed

lemma value_eq_iff: "no_object v \<Longrightarrow> value_eq v w \<longleftrightarrow> v = w"
proof (induction v arbitrary: w)
  case (VArray vs)
  then have "list_all2 value_eq vs ws \<longleftrightarrow> vs = ws" for ws
    by (intro list_all2_eq_lift [where P = no_object]) auto
  then show ?case by (simp split: val.split)
next
  case (VTuple vs)
  then have "list_all2 value_eq vs ws \<longleftrightarrow> vs = ws" for ws
    by (intro list_all2_eq_lift [where P = no_object]) auto
  then show ?case by (simp split: val.split)
next
  case (VMap ks vs)
  then have "list_all2 value_eq ks ws \<longleftrightarrow> ks = ws" "list_all2 value_eq vs ws \<longleftrightarrow> vs = ws" for ws
    by (intro list_all2_eq_lift [where P = no_object]; auto)+
  then show ?case by (simp split: val.split)
qed (auto split: val.split)

lemma value_eq_refl [simp]: "value_eq v v"
proof (induction v)
  case (VArray vs)
  then show ?case by (simp add: list.rel_refl_strong)
next
  case (VTuple vs)
  then show ?case by (simp add: list.rel_refl_strong)
next
  case (VMap ks vs)
  then show ?case by (simp add: list.rel_refl_strong)
qed simp_all

lemma value_eq_VNull [simp]: "value_eq v VNull \<longleftrightarrow> v = VNull"
  by (cases v) simp_all

section \<open>Accessors\<close>

definition index_value :: "val \<Rightarrow> nat res" where
  "index_value v =
     (case v of
        VUInt8 x \<Rightarrow> Inr (unat x)
      | VUInt16 x \<Rightarrow> Inr (unat x)
      | VUInt32 x \<Rightarrow> Inr (unat x)
      | VUInt64 x \<Rightarrow> Inr (unat x)
      | _ \<Rightarrow> Inl Protocol)"

definition unwrap_array_ref :: "val \<Rightarrow> val list res" where
  "unwrap_array_ref v = (case v of VArray a \<Rightarrow> Inr a | _ \<Rightarrow> Inl Protocol)"

definition unwrap_array_value :: "val \<Rightarrow> val list res" where
  "unwrap_array_value v = (case v of VArray a \<Rightarrow> Inr a | _ \<Rightarrow> Inl Protocol)"

definition unwrap_tuple_value :: "val \<Rightarrow> val list res" where
  "unwrap_tuple_value v = (case v of VTuple a \<Rightarrow> Inr a | _ \<Rightarrow> Inl Protocol)"

definition justify_null_ref :: "val \<Rightarrow> ty \<Rightarrow> val" where
  "justify_null_ref v t = (if value_eq v VNull then default_value t else v)"

fun guess_type :: "val \<Rightarrow> ty" where
  "guess_type (VInt8 _) = Int8"
| "guess_type (VInt16 _) = Int16"
| "guess_type (VInt32 _) = Int32"
| "guess_type (VInt64 _) = Int64"
| "guess_type (VInt128 _) = Int128"
| "guess_type (VInt256 _) = Int256"
| "guess_type (VUInt8 _) = UInt8"
| "guess_type (VUInt16 _) = UInt16"
| "guess_type (VUInt32 _) = UInt32"
| "guess_type (VUInt64 _) = UInt64"
| "guess_type (VUInt128 _) = UInt128"
| "guess_type (VUInt256 _) = UInt256"
| "guess_type (VFloat32 _) = Float32"
| "guess_type (VFloat64 _) = Float64"
| "guess_type (VDecimal32 p _) = Decimal32 p"
| "guess_type (VDecimal64 p _) = Decimal64 p"
| "guess_type (VDecimal128 p _) = Decimal128 p"
| "guess_type (VDecimal256 p _) = Decimal256 p"
| "guess_type (VString _) = String"
| "guess_type (VUuid _) = Uuid"
| "guess_type (VDate _) = Date"
| "guess_type (VDate32 _) = Date32"
| "guess_type (VDateTime tz _) = DateTime tz"
| "guess_type (VDateTime64 tz _ p) = DateTime64 p tz"
| "guess_type (VEnum8 _ i) = Enum8 [([], i)]"
| "guess_type (VEnum16 _ i) = Enum16 [([], i)]"
| "guess_type (VArray []) = Array String"
| "guess_type (VArray (x # _)) = Array (guess_type x)"
| "guess_type (VTuple vs) = Tuple (map guess_type vs)"
| "guess_type VNull = Nullable String"
| "guess_type (VMap [] []) = Map String String"
| "guess_type (VMap (k # _) []) = Map (guess_type k) String"
| "guess_type (VMap [] (v # _)) = Map String (guess_type v)"
| "guess_type (VMap (k # _) (v # _)) = Map (guess_type k) (guess_type v)"
| "guess_type (VIpv4 _) = Ipv4"
| "guess_type (VIpv6 _) = Ipv6"
| "guess_type (VPoint _) = Point"
| "guess_type (VRing _) = Ring"
| "guess_type (VPolygon _) = Polygon"
| "guess_type (VMultiPolygon _) = MultiPolygon"
| "guess_type (VObject _) = Object"

section \<open>A value of a type\<close>

fun inner_validate_value :: "ty \<Rightarrow> val \<Rightarrow> bool" where
  "inner_validate_value Int8 v = (case v of VInt8 _ \<Rightarrow> True | _ \<Rightarrow> False)"
| "inner_validate_value Int16 v = (case v of VInt16 _ \<Rightarrow> True | _ \<Rightarrow> False)"
| "inner_validate_value Int32 v = (case v of VInt32 _ \<Rightarrow> True | _ \<Rightarrow> False)"
| "inner_validate_value Int64 v = (case v of VInt64 _ \<Rightarrow> True | _ \<Rightarrow> False)"
| "inner_validate_value Int128 v = (case v of VInt128 _ \<Rightarrow> True | _ \<Rightarrow> False)"
| "inner_validate_value Int256 v = (case v of VInt256 _ \<Rightarrow> True | _ \<Rightarrow> False)"
| "inner_validate_value UInt8 v = (case v of VUInt8 _ \<Rightarrow> True | _ \<Rightarrow> False)"
| "inner_validate_value UInt16 v = (case v of VUInt16 _ \<Rightarrow> True | _ \<Rightarrow> False)"
| "inner_validate_value UInt32 v = (case v of VUInt32 _ \<Rightarrow> True | _ \<Rightarrow> False)"
| "inner_validate_value UInt64 v = (case v of VUInt64 _ \<Rightarrow> True | _ \<Rightarrow> False)"
| "inner_validate_value UInt128 v = (case v of VUInt128 _ \<Rightarrow> True | _ \<Rightarrow> False)"
| "inner_validate_value UInt256 v = (case v of VUInt256 _ \<Rightarrow> True | _ \<Rightarrow> False)"
| "inner_validate_value Float32 v = (case v of VFloat32 _ \<Rightarrow> True | _ \<Rightarrow> False)"
| "inner_validate_value Float64 v = (case v of VFloat64 _ \<Rightarrow> True | _ \<Rightarrow> False)"
| "inner_validate_value String v =
     (case v of VString _ \<Rightarrow> True | VArray items \<Rightarrow> list_all is_byte_value items | _ \<Rightarrow> False)"
| "inner_validate_value (FixedSizedString _) v =
     (case v of VString _ \<Rightarrow> True | VArray items \<Rightarrow> list_all is_byte_value items | _ \<Rightarrow> False)"
| "inner_validate_value Uuid v = (case v of VUuid _ \<Rightarrow> True | _ \<Rightarrow> False)"
| "inner_validate_value Date v = (case v of VDate _ \<Rightarrow> True | _ \<Rightarrow> False)"
| "inner_validate_value Date32 v = (case v of VDate32 _ \<Rightarrow> True | _ \<Rightarrow> False)"
| "inner_validate_value Ipv4 v = (case v of VIpv4 _ \<Rightarrow> True | _ \<Rightarrow> False)"
| "inner_validate_value Ipv6 v = (case v of VIpv6 _ \<Rightarrow> True | _ \<Rightarrow> False)"
| "inner_validate_value Point v = (case v of VPoint _ \<Rightarrow> True | _ \<Rightarrow> False)"
| "inner_validate_value Ring v = (case v of VRing _ \<Rightarrow> True | _ \<Rightarrow> False)"
| "inner_validate_value Polygon v = (case v of VPolygon _ \<Rightarrow> True | _ \<Rightarrow> False)"
| "inner_validate_value MultiPolygon v = (case v of VMultiPolygon _ \<Rightarrow> True | _ \<Rightarrow> False)"
| "inner_validate_value (DateTime tz1) v = (case v of VDateTime tz2 _ \<Rightarrow> tz1 = tz2 | _ \<Rightarrow> False)"
| "inner_validate_value (DateTime64 p1 tz1) v =
     (case v of VDateTime64 tz2 _ p2 \<Rightarrow> tz1 = tz2 \<and> p1 = p2 | _ \<Rightarrow> False)"
| "inner_validate_value (Decimal32 s1) v = (case v of VDecimal32 s2 _ \<Rightarrow> s1 \<ge> s2 | _ \<Rightarrow> False)"
| "inner_validate_value (Decimal64 s1) v = (case v of VDecimal64 s2 _ \<Rightarrow> s1 \<ge> s2 | _ \<Rightarrow> False)"
| "inner_validate_value (Decimal128 s1) v = (case v of VDecimal128 s2 _ \<Rightarrow> s1 \<ge> s2 | _ \<Rightarrow> False)"
| "inner_validate_value (Decimal256 s1) v = (case v of VDecimal256 s2 _ \<Rightarrow> s1 \<ge> s2 | _ \<Rightarrow> False)"
| "inner_validate_value (Enum8 entries) v =
     (case v of VEnum8 _ index \<Rightarrow> list_ex (\<lambda>x. snd x = index) entries | _ \<Rightarrow> False)"
| "inner_validate_value (Enum16 entries) v =
     (case v of VEnum16 _ index \<Rightarrow> list_ex (\<lambda>x. snd x = index) entries | _ \<Rightarrow> False)"
| "inner_validate_value (LowCardinality x) v = inner_validate_value x v"
| "inner_validate_value (Array inner) v =
     (case v of VArray vs \<Rightarrow> list_all (inner_validate_value inner) vs | _ \<Rightarrow> False)"
| "inner_validate_value (Tuple inner) v =
     (case v of VTuple vs \<Rightarrow> list_all2 inner_validate_value inner vs | _ \<Rightarrow> False)"
| "inner_validate_value (Nullable inner) v = (value_eq v VNull \<or> inner_validate_value inner v)"
| "inner_validate_value (Map key value) v =
     (case v of
        VMap ks vs \<Rightarrow> length ks = length vs \<and> list_all (inner_validate_value key) ks
                      \<and> list_all (inner_validate_value value) vs
      | _ \<Rightarrow> False)"
| "inner_validate_value _ _ = False"

definition validate_value :: "ty \<Rightarrow> val \<Rightarrow> unit res" where
  "validate_value t v =
     rbind (validate t) (\<lambda>_. if inner_validate_value t v then Inr () else Inl TypeParseError)"

text \<open>\<open>estimate_capacity\<close>, a hint for buffer sizes.\<close>

fun estimate_capacity :: "ty \<Rightarrow> nat" where
  "estimate_capacity Int8 = 1"
| "estimate_capacity UInt8 = 1"
| "estimate_capacity Int16 = 2"
| "estimate_capacity UInt16 = 2"
| "estimate_capacity Date = 2"
| "estimate_capacity Int32 = 4"
| "estimate_capacity UInt32 = 4"
| "estimate_capacity Float32 = 4"
| "estimate_capacity Date32 = 4"
| "estimate_capacity (DateTime _) = 4"
| "estimate_capacity Ipv4 = 4"
| "estimate_capacity Int64 = 8"
| "estimate_capacity UInt64 = 8"
| "estimate_capacity Float64 = 8"
| "estimate_capacity (DateTime64 _ _) = 8"
| "estimate_capacity Int128 = 16"
| "estimate_capacity UInt128 = 16"
| "estimate_capacity Uuid = 16"
| "estimate_capacity Ipv6 = 16"
| "estimate_capacity Point = 16"
| "estimate_capacity Int256 = 32"
| "estimate_capacity UInt256 = 32"
| "estimate_capacity String = 32"
| "estimate_capacity Binary = 32"
| "estimate_capacity (FixedSizedString n) = n"
| "estimate_capacity (FixedSizedBinary n) = n"
| "estimate_capacity (Array inner) = (4 + estimate_capacity inner) * 8"
| "estimate_capacity (Nullable inner) = estimate_capacity inner"
| "estimate_capacity (Tuple types) = sum_list (map estimate_capacity types)"
| "estimate_capacity (Map key value) = 4 + estimate_capacity key + estimate_capacity value"
| "estimate_capacity _ = 64"

section \<open>Properties\<close>

text \<open>Equality of values (\<open>PartialEq\<close>) is equality for every value without an
  \<open>Object\<close> inside, and it takes any two \<open>Object\<close> values for equal, whatever they hold.\<close>

theorem value_eq_off_object:
  "(no_object v \<longrightarrow> (value_eq v w \<longleftrightarrow> v = w)) \<and> value_eq (VObject a) (VObject b)"
  by (simp add: value_eq_iff)

theorem value_eq_off_object_witness:
  "(value_eq (VArray [VInt8 1]) (VArray [VInt8 2]) \<longleftrightarrow> VArray [VInt8 1] = VArray [VInt8 2])
   \<and> value_eq (VObject [1]) (VObject [2])"
  using value_eq_off_object [of "VArray [VInt8 1]" "VArray [VInt8 2]" "[1]" "[2]"] by simp

text \<open>
  The types whose default value is a value of the type: not the binary types and not
  \<open>Object\<close>, which accept no value at all, and an enum only if it has an item 0.
\<close>

fun has_default :: "ty \<Rightarrow> bool" where
  "has_default Binary = False"
| "has_default (FixedSizedBinary _) = False"
| "has_default Object = False"
| "has_default (Enum8 items) = list_ex (\<lambda>x. snd x = 0) items"
| "has_default (Enum16 items) = list_ex (\<lambda>x. snd x = 0) items"
| "has_default (LowCardinality t) = has_default t"
| "has_default (Tuple ts) = list_all has_default ts"
| "has_default _ = True"

lemma default_value_iff: "inner_validate_value t (default_value t) \<longleftrightarrow> has_default t"
proof (induction t)
  case (Tuple ts)
  then show ?case
    by (simp add: list.rel_map list_all2_same list_all_iff)
qed (auto simp: list_ex_iff)

text \<open>Default values: the value that stands for a null (\<open>default_value\<close>) is accepted by
  the type's own check exactly for the types of \<open>has_default\<close>; no value is accepted for
  \<open>Object\<close>, \<open>Binary\<close> and \<open>FixedSizedBinary\<close>, so rows with such columns are rejected.\<close>

theorem default_value_valid:
  "(inner_validate_value t (default_value t) \<longleftrightarrow> has_default t)
   \<and> validate_value Object v = Inl TypeParseError \<and> validate_value Binary v = Inl TypeParseError"
  by (simp add: default_value_iff validate_value_def)

end
