(* ===== verification/TypeParser.thy ===== *)
theory TypeParser
  imports Values
begin

text \<open>
  The text form of a type: \<open>Display for Type\<close> (native/types.rs) and \<open>FromStr for Type\<close>
  with its argument iterator and its enum parser (native/types/deserialize.rs).

  The parser looks at characters; outside quoted names the characters of a type name are
  ASCII, and the character classes here are those of ASCII. \<open>chrono_tz\<close> is not part of the
  crate: the parser of time zone names is the argument \<open>tz_parse\<close>.
\<close>

section \<open>Character classes and slices\<close>

definition is_whitespace :: "char \<Rightarrow> bool" where
  "is_whitespace c \<longleftrightarrow> c = CHR '' '' \<or> (9 \<le> (of_char c :: nat) \<and> (of_char c :: nat) \<le> 13)"

definition is_alphabetic :: "char \<Rightarrow> bool" where
  "is_alphabetic c \<longleftrightarrow>
     (65 \<le> (of_char c :: nat) \<and> (of_char c :: nat) \<le> 90)
   \<or> (97 \<le> (of_char c :: nat) \<and> (of_char c :: nat) \<le> 122)"

definition trim :: "string \<Rightarrow> string" where
  "trim s = rev (dropWhile is_whitespace (rev (dropWhile is_whitespace s)))"

definition starts_with :: "char \<Rightarrow> string \<Rightarrow> bool" where
  "starts_with c s \<longleftrightarrow> s \<noteq> [] \<and> hd s = c"

definition ends_with :: "char \<Rightarrow> string \<Rightarrow> bool" where
  "ends_with c s \<longleftrightarrow> s \<noteq> [] \<and> last s = c"

text \<open>The slice \<open>s[1..s.len() - 1]\<close>, which panics when its bounds cross.\<close>

definition inner_slice :: "string \<Rightarrow> string res" where
  "inner_slice s = (if length s < 2 then Inl Panic else Inr (butlast (tl s)))"

fun eat_identifier_from :: "nat \<Rightarrow> string \<Rightarrow> string \<times> string" where
  "eat_identifier_from i [] = ([], [])"
| "eat_identifier_from i (c # r) =
     (if is_alphabetic c \<or> c = CHR ''_'' \<or> c = CHR ''$'' \<or> (i > 0 \<and> is_digit c)
      then (let (a, b) = eat_identifier_from (Suc i) r in (c # a, b))
      else ([], c # r))"

definition eat_identifier :: "string \<Rightarrow> string \<times> string" where
  "eat_identifier s = eat_identifier_from 0 s"

section \<open>The argument iterator\<close>

text \<open>
  \<open>ArgsIterator\<close>: \<open>rest\<close> is the input from \<open>last_start\<close> on, where every call of \<open>next\<close>
  starts to scan.
\<close>

record args_iter =
  rest :: string
  in_parens :: nat
  in_quotes :: bool
  finished :: bool

text \<open>
  The scan of \<open>next\<close>: it stops at a comma outside quotes and parentheses, at the end of
  the input, or panics where a closing parenthesis would make \<open>in_parens\<close> negative.
  \<open>acc\<close> holds the characters passed, the last one first.
\<close>

datatype scan =
    AtComma string string nat bool
  | AtEnd string nat bool
  | ScanPanic

fun args_scan :: "string \<Rightarrow> string \<Rightarrow> nat \<Rightarrow> bool \<Rightarrow> bool \<Rightarrow> scan" where
  "args_scan acc [] parens quotes escaped = AtEnd (rev acc) parens quotes"
| "args_scan acc (c # s) parens quotes escaped =
     (if quotes then
        (if c = CHR 0x5C then args_scan (c # acc) s parens True True
         else if c = CHR 0x27 \<and> \<not> escaped then args_scan (c # acc) s parens False False
         else args_scan (c # acc) s parens True False)
      else if c = CHR 0x27 \<and> \<not> escaped then args_scan (c # acc) s parens True False
      else if c = CHR ''('' then args_scan (c # acc) s (Suc parens) False False
      else if c = CHR '')'' then
        (if parens = 0 then ScanPanic else args_scan (c # acc) s (parens - 1) False False)
      else if c = CHR '','' \<and> parens = 0 then AtComma (rev acc) s parens False
      else args_scan (c # acc) s parens False False)"

definition args_next :: "args_iter \<Rightarrow> string res option \<times> args_iter" where
  "args_next it =
     (if finished it then (None, it)
      else case args_scan [] (rest it) (in_parens it) (in_quotes it) False of
        ScanPanic \<Rightarrow> (Some (Inl Panic), it\<lparr>finished := True\<rparr>)
      | AtComma part s parens quotes \<Rightarrow>
          (let slice = trim part in
           if slice = [] then (Some (Inl TypeParseError), it\<lparr>in_parens := parens, in_quotes := quotes\<rparr>)
           else (Some (Inr slice), it\<lparr>rest := s, in_parens := parens, in_quotes := quotes\<rparr>))
      | AtEnd part parens quotes \<Rightarrow>
          (let it = it\<lparr>in_parens := parens, in_quotes := quotes, finished := True\<rparr>;
               slice = trim part in
           if parens \<noteq> 0 then (Some (Inl TypeParseError), it)
           else if slice = [] then (None, it)
           else if slice = '','' then (Some (Inl TypeParseError), it)
           else (Some (Inr slice), it)))"

definition parse_args_iter :: "string \<Rightarrow> args_iter res" where
  "parse_args_iter input =
     (if \<not> starts_with (CHR ''('') input \<or> \<not> ends_with (CHR '')'') input then Inl TypeParseError
      else rbind (inner_slice input) (\<lambda>inner.
        let inner = trim inner in
        if ends_with (CHR '','') inner then Inl TypeParseError
        else Inr \<lparr>rest = inner, in_parens = 0, in_quotes = False, finished = False\<rparr>))"

text \<open>Take up to \<open>n\<close> items, with \<open>?\<close> on each.\<close>

fun take_args :: "nat \<Rightarrow> args_iter \<Rightarrow> (string list \<times> args_iter) res" where
  "take_args 0 it = Inr ([], it)"
| "take_args (Suc n) it =
     (case args_next it of
        (None, it) \<Rightarrow> Inr ([], it)
      | (Some (Inl e), it) \<Rightarrow> Inl e
      | (Some (Inr x), it) \<Rightarrow>
          rbind (take_args n it) (\<lambda>(xs, it). Inr (x # xs, it)))"

text \<open>\<open>parse_fixed_args::<N>\<close>: the arguments given, at most \<open>N\<close> of them.\<close>

definition parse_fixed_args :: "nat \<Rightarrow> string \<Rightarrow> string list res" where
  "parse_fixed_args n input =
     rbind (parse_args_iter input) (\<lambda>it.
     rbind (take_args n it) (\<lambda>(out, it).
       case fst (args_next it) of
         None \<Rightarrow> Inr out
       | Some (Inl Panic) \<Rightarrow> Inl Panic
       | Some _ \<Rightarrow> Inl TypeParseError))"

text \<open>
  Every item consumes input: a comma is passed, or the iterator is finished. So the
  arguments can be collected, and an argument is shorter than the text it comes from.
\<close>

lemma args_scan_AtComma_length:
  "args_scan acc s p q e = AtComma part s' p' q' \<Longrightarrow>
     length part + length s' < length acc + length s \<and> length s' < length s"
  by (induction acc s p q e rule: args_scan.induct) (auto split: if_splits)

lemma args_scan_AtEnd_length:
  "args_scan acc s p q e = AtEnd part p' q' \<Longrightarrow> length part = length acc + length s"
  by (induction acc s p q e rule: args_scan.induct) (auto split: if_splits)

lemma length_dropWhile: "length (dropWhile P s) \<le> length s"
  by (induction s) auto

lemma length_trim: "length (trim s) \<le> length s"
proof -
  have "length (trim s) \<le> length (dropWhile is_whitespace s)"
    by (simp add: trim_def) (metis length_dropWhile length_rev)
  also have "\<dots> \<le> length s" by (rule length_dropWhile)
  finally show ?thesis .
qed

lemma args_next_Inr:
  assumes "args_next it = (Some (Inr x), it')"
  shows "\<not> finished it \<and> length x \<le> length (rest it)
    \<and> (finished it' \<and> rest it' = rest it
        \<or> \<not> finished it' \<and> length x + length (rest it') < length (rest it))"
proof -
  have nf: "\<not> finished it" using assms by (auto simp: args_next_def)
  show ?thesis
  proof (cases "args_scan [] (rest it) (in_parens it) (in_quotes it) False")
    case (AtComma part s p q)
    have "length part + length s < length (rest it)"
      using args_scan_AtComma_length [OF AtComma] by simp
    moreover have "x = trim part" "rest it' = s" "\<not> finished it'"
      using assms nf AtComma by (auto simp: args_next_def Let_def split: if_splits)
    ultimately show ?thesis using nf length_trim [of part] by simp
  next
    case (AtEnd part p q)
    have "length part = length (rest it)"
      using args_scan_AtEnd_length [OF AtEnd] by simp
    moreover have "x = trim part" "rest it' = rest it" "finished it'"
      using assms nf AtEnd by (auto simp: args_next_def Let_def split: if_splits)
    ultimately show ?thesis using nf length_trim [of part] by simp
  next
    case ScanPanic
    then show ?thesis using assms nf by (simp add: args_next_def)
  qed
qed

text \<open>\<open>collect\<close> of the iterator: all items, or the first error.\<close>

function collect_args :: "args_iter \<Rightarrow> string list res" where
  "collect_args it =
     (case args_next it of
        (None, it') \<Rightarrow> Inr []
      | (Some (Inl e), it') \<Rightarrow> Inl e
      | (Some (Inr x), it') \<Rightarrow> rbind (collect_args it') (\<lambda>xs. Inr (x # xs)))"
  by pat_completeness auto
termination
  by (relation "measure (\<lambda>it. length (rest it) + (if finished it then 0 else 1))")
    (auto dest!: args_next_Inr [OF sym])

declare collect_args.simps [simp del]

definition parse_variable_args :: "string \<Rightarrow> string list res" where
  "parse_variable_args input = rbind (parse_args_iter input) collect_args"

definition parse_scale :: "string \<Rightarrow> nat res" where
  "parse_scale s = (case parse_usize s of None \<Rightarrow> Inl TypeParseError | Some n \<Rightarrow> Inr n)"

definition parse_precision :: "string \<Rightarrow> nat res" where
  "parse_precision s = (case parse_usize s of None \<Rightarrow> Inl TypeParseError | Some n \<Rightarrow> Inr n)"

section \<open>The enum parser\<close>

text \<open>
  The macro \<open>parse_enum_options!\<close>: a state machine over the characters between the
  parentheses. The number parser of the item type is the argument \<open>num\<close>.
\<close>

datatype enum_parse_state = ExpectQuote | InName | ExpectEqual | InValue

record 'v enum_parser =
  options :: "(string \<times> 'v) list"
  ename :: string
  evalue :: string
  estate :: enum_parse_state
  eescaped :: bool

definition enum_start :: "'v enum_parser" where
  "enum_start = \<lparr>options = [], ename = [], evalue = [], estate = ExpectQuote, eescaped = False\<rparr>"

definition enum_push :: "(string \<Rightarrow> 'v option) \<Rightarrow> 'v enum_parser \<Rightarrow> (string \<times> 'v) list res" where
  "enum_push num st =
     (case num (evalue st) of
        None \<Rightarrow> Inl TypeParseError
      | Some v \<Rightarrow> Inr (options st @ [(ename st, v)]))"

definition enum_step :: "(string \<Rightarrow> 'v option) \<Rightarrow> 'v enum_parser \<Rightarrow> char \<Rightarrow> 'v enum_parser res" where
  "enum_step num st ch =
     (case estate st of
        ExpectQuote \<Rightarrow>
          (if ch = CHR 0x27 then Inr (st\<lparr>estate := InName\<rparr>)
           else if \<not> is_whitespace ch then Inl TypeParseError
           else Inr st)
      | InName \<Rightarrow>
          (if eescaped st then Inr (st\<lparr>ename := ename st @ [ch], eescaped := False\<rparr>)
           else if ch = CHR 0x5C then Inr (st\<lparr>eescaped := True\<rparr>)
           else if ch = CHR 0x27 then Inr (st\<lparr>estate := ExpectEqual\<rparr>)
           else Inr (st\<lparr>ename := ename st @ [ch]\<rparr>))
      | ExpectEqual \<Rightarrow>
          (if ch = CHR ''='' then Inr (st\<lparr>estate := InValue\<rparr>)
           else if \<not> is_whitespace ch then Inl TypeParseError
           else Inr st)
      | InValue \<Rightarrow>
          (if ch = CHR '','' then
             rbind (enum_push num st) (\<lambda>opts.
               Inr (st\<lparr>options := opts, ename := [], evalue := [], estate := ExpectQuote\<rparr>))
           else if \<not> is_whitespace ch then Inr (st\<lparr>evalue := evalue st @ [ch]\<rparr>)
           else Inr st))"

fun enum_run :: "(string \<Rightarrow> 'v option) \<Rightarrow> 'v enum_parser \<Rightarrow> string \<Rightarrow> 'v enum_parser res" where
  "enum_run num st [] = Inr st"
| "enum_run num st (c # s) = rbind (enum_step num st c) (\<lambda>st. enum_run num st s)"

definition enum_finish ::
  "(string \<Rightarrow> 'v option) \<Rightarrow> string \<Rightarrow> 'v enum_parser \<Rightarrow> (string \<times> 'v) list res" where
  "enum_finish num input st =
     rbind (case estate st of
        InValue \<Rightarrow> (if evalue st \<noteq> [] then enum_push num st else Inr (options st))
      | ExpectQuote \<Rightarrow> (if input \<noteq> [] then Inl TypeParseError else Inr (options st))
      | InName \<Rightarrow> Inl TypeParseError
      | ExpectEqual \<Rightarrow> Inl TypeParseError)
     (\<lambda>opts. if ends_with (CHR '','') input then Inl TypeParseError else Inr opts)"

definition parse_enum_options :: "(string \<Rightarrow> 'v option) \<Rightarrow> string \<Rightarrow> (string \<times> 'v) list res" where
  "parse_enum_options num input =
     (if \<not> starts_with (CHR ''('') input \<or> \<not> ends_with (CHR '')'') input then Inl TypeParseError
      else rbind (inner_slice input) (\<lambda>inner.
        let input = trim inner in
        if input = [] then Inr []
        else rbind (enum_run num enum_start input) (\<lambda>st. enum_finish num input st)))"

definition parse_i8 :: "string \<Rightarrow> byte option" where
  "parse_i8 s = map_option word_of_int (parse_signed 8 s)"

definition parse_i16 :: "string \<Rightarrow> u16 option" where
  "parse_i16 s = map_option word_of_int (parse_signed 16 s)"

section \<open>Parsing a type\<close>

lemma length_inner_slice: "inner_slice s = Inr x \<Longrightarrow> length x < length s"
  by (auto simp: inner_slice_def split: if_splits)

lemma parse_args_iter_length:
  assumes "parse_args_iter s = Inr it"
  shows "length (rest it) < length s"
proof -
  obtain inner where inner: "inner_slice s = Inr inner" "rest it = trim inner"
    using assms by (auto simp: parse_args_iter_def rbind_Inr_iff Let_def split: if_splits)
  then show ?thesis
    using length_inner_slice [OF inner(1)] length_trim [of inner] by simp
qed

lemma take_args_length:
  "take_args n it = Inr (xs, it') \<Longrightarrow> x \<in> set xs \<Longrightarrow> length x \<le> length (rest it)"
proof (induction n arbitrary: it xs)
  case 0
  then show ?case by simp
next
  case (Suc n)
  then obtain y it1 ys where y: "args_next it = (Some (Inr y), it1)"
    "take_args n it1 = Inr (ys, it')" "xs = y # ys"
    by (auto simp: rbind_Inr_iff split: prod.splits option.splits sum.splits)
  then show ?case
    using Suc.IH [OF y(2)] Suc.prems(2) args_next_Inr [OF y(1)] by auto
qed

lemma parse_fixed_args_length:
  assumes "parse_fixed_args n s = Inr xs" and "x \<in> set xs"
  shows "length x < length s"
proof -
  obtain it out it' where *: "parse_args_iter s = Inr it" "take_args n it = Inr (out, it')"
    "(case fst (args_next it') of None \<Rightarrow> Inr out | Some (Inl Panic) \<Rightarrow> Inl Panic
      | Some _ \<Rightarrow> Inl TypeParseError) = Inr xs"
    using assms(1) by (auto simp: parse_fixed_args_def rbind_Inr_iff)
  have "out = xs"
  proof (cases "fst (args_next it')")
    case None
    then show ?thesis using *(3) by simp
  next
    case (Some r)
    then show ?thesis using *(3) by (cases r) (auto split: err.split_asm)
  qed
  with * have "parse_args_iter s = Inr it" "take_args n it = Inr (xs, it')" by simp_all
  then show ?thesis
    using assms(2) take_args_length [of n it xs it' x] parse_args_iter_length [of s it] by simp
qed

lemma collect_args_length:
  "collect_args it = Inr xs \<Longrightarrow> x \<in> set xs \<Longrightarrow> length x \<le> length (rest it)"
proof (induction it arbitrary: xs rule: collect_args.induct)
  case (1 it)
  show ?case
  proof (cases "fst (args_next it)")
    case None
    then show ?thesis
      using "1.prems" by (auto simp: collect_args.simps [of it] split: prod.splits)
  next
    case (Some r)
    with "1.prems"(1) obtain y it1 ys where y: "args_next it = (Some (Inr y), it1)"
      "collect_args it1 = Inr ys" "xs = y # ys"
      by (auto simp: collect_args.simps [of it] rbind_Inr_iff split: prod.splits sum.splits)
    then show ?thesis
      using "1.IH" [OF y(1) [symmetric] refl refl y(2)] "1.prems"(2) args_next_Inr [OF y(1)]
      by auto
  qed
qed

lemma parse_variable_args_length:
  assumes "parse_variable_args s = Inr xs" and "x \<in> set xs"
  shows "length x < length s"
proof -
  obtain it where "parse_args_iter s = Inr it" "collect_args it = Inr xs"
    using assms(1) by (auto simp: parse_variable_args_def rbind_Inr_iff)
  then show ?thesis
    using assms(2) collect_args_length [of it xs x] parse_args_iter_length [of s it] by simp
qed

lemma eat_identifier_from_append:
  "eat_identifier_from i s = (a, b) \<Longrightarrow> s = a @ b"
  by (induction i s arbitrary: a b rule: eat_identifier_from.induct)
    (auto split: if_splits prod.splits)

lemma eat_identifier_append: "eat_identifier s = (a, b) \<Longrightarrow> s = a @ b"
  unfolding eat_identifier_def by (rule eat_identifier_from_append)

lemma following_length: "length (trim (snd (eat_identifier s))) \<le> length s"
proof -
  obtain a b where ab: "eat_identifier s = (a, b)" by fastforce
  then show ?thesis
    using eat_identifier_append [OF ab] length_trim [of b] by simp
qed

text \<open>The arms of \<open>from_str\<close> that do not recurse.\<close>

definition one_arg :: "string \<Rightarrow> string res" where
  "one_arg following =
     rbind (parse_fixed_args 1 following) (\<lambda>args.
       case args of [a] \<Rightarrow> Inr a | _ \<Rightarrow> Inl TypeParseError)"

definition two_args :: "string \<Rightarrow> (string \<times> string) res" where
  "two_args following =
     rbind (parse_fixed_args 2 following) (\<lambda>args.
       case args of [a, b] \<Rightarrow> Inr (a, b) | _ \<Rightarrow> Inl TypeParseError)"

definition parse_decimal :: "string \<Rightarrow> ty res" where
  "parse_decimal following =
     rbind (two_args following) (\<lambda>(a, b).
     rbind (parse_precision a) (\<lambda>p.
     rbind (parse_scale b) (\<lambda>s.
       if s = 0 \<or> (p \<le> 9 \<and> s > 9) \<or> (p \<le> 18 \<and> s > 18) \<or> (p \<le> 38 \<and> s > 38)
          \<or> (p \<le> 76 \<and> s > 76)
       then Inl TypeParseError
       else if p \<le> 9 then Inr (Decimal32 s)
       else if p \<le> 18 then Inr (Decimal64 s)
       else if p \<le> 38 then Inr (Decimal128 s)
       else if p \<le> 76 then Inr (Decimal256 s)
       else Inl TypeParseError)))"

text \<open>\<open>DecimalN(s)\<close> with the scale limit of \<open>N\<close>; \<open>FixedString(n)\<close> has no upper limit.\<close>

definition parse_sized_decimal :: "nat \<Rightarrow> (nat \<Rightarrow> ty) \<Rightarrow> string \<Rightarrow> ty res" where
  "parse_sized_decimal limit mk following =
     rbind (one_arg following) (\<lambda>a.
     rbind (parse_scale a) (\<lambda>s.
       if s = 0 \<or> s > limit then Inl TypeParseError else Inr (mk s)))"

definition parse_fixed_string :: "string \<Rightarrow> ty res" where
  "parse_fixed_string following =
     rbind (one_arg following) (\<lambda>a.
     rbind (parse_scale a) (\<lambda>s.
       if s = 0 then Inl TypeParseError else Inr (FixedSizedString s)))"

definition parse_tz :: "(string \<Rightarrow> tz option) \<Rightarrow> string \<Rightarrow> tz res" where
  "parse_tz tz_parse tz_str =
     (if \<not> starts_with (CHR 0x27) tz_str \<or> \<not> ends_with (CHR 0x27) tz_str then Inl TypeParseError
      else rbind (inner_slice tz_str) (\<lambda>name.
        case tz_parse name of None \<Rightarrow> Inl TypeParseError | Some tz \<Rightarrow> Inr tz))"

definition UTC :: tz where
  "UTC = ''UTC''"

definition parse_date_time :: "(string \<Rightarrow> tz option) \<Rightarrow> string \<Rightarrow> ty res" where
  "parse_date_time tz_parse following =
     rbind (parse_fixed_args 1 following) (\<lambda>args.
       case args of
         [] \<Rightarrow> Inr (DateTime UTC)
       | tz_str # _ \<Rightarrow> rbind (parse_tz tz_parse tz_str) (\<lambda>tz. Inr (DateTime tz)))"

definition parse_date_time64 :: "(string \<Rightarrow> tz option) \<Rightarrow> string \<Rightarrow> ty res" where
  "parse_date_time64 tz_parse following =
     rbind (parse_fixed_args 2 following) (\<lambda>args.
       case args of
         [] \<Rightarrow> Inl TypeParseError
       | [p] \<Rightarrow> rbind (parse_precision p) (\<lambda>precision. Inr (DateTime64 precision UTC))
       | p # tz_str # _ \<Rightarrow>
           rbind (parse_precision p) (\<lambda>precision.
           rbind (parse_tz tz_parse tz_str) (\<lambda>tz. Inr (DateTime64 precision tz))))"

text \<open>The names of the types without arguments.\<close>

definition simple_type :: "string \<Rightarrow> ty res" where
  "simple_type ident =
     (if ident = ''Int8'' then Inr Int8
      else if ident = ''Int16'' then Inr Int16
      else if ident = ''Int32'' then Inr Int32
      else if ident = ''Int64'' then Inr Int64
      else if ident = ''Int128'' then Inr Int128
      else if ident = ''Int256'' then Inr Int256
      else if ident = ''Bool'' \<or> ident = ''UInt8'' then Inr UInt8
      else if ident = ''UInt16'' then Inr UInt16
      else if ident = ''UInt32'' then Inr UInt32
      else if ident = ''UInt64'' then Inr UInt64
      else if ident = ''UInt128'' then Inr UInt128
      else if ident = ''UInt256'' then Inr UInt256
      else if ident = ''Float32'' then Inr Float32
      else if ident = ''Float64'' then Inr Float64
      else if ident = ''String'' then Inr String
      else if ident = ''UUID'' \<or> ident = ''Uuid'' \<or> ident = ''uuid'' then Inr Uuid
      else if ident = ''Date'' then Inr Date
      else if ident = ''Date32'' then Inr Date32
      else if ident = ''DateTime'' then Inr (DateTime UTC)
      else if ident = ''IPv4'' then Inr Ipv4
      else if ident = ''IPv6'' then Inr Ipv6
      else if ident = ''Point'' then Inr Point
      else if ident = ''Ring'' then Inr Ring
      else if ident = ''Polygon'' then Inr Polygon
      else if ident = ''MultiPolygon'' then Inr MultiPolygon
      else if ident = ''Object'' \<or> ident = ''Json'' \<or> ident = ''OBJECT'' \<or> ident = ''JSON''
        then Inr Object
      else Inl TypeParseError)"

lemma one_arg_Inr_iff: "one_arg s = Inr a \<longleftrightarrow> parse_fixed_args 1 s = Inr [a]"
  by (cases "parse_fixed_args 1 s") (simp_all add: one_arg_def split: list.split)

lemma two_args_Inr_iff: "two_args s = Inr (a, b) \<longleftrightarrow> parse_fixed_args 2 s = Inr [a, b]"
  by (cases "parse_fixed_args 2 s") (simp_all add: two_args_def split: list.split)

lemma one_arg_length: "one_arg s = Inr a \<Longrightarrow> length a < length s"
  using parse_fixed_args_length [of 1 s "[a]" a] by (simp add: one_arg_Inr_iff)

lemma two_args_length: "two_args s = Inr (a, b) \<Longrightarrow> length a < length s \<and> length b < length s"
  using parse_fixed_args_length [of 2 s "[a, b]" a] parse_fixed_args_length [of 2 s "[a, b]" b]
  by (simp add: two_args_Inr_iff)

text \<open>
  \<open>Type::from_str\<close>. It recurses on the arguments of the composite types, which are shorter
  than the text.
\<close>

function from_str :: "(string \<Rightarrow> tz option) \<Rightarrow> string \<Rightarrow> ty res" where
  "from_str tz_parse s =
     (let ident = fst (eat_identifier s); following = trim (snd (eat_identifier s)) in
      if ident = [] then Inl TypeParseError
      else if following \<noteq> [] then
        (if ident = ''Decimal'' then parse_decimal following
         else if ident = ''Decimal32'' then parse_sized_decimal 9 Decimal32 following
         else if ident = ''Decimal64'' then parse_sized_decimal 18 Decimal64 following
         else if ident = ''Decimal128'' then parse_sized_decimal 38 Decimal128 following
         else if ident = ''Decimal256'' then parse_sized_decimal 76 Decimal256 following
         else if ident = ''FixedString'' then parse_fixed_string following
         else if ident = ''DateTime'' then parse_date_time tz_parse following
         else if ident = ''DateTime64'' then parse_date_time64 tz_parse following
         else if ident = ''Enum8'' then
           rbind (parse_enum_options parse_i8 following) (\<lambda>opts. Inr (Enum8 opts))
         else if ident = ''Enum16'' then
           rbind (parse_enum_options parse_i16 following) (\<lambda>opts. Inr (Enum16 opts))
         else if ident = ''LowCardinality'' then
           rbind (one_arg following) (\<lambda>a.
           rbind (from_str tz_parse a) (\<lambda>t. Inr (LowCardinality t)))
         else if ident = ''Array'' then
           rbind (one_arg following) (\<lambda>a.
           rbind (from_str tz_parse a) (\<lambda>t. Inr (Array t)))
         else if ident = ''Tuple'' then
           rbind (parse_variable_args following) (\<lambda>args.
           rbind (traverse (from_str tz_parse) args) (\<lambda>ts. Inr (Tuple ts)))
         else if ident = ''Nullable'' then
           rbind (one_arg following) (\<lambda>a.
           rbind (from_str tz_parse a) (\<lambda>t. Inr (Nullable t)))
         else if ident = ''Map'' then
           rbind (two_args following) (\<lambda>ab.
           rbind (from_str tz_parse (fst ab)) (\<lambda>k.
           rbind (from_str tz_parse (snd ab)) (\<lambda>v. Inr (Map k v))))
         else Inl TypeParseError)
      else simple_type ident)"
  by pat_completeness auto
termination
proof (relation "measure (\<lambda>(tz_parse, s). length s)", goal_cases)
  case 1
  show ?case by simp
next
  case (2 tz s ident f a)
  then show ?case using one_arg_length [of f a] following_length [of s] by simp
next
  case (3 tz s ident f a)
  then show ?case using one_arg_length [of f a] following_length [of s] by simp
next
  case (4 tz s ident f args a)
  then show ?case
    using parse_variable_args_length [of f args a] following_length [of s] by simp
next
  case (5 tz s ident f a)
  then show ?case using one_arg_length [of f a] following_length [of s] by simp
next
  case (6 tz s ident f ab)
  then show ?case
    using two_args_length [of f "fst ab" "snd ab"] following_length [of s] by simp
next
  case (7 tz s ident f ab k)
  then show ?case
    using two_args_length [of f "fst ab" "snd ab"] following_length [of s] by simp
qed

declare from_str.simps [simp del]

end
