(* ===== verification/TypeText.thy ===== *)
theory TypeText
  imports TypeParser
begin

text \<open>
  Printing a type (\<open>Display for Type\<close>, native/types.rs) and the round trip through
  \<open>from_str\<close>: block headers carry the type of a column as this text, in both directions.
\<close>

section \<open>Printing\<close>

fun join :: "string \<Rightarrow> string list \<Rightarrow> string" where
  "join sep [] = []"
| "join sep [x] = x"
| "join sep (x # y # r) = x @ sep @ join sep (y # r)"

text \<open>\<open>name.replace('\'', "''")\<close>.\<close>

definition escape_quotes :: "string \<Rightarrow> string" where
  "escape_quotes name = concat (map (\<lambda>c. if c = CHR 0x27 then [CHR 0x27, CHR 0x27] else [c]) name)"

definition display_item :: "string \<times> int \<Rightarrow> string" where
  "display_item item =
     CHR 0x27 # escape_quotes (fst item) @ CHR 0x27 # '' = '' @ show_int (snd item)"

fun display :: "ty \<Rightarrow> string" where
  "display Int8 = ''Int8''"
| "display Int16 = ''Int16''"
| "display Int32 = ''Int32''"
| "display Int64 = ''Int64''"
| "display Int128 = ''Int128''"
| "display Int256 = ''Int256''"
| "display UInt8 = ''UInt8''"
| "display UInt16 = ''UInt16''"
| "display UInt32 = ''UInt32''"
| "display UInt64 = ''UInt64''"
| "display UInt128 = ''UInt128''"
| "display UInt256 = ''UInt256''"
| "display Float32 = ''Float32''"
| "display Float64 = ''Float64''"
| "display (Decimal32 s) = ''Decimal32('' @ show_nat s @ '')''"
| "display (Decimal64 s) = ''Decimal64('' @ show_nat s @ '')''"
| "display (Decimal128 s) = ''Decimal128('' @ show_nat s @ '')''"
| "display (Decimal256 s) = ''Decimal256('' @ show_nat s @ '')''"
| "display String = ''String''"
| "display Binary = ''String''"
| "display (FixedSizedBinary s) = ''FixedString('' @ show_nat s @ '')''"
| "display (FixedSizedString s) = ''FixedString('' @ show_nat s @ '')''"
| "display Uuid = ''UUID''"
| "display Date = ''Date''"
| "display Date32 = ''Date32''"
| "display (DateTime tz) = ''DateTime('' @ CHR 0x27 # tz @ CHR 0x27 # '')''"
| "display (DateTime64 precision tz) =
     ''DateTime64('' @ show_nat precision @ '','' @ CHR 0x27 # tz @ CHR 0x27 # '')''"
| "display Ipv4 = ''IPv4''"
| "display Ipv6 = ''IPv6''"
| "display Point = ''Point''"
| "display Ring = ''Ring''"
| "display Polygon = ''Polygon''"
| "display MultiPolygon = ''MultiPolygon''"
| "display (Enum8 items) =
     ''Enum8('' @ join '','' (map (\<lambda>x. display_item (fst x, sint (snd x))) items) @ '')''"
| "display (Enum16 items) =
     ''Enum16('' @ join '','' (map (\<lambda>x. display_item (fst x, sint (snd x))) items) @ '')''"
| "display (LowCardinality inner) = ''LowCardinality('' @ display inner @ '')''"
| "display (Array inner) = ''Array('' @ display inner @ '')''"
| "display (Tuple items) = ''Tuple('' @ join '','' (map display items) @ '')''"
| "display (Nullable inner) = ''Nullable('' @ display inner @ '')''"
| "display (Map key value) = ''Map('' @ display key @ '','' @ display value @ '')''"
| "display Object = ''JSON''"

section \<open>Texts the argument iterator passes over\<close>

text \<open>
  A balanced text is passed without a split at any depth; a text that is balanced inside
  parentheses is passed where the depth is positive.
\<close>

definition balanced :: "string \<Rightarrow> bool" where
  "balanced s \<longleftrightarrow> (\<forall>acc r d. args_scan acc (s @ r) d False False
                         = args_scan (rev s @ acc) r d False False)"

definition balanced_inside :: "string \<Rightarrow> bool" where
  "balanced_inside s \<longleftrightarrow> (\<forall>acc r d. args_scan acc (s @ r) (Suc d) False False
                                = args_scan (rev s @ acc) r (Suc d) False False)"

lemma balanced_inside: "balanced s \<Longrightarrow> balanced_inside s"
  by (simp add: balanced_def balanced_inside_def)

lemma balanced_append: "balanced s \<Longrightarrow> balanced t \<Longrightarrow> balanced (s @ t)"
  by (simp add: balanced_def)

lemma balanced_inside_append:
  "balanced_inside s \<Longrightarrow> balanced_inside t \<Longrightarrow> balanced_inside (s @ t)"
  by (simp add: balanced_inside_def)

lemma balanced_Nil [simp]: "balanced []"
  by (simp add: balanced_def)

definition ordinary :: "char \<Rightarrow> bool" where
  "ordinary c \<longleftrightarrow> c \<noteq> CHR 0x27 \<and> c \<noteq> CHR ''('' \<and> c \<noteq> CHR '')'' \<and> c \<noteq> CHR '',''"

lemma balanced_ordinary: "list_all ordinary s \<Longrightarrow> balanced s"
  by (induction s) (auto simp: balanced_def ordinary_def)

lemma balanced_inside_comma: "balanced_inside '',''"
  by (simp add: balanced_inside_def)

text \<open>Names without a quote or a backslash.\<close>

definition plain :: "string \<Rightarrow> bool" where
  "plain s \<longleftrightarrow> list_all (\<lambda>c. c \<noteq> CHR 0x27 \<and> c \<noteq> CHR 0x5C) s"

lemma args_scan_plain:
  "plain s \<Longrightarrow> args_scan acc (s @ r) d True False = args_scan (rev s @ acc) r d True False"
  by (induction s arbitrary: acc) (auto simp: plain_def)

lemma balanced_quoted: "plain s \<Longrightarrow> balanced (CHR 0x27 # s @ [CHR 0x27])"
  by (simp add: balanced_def args_scan_plain)

lemma balanced_call:
  assumes "list_all ordinary name" and "balanced_inside s"
  shows "balanced (name @ CHR ''('' # s @ '')'')"
proof -
  have "balanced (CHR ''('' # s @ '')'')"
    using assms(2) by (simp add: balanced_def balanced_inside_def)
  with balanced_ordinary [OF assms(1)] show ?thesis by (rule balanced_append)
qed

lemma balanced_inside_join:
  "list_all balanced ss \<Longrightarrow> balanced_inside (join '','' ss)"
proof (induction "'',''" ss rule: join.induct)
  case 1
  show ?case by (simp add: balanced_inside)
next
  case (2 x)
  then show ?case by (simp add: balanced_inside)
next
  case (3 x y r)
  then show ?case
    by (simp only: join.simps list.pred_inject)
      (blast intro: balanced_inside_append balanced_inside_comma balanced_inside)
qed

text \<open>A text that is one argument: no blank at its ends, no comma at its end.\<close>

definition arg_text :: "string \<Rightarrow> bool" where
  "arg_text s \<longleftrightarrow> s \<noteq> [] \<and> \<not> is_whitespace (hd s) \<and> \<not> is_whitespace (last s)
                 \<and> last s \<noteq> CHR '','' \<and> balanced s"

lemma trim_id:
  assumes "s \<noteq> []" and "\<not> is_whitespace (hd s)" and "\<not> is_whitespace (last s)"
  shows "trim s = s"
proof -
  have "dropWhile is_whitespace s = s" using assms(2) by (cases s) simp_all
  moreover have "dropWhile is_whitespace (rev s) = rev s"
    using assms by (cases s rule: rev_cases) simp_all
  ultimately show ?thesis by (simp add: trim_def)
qed

lemma trim_arg_text [simp]: "arg_text s \<Longrightarrow> trim s = s"
  by (simp add: arg_text_def trim_id)

lemma inner_slice_parens [simp]: "inner_slice (a # s @ [c]) = Inr s"
  by (simp add: inner_slice_def butlast_append)

section \<open>Reading back an argument list\<close>

abbreviation arg_iter :: "string \<Rightarrow> args_iter" where
  "arg_iter s \<equiv> \<lparr>rest = s, in_parens = 0, in_quotes = False, finished = False\<rparr>"

lemma parse_args_iter_call:
  assumes "trim s = s" and "\<not> ends_with (CHR '','') s"
  shows "parse_args_iter (CHR ''('' # s @ '')'') = Inr (arg_iter s)"
  using assms by (simp add: parse_args_iter_def starts_with_def ends_with_def)


lemma args_next_last:
  assumes "arg_text s"
  shows "args_next (arg_iter s) = (Some (Inr s), (arg_iter s)\<lparr>finished := True\<rparr>)"
proof -
  have "args_scan [] (s @ []) 0 False False = args_scan (rev s @ []) [] 0 False False"
    using assms unfolding arg_text_def balanced_def by blast
  then have scan: "args_scan [] s 0 False False = AtEnd s 0 False" by simp
  have "s \<noteq> []" "last s \<noteq> CHR '',''" using assms by (simp_all add: arg_text_def)
  then have "s \<noteq> '',''" by auto
  with scan assms \<open>s \<noteq> []\<close> show ?thesis by (simp add: args_next_def Let_def)
qed

lemma args_next_comma:
  assumes "arg_text s"
  shows "args_next (arg_iter (s @ CHR '','' # r)) = (Some (Inr s), arg_iter r)"
proof -
  have "args_scan [] (s @ CHR '','' # r) 0 False False
      = args_scan (rev s @ []) (CHR '','' # r) 0 False False"
    using assms unfolding arg_text_def balanced_def by blast
  then have scan: "args_scan [] (s @ CHR '','' # r) 0 False False = AtComma s r 0 False" by simp
  have "s \<noteq> []" using assms by (simp add: arg_text_def)
  with scan assms show ?thesis by (simp add: args_next_def Let_def)
qed

lemma args_next_finished [simp]: "finished it \<Longrightarrow> args_next it = (None, it)"
  by (simp add: args_next_def)

lemma args_next_empty: "args_next (arg_iter []) = (None, (arg_iter [])\<lparr>finished := True\<rparr>)"
  by (simp add: args_next_def trim_def)

lemma arg_text_trim_ends: "arg_text s \<Longrightarrow> trim s = s \<and> \<not> ends_with (CHR '','') s"
  by (auto simp: arg_text_def ends_with_def trim_id)

lemma parse_fixed_args_1:
  assumes "arg_text s"
  shows "parse_fixed_args 1 (CHR ''('' # s @ '')'') = Inr [s]"
  using arg_text_trim_ends [OF assms] assms
  by (simp add: parse_fixed_args_def parse_args_iter_call args_next_last)

lemma trim_join2:
  assumes "arg_text a" and "arg_text b"
  shows "trim (a @ CHR '','' # b) = a @ CHR '','' # b"
    and "\<not> ends_with (CHR '','') (a @ CHR '','' # b)"
  using assms by (auto simp: arg_text_def ends_with_def intro!: trim_id)

lemma parse_fixed_args_2:
  assumes "arg_text a" and "arg_text b"
  shows "parse_fixed_args 2 (CHR ''('' # (a @ CHR '','' # b) @ '')'') = Inr [a, b]"
proof -
  have "parse_args_iter (CHR ''('' # (a @ CHR '','' # b) @ '')'') = Inr (arg_iter (a @ CHR '','' # b))"
    by (rule parse_args_iter_call [OF trim_join2 [OF assms]])
  then show ?thesis
    using assms
    by (simp add: parse_fixed_args_def numeral_2_eq_2 args_next_comma args_next_last)
qed

lemma collect_args_join:
  "list_all arg_text ss \<Longrightarrow> collect_args (arg_iter (join '','' ss)) = Inr ss"
proof (induction "'',''" ss rule: join.induct)
  case 1
  show ?case by (simp add: collect_args.simps [of "arg_iter []"] args_next_empty)
next
  case (2 x)
  then show ?case
    by (simp add: collect_args.simps [of "arg_iter x"] args_next_last
        collect_args.simps [of "\<lparr>rest = x, in_parens = 0, in_quotes = False, finished = True\<rparr>"])
next
  case (3 x y r)
  then have "collect_args (arg_iter (join '','' (y # r))) = Inr (y # r)" by simp
  then show ?case
    using 3 by (simp add: collect_args.simps [of "arg_iter (x @ CHR '','' # join '','' (y # r))"]
        args_next_comma)
qed

lemma join_ends:
  "ss \<noteq> [] \<Longrightarrow> list_all arg_text ss \<Longrightarrow>
     join '','' ss \<noteq> [] \<and> hd (join '','' ss) = hd (hd ss) \<and> last (join '','' ss) = last (last ss)"
  by (induction "'',''" ss rule: join.induct) (auto simp: arg_text_def)

lemma join_trim:
  assumes "list_all arg_text ss"
  shows "trim (join '','' ss) = join '','' ss \<and> \<not> ends_with (CHR '','') (join '','' ss)"
proof (cases "ss = []")
  case True
  then show ?thesis by (simp add: trim_def ends_with_def)
next
  case False
  then have "arg_text (hd ss)" "arg_text (last ss)" using assms by (simp_all add: list_all_iff)
  then show ?thesis
    using join_ends [OF False assms] by (auto simp: arg_text_def ends_with_def intro!: trim_id)
qed

lemma parse_variable_args_join:
  assumes "list_all arg_text ss"
  shows "parse_variable_args (CHR ''('' # join '','' ss @ '')'') = Inr ss"
  using join_trim [OF assms] collect_args_join [OF assms]
  by (simp add: parse_variable_args_def parse_args_iter_call)

section \<open>Reading back an enum\<close>

lemma enum_run_append:
  "enum_run num st (a @ b) = rbind (enum_run num st a) (\<lambda>st. enum_run num st b)"
  by (induction a arbitrary: st) (simp_all add: rbind_assoc)

lemma enum_run_name:
  assumes "plain s"
  shows "enum_run num \<lparr>options = opts, ename = n, evalue = v, estate = InName, eescaped = False\<rparr> s
    = Inr \<lparr>options = opts, ename = n @ s, evalue = v, estate = InName, eescaped = False\<rparr>"
  using assms by (induction s arbitrary: n) (simp_all add: plain_def enum_step_def)

lemma enum_run_value:
  assumes "list_all (\<lambda>c. c \<noteq> CHR '','' \<and> \<not> is_whitespace c) s"
  shows "enum_run num \<lparr>options = opts, ename = n, evalue = v, estate = InValue, eescaped = False\<rparr> s
    = Inr \<lparr>options = opts, ename = n, evalue = v @ s, estate = InValue, eescaped = False\<rparr>"
  using assms by (induction s arbitrary: v) (simp_all add: enum_step_def)

lemma escape_quotes_plain: "plain s \<Longrightarrow> escape_quotes s = s"
  by (induction s) (simp_all add: plain_def escape_quotes_def)

lemma digits_no_blank:
  assumes "list_all is_digit s"
  shows "list_all (\<lambda>c. c \<noteq> CHR '','' \<and> \<not> is_whitespace c) s"
  using assms by (auto simp: list_all_iff is_digit_def is_whitespace_def)

lemma show_int_chars: "list_all (\<lambda>c. c \<noteq> CHR '','' \<and> \<not> is_whitespace c) (show_int i)"
  using digits_no_blank show_nat_digits by (simp add: show_int_def is_whitespace_def)

lemma show_int_nonempty [simp]: "show_int i \<noteq> []"
  by (simp add: show_int_def)

lemma enum_run_item:
  assumes "plain (fst item)"
  shows "enum_run num
      \<lparr>options = opts, ename = [], evalue = [], estate = ExpectQuote, eescaped = False\<rparr>
      (display_item item)
    = Inr \<lparr>options = opts, ename = fst item, evalue = show_int (snd item),
           estate = InValue, eescaped = False\<rparr>"
  using assms
  by (simp add: display_item_def escape_quotes_plain enum_step_def is_whitespace_def
      enum_run_append enum_run_name enum_run_value [OF show_int_chars])

text \<open>The items of an enum, and the parser of their numbers.\<close>

definition enum_text :: "('v \<Rightarrow> int) \<Rightarrow> (string \<times> 'v) list \<Rightarrow> string" where
  "enum_text num_of items = join '','' (map (\<lambda>x. display_item (fst x, num_of (snd x))) items)"

lemma enum_run_items:
  assumes "items \<noteq> []" and "list_all (\<lambda>x. plain (fst x)) items"
    and num: "\<And>v. num (show_int (num_of v)) = Some v"
  shows "\<exists>st. enum_run num
      \<lparr>options = opts, ename = [], evalue = [], estate = ExpectQuote, eescaped = False\<rparr>
      (enum_text num_of items) = Inr st
    \<and> estate st = InValue \<and> evalue st \<noteq> [] \<and> enum_push num st = Inr (opts @ items)"
  using assms(1,2)
proof (induction items arbitrary: opts)
  case Nil
  then show ?case by simp
next
  case (Cons x items)
  have item: "plain (fst (fst x, num_of (snd x)))" using Cons.prems by simp
  show ?case
  proof (cases "items = []")
    case True
    then show ?thesis
      by (simp add: enum_text_def enum_run_item [OF item] enum_push_def num)
  next
    case False
    then have shape: "enum_text num_of (x # items)
        = display_item (fst x, num_of (snd x)) @ '','' @ enum_text num_of items"
      by (cases items) (simp_all add: enum_text_def)
    show ?thesis
      using Cons.IH [OF False, of "opts @ [x]"] Cons.prems
      by (simp add: shape enum_run_append enum_run_item [OF item] enum_step_def enum_push_def num)
  qed
qed

lemma display_item_ends:
  "display_item item \<noteq> [] \<and> hd (display_item item) = CHR 0x27
   \<and> is_digit (last (display_item item))"
proof -
  have "is_digit (last (show_nat n))" for n
    using show_nat_digits [of n] last_in_set [OF show_nat_nonempty [of n]]
    by (auto simp: list_all_iff)
  then show ?thesis by (simp add: display_item_def show_int_def)
qed

lemma digit_not_blank: "is_digit c \<Longrightarrow> \<not> is_whitespace c \<and> c \<noteq> CHR '','' \<and> ordinary c"
  by (auto simp: is_digit_def is_whitespace_def ordinary_def)

lemma enum_text_ends:
  assumes "items \<noteq> []"
  shows "enum_text num_of items \<noteq> [] \<and> hd (enum_text num_of items) = CHR 0x27
    \<and> is_digit (last (enum_text num_of items))"
  using assms
proof (induction items)
  case Nil
  then show ?case by simp
next
  case (Cons x items)
  then show ?case
    using display_item_ends [of "(fst x, num_of (snd x))"]
    by (cases items) (simp_all add: enum_text_def)
qed

lemma parse_enum_text:
  assumes "list_all (\<lambda>x. plain (fst x)) items"
    and num: "\<And>v. num (show_int (num_of v)) = Some v"
  shows "parse_enum_options num (CHR ''('' # enum_text num_of items @ '')'') = Inr items"
proof (cases "items = []")
  case True
  then show ?thesis
    by (simp add: parse_enum_options_def starts_with_def ends_with_def enum_text_def
        inner_slice_def trim_def)
next
  case False
  note ends = enum_text_ends [OF False, of num_of]
  then have "trim (enum_text num_of items) = enum_text num_of items"
    by (intro trim_id) (auto simp: is_whitespace_def dest: digit_not_blank)
  moreover obtain st where "enum_run num enum_start (enum_text num_of items) = Inr st"
    "estate st = InValue" "evalue st \<noteq> []" "enum_push num st = Inr items"
    using enum_run_items [OF False assms, of "[]"] by (auto simp: enum_start_def)
  moreover have "\<not> ends_with (CHR '','') (enum_text num_of items)"
    using ends digit_not_blank by (auto simp: ends_with_def)
  ultimately show ?thesis
    using ends by (simp add: parse_enum_options_def starts_with_def ends_with_def enum_finish_def)
qed

lemma list_all_ordinary_show_nat: "list_all ordinary (show_nat n)"
  using show_nat_digits [of n] digit_not_blank by (auto simp: list_all_iff)

lemma list_all_ordinary_show_int: "list_all ordinary (show_int i)"
  using list_all_ordinary_show_nat by (simp add: show_int_def ordinary_def)

lemma balanced_display_item: "plain (fst item) \<Longrightarrow> balanced (display_item item)"
proof -
  assume "plain (fst item)"
  then have "balanced ((CHR 0x27 # fst item @ [CHR 0x27]) @ '' = '' @ show_int (snd item))"
    by (intro balanced_append balanced_quoted balanced_ordinary list_all_ordinary_show_int)
      (simp_all add: ordinary_def)
  then show ?thesis
    using \<open>plain (fst item)\<close> by (simp add: display_item_def escape_quotes_plain)
qed

lemma balanced_enum_text:
  "list_all (\<lambda>x. plain (fst x)) items \<Longrightarrow> balanced_inside (enum_text num_of items)"
  unfolding enum_text_def
  by (rule balanced_inside_join) (auto simp: list_all_iff intro!: balanced_display_item)

section \<open>The head of a type\<close>

definition ident_text :: "string \<Rightarrow> bool" where
  "ident_text name \<longleftrightarrow> name \<noteq> [] \<and> is_alphabetic (hd name)
     \<and> list_all (\<lambda>c. is_alphabetic c \<or> is_digit c) name"

lemma eat_identifier_from_digits:
  "list_all (\<lambda>c. is_alphabetic c \<or> is_digit c) name \<Longrightarrow> 0 < i \<Longrightarrow>
     eat_identifier_from i (name @ CHR ''('' # r) = (name, CHR ''('' # r)"
  by (induction name arbitrary: i) (auto simp: is_alphabetic_def is_digit_def)

lemma eat_identifier_call:
  assumes "ident_text name"
  shows "eat_identifier (name @ CHR ''('' # r) = (name, CHR ''('' # r)"
proof (cases name)
  case Nil
  then show ?thesis using assms by (simp add: ident_text_def)
next
  case (Cons c s)
  then show ?thesis
    using assms eat_identifier_from_digits [of s 1 r]
    by (simp add: ident_text_def eat_identifier_def)
qed

lemma trim_parens: "trim (CHR ''('' # s @ '')'') = CHR ''('' # s @ '')''"
  by (rule trim_id) (simp_all add: is_whitespace_def)

text \<open>The text of a call \<open>name(s)\<close>: its identifier and what follows.\<close>

lemma call_head:
  assumes "ident_text name"
  shows "fst (eat_identifier (name @ CHR ''('' # s @ '')'')) = name"
    and "trim (snd (eat_identifier (name @ CHR ''('' # s @ '')''))) = CHR ''('' # s @ '')''"
  using eat_identifier_call [OF assms, of "s @ '')''"] by (simp_all add: trim_parens)

lemma call_arg_text:
  assumes "ident_text name" and "balanced_inside s"
  shows "arg_text (name @ CHR ''('' # s @ '')'')"
proof -
  have "list_all ordinary name"
    using assms(1) by (auto simp: ident_text_def list_all_iff is_alphabetic_def is_digit_def
        ordinary_def)
  then have "balanced (name @ CHR ''('' # s @ '')'')"
    using assms(2) by (rule balanced_call)
  then show ?thesis
    using assms(1) by (auto simp: arg_text_def ident_text_def is_alphabetic_def is_whitespace_def)
qed

lemma ident_arg_text: "ident_text name \<Longrightarrow> arg_text name"
proof -
  assume *: "ident_text name"
  then have all: "list_all (\<lambda>c. ordinary c \<and> \<not> is_whitespace c) name"
    by (auto simp: ident_text_def list_all_iff is_alphabetic_def is_digit_def ordinary_def
        is_whitespace_def)
  then have "balanced name" by (intro balanced_ordinary) (simp add: list_all_iff)
  with * all show ?thesis
    by (auto simp: arg_text_def ident_text_def list_all_iff ordinary_def)
qed

lemma digits_arg_text: "arg_text (show_nat n)"
proof -
  have "list_all is_digit (show_nat n)" using show_nat_digits by blast
  then have d: "is_digit (hd (show_nat n))" "is_digit (last (show_nat n))"
    by (simp_all add: list_all_iff)
  then show ?thesis
    using digit_not_blank [OF d(1)] digit_not_blank [OF d(2)]
      balanced_ordinary [OF list_all_ordinary_show_nat]
    by (simp add: arg_text_def)
qed

lemma quoted_arg_text: "plain s \<Longrightarrow> arg_text (CHR 0x27 # s @ [CHR 0x27])"
  using balanced_quoted [of s] by (simp add: arg_text_def is_whitespace_def)

section \<open>The round trip\<close>

text \<open>
  What a type reads back as: the two binary types are printed as the string types. The
  other definitions state when a type has a text the parser accepts.
\<close>

fun canonical :: "ty \<Rightarrow> ty" where
  "canonical Binary = String"
| "canonical (FixedSizedBinary n) = FixedSizedString n"
| "canonical (LowCardinality t) = LowCardinality (canonical t)"
| "canonical (Array t) = Array (canonical t)"
| "canonical (Tuple ts) = Tuple (map canonical ts)"
| "canonical (Nullable t) = Nullable (canonical t)"
| "canonical (Map k v) = Map (canonical k) (canonical v)"
| "canonical t = t"

definition tz_ok :: "(string \<Rightarrow> tz option) \<Rightarrow> tz \<Rightarrow> bool" where
  "tz_ok tz_parse tz \<longleftrightarrow> plain tz \<and> tz_parse tz = Some tz"

fun text_ok :: "(string \<Rightarrow> tz option) \<Rightarrow> ty \<Rightarrow> bool" where
  "text_ok tzp (Decimal32 s) = (0 < s \<and> s \<le> 9)"
| "text_ok tzp (Decimal64 s) = (0 < s \<and> s \<le> 18)"
| "text_ok tzp (Decimal128 s) = (0 < s \<and> s \<le> 38)"
| "text_ok tzp (Decimal256 s) = (0 < s \<and> s \<le> 76)"
| "text_ok tzp (FixedSizedString n) = (0 < n \<and> n < 2 ^ 64)"
| "text_ok tzp (FixedSizedBinary n) = (0 < n \<and> n < 2 ^ 64)"
| "text_ok tzp (DateTime tz) = tz_ok tzp tz"
| "text_ok tzp (DateTime64 p tz) = (p < 2 ^ 64 \<and> tz_ok tzp tz)"
| "text_ok tzp (Enum8 items) = list_all (\<lambda>x. plain (fst x)) items"
| "text_ok tzp (Enum16 items) = list_all (\<lambda>x. plain (fst x)) items"
| "text_ok tzp (LowCardinality t) = text_ok tzp t"
| "text_ok tzp (Array t) = text_ok tzp t"
| "text_ok tzp (Tuple ts) = list_all (text_ok tzp) ts"
| "text_ok tzp (Nullable t) = text_ok tzp t"
| "text_ok tzp (Map k v) = (text_ok tzp k \<and> text_ok tzp v)"
| "text_ok tzp _ = True"

lemmas ident_text_simps = ident_text_def is_alphabetic_def is_digit_def

text \<open>The texts of the types with arguments, as calls.\<close>

lemma display_call:
  "display (Decimal32 s) = ''Decimal32'' @ CHR ''('' # show_nat s @ '')''"
  "display (Decimal64 s) = ''Decimal64'' @ CHR ''('' # show_nat s @ '')''"
  "display (Decimal128 s) = ''Decimal128'' @ CHR ''('' # show_nat s @ '')''"
  "display (Decimal256 s) = ''Decimal256'' @ CHR ''('' # show_nat s @ '')''"
  "display (FixedSizedString s) = ''FixedString'' @ CHR ''('' # show_nat s @ '')''"
  "display (FixedSizedBinary s) = ''FixedString'' @ CHR ''('' # show_nat s @ '')''"
  "display (DateTime tz) = ''DateTime'' @ CHR ''('' # (CHR 0x27 # tz @ [CHR 0x27]) @ '')''"
  "display (DateTime64 p tz) =
     ''DateTime64'' @ CHR ''('' # (show_nat p @ CHR '','' # (CHR 0x27 # tz @ [CHR 0x27])) @ '')''"
  "display (Enum8 items) = ''Enum8'' @ CHR ''('' # enum_text sint items @ '')''"
  "display (Enum16 items16) = ''Enum16'' @ CHR ''('' # enum_text sint items16 @ '')''"
  "display (LowCardinality t) = ''LowCardinality'' @ CHR ''('' # display t @ '')''"
  "display (Array t) = ''Array'' @ CHR ''('' # display t @ '')''"
  "display (Tuple ts) = ''Tuple'' @ CHR ''('' # join '','' (map display ts) @ '')''"
  "display (Nullable t) = ''Nullable'' @ CHR ''('' # display t @ '')''"
  "display (Map k v) = ''Map'' @ CHR ''('' # (display k @ CHR '','' # display v) @ '')''"
  by (simp_all add: enum_text_def)

lemma balanced_arg_text: "arg_text s \<Longrightarrow> balanced s"
  by (simp add: arg_text_def)

lemma balanced_comma_args:
  "balanced a \<Longrightarrow> balanced b \<Longrightarrow> balanced_inside (a @ CHR '','' # b)"
  using balanced_inside_join [of "[a, b]"] by simp

text \<open>A call with balanced arguments, for the names in use.\<close>

lemmas call_shape = call_arg_text [where name = "''Nullable''"] call_arg_text [where name = "''Array''"]
  call_arg_text [where name = "''LowCardinality''"] call_arg_text [where name = "''Tuple''"]
  call_arg_text [where name = "''Map''"] call_arg_text [where name = "''Enum8''"]
  call_arg_text [where name = "''Enum16''"] call_arg_text [where name = "''DateTime''"]
  call_arg_text [where name = "''DateTime64''"] call_arg_text [where name = "''FixedString''"]
  call_arg_text [where name = "''Decimal32''"] call_arg_text [where name = "''Decimal64''"]
  call_arg_text [where name = "''Decimal128''"] call_arg_text [where name = "''Decimal256''"]

lemmas call_texts = call_shape [unfolded ident_text_simps, simplified]

lemma display_arg_text: "text_ok tzp t \<Longrightarrow> arg_text (display t)"
proof (induction t)
  case (Tuple ts)
  then have "balanced_inside (join '','' (map display ts))"
    by (intro balanced_inside_join) (auto simp: list_all_iff intro: balanced_arg_text)
  then show ?case by (simp add: call_texts)
next
  case (Map k v)
  then have "balanced_inside (display k @ CHR '','' # display v)"
    by (simp add: balanced_comma_args balanced_arg_text)
  from call_arg_text [of "''Map''", OF _ this] show ?case by (simp add: ident_text_simps)
next
  case (DateTime64 p tz)
  then have "balanced_inside (show_nat p @ CHR '','' # (CHR 0x27 # tz @ [CHR 0x27]))"
    by (intro balanced_comma_args balanced_arg_text digits_arg_text quoted_arg_text)
      (simp add: tz_ok_def)
  from call_arg_text [of "''DateTime64''", OF _ this] show ?case by (simp add: ident_text_simps)
next
  case (DateTime tz)
  then have "balanced_inside (CHR 0x27 # tz @ [CHR 0x27])"
    by (intro balanced_inside balanced_quoted) (simp add: tz_ok_def)
  from call_arg_text [of "''DateTime''", OF _ this] show ?case by (simp add: ident_text_simps)
next
  case (Enum8 items)
  then show ?case using balanced_enum_text [of items sint] by (simp add: enum_text_def call_texts)
next
  case (Enum16 items)
  then show ?case using balanced_enum_text [of items sint] by (simp add: enum_text_def call_texts)
qed (simp_all add: call_texts balanced_inside balanced_arg_text digits_arg_text
      ident_arg_text ident_text_simps)

text \<open>The parser on a call, and on the names without arguments.\<close>

definition head_is :: "string \<Rightarrow> string \<Rightarrow> string \<Rightarrow> bool" where
  "head_is name following s \<longleftrightarrow>
     fst (eat_identifier s) = name \<and> trim (snd (eat_identifier s)) = following"

lemma head_is_call: "ident_text name \<Longrightarrow>
    head_is name (CHR ''('' # s @ '')'') (name @ CHR ''('' # s @ '')'')"
  using call_head [of name s] by (simp add: head_is_def)

lemma from_str_call:
  assumes "head_is name following s" and "following \<noteq> []"
  shows
    "name = ''Decimal32'' \<Longrightarrow> from_str tzp s = parse_sized_decimal 9 Decimal32 following"
    "name = ''Decimal64'' \<Longrightarrow> from_str tzp s = parse_sized_decimal 18 Decimal64 following"
    "name = ''Decimal128'' \<Longrightarrow> from_str tzp s = parse_sized_decimal 38 Decimal128 following"
    "name = ''Decimal256'' \<Longrightarrow> from_str tzp s = parse_sized_decimal 76 Decimal256 following"
    "name = ''FixedString'' \<Longrightarrow> from_str tzp s = parse_fixed_string following"
    "name = ''DateTime'' \<Longrightarrow> from_str tzp s = parse_date_time tzp following"
    "name = ''DateTime64'' \<Longrightarrow> from_str tzp s = parse_date_time64 tzp following"
    "name = ''Enum8'' \<Longrightarrow>
       from_str tzp s = rbind (parse_enum_options parse_i8 following) (\<lambda>opts. Inr (Enum8 opts))"
    "name = ''Enum16'' \<Longrightarrow>
       from_str tzp s = rbind (parse_enum_options parse_i16 following) (\<lambda>opts. Inr (Enum16 opts))"
    "name = ''LowCardinality'' \<Longrightarrow>
       from_str tzp s = rbind (one_arg following) (\<lambda>a.
         rbind (from_str tzp a) (\<lambda>t. Inr (LowCardinality t)))"
    "name = ''Array'' \<Longrightarrow>
       from_str tzp s = rbind (one_arg following) (\<lambda>a.
         rbind (from_str tzp a) (\<lambda>t. Inr (Array t)))"
    "name = ''Tuple'' \<Longrightarrow>
       from_str tzp s = rbind (parse_variable_args following) (\<lambda>args.
         rbind (traverse (from_str tzp) args) (\<lambda>ts. Inr (Tuple ts)))"
    "name = ''Nullable'' \<Longrightarrow>
       from_str tzp s = rbind (one_arg following) (\<lambda>a.
         rbind (from_str tzp a) (\<lambda>t. Inr (Nullable t)))"
    "name = ''Map'' \<Longrightarrow>
       from_str tzp s = rbind (two_args following) (\<lambda>ab.
         rbind (from_str tzp (fst ab)) (\<lambda>k.
         rbind (from_str tzp (snd ab)) (\<lambda>v. Inr (Map k v))))"
  using assms by (simp_all add: from_str.simps [of tzp s] head_is_def)

lemma one_arg_call: "arg_text a \<Longrightarrow> one_arg (CHR ''('' # a @ '')'') = Inr a"
  using parse_fixed_args_1 [of a] by (simp add: one_arg_Inr_iff)

lemma two_args_call:
  "arg_text a \<Longrightarrow> arg_text b \<Longrightarrow>
     two_args (CHR ''('' # (a @ CHR '','' # b) @ '')'') = Inr (a, b)"
  using parse_fixed_args_2 [of a b] by (simp add: two_args_Inr_iff)

lemma parse_i8_show: "parse_i8 (show_int (sint v)) = Some v"
  using sint_greater_eq [of v] sint_less [of v]
  by (simp add: parse_i8_def parse_signed_show_int)

lemma parse_i16_show: "parse_i16 (show_int (sint v)) = Some v"
  using sint_greater_eq [of v] sint_less [of v]
  by (simp add: parse_i16_def parse_signed_show_int)

lemma parse_tz_quoted: "tz_ok tzp tz \<Longrightarrow> parse_tz tzp (CHR 0x27 # tz @ [CHR 0x27]) = Inr tz"
  by (simp add: parse_tz_def starts_with_def ends_with_def tz_ok_def)

lemma parse_usize_small: "n \<le> 76 \<Longrightarrow> parse_usize (show_nat n) = Some n"
  by (rule parse_usize_show_nat) simp

text \<open>The simple types read their name back.\<close>

lemma head_is_ident:
  assumes "ident_text name"
  shows "head_is name [] name"
proof -
  have "list_all (\<lambda>c. is_alphabetic c \<or> is_digit c) s \<Longrightarrow> 0 < i \<Longrightarrow>
    eat_identifier_from i s = (s, [])" for i s
    by (induction s arbitrary: i) auto
  then show ?thesis
    using assms by (cases name) (auto simp: head_is_def eat_identifier_def ident_text_def trim_def)
qed

lemma from_str_ident: "ident_text name \<Longrightarrow> from_str tzp name = simple_type name"
  using head_is_ident [of name]
  by (simp add: from_str.simps [of tzp name] head_is_def ident_text_def)

lemma from_str_simple:
  assumes "ident_text (display t)" and "simple_type (display t) = Inr u"
  shows "from_str tzp (display t) = Inr u"
  using assms by (simp add: from_str_ident)

lemma from_str_call_display:
  assumes "text_ok tzp t" and "from_str tzp (display t) = Inr u"
  shows "from_str tzp (''Nullable'' @ CHR ''('' # display t @ '')'') = Inr (Nullable u)"
    and "from_str tzp (''Array'' @ CHR ''('' # display t @ '')'') = Inr (Array u)"
    and "from_str tzp (''LowCardinality'' @ CHR ''('' # display t @ '')'') = Inr (LowCardinality u)"
proof -
  note one = one_arg_call [OF display_arg_text [OF assms(1)]]
  show "from_str tzp (''Nullable'' @ CHR ''('' # display t @ '')'') = Inr (Nullable u)"
    by (subst from_str_call(13) [OF head_is_call]) (simp_all add: ident_text_simps one assms(2))
  show "from_str tzp (''Array'' @ CHR ''('' # display t @ '')'') = Inr (Array u)"
    by (subst from_str_call(11) [OF head_is_call]) (simp_all add: ident_text_simps one assms(2))
  show "from_str tzp (''LowCardinality'' @ CHR ''('' # display t @ '')'') = Inr (LowCardinality u)"
    by (subst from_str_call(10) [OF head_is_call]) (simp_all add: ident_text_simps one assms(2))
qed

lemma from_str_map_display:
  assumes "text_ok tzp k" and "text_ok tzp v"
    and "from_str tzp (display k) = Inr k'" and "from_str tzp (display v) = Inr v'"
  shows "from_str tzp (display (Map k v)) = Inr (Map k' v')"
proof -
  note two = two_args_call [OF display_arg_text [OF assms(1)] display_arg_text [OF assms(2)]]
  show ?thesis unfolding display_call
    by (subst from_str_call(14) [OF head_is_call]) (simp_all only: two assms rbind_simps fst_conv
        snd_conv, simp_all add: ident_text_simps)
qed

lemma from_str_tuple_display:
  assumes "list_all (text_ok tzp) ts"
    and "\<And>t. t \<in> set ts \<Longrightarrow> from_str tzp (display t) = Inr (f t)"
  shows "from_str tzp (display (Tuple ts)) = Inr (Tuple (map f ts))"
proof -
  have "list_all arg_text (map display ts)"
    using assms(1) by (auto simp: list_all_iff intro: display_arg_text)
  note args = parse_variable_args_join [OF this]
  have "traverse (from_str tzp) (map display ts) = Inr (map f ts)"
    using assms(2) by (induction ts) simp_all
  then show ?thesis unfolding display_call
    by (subst from_str_call(12) [OF head_is_call]) (simp_all only: args rbind_simps,
        simp_all add: ident_text_simps)
qed

lemma from_str_number_display:
  "0 < s \<Longrightarrow> s \<le> 9 \<Longrightarrow> from_str tzp (display (Decimal32 s)) = Inr (Decimal32 s)"
  "0 < s \<Longrightarrow> s \<le> 18 \<Longrightarrow> from_str tzp (display (Decimal64 s)) = Inr (Decimal64 s)"
  "0 < s \<Longrightarrow> s \<le> 38 \<Longrightarrow> from_str tzp (display (Decimal128 s)) = Inr (Decimal128 s)"
  "0 < s \<Longrightarrow> s \<le> 76 \<Longrightarrow> from_str tzp (display (Decimal256 s)) = Inr (Decimal256 s)"
  "0 < s \<Longrightarrow> s < 2 ^ 64 \<Longrightarrow>
     from_str tzp (display (FixedSizedString s)) = Inr (FixedSizedString s)"
  unfolding display_call
  by (subst from_str_call(1-5) [OF head_is_call],
      simp add: ident_text_simps, simp, rule refl,
      simp add: parse_sized_decimal_def parse_fixed_string_def parse_scale_def
        one_arg_call digits_arg_text parse_usize_small parse_usize_show_nat)+

lemma from_str_date_time_display:
  "tz_ok tzp tz \<Longrightarrow> from_str tzp (display (DateTime tz)) = Inr (DateTime tz)"
  "p < 2 ^ 64 \<Longrightarrow> tz_ok tzp tz \<Longrightarrow>
     from_str tzp (display (DateTime64 p tz)) = Inr (DateTime64 p tz)"
proof -
  assume tz: "tz_ok tzp tz"
  then have arg: "arg_text (CHR 0x27 # tz @ [CHR 0x27])"
    by (intro quoted_arg_text) (simp add: tz_ok_def)
  show "from_str tzp (display (DateTime tz)) = Inr (DateTime tz)"
    unfolding display_call
    by (subst from_str_call(6) [OF head_is_call])
      (simp_all only: parse_date_time_def parse_fixed_args_1 [OF arg] rbind_simps list.case
        parse_tz_quoted [OF tz], simp_all add: ident_text_simps)
next
  assume tz: "tz_ok tzp tz" and p: "p < 2 ^ 64"
  then have arg: "arg_text (CHR 0x27 # tz @ [CHR 0x27])"
    by (intro quoted_arg_text) (simp add: tz_ok_def)
  show "from_str tzp (display (DateTime64 p tz)) = Inr (DateTime64 p tz)"
    unfolding display_call
    by (subst from_str_call(7) [OF head_is_call])
      (simp_all only: parse_date_time64_def parse_fixed_args_2 [OF digits_arg_text arg]
        rbind_simps list.case parse_tz_quoted [OF tz] parse_precision_def
        parse_usize_show_nat [OF p] option.case, simp_all add: ident_text_simps)
qed

lemma from_str_enum_display:
  "list_all (\<lambda>x. plain (fst x)) items8 \<Longrightarrow>
     from_str tzp (display (Enum8 items8)) = Inr (Enum8 items8)"
  "list_all (\<lambda>x. plain (fst x)) items16 \<Longrightarrow>
     from_str tzp (display (Enum16 items16)) = Inr (Enum16 items16)"
proof -
  assume *: "list_all (\<lambda>x. plain (fst x)) items8"
  show "from_str tzp (display (Enum8 items8)) = Inr (Enum8 items8)"
    unfolding display_call
    by (subst from_str_call(8) [OF head_is_call])
      (simp_all only: parse_enum_text [OF * parse_i8_show] rbind_simps,
        simp_all add: ident_text_simps)
next
  assume *: "list_all (\<lambda>x. plain (fst x)) items16"
  show "from_str tzp (display (Enum16 items16)) = Inr (Enum16 items16)"
    unfolding display_call
    by (subst from_str_call(9) [OF head_is_call])
      (simp_all only: parse_enum_text [OF * parse_i16_show] rbind_simps,
        simp_all add: ident_text_simps)
qed

lemma from_str_display:
  assumes "text_ok tzp t"
  shows "from_str tzp (display t) = Inr (canonical t)"
  using assms
proof (induction t)
  case (Nullable t)
  then show ?case using from_str_call_display(1) [of tzp t] by simp
next
  case (Array t)
  then show ?case using from_str_call_display(2) [of tzp t] by simp
next
  case (LowCardinality t)
  then show ?case using from_str_call_display(3) [of tzp t] by simp
next
  case (Map k v)
  then show ?case using from_str_map_display [of tzp k v] by simp
next
  case (Tuple ts)
  then show ?case using from_str_tuple_display [of tzp ts canonical] by (auto simp: list_all_iff)
next
  case (FixedSizedBinary n)
  then show ?case using from_str_number_display(5) [of n tzp] by simp
qed (simp_all only: text_ok.simps canonical.simps from_str_number_display
    from_str_date_time_display from_str_enum_display,
    simp_all add: from_str_ident ident_text_simps simple_type_def)

text \<open>C7. The text a type is printed as parses back to the type, for every nesting of
  types whose numbers are in range, whose time zones the time zone parser knows and whose
  enum names hold no quote and no backslash; \<open>Binary\<close> and \<open>FixedSizedBinary\<close> come
  back as the string types they are printed as.\<close>

theorem type_text_roundtrip:
  assumes "text_ok tzp t"
  shows "from_str tzp (display t) = Inr (canonical t)"
  by (rule from_str_display [OF assms])

theorem type_text_roundtrip_witness:
  "from_str (\<lambda>s. if s = ''UTC'' then Some s else None)
     (display (Map String (Array (Tuple [Nullable Binary, DateTime64 3 ''UTC'', Enum8 [(''a'', -1)]]))))
   = Inr (Map String (Array (Tuple [Nullable String, DateTime64 3 ''UTC'', Enum8 [(''a'', -1)]])))"
  by (subst type_text_roundtrip) (simp_all add: tz_ok_def plain_def)

section \<open>Enum names with a quote\<close>

text \<open>The printer doubles a quote; the parser takes the first of the two as the end of the name.\<close>

lemma enum_run_quote:
  assumes "plain a"
  shows "enum_run num enum_start
      (display_item (a @ CHR 0x27 # b, i) @ r) = Inl TypeParseError"
proof -
  have "display_item (a @ CHR 0x27 # b, i)
      = CHR 0x27 # a @ CHR 0x27 # CHR 0x27 # escape_quotes b @ CHR 0x27 # '' = '' @ show_int i"
    using escape_quotes_plain [OF assms] by (simp add: display_item_def escape_quotes_def)
  then show ?thesis
    using assms by (simp add: enum_start_def enum_step_def enum_run_append enum_run_name
        is_whitespace_def)
qed

lemma parse_enum_quote:
  assumes "plain a"
  shows "parse_enum_options num
      (CHR ''('' # enum_text num_of ((a @ CHR 0x27 # b, v) # items) @ '')'') = Inl TypeParseError"
proof -
  let ?s = "enum_text num_of ((a @ CHR 0x27 # b, v) # items)"
  have ends: "?s \<noteq> [] \<and> hd ?s = CHR 0x27 \<and> is_digit (last ?s)"
    by (rule enum_text_ends) simp
  then have "trim ?s = ?s"
    by (intro trim_id) (auto simp: is_whitespace_def dest: digit_not_blank)
  moreover have "\<exists>r. ?s = display_item (a @ CHR 0x27 # b, num_of v) @ r"
    by (cases items) (auto simp: enum_text_def)
  then have "enum_run num enum_start ?s = Inl TypeParseError"
    using enum_run_quote [OF assms] by auto
  ultimately show ?thesis
    using ends by (simp add: parse_enum_options_def starts_with_def ends_with_def)
qed

text \<open>An enum whose first name holds a quote is printed as a text the parser rejects:
  the printer writes the quote twice, and the parser, which expects a backslash before a
  quote, ends the name at the first of the two.\<close>

theorem enum_quote_rejected:
  assumes "plain a"
  shows "from_str tzp (display (Enum8 ((a @ CHR 0x27 # b, v) # items))) = Inl TypeParseError"
  unfolding display_call
  by (subst from_str_call(8) [OF head_is_call])
    (simp_all only: parse_enum_quote [OF assms] rbind_simps, simp_all add: ident_text_simps)

theorem enum_quote_rejected_witness:
  "from_str Some (display (Enum8 [(''it'' @ CHR 0x27 # ''s'', 1)])) = Inl TypeParseError"
  by (rule enum_quote_rejected) (simp add: plain_def)

end
