(* ===== verification/Items.thy ===== *)
theory Items
  imports TypeText
begin

text \<open>
  The column codecs whose items are written one after the other: fixed-width values
  (serialize/sized.rs, deserialize/sized.rs), strings (serialize/string.rs,
  deserialize/string.rs) and JSON texts (serialize/object.rs, deserialize/object.rs).

  A column writer maps the values of the column to the bytes it writes; a column reader
  takes the number of rows. The asynchronous reader of an item ends with \<open>Io\<close> where the
  in-memory reader ends with \<open>BytesRead\<close>; the two are one definition with that error as
  its argument where the source repeats the same reads.
\<close>

section \<open>Writing item by item\<close>

definition write_each :: "('a \<Rightarrow> byte list res) \<Rightarrow> 'a list \<Rightarrow> byte list res" where
  "write_each f vs = rmap concat (traverse f vs)"

lemma write_each_simps [simp]:
  "write_each f [] = Inr []"
  "write_each f (v # vs) = rbind (f v) (\<lambda>bs. rbind (write_each f vs) (\<lambda>rest. Inr (bs @ rest)))"
proof -
  show "write_each f [] = Inr []" by (simp add: write_each_def)
  show "write_each f (v # vs) = rbind (f v) (\<lambda>bs. rbind (write_each f vs) (\<lambda>rest. Inr (bs @ rest)))"
    by (cases "f v"; cases "traverse f vs") (simp_all add: write_each_def)
qed

text \<open>An item codec lifts to the column: \<open>n\<close> items are read back from \<open>n\<close> written ones.\<close>

lemma read_write_each:
  assumes "write_each f vs = Inr bs"
    and "\<And>v b r. v \<in> set vs \<Longrightarrow> f v = Inr b \<Longrightarrow> p (b @ r) = Inr (g v, r)"
  shows "read_n (length vs) p (bs @ r) = Inr (map g vs, r)"
  using assms
proof (induction vs arbitrary: bs)
  case Nil
  then show ?case by simp
next
  case (Cons v vs)
  then obtain b rest where b: "f v = Inr b" "write_each f vs = Inr rest" "bs = b @ rest"
    by (auto simp: rbind_Inr_iff)
  moreover have "p (b @ rest @ r) = Inr (g v, rest @ r)" using Cons.prems(2) b(1) by simp
  moreover have "read_n (length vs) p (rest @ r) = Inr (map g vs, r)"
    using Cons.IH [OF b(2)] Cons.prems(2) by simp
  ultimately show ?case by simp
qed

lemma write_each_ok: "(\<And>v. v \<in> set vs \<Longrightarrow> is_ok (f v)) \<Longrightarrow> is_ok (write_each f vs)"
  by (induction vs) (force simp: is_ok_iff)+

section \<open>Fixed-width values\<close>

text \<open>\<open>swap_endian_256\<close> reverses the bytes; the halves of a UUID are swapped on the wire.\<close>

definition swap_endian_256 :: "byte list \<Rightarrow> byte list" where
  "swap_endian_256 input = rev input"

definition uuid_bytes :: "u128 \<Rightarrow> byte list" where
  "uuid_bytes n = put_u64 (ucast (drop_bit 64 n)) @ put_u64 (ucast n)"

definition read_uuid :: "err \<Rightarrow> u128 reader" where
  "read_uuid eof s =
     rbind (read_u64 eof s) (\<lambda>(n1, s).
     rbind (read_u64 eof s) (\<lambda>(n2, s).
       Inr (push_bit 64 (ucast n1) OR ucast n2, s)))"

definition sized_item_bytes :: "val \<Rightarrow> byte list res" where
  "sized_item_bytes value =
     (case value of
        VInt8 x \<Rightarrow> Inr [x]
      | VEnum8 _ x \<Rightarrow> Inr [x]
      | VInt16 x \<Rightarrow> Inr (put_u16 x)
      | VEnum16 _ x \<Rightarrow> Inr (put_u16 x)
      | VInt32 x \<Rightarrow> Inr (put_u32 x)
      | VDecimal32 _ x \<Rightarrow> Inr (put_u32 x)
      | VInt64 x \<Rightarrow> Inr (put_u64 x)
      | VDecimal64 _ x \<Rightarrow> Inr (put_u64 x)
      | VInt128 x \<Rightarrow> Inr (put_u128 x)
      | VDecimal128 _ x \<Rightarrow> Inr (put_u128 x)
      | VInt256 x \<Rightarrow> Inr (swap_endian_256 x)
      | VDecimal256 _ x \<Rightarrow> Inr (swap_endian_256 x)
      | VUInt8 x \<Rightarrow> Inr [x]
      | VUInt16 x \<Rightarrow> Inr (put_u16 x)
      | VUInt32 x \<Rightarrow> Inr (put_u32 x)
      | VUInt64 x \<Rightarrow> Inr (put_u64 x)
      | VUInt128 x \<Rightarrow> Inr (put_u128 x)
      | VUInt256 x \<Rightarrow> Inr (swap_endian_256 x)
      | VFloat32 x \<Rightarrow> Inr (put_u32 x)
      | VFloat64 x \<Rightarrow> Inr (put_u64 x)
      | VUuid x \<Rightarrow> Inr (uuid_bytes x)
      | VDate x \<Rightarrow> Inr (put_u16 x)
      | VDate32 x \<Rightarrow> Inr (put_u32 x)
      | VDateTime _ x \<Rightarrow> Inr (put_u32 x)
      | VDateTime64 _ x _ \<Rightarrow> Inr (put_u64 x)
      | VIpv4 x \<Rightarrow> Inr (put_u32 x)
      | VIpv6 x \<Rightarrow> Inr x
      | _ \<Rightarrow> Inl SerializeError)"

definition sized_write :: "ty \<Rightarrow> val list \<Rightarrow> byte list res" where
  "sized_write t values =
     write_each (\<lambda>value. sized_item_bytes (justify_null_ref value t)) values"

text \<open>The in-memory writer lists the same arms in another order.\<close>

definition sized_item_put :: "val \<Rightarrow> byte list res" where
  "sized_item_put value =
     (case value of
        VInt8 x \<Rightarrow> Inr [x]
      | VEnum8 _ x \<Rightarrow> Inr [x]
      | VInt16 x \<Rightarrow> Inr (put_u16 x)
      | VEnum16 _ x \<Rightarrow> Inr (put_u16 x)
      | VInt64 x \<Rightarrow> Inr (put_u64 x)
      | VDecimal64 _ x \<Rightarrow> Inr (put_u64 x)
      | VInt128 x \<Rightarrow> Inr (put_u128 x)
      | VDecimal128 _ x \<Rightarrow> Inr (put_u128 x)
      | VInt256 x \<Rightarrow> Inr (swap_endian_256 x)
      | VDecimal256 _ x \<Rightarrow> Inr (swap_endian_256 x)
      | VUInt8 x \<Rightarrow> Inr [x]
      | VUInt16 x \<Rightarrow> Inr (put_u16 x)
      | VUInt32 x \<Rightarrow> Inr (put_u32 x)
      | VUInt64 x \<Rightarrow> Inr (put_u64 x)
      | VUInt128 x \<Rightarrow> Inr (put_u128 x)
      | VUInt256 x \<Rightarrow> Inr (swap_endian_256 x)
      | VFloat32 x \<Rightarrow> Inr (put_u32 x)
      | VFloat64 x \<Rightarrow> Inr (put_u64 x)
      | VDecimal32 _ x \<Rightarrow> Inr (put_u32 x)
      | VInt32 x \<Rightarrow> Inr (put_u32 x)
      | VUuid x \<Rightarrow> Inr (uuid_bytes x)
      | VDate x \<Rightarrow> Inr (put_u16 x)
      | VDate32 x \<Rightarrow> Inr (put_u32 x)
      | VDateTime _ x \<Rightarrow> Inr (put_u32 x)
      | VDateTime64 _ x _ \<Rightarrow> Inr (put_u64 x)
      | VIpv4 x \<Rightarrow> Inr (put_u32 x)
      | VIpv6 x \<Rightarrow> Inr x
      | _ \<Rightarrow> Inl SerializeError)"

definition sized_write_sync :: "ty \<Rightarrow> val list \<Rightarrow> byte list res" where
  "sized_write_sync t values =
     write_each (\<lambda>value. sized_item_put (justify_null_ref value t)) values"

text \<open>The read of one value, with the end-of-input error of the reader.\<close>

definition read_as :: "('a \<Rightarrow> 'b) \<Rightarrow> 'a reader \<Rightarrow> 'b reader" where
  "read_as f p s = rbind (p s) (\<lambda>(x, s). Inr (f x, s))"

definition enum_lookup :: "('n \<Rightarrow> 'i \<Rightarrow> val) \<Rightarrow> ('n \<times> 'i) list \<Rightarrow> 'i reader \<Rightarrow> val reader" where
  "enum_lookup mk pairs p s =
     rbind (p s) (\<lambda>(idx, s).
       case find (\<lambda>pair. snd pair = idx) pairs of
         None \<Rightarrow> Inl DeserializeError
       | Some pair \<Rightarrow> Inr (mk (fst pair) idx, s))"

definition sized_item :: "err \<Rightarrow> ty \<Rightarrow> val reader" where
  "sized_item eof t s =
     (case t of
        Int8 \<Rightarrow> read_as VInt8 (read_u8 eof) s
      | Int16 \<Rightarrow> read_as VInt16 (read_u16 eof) s
      | Int32 \<Rightarrow> read_as VInt32 (read_u32 eof) s
      | Int64 \<Rightarrow> read_as VInt64 (read_u64 eof) s
      | Int128 \<Rightarrow> read_as VInt128 (read_u128 eof) s
      | Int256 \<Rightarrow> read_as (\<lambda>buf. VInt256 (rev buf)) (read_exact eof 32) s
      | UInt8 \<Rightarrow> read_as VUInt8 (read_u8 eof) s
      | UInt16 \<Rightarrow> read_as VUInt16 (read_u16 eof) s
      | UInt32 \<Rightarrow> read_as VUInt32 (read_u32 eof) s
      | UInt64 \<Rightarrow> read_as VUInt64 (read_u64 eof) s
      | UInt128 \<Rightarrow> read_as VUInt128 (read_u128 eof) s
      | UInt256 \<Rightarrow> read_as (\<lambda>buf. VUInt256 (rev buf)) (read_exact eof 32) s
      | Float32 \<Rightarrow> read_as VFloat32 (read_u32 eof) s
      | Float64 \<Rightarrow> read_as VFloat64 (read_u64 eof) s
      | Decimal32 n \<Rightarrow> read_as (VDecimal32 n) (read_u32 eof) s
      | Decimal64 n \<Rightarrow> read_as (VDecimal64 n) (read_u64 eof) s
      | Decimal128 n \<Rightarrow> read_as (VDecimal128 n) (read_u128 eof) s
      | Decimal256 n \<Rightarrow> read_as (\<lambda>buf. VDecimal256 n (rev buf)) (read_exact eof 32) s
      | Uuid \<Rightarrow> read_as VUuid (read_uuid eof) s
      | Date \<Rightarrow> read_as VDate (read_u16 eof) s
      | Date32 \<Rightarrow> read_as VDate32 (read_u32 eof) s
      | DateTime tz \<Rightarrow> read_as (VDateTime tz) (read_u32 eof) s
      | Ipv4 \<Rightarrow> read_as VIpv4 (read_u32 eof) s
      | Ipv6 \<Rightarrow> read_as VIpv6 (read_exact eof 16) s
      | DateTime64 precision tz \<Rightarrow>
          read_as (\<lambda>raw. VDateTime64 tz raw precision) (read_u64 eof) s
      | Enum8 pairs \<Rightarrow> enum_lookup VEnum8 pairs (read_u8 eof) s
      | Enum16 pairs \<Rightarrow> enum_lookup VEnum16 pairs (read_u16 eof) s
      | _ \<Rightarrow> Inl DeserializeError)"

definition sized_read :: "ty \<Rightarrow> nat \<Rightarrow> val list reader" where
  "sized_read t rows s = read_n rows (sized_item Io t) s"

definition sized_read_sync :: "ty \<Rightarrow> nat \<Rightarrow> val list reader" where
  "sized_read_sync t rows s = read_n rows (sized_item BytesRead t) s"

section \<open>Strings\<close>

text \<open>A value longer than the fixed size is cut, a shorter one is padded with zero bytes.\<close>

definition emit_bytes :: "ty \<Rightarrow> byte list \<Rightarrow> byte list" where
  "emit_bytes t bytes =
     (case t of
        FixedSizedString s \<Rightarrow>
          (if length bytes \<ge> s then take s bytes
           else bytes @ replicate (s - length bytes) 0)
      | _ \<Rightarrow> write_string bytes)"

definition emit_bytes_sync :: "ty \<Rightarrow> byte list \<Rightarrow> byte list" where
  "emit_bytes_sync t bytes =
     (case t of
        FixedSizedString s \<Rightarrow>
          (if length bytes \<ge> s then take s bytes
           else bytes @ replicate (s - length bytes) 0)
      | _ \<Rightarrow> put_string bytes)"

text \<open>The bytes of an array of 8-bit integers; other items are dropped.\<close>

definition byte_items :: "val list \<Rightarrow> byte list" where
  "byte_items items =
     List.map_filter (\<lambda>x. case x of VUInt8 b \<Rightarrow> Some b | VInt8 b \<Rightarrow> Some b | _ \<Rightarrow> None) items"

definition string_item_bytes :: "(ty \<Rightarrow> byte list \<Rightarrow> byte list) \<Rightarrow> ty \<Rightarrow> val \<Rightarrow> byte list res" where
  "string_item_bytes emit t value =
     (case (if value_eq value VNull then default_value t else value) of
        VString bytes \<Rightarrow> Inr (emit t bytes)
      | VArray items \<Rightarrow> Inr (emit t (byte_items items))
      | _ \<Rightarrow> Inl SerializeError)"

definition string_write :: "ty \<Rightarrow> val list \<Rightarrow> byte list res" where
  "string_write t values = write_each (string_item_bytes emit_bytes t) values"

definition string_write_sync :: "ty \<Rightarrow> val list \<Rightarrow> byte list res" where
  "string_write_sync t values = write_each (string_item_bytes emit_bytes_sync t) values"

text \<open>A fixed string ends at its first zero byte.\<close>

definition until_null :: "byte list \<Rightarrow> byte list" where
  "until_null buf = takeWhile (\<lambda>x. x \<noteq> 0) buf"

definition string_read :: "ty \<Rightarrow> nat \<Rightarrow> val list reader" where
  "string_read t rows s =
     (case t of
        String \<Rightarrow> read_n rows (read_as VString read_string) s
      | Binary \<Rightarrow> read_n rows (read_as VString read_string) s
      | FixedSizedString n \<Rightarrow>
          read_n rows (read_as (\<lambda>buf. VString (until_null buf)) (read_exact Io n)) s
      | FixedSizedBinary n \<Rightarrow>
          read_n rows (read_as (\<lambda>buf. VString (until_null buf)) (read_exact Io n)) s
      | _ \<Rightarrow> Inl DeserializeError)"

definition string_read_sync :: "ty \<Rightarrow> nat \<Rightarrow> val list reader" where
  "string_read_sync t rows s =
     (case t of
        String \<Rightarrow> read_n rows (read_as VString try_get_string) s
      | Binary \<Rightarrow> read_n rows (read_as VString try_get_string) s
      | FixedSizedString n \<Rightarrow>
          read_n rows (read_as (\<lambda>buf. VString (until_null buf)) (read_exact BytesRead n)) s
      | FixedSizedBinary n \<Rightarrow>
          read_n rows (read_as (\<lambda>buf. VString (until_null buf)) (read_exact BytesRead n)) s
      | _ \<Rightarrow> Inl DeserializeError)"

section \<open>JSON texts\<close>

definition object_item_bytes :: "(byte list \<Rightarrow> byte list) \<Rightarrow> ty \<Rightarrow> val \<Rightarrow> byte list res" where
  "object_item_bytes put t value =
     (case (if value_eq value VNull then default_value t else value) of
        VObject bytes \<Rightarrow> Inr (put bytes)
      | _ \<Rightarrow> Inl SerializeError)"

definition object_write :: "ty \<Rightarrow> val list \<Rightarrow> byte list res" where
  "object_write t values = write_each (object_item_bytes write_string t) values"

definition object_write_sync :: "ty \<Rightarrow> val list \<Rightarrow> byte list res" where
  "object_write_sync t values = write_each (object_item_bytes put_string t) values"

definition object_read :: "ty \<Rightarrow> nat \<Rightarrow> val list reader" where
  "object_read t rows s =
     (case t of
        Object \<Rightarrow> read_n rows (read_as VObject read_string) s
      | String \<Rightarrow> read_n rows (read_as VString read_string) s
      | Binary \<Rightarrow> read_n rows (read_as VString read_string) s
      | _ \<Rightarrow> Inl DeserializeError)"

definition object_read_sync :: "ty \<Rightarrow> nat \<Rightarrow> val list reader" where
  "object_read_sync t rows s =
     (case t of
        Object \<Rightarrow> read_n rows (read_as VObject try_get_string) s
      | String \<Rightarrow> read_n rows (read_as VString try_get_string) s
      | Binary \<Rightarrow> read_n rows (read_as VString try_get_string) s
      | _ \<Rightarrow> Inl DeserializeError)"

section \<open>The asynchronous and the in-memory writers agree\<close>

lemma sized_item_put_eq: "sized_item_put = sized_item_bytes"
  by (rule ext) (simp add: sized_item_put_def sized_item_bytes_def)

lemma emit_bytes_sync_eq: "emit_bytes_sync = emit_bytes"
  by (intro ext) (simp add: emit_bytes_sync_def emit_bytes_def split: ty.split)

lemma put_string_eq_fun: "put_string = write_string"
  by (rule ext) simp

lemma item_writers_sync [simp]:
  "sized_write_sync t vs = sized_write t vs"
  "string_write_sync t vs = string_write t vs"
  "object_write_sync t vs = object_write t vs"
  unfolding sized_write_sync_def sized_write_def sized_item_put_eq string_write_sync_def
    string_write_def emit_bytes_sync_eq object_write_sync_def object_write_def put_string_eq_fun
  by (rule refl)+

section \<open>Round trips of the items\<close>

text \<open>
  A value that its type writes and reads back. For an enum this is a value whose name is
  the one the type gives to its number; for a fixed string one that fits and holds no zero
  byte.
\<close>

definition item_ok :: "ty \<Rightarrow> val \<Rightarrow> bool" where
  "item_ok t v =
     (case t of
        Int8 \<Rightarrow> (case v of VInt8 _ \<Rightarrow> True | _ \<Rightarrow> False)
      | Int16 \<Rightarrow> (case v of VInt16 _ \<Rightarrow> True | _ \<Rightarrow> False)
      | Int32 \<Rightarrow> (case v of VInt32 _ \<Rightarrow> True | _ \<Rightarrow> False)
      | Int64 \<Rightarrow> (case v of VInt64 _ \<Rightarrow> True | _ \<Rightarrow> False)
      | Int128 \<Rightarrow> (case v of VInt128 _ \<Rightarrow> True | _ \<Rightarrow> False)
      | Int256 \<Rightarrow> (case v of VInt256 x \<Rightarrow> length x = 32 | _ \<Rightarrow> False)
      | UInt8 \<Rightarrow> (case v of VUInt8 _ \<Rightarrow> True | _ \<Rightarrow> False)
      | UInt16 \<Rightarrow> (case v of VUInt16 _ \<Rightarrow> True | _ \<Rightarrow> False)
      | UInt32 \<Rightarrow> (case v of VUInt32 _ \<Rightarrow> True | _ \<Rightarrow> False)
      | UInt64 \<Rightarrow> (case v of VUInt64 _ \<Rightarrow> True | _ \<Rightarrow> False)
      | UInt128 \<Rightarrow> (case v of VUInt128 _ \<Rightarrow> True | _ \<Rightarrow> False)
      | UInt256 \<Rightarrow> (case v of VUInt256 x \<Rightarrow> length x = 32 | _ \<Rightarrow> False)
      | Float32 \<Rightarrow> (case v of VFloat32 _ \<Rightarrow> True | _ \<Rightarrow> False)
      | Float64 \<Rightarrow> (case v of VFloat64 _ \<Rightarrow> True | _ \<Rightarrow> False)
      | Decimal32 s \<Rightarrow> (case v of VDecimal32 s' _ \<Rightarrow> s' = s | _ \<Rightarrow> False)
      | Decimal64 s \<Rightarrow> (case v of VDecimal64 s' _ \<Rightarrow> s' = s | _ \<Rightarrow> False)
      | Decimal128 s \<Rightarrow> (case v of VDecimal128 s' _ \<Rightarrow> s' = s | _ \<Rightarrow> False)
      | Decimal256 s \<Rightarrow> (case v of VDecimal256 s' x \<Rightarrow> s' = s \<and> length x = 32 | _ \<Rightarrow> False)
      | Uuid \<Rightarrow> (case v of VUuid _ \<Rightarrow> True | _ \<Rightarrow> False)
      | Date \<Rightarrow> (case v of VDate _ \<Rightarrow> True | _ \<Rightarrow> False)
      | Date32 \<Rightarrow> (case v of VDate32 _ \<Rightarrow> True | _ \<Rightarrow> False)
      | DateTime tz \<Rightarrow> (case v of VDateTime tz' _ \<Rightarrow> tz' = tz | _ \<Rightarrow> False)
      | DateTime64 p tz \<Rightarrow> (case v of VDateTime64 tz' _ p' \<Rightarrow> tz' = tz \<and> p' = p | _ \<Rightarrow> False)
      | Ipv4 \<Rightarrow> (case v of VIpv4 _ \<Rightarrow> True | _ \<Rightarrow> False)
      | Ipv6 \<Rightarrow> (case v of VIpv6 x \<Rightarrow> length x = 16 | _ \<Rightarrow> False)
      | Enum8 pairs \<Rightarrow>
          (case v of VEnum8 n i \<Rightarrow> find (\<lambda>pair. snd pair = i) pairs = Some (n, i) | _ \<Rightarrow> False)
      | Enum16 pairs \<Rightarrow>
          (case v of VEnum16 n i \<Rightarrow> find (\<lambda>pair. snd pair = i) pairs = Some (n, i) | _ \<Rightarrow> False)
      | String \<Rightarrow> (case v of VString bs \<Rightarrow> length bs \<le> MAX_STRING_SIZE | _ \<Rightarrow> False)
      | Binary \<Rightarrow> (case v of VString bs \<Rightarrow> length bs \<le> MAX_STRING_SIZE | _ \<Rightarrow> False)
      | FixedSizedString n \<Rightarrow>
          (case v of VString bs \<Rightarrow> length bs \<le> n \<and> list_all (\<lambda>b. b \<noteq> 0) bs | _ \<Rightarrow> False)
      | Object \<Rightarrow> (case v of VObject bs \<Rightarrow> length bs \<le> MAX_STRING_SIZE | _ \<Rightarrow> False)
      | _ \<Rightarrow> False)"

text \<open>The three families of types, as the dispatch of \<open>serialize_column\<close> groups them.\<close>

definition sized_type :: "ty \<Rightarrow> bool" where
  "sized_type t =
     (case t of
        Int8 \<Rightarrow> True | Int16 \<Rightarrow> True | Int32 \<Rightarrow> True | Int64 \<Rightarrow> True | Int128 \<Rightarrow> True
      | Int256 \<Rightarrow> True | UInt8 \<Rightarrow> True | UInt16 \<Rightarrow> True | UInt32 \<Rightarrow> True | UInt64 \<Rightarrow> True
      | UInt128 \<Rightarrow> True | UInt256 \<Rightarrow> True | Float32 \<Rightarrow> True | Float64 \<Rightarrow> True
      | Decimal32 _ \<Rightarrow> True | Decimal64 _ \<Rightarrow> True | Decimal128 _ \<Rightarrow> True | Decimal256 _ \<Rightarrow> True
      | Uuid \<Rightarrow> True | Date \<Rightarrow> True | Date32 \<Rightarrow> True | DateTime _ \<Rightarrow> True | DateTime64 _ _ \<Rightarrow> True
      | Ipv4 \<Rightarrow> True | Ipv6 \<Rightarrow> True | Enum8 _ \<Rightarrow> True | Enum16 _ \<Rightarrow> True
      | _ \<Rightarrow> False)"

definition string_type :: "ty \<Rightarrow> bool" where
  "string_type t =
     (case t of
        String \<Rightarrow> True | FixedSizedString _ \<Rightarrow> True | Binary \<Rightarrow> True | FixedSizedBinary _ \<Rightarrow> True
      | _ \<Rightarrow> False)"

lemma ucast_halves: "push_bit 64 (ucast (ucast (drop_bit 64 n) :: u64)) OR ucast (ucast n :: u64) = (n :: u128)"
  by (rule bit_word_eqI) (auto simp: bit_simps)

lemma read_uuid_bytes [simp]: "read_uuid eof (uuid_bytes n @ r) = Inr (n, r)"
  by (simp add: read_uuid_def uuid_bytes_def ucast_halves)

lemma read_as_Inr [simp]: "p s = Inr (x, r) \<Longrightarrow> read_as f p s = Inr (f x, r)"
  by (simp add: read_as_def)

lemma read_exact_rev [simp]: "length x = n \<Longrightarrow> read_exact eof n (rev x @ r) = Inr (rev x, r)"
  by simp

lemma item_ok_not_Null: "item_ok t v \<Longrightarrow> v \<noteq> VNull"
  by (auto simp: item_ok_def split: ty.splits)

text \<open>What a value is written as: the default of the type for a null.\<close>

lemma justify_null_ref_item [simp]: "v \<noteq> VNull \<Longrightarrow> justify_null_ref v t = v"
  by (simp add: justify_null_ref_def)

lemma sized_item_read:
  assumes "sized_type t" and "item_ok t v" and "sized_item_bytes v = Inr b"
  shows "sized_item eof t (b @ r) = Inr (v, r)"
  using assms
  by (cases t; simp add: sized_type_def item_ok_def)
    (cases v; auto simp: sized_item_bytes_def sized_item_def swap_endian_256_def read_as_def
      enum_lookup_def)+

lemma sized_item_bytes_ok: "sized_type t \<Longrightarrow> item_ok t v \<Longrightarrow> is_ok (sized_item_bytes v)"
  by (cases v; simp add: sized_item_bytes_def) (cases t; simp add: sized_type_def item_ok_def)+

text \<open>
  Where a null of a nullable column is written as the default of the inner type: the types
  whose default is a value of theirs.
\<close>

definition null_ok :: "ty \<Rightarrow> bool" where
  "null_ok t \<longleftrightarrow>
     (case t of
        Enum8 pairs \<Rightarrow> list_ex (\<lambda>pair. snd pair = 0) pairs
      | Enum16 pairs \<Rightarrow> list_ex (\<lambda>pair. snd pair = 0) pairs
      | FixedSizedBinary _ \<Rightarrow> False
      | _ \<Rightarrow> sized_type t \<or> string_type t \<or> t = Object)"

text \<open>The value read back from an item: the item itself, something for a null.\<close>

definition null_item_ok :: "ty \<Rightarrow> val \<Rightarrow> bool" where
  "null_item_ok t v \<longleftrightarrow> item_ok t v \<or> v = VNull \<and> null_ok t"

definition null_read :: "ty \<Rightarrow> val" where
  "null_read t =
     (case t of
        Enum8 pairs \<Rightarrow> VEnum8 (fst (the (find (\<lambda>pair. snd pair = 0) pairs))) 0
      | Enum16 pairs \<Rightarrow> VEnum16 (fst (the (find (\<lambda>pair. snd pair = 0) pairs))) 0
      | _ \<Rightarrow> default_value t)"

definition item_read :: "ty \<Rightarrow> val \<Rightarrow> val" where
  "item_read t v = (if v = VNull then null_read t else v)"

lemma find_ex: "list_ex P xs \<Longrightarrow> \<exists>x. find P xs = Some x \<and> P x"
  by (induction xs) auto

lemma null_read_ok: "null_ok t \<Longrightarrow> item_ok t (null_read t)"
  by (cases t) (auto simp: null_ok_def null_read_def item_ok_def sized_type_def string_type_def
      zero32_def MAX_STRING_SIZE_def dest!: find_ex)

lemma null_read_bytes:
  "null_ok t \<Longrightarrow> sized_item_bytes (default_value t) = sized_item_bytes (null_read t)"
  by (cases t) (auto simp: null_ok_def null_read_def sized_item_bytes_def)

lemma item_read_ok: "null_item_ok t v \<Longrightarrow> item_ok t (item_read t v)"
  using null_read_ok item_ok_not_Null by (auto simp: null_item_ok_def item_read_def)

lemma sized_justify_bytes:
  "null_item_ok t v \<Longrightarrow>
     sized_item_bytes (justify_null_ref v t) = sized_item_bytes (item_read t v)"
  using null_read_bytes [of t] item_ok_not_Null [of t v]
  by (auto simp: null_item_ok_def item_read_def justify_null_ref_def)

lemma sized_round:
  assumes "sized_type t" and "list_all (null_item_ok t) vs" and "sized_write t vs = Inr bs"
  shows "sized_read t (length vs) (bs @ r) = Inr (map (item_read t) vs, r)"
    and "sized_read_sync t (length vs) (bs @ r) = Inr (map (item_read t) vs, r)"
proof -
  have "sized_item eof t (b @ r) = Inr (item_read t v, r)"
    if "v \<in> set vs" "sized_item_bytes (justify_null_ref v t) = Inr b" for eof v b r
  proof -
    have v: "null_item_ok t v" using that(1) assms(2) by (simp add: list_all_iff)
    show ?thesis
      by (rule sized_item_read [OF assms(1) item_read_ok [OF v]])
        (simp add: that(2) sized_justify_bytes [OF v, symmetric])
  qed
  then show "sized_read t (length vs) (bs @ r) = Inr (map (item_read t) vs, r)"
    "sized_read_sync t (length vs) (bs @ r) = Inr (map (item_read t) vs, r)"
    unfolding sized_read_def sized_read_sync_def
    by (intro read_write_each [OF assms(3) [unfolded sized_write_def]]; blast)+
qed

lemma sized_write_ok: "sized_type t \<Longrightarrow> list_all (null_item_ok t) vs \<Longrightarrow> is_ok (sized_write t vs)"
  unfolding sized_write_def
  by (rule write_each_ok) (simp add: list_all_iff sized_justify_bytes sized_item_bytes_ok item_read_ok)

text \<open>Strings and JSON texts.\<close>

lemma until_null_padded: "list_all (\<lambda>b. b \<noteq> 0) bs \<Longrightarrow> until_null (bs @ replicate k 0) = bs"
  by (induction bs) (auto simp: until_null_def intro: takeWhile_eq_Nil_iff [THEN iffD2])

lemma until_null_all: "list_all (\<lambda>b. b \<noteq> 0) bs \<Longrightarrow> until_null bs = bs"
  using until_null_padded [of bs 0] by simp

lemma read_string_small [simp]:
  "length bs \<le> MAX_STRING_SIZE \<Longrightarrow> read_string (write_string bs @ r) = Inr (bs, r)"
  "length bs \<le> MAX_STRING_SIZE \<Longrightarrow> try_get_string (write_string bs @ r) = Inr (bs, r)"
  by (simp_all add: read_string_write try_get_string_eq)

text \<open>The bytes of the fixed string, and reading them.\<close>

lemma read_fixed_string:
  assumes "length bs \<le> n" and "list_all (\<lambda>b. b \<noteq> 0) bs"
  shows "read_as (\<lambda>buf. VString (until_null buf)) (read_exact eof n)
      (emit_bytes (FixedSizedString n) bs @ r) = Inr (VString bs, r)"
proof (cases "length bs = n")
  case True
  then show ?thesis using until_null_all [OF assms(2)] by (simp add: emit_bytes_def read_as_def)
next
  case False
  then have "read_exact eof n ((bs @ replicate (n - length bs) 0) @ r)
      = Inr (bs @ replicate (n - length bs) 0, r)"
    using assms(1) by (intro read_exact_append) simp
  then show ?thesis
    using False assms until_null_padded [OF assms(2)] by (simp add: emit_bytes_def read_as_def)
qed

lemma string_item_emit:
  assumes "string_type t" and "null_item_ok t v" and "string_item_bytes emit_bytes t v = Inr b"
  shows "\<exists>bs. item_read t v = VString bs \<and> item_ok t (VString bs) \<and> b = emit_bytes t bs"
  using assms item_read_ok [OF assms(2)]
  by (cases t; simp add: string_type_def)
    (cases v; auto simp: string_type_def item_ok_def item_read_def null_read_def
      null_item_ok_def null_ok_def string_item_bytes_def)+

lemma string_round:
  assumes "string_type t" and "list_all (null_item_ok t) vs" and "string_write t vs = Inr bs"
  shows "string_read t (length vs) (bs @ r) = Inr (map (item_read t) vs, r)"
    and "string_read_sync t (length vs) (bs @ r) = Inr (map (item_read t) vs, r)"
proof -
  have each: "read_n (length vs) p (bs @ r) = Inr (map (item_read t) vs, r)"
    if "\<And>bs r. item_ok t (VString bs) \<Longrightarrow> p (emit_bytes t bs @ r) = Inr (VString bs, r)" for p
  proof (rule read_write_each [OF assms(3) [unfolded string_write_def]])
    fix v b r
    assume "v \<in> set vs" and b: "string_item_bytes emit_bytes t v = Inr b"
    then have "null_item_ok t v" using assms(2) by (simp add: list_all_iff)
    from string_item_emit [OF assms(1) this b] show "p (b @ r) = Inr (item_read t v, r)"
      using that by auto
  qed
  have "item_ok t (VString bs) \<Longrightarrow> t \<noteq> FixedSizedBinary n" for n bs by (auto simp: item_ok_def)
  moreover have "t = FixedSizedBinary n \<Longrightarrow> vs = []" for n
    using assms(2) by (cases vs) (auto simp: null_item_ok_def item_ok_def null_ok_def)
  ultimately have none: "t = FixedSizedBinary n \<Longrightarrow> vs = [] \<and> bs = []" for n
    using assms(3) by (auto simp: string_write_def)
  have var: "read_n (length vs) (read_as VString p) (bs @ r) = Inr (map (item_read t) vs, r)"
    if "t = String \<or> t = Binary" and "p = read_string \<or> p = try_get_string" for p
    by (rule each) (use that in \<open>auto simp: item_ok_def emit_bytes_def read_as_def\<close>)
  have fixed: "read_n (length vs) (read_as (\<lambda>buf. VString (until_null buf)) (read_exact eof n)) (bs @ r)
      = Inr (map (item_read t) vs, r)" if "t = FixedSizedString n" for n eof
    by (rule each) (use that in \<open>simp add: item_ok_def read_fixed_string\<close>)
  show "string_read t (length vs) (bs @ r) = Inr (map (item_read t) vs, r)"
    using assms(1) var fixed none by (cases t) (simp_all add: string_type_def string_read_def)
  show "string_read_sync t (length vs) (bs @ r) = Inr (map (item_read t) vs, r)"
    using assms(1) var fixed none by (cases t) (simp_all add: string_type_def string_read_sync_def)
qed

lemma string_write_ok: "string_type t \<Longrightarrow> list_all (null_item_ok t) vs \<Longrightarrow> is_ok (string_write t vs)"
  unfolding string_write_def
proof (rule write_each_ok)
  fix v
  assume "string_type t" and "list_all (null_item_ok t) vs" and "v \<in> set vs"
  then show "is_ok (string_item_bytes emit_bytes t v)"
    by (cases t; simp add: string_type_def)
      (cases v; auto simp: list_all_iff string_item_bytes_def null_item_ok_def item_ok_def
        null_ok_def string_type_def)+
qed

lemma object_round:
  assumes "list_all (null_item_ok Object) vs" and "object_write Object vs = Inr bs"
  shows "object_read Object (length vs) (bs @ r) = Inr (map (item_read Object) vs, r)"
    and "object_read_sync Object (length vs) (bs @ r) = Inr (map (item_read Object) vs, r)"
proof -
  have item: "null_item_ok Object v \<Longrightarrow> object_item_bytes write_string Object v = Inr b \<Longrightarrow>
    \<exists>bs. item_read Object v = VObject bs \<and> length bs \<le> MAX_STRING_SIZE \<and> b = write_string bs" for v b
    by (cases v) (auto simp: null_item_ok_def item_ok_def object_item_bytes_def item_read_def
        null_read_def MAX_STRING_SIZE_def)
  have "read_n (length vs) p (bs @ r) = Inr (map (item_read Object) vs, r)"
    if "p = read_as VObject read_string \<or> p = read_as VObject try_get_string" for p
  proof (rule read_write_each [OF assms(2) [unfolded object_write_def]])
    fix v b r
    assume "v \<in> set vs" and b: "object_item_bytes write_string Object v = Inr b"
    then have "null_item_ok Object v" using assms(1) by (simp add: list_all_iff)
    from item [OF this b] show "p (b @ r) = Inr (item_read Object v, r)" using that by auto
  qed
  then show "object_read Object (length vs) (bs @ r) = Inr (map (item_read Object) vs, r)"
    "object_read_sync Object (length vs) (bs @ r) = Inr (map (item_read Object) vs, r)"
    by (simp_all add: object_read_def object_read_sync_def)
qed

lemma object_write_ok: "list_all (null_item_ok Object) vs \<Longrightarrow> is_ok (object_write Object vs)"
  unfolding object_write_def
proof (rule write_each_ok)
  fix v
  assume "list_all (null_item_ok Object) vs" and "v \<in> set vs"
  then show "is_ok (object_item_bytes write_string Object v)"
    by (cases v) (auto simp: list_all_iff object_item_bytes_def null_item_ok_def item_ok_def)
qed

end
