(* ===== verification/Columns.thy ===== *)
theory Columns
  imports Items
begin

text \<open>
  The column codecs of every type: \<open>Type::serialize_column\<close>, \<open>deserialize_column\<close> and
  their in-memory forms (native/types.rs), with the composite codecs under
  native/types/serialize/ and native/types/deserialize/, and the prefixes of
  native/types/serialize.rs and deserialize.rs.

  \<open>indexmap::IndexSet\<close> is not part of the crate: the parameter \<open>iset\<close> gives the keys of
  the set built by inserting the elements of a list, in the order the set iterates them;
  the index of a key is its position there.
\<close>

section \<open>Constants\<close>

definition NEED_GLOBAL_DICTIONARY_BIT :: u64 where
  "NEED_GLOBAL_DICTIONARY_BIT = push_bit 8 1"

definition HAS_ADDITIONAL_KEYS_BIT :: u64 where
  "HAS_ADDITIONAL_KEYS_BIT = push_bit 9 1"

definition NEED_UPDATE_DICTIONARY_BIT :: u64 where
  "NEED_UPDATE_DICTIONARY_BIT = push_bit 10 1"

definition LOW_CARDINALITY_VERSION :: u64 where
  "LOW_CARDINALITY_VERSION = 1"

text \<open>The nesting of a type, with the geometric types as what they are read through.\<close>

fun ty_weight :: "ty \<Rightarrow> nat" where
  "ty_weight Point = 1"
| "ty_weight Ring = 2"
| "ty_weight Polygon = 3"
| "ty_weight MultiPolygon = 4"
| "ty_weight (Nullable t) = Suc (ty_weight t)"
| "ty_weight (LowCardinality t) = Suc (ty_weight t)"
| "ty_weight (Array t) = Suc (ty_weight t)"
| "ty_weight (Tuple ts) = Suc (sum_list (map ty_weight ts))"
| "ty_weight (Map k v) = 3 + ty_weight k + ty_weight v"
| "ty_weight _ = 0"

lemma ty_weight_strip_null: "ty_weight (strip_null t) \<le> ty_weight t"
  by (cases t) (simp_all add: strip_null_def)

lemma ty_weight_member: "t \<in> set ts \<Longrightarrow> ty_weight t \<le> sum_list (map ty_weight ts)"
  by (rule member_le_sum_list) simp_all

section \<open>Writing\<close>

subsection \<open>Arrays and the geometric types\<close>

text \<open>
  \<open>ArraySerializerGeneric\<close>: the end offset of every array, then the items of all of them
  as one column. \<open>value_len\<close> and \<open>values_of\<close> are the functions of the trait.
\<close>

fun array_offsets :: "(val \<Rightarrow> nat res) \<Rightarrow> nat \<Rightarrow> val list \<Rightarrow> byte list res" where
  "array_offsets value_len offset [] = Inr []"
| "array_offsets value_len offset (v # vs) =
     rbind (value_len v) (\<lambda>n.
     rbind (array_offsets value_len (offset + n) vs) (\<lambda>rest.
       Inr (put_u64 (word_of_nat (offset + n)) @ rest)))"

definition array_write ::
  "(val \<Rightarrow> nat res) \<Rightarrow> (val \<Rightarrow> val list res) \<Rightarrow> (val list \<Rightarrow> byte list res) \<Rightarrow> val list \<Rightarrow> byte list res"
where
  "array_write value_len values_of write_inner values =
     rbind (array_offsets value_len 0 values) (\<lambda>offsets.
     rbind (traverse values_of values) (\<lambda>all_values.
     rbind (write_inner (concat all_values)) (\<lambda>items.
       Inr (offsets @ items))))"

definition array_len :: "val \<Rightarrow> nat res" where
  "array_len v = rmap length (unwrap_array_ref v)"

definition ring_values :: "val \<Rightarrow> val list res" where
  "ring_values v = (case v of VRing a \<Rightarrow> Inr (map VPoint a) | _ \<Rightarrow> Inl SerializeError)"

definition polygon_values :: "val \<Rightarrow> val list res" where
  "polygon_values v = (case v of VPolygon a \<Rightarrow> Inr (map VRing a) | _ \<Rightarrow> Inl SerializeError)"

definition multi_polygon_values :: "val \<Rightarrow> val list res" where
  "multi_polygon_values v =
     (case v of VMultiPolygon a \<Rightarrow> Inr (map VPolygon a) | _ \<Rightarrow> Inl SerializeError)"

definition ring_len :: "val \<Rightarrow> nat res" where
  "ring_len v = (case v of VRing a \<Rightarrow> Inr (length a) | _ \<Rightarrow> Inl SerializeError)"

definition polygon_len :: "val \<Rightarrow> nat res" where
  "polygon_len v = (case v of VPolygon a \<Rightarrow> Inr (length a) | _ \<Rightarrow> Inl SerializeError)"

definition multi_polygon_len :: "val \<Rightarrow> nat res" where
  "multi_polygon_len v = (case v of VMultiPolygon a \<Rightarrow> Inr (length a) | _ \<Rightarrow> Inl SerializeError)"

text \<open>A point is two columns of floats; any other value is \<open>unreachable!()\<close>.\<close>

definition point_coords :: "val \<Rightarrow> point res" where
  "point_coords v = (case v of VPoint p \<Rightarrow> Inr p | _ \<Rightarrow> Inl Panic)"

definition point_write :: "(val list \<Rightarrow> byte list res) \<Rightarrow> val list \<Rightarrow> byte list res" where
  "point_write write_float values =
     rbind (traverse point_coords values) (\<lambda>points.
     rbind (write_float (map (\<lambda>p. VFloat64 (fst p)) points)) (\<lambda>xs.
     rbind (write_float (map (\<lambda>p. VFloat64 (snd p)) points)) (\<lambda>ys.
       Inr (xs @ ys))))"

subsection \<open>Tuples\<close>

text \<open>\<open>columns[i].push(value)\<close> for the items of one tuple; an index past the columns panics.\<close>

fun push_row :: "'a list list \<Rightarrow> 'a list \<Rightarrow> 'a list list res" where
  "push_row columns [] = Inr columns"
| "push_row [] (v # vs) = Inl Panic"
| "push_row (c # columns) (v # vs) = rbind (push_row columns vs) (\<lambda>r. Inr ((c @ [v]) # r))"

fun tuple_columns :: "val list list \<Rightarrow> val list \<Rightarrow> val list list res" where
  "tuple_columns columns [] = Inr columns"
| "tuple_columns columns (value # values) =
     rbind (unwrap_tuple_value value) (\<lambda>tuple.
     rbind (push_row columns tuple) (\<lambda>columns. tuple_columns columns values))"

definition tuple_write :: "(val list \<Rightarrow> byte list res) list \<Rightarrow> val list \<Rightarrow> byte list res" where
  "tuple_write write_inner values =
     rbind (tuple_columns (replicate (length write_inner) []) values) (\<lambda>columns.
       write_each (\<lambda>(w, column). w column) (zip write_inner columns))"

subsection \<open>Maps\<close>

text \<open>The offsets of a column of maps with all its keys and all its values.\<close>

fun map_gather :: "nat \<Rightarrow> val list \<Rightarrow> (byte list \<times> val list \<times> val list) res" where
  "map_gather seen [] = Inr ([], [], [])"
| "map_gather seen (value # values) =
     (case value of
        VMap ks vs \<Rightarrow>
          (if length ks \<noteq> length vs then Inl Panic
           else rbind (map_gather (seen + length ks) values) (\<lambda>(offsets, keys, vals).
             Inr (put_u64 (word_of_nat (seen + length ks)) @ offsets, ks @ keys, vs @ vals)))
      | _ \<Rightarrow> Inl SerializeError)"

definition map_write ::
  "(val list \<Rightarrow> byte list res) \<Rightarrow> (val list \<Rightarrow> byte list res) \<Rightarrow> val list \<Rightarrow> byte list res" where
  "map_write write_key write_value values =
     rbind (map_gather 0 values) (\<lambda>(offsets, total_keys, total_values).
     rbind (write_key total_keys) (\<lambda>ks.
     rbind (write_value total_values) (\<lambda>vs.
       Inr (offsets @ ks @ vs))))"

subsection \<open>Nullables\<close>

definition null_mask :: "val list \<Rightarrow> byte list" where
  "null_mask values = map (\<lambda>v. if value_eq v VNull then 1 else 0) values"

definition nullable_write :: "(val list \<Rightarrow> byte list res) \<Rightarrow> val list \<Rightarrow> byte list res" where
  "nullable_write write_inner values =
     rbind (write_inner values) (\<lambda>bs. Inr (null_mask values @ bs))"

subsection \<open>Low cardinality\<close>

fun index_of :: "val list \<Rightarrow> val \<Rightarrow> nat option" where
  "index_of [] v = None"
| "index_of (k # ks) v = (if value_eq k v then Some 0 else map_option Suc (index_of ks v))"

definition lc_flags :: "nat \<Rightarrow> u64" where
  "lc_flags n =
     (if n > 2 ^ 32 - 1 then 3 else if n > 2 ^ 16 - 1 then 2 else if n > 2 ^ 8 - 1 then 1 else 0)
     OR HAS_ADDITIONAL_KEYS_BIT"

definition lc_index_bytes :: "nat \<Rightarrow> nat \<Rightarrow> byte list" where
  "lc_index_bytes n index =
     (if n > 2 ^ 32 - 1 then put_u64 (word_of_nat index)
      else if n > 2 ^ 16 - 1 then put_u32 (word_of_nat index)
      else if n > 2 ^ 8 - 1 then put_u16 (word_of_nat index)
      else [word_of_nat index])"

definition lc_keys :: "(val list \<Rightarrow> val list) \<Rightarrow> bool \<Rightarrow> val list \<Rightarrow> val list" where
  "lc_keys iset nullable values = iset ((if nullable then [VNull] else []) @ values)"

definition low_cardinality_write ::
  "(val list \<Rightarrow> val list) \<Rightarrow> bool \<Rightarrow> (val list \<Rightarrow> byte list res) \<Rightarrow> val list \<Rightarrow> byte list res" where
  "low_cardinality_write iset nullable write_inner values =
     (if values = [] then Inr []
      else let keys = lc_keys iset nullable values in
        rbind (write_inner keys) (\<lambda>key_bytes.
        rbind (write_each (\<lambda>v. case index_of keys v of
                 None \<Rightarrow> Inl Panic
               | Some index \<Rightarrow> Inr (lc_index_bytes (length keys) index)) values) (\<lambda>indexes.
          Inr (put_u64 (lc_flags (length keys)) @ put_u64 (word_of_nat (length keys)) @ key_bytes
               @ put_u64 (word_of_nat (length values)) @ indexes))))"

subsection \<open>The column of a type\<close>

function serialize_column :: "(val list \<Rightarrow> val list) \<Rightarrow> ty \<Rightarrow> val list \<Rightarrow> byte list res" where
  "serialize_column iset t values =
     (case t of
        String \<Rightarrow> string_write t values
      | FixedSizedString _ \<Rightarrow> string_write t values
      | Binary \<Rightarrow> string_write t values
      | FixedSizedBinary _ \<Rightarrow> string_write t values
      | Array inner \<Rightarrow>
          array_write array_len unwrap_array_value (serialize_column iset inner) values
      | Tuple inner_types \<Rightarrow> tuple_write (map (serialize_column iset) inner_types) values
      | Point \<Rightarrow> point_write (serialize_column iset Float64) values
      | Ring \<Rightarrow> array_write ring_len ring_values (serialize_column iset Point) values
      | Polygon \<Rightarrow> array_write polygon_len polygon_values (serialize_column iset Ring) values
      | MultiPolygon \<Rightarrow>
          array_write multi_polygon_len multi_polygon_values (serialize_column iset Polygon) values
      | Nullable inner \<Rightarrow> nullable_write (serialize_column iset inner) values
      | Map key value \<Rightarrow> map_write (serialize_column iset key) (serialize_column iset value) values
      | LowCardinality inner \<Rightarrow>
          low_cardinality_write iset (is_nullable inner)
            (serialize_column iset (strip_null inner)) values
      | Object \<Rightarrow> object_write t values
      | _ \<Rightarrow> sized_write t values)"
  by pat_completeness auto
termination
  by (relation "measure (\<lambda>(iset, t, values). ty_weight t)")
    (auto simp: less_Suc_eq_le ty_weight_strip_null intro: ty_weight_member)

declare serialize_column.simps [simp del]

text \<open>
  The in-memory writer: the composite codecs repeat the asynchronous ones with the
  in-memory writers of the inner columns.
\<close>

function serialize_column_sync :: "(val list \<Rightarrow> val list) \<Rightarrow> ty \<Rightarrow> val list \<Rightarrow> byte list res" where
  "serialize_column_sync iset t values =
     (case t of
        String \<Rightarrow> string_write_sync t values
      | FixedSizedString _ \<Rightarrow> string_write_sync t values
      | Binary \<Rightarrow> string_write_sync t values
      | FixedSizedBinary _ \<Rightarrow> string_write_sync t values
      | Array inner \<Rightarrow>
          array_write array_len unwrap_array_value (serialize_column_sync iset inner) values
      | Tuple inner_types \<Rightarrow> tuple_write (map (serialize_column_sync iset) inner_types) values
      | Point \<Rightarrow> point_write (serialize_column_sync iset Float64) values
      | Ring \<Rightarrow> array_write ring_len ring_values (serialize_column_sync iset Point) values
      | Polygon \<Rightarrow> array_write polygon_len polygon_values (serialize_column_sync iset Ring) values
      | MultiPolygon \<Rightarrow>
          array_write multi_polygon_len multi_polygon_values (serialize_column_sync iset Polygon) values
      | Nullable inner \<Rightarrow> nullable_write (serialize_column_sync iset inner) values
      | Map key value \<Rightarrow>
          map_write (serialize_column_sync iset key) (serialize_column_sync iset value) values
      | LowCardinality inner \<Rightarrow>
          low_cardinality_write iset (is_nullable inner)
            (serialize_column_sync iset (strip_null inner)) values
      | Object \<Rightarrow> object_write_sync t values
      | _ \<Rightarrow> sized_write_sync t values)"
  by pat_completeness auto
termination
  by (relation "measure (\<lambda>(iset, t, values). ty_weight t)")
    (auto simp: less_Suc_eq_le ty_weight_strip_null intro: ty_weight_member)

declare serialize_column_sync.simps [simp del]

lemma serialize_column_sync_eq:
  "serialize_column_sync iset t vs = serialize_column iset t vs"
proof (induction iset t vs rule: serialize_column.induct)
  case (1 iset t vs)
  have fn: "serialize_column_sync iset u = serialize_column iset u"
    if "\<And>vs. serialize_column_sync iset u vs = serialize_column iset u vs" for u
    using that by (rule ext)
  show ?case
    using "1.IH"
    by (cases t)
      (simp_all add: serialize_column_sync.simps serialize_column.simps fn
        cong: map_cong)
qed

section \<open>Reading\<close>

subsection \<open>Arrays and the geometric types\<close>

text \<open>
  Cut the items at the offsets. An offset smaller than the one before makes the
  subtraction \<open>offset - read_offset\<close> overflow.
\<close>

fun split_offsets :: "nat \<Rightarrow> nat list \<Rightarrow> 'a list \<Rightarrow> 'a list list res" where
  "split_offsets read_offset [] items = Inr []"
| "split_offsets read_offset (offset # offsets) items =
     (if offset < read_offset then Inl Panic
      else let len = offset - read_offset in
        rbind (split_offsets offset offsets (drop len items)) (\<lambda>r. Inr (take len items # r)))"

definition read_offsets :: "err \<Rightarrow> nat \<Rightarrow> nat list reader" where
  "read_offsets eof rows s = read_as (map unat) (read_n rows (read_u64 eof)) s"

text \<open>\<open>item_mapping\<close> and \<open>inner_value\<close> are the functions of \<open>ArrayDeserializerGeneric\<close>.\<close>

definition array_read ::
  "(val \<Rightarrow> 'i res) \<Rightarrow> ('i list \<Rightarrow> val) \<Rightarrow> (nat \<Rightarrow> val list reader) \<Rightarrow> nat \<Rightarrow> val list reader" where
  "array_read item_mapping inner_value read_inner rows s =
     (if rows = 0 then Inr ([], s)
      else rbind (read_offsets Io rows s) (\<lambda>(offsets, s).
        rbind (read_inner (last offsets) s) (\<lambda>(items, s).
        rbind (split_offsets 0 offsets items) (\<lambda>parts.
        rbind (traverse (traverse item_mapping) parts) (\<lambda>out.
          Inr (map inner_value out, s))))))"

text \<open>
  The in-memory reader has no test for zero rows: \<open>offsets.len() - 1\<close> overflows then.
\<close>

definition array_read_sync ::
  "(val \<Rightarrow> 'i res) \<Rightarrow> ('i list \<Rightarrow> val) \<Rightarrow> (nat \<Rightarrow> val list reader) \<Rightarrow> nat \<Rightarrow> val list reader" where
  "array_read_sync item_mapping inner_value read_inner rows s =
     rbind (read_offsets BytesRead rows s) (\<lambda>(offsets, s).
       if offsets = [] then Inl Panic
       else rbind (read_inner (last offsets) s) (\<lambda>(items, s).
        rbind (split_offsets 0 offsets items) (\<lambda>parts.
        rbind (traverse (traverse item_mapping) parts) (\<lambda>out.
          Inr (map inner_value out, s)))))"

definition point_item :: "val \<Rightarrow> point res" where
  "point_item v = (case v of VPoint p \<Rightarrow> Inr p | _ \<Rightarrow> Inl Panic)"

definition ring_item :: "val \<Rightarrow> point list res" where
  "ring_item v = (case v of VRing p \<Rightarrow> Inr p | _ \<Rightarrow> Inl Panic)"

definition polygon_item :: "val \<Rightarrow> point list list res" where
  "polygon_item v = (case v of VPolygon p \<Rightarrow> Inr p | _ \<Rightarrow> Inl Panic)"

text \<open>One coordinate of the points, from a column of floats.\<close>

fun set_coord :: "(u64 \<Rightarrow> point \<Rightarrow> point) \<Rightarrow> point list \<Rightarrow> val list \<Rightarrow> point list res" where
  "set_coord f points [] = Inr points"
| "set_coord f [] (v # vs) = Inl Panic"
| "set_coord f (p # points) (v # vs) =
     (case v of
        VFloat64 x \<Rightarrow> rbind (set_coord f points vs) (\<lambda>r. Inr (f x p # r))
      | _ \<Rightarrow> Inl Panic)"

definition point_read :: "(nat \<Rightarrow> val list reader) \<Rightarrow> nat \<Rightarrow> val list reader" where
  "point_read read_float rows s =
     rbind (read_float rows s) (\<lambda>(xs, s).
     rbind (set_coord (\<lambda>x p. (x, snd p)) (replicate rows (0, 0)) xs) (\<lambda>points.
     rbind (read_float rows s) (\<lambda>(ys, s).
     rbind (set_coord (\<lambda>y p. (fst p, y)) points ys) (\<lambda>points.
       Inr (map VPoint points, s)))))"

subsection \<open>Tuples\<close>

fun push_column :: "'a list list \<Rightarrow> 'a list \<Rightarrow> 'a list list res" where
  "push_column tuples [] = Inr tuples"
| "push_column [] (v # vs) = Inl Panic"
| "push_column (t # tuples) (v # vs) = rbind (push_column tuples vs) (\<lambda>r. Inr ((t @ [v]) # r))"

fun read_columns ::
  "nat \<Rightarrow> (nat \<Rightarrow> val list reader) list \<Rightarrow> val list list \<Rightarrow> val list list reader" where
  "read_columns rows [] tuples s = Inr (tuples, s)"
| "read_columns rows (p # ps) tuples s =
     rbind (p rows s) (\<lambda>(column, s).
     rbind (push_column tuples column) (\<lambda>tuples. read_columns rows ps tuples s))"

definition tuple_read :: "(nat \<Rightarrow> val list reader) list \<Rightarrow> nat \<Rightarrow> val list reader" where
  "tuple_read read_inner rows s =
     rbind (read_columns rows read_inner (replicate rows []) s) (\<lambda>(tuples, s).
       Inr (map VTuple tuples, s))"

subsection \<open>Maps\<close>

text \<open>
  Take keys and values up to the next offset; \<open>unwrap\<close> panics when they run out. An offset
  that is not larger than the last one gives an empty map.
\<close>

fun map_split :: "nat \<Rightarrow> nat list \<Rightarrow> val list \<Rightarrow> val list \<Rightarrow> val list res" where
  "map_split last_offset [] keys values = Inr []"
| "map_split last_offset (offset # offsets) keys values =
     (let n = offset - last_offset in
      if length keys < n \<or> length values < n then Inl Panic
      else rbind (map_split (max last_offset offset) offsets (drop n keys) (drop n values)) (\<lambda>r.
        Inr (VMap (take n keys) (take n values) # r)))"

definition map_read ::
  "(nat \<Rightarrow> val list reader) \<Rightarrow> (nat \<Rightarrow> val list reader) \<Rightarrow> nat \<Rightarrow> val list reader" where
  "map_read read_key read_value rows s =
     (if rows > MAX_STRING_SIZE then Inl Protocol
      else if rows = 0 then Inr ([], s)
      else rbind (read_offsets Io rows s) (\<lambda>(offsets, s).
        let total_length = last offsets in
        rbind (read_key total_length s) (\<lambda>(keys, s).
        if length keys \<noteq> total_length then Inl Panic
        else rbind (read_value total_length s) (\<lambda>(values, s).
          if length values \<noteq> total_length then Inl Panic
          else rbind (map_split 0 offsets keys values) (\<lambda>out. Inr (out, s))))))"

subsection \<open>Nullables\<close>

fun apply_mask :: "byte list \<Rightarrow> val list \<Rightarrow> val list res" where
  "apply_mask [] out = Inr out"
| "apply_mask (m # ms) [] = (if m \<noteq> 0 then Inl Panic else apply_mask ms [])"
| "apply_mask (m # ms) (v # out) =
     rbind (apply_mask ms out) (\<lambda>r. Inr ((if m \<noteq> 0 then VNull else v) # r))"

definition nullable_read :: "err \<Rightarrow> (nat \<Rightarrow> val list reader) \<Rightarrow> nat \<Rightarrow> val list reader" where
  "nullable_read eof read_inner rows s =
     rbind (read_exact eof rows s) (\<lambda>(mask, s).
     rbind (read_inner rows s) (\<lambda>(out, s).
     rbind (apply_mask mask out) (\<lambda>out. Inr (out, s))))"

subsection \<open>Low cardinality\<close>

text \<open>The variables of the loop \<open>while limit > 0\<close>.\<close>

record lc_state =
  limit :: nat
  num_pending_rows :: nat
  indexed_type :: ty
  global_dictionary :: "val list option"
  additional_keys :: "val list option"
  needs_global_dictionary :: bool
  has_additional_keys :: bool
  lc_nullable :: bool
  lc_output :: "val list"

definition lc_start :: "nat \<Rightarrow> lc_state" where
  "lc_start rows =
     \<lparr>limit = rows, num_pending_rows = 0, indexed_type = UInt8, global_dictionary = None,
      additional_keys = None, needs_global_dictionary = False, has_additional_keys = False,
      lc_nullable = False, lc_output = []\<rparr>"

definition lc_index_type :: "u64 \<Rightarrow> ty res" where
  "lc_index_type flags =
     (let x = flags AND 0xFF in
      if x = 0 then Inr UInt8 else if x = 1 then Inr UInt16
      else if x = 2 then Inr UInt32 else if x = 3 then Inr UInt64 else Inl DeserializeError)"

text \<open>The header of a run of indexes: flags, dictionaries, number of rows.\<close>

definition lc_header ::
  "bool \<Rightarrow> (nat \<Rightarrow> val list reader) \<Rightarrow> lc_state \<Rightarrow> lc_state reader" where
  "lc_header nullable read_inner st s =
     rbind (read_u64 Io s) (\<lambda>(flags, s).
     let has_keys = flags AND HAS_ADDITIONAL_KEYS_BIT \<noteq> 0;
         needs_global = flags AND NEED_GLOBAL_DICTIONARY_BIT \<noteq> 0;
         needs_update = flags AND NEED_UPDATE_DICTIONARY_BIT \<noteq> 0 in
     rbind (lc_index_type flags) (\<lambda>idx.
     rbind (if needs_global \<and> (global_dictionary st = None \<or> needs_update)
            then rbind (read_u64 Io s) (\<lambda>(count, s).
                 rbind (read_inner (unat count) s) (\<lambda>(index, s). Inr (Some index, s)))
            else Inr (global_dictionary st, s)) (\<lambda>(dictionary, s).
     rbind (if has_keys
            then rbind (read_u64 Io s) (\<lambda>(count, s).
                 rbind (read_inner (unat count) s) (\<lambda>(keys, s). Inr (Some keys, s)))
            else Inr (additional_keys st, s)) (\<lambda>(keys, s).
     rbind (read_u64 Io s) (\<lambda>(pending, s).
       Inr (st\<lparr>has_additional_keys := has_keys, needs_global_dictionary := needs_global,
              indexed_type := idx, lc_nullable := nullable, global_dictionary := dictionary,
              additional_keys := keys, num_pending_rows := unat pending\<rparr>, s))))))"

text \<open>The value of an index: \<open>get(entry).ok_or_else(..)\<close> on the dictionaries.\<close>

definition get_entry :: "val list \<Rightarrow> nat \<Rightarrow> val res" where
  "get_entry xs i = (if i < length xs then Inr (xs ! i) else Inl DeserializeError)"

definition need :: "'a option \<Rightarrow> 'a res" where
  "need x = (case x of None \<Rightarrow> Inl DeserializeError | Some y \<Rightarrow> Inr y)"

definition lc_values :: "lc_state \<Rightarrow> val list \<Rightarrow> val list res" where
  "lc_values st entries =
     (if has_additional_keys st \<and> \<not> needs_global_dictionary st then
        rbind (need (additional_keys st)) (\<lambda>keys.
          traverse (\<lambda>entry. rbind (index_value entry) (\<lambda>i.
            if lc_nullable st \<and> i = 0 then Inr VNull else get_entry keys i)) entries)
      else if needs_global_dictionary st \<and> \<not> has_additional_keys st then
        rbind (need (global_dictionary st)) (\<lambda>dictionary.
          traverse (\<lambda>entry. rbind (index_value entry) (get_entry dictionary)) entries)
      else if needs_global_dictionary st \<and> has_additional_keys st then
        rbind (need (additional_keys st)) (\<lambda>keys.
        rbind (need (global_dictionary st)) (\<lambda>dictionary.
          traverse (\<lambda>entry. rbind (index_value entry) (\<lambda>i.
            if lc_nullable st \<and> i = 0 then Inr VNull
            else if i < length keys then get_entry keys i
            else get_entry dictionary (i - length keys))) entries))
      else Inr [])"

text \<open>\<open>deserialize_column\<close> of a fixed-width type, as the indexes are read.\<close>

definition sized_column :: "ty \<Rightarrow> nat \<Rightarrow> val list reader" where
  "sized_column t rows s = (if rows > MAX_STRING_SIZE then Inl Protocol else sized_read t rows s)"

definition lc_turn :: "bool \<Rightarrow> (nat \<Rightarrow> val list reader) \<Rightarrow> lc_state \<Rightarrow> lc_state reader" where
  "lc_turn nullable read_inner st s =
     rbind (if num_pending_rows st = 0 then lc_header nullable read_inner st s else Inr (st, s))
       (\<lambda>(st, s).
     let reading_rows = min (limit st) (num_pending_rows st) in
     rbind (sized_column (indexed_type st) reading_rows s) (\<lambda>(entries, s).
     rbind (lc_values st entries) (\<lambda>out.
       Inr (st\<lparr>limit := limit st - reading_rows,
              num_pending_rows := num_pending_rows st - reading_rows,
              lc_output := lc_output st @ out\<rparr>, s))))"

text \<open>
  The loop, with fuel: a turn that does not bring \<open>limit\<close> to zero leaves no pending rows,
  so the next one reads a header of at least 16 bytes; more turns than bytes are not
  possible (\<open>low_cardinality_loop_ends\<close>).
\<close>

fun lc_loop ::
  "nat \<Rightarrow> bool \<Rightarrow> (nat \<Rightarrow> val list reader) \<Rightarrow> lc_state \<Rightarrow> val list reader" where
  "lc_loop fuel nullable read_inner st s =
     (if limit st = 0 then Inr (lc_output st, s)
      else case fuel of
        0 \<Rightarrow> Inl Panic
      | Suc k \<Rightarrow> rbind (lc_turn nullable read_inner st s) (\<lambda>(st, s).
          lc_loop k nullable read_inner st s))"

declare lc_loop.simps [simp del]

definition low_cardinality_read :: "bool \<Rightarrow> (nat \<Rightarrow> val list reader) \<Rightarrow> nat \<Rightarrow> val list reader" where
  "low_cardinality_read nullable read_inner rows s =
     lc_loop (Suc (length s)) nullable read_inner (lc_start rows) s"

subsection \<open>The column of a type\<close>

function deserialize_column :: "ty \<Rightarrow> nat \<Rightarrow> val list reader" where
  "deserialize_column t rows s =
     (if rows > MAX_STRING_SIZE then Inl Protocol
      else case t of
        String \<Rightarrow> string_read t rows s
      | FixedSizedString _ \<Rightarrow> string_read t rows s
      | Binary \<Rightarrow> string_read t rows s
      | FixedSizedBinary _ \<Rightarrow> string_read t rows s
      | Array inner \<Rightarrow> array_read Inr VArray (deserialize_column inner) rows s
      | Ring \<Rightarrow> array_read point_item VRing (deserialize_column Point) rows s
      | Polygon \<Rightarrow> array_read ring_item VPolygon (deserialize_column Ring) rows s
      | MultiPolygon \<Rightarrow> array_read polygon_item VMultiPolygon (deserialize_column Polygon) rows s
      | Tuple inner_types \<Rightarrow> tuple_read (map deserialize_column inner_types) rows s
      | Point \<Rightarrow> point_read (deserialize_column Float64) rows s
      | Nullable inner \<Rightarrow> nullable_read Io (deserialize_column inner) rows s
      | Map key value \<Rightarrow> map_read (deserialize_column key) (deserialize_column value) rows s
      | LowCardinality inner \<Rightarrow>
          low_cardinality_read (is_nullable inner) (deserialize_column (strip_null inner)) rows s
      | Object \<Rightarrow> object_read t rows s
      | _ \<Rightarrow> sized_read t rows s)"
  by pat_completeness auto
termination
  by (relation "measure (\<lambda>(t, rows, s). ty_weight t)")
    (auto simp: less_Suc_eq_le ty_weight_strip_null intro: ty_weight_member)

declare deserialize_column.simps [simp del]

text \<open>The in-memory reader: tuples, maps and low-cardinality columns are not implemented.\<close>

function deserialize_column_sync :: "ty \<Rightarrow> nat \<Rightarrow> val list reader" where
  "deserialize_column_sync t rows s =
     (if rows > MAX_STRING_SIZE then Inl Protocol
      else case t of
        String \<Rightarrow> string_read_sync t rows s
      | FixedSizedString _ \<Rightarrow> string_read_sync t rows s
      | Binary \<Rightarrow> string_read_sync t rows s
      | FixedSizedBinary _ \<Rightarrow> string_read_sync t rows s
      | Array inner \<Rightarrow> array_read_sync Inr VArray (deserialize_column_sync inner) rows s
      | Ring \<Rightarrow> array_read_sync point_item VRing (deserialize_column_sync Point) rows s
      | Polygon \<Rightarrow> array_read_sync ring_item VPolygon (deserialize_column_sync Ring) rows s
      | MultiPolygon \<Rightarrow>
          array_read_sync polygon_item VMultiPolygon (deserialize_column_sync Polygon) rows s
      | Tuple _ \<Rightarrow> Inl DeserializeError
      | Point \<Rightarrow> point_read (deserialize_column_sync Float64) rows s
      | Nullable inner \<Rightarrow> nullable_read BytesRead (deserialize_column_sync inner) rows s
      | Map _ _ \<Rightarrow> Inl DeserializeError
      | LowCardinality _ \<Rightarrow> Inl DeserializeError
      | Object \<Rightarrow> object_read_sync t rows s
      | _ \<Rightarrow> sized_read_sync t rows s)"
  by pat_completeness auto
termination
  by (relation "measure (\<lambda>(t, rows, s). ty_weight t)") auto

declare deserialize_column_sync.simps [simp del]

section \<open>Prefixes\<close>

text \<open>
  Before the data of a column, its nested parts write what they need once: the version of
  a low-cardinality column, the serialization of a JSON column. Every other arm of the two
  prefix functions writes nothing.
\<close>

function serialize_prefix_async :: "ty \<Rightarrow> byte list" where
  "serialize_prefix_async t =
     (case t of
        Array inner \<Rightarrow> serialize_prefix_async inner
      | Tuple inner \<Rightarrow> concat (map serialize_prefix_async inner)
      | Point \<Rightarrow> serialize_prefix_async Float64 @ serialize_prefix_async Float64
      | Ring \<Rightarrow> serialize_prefix_async Point
      | Polygon \<Rightarrow> serialize_prefix_async Ring
      | MultiPolygon \<Rightarrow> serialize_prefix_async Polygon
      | Nullable inner \<Rightarrow> serialize_prefix_async inner
      | Map key value \<Rightarrow> serialize_prefix_async (Array (Tuple [key, value]))
      | LowCardinality _ \<Rightarrow> put_u64 LOW_CARDINALITY_VERSION
      | Object \<Rightarrow> [1]
      | _ \<Rightarrow> [])"
  by pat_completeness auto
termination
  by (relation "measure ty_weight") (auto simp: less_Suc_eq_le intro: ty_weight_member)

declare serialize_prefix_async.simps [simp del]

function serialize_prefix :: "ty \<Rightarrow> byte list" where
  "serialize_prefix t =
     (case t of
        Nullable inner \<Rightarrow> serialize_prefix inner
      | Array inner \<Rightarrow> serialize_prefix inner
      | Map key value \<Rightarrow> serialize_prefix (normalize_map_type key value)
      | Tuple inner \<Rightarrow> concat (map serialize_prefix inner)
      | Point \<Rightarrow> serialize_prefix Float64 @ serialize_prefix Float64
      | LowCardinality _ \<Rightarrow> put_u64 LOW_CARDINALITY_VERSION
      | Object \<Rightarrow> [1]
      | _ \<Rightarrow> [])"
  by pat_completeness auto
termination
  by (relation "measure ty_weight")
    (auto simp: less_Suc_eq_le normalize_map_type_def intro: ty_weight_member)

declare serialize_prefix.simps [simp del]

text \<open>A prefix reader over a list of types, one after the other.\<close>

fun read_all :: "('a \<Rightarrow> unit reader) \<Rightarrow> 'a list \<Rightarrow> unit reader" where
  "read_all p [] s = Inr ((), s)"
| "read_all p (x # xs) s = rbind (p x s) (\<lambda>(_, s). read_all p xs s)"

lemma read_all_cong [fundef_cong]:
  "xs = ys \<Longrightarrow> s = s' \<Longrightarrow> (\<And>x s. x \<in> set ys \<Longrightarrow> p x s = q x s) \<Longrightarrow>
     read_all p xs s = read_all q ys s'"
  by (induction xs arbitrary: ys s s') (auto simp: rbind_def split: sum.splits)

definition read_lc_version :: "err \<Rightarrow> unit reader" where
  "read_lc_version eof s =
     rbind (read_u64 eof s) (\<lambda>(version, s).
       if version \<noteq> LOW_CARDINALITY_VERSION then Inl DeserializeError else Inr ((), s))"

function deserialize_prefix_async :: "ty \<Rightarrow> unit reader" where
  "deserialize_prefix_async t s =
     (case t of
        Array inner \<Rightarrow> deserialize_prefix_async inner s
      | Tuple inner \<Rightarrow> read_all deserialize_prefix_async inner s
      | Point \<Rightarrow> read_all deserialize_prefix_async [Float64, Float64] s
      | Ring \<Rightarrow> deserialize_prefix_async Point s
      | Polygon \<Rightarrow> deserialize_prefix_async Ring s
      | MultiPolygon \<Rightarrow> deserialize_prefix_async Polygon s
      | Nullable inner \<Rightarrow> deserialize_prefix_async inner s
      | Map key value \<Rightarrow> deserialize_prefix_async (Array (Tuple [key, value])) s
      | LowCardinality _ \<Rightarrow> read_lc_version Io s
      | Object \<Rightarrow> rbind (read_u8 Io s) (\<lambda>(_, s). Inr ((), s))
      | _ \<Rightarrow> Inr ((), s))"
  by pat_completeness auto
termination
  by (relation "measure (\<lambda>(t, s). ty_weight t)")
    (auto simp: less_Suc_eq_le intro: ty_weight_member)

declare deserialize_prefix_async.simps [simp del]

function deserialize_prefix :: "ty \<Rightarrow> unit reader" where
  "deserialize_prefix t s =
     (case t of
        Array inner \<Rightarrow> deserialize_prefix inner s
      | Nullable inner \<Rightarrow> deserialize_prefix inner s
      | Point \<Rightarrow> read_all deserialize_prefix [Float64, Float64] s
      | LowCardinality _ \<Rightarrow> read_lc_version BytesRead s
      | Map key value \<Rightarrow> deserialize_prefix (normalize_map_type key value) s
      | Tuple inner \<Rightarrow> read_all deserialize_prefix inner s
      | Object \<Rightarrow> rbind (read_u8 BytesRead s) (\<lambda>(_, s). Inr ((), s))
      | _ \<Rightarrow> Inr ((), s))"
  by pat_completeness auto
termination
  by (relation "measure (\<lambda>(t, s). ty_weight t)")
    (auto simp: less_Suc_eq_le normalize_map_type_def intro: ty_weight_member)

declare deserialize_prefix.simps [simp del]

end
