(* ===== verification/ArrowTypes.thy ===== *)
theory ArrowTypes
  imports Columns
begin

text \<open>
  The bridge between Arrow's types and the types of the native format (arrow/types.rs),
  with the options that steer it (\<open>ArrowOptions\<close> of client/options.rs).

  Arrow's \<open>DataType\<close> and \<open>Field\<close> are transcribed as datatypes: a field is its name, its
  type and whether it is nullable (its metadata play no part here). The sizes and scales
  of Arrow are signed words (\<open>i32\<close>, \<open>i8\<close>), a precision is a \<open>u8\<close>. The parser of time
  zone names is the argument \<open>tz_parse\<close>, as in the parser of the native types.
\<close>

section \<open>Arrow types\<close>

datatype time_unit = Second | Millisecond | Microsecond | Nanosecond

datatype (plugins only: size code) data_type =
    DNull | DBoolean
  | DInt8 | DInt16 | DInt32 | DInt64 | DUInt8 | DUInt16 | DUInt32 | DUInt64
  | DFloat16 | DFloat32 | DFloat64
  | DTimestamp time_unit "string option"
  | DDate32 | DDate64
  | DTime32 time_unit | DTime64 time_unit | DDuration time_unit | DInterval
  | DBinary | DFixedSizeBinary u32 | DLargeBinary | DBinaryView
  | DUtf8 | DLargeUtf8 | DUtf8View
  | DList field | DListView field | DFixedSizeList field u32 | DLargeList field | DLargeListView field
  | DStruct "field list"
  | DUnion
  | DDictionary data_type data_type
  | DDecimal32 byte byte | DDecimal64 byte byte | DDecimal128 byte byte | DDecimal256 byte byte
  | DMap field bool
  | DRunEndEncoded
and field = Field (field_name: string) (field_type: data_type) (field_nullable: bool)

lemma size_field_type: "size (field_type f) < size f"
  by (cases f) simp

lemma size_field_member: "f \<in> set fs \<Longrightarrow> size (field_type f) < Suc (size_list size fs)"
  by (induction fs) (auto intro: less_trans [OF size_field_type])

section \<open>Options\<close>

record arrow_options =
  strings_as_strings :: bool
  use_date32_for_date :: bool
  strict_schema :: bool
  disable_strict_schema_ddl :: bool
  nullable_array_default_empty :: bool

definition arrow_options_new :: arrow_options where
  "arrow_options_new =
     \<lparr>strings_as_strings = False, use_date32_for_date = False, strict_schema = False,
      disable_strict_schema_ddl = False, nullable_array_default_empty = True\<rparr>"

definition arrow_options_strict :: arrow_options where
  "arrow_options_strict =
     \<lparr>strings_as_strings = False, use_date32_for_date = False, strict_schema = True,
      disable_strict_schema_ddl = False, nullable_array_default_empty = False\<rparr>"

definition into_strict_ddl :: "arrow_options \<Rightarrow> arrow_options" where
  "into_strict_ddl o1 =
     (if disable_strict_schema_ddl o1 then o1
      else \<lparr>strings_as_strings = strings_as_strings o1,
            use_date32_for_date = use_date32_for_date o1, strict_schema = True,
            disable_strict_schema_ddl = False, nullable_array_default_empty = False\<rparr>)"

definition opt_some_and :: "'a option \<Rightarrow> ('a \<Rightarrow> bool) \<Rightarrow> bool" where
  "opt_some_and opts p = (case opts of None \<Rightarrow> False | Some o1 \<Rightarrow> p o1)"

lemma opt_some_and_simps [simp]: "\<not> opt_some_and None p" "opt_some_and (Some x) p = p x"
  by (simp_all add: opt_some_and_def)

section \<open>Casts\<close>

text \<open>\<open>as usize\<close> of a signed size extends the sign; \<open>as i8\<close> and \<open>as i32\<close> cut.\<close>

definition usize_of_i8 :: "byte \<Rightarrow> nat" where
  "usize_of_i8 s = unat (scast s :: u64)"

definition usize_of_i32 :: "u32 \<Rightarrow> nat" where
  "usize_of_i32 n = unat (scast n :: u64)"

definition i8_of_usize :: "nat \<Rightarrow> byte" where
  "i8_of_usize n = word_of_nat n"

definition i32_of_usize :: "nat \<Rightarrow> u32" where
  "i32_of_usize n = word_of_nat n"

lemma scast_word_of_nat:
  assumes "n < 2 ^ (LENGTH('a) - 1)" and "LENGTH('a) \<le> LENGTH('b)"
  shows "unat (scast (word_of_nat n :: 'a::len word) :: 'b::len word) = n"
proof -
  have pos: "0 < LENGTH('a)" by simp
  have n: "n < 2 ^ LENGTH('a)"
    by (rule less_le_trans [OF assms(1)]) (simp add: power_increasing)
  have "sint (word_of_nat n :: 'a word) = signed_take_bit (LENGTH('a) - 1) (int n)"
    by (simp add: signed_of_nat)
  also have "\<dots> = int n"
    using assms(1) by (intro signed_take_bit_int_eq_self) (simp_all add: order_trans [of _ 0])
  finally have s: "sint (word_of_nat n :: 'a word) = int n" .
  have "n < 2 ^ LENGTH('b)"
    by (rule less_le_trans [OF n]) (simp add: assms(2))
  then show ?thesis
    by (simp add: s scast_eq unat_of_nat)
qed

lemma usize_of_i8_of_usize: "n < 128 \<Longrightarrow> usize_of_i8 (i8_of_usize n) = n"
  unfolding usize_of_i8_def i8_of_usize_def by (rule scast_word_of_nat) simp_all

lemma usize_of_i32_of_usize: "n < 2 ^ 31 \<Longrightarrow> usize_of_i32 (i32_of_usize n) = n"
  unfolding usize_of_i32_def i32_of_usize_def by (rule scast_word_of_nat) simp_all

section \<open>From Arrow to ClickHouse\<close>

definition tz_map :: "(string \<Rightarrow> tz option) \<Rightarrow> string option \<Rightarrow> tz" where
  "tz_map tz_parse z =
     (case tz_parse (case z of None \<Rightarrow> ''UTC'' | Some s \<Rightarrow> s) of None \<Rightarrow> UTC | Some t \<Rightarrow> t)"

text \<open>The type of a second, millisecond, microsecond or nanosecond count.\<close>

definition timestamp_type :: "time_unit \<Rightarrow> tz \<Rightarrow> ty" where
  "timestamp_type u z =
     (case u of Second \<Rightarrow> DateTime z | Millisecond \<Rightarrow> DateTime64 3 z
      | Microsecond \<Rightarrow> DateTime64 6 z | Nanosecond \<Rightarrow> DateTime64 9 z)"

definition decimal128_type :: "byte \<Rightarrow> byte \<Rightarrow> ty" where
  "decimal128_type p s =
     (if p \<le> 9 then Decimal32 (usize_of_i8 s)
      else if p \<le> 18 then Decimal64 (usize_of_i8 s)
      else if p \<le> 38 then Decimal128 (usize_of_i8 s)
      else Decimal256 (usize_of_i8 s))"

definition wrap_nullable :: "bool \<Rightarrow> ty \<Rightarrow> ty" where
  "wrap_nullable is_null inner =
     (if is_null \<and> (case inner of Array _ \<Rightarrow> False | Map _ _ \<Rightarrow> False | _ \<Rightarrow> True)
      then Nullable inner else inner)"

text \<open>The five list types share one arm.\<close>

definition list_item :: "data_type \<Rightarrow> field option" where
  "list_item d =
     (case d of DList f \<Rightarrow> Some f | DLargeList f \<Rightarrow> Some f | DListView f \<Rightarrow> Some f
      | DLargeListView f \<Rightarrow> Some f | DFixedSizeList f _ \<Rightarrow> Some f | _ \<Rightarrow> None)"

definition no_nullable_list :: "bool \<Rightarrow> arrow_options option \<Rightarrow> bool" where
  "no_nullable_list is_null opts =
     (is_null \<and> opt_some_and opts (\<lambda>o1. strict_schema o1 \<and> \<not> nullable_array_default_empty o1))"

definition map_entry_fields :: "data_type \<Rightarrow> (field \<times> field) res" where
  "map_entry_fields d =
     (case d of DStruct (k # v # _) \<Rightarrow> Inr (k, v) | _ \<Rightarrow> Inl ArrowDeserialize)"

lemma list_item_size: "list_item d = Some f \<Longrightarrow> size (field_type f) < size d"
  using size_field_type [of f] by (cases d) (simp_all add: list_item_def)

lemma map_entry_fields_size:
  "map_entry_fields (field_type e) = Inr (k, v) \<Longrightarrow> size (field_type k) < Suc (size e) \<and> size (field_type v) < Suc (size e)"
  using size_field_type [of k] size_field_type [of v] size_field_type [of e]
  by (auto simp: map_entry_fields_def split: data_type.splits list.splits)

function arrow_to_ch_type ::
  "(string \<Rightarrow> tz option) \<Rightarrow> data_type \<Rightarrow> bool \<Rightarrow> arrow_options option \<Rightarrow> ty res" where
  "arrow_to_ch_type tzp d is_null opts =
     (case d of
        DInt8 \<Rightarrow> Inr (wrap_nullable is_null Int8)
      | DInt16 \<Rightarrow> Inr (wrap_nullable is_null Int16)
      | DInt32 \<Rightarrow> Inr (wrap_nullable is_null Int32)
      | DInt64 \<Rightarrow> Inr (wrap_nullable is_null Int64)
      | DInterval \<Rightarrow> Inr (wrap_nullable is_null Int64)
      | DUInt8 \<Rightarrow> Inr (wrap_nullable is_null UInt8)
      | DBoolean \<Rightarrow> Inr (wrap_nullable is_null UInt8)
      | DUInt16 \<Rightarrow> Inr (wrap_nullable is_null UInt16)
      | DUInt32 \<Rightarrow> Inr (wrap_nullable is_null UInt32)
      | DUInt64 \<Rightarrow> Inr (wrap_nullable is_null UInt64)
      | DFloat32 \<Rightarrow> Inr (wrap_nullable is_null Float32)
      | DFloat64 \<Rightarrow> Inr (wrap_nullable is_null Float64)
      | DDecimal32 _ s \<Rightarrow> Inr (wrap_nullable is_null (Decimal32 (usize_of_i8 s)))
      | DDecimal64 _ s \<Rightarrow> Inr (wrap_nullable is_null (Decimal64 (usize_of_i8 s)))
      | DDecimal128 p s \<Rightarrow> Inr (wrap_nullable is_null (decimal128_type p s))
      | DDecimal256 _ s \<Rightarrow> Inr (wrap_nullable is_null (Decimal256 (usize_of_i8 s)))
      | DDate32 \<Rightarrow>
          Inr (wrap_nullable is_null (if opt_some_and opts use_date32_for_date then Date32 else Date))
      | DTime32 u \<Rightarrow> Inr (wrap_nullable is_null (timestamp_type u UTC))
      | DTime64 u \<Rightarrow> Inr (wrap_nullable is_null (timestamp_type u UTC))
      | DDuration u \<Rightarrow> Inr (wrap_nullable is_null (timestamp_type u UTC))
      | DDate64 \<Rightarrow> Inr (wrap_nullable is_null (DateTime64 3 UTC))
      | DTimestamp u z \<Rightarrow> Inr (wrap_nullable is_null (timestamp_type u (tz_map tzp z)))
      | DFixedSizeBinary n \<Rightarrow> Inr (wrap_nullable is_null (FixedSizedBinary (usize_of_i32 n)))
      | DUtf8 \<Rightarrow> Inr (wrap_nullable is_null String)
      | DLargeUtf8 \<Rightarrow> Inr (wrap_nullable is_null String)
      | DUtf8View \<Rightarrow> Inr (wrap_nullable is_null String)
      | DBinary \<Rightarrow> Inr (wrap_nullable is_null Binary)
      | DLargeBinary \<Rightarrow> Inr (wrap_nullable is_null Binary)
      | DBinaryView \<Rightarrow> Inr (wrap_nullable is_null Binary)
      | DDictionary _ v \<Rightarrow>
          (if is_null \<and> opt_some_and opts strict_schema then Inl TypeConversion
           else rbind (arrow_to_ch_type tzp v is_null opts) (\<lambda>t. Inr (LowCardinality t)))
      | DStruct fs \<Rightarrow>
          rbind (traverse (\<lambda>f. arrow_to_ch_type tzp (field_type f) (field_nullable f) opts) fs)
            (\<lambda>ts. Inr (wrap_nullable is_null (Tuple ts)))
      | DMap e _ \<Rightarrow>
          rbind (map_entry_fields (field_type e)) (\<lambda>(k, v).
          rbind (arrow_to_ch_type tzp (field_type k) (field_nullable k) opts) (\<lambda>key.
          rbind (arrow_to_ch_type tzp (field_type v) (field_nullable v) opts) (\<lambda>val.
            Inr (Map key val))))
      | DNull \<Rightarrow> Inl ArrowUnsupportedType
      | DFloat16 \<Rightarrow> Inl ArrowUnsupportedType
      | DUnion \<Rightarrow> Inl ArrowUnsupportedType
      | DRunEndEncoded \<Rightarrow> Inl ArrowUnsupportedType
      | _ \<Rightarrow>
          (case list_item d of
             None \<Rightarrow> Inl ArrowUnsupportedType
           | Some f \<Rightarrow>
               if no_nullable_list is_null opts then Inl TypeConversion
               else rbind (arrow_to_ch_type tzp (field_type f) (field_nullable f) opts)
                      (\<lambda>t. Inr (Array t))))"
  by pat_completeness auto
termination
  by (relation "measure (\<lambda>(tzp, d, n, opts). size d)")
    (auto dest: list_item_size map_entry_fields_size simp: size_field_member)

declare arrow_to_ch_type.simps [simp del]

section \<open>From ClickHouse to Arrow\<close>

definition LIST_ITEM_FIELD_NAME :: string where "LIST_ITEM_FIELD_NAME = ''item''"
definition TUPLE_FIELD_NAME_PREFIX :: string where "TUPLE_FIELD_NAME_PREFIX = ''field_''"
definition MAP_FIELD_NAME :: string where "MAP_FIELD_NAME = ''entries''"
definition STRUCT_KEY_FIELD_NAME :: string where "STRUCT_KEY_FIELD_NAME = ''key''"
definition STRUCT_VALUE_FIELD_NAME :: string where "STRUCT_VALUE_FIELD_NAME = ''value''"

definition timestamp_unit :: "nat \<Rightarrow> time_unit res" where
  "timestamp_unit p =
     (if p = 0 then Inr Second
      else if p \<le> 3 then Inr Millisecond
      else if p \<le> 6 then Inr Microsecond
      else if p \<le> 9 then Inr Nanosecond
      else Inl ArrowUnsupportedType)"

text \<open>The fields of a tuple are numbered from \<open>field_0\<close>.\<close>

fun number_fields :: "nat \<Rightarrow> (data_type \<times> bool) list \<Rightarrow> field list" where
  "number_fields i [] = []"
| "number_fields i ((d, n) # ds) =
     Field (TUPLE_FIELD_NAME_PREFIX @ show_nat i) d n # number_fields (Suc i) ds"

definition map_arrow_type :: "data_type \<Rightarrow> data_type \<times> bool \<Rightarrow> data_type" where
  "map_arrow_type key val =
     DMap (Field MAP_FIELD_NAME
             (DStruct [Field STRUCT_KEY_FIELD_NAME key False,
                       Field STRUCT_VALUE_FIELD_NAME (fst val) (snd val)]) False) False"

text \<open>The nesting of a type, a geometric type above the type it is normalized to.\<close>

definition is_geo :: "ty \<Rightarrow> bool" where
  "is_geo t = (case t of Point \<Rightarrow> True | Ring \<Rightarrow> True | Polygon \<Rightarrow> True | MultiPolygon \<Rightarrow> True | _ \<Rightarrow> False)"

definition geo_weight :: "ty \<Rightarrow> nat" where
  "geo_weight t = 2 * ty_weight t + (if is_geo t then 1 else 0)"

lemma geo_weight_le: "ty_weight t < ty_weight u \<Longrightarrow> geo_weight t < geo_weight u"
  by (simp add: geo_weight_def)

lemma geo_weight_normalized: "normalize_geo_type t = Inr u \<Longrightarrow> geo_weight u < geo_weight t"
  by (cases t) (auto simp: normalize_geo_type_def geo_weight_def is_geo_def)

lemma geo_weight_inner:
  "strip_null t = Array u \<Longrightarrow> geo_weight u < geo_weight t"
  "strip_null t = LowCardinality u \<Longrightarrow> geo_weight u < geo_weight t"
  "strip_null t = Map u v \<Longrightarrow> geo_weight u < geo_weight t \<and> geo_weight v < geo_weight t"
  using ty_weight_strip_null [of t] by (auto intro!: geo_weight_le)

lemma geo_weight_member:
  assumes "strip_null t = Tuple us" and "u \<in> set us"
  shows "geo_weight u < geo_weight t"
proof -
  have "ty_weight u \<le> sum_list (map ty_weight us)" by (rule ty_weight_member [OF assms(2)])
  then show ?thesis using ty_weight_strip_null [of t] by (intro geo_weight_le) (simp add: assms(1))
qed

text \<open>
  \<open>ch_to_arrow_type\<close> matches on the type without its outer \<open>Nullable\<close>. A geometric type is
  normalized with the \<^emph>\<open>unstripped\<close> type, and \<open>unwrap\<close> panics when that is nullable.
\<close>

function ch_to_arrow_type :: "arrow_options option \<Rightarrow> ty \<Rightarrow> (data_type \<times> bool) res" where
  "ch_to_arrow_type opts t =
     (let is_null = is_nullable t; plain = (\<lambda>d. Inr (d, is_null)) in
      case strip_null t of
        Int8 \<Rightarrow> plain DInt8
      | Int16 \<Rightarrow> plain DInt16
      | Int32 \<Rightarrow> plain DInt32
      | Int64 \<Rightarrow> plain DInt64
      | UInt8 \<Rightarrow> plain DUInt8
      | UInt16 \<Rightarrow> plain DUInt16
      | UInt32 \<Rightarrow> plain DUInt32
      | UInt64 \<Rightarrow> plain DUInt64
      | Int128 \<Rightarrow> plain (DFixedSizeBinary 16)
      | UInt128 \<Rightarrow> plain (DFixedSizeBinary 16)
      | Ipv6 \<Rightarrow> plain (DFixedSizeBinary 16)
      | Uuid \<Rightarrow> plain (DFixedSizeBinary 16)
      | Int256 \<Rightarrow> plain (DFixedSizeBinary 32)
      | UInt256 \<Rightarrow> plain (DFixedSizeBinary 32)
      | Float32 \<Rightarrow> plain DFloat32
      | Float64 \<Rightarrow> plain DFloat64
      | Decimal32 s \<Rightarrow> plain (DDecimal128 9 (i8_of_usize s))
      | Decimal64 s \<Rightarrow> plain (DDecimal128 18 (i8_of_usize s))
      | Decimal128 s \<Rightarrow> plain (DDecimal128 38 (i8_of_usize s))
      | Decimal256 s \<Rightarrow> plain (DDecimal256 76 (i8_of_usize s))
      | String \<Rightarrow> plain (if opt_some_and opts strings_as_strings then DUtf8 else DBinary)
      | FixedSizedString n \<Rightarrow> plain (DFixedSizeBinary (i32_of_usize n))
      | FixedSizedBinary n \<Rightarrow> plain (DFixedSizeBinary (i32_of_usize n))
      | Binary \<Rightarrow> plain DBinary
      | Object \<Rightarrow> plain DUtf8
      | Date32 \<Rightarrow> plain DDate32
      | Date \<Rightarrow> plain DDate32
      | DateTime z \<Rightarrow> plain (DTimestamp Second (Some z))
      | DateTime64 p z \<Rightarrow> rbind (timestamp_unit p) (\<lambda>u. plain (DTimestamp u (Some z)))
      | Ipv4 \<Rightarrow> plain (DFixedSizeBinary 4)
      | Array inner \<Rightarrow>
          (if no_nullable_list is_null opts then Inl TypeConversion
           else rbind (ch_to_arrow_type opts inner) (\<lambda>(d, n).
             plain (DList (Field LIST_ITEM_FIELD_NAME d n))))
      | Tuple types \<Rightarrow>
          rbind (traverse (ch_to_arrow_type opts) types) (\<lambda>fs. plain (DStruct (number_fields 0 fs)))
      | Map key val \<Rightarrow>
          rbind (ch_to_arrow_type opts key) (\<lambda>(k, _).
          rbind (ch_to_arrow_type opts val) (\<lambda>v. plain (map_arrow_type k v)))
      | LowCardinality inner \<Rightarrow>
          (if is_null \<and> opt_some_and opts strict_schema then Inl TypeConversion
           else rbind (ch_to_arrow_type opts inner) (\<lambda>(d, _).
             Inr (DDictionary DInt32 d, is_nullable inner)))
      | Enum8 _ \<Rightarrow> plain (DDictionary DInt8 DUtf8)
      | Enum16 _ \<Rightarrow> plain (DDictionary DInt16 DUtf8)
      | Nullable _ \<Rightarrow> Inl Panic
      | _ \<Rightarrow>
          (case normalize_geo_type t of
             Inl _ \<Rightarrow> Inl Panic
           | Inr normalized \<Rightarrow> ch_to_arrow_type opts normalized))"
  by pat_completeness auto
termination
  by (relation "measure (\<lambda>(opts, t). geo_weight t)")
    (auto simp: geo_weight_normalized
      dest: geo_weight_inner geo_weight_member)

declare ch_to_arrow_type.simps [simp del]

section \<open>Normalizing a type against an Arrow type\<close>

definition any_binary :: "data_type \<Rightarrow> bool" where
  "any_binary d = (case d of DBinary \<Rightarrow> True | DBinaryView \<Rightarrow> True | DLargeBinary \<Rightarrow> True | _ \<Rightarrow> False)"

definition any_utf8 :: "data_type \<Rightarrow> bool" where
  "any_utf8 d = (case d of DUtf8 \<Rightarrow> True | DLargeUtf8 \<Rightarrow> True | DUtf8View \<Rightarrow> True | _ \<Rightarrow> False)"

definition plain_text :: "data_type \<Rightarrow> bool" where
  "plain_text d = (any_utf8 d \<or> any_binary d \<or> (case d of DFixedSizeBinary _ \<Rightarrow> True | _ \<Rightarrow> False))"

text \<open>The four list types with a variable length.\<close>

definition var_list_item :: "data_type \<Rightarrow> field option" where
  "var_list_item d =
     (case d of DList f \<Rightarrow> Some f | DListView f \<Rightarrow> Some f | DLargeList f \<Rightarrow> Some f
      | DLargeListView f \<Rightarrow> Some f | _ \<Rightarrow> None)"

text \<open>The loop over the items of a tuple copies nothing until an item is normalized.\<close>

definition merge_items :: "(ty \<times> ty option) list \<Rightarrow> ty list option" where
  "merge_items rs =
     (if list_all (\<lambda>(t, r). r = None) rs then None
      else Some (map (\<lambda>(t, r). case r of None \<Rightarrow> t | Some u \<Rightarrow> u) rs))"

function normalize_type :: "ty \<Rightarrow> data_type \<Rightarrow> ty option" where
  "normalize_type t d =
     map_option (\<lambda>u. if is_nullable t then into_nullable u else u)
       (case strip_null t of
          String \<Rightarrow>
            (if any_binary d then Some Binary
             else case d of DFixedSizeBinary n \<Rightarrow> Some (FixedSizedBinary (usize_of_i32 n)) | _ \<Rightarrow> None)
        | FixedSizedString _ \<Rightarrow>
            (case d of DFixedSizeBinary n \<Rightarrow> Some (FixedSizedBinary (usize_of_i32 n)) | _ \<Rightarrow> None)
        | Binary \<Rightarrow>
            (if any_utf8 d then Some String
             else case d of DFixedSizeBinary n \<Rightarrow> Some (FixedSizedBinary (usize_of_i32 n)) | _ \<Rightarrow> None)
        | FixedSizedBinary n \<Rightarrow>
            (case d of DUtf8 \<Rightarrow> Some (FixedSizedString n) | DUtf8View \<Rightarrow> Some (FixedSizedString n)
             | _ \<Rightarrow> None)
        | Array inner \<Rightarrow>
            (case var_list_item d of None \<Rightarrow> None
             | Some f \<Rightarrow> map_option Array (normalize_type inner (field_type f)))
        | LowCardinality inner \<Rightarrow>
            (case d of
               DDictionary _ v \<Rightarrow> map_option LowCardinality (normalize_type inner v)
             | _ \<Rightarrow> if plain_text d then map_option LowCardinality (normalize_type inner d) else None)
        | Tuple inner \<Rightarrow>
            (case d of
               DStruct fs \<Rightarrow>
                 map_option Tuple
                   (merge_items (map (\<lambda>(u, f). (u, normalize_type u (field_type f))) (zip inner fs)))
             | _ \<Rightarrow> None)
        | _ \<Rightarrow> None)"
  by pat_completeness auto
termination
  by (relation "measure (\<lambda>(t, d). geo_weight t)")
    (auto dest: geo_weight_inner geo_weight_member set_zip_leftD)

declare normalize_type.simps [simp del]

section \<open>The type of a table's column\<close>

type_synonym schema_conversions = "string \<Rightarrow> ty option"

definition convert_to_enum :: "ty \<Rightarrow> ty \<Rightarrow> ty res" where
  "convert_to_enum enum_typ low_card =
     (case strip_null low_card of
        LowCardinality inner \<Rightarrow>
          (case strip_null inner of
             String \<Rightarrow> Inr (if is_nullable inner then into_nullable enum_typ else enum_typ)
           | Binary \<Rightarrow> Inr (if is_nullable inner then into_nullable enum_typ else enum_typ)
           | _ \<Rightarrow> Inl TypeConversion)
      | String \<Rightarrow> Inr (if is_nullable low_card then into_nullable enum_typ else enum_typ)
      | Binary \<Rightarrow> Inr (if is_nullable low_card then into_nullable enum_typ else enum_typ)
      | _ \<Rightarrow> Inl TypeConversion)"

definition generate_schema_options :: "arrow_options option \<Rightarrow> arrow_options \<times> arrow_options" where
  "generate_schema_options opts =
     (case opts of
        None \<Rightarrow> (arrow_options_strict, arrow_options_new\<lparr>nullable_array_default_empty := False\<rparr>)
      | Some o1 \<Rightarrow> (into_strict_ddl o1, o1))"

definition schema_conversion ::
  "(string \<Rightarrow> tz option) \<Rightarrow> field \<Rightarrow> schema_conversions option \<Rightarrow> arrow_options option \<Rightarrow> ty res" where
  "schema_conversion tzp f conversions opts =
     (let (strict_opts, conversion_opts) = generate_schema_options opts;
          convert = arrow_to_ch_type tzp (field_type f) (field_nullable f) in
      case map_option strip_null (Option.bind conversions (\<lambda>c. c (field_name f))) of
        Some (Enum8 pairs) \<Rightarrow>
          rbind (convert (Some conversion_opts)) (convert_to_enum (Enum8 pairs))
      | Some (Enum16 pairs) \<Rightarrow>
          rbind (convert (Some conversion_opts)) (convert_to_enum (Enum16 pairs))
      | Some Date \<Rightarrow>
          rbind (convert (Some conversion_opts)) (\<lambda>t.
            case t of Date \<Rightarrow> Inr Date | Date32 \<Rightarrow> Inr Date | _ \<Rightarrow> Inl TypeConversion)
      | Some Date32 \<Rightarrow>
          rbind (convert (Some conversion_opts)) (\<lambda>t.
            case t of Date \<Rightarrow> Inr Date32 | Date32 \<Rightarrow> Inr Date32 | _ \<Rightarrow> Inl TypeConversion)
      | Some Ring \<Rightarrow> Inr Ring
      | Some Point \<Rightarrow> Inr Point
      | Some Polygon \<Rightarrow> Inr Polygon
      | Some MultiPolygon \<Rightarrow> Inr MultiPolygon
      | _ \<Rightarrow> convert (Some strict_opts))"

section \<open>Round trips of the conversions\<close>

lemma usize_of_i32_inverse [simp]: "i32_of_usize (usize_of_i32 n) = n"
proof -
  have "(ucast (scast n :: u64) :: u32) = n"
  proof (rule bit_word_eqI)
    fix k
    assume "k < LENGTH(32)"
    then show "bit (ucast (scast n :: u64) :: u32) k = bit n k"
      by (cases "k = 31") (auto simp: bit_simps min_def)
  qed
  then show ?thesis by (simp add: i32_of_usize_def usize_of_i32_def)
qed

text \<open>
  The types that Arrow represents as they are, given by their form: a type outside (a
  128-bit integer, an enum, a JSON text, \<open>DateTime64(2)\<close>, a string unless strings are kept
  as strings) has no Arrow type, or one that reads back as another type.
\<close>

definition arrow_nullable :: "ty \<Rightarrow> bool" where
  "arrow_nullable t =
     (case strip_null t of LowCardinality inner \<Rightarrow> is_nullable inner | _ \<Rightarrow> is_nullable t)"

function arrow_stable :: "(string \<Rightarrow> tz option) \<Rightarrow> arrow_options option \<Rightarrow> ty \<Rightarrow> bool" where
  "arrow_stable tzp opts t =
     (case t of
        Int8 \<Rightarrow> True | Int16 \<Rightarrow> True | Int32 \<Rightarrow> True | Int64 \<Rightarrow> True
      | UInt8 \<Rightarrow> True | UInt16 \<Rightarrow> True | UInt32 \<Rightarrow> True | UInt64 \<Rightarrow> True
      | Float32 \<Rightarrow> True | Float64 \<Rightarrow> True
      | Decimal32 s \<Rightarrow> usize_of_i8 (i8_of_usize s) = s
      | Decimal64 s \<Rightarrow> usize_of_i8 (i8_of_usize s) = s
      | Decimal128 s \<Rightarrow> usize_of_i8 (i8_of_usize s) = s
      | Decimal256 s \<Rightarrow> usize_of_i8 (i8_of_usize s) = s
      | String \<Rightarrow> opt_some_and opts strings_as_strings
      | Binary \<Rightarrow> True
      | FixedSizedBinary n \<Rightarrow> usize_of_i32 (i32_of_usize n) = n
      | Date \<Rightarrow> \<not> opt_some_and opts use_date32_for_date
      | Date32 \<Rightarrow> opt_some_and opts use_date32_for_date
      | DateTime z \<Rightarrow> tz_map tzp (Some z) = z
      | DateTime64 p z \<Rightarrow> tz_map tzp (Some z) = z \<and> (p = 3 \<or> p = 6 \<or> p = 9)
      | Nullable u \<Rightarrow>
          arrow_stable tzp opts u
          \<and> (case u of Nullable _ \<Rightarrow> False | Array _ \<Rightarrow> False | Map _ _ \<Rightarrow> False
             | LowCardinality _ \<Rightarrow> False | _ \<Rightarrow> True)
      | Array u \<Rightarrow> arrow_stable tzp opts u
      | Tuple us \<Rightarrow> list_all (arrow_stable tzp opts) us
      | Map k v \<Rightarrow> arrow_stable tzp opts k \<and> \<not> arrow_nullable k \<and> arrow_stable tzp opts v
      | LowCardinality u \<Rightarrow>
          arrow_stable tzp opts u \<and> arrow_nullable u = is_nullable u
          \<and> \<not> (is_nullable u \<and> opt_some_and opts strict_schema)
      | _ \<Rightarrow> False)"
  by pat_completeness auto
termination
  by (relation "measure (\<lambda>(tzp, opts, t). ty_weight t)")
    (auto simp: less_Suc_eq_le intro: ty_weight_member)

declare arrow_stable.simps [simp del]

lemma field_types_number_fields:
  "map field_type (number_fields i ds) = map fst ds"
  "map field_nullable (number_fields i ds) = map snd ds"
  "length (number_fields i ds) = length ds"
  by (induction i ds rule: number_fields.induct) simp_all

lemma traverse_number_fields:
  "traverse (\<lambda>f. g (field_type f) (field_nullable f)) (number_fields i ds)
     = traverse (\<lambda>(d, n). g d n) ds"
  by (induction i ds rule: number_fields.induct) simp_all

lemma traverse_two:
  assumes "\<And>t. t \<in> set ts \<Longrightarrow> \<exists>y. f t = Inr y \<and> g y = Inr t"
  shows "\<exists>ys. traverse f ts = Inr ys \<and> traverse g ys = Inr ts"
  using assms
proof (induction ts)
  case Nil
  then show ?case by simp
next
  case (Cons t ts)
  then obtain y ys where "f t = Inr y" "g y = Inr t" "traverse f ts = Inr ys" "traverse g ys = Inr ts"
    by force
  then show ?case by auto
qed

lemma ch_to_arrow_nullable:
  assumes "ch_to_arrow_type opts t = Inr (d, n)" and "\<not> is_geo (strip_null t)"
  shows "n = arrow_nullable t"
  using assms unfolding arrow_nullable_def
  by (subst (asm) ch_to_arrow_type.simps)
    (auto simp: Let_def rbind_Inr_iff is_geo_def split: ty.splits if_splits)

text \<open>The list, structure, map and dictionary arms of \<open>arrow_to_ch_type\<close>.\<close>

lemma arrow_to_ch_composite:
  "arrow_to_ch_type tzp (DList f) n opts =
     (if no_nullable_list n opts then Inl TypeConversion
      else rbind (arrow_to_ch_type tzp (field_type f) (field_nullable f) opts) (\<lambda>t. Inr (Array t)))"
  "arrow_to_ch_type tzp (DDictionary k v) n opts =
     (if n \<and> opt_some_and opts strict_schema then Inl TypeConversion
      else rbind (arrow_to_ch_type tzp v n opts) (\<lambda>t. Inr (LowCardinality t)))"
  "arrow_to_ch_type tzp (DStruct fs) n opts =
     rbind (traverse (\<lambda>f. arrow_to_ch_type tzp (field_type f) (field_nullable f) opts) fs)
       (\<lambda>ts. Inr (wrap_nullable n (Tuple ts)))"
  "arrow_to_ch_type tzp (map_arrow_type k (d, m)) n opts =
     rbind (arrow_to_ch_type tzp k False opts) (\<lambda>key.
     rbind (arrow_to_ch_type tzp d m opts) (\<lambda>val. Inr (Map key val)))"
  by (subst arrow_to_ch_type.simps,
      simp add: list_item_def map_arrow_type_def map_entry_fields_def)+

lemma decimal128_type_simps [simp]:
  "decimal128_type 9 s = Decimal32 (usize_of_i8 s)"
  "decimal128_type 18 s = Decimal64 (usize_of_i8 s)"
  "decimal128_type 38 s = Decimal128 (usize_of_i8 s)"
  by (simp_all add: decimal128_type_def)

text \<open>A type without parts: its Arrow type reads back with the same nullability.\<close>

definition arrow_leaf :: "ty \<Rightarrow> bool" where
  "arrow_leaf t =
     (case t of Nullable _ \<Rightarrow> False | Array _ \<Rightarrow> False | Map _ _ \<Rightarrow> False | LowCardinality _ \<Rightarrow> False
      | Tuple _ \<Rightarrow> False | _ \<Rightarrow> True)"

lemma arrow_leaf_nullable:
  assumes "arrow_leaf t"
  shows "arrow_nullable t = False" "arrow_nullable (Nullable t) = True"
    "wrap_nullable n t = (if n then Nullable t else t)"
  using assms by (cases t; simp add: arrow_leaf_def arrow_nullable_def strip_null_def is_nullable_def
      wrap_nullable_def)+

lemma leaf_type_roundtrip:
  assumes "arrow_stable tzp opts t" and "arrow_leaf t"
  shows "\<exists>d. ch_to_arrow_type opts t = Inr (d, False)
    \<and> ch_to_arrow_type opts (Nullable t) = Inr (d, True)
    \<and> (\<forall>n. arrow_to_ch_type tzp d n opts = Inr (wrap_nullable n t))"
proof (cases t)
  case (DateTime64 p z)
  then show ?thesis
    using assms(1)
    by (auto simp: arrow_stable.simps ch_to_arrow_type.simps arrow_to_ch_type.simps is_nullable_def
        strip_null_def timestamp_unit_def timestamp_type_def)
qed (use assms in \<open>simp_all add: arrow_stable.simps ch_to_arrow_type.simps arrow_to_ch_type.simps
      is_nullable_def strip_null_def arrow_leaf_def timestamp_type_def\<close>)

lemma arrow_type_roundtrip_all:
  assumes "arrow_stable tzp opts t"
  shows "\<exists>d. ch_to_arrow_type opts t = Inr (d, arrow_nullable t)
    \<and> arrow_to_ch_type tzp d (arrow_nullable t) opts = Inr t"
  using assms
proof (induction t rule: measure_induct_rule [of ty_weight])
  case (less t)
  note stable = less.prems [unfolded arrow_stable.simps [of tzp opts t]]
  have tuple: "\<exists>ds. traverse (ch_to_arrow_type opts) us = Inr ds
      \<and> traverse (\<lambda>(d, n). arrow_to_ch_type tzp d n opts) ds = Inr us"
    if "list_all (arrow_stable tzp opts) us" and "sum_list (map ty_weight us) < ty_weight t" for us
  proof (rule traverse_two)
    fix u
    assume u: "u \<in> set us"
    then have "ty_weight u < ty_weight t" using ty_weight_member [OF u] that(2) by simp
    then show "\<exists>y. ch_to_arrow_type opts u = Inr y
        \<and> (case y of (d, n) \<Rightarrow> arrow_to_ch_type tzp d n opts) = Inr u"
      using less.IH [of u] that(1) u by (auto simp: list_all_iff)
  qed
  note fields_back = traverse_number_fields [of "\<lambda>d n. arrow_to_ch_type tzp d n opts"]
  show ?case
  proof (cases "arrow_leaf t")
    case True
    then show ?thesis
      using leaf_type_roundtrip [OF less.prems True] by (auto simp: arrow_leaf_nullable)
  next
    case False
    then consider (Nullable) u where "t = Nullable u" | (Array) u where "t = Array u"
      | (Map) k v where "t = Map k v" | (LC) u where "t = LowCardinality u" | (Tuple) us where "t = Tuple us"
      by (cases t) (simp_all add: arrow_leaf_def)
    then show ?thesis
    proof cases
      case (Nullable u)
      show ?thesis
      proof (cases "arrow_leaf u")
        case True
        then show ?thesis
          using leaf_type_roundtrip [of tzp opts u] stable Nullable
          by (auto simp: arrow_leaf_nullable)
      next
        case False
        then obtain us where us: "u = Tuple us"
          using stable Nullable by (cases u) (simp_all add: arrow_leaf_def)
        have "list_all (arrow_stable tzp opts) us"
          using stable Nullable us by (simp add: arrow_stable.simps [of tzp opts "Tuple us"])
        with tuple [of us] show ?thesis
          by (auto simp: Nullable us ch_to_arrow_type.simps [of opts "Nullable (Tuple us)"]
              strip_null_def is_nullable_def arrow_nullable_def arrow_to_ch_composite
              fields_back wrap_nullable_def)
      qed
    next
      case (Array u)
      then show ?thesis
        using less.IH [of u] stable
        by (auto simp: ch_to_arrow_type.simps [of opts "Array u"] strip_null_def is_nullable_def
            arrow_nullable_def arrow_to_ch_composite no_nullable_list_def)
    next
      case (Map k v)
      obtain d where k: "ch_to_arrow_type opts k = Inr (d, False)"
        "arrow_to_ch_type tzp d False opts = Inr k"
        using less.IH [of k] stable Map by auto
      obtain e where v: "ch_to_arrow_type opts v = Inr (e, arrow_nullable v)"
        "arrow_to_ch_type tzp e (arrow_nullable v) opts = Inr v"
        using less.IH [of v] stable Map by auto
      have "arrow_nullable (Map k v) = False"
        by (simp add: arrow_nullable_def strip_null_def is_nullable_def)
      moreover have "ch_to_arrow_type opts (Map k v) = Inr (map_arrow_type d (e, arrow_nullable v), False)"
        by (subst ch_to_arrow_type.simps) (simp add: strip_null_def is_nullable_def k v)
      ultimately show ?thesis by (simp add: Map arrow_to_ch_composite k v)
    next
      case (LC u)
      then have "arrow_nullable u = is_nullable u" using stable by simp
      then show ?thesis
        using less.IH [of u] stable LC
        by (auto simp: ch_to_arrow_type.simps [of opts "LowCardinality u"] strip_null_def is_nullable_def
            arrow_nullable_def arrow_to_ch_composite)
    next
      case (Tuple us)
      then show ?thesis
        using tuple [of us] stable
        by (auto simp: ch_to_arrow_type.simps [of opts "Tuple us"] strip_null_def is_nullable_def
            arrow_nullable_def arrow_to_ch_composite fields_back wrap_nullable_def)
    qed
  qed
qed

text \<open>What no Arrow type is converted to: a geometric type; and, for a type that is not
  nullable, a nullable one.\<close>

lemma arrow_to_ch_result:
  "arrow_to_ch_type tzp d n opts = Inr t \<Longrightarrow> \<not> is_geo (strip_null t) \<and> (is_nullable t \<longrightarrow> n) \<and> (arrow_nullable t \<longrightarrow> n)
     \<and> (is_nullable t \<longrightarrow> arrow_nullable t)"
proof (induction d arbitrary: n t rule: measure_induct_rule [of size])
  case (less d)
  show ?case
  proof (cases "\<exists>k v. d = DDictionary k v")
    case True
    then obtain k v where d: "d = DDictionary k v" by blast
    then obtain u where u: "arrow_to_ch_type tzp v n opts = Inr u" "t = LowCardinality u"
      using less.prems by (auto simp: arrow_to_ch_composite rbind_Inr_iff split: if_splits)
    then show ?thesis
      using less.IH [of v n u] d
      by (auto simp: arrow_nullable_def strip_null_def is_geo_def is_nullable_def)
  next
    case False
    then show ?thesis
      using less.prems
      by (subst (asm) arrow_to_ch_type.simps)
        (auto simp: rbind_Inr_iff is_geo_def strip_null_def arrow_nullable_def is_nullable_def
          timestamp_type_def decimal128_type_def wrap_nullable_def list_item_def
          split: data_type.splits option.splits if_splits time_unit.splits)
  qed
qed

lemma leaf_type_stable:
  assumes "arrow_leaf b" and "\<not> is_geo b"
  shows "ch_to_arrow_type opts b = Inr (d, n) \<Longrightarrow> arrow_to_ch_type tzp d n opts = Inr b
      \<Longrightarrow> arrow_stable tzp opts b"
    and "ch_to_arrow_type opts (Nullable b) = Inr (d, n) \<Longrightarrow> arrow_to_ch_type tzp d n opts = Inr (Nullable b)
      \<Longrightarrow> arrow_stable tzp opts (Nullable b)"
  using assms
  by (cases b; auto simp: arrow_stable.simps ch_to_arrow_type.simps arrow_to_ch_type.simps is_nullable_def
      strip_null_def arrow_leaf_def is_geo_def timestamp_type_def timestamp_unit_def wrap_nullable_def
      rbind_Inr_iff split: if_splits)+

lemma traverse_members_back:
  assumes "traverse f ts = Inr ys" and "traverse g ys = Inr ts"
  shows "\<forall>t \<in> set ts. \<exists>y. f t = Inr y \<and> g y = Inr t"
  using assms by (induction ts arbitrary: ys) (auto simp: rbind_Inr_iff)

lemma arrow_type_stable_all:
  assumes "ch_to_arrow_type opts t = Inr (d, n)" and "arrow_to_ch_type tzp d n opts = Inr t"
  shows "arrow_stable tzp opts t"
  using assms
proof (induction t arbitrary: d n rule: measure_induct_rule [of ty_weight])
  case (less t)
  note there = less.prems(1) [unfolded ch_to_arrow_type.simps [of opts t]]
  note result = arrow_to_ch_result [OF less.prems(2)]
  have members: "list_all (arrow_stable tzp opts) us"
    if "traverse (ch_to_arrow_type opts) us = Inr ds"
      "traverse (\<lambda>(d, n). arrow_to_ch_type tzp d n opts) ds = Inr us"
      "sum_list (map ty_weight us) < ty_weight t" for us ds
    unfolding list_all_iff
  proof
    fix u
    assume u: "u \<in> set us"
    then have "ty_weight u < ty_weight t" using ty_weight_member [OF u] that(3) by simp
    then show "arrow_stable tzp opts u"
      using traverse_members_back [OF that(1,2)] u less.IH by fastforce
  qed
  note fields_back = traverse_number_fields [of "\<lambda>d n. arrow_to_ch_type tzp d n opts"]
  consider (leaf) "arrow_leaf t" | (null) u where "t = Nullable u" "arrow_leaf u"
    | (nulltuple) us where "t = Nullable (Tuple us)" | (Array) u where "t = Array u"
    | (Map) k v where "t = Map k v" | (LC) u where "t = LowCardinality u" | (Tuple) us where "t = Tuple us"
    | (bad) "\<exists>u. t = Nullable u \<and> \<not> arrow_leaf u \<and> (\<forall>us. u \<noteq> Tuple us)"
    by (cases t) (auto simp: arrow_leaf_def)
  then show ?case
  proof cases
    case leaf
    then have "strip_null t = t" by (cases t) (simp_all add: arrow_leaf_def strip_null_def)
    then show ?thesis using leaf_type_stable(1) [OF leaf _ less.prems] result by simp
  next
    case null
    then show ?thesis using leaf_type_stable(2) [of u] less.prems result by (simp add: strip_null_def)
  next
    case nulltuple
    then show ?thesis
      using there less.prems(2) members [of us]
      by (auto simp: strip_null_def is_nullable_def rbind_Inr_iff arrow_to_ch_composite fields_back
          wrap_nullable_def arrow_stable.simps [of tzp opts "Nullable _"]
          arrow_stable.simps [of tzp opts "Tuple us"])
  next
    case Array
    then show ?thesis
      using there less.prems(2) less.IH [of u]
      by (auto simp: strip_null_def is_nullable_def rbind_Inr_iff arrow_to_ch_composite
          arrow_stable.simps [of tzp opts "Array u"] split: if_splits)
  next
    case Tuple
    then show ?thesis
      using there less.prems(2) members [of us]
      by (auto simp: strip_null_def is_nullable_def rbind_Inr_iff arrow_to_ch_composite fields_back
          wrap_nullable_def arrow_stable.simps [of tzp opts "Tuple us"])
  next
    case Map
    obtain dk nk v' where k: "ch_to_arrow_type opts k = Inr (dk, nk)" "ch_to_arrow_type opts v = Inr v'"
      "d = map_arrow_type dk v'"
      using there Map by (auto simp: strip_null_def rbind_Inr_iff)
    then have home: "arrow_to_ch_type tzp dk False opts = Inr k"
      "arrow_to_ch_type tzp (fst v') (snd v') opts = Inr v"
      using less.prems(2) Map by (cases v'; auto simp: rbind_Inr_iff arrow_to_ch_composite)+
    have plain: "\<not> is_geo (strip_null k)" "\<not> arrow_nullable k"
      using arrow_to_ch_result [OF home(1)] by simp_all
    then have "nk = False" using ch_to_arrow_nullable [OF k(1)] by simp
    then show ?thesis
      using less.IH [of k dk nk] less.IH [of v "fst v'" "snd v'"] k home plain Map
      by (simp add: arrow_stable.simps [of tzp opts "Map k v"])
  next
    case LC
    obtain d' n' where u: "ch_to_arrow_type opts u = Inr (d', n')" "d = DDictionary DInt32 d'" "n = is_nullable u"
      using there LC by (auto simp: strip_null_def is_nullable_def rbind_Inr_iff)
    then have home: "arrow_to_ch_type tzp d' n opts = Inr u" "\<not> (n \<and> opt_some_and opts strict_schema)"
      using less.prems(2) LC by (auto simp: rbind_Inr_iff arrow_to_ch_composite split: if_splits)
    have plain: "\<not> is_geo (strip_null u)" "arrow_nullable u \<longrightarrow> n"
      using arrow_to_ch_result [OF home(1)] by simp_all
    have "n \<longrightarrow> arrow_nullable u" using arrow_to_ch_result [OF home(1)] u(3) by simp
    then have "n' = n" "arrow_nullable u = n" using ch_to_arrow_nullable [OF u(1)] plain by auto
    then show ?thesis
      using less.IH [of u d' n'] u home LC by (simp add: arrow_stable.simps [of tzp opts "LowCardinality u"])
  next
    case bad
    then obtain u where u: "t = Nullable u" "\<not> arrow_leaf u" "\<forall>us. u \<noteq> Tuple us" by blast
    then show ?thesis
      using there less.prems(2)
      by (cases u) (auto simp: strip_null_def is_nullable_def rbind_Inr_iff arrow_to_ch_composite
          arrow_leaf_def split: if_splits)
  qed
qed



section \<open>The normalized type has the same Arrow type\<close>

text \<open>
  The reader builds its arrays from the normalized type and labels them with the Arrow type
  of the type it was given: the two must agree.
\<close>

definition type_hint :: "ty \<Rightarrow> data_type \<Rightarrow> ty" where
  "type_hint t d = (case normalize_type t d of None \<Rightarrow> t | Some u \<Rightarrow> u)"

lemma normalize_leaf:
  assumes "arrow_leaf b" and "ch_to_arrow_type opts b = Inr (d, n)" and "normalize_type b d = Some u"
  shows "ch_to_arrow_type opts u = Inr (d, n) \<and> arrow_leaf u \<and> \<not> is_nullable u"
  using assms
  by (cases b)
    (auto simp: normalize_type.simps ch_to_arrow_type.simps strip_null_def is_nullable_def arrow_leaf_def
      any_binary_def any_utf8_def split: if_splits data_type.splits)

lemma normalize_nullable:
  assumes "arrow_leaf b"
  shows "normalize_type (Nullable b) d = map_option Nullable (normalize_type b d)"
  using assms
  by (cases b) (simp_all add: normalize_type.simps strip_null_def is_nullable_def arrow_leaf_def
      split: data_type.split)

lemma ch_to_arrow_leaf_nullable:
  assumes "arrow_leaf b" and "ch_to_arrow_type opts (Nullable b) = Inr (d, n)"
  shows "ch_to_arrow_type opts b = Inr (d, False) \<and> n"
  using assms
  by (cases b) (auto simp: ch_to_arrow_type.simps strip_null_def is_nullable_def arrow_leaf_def
      normalize_geo_type_def rbind_Inr_iff)

lemma ch_to_arrow_leaf_nullable_iff:
  assumes "arrow_leaf b" and "\<not> is_geo b" and "ch_to_arrow_type opts b = Inr (d, n)"
  shows "ch_to_arrow_type opts (Nullable b) = Inr (d, True)"
  using assms
  by (cases b) (auto simp: ch_to_arrow_type.simps strip_null_def is_nullable_def arrow_leaf_def is_geo_def
      rbind_Inr_iff)

lemma normalize_leaf_no_geo: "normalize_type b d = Some u \<Longrightarrow> arrow_leaf b \<Longrightarrow> \<not> is_geo u"
  by (cases b) (auto simp: normalize_type.simps strip_null_def is_nullable_def arrow_leaf_def is_geo_def
      split: if_splits data_type.splits)

lemma traverse_Inr_nth:
  "traverse f xs = Inr ys \<longleftrightarrow> length ys = length xs \<and> (\<forall>i < length xs. f (xs ! i) = Inr (ys ! i))"
proof (induction xs arbitrary: ys)
  case Nil
  then show ?case by auto
next
  case (Cons x xs)
  show ?case
  proof (cases ys)
    case Nil
    then show ?thesis by (cases "f x"; cases "traverse f xs") auto
  next
    case (Cons y ys')
    then show ?thesis
      using Cons.IH [of ys'] by (auto simp: rbind_Inr_iff nth_Cons split: nat.splits)
  qed
qed

lemma number_fields_nth: "k < length ds \<Longrightarrow> field_type (number_fields i ds ! k) = fst (ds ! k)"
  using arg_cong [OF field_types_number_fields(1) [of i ds], of "\<lambda>l. l ! k"]
  by (simp add: field_types_number_fields(3))

lemma merge_items_traverse:
  assumes "traverse f us = Inr ds"
    and "\<And>k u. k < length us \<Longrightarrow> g (us ! k) (fst (ds ! k)) = Some u \<Longrightarrow> f u = Inr (ds ! k)"
    and "merge_items (map (\<lambda>(u, c). (u, g u (field_type c))) (zip us (number_fields 0 ds))) = Some us'"
  shows "traverse f us' = Inr ds"
proof -
  have len: "length ds = length us" by (rule traverse_length [OF assms(1)])
  have us': "us' = map (\<lambda>(u, c). case g u (field_type c) of None \<Rightarrow> u | Some u' \<Rightarrow> u') (zip us (number_fields 0 ds))"
    using assms(3) by (auto simp: merge_items_def split: if_splits)
  have "f (us' ! k) = Inr (ds ! k)" if "k < length us" for k
    using that assms(1,2) [unfolded traverse_Inr_nth]
    by (auto simp: us' len field_types_number_fields(3) number_fields_nth split: option.split)
  then show ?thesis
    by (simp add: traverse_Inr_nth us' len field_types_number_fields(3))
qed

lemma normalize_type_same_arrow:
  assumes "validate t = Inr ()" and "ch_to_arrow_type opts t = Inr (d, n)"
    and "normalize_type t d = Some u"
  shows "ch_to_arrow_type opts u = Inr (d, n) \<and> is_nullable u = is_nullable t"
  using assms
proof (induction t arbitrary: d n u rule: measure_induct_rule [of ty_weight])
  case (less t)
  show ?case
  proof (cases "arrow_leaf t")
    case True
    have "\<not> is_nullable t" using True by (cases t) (simp_all add: arrow_leaf_def is_nullable_def)
    then show ?thesis using normalize_leaf [OF True less.prems(2,3)] by simp
  next
    case False
    then consider (Nullable) b where "t = Nullable b" | (Array) b where "t = Array b"
      | (Map) k v where "t = Map k v" | (LC) b where "t = LowCardinality b" | (Tuple) us where "t = Tuple us"
      by (cases t) (simp_all add: arrow_leaf_def)
    then show ?thesis
    proof cases
      case (Nullable b)
      then have leaf: "arrow_leaf b"
        using less.prems(1) by (cases b) (simp_all add: arrow_leaf_def composite_def)
      obtain w where w: "normalize_type b d = Some w" "u = Nullable w"
        using less.prems(3) by (auto simp: Nullable normalize_nullable [OF leaf])
      have b: "ch_to_arrow_type opts b = Inr (d, False)" "n"
        using ch_to_arrow_leaf_nullable [OF leaf] less.prems(2) Nullable by auto
      from normalize_leaf [OF leaf b(1) w(1)] normalize_leaf_no_geo [OF w(1) leaf] show ?thesis
        using ch_to_arrow_leaf_nullable_iff [of w opts d False] b(2)
        by (simp add: w(2) Nullable is_nullable_def)
    next
      case (Array b)
      obtain e m where e: "ch_to_arrow_type opts b = Inr (e, m)" "d = DList (Field LIST_ITEM_FIELD_NAME e m)" "\<not> n"
        using less.prems(2)
        by (auto simp: Array ch_to_arrow_type.simps [of opts "Array b"] strip_null_def is_nullable_def
            rbind_Inr_iff no_nullable_list_def)
      obtain w where w: "normalize_type b e = Some w" "u = Array w"
        using less.prems(3)
        by (auto simp: Array e(2) normalize_type.simps [of "Array b"] strip_null_def is_nullable_def
            var_list_item_def)
      from less.IH [of b e m w] less.prems(1) e w show ?thesis
        by (auto simp: Array ch_to_arrow_type.simps [of opts "Array w"] strip_null_def is_nullable_def
            no_nullable_list_def)
    next
      case (Map k v)
      then show ?thesis
        using less.prems(3) by (simp add: normalize_type.simps [of "Map k v"] strip_null_def is_nullable_def)
    next
      case (LC b)
      obtain e m where e: "ch_to_arrow_type opts b = Inr (e, m)" "d = DDictionary DInt32 e" "n = is_nullable b"
        using less.prems(2)
        by (auto simp: LC ch_to_arrow_type.simps [of opts "LowCardinality b"] strip_null_def is_nullable_def
            rbind_Inr_iff)
      obtain w where w: "normalize_type b e = Some w" "u = LowCardinality w"
        using less.prems(3)
        by (auto simp: LC e(2) normalize_type.simps [of "LowCardinality b"] strip_null_def is_nullable_def)
      have "validate b = Inr ()"
        using less.prems(1) by (simp add: LC split: if_splits)
      with less.IH [of b e m w] e w show ?thesis
        by (auto simp: LC ch_to_arrow_type.simps [of opts "LowCardinality w"] strip_null_def is_nullable_def)
    next
      case (Tuple us)
      obtain ds where ds: "traverse (ch_to_arrow_type opts) us = Inr ds" "d = DStruct (number_fields 0 ds)" "\<not> n"
        using less.prems(2)
        by (auto simp: Tuple ch_to_arrow_type.simps [of opts "Tuple us"] strip_null_def is_nullable_def
            rbind_Inr_iff)
      obtain us' where us': "u = Tuple us'"
        "merge_items (map (\<lambda>(u, c). (u, normalize_type u (field_type c))) (zip us (number_fields 0 ds))) = Some us'"
        using less.prems(3)
        by (auto simp: Tuple ds(2) normalize_type.simps [of "Tuple us"] strip_null_def is_nullable_def)
      have valid: "\<forall>v \<in> set us. validate v = Inr ()"
        using less.prems(1) by (auto simp: Tuple rbind_Inr_iff traverse_Inr_nth in_set_conv_nth)
      have "traverse (ch_to_arrow_type opts) us' = Inr ds"
      proof (rule merge_items_traverse [OF ds(1) _ us'(2)])
        fix k v
        assume k: "k < length us" and v: "normalize_type (us ! k) (fst (ds ! k)) = Some v"
        then have "ty_weight (us ! k) < ty_weight t"
          using ty_weight_member [of "us ! k" us] by (simp add: Tuple less_Suc_eq_le)
        moreover have "ch_to_arrow_type opts (us ! k) = Inr (fst (ds ! k), snd (ds ! k))"
          using ds(1) k by (simp add: traverse_Inr_nth)
        ultimately show "ch_to_arrow_type opts v = Inr (ds ! k)"
          using less.IH [of "us ! k" "fst (ds ! k)" "snd (ds ! k)" v] v valid k by simp
      qed
      then show ?thesis
        using ds(3) by (simp add: us'(1) ds(2) Tuple ch_to_arrow_type.simps [of opts "Tuple us'"]
            strip_null_def is_nullable_def)
    qed
  qed
qed

text \<open>C18. Normalizing a valid ClickHouse type against its own Arrow type, as the reader of a
  block does before it creates the builders, gives a type with the same Arrow type and the
  same nullability: the arrays built from it fit the schema of the batch.\<close>

theorem type_hint_same_arrow:
  assumes "validate t = Inr ()" and "ch_to_arrow_type opts t = Inr (d, n)"
  shows "ch_to_arrow_type opts (type_hint t d) = Inr (d, n)"
  using assms normalize_type_same_arrow [OF assms] by (simp add: type_hint_def split: option.split)

theorem type_hint_same_arrow_witness:
  "type_hint (Array (Nullable String)) (DList (Field ''item'' DBinary True)) = Array (Nullable Binary)
   \<and> ch_to_arrow_type None (Array (Nullable Binary)) = Inr (DList (Field ''item'' DBinary True), False)"
proof -
  have "validate (Array (Nullable String)) = Inr ()"
    and "ch_to_arrow_type None (Array (Nullable String)) = Inr (DList (Field ''item'' DBinary True), False)"
    by (simp_all add: composite_def ch_to_arrow_type.simps strip_null_def is_nullable_def
        no_nullable_list_def LIST_ITEM_FIELD_NAME_def)
  from type_hint_same_arrow [OF this]
  have "ch_to_arrow_type None (type_hint (Array (Nullable String)) (DList (Field ''item'' DBinary True)))
    = Inr (DList (Field ''item'' DBinary True), False)" .
  moreover have "type_hint (Array (Nullable String)) (DList (Field ''item'' DBinary True)) = Array (Nullable Binary)"
    by (simp add: type_hint_def normalize_type.simps strip_null_def is_nullable_def var_list_item_def
        any_binary_def)
  ultimately show ?thesis by simp
qed

section \<open>Where the conversions stop\<close>

text \<open>
  No \<open>Nullable\<close> stands directly around an array, a map or a low-cardinality type in what
  \<open>arrow_to_ch_type\<close> returns: ClickHouse has no such types.
\<close>

function no_null_list :: "ty \<Rightarrow> bool" where
  "no_null_list t =
     (case t of
        Nullable u \<Rightarrow>
          no_null_list u
          \<and> (case u of Array _ \<Rightarrow> False | Map _ _ \<Rightarrow> False | LowCardinality _ \<Rightarrow> False
             | Nullable _ \<Rightarrow> False | _ \<Rightarrow> True)
      | Array u \<Rightarrow> no_null_list u
      | LowCardinality u \<Rightarrow> no_null_list u
      | Tuple us \<Rightarrow> list_all no_null_list us
      | Map k v \<Rightarrow> no_null_list k \<and> no_null_list v
      | _ \<Rightarrow> True)"
  by pat_completeness auto
termination
  by (relation "measure ty_weight") (auto simp: less_Suc_eq_le intro: ty_weight_member)

declare no_null_list.simps [simp del]

lemma no_null_list_wrap:
  assumes "arrow_leaf t \<or> (\<exists>us. t = Tuple us \<and> list_all no_null_list us)"
  shows "no_null_list (wrap_nullable n t)"
  using assms
  by (auto simp: wrap_nullable_def arrow_leaf_def no_null_list.simps [of "Nullable t"]
      no_null_list.simps [of t] split: ty.splits)

lemma arrow_leaf_timestamp: "arrow_leaf (timestamp_type u z)" "arrow_leaf (decimal128_type p s)"
  by (simp_all add: timestamp_type_def decimal128_type_def arrow_leaf_def split: time_unit.split)

lemma arrow_to_ch_list:
  "list_item d = Some f \<Longrightarrow> arrow_to_ch_type tzp d n opts =
     (if no_nullable_list n opts then Inl TypeConversion
      else rbind (arrow_to_ch_type tzp (field_type f) (field_nullable f) opts) (\<lambda>t. Inr (Array t)))"
  by (subst arrow_to_ch_type.simps) (cases d; simp add: list_item_def)

lemma arrow_to_ch_map:
  "arrow_to_ch_type tzp (DMap e b) n opts =
     rbind (map_entry_fields (field_type e)) (\<lambda>(k, v).
     rbind (arrow_to_ch_type tzp (field_type k) (field_nullable k) opts) (\<lambda>key.
     rbind (arrow_to_ch_type tzp (field_type v) (field_nullable v) opts) (\<lambda>val. Inr (Map key val))))"
  by (subst arrow_to_ch_type.simps) simp

lemma leaf_wrap: "arrow_leaf b \<Longrightarrow> \<exists>c. arrow_leaf c \<and> wrap_nullable n b = wrap_nullable n c"
  by blast

lemma arrow_to_ch_plain:
  assumes "list_item d = None" and "\<And>fs. d \<noteq> DStruct fs" and "\<And>e b. d \<noteq> DMap e b"
    and "\<And>k v. d \<noteq> DDictionary k v" and "arrow_to_ch_type tzp d n opts = Inr t"
  shows "\<exists>b. arrow_leaf b \<and> t = wrap_nullable n b"
  using assms
  by (subst (asm) arrow_to_ch_type.simps)
    (cases d; auto simp: list_item_def intro!: leaf_wrap arrow_leaf_timestamp; simp add: arrow_leaf_def)

lemma arrow_to_ch_no_null_list:
  "arrow_to_ch_type tzp d n opts = Inr t \<Longrightarrow> no_null_list t"
proof (induction d arbitrary: n t rule: measure_induct_rule [of size])
  case (less d)
  consider (list) f where "list_item d = Some f" | (struct) fs where "d = DStruct fs"
    | (map) e b where "d = DMap e b" | (dict) k v where "d = DDictionary k v"
    | (plain) "list_item d = None" "\<And>fs. d \<noteq> DStruct fs" "\<And>e b. d \<noteq> DMap e b" "\<And>k v. d \<noteq> DDictionary k v"
    by (cases "list_item d") blast+
  then show ?case
  proof cases
    case (list f)
    with less.prems less.IH [OF list_item_size [OF list]] show ?thesis
      by (auto simp: arrow_to_ch_list rbind_Inr_iff no_null_list.simps [of "Array _"] split: if_splits)
  next
    case (struct fs)
    then obtain us where us: "t = wrap_nullable n (Tuple us)"
      "traverse (\<lambda>f. arrow_to_ch_type tzp (field_type f) (field_nullable f) opts) fs = Inr us"
      using less.prems by (auto simp: arrow_to_ch_composite rbind_Inr_iff)
    have "no_null_list u" if u: "u \<in> set us" for u
    proof -
      obtain i where i: "i < length fs" "u = us ! i"
        using u traverse_length [OF us(2)] by (auto simp: in_set_conv_nth)
      then have "arrow_to_ch_type tzp (field_type (fs ! i)) (field_nullable (fs ! i)) opts = Inr u"
        using us(2) by (simp add: traverse_Inr_nth)
      then show ?thesis
        using less.IH [of "field_type (fs ! i)"] size_field_member [of "fs ! i" fs] i(1)
        by (simp add: struct)
    qed
    then show ?thesis
      unfolding us(1) by (intro no_null_list_wrap) (simp add: list_all_iff)
  next
    case (map e b)
    obtain k v key val where kv: "map_entry_fields (field_type e) = Inr (k, v)"
      "arrow_to_ch_type tzp (field_type k) (field_nullable k) opts = Inr key"
      "arrow_to_ch_type tzp (field_type v) (field_nullable v) opts = Inr val" "t = Map key val"
      using less.prems by (auto simp: map arrow_to_ch_map rbind_Inr_iff)
    with less.IH [of "field_type k"] less.IH [of "field_type v"] map_entry_fields_size [OF kv(1)]
    show ?thesis by (auto simp: map no_null_list.simps [of "Map _ _"])
  next
    case (dict k v)
    with less.prems less.IH [of v n] show ?thesis
      by (auto simp: arrow_to_ch_composite rbind_Inr_iff no_null_list.simps [of "LowCardinality _"]
          split: if_splits)
  next
    case plain
    from arrow_to_ch_plain [OF plain less.prems] show ?thesis
      by (auto intro: no_null_list_wrap)
  qed
qed

text \<open>
  A nullable structure, though, becomes \<open>Nullable(Tuple(..))\<close>, which \<open>validate\<close> rejects; a
  nullable geometric type panics; a nullable column cannot be converted to \<open>Date\<close> or
  \<open>Date32\<close>; and the strict options refuse the Arrow type of \<open>LowCardinality(Nullable(T))\<close>,
  which the crate itself produces.
\<close>

lemma nullable_struct_invalid:
  assumes "arrow_to_ch_type tzp (DStruct fs) True opts = Inr t"
  shows "validate t = Inl TypeParseError"
  using assms by (auto simp: arrow_to_ch_composite rbind_Inr_iff wrap_nullable_def composite_def)

lemma nullable_geo_panics:
  assumes "is_geo t"
  shows "ch_to_arrow_type opts (Nullable t) = Inl Panic"
  using assms
  by (cases t) (simp_all add: is_geo_def ch_to_arrow_type.simps strip_null_def is_nullable_def
      normalize_geo_type_def)

lemma nullable_date_conversion_fails:
  assumes "conversions name = Some Date \<or> conversions name = Some Date32"
  shows "schema_conversion tzp (Field name DDate32 True) (Some conversions) opts = Inl TypeConversion"
  using assms
  by (auto simp: schema_conversion_def strip_null_def arrow_to_ch_type.simps wrap_nullable_def
      split: prod.split)

lemma strict_nullable_low_cardinality:
  assumes "ch_to_arrow_type opts (LowCardinality (Nullable t)) = Inr (d, n)"
    and "opt_some_and opts strict_schema"
  shows "arrow_to_ch_type tzp d n opts = Inl TypeConversion"
  using assms
  by (auto simp: ch_to_arrow_type.simps [of opts "LowCardinality (Nullable t)"] strip_null_def
      is_nullable_def rbind_Inr_iff arrow_to_ch_composite)

end
