(* ===== verification/ArrowWrite.thy ===== *)
theory ArrowWrite
  imports ArrowTypes
begin

text \<open>
  Arrow arrays and their serializer: \<open>ClickHouseArrowSerializer\<close> for \<open>Type\<close>
  (arrow/serialize.rs) with the column writers under arrow/serialize/.

  An array is what Arrow documents of it. A slot of a flat array is \<open>None\<close> when its
  validity bit is off; the integers of a slot are \<open>int\<close>s in the range of their type, the
  floats are bit patterns, the values of string arrays are UTF-8 bytes. A list or map array
  keeps its offsets and its child as they are in memory, because the code reads them
  directly: a slice has offsets that do not start at zero. A view keeps one offset for every
  row (and its sizes). The asynchronous and the in-memory writers repeat the same code with
  the two kinds of writer; one definition stands for both.

  Conversions between floats of different widths are arguments (\<open>float_conv\<close>): the
  half-precision type is not part of the crate.
\<close>

section \<open>Arrays\<close>

datatype int_kind = I8 | I16 | I32 | I64 | U8 | U16 | U32 | U64

datatype bytes_kind = KUtf8 | KLargeUtf8 | KUtf8View | KBinary | KLargeBinary | KBinaryView

datatype list_kind = KList | KLargeList | KListView | KLargeListView

type_synonym validity = "bool list option"

datatype (plugins only: size code) arr =
    AInt int_kind "int option list"
  | ABool "bool option list"
  | AFloat16 "u16 option list"
  | AFloat32 "u32 option list"
  | AFloat64 "u64 option list"
  | ADecimal128 byte byte "int option list"
  | ADecimal256 byte byte "int option list"
  | ADate32 "int option list"
  | ATimestamp time_unit "string option" "int option list"
  | ABytes bytes_kind "byte list option list"
  | AFixed u32 "byte list option list"
  | AList list_kind field "int list" arr validity
  | AListView list_kind field "int list" "int list" arr validity
  | AFixedList field u32 arr validity nat
  | AMap field "int list" arr arr validity
  | AStruct "field list" "arr list" validity nat
  | ADict int_kind "int option list" arr
  | AOther data_type nat

fun arr_length :: "arr \<Rightarrow> nat" where
  "arr_length (AInt _ xs) = length xs"
| "arr_length (ABool xs) = length xs"
| "arr_length (AFloat16 xs) = length xs"
| "arr_length (AFloat32 xs) = length xs"
| "arr_length (AFloat64 xs) = length xs"
| "arr_length (ADecimal128 _ _ xs) = length xs"
| "arr_length (ADecimal256 _ _ xs) = length xs"
| "arr_length (ADate32 xs) = length xs"
| "arr_length (ATimestamp _ _ xs) = length xs"
| "arr_length (ABytes _ xs) = length xs"
| "arr_length (AFixed _ xs) = length xs"
| "arr_length (AList _ _ offsets _ _) = length offsets - 1"
| "arr_length (AListView _ _ offsets _ _ _) = length offsets"
| "arr_length (AFixedList _ _ _ _ n) = n"
| "arr_length (AMap _ offsets _ _ _) = length offsets - 1"
| "arr_length (AStruct _ _ _ n) = n"
| "arr_length (ADict _ keys _) = length keys"
| "arr_length (AOther _ n) = n"

definition int_type :: "int_kind \<Rightarrow> data_type" where
  "int_type k =
     (case k of I8 \<Rightarrow> DInt8 | I16 \<Rightarrow> DInt16 | I32 \<Rightarrow> DInt32 | I64 \<Rightarrow> DInt64
      | U8 \<Rightarrow> DUInt8 | U16 \<Rightarrow> DUInt16 | U32 \<Rightarrow> DUInt32 | U64 \<Rightarrow> DUInt64)"

definition bytes_type :: "bytes_kind \<Rightarrow> data_type" where
  "bytes_type k =
     (case k of KUtf8 \<Rightarrow> DUtf8 | KLargeUtf8 \<Rightarrow> DLargeUtf8 | KUtf8View \<Rightarrow> DUtf8View
      | KBinary \<Rightarrow> DBinary | KLargeBinary \<Rightarrow> DLargeBinary | KBinaryView \<Rightarrow> DBinaryView)"

definition list_type :: "list_kind \<Rightarrow> field \<Rightarrow> data_type" where
  "list_type k f =
     (case k of KList \<Rightarrow> DList f | KLargeList \<Rightarrow> DLargeList f
      | KListView \<Rightarrow> DListView f | KLargeListView \<Rightarrow> DLargeListView f)"

text \<open>\<open>data_type()\<close>, \<open>nulls()\<close> as one flag per row (set where null), \<open>null_count() > 0\<close>.\<close>

fun arr_type :: "arr \<Rightarrow> data_type" where
  "arr_type (AInt k _) = int_type k"
| "arr_type (ABool _) = DBoolean"
| "arr_type (AFloat16 _) = DFloat16"
| "arr_type (AFloat32 _) = DFloat32"
| "arr_type (AFloat64 _) = DFloat64"
| "arr_type (ADecimal128 p s _) = DDecimal128 p s"
| "arr_type (ADecimal256 p s _) = DDecimal256 p s"
| "arr_type (ADate32 _) = DDate32"
| "arr_type (ATimestamp u z _) = DTimestamp u z"
| "arr_type (ABytes k _) = bytes_type k"
| "arr_type (AFixed n _) = DFixedSizeBinary n"
| "arr_type (AList k f _ _ _) = list_type k f"
| "arr_type (AListView k f _ _ _ _) = list_type k f"
| "arr_type (AFixedList f n _ _ _) = DFixedSizeList f n"
| "arr_type (AMap f _ _ _ _) = DMap f False"
| "arr_type (AStruct fs _ _ _) = DStruct fs"
| "arr_type (ADict k _ vals) = DDictionary (int_type k) (arr_type vals)"
| "arr_type (AOther d _) = d"

definition slots_null :: "'a option list \<Rightarrow> bool list" where
  "slots_null xs = map (\<lambda>x. x = None) xs"

definition validity_null :: "nat \<Rightarrow> validity \<Rightarrow> bool list" where
  "validity_null n v = (case v of None \<Rightarrow> replicate n False | Some bs \<Rightarrow> map Not bs)"

fun arr_null :: "arr \<Rightarrow> bool list" where
  "arr_null (AInt _ xs) = slots_null xs"
| "arr_null (ABool xs) = slots_null xs"
| "arr_null (AFloat16 xs) = slots_null xs"
| "arr_null (AFloat32 xs) = slots_null xs"
| "arr_null (AFloat64 xs) = slots_null xs"
| "arr_null (ADecimal128 _ _ xs) = slots_null xs"
| "arr_null (ADecimal256 _ _ xs) = slots_null xs"
| "arr_null (ADate32 xs) = slots_null xs"
| "arr_null (ATimestamp _ _ xs) = slots_null xs"
| "arr_null (ABytes _ xs) = slots_null xs"
| "arr_null (AFixed _ xs) = slots_null xs"
| "arr_null (AList _ _ offsets _ v) = validity_null (length offsets - 1) v"
| "arr_null (AListView _ _ offsets _ _ v) = validity_null (length offsets) v"
| "arr_null (AFixedList _ _ _ v n) = validity_null n v"
| "arr_null (AMap _ offsets _ _ v) = validity_null (length offsets - 1) v"
| "arr_null (AStruct _ _ v n) = validity_null n v"
| "arr_null (ADict _ keys _) = slots_null keys"
| "arr_null (AOther _ n) = replicate n False"

definition has_null :: "arr \<Rightarrow> bool" where
  "has_null a = (True \<in> set (arr_null a))"

section \<open>Integers of a slot\<close>

text \<open>The \<open>n\<close> low bytes of an integer in two's complement, the lowest first.\<close>

definition int_le :: "nat \<Rightarrow> int \<Rightarrow> byte list" where
  "int_le n v = le_bytes n (nat (v mod 2 ^ (8 * n)))"

lemma length_int_le [simp]: "length (int_le n v) = n"
  by (simp add: int_le_def)

lemma put_le_word_of_int:
  assumes "LENGTH('a::len) = 8 * n"
  shows "put_le n (word_of_int v :: 'a word) = int_le n v"
proof -
  have "unat (word_of_int v :: 'a word) = nat (v mod 2 ^ (8 * n))"
    by (simp add: assms unat_eq_nat_uint uint_word_of_int flip: take_bit_eq_mod)
  then show ?thesis by (simp add: put_le_def int_le_def)
qed

text \<open>\<open>as u64\<close> of an \<open>i64\<close>.\<close>

definition as_u64 :: "int \<Rightarrow> nat" where
  "as_u64 v = nat (v mod 2 ^ 64)"

definition slot :: "'a \<Rightarrow> 'a option \<Rightarrow> 'a" where
  "slot d x = (case x of None \<Rightarrow> d | Some v \<Rightarrow> v)"

lemma slot_simps [simp]: "slot d None = d" "slot d (Some v) = v"
  by (simp_all add: slot_def)

section \<open>Null masks\<close>

definition null_bytes :: "bool list \<Rightarrow> byte list" where
  "null_bytes ns = map (\<lambda>n. if n then 1 else 0) ns"

definition serialize_nulls :: "ty \<Rightarrow> arr \<Rightarrow> byte list" where
  "serialize_nulls hint col =
     (case strip_null hint of
        Array _ \<Rightarrow> [] | Map _ _ \<Rightarrow> [] | _ \<Rightarrow> null_bytes (arr_null col))"

section \<open>Primitive columns\<close>

text \<open>
  The three forms of \<open>write_primitive_values!\<close>: a plain cast, a scalar with a coercion
  that may fail, a fixed array with one. A null is the default of the type.
\<close>

definition write_simple :: "int_kind \<Rightarrow> nat \<Rightarrow> arr \<Rightarrow> byte list res" where
  "write_simple k n col =
     (case col of
        AInt k' xs \<Rightarrow>
          (if k' = k then Inr (concat (map (\<lambda>x. int_le n (slot 0 x)) xs)) else Inl ArrowSerialize)
      | _ \<Rightarrow> Inl ArrowSerialize)"

definition write_coerced :: "byte list \<Rightarrow> ('a \<Rightarrow> byte list res) \<Rightarrow> 'a option list \<Rightarrow> byte list res" where
  "write_coerced dflt coerce xs =
     write_each (\<lambda>x. case x of None \<Rightarrow> Inr dflt | Some v \<Rightarrow> coerce v) xs"

definition write_i8_values where "write_i8_values = write_simple I8 1"
definition write_i16_values where "write_i16_values = write_simple I16 2"
definition write_i32_values where "write_i32_values = write_simple I32 4"
definition write_i64_values where "write_i64_values = write_simple I64 8"
definition write_u8_values where "write_u8_values = write_simple U8 1"
definition write_u16_values where "write_u16_values = write_simple U16 2"
definition write_u32_values where "write_u32_values = write_simple U32 4"
definition write_u64_values where "write_u64_values = write_simple U64 8"

definition write_bool_values :: "arr \<Rightarrow> byte list res" where
  "write_bool_values col =
     (case col of
        ABool xs \<Rightarrow> Inr (map (\<lambda>x. if slot False x then 1 else 0) xs)
      | _ \<Rightarrow> Inl ArrowSerialize)"

definition exactly :: "nat \<Rightarrow> (byte list \<Rightarrow> byte list) \<Rightarrow> byte list \<Rightarrow> byte list res" where
  "exactly n f b = (if length b \<noteq> n then Inl ArrowSerialize else Inr (f b))"

definition le_u128 :: "byte list \<Rightarrow> byte list" where
  "le_u128 b = put_u128 (word_of_nat (le_nat b))"

definition write_i128_values :: "arr \<Rightarrow> byte list res" where
  "write_i128_values col =
     (case col of
        AInt I64 xs \<Rightarrow> write_coerced (int_le 16 0) (\<lambda>v. Inr (int_le 16 v)) xs
      | ABytes KBinary xs \<Rightarrow> write_coerced (int_le 16 0) (exactly 16 le_u128) xs
      | AFixed _ xs \<Rightarrow> write_coerced (int_le 16 0) (exactly 16 le_u128) xs
      | _ \<Rightarrow> Inl ArrowSerialize)"

definition write_u128_values :: "arr \<Rightarrow> byte list res" where
  "write_u128_values col =
     (case col of
        AInt U64 xs \<Rightarrow> write_coerced (int_le 16 0) (\<lambda>v. Inr (int_le 16 v)) xs
      | ABytes KBinary xs \<Rightarrow> write_coerced (int_le 16 0) (exactly 16 le_u128) xs
      | AFixed _ xs \<Rightarrow> write_coerced (int_le 16 0) (exactly 16 le_u128) xs
      | _ \<Rightarrow> Inl ArrowSerialize)"

text \<open>Sixteen little-endian bytes, extended with the sign, then reversed.\<close>

definition extend_256 :: "int \<Rightarrow> byte list" where
  "extend_256 v = swap_endian_256 (int_le 16 v @ replicate 16 (if v < 0 then 0xFF else 0))"

definition write_i256_values :: "arr \<Rightarrow> byte list res" where
  "write_i256_values col =
     (case col of
        AInt I64 xs \<Rightarrow> write_coerced zero32 (\<lambda>v. Inr (extend_256 v)) xs
      | ABytes KBinary xs \<Rightarrow> write_coerced zero32 (exactly 32 swap_endian_256) xs
      | AFixed _ xs \<Rightarrow> write_coerced zero32 (exactly 32 swap_endian_256) xs
      | _ \<Rightarrow> Inl ArrowSerialize)"

definition write_u256_values :: "arr \<Rightarrow> byte list res" where
  "write_u256_values col =
     (case col of
        AInt U64 xs \<Rightarrow>
          write_coerced zero32 (\<lambda>v. Inr (swap_endian_256 (int_le 8 v @ replicate 24 0))) xs
      | ABytes KBinary xs \<Rightarrow> write_coerced zero32 (exactly 32 swap_endian_256) xs
      | AFixed _ xs \<Rightarrow> write_coerced zero32 (exactly 32 swap_endian_256) xs
      | _ \<Rightarrow> Inl ArrowSerialize)"

text \<open>Decimals.\<close>

definition in_digits :: "nat \<Rightarrow> nat \<Rightarrow> int \<Rightarrow> byte list res" where
  "in_digits digits n v =
     (if - (10 ^ digits - 1) \<le> v \<and> v \<le> 10 ^ digits - 1 then Inr (int_le n v) else Inl ArrowSerialize)"

definition write_decimal32_values :: "arr \<Rightarrow> byte list res" where
  "write_decimal32_values col =
     (case col of
        ADecimal128 _ _ xs \<Rightarrow> write_coerced (int_le 4 0) (in_digits 9 4) xs
      | _ \<Rightarrow> Inl ArrowSerialize)"

definition write_decimal64_values :: "arr \<Rightarrow> byte list res" where
  "write_decimal64_values col =
     (case col of
        ADecimal128 _ _ xs \<Rightarrow> write_coerced (int_le 8 0) (in_digits 18 8) xs
      | _ \<Rightarrow> Inl ArrowSerialize)"

definition write_decimal128_values :: "arr \<Rightarrow> byte list res" where
  "write_decimal128_values col =
     (case col of
        ADecimal128 _ _ xs \<Rightarrow> write_coerced (int_le 16 0) (\<lambda>v. Inr (int_le 16 v)) xs
      | _ \<Rightarrow> Inl ArrowSerialize)"

definition write_decimal256_values :: "arr \<Rightarrow> byte list res" where
  "write_decimal256_values col =
     (case col of
        ADecimal256 _ _ xs \<Rightarrow> write_coerced zero32 (\<lambda>v. Inr (swap_endian_256 (int_le 32 v))) xs
      | ADecimal128 _ _ xs \<Rightarrow> write_coerced zero32 (\<lambda>v. Inr (extend_256 v)) xs
      | _ \<Rightarrow> Inl ArrowSerialize)"

text \<open>Dates. The sum of \<open>write_date32_values\<close> overflows an \<open>i32\<close> at its end.\<close>

definition DAYS_1900_TO_1970 :: int where
  "DAYS_1900_TO_1970 = 25567"

definition write_date_values :: "arr \<Rightarrow> byte list res" where
  "write_date_values col =
     (case col of
        ADate32 xs \<Rightarrow>
          write_coerced (int_le 2 0)
            (\<lambda>v. if v < 0 \<or> v > 65535 then Inl ArrowSerialize else Inr (int_le 2 v)) xs
      | _ \<Rightarrow> Inl ArrowSerialize)"

definition write_date32_values :: "arr \<Rightarrow> byte list res" where
  "write_date32_values col =
     (case col of
        ADate32 xs \<Rightarrow>
          write_coerced (int_le 4 0)
            (\<lambda>v. let adjusted = v + DAYS_1900_TO_1970 in
               if adjusted > 2 ^ 31 - 1 then Inl Panic else Inr (int_le 4 adjusted)) xs
      | _ \<Rightarrow> Inl ArrowSerialize)"

definition write_datetime_values :: "arr \<Rightarrow> byte list res" where
  "write_datetime_values col =
     (case col of
        ATimestamp Second _ xs \<Rightarrow>
          write_coerced (int_le 4 0)
            (\<lambda>v. if v > 2 ^ 32 - 1 then Inl ArrowSerialize else Inr (int_le 4 v)) xs
      | _ \<Rightarrow> Inl ArrowSerialize)"

text \<open>
  \<open>v as u64\<close>, divided or multiplied: the cast comes first, so a negative count is divided
  as the large number it becomes, and its product overflows.
\<close>

definition scale_down :: "nat \<Rightarrow> int \<Rightarrow> byte list res" where
  "scale_down k v = Inr (le_bytes 8 (as_u64 v div k))"

definition scale_up :: "nat \<Rightarrow> int \<Rightarrow> byte list res" where
  "scale_up k v = (if as_u64 v * k \<ge> 2 ^ 64 then Inl Panic else Inr (le_bytes 8 (as_u64 v * k)))"

definition write_scaled :: "(time_unit \<Rightarrow> int \<Rightarrow> byte list res) \<Rightarrow> arr \<Rightarrow> byte list res" where
  "write_scaled f col =
     (case col of
        ATimestamp u _ xs \<Rightarrow> write_coerced (int_le 8 0) (f u) xs
      | _ \<Rightarrow> Inl ArrowSerialize)"

definition write_datetime64_3_values :: "arr \<Rightarrow> byte list res" where
  "write_datetime64_3_values =
     write_scaled (\<lambda>u. case u of Millisecond \<Rightarrow> (\<lambda>v. Inr (int_le 8 v))
       | Microsecond \<Rightarrow> scale_down 1000 | Nanosecond \<Rightarrow> scale_down 1000000 | Second \<Rightarrow> scale_up 1000)"

definition write_datetime64_6_values :: "arr \<Rightarrow> byte list res" where
  "write_datetime64_6_values =
     write_scaled (\<lambda>u. case u of Microsecond \<Rightarrow> (\<lambda>v. Inr (int_le 8 v))
       | Millisecond \<Rightarrow> scale_up 1000 | Nanosecond \<Rightarrow> scale_down 1000 | Second \<Rightarrow> scale_up 1000000)"

definition write_datetime64_9_values :: "arr \<Rightarrow> byte list res" where
  "write_datetime64_9_values =
     write_scaled (\<lambda>u. case u of Nanosecond \<Rightarrow> (\<lambda>v. Inr (int_le 8 v))
       | Millisecond \<Rightarrow> scale_up 1000000 | Microsecond \<Rightarrow> scale_up 1000
       | Second \<Rightarrow> scale_up 1000000000)"

definition write_datetime64_unknown_values :: "arr \<Rightarrow> byte list res" where
  "write_datetime64_unknown_values =
     write_scaled (\<lambda>u. case u of Second \<Rightarrow> (\<lambda>v. Inr (int_le 8 v))
       | Millisecond \<Rightarrow> scale_down 1000 | Microsecond \<Rightarrow> scale_down 1000000
       | Nanosecond \<Rightarrow> scale_down 1000000000)"

text \<open>Addresses, UUIDs and floats.\<close>

definition write_ipv4_values :: "arr \<Rightarrow> byte list res" where
  "write_ipv4_values col =
     (case col of
        AFixed _ xs \<Rightarrow>
          write_coerced (int_le 4 0) (exactly 4 (\<lambda>b. put_u32 (word_of_nat (le_nat b)))) xs
      | _ \<Rightarrow> Inl ArrowSerialize)"

definition write_ipv6_values :: "arr \<Rightarrow> byte list res" where
  "write_ipv6_values col =
     (case col of
        AFixed _ xs \<Rightarrow> write_coerced (replicate 16 0) (exactly 16 (\<lambda>b. b)) xs
      | _ \<Rightarrow> Inl ArrowSerialize)"

definition uuid_halves :: "byte list \<Rightarrow> byte list" where
  "uuid_halves b =
     put_u64 (word_of_nat (le_nat (drop 8 b))) @ put_u64 (word_of_nat (le_nat (take 8 b)))"

definition write_uuid_values :: "arr \<Rightarrow> byte list res" where
  "write_uuid_values col =
     (case col of
        AFixed _ xs \<Rightarrow>
          write_coerced (uuid_halves (replicate 16 0)) (exactly 16 uuid_halves) xs
      | _ \<Rightarrow> Inl ArrowSerialize)"

record float_conv =
  f16_to_f32 :: "u16 \<Rightarrow> u32"
  f16_to_f64 :: "u16 \<Rightarrow> u64"
  f32_to_f64 :: "u32 \<Rightarrow> u64"

definition write_f32_values :: "float_conv \<Rightarrow> arr \<Rightarrow> byte list res" where
  "write_f32_values fc col =
     (case col of
        AFloat32 xs \<Rightarrow> Inr (concat (map (\<lambda>x. put_u32 (slot 0 x)) xs))
      | AFloat16 xs \<Rightarrow> Inr (concat (map (\<lambda>x. put_u32 (slot 0 (map_option (f16_to_f32 fc) x))) xs))
      | _ \<Rightarrow> Inl ArrowSerialize)"

definition write_f64_values :: "float_conv \<Rightarrow> arr \<Rightarrow> byte list res" where
  "write_f64_values fc col =
     (case col of
        AFloat64 xs \<Rightarrow> Inr (concat (map (\<lambda>x. put_u64 (slot 0 x)) xs))
      | AFloat32 xs \<Rightarrow> Inr (concat (map (\<lambda>x. put_u64 (slot 0 (map_option (f32_to_f64 fc) x))) xs))
      | AFloat16 xs \<Rightarrow> Inr (concat (map (\<lambda>x. put_u64 (slot 0 (map_option (f16_to_f64 fc) x))) xs))
      | _ \<Rightarrow> Inl ArrowSerialize)"

definition write_datetime64_values :: "nat \<Rightarrow> arr \<Rightarrow> byte list res" where
  "write_datetime64_values p col =
     (if p = 0 then write_datetime64_unknown_values col
      else if p \<le> 3 then write_datetime64_3_values col
      else if p \<le> 6 then write_datetime64_6_values col
      else if p \<le> 9 then write_datetime64_9_values col
      else Inl ArrowSerialize)"

text \<open>\<open>primitive::serialize\<close>.\<close>

definition serialize_primitive :: "float_conv \<Rightarrow> ty \<Rightarrow> arr \<Rightarrow> data_type \<Rightarrow> byte list res" where
  "serialize_primitive fc hint col d =
     (case strip_null hint of
        Int8 \<Rightarrow> write_i8_values col
      | Int16 \<Rightarrow> write_i16_values col
      | Int32 \<Rightarrow> write_i32_values col
      | Int64 \<Rightarrow> write_i64_values col
      | Int128 \<Rightarrow> write_i128_values col
      | Int256 \<Rightarrow> write_i256_values col
      | UInt8 \<Rightarrow> (case d of DBoolean \<Rightarrow> write_bool_values col | _ \<Rightarrow> write_u8_values col)
      | UInt16 \<Rightarrow> write_u16_values col
      | UInt32 \<Rightarrow> write_u32_values col
      | UInt64 \<Rightarrow> write_u64_values col
      | UInt128 \<Rightarrow> write_u128_values col
      | UInt256 \<Rightarrow> write_u256_values col
      | Float32 \<Rightarrow> write_f32_values fc col
      | Float64 \<Rightarrow> write_f64_values fc col
      | Decimal32 _ \<Rightarrow> write_decimal32_values col
      | Decimal64 _ \<Rightarrow> write_decimal64_values col
      | Decimal128 _ \<Rightarrow> write_decimal128_values col
      | Decimal256 _ \<Rightarrow> write_decimal256_values col
      | Date \<Rightarrow> write_date_values col
      | Date32 \<Rightarrow> write_date32_values col
      | DateTime _ \<Rightarrow> write_datetime_values col
      | DateTime64 p _ \<Rightarrow> write_datetime64_values p col
      | Ipv4 \<Rightarrow> write_ipv4_values col
      | Ipv6 \<Rightarrow> write_ipv6_values col
      | Uuid \<Rightarrow> write_uuid_values col
      | _ \<Rightarrow> Inl ArrowSerialize)"

section \<open>String and binary columns\<close>

definition write_variable :: "arr \<Rightarrow> byte list res" where
  "write_variable col =
     (case col of
        ABytes _ xs \<Rightarrow> Inr (concat (map (\<lambda>x. write_string (slot [] x)) xs))
      | _ \<Rightarrow> Inl ArrowSerialize)"

definition pad_to :: "nat \<Rightarrow> byte list \<Rightarrow> byte list" where
  "pad_to n b = take n b @ replicate (n - length b) 0"

definition write_fixed_values :: "nat \<Rightarrow> arr \<Rightarrow> byte list res" where
  "write_fixed_values n col =
     (case col of
        ABytes _ xs \<Rightarrow> Inr (concat (map (\<lambda>x. pad_to n (slot [] x)) xs))
      | AFixed _ xs \<Rightarrow> Inr (concat (map (\<lambda>x. pad_to n (slot [] x)) xs))
      | _ \<Rightarrow> Inl ArrowSerialize)"

text \<open>\<open>binary::serialize\<close>.\<close>

definition serialize_binary :: "ty \<Rightarrow> arr \<Rightarrow> byte list res" where
  "serialize_binary hint col =
     (case strip_null hint of
        String \<Rightarrow> write_variable col
      | Object \<Rightarrow> write_variable col
      | Binary \<Rightarrow> write_variable col
      | FixedSizedString n \<Rightarrow> write_fixed_values n col
      | FixedSizedBinary n \<Rightarrow> write_fixed_values n col
      | _ \<Rightarrow> Inl ArrowSerialize)"

section \<open>Enum columns\<close>

text \<open>
  The four kinds of arrays an enum is written from. The value of a null slot of the
  dictionary is the empty string Arrow keeps there. The map from names to numbers is built
  by inserting the pairs in order, so the last pair of a name counts.
\<close>

definition enum_key :: "(string \<times> 'a::len word) list \<Rightarrow> int option \<Rightarrow> 'a word res" where
  "enum_key pairs key =
     (case key of
        None \<Rightarrow> Inr 0
      | Some k \<Rightarrow> if k < 0 \<or> nat k \<ge> length pairs then Inl ArrowSerialize else Inr (snd (pairs ! nat k)))"

definition enum_number :: "(string \<times> 'a::len word) list \<Rightarrow> int option \<Rightarrow> 'a word res" where
  "enum_number pairs x =
     (let v = word_of_int (slot 0 x) in
      if v \<in> set (map snd pairs) then Inr v else Inl ArrowSerialize)"

definition enum_name :: "bool \<Rightarrow> (string \<times> 'a::len word) list \<Rightarrow> byte list option \<Rightarrow> 'a word res" where
  "enum_name is_text pairs x =
     (case x of
        None \<Rightarrow> Inr 0
      | Some b \<Rightarrow>
          (if \<not> is_text \<and> \<not> utf8_valid b then Inl Utf8Error
           else case map_of (rev pairs) (bytes_str b) of None \<Rightarrow> Inl ArrowSerialize | Some v \<Rightarrow> Inr v))"

definition is_text_kind :: "bytes_kind \<Rightarrow> bool" where
  "is_text_kind k = (k = KUtf8 \<or> k = KLargeUtf8 \<or> k = KUtf8View)"

definition write_enum_values ::
  "nat \<Rightarrow> (string \<times> 'a::len word) list \<Rightarrow> arr \<Rightarrow> byte list res" where
  "write_enum_values n pairs col =
     (case col of
        ADict _ keys vals \<Rightarrow>
          (case vals of
             ABytes KUtf8 vs \<Rightarrow>
               if map (slot []) vs \<noteq> map (\<lambda>p. str_bytes (fst p)) pairs then Inl ArrowSerialize
               else write_each (\<lambda>k. rmap (put_le n) (enum_key pairs k)) keys
           | _ \<Rightarrow> Inl ArrowSerialize)
      | AInt _ xs \<Rightarrow> write_each (\<lambda>x. rmap (put_le n) (enum_number pairs x)) xs
      | ABytes k xs \<Rightarrow> write_each (\<lambda>x. rmap (put_le n) (enum_name (is_text_kind k) pairs x)) xs
      | _ \<Rightarrow> Inl ArrowSerialize)"

definition serialize_enum :: "ty \<Rightarrow> arr \<Rightarrow> byte list res" where
  "serialize_enum hint col =
     (case strip_null hint of
        Enum8 pairs \<Rightarrow> write_enum_values 1 pairs col
      | Enum16 pairs \<Rightarrow> write_enum_values 2 pairs col
      | _ \<Rightarrow> Inl ArrowSerialize)"

section \<open>Default values\<close>

text \<open>
  \<open>write_default\<close> and \<open>put_default\<close> (native/types.rs): the bytes of the null entry of a
  dictionary. The slice \<open>bytes[..precision]\<close> of a date-time panics above eight bytes.
\<close>

function write_default :: "ty \<Rightarrow> byte list res" where
  "write_default t =
     (case strip_null t of
        String \<Rightarrow> Inr (write_string [])
      | Binary \<Rightarrow> Inr (write_string [])
      | FixedSizedString n \<Rightarrow> Inr (replicate n 0)
      | FixedSizedBinary n \<Rightarrow> Inr (replicate n 0)
      | Int8 \<Rightarrow> Inr [0] | Enum8 _ \<Rightarrow> Inr [0]
      | Int16 \<Rightarrow> Inr (put_u16 0) | Enum16 _ \<Rightarrow> Inr (put_u16 0)
      | Int32 \<Rightarrow> Inr (put_u32 0) | Date32 \<Rightarrow> Inr (put_u32 0) | Decimal32 _ \<Rightarrow> Inr (put_u32 0)
      | Int64 \<Rightarrow> Inr (put_u64 0) | Decimal64 _ \<Rightarrow> Inr (put_u64 0)
      | Int128 \<Rightarrow> Inr (replicate 16 0) | UInt128 \<Rightarrow> Inr (replicate 16 0)
      | Uuid \<Rightarrow> Inr (replicate 16 0) | Ipv6 \<Rightarrow> Inr (replicate 16 0)
      | Decimal128 _ \<Rightarrow> Inr (replicate 16 0)
      | Int256 \<Rightarrow> Inr (replicate 32 0) | UInt256 \<Rightarrow> Inr (replicate 32 0)
      | Decimal256 _ \<Rightarrow> Inr (replicate 32 0)
      | UInt8 \<Rightarrow> Inr [0]
      | UInt16 \<Rightarrow> Inr (put_u16 0) | Date \<Rightarrow> Inr (put_u16 0)
      | UInt32 \<Rightarrow> Inr (put_u32 0) | Ipv4 \<Rightarrow> Inr (put_u32 0) | DateTime _ \<Rightarrow> Inr (put_u32 0)
      | UInt64 \<Rightarrow> Inr (put_u64 0)
      | Float32 \<Rightarrow> Inr (put_u32 0)
      | Float64 \<Rightarrow> Inr (put_u64 0)
      | DateTime64 precision _ \<Rightarrow>
          if precision > 8 then Inl Panic else Inr (take precision (put_u64 0))
      | Array _ \<Rightarrow> Inr (write_var_uint 0)
      | Map _ _ \<Rightarrow> Inr (write_var_uint 0)
      | LowCardinality inner \<Rightarrow> write_default inner
      | Tuple inner \<Rightarrow> rmap concat (traverse write_default inner)
      | _ \<Rightarrow> Inl SerializeError)"
  by pat_completeness auto
termination
  by (relation "measure geo_weight") (auto dest: geo_weight_inner geo_weight_member)

declare write_default.simps [simp del]

section \<open>Low-cardinality columns\<close>

text \<open>
  \<open>write_dictionary_keys!\<close>: a null key is index 0, the others are shifted past the entry
  that was put in front. An index is cut to the width that the flags announce.
\<close>

definition lc_key_bytes :: "nat \<Rightarrow> int \<Rightarrow> byte list" where
  "lc_key_bytes n key =
     (if n > 2 ^ 32 - 1 then int_le 8 key
      else if n > 2 ^ 16 - 1 then int_le 4 key
      else if n > 2 ^ 8 - 1 then int_le 2 key
      else int_le 1 key)"

definition dictionary_key :: "nat \<Rightarrow> int option \<Rightarrow> int" where
  "dictionary_key modifier key =
     (case key of None \<Rightarrow> 0 | Some k \<Rightarrow> int (as_u64 k + modifier))"

definition write_values ::
  "(arr \<Rightarrow> data_type \<Rightarrow> byte list res) \<Rightarrow> ty \<Rightarrow> int option list \<Rightarrow> arr \<Rightarrow> byte list res" where
  "write_values write_inner inner_type keys dictionary =
     (let modifier = (if is_nullable inner_type \<and> \<not> has_null dictionary then 1 else 0);
          n = arr_length dictionary + modifier in
      rbind (if modifier = 1 then write_default inner_type else Inr []) (\<lambda>first.
      rbind (write_inner dictionary (arr_type dictionary)) (\<lambda>entries.
        Inr (put_u64 (lc_flags n) @ put_u64 (word_of_nat n) @ first @ entries
             @ put_u64 (word_of_nat (length keys))
             @ concat (map (\<lambda>k. lc_key_bytes n (dictionary_key modifier k)) keys)))))"

text \<open>
  \<open>write_string_values\<close>: the dictionary of a column of strings, in the order the strings
  first come, after an empty string when the column is nullable. An index is an \<open>i32\<close>.
\<close>

fun position :: "'a \<Rightarrow> 'a list \<Rightarrow> nat option" where
  "position x [] = None"
| "position x (y # ys) = (if y = x then Some 0 else map_option Suc (position x ys))"

fun build_dictionary ::
  "byte list option list \<Rightarrow> byte list list \<Rightarrow> byte list list \<times> nat list" where
  "build_dictionary [] dict = (dict, [])"
| "build_dictionary (None # xs) dict = (let (d, ks) = build_dictionary xs dict in (d, 0 # ks))"
| "build_dictionary (Some v # xs) dict =
     (case position v dict of
        Some i \<Rightarrow> let (d, ks) = build_dictionary xs dict in (d, i # ks)
      | None \<Rightarrow>
          let (d, ks) = build_dictionary xs (dict @ [v]) in (d, length dict # ks))"

definition as_i32 :: "nat \<Rightarrow> int" where
  "as_i32 i = sint (word_of_nat i :: u32)"

definition lc_write_string_values :: "bool \<Rightarrow> byte list option list \<Rightarrow> byte list" where
  "lc_write_string_values nullable xs =
     (let (dict, keys) = build_dictionary xs (if None \<in> set xs \<or> nullable then [[]] else []);
          n = length dict in
      put_u64 (lc_flags n) @ put_u64 (word_of_nat n) @ concat (map write_string dict)
      @ put_u64 (word_of_nat (length keys))
      @ concat (map (\<lambda>i. lc_key_bytes n (as_i32 i)) keys))"

definition int_kind_of :: "data_type \<Rightarrow> int_kind option" where
  "int_kind_of d =
     (case d of DInt8 \<Rightarrow> Some I8 | DInt16 \<Rightarrow> Some I16 | DInt32 \<Rightarrow> Some I32 | DInt64 \<Rightarrow> Some I64
      | DUInt8 \<Rightarrow> Some U8 | DUInt16 \<Rightarrow> Some U16 | DUInt32 \<Rightarrow> Some U32 | DUInt64 \<Rightarrow> Some U64
      | _ \<Rightarrow> None)"

definition serialize_low_cardinality ::
  "(arr \<Rightarrow> data_type \<Rightarrow> byte list res) \<Rightarrow> ty \<Rightarrow> ty \<Rightarrow> arr \<Rightarrow> data_type \<Rightarrow> byte list res" where
  "serialize_low_cardinality write_inner hint inner col d =
     (if arr_length col = 0 then Inr []
      else case d of
        DDictionary key_type _ \<Rightarrow>
          (case int_kind_of key_type of
             None \<Rightarrow> Inl Panic
           | Some k \<Rightarrow>
               (case col of
                  ADict k' keys dictionary \<Rightarrow>
                    if k' = k then write_values write_inner inner keys dictionary
                    else Inl ArrowSerialize
                | _ \<Rightarrow> Inl ArrowSerialize))
      | _ \<Rightarrow>
          (if any_utf8 d \<or> any_binary d then
             (case col of
                ABytes _ xs \<Rightarrow> Inr (lc_write_string_values (is_nullable hint) xs)
              | _ \<Rightarrow> Inl ArrowSerialize)
           else Inl ArrowSerialize))"

section \<open>Lists, maps and structures\<close>

definition unwrap_array_data_type :: "data_type \<Rightarrow> data_type res" where
  "unwrap_array_data_type d =
     (case list_item d of None \<Rightarrow> Inl ArrowSerialize | Some f \<Rightarrow> Inr (field_type f))"

text \<open>\<open>&offsets[1..]\<close>, each \<open>as u64\<close>; the slice of no offsets panics.\<close>

definition tail_offsets :: "int list \<Rightarrow> byte list res" where
  "tail_offsets offsets =
     (case offsets of [] \<Rightarrow> Inl Panic | _ # os \<Rightarrow> Inr (concat (map (int_le 8) os)))"

definition serialize_list ::
  "(arr \<Rightarrow> data_type \<Rightarrow> byte list res) \<Rightarrow> arr \<Rightarrow> data_type \<Rightarrow> byte list res" where
  "serialize_list write_inner col d =
     (case col of
        AList _ _ offsets child _ \<Rightarrow>
          rbind (unwrap_array_data_type d) (\<lambda>inner_dt.
          rbind (tail_offsets offsets) (\<lambda>os.
          rbind (write_inner child inner_dt) (\<lambda>items. Inr (os @ items))))
      | AListView _ _ offsets _ child _ \<Rightarrow>
          rbind (unwrap_array_data_type d) (\<lambda>inner_dt.
          rbind (tail_offsets offsets) (\<lambda>os.
          rbind (write_inner child inner_dt) (\<lambda>items. Inr (os @ items))))
      | AFixedList _ list_size child _ n \<Rightarrow>
          rbind (unwrap_array_data_type d) (\<lambda>inner_dt.
          rbind (write_inner child inner_dt) (\<lambda>items.
            Inr (concat (map (\<lambda>i. put_u64 (word_of_nat (usize_of_i32 list_size * i))) [1..<Suc n]) @ items)))
      | _ \<Rightarrow> Inl ArrowSerialize)"

text \<open>The loop over the offsets of a map adds up the lengths.\<close>

fun map_lengths :: "int \<Rightarrow> int list \<Rightarrow> byte list" where
  "map_lengths total_length (a # b # os) =
     int_le 8 (total_length + (b - a)) @ map_lengths (total_length + (b - a)) (b # os)"
| "map_lengths total_length _ = []"

definition serialize_map ::
  "(arr \<Rightarrow> data_type \<Rightarrow> byte list res) \<Rightarrow> (arr \<Rightarrow> data_type \<Rightarrow> byte list res)
    \<Rightarrow> arr \<Rightarrow> data_type \<Rightarrow> byte list res" where
  "serialize_map write_key write_value col d =
     (case col of
        AMap _ offsets keys vals _ \<Rightarrow>
          (case d of
             DMap f _ \<Rightarrow>
               (case field_type f of
                  DStruct [kf, vf] \<Rightarrow>
                    rbind (write_key keys (field_type kf)) (\<lambda>ks.
                    rbind (write_value vals (field_type vf)) (\<lambda>vs.
                      Inr (map_lengths 0 offsets @ ks @ vs)))
                | _ \<Rightarrow> Inl ArrowSerialize)
           | _ \<Rightarrow> Inl ArrowSerialize)
      | _ \<Rightarrow> Inl ArrowSerialize)"

definition serialize_tuple :: "(arr \<Rightarrow> data_type \<Rightarrow> byte list res) list \<Rightarrow> arr \<Rightarrow> byte list res" where
  "serialize_tuple writers col =
     (case col of
        AStruct fs cols _ _ \<Rightarrow>
          (if length fs \<noteq> length writers then Inl ArrowSerialize
           else write_each (\<lambda>(w, f, c). w c (field_type f)) (zip writers (zip fs cols)))
      | _ \<Rightarrow> Inl ArrowSerialize)"

section \<open>The column of a type\<close>

lemma geo_weight_strip: "strip_null t = LowCardinality u \<Longrightarrow> geo_weight (strip_null u) < geo_weight t"
  using ty_weight_strip_null [of t] ty_weight_strip_null [of u] by (intro geo_weight_le) simp

lemma geo_weight_strip_null: "geo_weight (strip_null t) \<le> geo_weight t"
  by (cases t) (simp_all add: strip_null_def geo_weight_def is_geo_def)

lemma geo_weight_geo:
  assumes "strip_null t = b" and "normalize_geo_type b = Inr u"
  shows "geo_weight u < geo_weight t"
  using geo_weight_normalized [OF assms(2)] geo_weight_strip_null [of t] by (simp add: assms(1))

text \<open>
  The arms of \<open>serialize\<close>. \<open>map::serialize\<close> unwraps the type as it is, so a nullable map is
  an error; a doubly nullable type is unreachable.
\<close>

function serialize_arrow :: "float_conv \<Rightarrow> ty \<Rightarrow> arr \<Rightarrow> data_type \<Rightarrow> byte list res" where
  "serialize_arrow fc t col d =
     (let nulls = (if is_nullable t then serialize_nulls t col else []) in
      rmap (\<lambda>bs. nulls @ bs)
        (case strip_null t of
           String \<Rightarrow> serialize_binary t col
         | Binary \<Rightarrow> serialize_binary t col
         | FixedSizedString _ \<Rightarrow> serialize_binary t col
         | FixedSizedBinary _ \<Rightarrow> serialize_binary t col
         | Object \<Rightarrow> serialize_binary t col
         | Enum8 _ \<Rightarrow> serialize_enum t col
         | Enum16 _ \<Rightarrow> serialize_enum t col
         | LowCardinality inner \<Rightarrow>
             serialize_low_cardinality (serialize_arrow fc (strip_null inner)) t inner col d
         | Array inner \<Rightarrow> serialize_list (serialize_arrow fc inner) col d
         | Map key val \<Rightarrow>
             if is_nullable t then Inl UnexpectedType
             else serialize_map (serialize_arrow fc key) (serialize_arrow fc val) col d
         | Tuple inner \<Rightarrow> serialize_tuple (map (serialize_arrow fc) inner) col
         | Nullable _ \<Rightarrow> Inl Panic
         | _ \<Rightarrow>
             (case normalize_geo_type (strip_null t) of
                Inr normalized \<Rightarrow> serialize_arrow fc normalized col d
              | Inl _ \<Rightarrow> serialize_primitive fc t col d)))"
  by pat_completeness auto
termination
  by (relation "measure (\<lambda>(fc, t, col, d). geo_weight t)")
    (auto dest: geo_weight_inner geo_weight_member geo_weight_strip intro: geo_weight_geo)

declare serialize_arrow.simps [simp del]

end
