(* ===== verification/ArrowRead.thy ===== *)
theory ArrowRead
  imports ArrowWrite
begin

text \<open>
  The deserializer of Arrow columns: the typed builders (arrow/builder.rs and
  arrow/builder/) and \<open>ClickHouseArrowDeserializer\<close> for \<open>Type\<close> (arrow/deserialize.rs with
  the modules under arrow/deserialize/).

  A builder is emptied when its array is finished, so between columns it is only its kind:
  the datatype \<open>builder\<close>. The reader is asynchronous (\<open>async_input\<close>) or in memory
  (\<open>sync_input\<close>); the parts that the source repeats for both are one definition over the
  record \<open>input\<close>. The bulk reads cast a byte buffer to integers in place, which is
  little-endian on a little-endian host, the only one modelled.

  What Arrow and serde_json do is the argument \<open>lib\<close>: the constructors of composite arrays
  and of batches (which check their parts), the decimal types a builder accepts, the empty
  array of a type, and \<open>json_text\<close>, what a JSON text becomes when it is parsed and printed
  (the text itself without the \<open>serde\<close> feature).
\<close>

record batch =
  batch_fields :: "field list"
  batch_columns :: "arr list"
  batch_rows :: nat

record arrow_lib =
  decimal_ok :: "byte \<Rightarrow> byte \<Rightarrow> bool"
  fixed_ok :: "u32 \<Rightarrow> bool"
  list_new :: "list_kind \<Rightarrow> field \<Rightarrow> int list \<Rightarrow> arr \<Rightarrow> validity \<Rightarrow> arr res"
  fixed_list_new :: "field \<Rightarrow> u32 \<Rightarrow> arr \<Rightarrow> validity \<Rightarrow> arr res"
  map_new :: "field \<Rightarrow> int list \<Rightarrow> arr \<Rightarrow> arr \<Rightarrow> validity \<Rightarrow> arr res"
  struct_new :: "field list \<Rightarrow> arr list \<Rightarrow> validity \<Rightarrow> arr res"
  struct_with_length :: "field list \<Rightarrow> arr list \<Rightarrow> validity \<Rightarrow> nat \<Rightarrow> arr res"
  dict_new :: "int_kind \<Rightarrow> int option list \<Rightarrow> arr \<Rightarrow> arr res"
  new_empty :: "data_type \<Rightarrow> arr"
  batch_new :: "field list \<Rightarrow> arr list \<Rightarrow> batch res"
  json_text :: "byte list \<Rightarrow> byte list"

section \<open>Builders\<close>

datatype builder =
    BInt int_kind
  | BFloat32 | BFloat64
  | BDecimal32 byte | BDecimal64 byte | BDecimal128 byte | BDecimal256 byte
  | BDate | BDate32
  | BDateTime "string option" | BDateTimeS "string option" | BDateTimeMs "string option"
  | BDateTimeMu "string option" | BDateTimeNano "string option"
  | BString | BObject | BBinary | BFixedSizeBinary u32
  | BEnum8 | BEnum16
  | BList builder | BLargeList builder | BFixedList u32 builder
  | BLowCardinality int_kind builder
  | BMap builder builder
  | BTuple "builder list"

definition tz_some :: "data_type \<Rightarrow> bool" where
  "tz_some d = (case d of DTimestamp _ z \<Rightarrow> z \<noteq> None | _ \<Rightarrow> False)"

definition decimal_builder :: "arrow_lib \<Rightarrow> (byte \<Rightarrow> builder) \<Rightarrow> byte \<Rightarrow> nat \<Rightarrow> builder res" where
  "decimal_builder lib mk p s =
     (if decimal_ok lib p (i8_of_usize s) then Inr (mk (i8_of_usize s)) else Inl ArrowError)"

definition fixed_builder :: "arrow_lib \<Rightarrow> u32 \<Rightarrow> builder res" where
  "fixed_builder lib n = (if fixed_ok lib n then Inr (BFixedSizeBinary n) else Inl Panic)"

definition get_map_fields :: "data_type \<Rightarrow> (field \<times> field) res" where
  "get_map_fields d =
     (case d of DMap f _ \<Rightarrow> map_entry_fields (field_type f) | _ \<Rightarrow> Inl ArrowDeserialize)"

definition timestamp_builder :: "nat \<Rightarrow> string option \<Rightarrow> builder res" where
  "timestamp_builder p z =
     (if p = 0 then Inr (BDateTimeS z)
      else if p \<le> 3 then Inr (BDateTimeMs z)
      else if p \<le> 6 then Inr (BDateTimeMu z)
      else if p \<le> 9 then Inr (BDateTimeNano z)
      else Inl ArrowDeserialize)"

text \<open>
  \<open>TypedBuilder::try_new\<close>, with \<open>TypedListBuilder\<close> and \<open>LowCardinalityBuilder\<close>. A geometric
  type is \<open>unimplemented!()\<close>: its type has to be normalized before.
\<close>

function try_new :: "arrow_lib \<Rightarrow> ty \<Rightarrow> data_type \<Rightarrow> builder res" where
  "try_new lib t d =
     (let z = (\<lambda>name. if tz_some d then Some name else None) in
      case strip_null t of
        Array inner \<Rightarrow>
          (case d of
             DList f \<Rightarrow> rmap BList (try_new lib (strip_null inner) (field_type f))
           | DLargeList f \<Rightarrow> rmap BLargeList (try_new lib (strip_null inner) (field_type f))
           | DFixedSizeList f n \<Rightarrow> rmap (BFixedList n) (try_new lib (strip_null inner) (field_type f))
           | _ \<Rightarrow> Inl ArrowDeserialize)
      | LowCardinality inner \<Rightarrow>
          (case d of
             DDictionary k v \<Rightarrow>
               (case int_kind_of k of
                  None \<Rightarrow> Inl ArrowTypeMismatch
                | Some kind \<Rightarrow> rmap (BLowCardinality kind) (try_new lib (strip_null inner) v))
           | _ \<Rightarrow> Inl ArrowTypeMismatch)
      | Tuple inner \<Rightarrow>
          (case d of
             DStruct fs \<Rightarrow>
               if length inner \<noteq> length fs then Inl ArrowDeserialize
               else rmap BTuple (traverse (\<lambda>(u, f). try_new lib u (field_type f)) (zip inner fs))
           | _ \<Rightarrow> Inl ArrowDeserialize)
      | Map key val \<Rightarrow>
          rbind (get_map_fields d) (\<lambda>(kf, vf).
          rbind (try_new lib key (field_type kf)) (\<lambda>kb.
          rbind (try_new lib val (field_type vf)) (\<lambda>vb. Inr (BMap kb vb))))
      | Int8 \<Rightarrow> Inr (BInt I8)
      | Int16 \<Rightarrow> Inr (BInt I16)
      | Int32 \<Rightarrow> Inr (BInt I32)
      | Int64 \<Rightarrow> Inr (BInt I64)
      | UInt8 \<Rightarrow> Inr (BInt U8)
      | UInt16 \<Rightarrow> Inr (BInt U16)
      | UInt32 \<Rightarrow> Inr (BInt U32)
      | UInt64 \<Rightarrow> Inr (BInt U64)
      | Float32 \<Rightarrow> Inr BFloat32
      | Float64 \<Rightarrow> Inr BFloat64
      | Decimal32 s \<Rightarrow> decimal_builder lib BDecimal32 9 s
      | Decimal64 s \<Rightarrow> decimal_builder lib BDecimal64 18 s
      | Decimal128 s \<Rightarrow> decimal_builder lib BDecimal128 38 s
      | Decimal256 s \<Rightarrow> decimal_builder lib BDecimal256 76 s
      | Date \<Rightarrow> Inr BDate
      | Date32 \<Rightarrow> Inr BDate32
      | DateTime name \<Rightarrow> Inr (BDateTime (z name))
      | DateTime64 p name \<Rightarrow> timestamp_builder p (z name)
      | String \<Rightarrow> Inr BString
      | Object \<Rightarrow> Inr BObject
      | FixedSizedString n \<Rightarrow> fixed_builder lib (i32_of_usize n)
      | Binary \<Rightarrow> Inr BBinary
      | FixedSizedBinary n \<Rightarrow> fixed_builder lib (i32_of_usize n)
      | Ipv4 \<Rightarrow> fixed_builder lib 4
      | Ipv6 \<Rightarrow> fixed_builder lib 16
      | Uuid \<Rightarrow> fixed_builder lib 16
      | Int128 \<Rightarrow> fixed_builder lib 16
      | Int256 \<Rightarrow> fixed_builder lib 32
      | UInt128 \<Rightarrow> fixed_builder lib 16
      | UInt256 \<Rightarrow> fixed_builder lib 32
      | Enum8 _ \<Rightarrow> Inr BEnum8
      | Enum16 _ \<Rightarrow> Inr BEnum16
      | Point \<Rightarrow> Inl Panic | Polygon \<Rightarrow> Inl Panic | MultiPolygon \<Rightarrow> Inl Panic | Ring \<Rightarrow> Inl Panic
      | Nullable _ \<Rightarrow> Inl UnexpectedType)"
  by pat_completeness auto

lemma geo_weight_strip_inner:
  "strip_null t = Array u \<Longrightarrow> geo_weight (strip_null u) < geo_weight t"
  using geo_weight_inner(1) [of t u] geo_weight_strip_null [of u] by simp

termination try_new
  by (relation "measure (\<lambda>(lib, t, d). geo_weight t)")
    (auto dest: geo_weight_inner geo_weight_member geo_weight_strip geo_weight_strip_inner set_zip_leftD)

declare try_new.simps [simp del]

section \<open>Input\<close>

record input =
  eof_error :: err
  input_string :: "byte list reader"

definition async_input :: input where
  "async_input = \<lparr>eof_error = Io, input_string = read_string\<rparr>"

definition sync_input :: input where
  "sync_input = \<lparr>eof_error = BytesRead, input_string = try_get_string\<rparr>"

text \<open>\<open>if nulls.is_empty() || nulls[i] == 0\<close>: an index past the mask panics.\<close>

definition masked :: "byte list \<Rightarrow> 'a list \<Rightarrow> 'a option list res" where
  "masked nulls xs =
     (if nulls = [] then Inr (map Some xs)
      else if length nulls < length xs then Inl Panic
      else Inr (map (\<lambda>(n, x). if n = 0 then Some x else None) (zip nulls xs)))"

text \<open>\<open>deser_bulk!\<close>: all the bytes of the column at once, then cut into values.\<close>

definition chunks :: "nat \<Rightarrow> nat \<Rightarrow> byte list \<Rightarrow> byte list list" where
  "chunks n rows buf = map (\<lambda>i. take n (drop (i * n) buf)) [0..<rows]"

definition read_bulk ::
  "input \<Rightarrow> nat \<Rightarrow> (byte list \<Rightarrow> 'a) \<Rightarrow> nat \<Rightarrow> byte list \<Rightarrow> 'a option list reader" where
  "read_bulk io n conv rows nulls s =
     (if rows = 0 then Inr ([], s)
      else rbind (read_exact (eof_error io) (rows * n) s) (\<lambda>(buf, s).
        rbind (masked nulls (map conv (chunks n rows buf))) (\<lambda>xs. Inr (xs, s))))"

text \<open>The row by row form (\<open>opt_value!\<close>): every row is read, null or not.\<close>

definition read_rows :: "'a reader \<Rightarrow> nat \<Rightarrow> byte list \<Rightarrow> 'a option list reader" where
  "read_rows item rows nulls s =
     rbind (read_n rows item s) (\<lambda>(xs, s). rbind (masked nulls xs) (\<lambda>ys. Inr (ys, s)))"

definition to_array :: "('a list \<Rightarrow> arr) \<Rightarrow> 'a list reader \<Rightarrow> arr reader" where
  "to_array mk p s = rbind (p s) (\<lambda>(xs, s). Inr (mk xs, s))"

definition unsigned_le :: "byte list \<Rightarrow> int" where
  "unsigned_le bs = int (le_nat bs)"

definition signed_le :: "byte list \<Rightarrow> int" where
  "signed_le bs =
     (let u = int (le_nat bs) in
      if 2 * u < 2 ^ (8 * length bs) then u else u - 2 ^ (8 * length bs))"

definition int_bytes :: "int_kind \<Rightarrow> nat" where
  "int_bytes k = (case k of I8 \<Rightarrow> 1 | I16 \<Rightarrow> 2 | I32 \<Rightarrow> 4 | I64 \<Rightarrow> 8 | U8 \<Rightarrow> 1 | U16 \<Rightarrow> 2 | U32 \<Rightarrow> 4 | U64 \<Rightarrow> 8)"

definition int_signed :: "int_kind \<Rightarrow> bool" where
  "int_signed k = (k \<in> {I8, I16, I32, I64})"

definition int_of_bytes :: "int_kind \<Rightarrow> byte list \<Rightarrow> int" where
  "int_of_bytes k bs = (if int_signed k then signed_le bs else unsigned_le bs)"

section \<open>Primitive columns\<close>

definition read_date32 :: "input \<Rightarrow> int reader" where
  "read_date32 io s =
     rbind (read_exact (eof_error io) 4 s) (\<lambda>(bs, s).
       let days = signed_le bs - DAYS_1900_TO_1970 in
       if days < - (2 ^ 31) then Inl Panic else Inr (days, s))"

definition read_decimal128 :: "input \<Rightarrow> int reader" where
  "read_decimal128 io = read_as signed_le (read_exact (eof_error io) 16)"

definition read_decimal256 :: "input \<Rightarrow> int reader" where
  "read_decimal256 io = read_as (\<lambda>buf. signed_le (rev buf)) (read_exact (eof_error io) 32)"

text \<open>\<open>primitive::deserialize_async\<close>: the kind of the builder decides what is read.\<close>

definition deserialize_primitive :: "input \<Rightarrow> builder \<Rightarrow> nat \<Rightarrow> byte list \<Rightarrow> arr reader" where
  "deserialize_primitive io b rows nulls =
     (case b of
        BInt k \<Rightarrow> to_array (AInt k) (read_bulk io (int_bytes k) (int_of_bytes k) rows nulls)
      | BFloat32 \<Rightarrow> to_array AFloat32 (read_bulk io 4 (\<lambda>bs. word_of_nat (le_nat bs)) rows nulls)
      | BFloat64 \<Rightarrow> to_array AFloat64 (read_bulk io 8 (\<lambda>bs. word_of_nat (le_nat bs)) rows nulls)
      | BDecimal32 sc \<Rightarrow> to_array (ADecimal128 9 sc) (read_bulk io 4 signed_le rows nulls)
      | BDecimal64 sc \<Rightarrow> to_array (ADecimal128 18 sc) (read_bulk io 8 signed_le rows nulls)
      | BDate \<Rightarrow> to_array ADate32 (read_bulk io 2 unsigned_le rows nulls)
      | BDateTime z \<Rightarrow> to_array (ATimestamp Second z) (read_bulk io 4 unsigned_le rows nulls)
      | BDateTimeS z \<Rightarrow> to_array (ATimestamp Second z) (read_bulk io 8 signed_le rows nulls)
      | BDateTimeMs z \<Rightarrow> to_array (ATimestamp Millisecond z) (read_bulk io 8 signed_le rows nulls)
      | BDateTimeMu z \<Rightarrow> to_array (ATimestamp Microsecond z) (read_bulk io 8 signed_le rows nulls)
      | BDateTimeNano z \<Rightarrow> to_array (ATimestamp Nanosecond z) (read_bulk io 8 signed_le rows nulls)
      | BDate32 \<Rightarrow> to_array ADate32 (read_rows (read_date32 io) rows nulls)
      | BDecimal128 sc \<Rightarrow> to_array (ADecimal128 38 sc) (read_rows (read_decimal128 io) rows nulls)
      | BDecimal256 sc \<Rightarrow> to_array (ADecimal256 76 sc) (read_rows (read_decimal256 io) rows nulls)
      | _ \<Rightarrow> (\<lambda>s. Inl ArrowDeserialize))"

section \<open>String and binary columns\<close>

definition fixed_item :: "input \<Rightarrow> ty \<Rightarrow> byte list reader option" where
  "fixed_item io t =
     (let bytes = read_exact (eof_error io) in
      case strip_null t of
        FixedSizedString n \<Rightarrow> Some (bytes n)
      | FixedSizedBinary n \<Rightarrow> Some (bytes n)
      | Ipv4 \<Rightarrow> Some (read_as (\<lambda>v. rev (put_u32 v)) (read_u32 (eof_error io)))
      | Ipv6 \<Rightarrow> Some (bytes 16)
      | Uuid \<Rightarrow> Some (bytes 16)
      | Int128 \<Rightarrow> Some (bytes 16)
      | UInt128 \<Rightarrow> Some (bytes 16)
      | Int256 \<Rightarrow> Some (read_as rev (bytes 32))
      | UInt256 \<Rightarrow> Some (read_as rev (bytes 32))
      | _ \<Rightarrow> None)"

text \<open>\<open>append_value\<close> of a fixed-size builder fails on a value of another length.\<close>

definition append_fixed :: "u32 \<Rightarrow> byte list option list \<Rightarrow> arr res" where
  "append_fixed n xs =
     (if \<exists>x \<in> set xs. \<exists>b. x = Some b \<and> length b \<noteq> usize_of_i32 n then Inl ArrowError
      else Inr (AFixed n xs))"

definition deserialize_fixed :: "input \<Rightarrow> err \<Rightarrow> ty \<Rightarrow> u32 \<Rightarrow> nat \<Rightarrow> byte list \<Rightarrow> arr reader" where
  "deserialize_fixed io bad t n rows nulls s =
     (case fixed_item io t of
        None \<Rightarrow> Inl bad
      | Some item \<Rightarrow>
          rbind (read_rows item rows nulls s) (\<lambda>(xs, s). rbind (append_fixed n xs) (\<lambda>a. Inr (a, s))))"

definition deserialize_strings :: "arrow_lib \<Rightarrow> input \<Rightarrow> builder \<Rightarrow> nat \<Rightarrow> byte list \<Rightarrow> arr reader" where
  "deserialize_strings lib io b rows nulls =
     (case b of
        BString \<Rightarrow>
          to_array (ABytes KUtf8) (read_rows (read_as from_utf8_lossy (input_string io)) rows nulls)
      | BBinary \<Rightarrow> to_array (ABytes KBinary) (read_rows (input_string io) rows nulls)
      | BObject \<Rightarrow>
          to_array (ABytes KUtf8)
            (read_rows (read_as (\<lambda>bs. json_text lib (from_utf8_lossy bs)) (input_string io)) rows nulls)
      | _ \<Rightarrow> (\<lambda>s. Inl ArrowDeserialize))"

text \<open>\<open>binary::deserialize_async\<close>.\<close>

definition deserialize_binary ::
  "arrow_lib \<Rightarrow> input \<Rightarrow> ty \<Rightarrow> builder \<Rightarrow> nat \<Rightarrow> byte list \<Rightarrow> arr reader" where
  "deserialize_binary lib io t b rows nulls =
     (case b of
        BFixedSizeBinary n \<Rightarrow> deserialize_fixed io ArrowDeserialize t n rows nulls
      | _ \<Rightarrow> deserialize_strings lib io b rows nulls)"

section \<open>Enum columns\<close>

text \<open>
  The numbers are read one by one; the name of a number that is not null is appended to a
  string dictionary builder, which keeps the names in the order they first come and panics
  when an index does not fit its key type.
\<close>

fun enum_rows ::
  "'i reader \<Rightarrow> (string \<times> 'i) list \<Rightarrow> byte list \<Rightarrow> nat \<Rightarrow> nat \<Rightarrow> byte list option list reader" where
  "enum_rows p pairs nulls i 0 s = Inr ([], s)"
| "enum_rows p pairs nulls i (Suc n) s =
     rbind (p s) (\<lambda>(idx, s).
     rbind (if nulls \<noteq> [] \<and> length nulls \<le> i then Inl Panic
            else if nulls = [] \<or> nulls ! i = 0 then
              (case find (\<lambda>pair. snd pair = idx) pairs of
                 None \<Rightarrow> Inl ArrowDeserialize
               | Some pair \<Rightarrow> Inr (Some (str_bytes (fst pair))))
            else Inr None) (\<lambda>x.
     rbind (enum_rows p pairs nulls (Suc i) n s) (\<lambda>(xs, s). Inr (x # xs, s))))"

fun dictionary_keys :: "byte list option list \<Rightarrow> byte list list \<Rightarrow> byte list list \<times> int option list" where
  "dictionary_keys [] dict = (dict, [])"
| "dictionary_keys (None # xs) dict = (let (d, ks) = dictionary_keys xs dict in (d, None # ks))"
| "dictionary_keys (Some v # xs) dict =
     (case position v dict of
        Some i \<Rightarrow> let (d, ks) = dictionary_keys xs dict in (d, Some (int i) # ks)
      | None \<Rightarrow>
          let (d, ks) = dictionary_keys xs (dict @ [v]) in (d, Some (int (length dict)) # ks))"

definition string_dictionary :: "int_kind \<Rightarrow> byte list option list \<Rightarrow> arr res" where
  "string_dictionary k xs =
     (let (dict, keys) = dictionary_keys xs [] in
      if length dict > 2 ^ (8 * int_bytes k - 1) then Inl Panic
      else Inr (ADict k keys (ABytes KUtf8 (map Some dict))))"

definition deserialize_enum :: "input \<Rightarrow> err \<Rightarrow> ty \<Rightarrow> builder \<Rightarrow> nat \<Rightarrow> byte list \<Rightarrow> arr reader" where
  "deserialize_enum io bad t b rows nulls s =
     (case b of
        BEnum8 \<Rightarrow>
          (case t of
             Enum8 pairs \<Rightarrow>
               rbind (enum_rows (read_u8 (eof_error io)) pairs nulls 0 rows s) (\<lambda>(xs, s).
               rbind (string_dictionary I8 xs) (\<lambda>a. Inr (a, s)))
           | _ \<Rightarrow> Inl UnexpectedType)
      | BEnum16 \<Rightarrow>
          (case t of
             Enum16 pairs \<Rightarrow>
               rbind (enum_rows (read_u16 (eof_error io)) pairs nulls 0 rows s) (\<lambda>(xs, s).
               rbind (string_dictionary I16 xs) (\<lambda>a. Inr (a, s)))
           | _ \<Rightarrow> Inl UnexpectedType)
      | _ \<Rightarrow> Inl bad)"

section \<open>Lists, maps and structures\<close>

text \<open>The validity of a composite array, from the mask of its rows.\<close>

definition null_buffer :: "byte list \<Rightarrow> validity" where
  "null_buffer nulls = (if nulls = [] then None else Some (map (\<lambda>n. n = 0) nulls))"

text \<open>\<open>bulk_offsets!\<close>: a zero in front of the offsets of the rows.\<close>

definition read_offset_list :: "input \<Rightarrow> nat \<Rightarrow> u64 list reader" where
  "read_offset_list io rows s =
     rbind (read_exact (eof_error io) (rows * 8) s) (\<lambda>(buf, s).
       Inr (0 # map (\<lambda>bs. word_of_nat (le_nat bs)) (chunks 8 rows buf), s))"

definition as_i32_offset :: "u64 \<Rightarrow> int" where
  "as_i32_offset o1 = sint (ucast o1 :: u32)"

definition as_i64_offset :: "u64 \<Rightarrow> int" where
  "as_i64_offset o1 = sint o1"

definition list_read ::
  "arrow_lib \<Rightarrow> input \<Rightarrow> (nat \<Rightarrow> arr reader) \<Rightarrow> bool \<Rightarrow> list_kind \<Rightarrow> (u64 \<Rightarrow> int)
    \<Rightarrow> nat \<Rightarrow> byte list \<Rightarrow> arr reader" where
  "list_read lib io read_inner inner_nullable kind cast rows nulls s =
     rbind (read_offset_list io rows s) (\<lambda>(offsets, s).
     rbind (read_inner (unat (last offsets)) s) (\<lambda>(inner, s).
     rbind (list_new lib kind (Field LIST_ITEM_FIELD_NAME (arr_type inner) inner_nullable)
              (map cast offsets) inner (null_buffer nulls)) (\<lambda>a.
       if arr_length a \<noteq> rows then Inl DeserializeError else Inr (a, s))))"

text \<open>
  \<open>list::deserialize\<close>. The Arrow type must be one of the three named first, so the arm of
  the fixed-size builder is not reached; it reads \<open>rows\<close> items, not \<open>rows\<close> lists.
\<close>

definition readable_list_item :: "data_type \<Rightarrow> field option" where
  "readable_list_item d =
     (case d of DList f \<Rightarrow> Some f | DListView f \<Rightarrow> Some f | DLargeList f \<Rightarrow> Some f | _ \<Rightarrow> None)"

definition deserialize_list ::
  "arrow_lib \<Rightarrow> input \<Rightarrow> (builder \<Rightarrow> data_type \<Rightarrow> nat \<Rightarrow> arr reader) \<Rightarrow> bool
    \<Rightarrow> builder \<Rightarrow> data_type \<Rightarrow> nat \<Rightarrow> byte list \<Rightarrow> arr reader" where
  "deserialize_list lib io read_inner inner_nullable b d rows nulls s =
     (case readable_list_item d of
        None \<Rightarrow> Inl ArrowDeserialize
      | Some f \<Rightarrow>
          (case b of
             BList ib \<Rightarrow>
               list_read lib io (read_inner ib (field_type f)) inner_nullable KList as_i32_offset
                 rows nulls s
           | BLargeList ib \<Rightarrow>
               list_read lib io (read_inner ib (field_type f)) inner_nullable KLargeList as_i64_offset
                 rows nulls s
           | BFixedList width ib \<Rightarrow>
               rbind (read_inner ib (field_type f) rows s) (\<lambda>(inner, s).
               rbind (fixed_list_new lib (Field LIST_ITEM_FIELD_NAME (arr_type inner) inner_nullable)
                        width inner (null_buffer nulls)) (\<lambda>a.
                 if arr_length a \<noteq> rows then Inl DeserializeError else Inr (a, s)))
           | _ \<Rightarrow> Inl ArrowDeserialize))"

definition deserialize_map ::
  "arrow_lib \<Rightarrow> input \<Rightarrow> (builder \<Rightarrow> data_type \<Rightarrow> nat \<Rightarrow> arr reader)
    \<Rightarrow> (builder \<Rightarrow> data_type \<Rightarrow> nat \<Rightarrow> arr reader)
    \<Rightarrow> builder \<Rightarrow> data_type \<Rightarrow> nat \<Rightarrow> byte list \<Rightarrow> arr reader" where
  "deserialize_map lib io read_key read_value b d rows nulls s =
     rbind (get_map_fields d) (\<lambda>(kf, vf).
       case b of
         BMap kb vb \<Rightarrow>
           rbind (read_offset_list io rows s) (\<lambda>(offsets, s).
           let total_pairs = unat (last offsets) in
           rbind (read_key kb (field_type kf) total_pairs s) (\<lambda>(keys, s).
           rbind (read_value vb (field_type vf) total_pairs s) (\<lambda>(vals, s).
           rbind (map_new lib (Field MAP_FIELD_NAME (DStruct [kf, vf]) False)
                    (map as_i32_offset offsets) keys vals (null_buffer nulls)) (\<lambda>a. Inr (a, s)))))
       | _ \<Rightarrow> Inl ArrowDeserialize)"

fun read_each :: "arr reader list \<Rightarrow> arr list reader" where
  "read_each [] s = Inr ([], s)"
| "read_each (p # ps) s =
     rbind (p s) (\<lambda>(a, s). rbind (read_each ps s) (\<lambda>(as, s). Inr (a # as, s)))"

text \<open>
  \<open>tuple::deserialize\<close>. Without rows it builds a structure of an integer and a string
  column, whatever the fields are.
\<close>

definition deserialize_tuple ::
  "arrow_lib \<Rightarrow> (builder \<Rightarrow> data_type \<Rightarrow> nat \<Rightarrow> arr reader) list
    \<Rightarrow> builder \<Rightarrow> data_type \<Rightarrow> nat \<Rightarrow> byte list \<Rightarrow> arr reader" where
  "deserialize_tuple lib readers b d rows nulls s =
     (case d of
        DStruct fs \<Rightarrow>
          (case b of
             BTuple bs \<Rightarrow>
               if rows = 0 then
                 rbind (struct_with_length lib fs [AInt I32 [], ABytes KUtf8 []] None 0) (\<lambda>a. Inr (a, s))
               else
                 rbind (read_each (map (\<lambda>(b, p, f). p b (field_type f) rows) (zip bs (zip readers fs))) s)
                   (\<lambda>(arrays, s).
                 rbind (struct_new lib fs arrays (null_buffer nulls)) (\<lambda>a. Inr (a, s)))
           | _ \<Rightarrow> Inl ArrowDeserialize)
      | _ \<Rightarrow> Inl ArrowDeserialize)"

section \<open>Low-cardinality columns\<close>

text \<open>The width of the indexes, from the low byte of the flags.\<close>

definition index_bytes :: "err \<Rightarrow> u64 \<Rightarrow> nat res" where
  "index_bytes bad flags =
     (let x = flags AND 0xFF in
      if x = 0 then Inr 1 else if x = 1 then Inr 2 else if x = 2 then Inr 4 else if x = 3 then Inr 8
      else Inl bad)"

text \<open>\<open>as\<close> to the key type of the dictionary.\<close>

definition cast_kind :: "int_kind \<Rightarrow> int \<Rightarrow> int" where
  "cast_kind k v = int_of_bytes k (int_le (int_bytes k) v)"

text \<open>
  Of a nullable dictionary the first entry is the null: \<open>mask[0] = 1\<close> panics when there is
  no entry. The number of rows is read even when there are none to read.
\<close>

definition dictionary_mask :: "bool \<Rightarrow> nat \<Rightarrow> byte list res" where
  "dictionary_mask nullable n =
     (if \<not> nullable then Inr [] else if n = 0 then Inl Panic else Inr (1 # replicate (n - 1) 0))"

definition deserialize_low_cardinality ::
  "arrow_lib \<Rightarrow> input \<Rightarrow> err \<Rightarrow> (builder \<Rightarrow> data_type \<Rightarrow> nat \<Rightarrow> byte list \<Rightarrow> arr reader) \<Rightarrow> bool
    \<Rightarrow> builder \<Rightarrow> data_type \<Rightarrow> nat \<Rightarrow> byte list \<Rightarrow> arr reader" where
  "deserialize_low_cardinality lib io bad read_inner nullable b d rows nulls s =
     (case d of
        DDictionary _ value_type \<Rightarrow>
          (case b of
             BLowCardinality kind vb \<Rightarrow>
               rbind (read_u64 (eof_error io) s) (\<lambda>(flags, s).
               rbind (index_bytes bad flags) (\<lambda>width.
               rbind (read_u64 (eof_error io) s) (\<lambda>(dict_size, s).
               rbind (if flags AND (NEED_GLOBAL_DICTIONARY_BIT OR NEED_UPDATE_DICTIONARY_BIT
                                    OR HAS_ADDITIONAL_KEYS_BIT) = 0 then Inl DeserializeError
                      else dictionary_mask nullable (unat dict_size)) (\<lambda>mask.
               rbind (read_inner vb value_type (unat dict_size) mask s) (\<lambda>(dictionary, s).
               rbind (read_u64 (eof_error io) s) (\<lambda>(num_rows, s).
               if unat num_rows \<noteq> rows then Inl DeserializeError
               else rbind (read_bulk io width (\<lambda>bs. cast_kind kind (unsigned_le bs)) rows nulls s)
                      (\<lambda>(keys, s).
                    rbind (dict_new lib kind keys dictionary) (\<lambda>a. Inr (a, s)))))))))
           | _ \<Rightarrow> Inl ArrowDeserialize)
      | _ \<Rightarrow> Inl ArrowDeserialize)"

section \<open>Nullable columns\<close>

definition read_mask :: "input \<Rightarrow> nat \<Rightarrow> byte list reader" where
  "read_mask io rows s = (if rows > 0 then read_exact (eof_error io) rows s else Inr ([], s))"

section \<open>The column of a type\<close>

lemma geo_weight_children:
  "geo_weight u < geo_weight (Nullable u)" "geo_weight u < geo_weight (Array u)"
  "geo_weight (strip_null u) < geo_weight (LowCardinality u)"
  "geo_weight u < geo_weight (Map u v)" "geo_weight v < geo_weight (Map u v)"
  "u \<in> set us \<Longrightarrow> geo_weight u < geo_weight (Tuple us)"
  using ty_weight_strip_null [of u] ty_weight_member [of u us]
  by (auto intro!: geo_weight_le)

text \<open>\<open>deserialize_arrow_async\<close>: the type decides, then the builder.\<close>

function deserialize_arrow_async ::
  "arrow_lib \<Rightarrow> ty \<Rightarrow> builder \<Rightarrow> data_type \<Rightarrow> nat \<Rightarrow> byte list \<Rightarrow> arr reader" where
  "deserialize_arrow_async lib t b d rows nulls s =
     (case t of
        Nullable inner \<Rightarrow>
          rbind (read_mask async_input rows s) (\<lambda>(mask, s).
            deserialize_arrow_async lib inner b d rows mask s)
      | Array inner \<Rightarrow>
          deserialize_list lib async_input (\<lambda>b d n s. deserialize_arrow_async lib inner b d n [] s)
            (is_nullable (strip_low_cardinality inner)) b d rows nulls s
      | LowCardinality inner \<Rightarrow>
          deserialize_low_cardinality lib async_input DeserializeError
            (\<lambda>b d n mask s. deserialize_arrow_async lib (strip_null inner) b d n mask s)
            (is_nullable inner) b d rows nulls s
      | Map key val \<Rightarrow>
          deserialize_map lib async_input (\<lambda>b d n s. deserialize_arrow_async lib key b d n [] s)
            (\<lambda>b d n s. deserialize_arrow_async lib val b d n [] s) b d rows nulls s
      | Tuple inner \<Rightarrow>
          deserialize_tuple lib
            (map (\<lambda>u b d n s. deserialize_arrow_async lib u b d n [] s) inner) b d rows nulls s
      | Enum8 _ \<Rightarrow> deserialize_enum async_input ArrowDeserialize t b rows nulls s
      | Enum16 _ \<Rightarrow> deserialize_enum async_input ArrowDeserialize t b rows nulls s
      | String \<Rightarrow> deserialize_binary lib async_input t b rows nulls s
      | FixedSizedString _ \<Rightarrow> deserialize_binary lib async_input t b rows nulls s
      | Binary \<Rightarrow> deserialize_binary lib async_input t b rows nulls s
      | FixedSizedBinary _ \<Rightarrow> deserialize_binary lib async_input t b rows nulls s
      | Object \<Rightarrow> deserialize_binary lib async_input t b rows nulls s
      | Int128 \<Rightarrow> deserialize_binary lib async_input t b rows nulls s
      | Int256 \<Rightarrow> deserialize_binary lib async_input t b rows nulls s
      | UInt128 \<Rightarrow> deserialize_binary lib async_input t b rows nulls s
      | UInt256 \<Rightarrow> deserialize_binary lib async_input t b rows nulls s
      | Ipv6 \<Rightarrow> deserialize_binary lib async_input t b rows nulls s
      | Uuid \<Rightarrow> deserialize_binary lib async_input t b rows nulls s
      | Ipv4 \<Rightarrow> deserialize_binary lib async_input t b rows nulls s
      | _ \<Rightarrow>
          (case normalize_geo_type t of
             Inr normalized \<Rightarrow>
               rbind (ch_to_arrow_type None normalized) (\<lambda>(dt, _).
                 deserialize_arrow_async lib normalized b dt rows nulls s)
           | Inl _ \<Rightarrow> deserialize_primitive async_input b rows nulls s))"
  by pat_completeness auto
termination
  by (relation "measure (\<lambda>(lib, t, b, d, rows, nulls, s). geo_weight t)")
    (auto intro: geo_weight_normalized geo_weight_children)

declare deserialize_arrow_async.simps [simp del]

text \<open>
  \<open>deserialize_arrow\<close>: the builder decides; the type is looked at where the builder does not
  say enough.
\<close>

definition unlow_cardinality :: "ty \<Rightarrow> ty option" where
  "unlow_cardinality t = (case t of LowCardinality x \<Rightarrow> Some x | _ \<Rightarrow> None)"

lemma geo_weight_parts:
  "unnull t = Some u \<Longrightarrow> geo_weight u < geo_weight t"
  "unarray t = Some u \<Longrightarrow> geo_weight u < geo_weight t"
  "unlow_cardinality t = Some u \<Longrightarrow> geo_weight (strip_null u) < geo_weight t"
  "unmap t = Some (u, v) \<Longrightarrow> geo_weight u < geo_weight t"
  "unmap t = Some (u, v) \<Longrightarrow> geo_weight v < geo_weight t"
  "untuple t = Some us \<Longrightarrow> u \<in> set us \<Longrightarrow> geo_weight u < geo_weight t"
  by (cases t; simp add: unnull_def unarray_def unlow_cardinality_def unmap_def untuple_def
      geo_weight_children)+

function deserialize_arrow ::
  "arrow_lib \<Rightarrow> ty \<Rightarrow> builder \<Rightarrow> data_type \<Rightarrow> nat \<Rightarrow> byte list \<Rightarrow> arr reader" where
  "deserialize_arrow lib t b d rows nulls s =
     (let list_arm = (case unarray t of
            None \<Rightarrow> Inl ArrowDeserialize
          | Some inner \<Rightarrow>
              deserialize_list lib sync_input (\<lambda>b d n s. deserialize_arrow lib inner b d n [] s)
                (is_nullable (strip_low_cardinality inner)) b d rows nulls s) in
      case unnull t of
        Some inner \<Rightarrow>
          rbind (read_mask sync_input rows s) (\<lambda>(mask, s).
            deserialize_arrow lib inner b d rows mask s)
      | None \<Rightarrow>
        (case b of
           BString \<Rightarrow> deserialize_strings lib sync_input b rows nulls s
         | BObject \<Rightarrow> deserialize_strings lib sync_input b rows nulls s
         | BBinary \<Rightarrow> deserialize_strings lib sync_input b rows nulls s
         | BFixedSizeBinary n \<Rightarrow> deserialize_fixed sync_input UnexpectedType t n rows nulls s
         | BEnum8 \<Rightarrow> deserialize_enum sync_input UnexpectedType t b rows nulls s
         | BEnum16 \<Rightarrow> deserialize_enum sync_input UnexpectedType t b rows nulls s
         | BList _ \<Rightarrow> list_arm
         | BLargeList _ \<Rightarrow> list_arm
         | BFixedList _ _ \<Rightarrow> list_arm
         | BLowCardinality _ _ \<Rightarrow>
             (case unlow_cardinality t of
                None \<Rightarrow> Inl ArrowDeserialize
              | Some inner \<Rightarrow>
                  deserialize_low_cardinality lib sync_input ArrowDeserialize
                    (\<lambda>b d n mask s. deserialize_arrow lib (strip_null inner) b d n mask s)
                    (is_nullable inner) b d rows nulls s)
         | BTuple _ \<Rightarrow>
             (case untuple t of
                None \<Rightarrow> Inl ArrowDeserialize
              | Some inner \<Rightarrow>
                  deserialize_tuple lib
                    (map (\<lambda>u b d n s. deserialize_arrow lib u b d n [] s) inner) b d rows nulls s)
         | BMap _ _ \<Rightarrow>
             (case unmap t of
                None \<Rightarrow> Inl ArrowDeserialize
              | Some (key, val) \<Rightarrow>
                  deserialize_map lib sync_input (\<lambda>b d n s. deserialize_arrow lib key b d n [] s)
                    (\<lambda>b d n s. deserialize_arrow lib val b d n [] s) b d rows nulls s)
         | _ \<Rightarrow> deserialize_primitive sync_input b rows nulls s))"
  by pat_completeness auto
termination
  by (relation "measure (\<lambda>(lib, t, b, d, rows, nulls, s). geo_weight t)")
    (auto intro: geo_weight_parts)

declare deserialize_arrow.simps [simp del]

end
