(* ===== verification/ArrowProofs.thy ===== *)
theory ArrowProofs
  imports ArrowRead
begin

text \<open>
  The facts that relate the Arrow writer to the Arrow readers column by column: the bytes of
  an integer in both directions, null masks, bulk reads, dictionaries and offsets.
\<close>

section \<open>Integers\<close>

lemma le_nat_int_le: "int (le_nat (int_le n v)) = v mod 2 ^ (8 * n)"
proof -
  have p: "(256 :: nat) ^ n = 2 ^ (8 * n)" by (simp add: power_mult)
  have "0 \<le> v mod 2 ^ (8 * n)" "v mod 2 ^ (8 * n) < 2 ^ (8 * n)" by simp_all
  then have "nat (v mod 2 ^ (8 * n)) < 2 ^ (8 * n)" by (simp add: nat_less_iff)
  then show ?thesis by (simp add: int_le_def le_nat_le_bytes p)
qed

lemma unsigned_le_int_le:
  "0 \<le> v \<Longrightarrow> v < 2 ^ (8 * n) \<Longrightarrow> unsigned_le (int_le n v) = v"
  by (simp add: unsigned_le_def le_nat_int_le)

lemma signed_le_int_le:
  assumes "0 < n" and "- (2 ^ (8 * n - 1)) \<le> v" and "v < 2 ^ (8 * n - 1)"
  shows "signed_le (int_le n v) = v"
proof -
  let ?m = "2 ^ (8 * n) :: int"
  have m: "?m = 2 * 2 ^ (8 * n - 1)"
    using assms(1) by (simp flip: power_Suc)
  show ?thesis
  proof (cases "0 \<le> v")
    case True
    then have "v mod ?m = v" using assms(3) m by simp
    then show ?thesis using assms(3) m True by (simp add: signed_le_def le_nat_int_le Let_def)
  next
    case False
    have "v mod ?m = (v + ?m) mod ?m" by simp
    also have "\<dots> = v + ?m" using False assms(2) m by (intro mod_pos_pos_trivial) linarith+
    finally have "v mod ?m = v + ?m" .
    then show ?thesis using assms(2) m False by (simp add: signed_le_def le_nat_int_le Let_def)
  qed
qed

definition in_kind :: "int_kind \<Rightarrow> int \<Rightarrow> bool" where
  "in_kind k v =
     (if int_signed k then - (2 ^ (8 * int_bytes k - 1)) \<le> v \<and> v < 2 ^ (8 * int_bytes k - 1)
      else 0 \<le> v \<and> v < 2 ^ (8 * int_bytes k))"

lemma int_bytes_pos: "0 < int_bytes k"
  by (cases k) (simp_all add: int_bytes_def)

lemma int_of_bytes_int_le: "in_kind k v \<Longrightarrow> int_of_bytes k (int_le (int_bytes k) v) = v"
  by (simp add: int_of_bytes_def in_kind_def signed_le_int_le unsigned_le_int_le int_bytes_pos
      split: if_splits)

lemma le_nat_put_le:
  "LENGTH('a::len) = 8 * n \<Longrightarrow> word_of_nat (le_nat (put_le n (w :: 'a word))) = w"
  using read_le_put_le [of n Io w "[]"] read_exact_append [of "put_le n w" n Io "[]"]
  by (simp add: read_le_def)

lemma put_le_le_nat:
  assumes "LENGTH('a::len) = 8 * n" and "length b = n"
  shows "put_le n (word_of_nat (le_nat b) :: 'a word) = b"
proof -
  have "read_le Io n b = Inr (word_of_nat (le_nat b) :: 'a word, [])"
    by (simp add: read_le_def read_exact_def assms(2))
  from read_le_Inr_put [OF this assms(1)] show ?thesis by simp
qed

section \<open>Masks\<close>

text \<open>What the reader is given of the nulls of a column: the mask, or none when it has no nulls.\<close>

definition mask_of :: "byte list \<Rightarrow> 'a option list \<Rightarrow> bool" where
  "mask_of nulls xs =
     (nulls = null_bytes (slots_null xs) \<or> nulls = [] \<and> None \<notin> set xs)"

lemma masked_mask:
  assumes "mask_of nulls xs" and "\<And>v. Some v \<in> set xs \<Longrightarrow> g (Some v) = v"
  shows "masked nulls (map g xs) = Inr xs"
proof (cases "nulls = []")
  case True
  then have "None \<notin> set xs"
    using assms(1) by (auto simp: mask_of_def null_bytes_def slots_null_def)
  moreover have "map (\<lambda>x. Some (g x)) xs = xs"
    by (rule map_idI) (use assms(2) \<open>None \<notin> set xs\<close> in \<open>metis not_Some_eq\<close>)
  ultimately show ?thesis by (simp add: masked_def True comp_def)
next
  case False
  then have n: "nulls = map (\<lambda>x. if x = None then 1 else 0) xs"
    using assms(1) by (auto simp: mask_of_def null_bytes_def slots_null_def)
  have "map (\<lambda>(n, x). if n = 0 then Some x else None) (zip nulls (map g xs)) = xs"
    using assms(2) unfolding n
  proof (induction xs)
    case Nil
    then show ?case by simp
  next
    case (Cons x xs)
    then show ?case by (cases x) simp_all
  qed
  then show ?thesis using False by (simp add: masked_def) (simp add: n)
qed

lemma read_rows_written:
  assumes "write_each f xs = Inr bs" and "mask_of nulls xs"
    and "\<And>x b r. x \<in> set xs \<Longrightarrow> f x = Inr b \<Longrightarrow> item (b @ r) = Inr (g x, r)"
    and "\<And>v. Some v \<in> set xs \<Longrightarrow> g (Some v) = v"
  shows "read_rows item (length xs) nulls (bs @ r) = Inr (xs, r)"
proof -
  have "read_n (length xs) item (bs @ r) = Inr (map g xs, r)"
    by (rule read_write_each [OF assms(1)]) (rule assms(3))
  then show ?thesis by (simp add: read_rows_def masked_mask [OF assms(2,4)])
qed

section \<open>Bulk reads\<close>

lemma chunks_Suc: "chunks n (Suc k) buf = take n buf # chunks n k (drop n buf)"
proof -
  have "map (\<lambda>i. take n (drop (i * n) buf)) [0..<Suc k]
    = take n buf # map (\<lambda>i. take n (drop (i * n) buf)) (map Suc [0..<k])"
    by (simp only: map_Suc_upt upt_conv_Cons list.map zero_less_Suc mult_0 drop_0)
  then have "map (\<lambda>i. take n (drop (i * n) buf)) [0..<Suc k]
    = take n buf # map (\<lambda>i. take n (drop (i * n) (drop n buf))) [0..<k]"
    by (simp add: comp_def ac_simps del: upt_Suc)
  then show ?thesis by (simp add: chunks_def)
qed

lemma read_exact_chunks:
  "read_n k (read_exact eof n) s
     = rbind (read_exact eof (k * n) s) (\<lambda>(buf, s). Inr (chunks n k buf, s))"
proof (induction k arbitrary: s)
  case 0
  then show ?case by (simp add: read_exact_def chunks_def)
next
  case (Suc k)
  show ?case
  proof (cases "length s < n + k * n")
    case True
    then show ?thesis
      using Suc.IH [of "drop n s"] by (auto simp: read_exact_def)
  next
    case False
    then have "take (n + k * n) s = take n s @ take (k * n) (drop n s)"
      by (simp add: take_add)
    with False show ?thesis
      using Suc.IH [of "drop n s"] by (simp add: read_exact_def chunks_Suc add.commute)
  qed
qed

lemma read_n_read_as: "read_n k (read_as f p) s = rbind (read_n k p s) (\<lambda>(xs, s). Inr (map f xs, s))"
proof (induction k arbitrary: s)
  case 0
  then show ?case by simp
next
  case (Suc k)
  show ?case
  proof (cases "p s")
    case (Inl e)
    then have "read_as f p s = Inl e" by (simp add: read_as_def)
    then show ?thesis by (simp add: Inl)
  next
    case (Inr y)
    obtain x s' where y: "y = (x, s')" by (cases y)
    have "read_as f p s = Inr (f x, s')" by (simp add: read_as_def Inr y)
    then show ?thesis using Suc.IH [of s'] by (cases "read_n k p s'") (auto simp: Inr y)
  qed
qed

text \<open>The bulk read of a column equals the reads of its rows.\<close>

lemma read_bulk_rows:
  "read_bulk io n conv rows nulls s
     = read_rows (read_as conv (read_exact (eof_error io) n)) rows nulls s"
proof (cases "rows = 0")
  case True
  then show ?thesis by (simp add: read_bulk_def read_rows_def masked_def)
next
  case False
  then show ?thesis
    by (cases "read_exact (eof_error io) (rows * n) s")
      (auto simp: read_bulk_def read_rows_def read_n_read_as read_exact_chunks)
qed

lemma write_each_plain: "write_each (\<lambda>x. Inr (f x)) xs = Inr (concat (map f xs))"
  by (induction xs) simp_all

lemma read_bulk_written:
  assumes "write_each f xs = Inr bs" and "mask_of nulls xs"
    and "\<And>x b. x \<in> set xs \<Longrightarrow> f x = Inr b \<Longrightarrow> length b = n \<and> (\<forall>v. x = Some v \<longrightarrow> conv b = v)"
  shows "read_bulk io n conv (length xs) nulls (bs @ r) = Inr (xs, r)"
proof -
  define g where "g x = (case f x of Inr b \<Rightarrow> conv b | Inl _ \<Rightarrow> undefined)" for x
  have ok: "\<exists>b. f x = Inr b" if "x \<in> set xs" for x
    using assms(1) that by (induction xs arbitrary: bs) (auto simp: rbind_Inr_iff)
  show ?thesis
    unfolding read_bulk_rows
  proof (rule read_rows_written [OF assms(1,2)])
    fix x b r
    assume "x \<in> set xs" "f x = Inr b"
    then show "read_as conv (read_exact (eof_error io) n) (b @ r) = Inr (g x, r)"
      using assms(3) [of x b] by (simp add: read_as_def g_def)
  next
    fix v
    assume "Some v \<in> set xs"
    then show "g (Some v) = v" using ok [of "Some v"] assms(3) by (auto simp: g_def)
  qed
qed

section \<open>Columns without parts\<close>

definition slots_ok :: "('a \<Rightarrow> bool) \<Rightarrow> 'a option list \<Rightarrow> bool" where
  "slots_ok P xs = list_all (\<lambda>x. case x of None \<Rightarrow> True | Some v \<Rightarrow> P v) xs"

lemma slots_okD: "slots_ok P xs \<Longrightarrow> Some v \<in> set xs \<Longrightarrow> P v"
  by (auto simp: slots_ok_def list_all_iff)

lemma write_coerced_ok:
  assumes "slots_ok P xs" and "\<And>v. P v \<Longrightarrow> is_ok (c v)"
  shows "is_ok (write_coerced dflt c xs)"
  unfolding write_coerced_def
proof (rule write_each_ok)
  fix x
  assume "x \<in> set xs"
  then show "is_ok (case x of None \<Rightarrow> Inr dflt | Some v \<Rightarrow> c v)"
  proof (cases x rule: option.exhaust [case_names None Some])
    case (Some v)
    with \<open>x \<in> set xs\<close> have "P v" using slots_okD [OF assms(1)] by simp
    then show ?thesis by (simp add: Some assms(2))
  qed simp
qed

lemma coerced_bulk:
  assumes "slots_ok P xs" and "mask_of nulls xs" and "length dflt = n"
    and "\<And>v. P v \<Longrightarrow> \<exists>b. c v = Inr b \<and> length b = n \<and> conv b = v"
  shows "\<exists>bs. write_coerced dflt c xs = Inr bs
    \<and> (\<forall>r. read_bulk io n conv (length xs) nulls (bs @ r) = Inr (xs, r))"
proof -
  have "is_ok (write_coerced dflt c xs)"
    by (rule write_coerced_ok [OF assms(1)]) (use assms(4) in force)
  then obtain bs where bs: "write_coerced dflt c xs = Inr bs"
    by (auto simp: is_ok_iff)
  have "read_bulk io n conv (length xs) nulls (bs @ r) = Inr (xs, r)" for r
  proof (rule read_bulk_written [OF bs [unfolded write_coerced_def] assms(2)])
    fix x b
    assume "x \<in> set xs" "(case x of None \<Rightarrow> Inr dflt | Some v \<Rightarrow> c v) = Inr b"
    then show "length b = n \<and> (\<forall>v. x = Some v \<longrightarrow> conv b = v)"
      using assms(3) slots_okD [OF assms(1)] assms(4) by (cases x rule: option.exhaust) force+
  qed
  with bs show ?thesis by blast
qed

lemma coerced_rows:
  assumes "slots_ok P xs" and "mask_of nulls xs" and "\<And>r. item (dflt @ r) = Inr (w, r)"
    and "\<And>v. P v \<Longrightarrow> \<exists>b. c v = Inr b \<and> (\<forall>r. item (b @ r) = Inr (v, r))"
  shows "\<exists>bs. write_coerced dflt c xs = Inr bs
    \<and> (\<forall>r. read_rows item (length xs) nulls (bs @ r) = Inr (xs, r))"
proof -
  have "is_ok (write_coerced dflt c xs)"
    by (rule write_coerced_ok [OF assms(1)]) (use assms(4) in force)
  then obtain bs where bs: "write_coerced dflt c xs = Inr bs"
    by (auto simp: is_ok_iff)
  have "read_rows item (length xs) nulls (bs @ r) = Inr (xs, r)" for r
  proof (rule read_rows_written [OF bs [unfolded write_coerced_def] assms(2)])
    fix x b r
    assume "x \<in> set xs" "(case x of None \<Rightarrow> Inr dflt | Some v \<Rightarrow> c v) = Inr b"
    then show "item (b @ r) = Inr (slot w x, r)"
      using assms(3) slots_okD [OF assms(1)] assms(4) by (cases x rule: option.exhaust) force+
  qed simp
  with bs show ?thesis by blast
qed

lemma concat_coerced:
  "Inr (concat (map (\<lambda>x. e (slot d x)) xs)) = write_coerced (e d) (\<lambda>v. Inr (e v)) xs"
proof -
  have eq: "case_option (Inr (e d)) (\<lambda>v. Inr (e v)) = (\<lambda>x. Inr (e (slot d x)))"
    by (auto simp: slot_def fun_eq_iff split: option.splits)
  show ?thesis unfolding write_coerced_def eq by (rule write_each_plain [symmetric])
qed

lemma write_simple_coerced:
  "write_simple k n (AInt k xs) = write_coerced (int_le n 0) (\<lambda>v. Inr (int_le n v)) xs"
  unfolding write_simple_def by (simp add: concat_coerced)

text \<open>
  The arrays the reader makes of a type without parts, so that the writer accepts them:
  values in the range of the type, texts that are valid and short enough, sizes that agree.
  UUIDs and IPv4 addresses are left out (the two directions disagree on them, see
  \<open>uuid_halves_swapped\<close> and \<open>ipv4_reversed\<close>), and so are enums.
\<close>

definition fits :: "int \<Rightarrow> int \<Rightarrow> int \<Rightarrow> bool" where
  "fits lo hi v = (lo \<le> v \<and> v < hi)"

definition leaf_array :: "arrow_lib \<Rightarrow> ty \<Rightarrow> data_type \<Rightarrow> arr \<Rightarrow> bool" where
  "leaf_array lib t d a =
     (let z = (\<lambda>name. if tz_some d then Some name else None) in
      case t of
        Int8 \<Rightarrow> (case a of AInt k xs \<Rightarrow> k = I8 \<and> slots_ok (in_kind I8) xs | _ \<Rightarrow> False)
      | Int16 \<Rightarrow> (case a of AInt k xs \<Rightarrow> k = I16 \<and> slots_ok (in_kind I16) xs | _ \<Rightarrow> False)
      | Int32 \<Rightarrow> (case a of AInt k xs \<Rightarrow> k = I32 \<and> slots_ok (in_kind I32) xs | _ \<Rightarrow> False)
      | Int64 \<Rightarrow> (case a of AInt k xs \<Rightarrow> k = I64 \<and> slots_ok (in_kind I64) xs | _ \<Rightarrow> False)
      | UInt8 \<Rightarrow> d \<noteq> DBoolean \<and> (case a of AInt k xs \<Rightarrow> k = U8 \<and> slots_ok (in_kind U8) xs | _ \<Rightarrow> False)
      | UInt16 \<Rightarrow> (case a of AInt k xs \<Rightarrow> k = U16 \<and> slots_ok (in_kind U16) xs | _ \<Rightarrow> False)
      | UInt32 \<Rightarrow> (case a of AInt k xs \<Rightarrow> k = U32 \<and> slots_ok (in_kind U32) xs | _ \<Rightarrow> False)
      | UInt64 \<Rightarrow> (case a of AInt k xs \<Rightarrow> k = U64 \<and> slots_ok (in_kind U64) xs | _ \<Rightarrow> False)
      | Float32 \<Rightarrow> (case a of AFloat32 _ \<Rightarrow> True | _ \<Rightarrow> False)
      | Float64 \<Rightarrow> (case a of AFloat64 _ \<Rightarrow> True | _ \<Rightarrow> False)
      | Decimal32 n \<Rightarrow> (case a of ADecimal128 p sc xs \<Rightarrow>
            p = 9 \<and> sc = i8_of_usize n \<and> slots_ok (fits (- (10 ^ 9 - 1)) (10 ^ 9)) xs | _ \<Rightarrow> False)
      | Decimal64 n \<Rightarrow> (case a of ADecimal128 p sc xs \<Rightarrow>
            p = 18 \<and> sc = i8_of_usize n \<and> slots_ok (fits (- (10 ^ 18 - 1)) (10 ^ 18)) xs | _ \<Rightarrow> False)
      | Decimal128 n \<Rightarrow> (case a of ADecimal128 p sc xs \<Rightarrow>
            p = 38 \<and> sc = i8_of_usize n \<and> slots_ok (fits (- (2 ^ 127)) (2 ^ 127)) xs | _ \<Rightarrow> False)
      | Decimal256 n \<Rightarrow> (case a of ADecimal256 p sc xs \<Rightarrow>
            p = 76 \<and> sc = i8_of_usize n \<and> slots_ok (fits (- (2 ^ 255)) (2 ^ 255)) xs | _ \<Rightarrow> False)
      | Date \<Rightarrow> (case a of ADate32 xs \<Rightarrow> slots_ok (fits 0 (2 ^ 16)) xs | _ \<Rightarrow> False)
      | Date32 \<Rightarrow> (case a of ADate32 xs \<Rightarrow>
            slots_ok (fits (- (2 ^ 31)) (2 ^ 31 - DAYS_1900_TO_1970)) xs | _ \<Rightarrow> False)
      | DateTime name \<Rightarrow> (case a of ATimestamp u zone xs \<Rightarrow>
            u = Second \<and> zone = z name \<and> slots_ok (fits 0 (2 ^ 32)) xs | _ \<Rightarrow> False)
      | DateTime64 p name \<Rightarrow> (case a of ATimestamp u zone xs \<Rightarrow>
            timestamp_unit p = Inr u \<and> zone = z name \<and> slots_ok (fits (- (2 ^ 63)) (2 ^ 63)) xs
          | _ \<Rightarrow> False)
      | String \<Rightarrow> (case a of ABytes k xs \<Rightarrow>
            k = KUtf8 \<and> slots_ok (\<lambda>b. utf8_valid b \<and> length b \<le> MAX_STRING_SIZE) xs | _ \<Rightarrow> False)
      | Binary \<Rightarrow> (case a of ABytes k xs \<Rightarrow>
            k = KBinary \<and> slots_ok (\<lambda>b. length b \<le> MAX_STRING_SIZE) xs | _ \<Rightarrow> False)
      | Object \<Rightarrow> (case a of ABytes k xs \<Rightarrow>
            k = KUtf8
            \<and> slots_ok (\<lambda>b. utf8_valid b \<and> length b \<le> MAX_STRING_SIZE \<and> json_text lib b = b) xs
          | _ \<Rightarrow> False)
      | FixedSizedString n \<Rightarrow> (case a of AFixed m xs \<Rightarrow>
            m = i32_of_usize n \<and> n < 2 ^ 31 \<and> slots_ok (\<lambda>b. length b = n) xs | _ \<Rightarrow> False)
      | FixedSizedBinary n \<Rightarrow> (case a of AFixed m xs \<Rightarrow>
            m = i32_of_usize n \<and> n < 2 ^ 31 \<and> slots_ok (\<lambda>b. length b = n) xs | _ \<Rightarrow> False)
      | Int128 \<Rightarrow> (case a of AFixed m xs \<Rightarrow> m = 16 \<and> slots_ok (\<lambda>b. length b = 16) xs | _ \<Rightarrow> False)
      | UInt128 \<Rightarrow> (case a of AFixed m xs \<Rightarrow> m = 16 \<and> slots_ok (\<lambda>b. length b = 16) xs | _ \<Rightarrow> False)
      | Ipv6 \<Rightarrow> (case a of AFixed m xs \<Rightarrow> m = 16 \<and> slots_ok (\<lambda>b. length b = 16) xs | _ \<Rightarrow> False)
      | Int256 \<Rightarrow> (case a of AFixed m xs \<Rightarrow> m = 32 \<and> slots_ok (\<lambda>b. length b = 32) xs | _ \<Rightarrow> False)
      | UInt256 \<Rightarrow> (case a of AFixed m xs \<Rightarrow> m = 32 \<and> slots_ok (\<lambda>b. length b = 32) xs | _ \<Rightarrow> False)
      | _ \<Rightarrow> False)"

text \<open>What the readers do with a builder of such a type.\<close>

definition leaf_read ::
  "arrow_lib \<Rightarrow> input \<Rightarrow> err \<Rightarrow> ty \<Rightarrow> builder \<Rightarrow> nat \<Rightarrow> byte list \<Rightarrow> arr reader" where
  "leaf_read lib io bad t b rows nulls =
     (case b of
        BFixedSizeBinary n \<Rightarrow> deserialize_fixed io bad t n rows nulls
      | BString \<Rightarrow> deserialize_strings lib io b rows nulls
      | BObject \<Rightarrow> deserialize_strings lib io b rows nulls
      | BBinary \<Rightarrow> deserialize_strings lib io b rows nulls
      | _ \<Rightarrow> deserialize_primitive io b rows nulls)"

definition leaf_write :: "float_conv \<Rightarrow> ty \<Rightarrow> arr \<Rightarrow> data_type \<Rightarrow> byte list res" where
  "leaf_write fc t a d =
     (case t of
        String \<Rightarrow> serialize_binary t a | Binary \<Rightarrow> serialize_binary t a | Object \<Rightarrow> serialize_binary t a
      | FixedSizedString _ \<Rightarrow> serialize_binary t a | FixedSizedBinary _ \<Rightarrow> serialize_binary t a
      | _ \<Rightarrow> serialize_primitive fc t a d)"

text \<open>A string as the two readers read it.\<close>

definition input_ok :: "input \<Rightarrow> bool" where
  "input_ok io = (\<forall>b r. length b \<le> MAX_STRING_SIZE \<longrightarrow> input_string io (write_string b @ r) = Inr (b, r))"

lemma input_ok_both: "input_ok async_input" "input_ok sync_input"
  by (simp_all add: input_ok_def async_input_def sync_input_def read_string_write try_get_string_eq
      map_err_def)

definition arr_mask :: "byte list \<Rightarrow> arr \<Rightarrow> bool" where
  "arr_mask nulls a = (nulls = null_bytes (arr_null a) \<or> nulls = [] \<and> \<not> has_null a)"

lemma arr_mask_slots: "arr_null a = slots_null xs \<Longrightarrow> arr_mask nulls a = mask_of nulls xs"
  by (auto simp: arr_mask_def mask_of_def has_null_def slots_null_def)

definition column_back ::
  "byte list res \<Rightarrow> (byte list \<Rightarrow> err + (arr \<times> byte list)) \<Rightarrow> arr \<Rightarrow> bool" where
  "column_back w p a = (\<exists>bs. w = Inr bs \<and> (\<forall>r. p (bs @ r) = Inr (a, r)))"

lemma back_bulk:
  assumes "slots_ok P xs" and "mask_of nulls xs" and "length dflt = n"
    and "\<And>v. P v \<Longrightarrow> \<exists>b. c v = Inr b \<and> length b = n \<and> conv b = v"
  shows "column_back (write_coerced dflt c xs)
    (to_array mk (read_bulk io n conv (length xs) nulls)) (mk xs)"
  using coerced_bulk [OF assms, where io = io] by (auto simp: column_back_def to_array_def)

lemma back_rows:
  assumes "slots_ok P xs" and "mask_of nulls xs" and "\<And>r. item (dflt @ r) = Inr (w, r)"
    and "\<And>v. P v \<Longrightarrow> \<exists>b. c v = Inr b \<and> (\<forall>r. item (b @ r) = Inr (v, r))"
  shows "column_back (write_coerced dflt c xs)
    (to_array mk (read_rows item (length xs) nulls)) (mk xs)"
  using coerced_rows [OF assms] by (auto simp: column_back_def to_array_def)

lemma back_int:
  "slots_ok (in_kind k) xs \<Longrightarrow> mask_of nulls xs \<Longrightarrow>
     column_back (write_simple k (int_bytes k) (AInt k xs))
       (to_array (AInt k) (read_bulk io (int_bytes k) (int_of_bytes k) (length xs) nulls)) (AInt k xs)"
  unfolding write_simple_coerced
  by (rule back_bulk [where P = "in_kind k"]) (simp_all add: int_of_bytes_int_le)

lemma back_fixed:
  assumes "slots_ok P xs" and "mask_of nulls xs" and "fixed_item io t = Some item"
    and "\<And>r. item (dflt @ r) = Inr (w, r)" and "\<And>v. P v \<Longrightarrow> length v = usize_of_i32 n"
    and "\<And>v. P v \<Longrightarrow> \<exists>b. c v = Inr b \<and> (\<forall>r. item (b @ r) = Inr (v, r))"
  shows "column_back (write_coerced dflt c xs) (deserialize_fixed io bad t n (length xs) nulls) (AFixed n xs)"
proof -
  have "append_fixed n xs = Inr (AFixed n xs)"
    using slots_okD [OF assms(1)] assms(5) by (auto simp: append_fixed_def)
  with coerced_rows [OF assms(1,2,4,6)] show ?thesis
    by (auto simp: column_back_def deserialize_fixed_def assms(3))
qed

lemma word_of_nat_le_put: "word_of_nat (le_nat (put_u32 w)) = w" "word_of_nat (le_nat (put_u64 x)) = x"
  by (simp_all add: le_nat_put_le)

lemmas leaf_unfold = leaf_write_def leaf_read_def serialize_primitive_def serialize_binary_def
  deserialize_primitive_def deserialize_strings_def strip_null_def

lemma fits_signed: "0 < n \<Longrightarrow> fits (- (2 ^ (8 * n - 1))) (2 ^ (8 * n - 1)) v \<Longrightarrow> signed_le (int_le n v) = v"
  by (simp add: fits_def signed_le_int_le)

lemma fits_unsigned: "fits 0 (2 ^ (8 * n)) v \<Longrightarrow> unsigned_le (int_le n v) = v"
  by (simp add: fits_def unsigned_le_int_le)

end
