(* ===== verification/ArrowLeaf.thy ===== *)
theory ArrowLeaf
  imports ArrowProofs
begin

text \<open>
  Columns without parts through Arrow: for every type of \<open>leaf_array\<close>, what
  \<open>serialize_primitive\<close> or \<open>serialize_binary\<close> writes is what the builder of the type
  reads back, by either reader.
\<close>

text \<open>One lemma per group of types: what is written is read back.\<close>

lemma not_boolean: "d \<noteq> DBoolean \<Longrightarrow> (case d of DBoolean \<Rightarrow> x | _ \<Rightarrow> y) = y"
  by (cases d) simp_all

lemma back_integers:
  assumes "leaf_array lib t d a" and "try_new lib t d = Inr b" and "arr_mask nulls a"
    and "(t, k) \<in> {(Int8, I8), (Int16, I16), (Int32, I32), (Int64, I64),
      (UInt8, U8), (UInt16, U16), (UInt32, U32), (UInt64, U64)}"
  shows "column_back (leaf_write fc t a d) (leaf_read lib io bad t b (arr_length a) nulls) a"
proof -
  have "\<exists>xs. a = AInt k xs \<and> slots_ok (in_kind k) xs"
    using assms(1,4) by (cases a) (auto simp: leaf_array_def)
  then obtain xs where a: "a = AInt k xs" "slots_ok (in_kind k) xs" by blast
  have "mask_of nulls xs" using assms(3) arr_mask_slots [of a xs] by (simp add: a)
  from back_int [OF a(2) this]
  have rt: "column_back (write_simple k (int_bytes k) (AInt k xs))
       (to_array (AInt k) (read_bulk io (int_bytes k) (int_of_bytes k) (length xs) nulls)) (AInt k xs)" .
  have b: "b = BInt k"
    using assms(2,4) by (auto simp: try_new.simps strip_null_def)
  have "t = UInt8 \<Longrightarrow> d \<noteq> DBoolean"
    using assms(1) by (auto simp: leaf_array_def)
  then have "leaf_write fc t a d = write_simple k (int_bytes k) (AInt k xs)"
    using assms(4) by (auto simp: leaf_unfold a not_boolean int_bytes_def write_i8_values_def
        write_i16_values_def write_i32_values_def write_i64_values_def write_u8_values_def
        write_u16_values_def write_u32_values_def write_u64_values_def)
  with rt show ?thesis by (simp add: b a(1) leaf_unfold)
qed

lemma back_floats:
  assumes "leaf_array lib t d a" and "try_new lib t d = Inr b" and "arr_mask nulls a"
    and "t \<in> {Float32, Float64}"
  shows "column_back (leaf_write fc t a d) (leaf_read lib io bad t b (arr_length a) nulls) a"
proof (cases "t = Float32")
  case True
  then obtain xs where a: "a = AFloat32 xs" "b = BFloat32"
    using assms(1,2) by (auto simp: leaf_array_def try_new.simps strip_null_def split: arr.splits)
  have m: "mask_of nulls xs" using assms(3) arr_mask_slots [of a xs] by (simp add: a)
  have "column_back (write_coerced (put_u32 0) (\<lambda>v. Inr (put_u32 v)) xs)
      (to_array AFloat32 (read_bulk io 4 (\<lambda>bs. word_of_nat (le_nat bs)) (length xs) nulls)) (AFloat32 xs)"
    by (rule back_bulk [where P = "\<lambda>_. True"])
      (simp_all add: m word_of_nat_le_put slots_ok_def list_all_iff split: option.split)
  then show ?thesis
    by (simp add: True a leaf_unfold write_f32_values_def flip: concat_coerced)
next
  case False
  then have t: "t = Float64" using assms(4) by simp
  then obtain xs where a: "a = AFloat64 xs" "b = BFloat64"
    using assms(1,2) by (auto simp: leaf_array_def try_new.simps strip_null_def split: arr.splits)
  have m: "mask_of nulls xs" using assms(3) arr_mask_slots [of a xs] by (simp add: a)
  have "column_back (write_coerced (put_u64 0) (\<lambda>v. Inr (put_u64 v)) xs)
      (to_array AFloat64 (read_bulk io 8 (\<lambda>bs. word_of_nat (le_nat bs)) (length xs) nulls)) (AFloat64 xs)"
    by (rule back_bulk [where P = "\<lambda>_. True"])
      (simp_all add: m word_of_nat_le_put slots_ok_def list_all_iff split: option.split)
  then show ?thesis
    by (simp add: t a leaf_unfold write_f64_values_def flip: concat_coerced)
qed

lemma back_decimals:
  assumes "leaf_array lib t d a" and "try_new lib t d = Inr b" and "arr_mask nulls a"
    and "t = Decimal32 sc \<or> t = Decimal64 sc \<or> t = Decimal128 sc"
  shows "column_back (leaf_write fc t a d) (leaf_read lib io bad t b (arr_length a) nulls) a"
proof -
  have "\<exists>p xs. a = ADecimal128 p (i8_of_usize sc) xs"
    using assms(1,4) by (cases a) (auto simp: leaf_array_def)
  then obtain p xs where a: "a = ADecimal128 p (i8_of_usize sc) xs" by blast
  have m: "mask_of nulls xs" using assms(3) arr_mask_slots [of a xs] by (simp add: a)
  consider (d32) "t = Decimal32 sc" | (d64) "t = Decimal64 sc" | (d128) "t = Decimal128 sc"
    using assms(4) by blast
  then show ?thesis
  proof cases
    case d32
    have x: "p = 9" "slots_ok (fits (- (10 ^ 9 - 1)) (10 ^ 9)) xs" "b = BDecimal32 (i8_of_usize sc)"
      using assms(1,2) by (auto simp: d32 a leaf_array_def try_new.simps strip_null_def
          decimal_builder_def split: if_splits)
    have "column_back (write_coerced (int_le 4 0) (in_digits 9 4) xs)
      (to_array (ADecimal128 9 (i8_of_usize sc)) (read_bulk io 4 signed_le (length xs) nulls))
      (ADecimal128 9 (i8_of_usize sc) xs)"
      by (rule back_bulk [OF x(2) m]) (auto simp: fits_def in_digits_def signed_le_int_le)
    then show ?thesis by (simp add: d32 a x leaf_unfold write_decimal32_values_def)
  next
    case d64
    have x: "p = 18" "slots_ok (fits (- (10 ^ 18 - 1)) (10 ^ 18)) xs" "b = BDecimal64 (i8_of_usize sc)"
      using assms(1,2) by (auto simp: d64 a leaf_array_def try_new.simps strip_null_def
          decimal_builder_def split: if_splits)
    have "column_back (write_coerced (int_le 8 0) (in_digits 18 8) xs)
      (to_array (ADecimal128 18 (i8_of_usize sc)) (read_bulk io 8 signed_le (length xs) nulls))
      (ADecimal128 18 (i8_of_usize sc) xs)"
      by (rule back_bulk [OF x(2) m]) (auto simp: fits_def in_digits_def signed_le_int_le)
    then show ?thesis by (simp add: d64 a x leaf_unfold write_decimal64_values_def)
  next
    case d128
    have x: "p = 38" "slots_ok (fits (- (2 ^ 127)) (2 ^ 127)) xs" "b = BDecimal128 (i8_of_usize sc)"
      using assms(1,2) by (auto simp: d128 a leaf_array_def try_new.simps strip_null_def
          decimal_builder_def split: if_splits)
    have "column_back (write_coerced (int_le 16 0) (\<lambda>v. Inr (int_le 16 v)) xs)
      (to_array (ADecimal128 38 (i8_of_usize sc)) (read_rows (read_decimal128 io) (length xs) nulls))
      (ADecimal128 38 (i8_of_usize sc) xs)"
      by (rule back_rows [OF x(2) m, where w = 0])
        (auto simp: read_decimal128_def read_as_def fits_def signed_le_int_le)
    then show ?thesis by (simp add: d128 a x leaf_unfold write_decimal128_values_def)
  qed
qed

lemma back_decimal256:
  assumes "leaf_array lib (Decimal256 sc) d a" and "try_new lib (Decimal256 sc) d = Inr b"
    and "arr_mask nulls a"
  shows "column_back (leaf_write fc (Decimal256 sc) a d)
    (leaf_read lib io bad (Decimal256 sc) b (arr_length a) nulls) a"
proof -
  have "\<exists>xs. a = ADecimal256 76 (i8_of_usize sc) xs \<and> slots_ok (fits (- (2 ^ 255)) (2 ^ 255)) xs"
    using assms(1) by (cases a) (auto simp: leaf_array_def)
  then obtain xs where a: "a = ADecimal256 76 (i8_of_usize sc) xs"
    "slots_ok (fits (- (2 ^ 255)) (2 ^ 255)) xs" by blast
  have m: "mask_of nulls xs" using assms(3) arr_mask_slots [of a xs] by (simp add: a)
  have b: "b = BDecimal256 (i8_of_usize sc)"
    using assms(2) by (auto simp: try_new.simps strip_null_def decimal_builder_def split: if_splits)
  have "column_back (write_coerced zero32 (\<lambda>v. Inr (swap_endian_256 (int_le 32 v))) xs)
      (to_array (ADecimal256 76 (i8_of_usize sc)) (read_rows (read_decimal256 io) (length xs) nulls))
      (ADecimal256 76 (i8_of_usize sc) xs)"
    by (rule back_rows [OF a(2) m, where w = "signed_le (rev zero32)"])
      (auto simp: read_decimal256_def read_as_def fits_def signed_le_int_le swap_endian_256_def zero32_def)
  then show ?thesis by (simp add: a(1) b leaf_unfold write_decimal256_values_def)
qed

lemma back_dates:
  assumes "leaf_array lib t d a" and "try_new lib t d = Inr b" and "arr_mask nulls a"
    and "t = Date \<or> t = Date32"
  shows "column_back (leaf_write fc t a d) (leaf_read lib io bad t b (arr_length a) nulls) a"
proof -
  have "\<exists>xs. a = ADate32 xs"
    using assms(1,4) by (cases a) (auto simp: leaf_array_def)
  then obtain xs where a: "a = ADate32 xs" by blast
  have m: "mask_of nulls xs" using assms(3) arr_mask_slots [of a xs] by (simp add: a)
  show ?thesis
  proof (cases "t = Date")
    case True
    have x: "slots_ok (fits 0 (2 ^ 16)) xs" "b = BDate"
      using assms(1,2) by (auto simp: True a leaf_array_def try_new.simps strip_null_def)
    have "column_back (write_coerced (int_le 2 0)
        (\<lambda>v. if v < 0 \<or> v > 65535 then Inl ArrowSerialize else Inr (int_le 2 v)) xs)
      (to_array ADate32 (read_bulk io 2 unsigned_le (length xs) nulls)) (ADate32 xs)"
      by (rule back_bulk [OF x(1) m]) (auto simp: fits_def unsigned_le_int_le)
    then show ?thesis by (simp add: True a x leaf_unfold write_date_values_def)
  next
    case False
    then have t: "t = Date32" using assms(4) by simp
    have x: "slots_ok (fits (- (2 ^ 31)) (2 ^ 31 - DAYS_1900_TO_1970)) xs" "b = BDate32"
      using assms(1,2) by (auto simp: t a leaf_array_def try_new.simps strip_null_def)
    have "column_back (write_coerced (int_le 4 0)
        (\<lambda>v. let adjusted = v + DAYS_1900_TO_1970 in
               if adjusted > 2 ^ 31 - 1 then Inl Panic else Inr (int_le 4 adjusted)) xs)
      (to_array ADate32 (read_rows (read_date32 io) (length xs) nulls)) (ADate32 xs)"
      by (rule back_rows [OF x(1) m, where w = "- DAYS_1900_TO_1970"])
        (auto simp: fits_def read_date32_def signed_le_int_le DAYS_1900_TO_1970_def Let_def)
    then show ?thesis by (simp add: t a x leaf_unfold write_date32_values_def)
  qed
qed

lemma back_timestamps:
  assumes "leaf_array lib t d a" and "try_new lib t d = Inr b" and "arr_mask nulls a"
    and "t = DateTime name \<or> t = DateTime64 p name"
  shows "column_back (leaf_write fc t a d) (leaf_read lib io bad t b (arr_length a) nulls) a"
proof -
  let ?z = "if tz_some d then Some name else None"
  have "\<exists>u xs. a = ATimestamp u ?z xs"
    using assms(1,4) by (cases a) (auto simp: leaf_array_def Let_def)
  then obtain u xs where a: "a = ATimestamp u ?z xs" by blast
  have m: "mask_of nulls xs" using assms(3) arr_mask_slots [of a xs] by (simp add: a)
  show ?thesis
  proof (cases "t = DateTime name")
    case True
    have x: "u = Second" "slots_ok (fits 0 (2 ^ 32)) xs" "b = BDateTime ?z"
      using assms(1,2) by (auto simp: True a leaf_array_def try_new.simps strip_null_def)
    have "column_back (write_coerced (int_le 4 0)
        (\<lambda>v. if v > 2 ^ 32 - 1 then Inl ArrowSerialize else Inr (int_le 4 v)) xs)
      (to_array (ATimestamp Second ?z) (read_bulk io 4 unsigned_le (length xs) nulls))
      (ATimestamp Second ?z xs)"
      by (rule back_bulk [OF x(2) m]) (auto simp: fits_def unsigned_le_int_le)
    then show ?thesis by (simp add: True a x leaf_unfold write_datetime_values_def)
  next
    case False
    then have t: "t = DateTime64 p name" using assms(4) by simp
    have x: "timestamp_unit p = Inr u" "slots_ok (fits (- (2 ^ 63)) (2 ^ 63)) xs"
      "timestamp_builder p ?z = Inr b"
      using assms(1,2) by (auto simp: t a leaf_array_def try_new.simps strip_null_def)
    have "column_back (write_coerced (int_le 8 0) (\<lambda>v. Inr (int_le 8 v)) xs)
      (to_array (ATimestamp u ?z) (read_bulk io 8 signed_le (length xs) nulls)) (ATimestamp u ?z xs)"
      by (rule back_bulk [OF x(2) m]) (auto simp: fits_def signed_le_int_le)
    then show ?thesis
      using x(1,3)
      by (auto simp: t a leaf_unfold timestamp_unit_def timestamp_builder_def write_datetime64_values_def
          write_datetime64_unknown_values_def write_datetime64_3_values_def write_datetime64_6_values_def
          write_datetime64_9_values_def write_scaled_def split: if_splits)
  qed
qed

lemma back_strings:
  assumes "leaf_array lib t d a" and "try_new lib t d = Inr b" and "arr_mask nulls a"
    and "t \<in> {String, Binary, Object}" and "input_ok io"
  shows "column_back (leaf_write fc t a d) (leaf_read lib io bad t b (arr_length a) nulls) a"
proof -
  have s: "input_string io (write_string v @ r) = Inr (v, r)" if "length v \<le> MAX_STRING_SIZE" for v r
    using assms(5) that by (simp add: input_ok_def)
  have e: "input_string io (write_string [] @ r) = Inr ([], r)" for r
    by (rule s) simp
  have "\<exists>k xs. a = ABytes k xs"
    using assms(1,4) by (cases a) (auto simp: leaf_array_def)
  then obtain k xs where a: "a = ABytes k xs" by blast
  have m: "mask_of nulls xs" using assms(3) arr_mask_slots [of a xs] by (simp add: a)
  consider "t = String" | "t = Binary" | "t = Object" using assms(4) by blast
  then show ?thesis
  proof cases
    case 1
    have x: "k = KUtf8" "slots_ok (\<lambda>v. utf8_valid v \<and> length v \<le> MAX_STRING_SIZE) xs" "b = BString"
      using assms(1,2) by (simp_all add: 1 a leaf_array_def try_new.simps strip_null_def)
    have "column_back (write_coerced (write_string []) (\<lambda>v. Inr (write_string v)) xs)
      (to_array (ABytes KUtf8) (read_rows (read_as from_utf8_lossy (input_string io)) (length xs) nulls))
      (ABytes KUtf8 xs)"
      by (rule back_rows [OF x(2) m, where w = "from_utf8_lossy []"])
        (auto simp: read_as_def s e from_utf8_lossy_valid)
    then show ?thesis by (simp add: 1 a x leaf_unfold write_variable_def flip: concat_coerced)
  next
    case 2
    have x: "k = KBinary" "slots_ok (\<lambda>v. length v \<le> MAX_STRING_SIZE) xs" "b = BBinary"
      using assms(1,2) by (simp_all add: 2 a leaf_array_def try_new.simps strip_null_def)
    have "column_back (write_coerced (write_string []) (\<lambda>v. Inr (write_string v)) xs)
      (to_array (ABytes KBinary) (read_rows (input_string io) (length xs) nulls)) (ABytes KBinary xs)"
      by (rule back_rows [OF x(2) m, where w = "[]"]) (auto simp: s e)
    then show ?thesis by (simp add: 2 a x leaf_unfold write_variable_def flip: concat_coerced)
  next
    case 3
    have x: "k = KUtf8" "b = BObject"
      "slots_ok (\<lambda>v. utf8_valid v \<and> length v \<le> MAX_STRING_SIZE \<and> json_text lib v = v) xs"
      using assms(1,2) by (simp_all add: 3 a leaf_array_def try_new.simps strip_null_def)
    have "column_back (write_coerced (write_string []) (\<lambda>v. Inr (write_string v)) xs)
      (to_array (ABytes KUtf8)
        (read_rows (read_as (\<lambda>bs. json_text lib (from_utf8_lossy bs)) (input_string io)) (length xs) nulls))
      (ABytes KUtf8 xs)"
      by (rule back_rows [OF x(3) m, where w = "json_text lib (from_utf8_lossy [])"])
        (auto simp: read_as_def s e from_utf8_lossy_valid)
    then show ?thesis by (simp add: 3 a x leaf_unfold write_variable_def flip: concat_coerced)
  qed
qed

lemma usize_small: "usize_of_i32 16 = 16" "usize_of_i32 32 = 32" "usize_of_i32 4 = 4"
  by (simp_all add: usize_of_i32_def)

lemma le_u128_id: "length b = 16 \<Longrightarrow> le_u128 b = b"
  by (simp add: le_u128_def put_le_le_nat)

lemma pad_to_id: "length b = n \<Longrightarrow> pad_to n b = b"
  by (simp add: pad_to_def)

lemma length_pad_to: "length (pad_to n b) = n"
  by (simp add: pad_to_def)

lemma back_fixed_text:
  assumes "leaf_array lib t d a" and "try_new lib t d = Inr b" and "arr_mask nulls a"
    and "t = FixedSizedString n \<or> t = FixedSizedBinary n"
  shows "column_back (leaf_write fc t a d) (leaf_read lib io bad t b (arr_length a) nulls) a"
proof -
  have "\<exists>xs. a = AFixed (i32_of_usize n) xs \<and> n < 2 ^ 31 \<and> slots_ok (\<lambda>b. length b = n) xs"
    using assms(1,4) by (cases a) (auto simp: leaf_array_def)
  then obtain xs where a: "a = AFixed (i32_of_usize n) xs" "n < 2 ^ 31" "slots_ok (\<lambda>b. length b = n) xs"
    by blast
  have m: "mask_of nulls xs" using assms(3) arr_mask_slots [of a xs] by (simp add: a)
  have b: "b = BFixedSizeBinary (i32_of_usize n)"
    using assms(2,4) by (auto simp: try_new.simps strip_null_def fixed_builder_def split: if_splits)
  have i: "fixed_item io t = Some (read_exact (eof_error io) n)"
    using assms(4) by (auto simp: fixed_item_def strip_null_def)
  have "column_back (write_coerced (pad_to n []) (\<lambda>v. Inr (pad_to n v)) xs)
      (deserialize_fixed io bad t (i32_of_usize n) (length xs) nulls) (AFixed (i32_of_usize n) xs)"
    by (rule back_fixed [OF a(3) m i, where w = "pad_to n []"])
      (simp_all add: length_pad_to pad_to_id usize_of_i32_of_usize [OF a(2)])
  then show ?thesis
    using assms(4) by (auto simp: a(1) b leaf_unfold write_fixed_values_def simp flip: concat_coerced)
qed

lemma back_wide:
  assumes "leaf_array lib t d a" and "try_new lib t d = Inr b" and "arr_mask nulls a"
    and "t \<in> {Int128, UInt128, Ipv6}"
  shows "column_back (leaf_write fc t a d) (leaf_read lib io bad t b (arr_length a) nulls) a"
proof -
  have "\<exists>xs. a = AFixed 16 xs \<and> slots_ok (\<lambda>b. length b = 16) xs"
    using assms(1,4) by (cases a) (auto simp: leaf_array_def)
  then obtain xs where a: "a = AFixed 16 xs" "slots_ok (\<lambda>b. length b = 16) xs" by blast
  have m: "mask_of nulls xs" using assms(3) arr_mask_slots [of a xs] by (simp add: a)
  have b: "b = BFixedSizeBinary 16"
    using assms(2,4) by (auto simp: try_new.simps strip_null_def fixed_builder_def split: if_splits)
  have i: "fixed_item io t = Some (read_exact (eof_error io) 16)"
    using assms(4) by (auto simp: fixed_item_def strip_null_def)
  have w: "column_back (write_coerced dflt (exactly 16 f) xs)
      (deserialize_fixed io bad t 16 (length xs) nulls) (AFixed 16 xs)"
    if "length dflt = 16" "\<And>v. length v = 16 \<Longrightarrow> f v = v" for dflt f
    by (rule back_fixed [OF a(2) m i, where w = dflt]) (simp_all add: that exactly_def usize_small)
  show ?thesis
    using assms(4) w [of "int_le 16 0" le_u128] w [of "replicate 16 0" "\<lambda>b. b"]
    by (auto simp: a(1) b leaf_unfold write_i128_values_def write_u128_values_def write_ipv6_values_def
        le_u128_id)
qed

lemma back_256:
  assumes "leaf_array lib t d a" and "try_new lib t d = Inr b" and "arr_mask nulls a"
    and "t \<in> {Int256, UInt256}"
  shows "column_back (leaf_write fc t a d) (leaf_read lib io bad t b (arr_length a) nulls) a"
proof -
  have "\<exists>xs. a = AFixed 32 xs \<and> slots_ok (\<lambda>b. length b = 32) xs"
    using assms(1,4) by (cases a) (auto simp: leaf_array_def)
  then obtain xs where a: "a = AFixed 32 xs" "slots_ok (\<lambda>b. length b = 32) xs" by blast
  have m: "mask_of nulls xs" using assms(3) arr_mask_slots [of a xs] by (simp add: a)
  have b: "b = BFixedSizeBinary 32"
    using assms(2,4) by (auto simp: try_new.simps strip_null_def fixed_builder_def split: if_splits)
  have i: "fixed_item io t = Some (read_as rev (read_exact (eof_error io) 32))"
    using assms(4) by (auto simp: fixed_item_def strip_null_def)
  have "column_back (write_coerced zero32 (exactly 32 swap_endian_256) xs)
      (deserialize_fixed io bad t 32 (length xs) nulls) (AFixed 32 xs)"
    by (rule back_fixed [OF a(2) m i, where w = "rev zero32"])
      (simp_all add: exactly_def usize_small swap_endian_256_def zero32_def read_as_def)
  then show ?thesis
    using assms(4) by (auto simp: a(1) b leaf_unfold write_i256_values_def write_u256_values_def)
qed

section \<open>Every type without parts\<close>

lemma leaf_array_cases:
  assumes "leaf_array lib t d a"
  obtains
    (integers) k where "(t, k) \<in> {(Int8, I8), (Int16, I16), (Int32, I32), (Int64, I64),
      (UInt8, U8), (UInt16, U16), (UInt32, U32), (UInt64, U64)}"
  | (floats) "t \<in> {Float32, Float64}"
  | (decimals) sc where "t = Decimal32 sc \<or> t = Decimal64 sc \<or> t = Decimal128 sc"
  | (decimal256) sc where "t = Decimal256 sc"
  | (dates) "t = Date \<or> t = Date32"
  | (timestamps) p name where "t = DateTime name \<or> t = DateTime64 p name"
  | (strings) "t \<in> {String, Binary, Object}"
  | (fixed_text) n where "t = FixedSizedString n \<or> t = FixedSizedBinary n"
  | (wide) "t \<in> {Int128, UInt128, Ipv6}"
  | (wide256) "t \<in> {Int256, UInt256}"
  using assms by (cases t) (auto simp: leaf_array_def)

lemma leaf_roundtrip:
  assumes "leaf_array lib t d a" and "try_new lib t d = Inr b" and "arr_mask nulls a" and "input_ok io"
  shows "column_back (leaf_write fc t a d) (leaf_read lib io bad t b (arr_length a) nulls) a"
  using assms(1)
proof (cases rule: leaf_array_cases)
  case (integers k)
  then show ?thesis by (rule back_integers [OF assms(1-3)])
next
  case floats
  then show ?thesis by (rule back_floats [OF assms(1-3)])
next
  case (decimals sc)
  then show ?thesis by (rule back_decimals [OF assms(1-3)])
next
  case (decimal256 sc)
  then show ?thesis using back_decimal256 assms(1-3) by blast
next
  case dates
  then show ?thesis by (rule back_dates [OF assms(1-3)])
next
  case (timestamps p name)
  then show ?thesis by (rule back_timestamps [OF assms(1-3)])
next
  case strings
  then show ?thesis by (rule back_strings [OF assms(1-3) _ assms(4)])
next
  case (fixed_text n)
  then show ?thesis by (rule back_fixed_text [OF assms(1-3)])
next
  case wide
  then show ?thesis by (rule back_wide [OF assms(1-3)])
next
  case wide256
  then show ?thesis by (rule back_256 [OF assms(1-3)])
qed

end
