(* ===== verification/ArrowBack.thy ===== *)
theory ArrowBack
  imports ArrowLeaf
begin

text \<open>
  Whole columns through Arrow. \<open>arrow_column\<close> are the arrays that Arrow's constructors make
  of the columns the driver can read, \<open>arrow_lib_ok\<close> what Arrow documents of those
  constructors. The two readers dispatch differently (one looks at the type first, the other
  at the builder), but on the parts of a column they do the same: the locale
  \<open>arrow_reader\<close> is that contract, the round trip is proved in it once, and both readers are
  instances of it.
\<close>

section \<open>The arrays of a type\<close>

definition fits_field :: "field \<Rightarrow> arr \<Rightarrow> bool" where
  "fits_field f a = (arr_type a = field_type f \<and> (has_null a \<longrightarrow> field_nullable f))"

definition offsets_ok :: "int \<Rightarrow> int list \<Rightarrow> nat \<Rightarrow> bool" where
  "offsets_ok bound os n =
     (case os of [] \<Rightarrow> False | x # xs \<Rightarrow> x = 0 \<and> sorted os \<and> last os = int n \<and> int n < bound)"

definition offset_bound :: "list_kind \<Rightarrow> int" where
  "offset_bound k = (if k = KLargeList then 2 ^ 63 else 2 ^ 31)"

text \<open>
  Keys of a dictionary array: in the dictionary and in the range of their type. A null of a
  nullable dictionary is the key 0, its first entry and only that one is null.
\<close>

definition keys_ok :: "int_kind \<Rightarrow> nat \<Rightarrow> int option list \<Rightarrow> bool" where
  "keys_ok k n keys =
     list_all (\<lambda>x. case x of None \<Rightarrow> False | Some i \<Rightarrow> 0 \<le> i \<and> i < int n \<and> in_kind k i) keys"

definition null_first :: "bool \<Rightarrow> arr \<Rightarrow> bool" where
  "null_first nullable a =
     (if nullable then 0 < arr_length a \<and> arr_null a = True # replicate (arr_length a - 1) False
      else \<not> has_null a)"

inductive arrow_column :: "arrow_lib \<Rightarrow> ty \<Rightarrow> data_type \<Rightarrow> arr \<Rightarrow> bool" for lib where
  leaf: "leaf_array lib t d a \<Longrightarrow> \<not> has_null a \<Longrightarrow> arrow_column lib t d a"
| nullable: "leaf_array lib t d a \<Longrightarrow> arrow_column lib (Nullable t) d a"
| list: "arrow_column lib t (field_type f) child \<Longrightarrow> offsets_ok (offset_bound k) os (arr_length child) \<Longrightarrow>
    k = KList \<and> d = DList f \<or> k = KLargeList \<and> d = DLargeList f \<Longrightarrow>
    g = Field LIST_ITEM_FIELD_NAME (arr_type child) (is_nullable (strip_low_cardinality t)) \<Longrightarrow>
    arrow_column lib (Array t) d (AList k g os child None)"
| map: "arrow_column lib t (field_type kf) ks \<Longrightarrow> arrow_column lib u (field_type vf) vs \<Longrightarrow>
    fits_field kf ks \<Longrightarrow> fits_field vf vs \<Longrightarrow> arr_length vs = arr_length ks \<Longrightarrow>
    offsets_ok (2 ^ 31) os (arr_length ks) \<Longrightarrow> field_type f = DStruct [kf, vf] \<Longrightarrow>
    g = Field MAP_FIELD_NAME (DStruct [kf, vf]) False \<Longrightarrow>
    arrow_column lib (Map t u) (DMap f sorted_keys) (AMap g os ks vs None)"
| tuple: "length fs = length us \<Longrightarrow> length cols = length us \<Longrightarrow> us \<noteq> [] \<Longrightarrow> 0 < n \<Longrightarrow>
    (\<And>i. i < length us \<Longrightarrow> arrow_column lib (us ! i) (field_type (fs ! i)) (cols ! i)
       \<and> fits_field (fs ! i) (cols ! i) \<and> arr_length (cols ! i) = n) \<Longrightarrow>
    arrow_column lib (Tuple us) (DStruct fs) (AStruct fs cols None n)"
| dictionary: "leaf_array lib (strip_null t) (arr_type vals) vals \<Longrightarrow> null_first (is_nullable t) vals \<Longrightarrow>
    int_kind_of kd = Some k \<Longrightarrow> keys \<noteq> [] \<Longrightarrow> keys_ok k (arr_length vals) keys \<Longrightarrow>
    length keys < 2 ^ 64 \<Longrightarrow> arr_length vals < 2 ^ 64 \<Longrightarrow>
    arrow_column lib (LowCardinality t) (DDictionary kd (arr_type vals)) (ADict k keys vals)"

section \<open>What Arrow documents of its constructors\<close>

definition list_law :: "arrow_lib \<Rightarrow> bool" where
  "list_law lib =
     (\<forall>k f os child. fits_field f child \<and> offsets_ok (offset_bound k) os (arr_length child) \<longrightarrow>
        list_new lib k f os child None = Inr (AList k f os child None))"

definition map_law :: "arrow_lib \<Rightarrow> bool" where
  "map_law lib =
     (\<forall>f kf vf os ks vs. field_type f = DStruct [kf, vf] \<and> fits_field kf ks \<and> fits_field vf vs
        \<and> arr_length vs = arr_length ks \<and> offsets_ok (2 ^ 31) os (arr_length ks) \<longrightarrow>
        map_new lib f os ks vs None = Inr (AMap f os ks vs None))"

definition struct_law :: "arrow_lib \<Rightarrow> bool" where
  "struct_law lib =
     (\<forall>fs cols n. cols \<noteq> [] \<and> list_all2 fits_field fs cols \<and> (\<forall>c \<in> set cols. arr_length c = n) \<longrightarrow>
        struct_new lib fs cols None = Inr (AStruct fs cols None n))"

definition dict_law :: "arrow_lib \<Rightarrow> bool" where
  "dict_law lib =
     (\<forall>k keys vals. keys_ok k (arr_length vals) keys \<longrightarrow>
        dict_new lib k keys vals = Inr (ADict k keys vals))"

definition arrow_lib_ok :: "arrow_lib \<Rightarrow> bool" where
  "arrow_lib_ok lib = (list_law lib \<and> map_law lib \<and> struct_law lib \<and> dict_law lib)"

lemma arrow_lib_okD:
  assumes "arrow_lib_ok lib"
  shows "fits_field f child \<Longrightarrow> offsets_ok (offset_bound k) os (arr_length child) \<Longrightarrow>
      list_new lib k f os child None = Inr (AList k f os child None)"
    and "field_type g = DStruct [kf, vf] \<Longrightarrow> fits_field kf ks \<Longrightarrow> fits_field vf vs \<Longrightarrow>
      arr_length vs = arr_length ks \<Longrightarrow> offsets_ok (2 ^ 31) os (arr_length ks) \<Longrightarrow>
      map_new lib g os ks vs None = Inr (AMap g os ks vs None)"
    and "cols \<noteq> [] \<Longrightarrow> list_all2 fits_field fs cols \<Longrightarrow> (\<And>c. c \<in> set cols \<Longrightarrow> arr_length c = n) \<Longrightarrow>
      struct_new lib fs cols None = Inr (AStruct fs cols None n)"
    and "keys_ok m (arr_length vals) keys \<Longrightarrow> dict_new lib m keys vals = Inr (ADict m keys vals)"
proof -
  have laws: "list_law lib" "map_law lib" "struct_law lib" "dict_law lib"
    using assms by (simp_all add: arrow_lib_ok_def)
  show "fits_field f child \<Longrightarrow> offsets_ok (offset_bound k) os (arr_length child) \<Longrightarrow>
      list_new lib k f os child None = Inr (AList k f os child None)"
    using laws(1) by (simp add: list_law_def)
  show "field_type g = DStruct [kf, vf] \<Longrightarrow> fits_field kf ks \<Longrightarrow> fits_field vf vs \<Longrightarrow>
      arr_length vs = arr_length ks \<Longrightarrow> offsets_ok (2 ^ 31) os (arr_length ks) \<Longrightarrow>
      map_new lib g os ks vs None = Inr (AMap g os ks vs None)"
    using laws(2) by (simp add: map_law_def)
  show "cols \<noteq> [] \<Longrightarrow> list_all2 fits_field fs cols \<Longrightarrow> (\<And>c. c \<in> set cols \<Longrightarrow> arr_length c = n) \<Longrightarrow>
      struct_new lib fs cols None = Inr (AStruct fs cols None n)"
    using laws(3) by (simp add: struct_law_def)
  show "keys_ok m (arr_length vals) keys \<Longrightarrow> dict_new lib m keys vals = Inr (ADict m keys vals)"
    using laws(4) by (simp add: dict_law_def)
qed

section \<open>The writer on each shape\<close>

lemma leaf_array_plain:
  "leaf_array lib t d a \<Longrightarrow> strip_null t = t \<and> \<not> is_nullable t \<and> unarray t = None
     \<and> normalize_geo_type t = Inl TypeConversion"
  by (cases t) (simp_all add: leaf_array_def strip_null_def is_nullable_def unarray_def normalize_geo_type_def)

lemma arrow_serialize_leaf:
  assumes "leaf_array lib t d a"
  shows "serialize_arrow fc t a d = leaf_write fc t a d"
    and "serialize_arrow fc (Nullable t) a d
      = rmap (\<lambda>bs. null_bytes (arr_null a) @ bs) (leaf_write fc t a d)"
  using assms
  by (cases t; simp add: leaf_array_def serialize_arrow.simps strip_null_def is_nullable_def
      leaf_write_def serialize_nulls_def serialize_primitive_def serialize_binary_def
      normalize_geo_type_def rmap_def split: sum.split)+

lemma serialize_parts:
  "serialize_arrow fc (Array t) a d = serialize_list (serialize_arrow fc t) a d"
  "serialize_arrow fc (Map t u) a d = serialize_map (serialize_arrow fc t) (serialize_arrow fc u) a d"
  "serialize_arrow fc (Tuple us) a d = serialize_tuple (map (serialize_arrow fc) us) a"
  "serialize_arrow fc (LowCardinality t) a d
     = serialize_low_cardinality (serialize_arrow fc (strip_null t)) (LowCardinality t) t a d"
  by (simp_all add: serialize_arrow.simps strip_null_def is_nullable_def rmap_def split: sum.split)

section \<open>Nulls\<close>

lemma leaf_array_null_length: "leaf_array lib t d a \<Longrightarrow> length (arr_null a) = arr_length a"
  by (cases a; cases t) (auto simp: leaf_array_def slots_null_def)

lemma has_null_validity: "arr_null a = validity_null n None \<Longrightarrow> \<not> has_null a"
  by (simp add: has_null_def validity_null_def)

lemma arrow_column_null:
  assumes "arrow_column lib t d a" and "has_null a"
  shows "is_nullable t"
  using assms
proof cases
  case (dictionary t' vals kd k keys)
  then have "None \<notin> set keys" by (auto simp: keys_ok_def list_all_iff)
  then show ?thesis using assms(2) dictionary by (auto simp: has_null_def slots_null_def)
qed (auto simp: is_nullable_def has_null_def validity_null_def)

section \<open>Offsets\<close>

lemma int_le_word: "put_u64 (word_of_int v) = int_le 8 v"
  by (rule put_le_word_of_int) simp

lemma length_concat_int_le: "length (concat (map (int_le 8) os)) = length os * 8"
  by (induction os) simp_all

lemma chunks_concat:
  "(\<And>x. x \<in> set xs \<Longrightarrow> length (f x) = n) \<Longrightarrow> chunks n (length xs) (concat (map f xs)) = map f xs"
proof (induction xs)
  case Nil
  then show ?case by (simp add: chunks_def)
next
  case (Cons x xs)
  then show ?case by (simp add: chunks_Suc)
qed

lemma read_offset_list_written:
  "read_offset_list io (length os) (concat (map (int_le 8) os) @ r)
     = Inr (0 # map word_of_int os, r)"
proof -
  have "word_of_nat (le_nat (int_le 8 v)) = (word_of_int v :: u64)" for v
    using le_nat_put_le [of 8 "word_of_int v :: u64"] by (simp add: int_le_word)
  then show ?thesis
    by (simp add: read_offset_list_def length_concat_int_le chunks_concat comp_def)
qed

lemma offsets_ok_range:
  assumes "offsets_ok b os n" and "x \<in> set os"
  shows "0 \<le> x" and "x \<le> int n" and "int n < b"
proof -
  have ne: "os \<noteq> []" "hd os = 0" "sorted os" "last os = int n" "int n < b"
    using assms(1) by (auto simp: offsets_ok_def split: list.splits)
  obtain i where i: "i < length os" "x = os ! i"
    using assms(2) by (auto simp: in_set_conv_nth)
  have "os ! 0 \<le> os ! i" "os ! i \<le> os ! (length os - 1)"
    using i(1) ne(3) by (auto intro: sorted_nth_mono)
  then show "0 \<le> x" "x \<le> int n" "int n < b"
    using ne i(2) by (simp_all add: hd_conv_nth last_conv_nth)
qed

lemma offset_casts:
  assumes "0 \<le> v"
  shows "v < 2 ^ 31 \<Longrightarrow> as_i32_offset (word_of_int v) = v"
    and "v < 2 ^ 63 \<Longrightarrow> as_i64_offset (word_of_int v) = v"
  using assms by (simp_all add: as_i32_offset_def as_i64_offset_def sint_uint unsigned_ucast_eq
      uint_word_of_int take_bit_int_eq_self signed_take_bit_int_eq_self)

lemma unat_offset: "0 \<le> v \<Longrightarrow> v < 2 ^ 63 \<Longrightarrow> unat (word_of_int v :: u64) = nat v"
  by (simp add: unat_eq_nat_uint uint_word_of_int take_bit_int_eq_self)

lemma offset_bound_le: "offset_bound k \<le> 2 ^ 63"
  by (simp add: offset_bound_def)

lemma read_offsets:
  assumes "offsets_ok b os n" and "b \<le> 2 ^ 63" and "os = x # xs"
  shows "tail_offsets os = Inr (concat (map (int_le 8) xs))"
    and "arr_length (AList k f os c v) = length xs"
    and "read_offset_list io (length xs) (concat (map (int_le 8) xs) @ r)
      = Inr (map word_of_int os, r)"
    and "unat (last (map word_of_int os) :: u64) = n"
proof -
  have z: "x = 0" "last os = int n" "os \<noteq> []" using assms(1,3) by (auto simp: offsets_ok_def)
  show "tail_offsets os = Inr (concat (map (int_le 8) xs))"
    "arr_length (AList k f os c v) = length xs"
    by (simp_all add: tail_offsets_def assms(3))
  show "read_offset_list io (length xs) (concat (map (int_le 8) xs) @ r) = Inr (map word_of_int os, r)"
    by (simp add: read_offset_list_written assms(3) z(1))
  have "last (map word_of_int os) = (word_of_int (int n) :: u64)"
    using z by (simp add: last_map)
  moreover have "int n < 2 ^ 63"
    using offsets_ok_range(3) [OF assms(1), of 0] assms(1-3) z(1) by (auto simp: offsets_ok_def)
  ultimately show "unat (last (map word_of_int os) :: u64) = n" by (simp add: unat_offset del: of_int_of_nat_eq)
qed

lemma map_offset_casts:
  assumes "offsets_ok b os n"
  shows "b \<le> 2 ^ 31 \<Longrightarrow> map as_i32_offset (map word_of_int os) = os"
    and "b \<le> 2 ^ 63 \<Longrightarrow> map as_i64_offset (map word_of_int os) = os"
proof -
  have lt: "0 \<le> x \<and> x < b" if "x \<in> set os" for x
    using offsets_ok_range [OF assms that] by simp
  show "map as_i32_offset (map word_of_int os) = os" if b: "b \<le> 2 ^ 31"
    by (auto intro!: map_idI offset_casts dest!: lt order.strict_trans2 [OF _ b])
  show "map as_i64_offset (map word_of_int os) = os" if b: "b \<le> 2 ^ 63"
    by (auto intro!: map_idI offset_casts dest!: lt order.strict_trans2 [OF _ b])
qed

lemma map_lengths_tail: "map_lengths x (x # xs) = concat (map (int_le 8) xs)"
proof (induction xs arbitrary: x)
  case (Cons y ys)
  then show ?case by simp
qed simp

section \<open>Keys of a dictionary\<close>

definition index_width :: "nat \<Rightarrow> nat" where
  "index_width n = (if n > 2 ^ 32 - 1 then 8 else if n > 2 ^ 16 - 1 then 4 else if n > 2 ^ 8 - 1 then 2 else 1)"

lemma lc_key_bytes_width: "lc_key_bytes n v = int_le (index_width n) v"
  by (simp add: lc_key_bytes_def index_width_def)

lemma index_bytes_flags: "index_bytes bad (lc_flags n) = Inr (index_width n)"
  by (simp add: index_bytes_def lc_flags_def index_width_def HAS_ADDITIONAL_KEYS_BIT_def)

lemma flags_not_empty:
  "lc_flags n AND (NEED_GLOBAL_DICTIONARY_BIT OR NEED_UPDATE_DICTIONARY_BIT OR HAS_ADDITIONAL_KEYS_BIT) \<noteq> 0"
  by (simp add: lc_flags_def HAS_ADDITIONAL_KEYS_BIT_def NEED_GLOBAL_DICTIONARY_BIT_def
      NEED_UPDATE_DICTIONARY_BIT_def)

lemma index_in_width: "v < int n \<Longrightarrow> n < 2 ^ 64 \<Longrightarrow> v < 2 ^ (8 * index_width n)"
  by (simp add: index_width_def)

lemma key_read:
  assumes "0 \<le> v" and "v < int n" and "n < 2 ^ 64" and "in_kind k v"
  shows "cast_kind k (unsigned_le (lc_key_bytes n v)) = v"
  using assms index_in_width [OF assms(2,3)]
  by (simp add: lc_key_bytes_width unsigned_le_int_le cast_kind_def int_of_bytes_int_le)

lemma keys_read:
  assumes "keys_ok k n keys" and "n < 2 ^ 64"
  shows "read_bulk io (index_width n) (\<lambda>bs. cast_kind k (unsigned_le bs)) (length keys) []
      (concat (map (\<lambda>x. lc_key_bytes n (dictionary_key 0 x)) keys) @ r) = Inr (keys, r)"
proof (rule read_bulk_written)
  show "write_each (\<lambda>x. Inr (lc_key_bytes n (dictionary_key 0 x))) keys
    = Inr (concat (map (\<lambda>x. lc_key_bytes n (dictionary_key 0 x)) keys))"
    by (rule write_each_plain)
  show "mask_of [] keys" using assms(1) by (auto simp: mask_of_def keys_ok_def list_all_iff)
next
  fix x b
  assume x: "x \<in> set keys" "Inr (lc_key_bytes n (dictionary_key 0 x)) = Inr b"
  then obtain v where v: "x = Some v" "0 \<le> v" "v < int n" "in_kind k v"
    using assms(1) by (auto simp: keys_ok_def list_all_iff split: option.splits)
  then have "int (as_u64 v) = v"
    using assms(2) by (simp add: as_u64_def)
  then show "length b = index_width n \<and> (\<forall>v. x = Some v \<longrightarrow> cast_kind k (unsigned_le b) = v)"
    using x(2) v key_read [OF v(2,3) assms(2) v(4)]
    by (auto simp: dictionary_key_def lc_key_bytes_width)
qed

lemma null_first_mask:
  assumes "null_first nullable a"
  shows "\<exists>mask. dictionary_mask nullable (arr_length a) = Inr mask \<and> arr_mask mask a"
  using assms
  by (auto simp: null_first_def dictionary_mask_def arr_mask_def null_bytes_def)

lemma read_each_written:
  assumes "length ps = length xs" and "length as = length xs"
    and "\<And>i. i < length xs \<Longrightarrow> column_back (f (xs ! i)) (ps ! i) (as ! i)"
  shows "\<exists>bs. write_each f xs = Inr bs \<and> (\<forall>r. read_each ps (bs @ r) = Inr (as, r))"
  using assms
proof (induction xs arbitrary: ps as)
  case Nil
  then show ?case by simp
next
  case (Cons x xs)
  obtain p ps' a as' where c: "ps = p # ps'" "as = a # as'"
    using Cons.prems(1,2) by (metis length_Suc_conv)
  have "\<exists>bs. write_each f xs = Inr bs \<and> (\<forall>r. read_each ps' (bs @ r) = Inr (as', r))"
  proof (rule Cons.IH)
    show "i < length xs \<Longrightarrow> column_back (f (xs ! i)) (ps' ! i) (as' ! i)" for i
      using Cons.prems(3) [of "Suc i"] by (simp add: c)
  qed (use Cons.prems(1,2) c in simp_all)
  moreover have "column_back (f x) p a" using Cons.prems(3) [of 0] by (simp add: c)
  ultimately show ?case by (auto simp: c column_back_def)
qed

section \<open>The contract of a reader\<close>

text \<open>
  A reader \<open>des\<close> over an input \<open>io\<close>: on a type without parts it does what the builder says,
  on the other types it reads the parts with itself.
\<close>

locale arrow_reader =
  fixes lib :: arrow_lib and io :: input and bad :: err and bad_index :: err
    and des :: "ty \<Rightarrow> builder \<Rightarrow> data_type \<Rightarrow> nat \<Rightarrow> byte list \<Rightarrow> arr reader"
  assumes strings: "input_ok io"
    and des_leaf: "leaf_array lib t d a \<Longrightarrow> try_new lib t d = Inr b \<Longrightarrow>
      des t b d' rows nulls s = leaf_read lib io bad t b rows nulls s"
    and des_nullable: "des (Nullable t) b d rows nulls s
      = rbind (read_mask io rows s) (\<lambda>(mask, s). des t b d rows mask s)"
    and des_list: "b = BList ib \<or> b = BLargeList ib \<Longrightarrow>
      des (Array t) b d rows nulls s
        = deserialize_list lib io (\<lambda>b d n s. des t b d n [] s)
            (is_nullable (strip_low_cardinality t)) b d rows nulls s"
    and des_map: "des (Map t u) (BMap kb vb) d rows nulls s
      = deserialize_map lib io (\<lambda>b d n s. des t b d n [] s) (\<lambda>b d n s. des u b d n [] s)
          (BMap kb vb) d rows nulls s"
    and des_tuple: "des (Tuple us) (BTuple bs) d rows nulls s
      = deserialize_tuple lib (map (\<lambda>u b d n s. des u b d n [] s) us) (BTuple bs) d rows nulls s"
    and des_dictionary: "des (LowCardinality t) (BLowCardinality k vb) d rows nulls s
      = deserialize_low_cardinality lib io bad_index (\<lambda>b d n mask s. des (strip_null t) b d n mask s)
          (is_nullable t) (BLowCardinality k vb) d rows nulls s"
begin

lemma leaf_back:
  assumes "leaf_array lib t d a" and "try_new lib t d = Inr b" and "arr_mask nulls a"
  shows "column_back (serialize_arrow fc t a d) (des t b d' (arr_length a) nulls) a"
  using leaf_roundtrip [OF assms(1-3) strings, where fc = fc and bad = bad]
  by (simp add: column_back_def arrow_serialize_leaf(1) [OF assms(1)] des_leaf [OF assms(1,2)])

lemma nullable_back:
  assumes "leaf_array lib t d a" and "try_new lib (Nullable t) d = Inr b"
  shows "column_back (serialize_arrow fc (Nullable t) a d) (des (Nullable t) b d (arr_length a) []) a"
proof -
  have b: "try_new lib t d = Inr b"
    using assms(2) leaf_array_plain [OF assms(1)] by (simp add: try_new.simps [of lib "Nullable t"]
        try_new.simps [of lib t] strip_null_def)
  let ?mask = "null_bytes (arr_null a)"
  have len: "length ?mask = arr_length a"
    using leaf_array_null_length [OF assms(1)] by (simp add: null_bytes_def)
  have "arr_mask ?mask a" by (simp add: arr_mask_def)
  from leaf_back [OF assms(1) b this, where fc = fc and d' = d]
  obtain bs where bs: "serialize_arrow fc t a d = Inr bs"
    "\<And>r. des t b d (arr_length a) ?mask (bs @ r) = Inr (a, r)"
    by (auto simp: column_back_def)
  have "read_mask io (arr_length a) (?mask @ bs @ r) = Inr (?mask, bs @ r)" for r
    using len by (auto simp: read_mask_def)
  then show ?thesis
    using bs by (simp add: column_back_def arrow_serialize_leaf [OF assms(1)] des_nullable)
qed

lemma try_new_strip: "strip_null (strip_null t) = strip_null t \<Longrightarrow> try_new lib (strip_null t) d = try_new lib t d"
  by (simp add: try_new.simps [of lib t] try_new.simps [of lib "strip_null t"])

lemma arrow_column_strip:
  assumes "arrow_column lib t d a"
  shows "strip_null (strip_null t) = strip_null t"
  using assms
proof cases
  case leaf
  then show ?thesis using leaf_array_plain by simp
next
  case (nullable u)
  then show ?thesis using leaf_array_plain [of lib u d a] by (simp add: strip_null_def)
qed (simp_all add: strip_null_def)

lemma list_back:
  assumes "arrow_column lib t (field_type f) child" and "arrow_lib_ok lib"
    and "offsets_ok (offset_bound k) os (arr_length child)"
    and "k = KList \<and> d = DList f \<or> k = KLargeList \<and> d = DLargeList f"
    and "g = Field LIST_ITEM_FIELD_NAME (arr_type child) (is_nullable (strip_low_cardinality t))"
    and "try_new lib (Array t) d = Inr b"
    and IH: "\<And>b. try_new lib t (field_type f) = Inr b \<Longrightarrow>
      column_back (serialize_arrow fc t child (field_type f))
        (des t b (field_type f) (arr_length child) []) child"
  shows "column_back (serialize_arrow fc (Array t) (AList k g os child None) d)
    (des (Array t) b d (arr_length (AList k g os child None)) []) (AList k g os child None)"
proof -
  obtain x xs where os: "os = x # xs"
    using assms(3) by (auto simp: offsets_ok_def split: list.splits)
  note off = read_offsets [OF assms(3) offset_bound_le os]
  have "\<exists>ib. try_new lib (strip_null t) (field_type f) = Inr ib
    \<and> b = (if k = KList then BList ib else BLargeList ib)"
    using assms(4,6) by (auto simp: try_new.simps [of lib "Array t"] strip_null_def rmap_Inr_iff)
  then obtain ib where ib: "try_new lib t (field_type f) = Inr ib"
    "b = (if k = KList then BList ib else BLargeList ib)"
    using try_new_strip arrow_column_strip [OF assms(1)] by auto
  from IH [OF ib(1)] obtain bs where bs: "serialize_arrow fc t child (field_type f) = Inr bs"
    "\<And>r. des t ib (field_type f) (arr_length child) [] (bs @ r) = Inr (child, r)"
    by (auto simp: column_back_def)
  have "list_item d = Some f" "readable_list_item d = Some f"
    using assms(4) by (auto simp: list_item_def readable_list_item_def)
  note items = this
  have "fits_field g child"
    using arrow_column_null [OF assms(1)]
    by (auto simp: fits_field_def assms(5) is_nullable_def strip_low_cardinality_def split: ty.splits)
  from arrow_lib_okD(1) [OF assms(2) this assms(3)]
  have new: "list_new lib k g os child None = Inr (AList k g os child None)" .
  have w: "serialize_arrow fc (Array t) (AList k g os child None) d
    = Inr (concat (map (int_le 8) xs) @ bs)"
    by (simp add: serialize_parts serialize_list_def unwrap_array_data_type_def items off(1) bs(1))
  define read where "read n s = des t ib (field_type f) n [] s" for n s
  have read: "list_read lib io read (field_nullable g) k cast (length xs) []
      (concat (map (int_le 8) xs) @ bs @ r) = Inr (AList k g os child None, r)"
    if "map cast (map word_of_int os) = os" for cast :: "u64 \<Rightarrow> int" and r
    using that new
    by (simp add: list_read_def off bs(2) read_def null_buffer_def assms(5) del: arr_length.simps map_map)
  note casts = map_offset_casts [OF assms(3)]
  have "des (Array t) b d (length xs) [] ((concat (map (int_le 8) xs) @ bs) @ r)
    = Inr (AList k g os child None, r)" for r
    using assms(4) read [of as_i32_offset] read [of as_i64_offset] casts
    by (auto simp: des_list [where ib = ib] ib(2) deserialize_list_def items offset_bound_def
        assms(5) read_def [abs_def])
  then show ?thesis unfolding off(2) by (simp add: column_back_def w)
qed

lemma map_back:
  assumes "arrow_lib_ok lib" and "fits_field kf ks" and "fits_field vf vs"
    and "arr_length vs = arr_length ks" and "offsets_ok (2 ^ 31) os (arr_length ks)"
    and "field_type f = DStruct [kf, vf]" and "g = Field MAP_FIELD_NAME (DStruct [kf, vf]) False"
    and "try_new lib (Map t u) (DMap f sorted_keys) = Inr b"
    and key: "\<And>b. try_new lib t (field_type kf) = Inr b \<Longrightarrow>
      column_back (serialize_arrow fc t ks (field_type kf)) (des t b (field_type kf) (arr_length ks) []) ks"
    and val: "\<And>b. try_new lib u (field_type vf) = Inr b \<Longrightarrow>
      column_back (serialize_arrow fc u vs (field_type vf)) (des u b (field_type vf) (arr_length vs) []) vs"
  shows "column_back (serialize_arrow fc (Map t u) (AMap g os ks vs None) (DMap f sorted_keys))
    (des (Map t u) b (DMap f sorted_keys) (arr_length (AMap g os ks vs None)) []) (AMap g os ks vs None)"
proof -
  obtain x xs where os: "os = x # xs" "x = 0"
    using assms(5) by (auto simp: offsets_ok_def split: list.splits)
  have le: "(2 :: int) ^ 31 \<le> 2 ^ 63" by simp
  note off = read_offsets [OF assms(5) le os(1)]
  have fields: "get_map_fields (DMap f sorted_keys) = Inr (kf, vf)"
    by (simp add: get_map_fields_def map_entry_fields_def assms(6))
  then obtain kb vb where b: "try_new lib t (field_type kf) = Inr kb"
    "try_new lib u (field_type vf) = Inr vb" "b = BMap kb vb"
    using assms(8) by (auto simp: try_new.simps [of lib "Map t u"] strip_null_def rbind_Inr_iff)
  from key [OF b(1)] obtain kbs where kbs: "serialize_arrow fc t ks (field_type kf) = Inr kbs"
    "\<And>r. des t kb (field_type kf) (arr_length ks) [] (kbs @ r) = Inr (ks, r)"
    by (auto simp: column_back_def)
  from val [OF b(2)] obtain vbs where vbs: "serialize_arrow fc u vs (field_type vf) = Inr vbs"
    "\<And>r. des u vb (field_type vf) (arr_length ks) [] (vbs @ r) = Inr (vs, r)"
    by (auto simp: column_back_def assms(4))
  have w: "serialize_arrow fc (Map t u) (AMap g os ks vs None) (DMap f sorted_keys)
    = Inr (concat (map (int_le 8) xs) @ kbs @ vbs)"
    using map_lengths_tail [of x xs]
    by (simp add: serialize_parts serialize_map_def assms(6) kbs(1) vbs(1) os)
  have new: "map_new lib g os ks vs None = Inr (AMap g os ks vs None)"
    by (rule arrow_lib_okD(2) [OF assms(1) _ assms(2-5)]) (simp add: assms(7))
  have "des (Map t u) b (DMap f sorted_keys) (length xs) [] ((concat (map (int_le 8) xs) @ kbs @ vbs) @ r)
    = Inr (AMap g os ks vs None, r)" for r
    using new map_offset_casts(1) [OF assms(5)]
    by (simp add: b(3) des_map deserialize_map_def fields off kbs(2) vbs(2) null_buffer_def
        assms(7) del: map_map)
  moreover have "arr_length (AMap g os ks vs None) = length xs" by (simp add: os)
  ultimately show ?thesis by (simp add: column_back_def w del: arr_length.simps)
qed

lemma dictionary_back:
  assumes "leaf_array lib (strip_null t) (arr_type vals) vals" and "null_first (is_nullable t) vals"
    and "int_kind_of kd = Some k" and "keys \<noteq> []" and "keys_ok k (arr_length vals) keys"
    and "length keys < 2 ^ 64" and "arr_length vals < 2 ^ 64" and "arrow_lib_ok lib"
    and "try_new lib (LowCardinality t) (DDictionary kd (arr_type vals)) = Inr b"
  shows "column_back
    (serialize_arrow fc (LowCardinality t) (ADict k keys vals) (DDictionary kd (arr_type vals)))
    (des (LowCardinality t) b (DDictionary kd (arr_type vals)) (arr_length (ADict k keys vals)) [])
    (ADict k keys vals)"
proof -
  let ?n = "arr_length vals"
  obtain vb where b: "b = BLowCardinality k vb" "try_new lib (strip_null t) (arr_type vals) = Inr vb"
    using assms(3,9) by (auto simp: try_new.simps [of lib "LowCardinality t"] strip_null_def rmap_Inr_iff)
  obtain mask where mask: "dictionary_mask (is_nullable t) ?n = Inr mask" "arr_mask mask vals"
    using null_first_mask [OF assms(2)] by blast
  from leaf_back [OF assms(1) b(2) mask(2), where fc = fc and d' = "arr_type vals"]
  obtain bs where bs: "serialize_arrow fc (strip_null t) vals (arr_type vals) = Inr bs"
    "\<And>r. des (strip_null t) vb (arr_type vals) ?n mask (bs @ r) = Inr (vals, r)"
    by (auto simp: column_back_def)
  have "\<not> (is_nullable t \<and> \<not> has_null vals)"
    using assms(2) by (auto simp: null_first_def has_null_def)
  then have w: "serialize_arrow fc (LowCardinality t) (ADict k keys vals) (DDictionary kd (arr_type vals))
    = Inr (put_u64 (lc_flags ?n) @ put_u64 (word_of_nat ?n) @ bs @ put_u64 (word_of_nat (length keys))
        @ concat (map (\<lambda>x. lc_key_bytes ?n (dictionary_key 0 x)) keys))"
    using assms(3,4) by (auto simp: serialize_parts serialize_low_cardinality_def write_values_def bs(1) Let_def)
  have sizes: "unat (word_of_nat ?n :: u64) = ?n" "unat (word_of_nat (length keys) :: u64) = length keys"
    using assms(6,7) by (simp_all add: unsigned_of_nat take_bit_nat_eq_self)
  have keys: "read_bulk io (index_width ?n) (\<lambda>bs. cast_kind k (unsigned_le bs)) (length keys) []
      (concat (map (\<lambda>x. lc_key_bytes ?n (dictionary_key 0 x)) keys) @ r) = Inr (keys, r)" for r
    by (rule keys_read [OF assms(5,7)])
  show ?thesis
    unfolding column_back_def w
    by (rule exI, rule conjI [OF refl])
      (simp add: b(1) des_dictionary deserialize_low_cardinality_def index_bytes_flags
        flags_not_empty sizes mask(1) bs(2) keys arrow_lib_okD(4) [OF assms(8,5)])
qed

lemma tuple_back:
  assumes "length fs = length us" and "length cols = length us" and "us \<noteq> []" and "0 < n"
    and "arrow_lib_ok lib" and "try_new lib (Tuple us) (DStruct fs) = Inr b"
    and parts: "\<And>i. i < length us \<Longrightarrow> fits_field (fs ! i) (cols ! i) \<and> arr_length (cols ! i) = n"
    and IH: "\<And>i b. i < length us \<Longrightarrow> try_new lib (us ! i) (field_type (fs ! i)) = Inr b \<Longrightarrow>
      column_back (serialize_arrow fc (us ! i) (cols ! i) (field_type (fs ! i)))
        (des (us ! i) b (field_type (fs ! i)) (arr_length (cols ! i)) []) (cols ! i)"
  shows "column_back (serialize_arrow fc (Tuple us) (AStruct fs cols None n) (DStruct fs))
    (des (Tuple us) b (DStruct fs) (arr_length (AStruct fs cols None n)) []) (AStruct fs cols None n)"
proof -
  obtain bs where bs: "b = BTuple bs"
    "traverse (\<lambda>(u, f). try_new lib u (field_type f)) (zip us fs) = Inr bs"
    using assms(1,6) by (auto simp: try_new.simps [of lib "Tuple us"] strip_null_def rmap_Inr_iff)
  have len: "length bs = length us"
    using bs(2) [unfolded traverse_Inr_nth] assms(1) by simp
  have builder: "try_new lib (us ! i) (field_type (fs ! i)) = Inr (bs ! i)" if "i < length us" for i
    using bs(2) [unfolded traverse_Inr_nth] assms(1) that by force
  define writers where "writers = zip (map (serialize_arrow fc) us) (zip fs cols)"
  define readers where
    "readers = map (\<lambda>(b, p, f). p b (field_type f) n) (zip bs (zip (map (\<lambda>u b d n. des u b d n []) us) fs))"
  have "\<exists>out. write_each (\<lambda>(w, f, c). w c (field_type f)) writers = Inr out
    \<and> (\<forall>r. read_each readers (out @ r) = Inr (cols, r))"
  proof (rule read_each_written)
    show "length readers = length writers" "length cols = length writers"
      using assms(1,2) len by (simp_all add: readers_def writers_def)
  next
    fix i
    assume "i < length writers"
    then have i: "i < length us" using assms(1,2) by (simp add: writers_def)
    from IH [OF i builder [OF i]] parts [OF i]
    show "column_back ((\<lambda>(w, f, c). w c (field_type f)) (writers ! i)) (readers ! i) (cols ! i)"
      using assms(1,2) len i by (simp add: writers_def readers_def)
  qed
  then obtain out where out: "write_each (\<lambda>(w, f, c). w c (field_type f)) writers = Inr out"
    "\<And>r. read_each readers (out @ r) = Inr (cols, r)" by blast
  have new: "struct_new lib fs cols None = Inr (AStruct fs cols None n)"
  proof (rule arrow_lib_okD(3) [OF assms(5)])
    show "cols \<noteq> []" using assms(2,3) by auto
    show "list_all2 fits_field fs cols" using assms(1,2) parts by (simp add: list_all2_conv_all_nth)
    show "c \<in> set cols \<Longrightarrow> arr_length c = n" for c
      using assms(2) parts by (auto simp: in_set_conv_nth)
  qed
  have w: "serialize_arrow fc (Tuple us) (AStruct fs cols None n) (DStruct fs) = Inr out"
    using out(1) assms(1) by (simp add: serialize_parts serialize_tuple_def writers_def)
  have "des (Tuple us) b (DStruct fs) n [] (out @ r) = Inr (AStruct fs cols None n, r)" for r
    using assms(4) out(2) [of r] new
    by (simp add: bs(1) des_tuple deserialize_tuple_def readers_def null_buffer_def)
  then show ?thesis by (simp add: column_back_def w)
qed

text \<open>Every column of \<open>arrow_column\<close>, whatever follows it.\<close>

lemma column_back_all:
  assumes "arrow_column lib t d a" and "arrow_lib_ok lib" and "try_new lib t d = Inr b"
  shows "column_back (serialize_arrow fc t a d) (des t b d (arr_length a) []) a"
  using assms(1,3)
proof (induction arbitrary: b rule: arrow_column.induct)
  case (leaf t d a)
  then show ?case by (intro leaf_back) (simp_all add: arr_mask_def)
next
  case (nullable t d a)
  then show ?case by (intro nullable_back)
next
  case (list t f child k os d g)
  then show ?case by (intro list_back [OF _ assms(2)])
next
  case (map t kf ks u vf vs os f g sorted_keys)
  show ?case
    by (rule map_back [OF assms(2) map.hyps(3-8) map.prems]) (use map.IH in blast)+
next
  case (tuple fs us cols n)
  show ?case by (rule tuple_back [OF _ _ _ _ assms(2)]) (use tuple in blast)+
next
  case (dictionary t vals kd k keys)
  then show ?case by (intro dictionary_back [OF _ _ _ _ _ _ _ assms(2)])
qed

end

section \<open>The readers of the crate\<close>

definition bytes_leaf :: "ty \<Rightarrow> bool" where
  "bytes_leaf t =
     (case t of String \<Rightarrow> True | Binary \<Rightarrow> True | Object \<Rightarrow> True | FixedSizedString _ \<Rightarrow> True
      | FixedSizedBinary _ \<Rightarrow> True | Int128 \<Rightarrow> True | UInt128 \<Rightarrow> True | Int256 \<Rightarrow> True | UInt256 \<Rightarrow> True
      | Ipv6 \<Rightarrow> True | _ \<Rightarrow> False)"

definition bytes_builder :: "builder \<Rightarrow> bool" where
  "bytes_builder b =
     (case b of BString \<Rightarrow> True | BObject \<Rightarrow> True | BBinary \<Rightarrow> True | BFixedSizeBinary _ \<Rightarrow> True
      | _ \<Rightarrow> False)"

definition primitive_builder :: "builder \<Rightarrow> bool" where
  "primitive_builder b =
     (case b of BInt _ \<Rightarrow> True | BFloat32 \<Rightarrow> True | BFloat64 \<Rightarrow> True | BDecimal32 _ \<Rightarrow> True
      | BDecimal64 _ \<Rightarrow> True | BDecimal128 _ \<Rightarrow> True | BDecimal256 _ \<Rightarrow> True | BDate \<Rightarrow> True
      | BDate32 \<Rightarrow> True | BDateTime _ \<Rightarrow> True | BDateTimeS _ \<Rightarrow> True | BDateTimeMs _ \<Rightarrow> True
      | BDateTimeMu _ \<Rightarrow> True | BDateTimeNano _ \<Rightarrow> True | _ \<Rightarrow> False)"

lemma leaf_builder:
  assumes "leaf_array lib t d a" and "try_new lib t d = Inr b"
  shows "if bytes_leaf t then bytes_builder b else primitive_builder b"
  using assms(1)
proof (cases rule: leaf_array_cases)
  case (timestamps p name)
  then show ?thesis
    using assms(2) by (auto simp: try_new.simps strip_null_def bytes_leaf_def primitive_builder_def
        timestamp_builder_def split: if_splits)
qed (use assms(2) in \<open>auto simp: try_new.simps strip_null_def bytes_leaf_def bytes_builder_def
    primitive_builder_def decimal_builder_def fixed_builder_def split: if_splits\<close>)

lemma async_leaf:
  "leaf_array lib t d a \<Longrightarrow> deserialize_arrow_async lib t b d' rows nulls s =
     (if bytes_leaf t then deserialize_binary lib async_input t b rows nulls s
      else deserialize_primitive async_input b rows nulls s)"
  by (cases t; simp add: leaf_array_def deserialize_arrow_async.simps bytes_leaf_def normalize_geo_type_def)

lemma sync_leaf:
  assumes "unnull t = None" and "bytes_builder b \<or> primitive_builder b"
  shows "deserialize_arrow lib t b d rows nulls s
    = leaf_read lib sync_input UnexpectedType t b rows nulls s"
  using assms
  by (cases b; simp add: deserialize_arrow.simps leaf_read_def bytes_builder_def primitive_builder_def)

lemma leaf_array_unnull: "leaf_array lib t d a \<Longrightarrow> unnull t = None"
  by (cases t) (simp_all add: leaf_array_def unnull_def)

interpretation async_reader: arrow_reader lib async_input ArrowDeserialize DeserializeError
  "deserialize_arrow_async lib" for lib
proof
  show "input_ok async_input" by (rule input_ok_both)
next
  fix t d a d' b rows nulls s
  assume l: "leaf_array lib t d a" and b: "try_new lib t d = Inr b"
  show "deserialize_arrow_async lib t b d' rows nulls s
    = leaf_read lib async_input ArrowDeserialize t b rows nulls s"
    using leaf_builder [OF l b]
    by (cases b) (simp_all add: async_leaf [OF l] leaf_read_def deserialize_binary_def
        bytes_builder_def primitive_builder_def split: if_splits)
qed (simp_all add: deserialize_arrow_async.simps [of _ "Nullable t" for t]
    deserialize_arrow_async.simps [of _ "Array t" for t] deserialize_arrow_async.simps [of _ "Map t u" for t u]
    deserialize_arrow_async.simps [of _ "Tuple us" for us]
    deserialize_arrow_async.simps [of _ "LowCardinality t" for t])

interpretation sync_reader: arrow_reader lib sync_input UnexpectedType ArrowDeserialize
  "deserialize_arrow lib" for lib
proof
  show "input_ok sync_input" by (rule input_ok_both)
next
  fix t d a d' b rows nulls s
  assume l: "leaf_array lib t d a" and b: "try_new lib t d = Inr b"
  show "deserialize_arrow lib t b d' rows nulls s
    = leaf_read lib sync_input UnexpectedType t b rows nulls s"
    using leaf_builder [OF l b] leaf_array_unnull [OF l]
    by (intro sync_leaf) (auto split: if_splits)
next
  fix b ib t d rows nulls s
  assume "b = BList ib \<or> b = BLargeList ib"
  then show "deserialize_arrow lib (Array t) b d rows nulls s
    = deserialize_list lib sync_input (\<lambda>b d n s. deserialize_arrow lib t b d n [] s)
        (is_nullable (strip_low_cardinality t)) b d rows nulls s"
    by (auto simp: deserialize_arrow.simps [of lib "Array t"] unnull_def unarray_def)
qed (simp_all add: deserialize_arrow.simps [of _ "Nullable t" for t]
    deserialize_arrow.simps [of _ "Map t u" for t u] deserialize_arrow.simps [of _ "Tuple us" for us]
    deserialize_arrow.simps [of _ "LowCardinality t" for t]
    unnull_def unmap_def untuple_def unlow_cardinality_def)

text \<open>C16. What the Arrow writer writes of a column, either reader reads back: for every type
  whose arrays \<open>arrow_column\<close> describes and every Arrow type a builder exists for, the bytes
  of the array, with anything behind them, give the same array and leave the rest.\<close>

theorem arrow_column_roundtrip:
  assumes "arrow_column lib t d a" and "arrow_lib_ok lib" and "try_new lib t d = Inr b"
  shows "\<exists>bs. serialize_arrow fc t a d = Inr bs
    \<and> (\<forall>r. deserialize_arrow_async lib t b d (arr_length a) [] (bs @ r) = Inr (a, r)
         \<and> deserialize_arrow lib t b d (arr_length a) [] (bs @ r) = Inr (a, r))"
  using async_reader.column_back_all [OF assms, of fc] sync_reader.column_back_all [OF assms, of fc]
  by (auto simp: column_back_def)

text \<open>
  An instance of the library's constructors that checks its parts: what the laws ask for is
  what it does.
\<close>

definition checked_arrow :: arrow_lib where
  "checked_arrow = \<lparr>
     decimal_ok = (\<lambda>p s. sint s \<le> sint p),
     fixed_ok = (\<lambda>n. 0 \<le> sint n),
     list_new = (\<lambda>k f os child v.
       if fits_field f child \<and> offsets_ok (offset_bound k) os (arr_length child)
       then Inr (AList k f os child v) else Inl ArrowError),
     fixed_list_new = (\<lambda>f n child v. Inl ArrowError),
     map_new = (\<lambda>f os ks vs v.
       case field_type f of
         DStruct [kf, vf] \<Rightarrow>
           if fits_field kf ks \<and> fits_field vf vs \<and> offsets_ok (2 ^ 31) os (arr_length ks)
             \<and> arr_length vs = arr_length ks
           then Inr (AMap f os ks vs v) else Inl ArrowError
       | _ \<Rightarrow> Inl ArrowError),
     struct_new = (\<lambda>fs cols v.
       if cols \<noteq> [] \<and> list_all2 fits_field fs cols
         \<and> list_all (\<lambda>c. arr_length c = arr_length (hd cols)) cols
       then Inr (AStruct fs cols v (arr_length (hd cols))) else Inl ArrowError),
     struct_with_length = (\<lambda>fs cols v n. Inl ArrowError),
     dict_new = (\<lambda>k keys vals.
       if keys_ok k (arr_length vals) keys then Inr (ADict k keys vals) else Inl ArrowError),
     new_empty = (\<lambda>d. AOther d 0),
     batch_new = (\<lambda>fs cols.
       if cols \<noteq> [] \<and> list_all2 fits_field fs cols
         \<and> list_all (\<lambda>c. arr_length c = arr_length (hd cols)) cols
       then Inr \<lparr>batch_fields = fs, batch_columns = cols, batch_rows = arr_length (hd cols)\<rparr>
       else Inl ArrowError),
     json_text = (\<lambda>b. b)\<rparr>"

lemma checked_arrow_ok: "arrow_lib_ok checked_arrow"
proof -
  have "list_law checked_arrow" by (simp add: list_law_def checked_arrow_def)
  moreover have "map_law checked_arrow" by (simp add: map_law_def checked_arrow_def)
  moreover have "struct_law checked_arrow"
    by (auto simp: struct_law_def checked_arrow_def list_all_iff)
  moreover have "dict_law checked_arrow" by (simp add: dict_law_def checked_arrow_def)
  ultimately show ?thesis by (simp add: arrow_lib_ok_def)
qed

definition no_floats :: float_conv where
  "no_floats = \<lparr>f16_to_f32 = (\<lambda>_. 0), f16_to_f64 = (\<lambda>_. 0), f32_to_f64 = (\<lambda>_. 0)\<rparr>"

text \<open>Two rows of \<open>Array(Nullable(Int32))\<close>: \<open>[1, NULL]\<close> and \<open>[]\<close>.\<close>

theorem arrow_column_roundtrip_witness:
  "\<exists>bs. serialize_arrow no_floats (Array (Nullable Int32))
        (AList KList (Field ''item'' DInt32 True) [0, 2, 2] (AInt I32 [Some 1, None]) None)
        (DList (Field ''item'' DInt32 True)) = Inr bs
     \<and> (\<forall>r. deserialize_arrow_async checked_arrow (Array (Nullable Int32)) (BList (BInt I32))
              (DList (Field ''item'' DInt32 True)) 2 [] (bs @ r)
            = Inr (AList KList (Field ''item'' DInt32 True) [0, 2, 2] (AInt I32 [Some 1, None]) None, r)
          \<and> deserialize_arrow checked_arrow (Array (Nullable Int32)) (BList (BInt I32))
              (DList (Field ''item'' DInt32 True)) 2 [] (bs @ r)
            = Inr (AList KList (Field ''item'' DInt32 True) [0, 2, 2] (AInt I32 [Some 1, None]) None, r))"
proof -
  let ?d = "DList (Field ''item'' DInt32 True)"
  let ?a = "AList KList (Field ''item'' DInt32 True) [0, 2, 2] (AInt I32 [Some 1, None]) None"
  have "arrow_column checked_arrow (Array (Nullable Int32)) (DList (Field ''item'' DInt32 True))
    (AList KList (Field ''item'' DInt32 True) [0, 2, 2] (AInt I32 [Some 1, None]) None)"
    by (rule arrow_column.list [where t = "Nullable Int32" and f = "Field ''item'' DInt32 True"])
      (auto simp: leaf_array_def slots_ok_def in_kind_def int_signed_def int_bytes_def offsets_ok_def
        offset_bound_def LIST_ITEM_FIELD_NAME_def int_type_def is_nullable_def strip_low_cardinality_def
        intro!: arrow_column.nullable)
  moreover have "try_new checked_arrow (Array (Nullable Int32)) (DList (Field ''item'' DInt32 True))
    = Inr (BList (BInt I32))"
    by (simp add: try_new.simps strip_null_def)
  ultimately have "\<exists>bs. serialize_arrow no_floats (Array (Nullable Int32)) ?a ?d = Inr bs
    \<and> (\<forall>r. deserialize_arrow_async checked_arrow (Array (Nullable Int32)) (BList (BInt I32)) ?d
            (arr_length ?a) [] (bs @ r) = Inr (?a, r)
         \<and> deserialize_arrow checked_arrow (Array (Nullable Int32)) (BList (BInt I32)) ?d
            (arr_length ?a) [] (bs @ r) = Inr (?a, r))"
    by (rule arrow_column_roundtrip [OF _ checked_arrow_ok])
  moreover have "arr_length ?a = 2" by simp
  ultimately show ?thesis by (simp only:)
qed

end
