(* ===== verification/ColumnProofs.thy ===== *)
theory ColumnProofs
  imports Columns "HOL-Library.Sublist"
begin

text \<open>
  What the column codecs guarantee: a column of values of its type is written, and what is
  written is read back to the same values, up to the byte after the column; a reader only
  takes bytes from the front of the stream, and the loop of the low-cardinality reader ends.
\<close>

section \<open>The contract of a column codec\<close>

text \<open>
  \<open>column_rt w p vs\<close>: the writer \<open>w\<close> succeeds on the values \<open>vs\<close>, and the reader \<open>p\<close>
  gives back \<open>f v\<close> for every value \<open>v\<close> and leaves what follows the column.
\<close>

definition column_rt ::
  "(val \<Rightarrow> val) \<Rightarrow> (val list \<Rightarrow> byte list res) \<Rightarrow> (nat \<Rightarrow> val list reader) \<Rightarrow> val list \<Rightarrow> bool" where
  "column_rt f w p vs \<longleftrightarrow>
     (\<exists>bs. w vs = Inr bs \<and> (\<forall>r. p (length vs) (bs @ r) = Inr (map f vs, r)))"

lemma column_rtE:
  assumes "column_rt f w p vs"
  obtains bs where "w vs = Inr bs" "\<And>r. p (length vs) (bs @ r) = Inr (map f vs, r)"
  using assms by (auto simp: column_rt_def)

section \<open>Offsets\<close>

fun ends_from :: "nat \<Rightarrow> nat list \<Rightarrow> nat list" where
  "ends_from off [] = []"
| "ends_from off (n # ns) = (off + n) # ends_from (off + n) ns"

definition offset_bytes :: "nat list \<Rightarrow> byte list" where
  "offset_bytes ns = concat (map (\<lambda>n. put_u64 (word_of_nat n)) ns)"

lemma length_ends_from [simp]: "length (ends_from off ns) = length ns"
  by (induction ns arbitrary: off) simp_all

lemma last_ends_from: "ns \<noteq> [] \<Longrightarrow> last (ends_from off ns) = off + sum_list ns"
proof (induction ns arbitrary: off)
  case Nil
  then show ?case by simp
next
  case (Cons n ns)
  show ?case
  proof (cases "ns = []")
    case True
    then show ?thesis by simp
  next
    case False
    then have "ends_from (off + n) ns \<noteq> []" by (cases ns) simp_all
    with False Cons.IH [OF False, of "off + n"] show ?thesis by simp
  qed
qed

lemma ends_from_bound: "n \<in> set (ends_from off ns) \<Longrightarrow> n \<le> off + sum_list ns"
  by (induction ns arbitrary: off) force+

lemma read_offset_bytes:
  assumes "\<And>n. n \<in> set ns \<Longrightarrow> n < 2 ^ 64"
  shows "read_offsets eof (length ns) (offset_bytes ns @ r) = Inr (ns, r)"
proof -
  have "read_n (length ns) (read_u64 eof) (offset_bytes ns @ r) = Inr (map word_of_nat ns, r)"
    by (induction ns) (simp_all add: offset_bytes_def)
  moreover have "map unat (map (word_of_nat :: nat \<Rightarrow> u64) ns) = ns"
    using assms by (induction ns) (simp_all add: unat_of_nat_u64)
  ultimately show ?thesis by (simp add: read_offsets_def read_as_def)
qed

lemma split_ends_from:
  "split_offsets off (ends_from off (map length xss)) (concat xss @ ys) = Inr xss"
  by (induction xss arbitrary: off) simp_all

text \<open>The offsets of the parts of a column are below \<open>2 ^ 64\<close> when its items can be counted.\<close>

lemma ends_small:
  assumes "length (concat xss) \<le> MAX_STRING_SIZE"
    and "n \<in> set (ends_from 0 (map length xss))"
  shows "n < 2 ^ 64"
  using ends_from_bound [OF assms(2)] assms(1)
  by (simp add: length_concat MAX_STRING_SIZE_def)

lemma last_ends_length: "xss \<noteq> [] \<Longrightarrow> last (ends_from 0 (map length xss)) = length (concat xss)"
  by (simp add: last_ends_from length_concat)

section \<open>Arrays\<close>

lemma array_offsets_ends:
  assumes "\<And>v. v \<in> set vs \<Longrightarrow> value_len v = Inr (length (items v))"
  shows "array_offsets value_len off vs
    = Inr (offset_bytes (ends_from off (map length (map items vs))))"
  using assms by (induction vs arbitrary: off) (simp_all add: offset_bytes_def)

text \<open>The items of every value, as the trait's functions see them.\<close>

definition array_shape ::
  "(val \<Rightarrow> nat res) \<Rightarrow> (val \<Rightarrow> val list res) \<Rightarrow> (val \<Rightarrow> 'i res) \<Rightarrow> ('i list \<Rightarrow> val)
    \<Rightarrow> (val \<Rightarrow> val list) \<Rightarrow> val \<Rightarrow> bool" where
  "array_shape value_len values_of item_mapping inner_value items v \<longleftrightarrow>
     value_len v = Inr (length (items v)) \<and> values_of v = Inr (items v)
     \<and> (\<exists>is. traverse item_mapping (items v) = Inr is \<and> inner_value is = v)"

lemma traverse_array_shape:
  assumes "list_all (array_shape value_len values_of item_mapping inner_value items) vs"
  shows "traverse values_of vs = Inr (map items vs)"
    and "\<exists>out. traverse (traverse item_mapping) (map items vs) = Inr out \<and> map inner_value out = vs"
  using assms by (induction vs) (auto simp: array_shape_def)

lemma array_rt:
  assumes shape: "list_all (array_shape value_len values_of item_mapping inner_value items) vs"
    and size: "length (concat (map items vs)) \<le> MAX_STRING_SIZE"
    and inner: "column_rt id write_inner read_inner (concat (map items vs))"
    and empty: "write_inner [] = Inr []"
  shows "column_rt id (array_write value_len values_of write_inner)
    (array_read item_mapping inner_value read_inner) vs"
    and "vs \<noteq> [] \<Longrightarrow> column_rt id (array_write value_len values_of write_inner)
    (array_read_sync item_mapping inner_value read_inner) vs"
proof -
  let ?ends = "ends_from 0 (map length (map items vs))"
  obtain ib where ib: "write_inner (concat (map items vs)) = Inr ib"
    "\<And>r. read_inner (length (concat (map items vs))) (ib @ r) = Inr (concat (map items vs), r)"
    using inner by (auto elim!: column_rtE)
  have offs: "array_offsets value_len 0 vs = Inr (offset_bytes ?ends)"
    by (rule array_offsets_ends) (use shape in \<open>simp add: list_all_iff array_shape_def\<close>)
  have w: "array_write value_len values_of write_inner vs = Inr (offset_bytes ?ends @ ib)"
    by (simp add: array_write_def offs traverse_array_shape(1) [OF shape] ib(1))
  have small: "n \<in> set ?ends \<Longrightarrow> n < 2 ^ 64" for n by (rule ends_small [OF size])
  have ro: "read_offsets eof (length vs) (offset_bytes ?ends @ s) = Inr (?ends, s)" for eof s
    using read_offset_bytes [of ?ends eof s, OF small] by simp
  obtain out where out: "traverse (traverse item_mapping) (map items vs) = Inr out"
    "map inner_value out = vs"
    using traverse_array_shape(2) [OF shape] by blast
  have last: "vs \<noteq> [] \<Longrightarrow> last ?ends = length (concat (map items vs))"
    using last_ends_length [of "map items vs"] by simp
  have split: "split_offsets 0 ?ends (concat (map items vs)) = Inr (map items vs)"
    using split_ends_from [of 0 "map items vs" "[]"] by simp
  have ne: "vs \<noteq> [] \<Longrightarrow> ?ends \<noteq> []" by (cases vs) simp_all
  show "column_rt id (array_write value_len values_of write_inner)
    (array_read item_mapping inner_value read_inner) vs"
  proof (cases "vs = []")
    case True
    then show ?thesis
      using w ib(1) empty by (simp add: column_rt_def array_read_def offset_bytes_def)
  next
    case False
    then show ?thesis
      using w ro last split out ib(2)
      by (simp add: column_rt_def array_read_def)
  qed
  show "vs \<noteq> [] \<Longrightarrow> column_rt id (array_write value_len values_of write_inner)
    (array_read_sync item_mapping inner_value read_inner) vs"
    using w ro last split out ib(2) ne
    by (simp add: column_rt_def array_read_sync_def)
qed

section \<open>Maps\<close>

definition map_keys :: "val \<Rightarrow> val list" where
  "map_keys v = (case v of VMap ks _ \<Rightarrow> ks | _ \<Rightarrow> [])"

definition map_vals :: "val \<Rightarrow> val list" where
  "map_vals v = (case v of VMap _ vs \<Rightarrow> vs | _ \<Rightarrow> [])"

definition map_value :: "val \<Rightarrow> bool" where
  "map_value v \<longleftrightarrow> (case v of VMap ks vs \<Rightarrow> length ks = length vs | _ \<Rightarrow> False)"

lemma map_value_parts: "map_value v \<Longrightarrow>
    v = VMap (map_keys v) (map_vals v) \<and> length (map_vals v) = length (map_keys v)"
  by (cases v) (simp_all add: map_value_def map_keys_def map_vals_def)

lemma map_gather_values:
  assumes "list_all map_value vs"
  shows "map_gather off vs = Inr (offset_bytes (ends_from off (map length (map map_keys vs))),
    concat (map map_keys vs), concat (map map_vals vs))"
  using assms
proof (induction vs arbitrary: off)
  case Nil
  then show ?case by (simp add: offset_bytes_def)
next
  case (Cons v vs)
  then show ?case
    by (cases v) (simp_all add: map_value_def map_keys_def map_vals_def offset_bytes_def)
qed

lemma map_split_values:
  assumes "list_all map_value vs"
  shows "map_split off (ends_from off (map length (map map_keys vs)))
    (concat (map map_keys vs)) (concat (map map_vals vs)) = Inr vs"
  using assms
proof (induction vs arbitrary: off)
  case Nil
  then show ?case by simp
next
  case (Cons v vs)
  then have "map_value v" "list_all map_value vs" by simp_all
  note parts = map_value_parts [OF this(1)]
  then have "VMap (map_keys v) (map_vals v) = v" "length (map_vals v) = length (map_keys v)"
    by simp_all
  then show ?case using Cons.IH [OF \<open>list_all map_value vs\<close>] by (simp add: max_def)
qed

lemma map_rt:
  assumes maps: "list_all map_value vs" and rows: "length vs \<le> MAX_STRING_SIZE"
    and size: "length (concat (map map_keys vs)) \<le> MAX_STRING_SIZE"
    and keys: "column_rt id write_key read_key (concat (map map_keys vs))"
    and vals: "column_rt id write_value read_value (concat (map map_vals vs))"
    and empty: "write_key [] = Inr []" "write_value [] = Inr []"
  shows "column_rt id (map_write write_key write_value) (map_read read_key read_value) vs"
proof -
  let ?ends = "ends_from 0 (map length (map map_keys vs))"
  obtain kb where kb: "write_key (concat (map map_keys vs)) = Inr kb"
    "\<And>r. read_key (length (concat (map map_keys vs))) (kb @ r) = Inr (concat (map map_keys vs), r)"
    using keys by (auto elim!: column_rtE)
  obtain vb where vb: "write_value (concat (map map_vals vs)) = Inr vb"
    "\<And>r. read_value (length (concat (map map_vals vs))) (vb @ r) = Inr (concat (map map_vals vs), r)"
    using vals by (auto elim!: column_rtE)
  have len: "length (concat (map map_vals vs)) = length (concat (map map_keys vs))"
    using maps by (induction vs) (auto dest: map_value_parts)
  have w: "map_write write_key write_value vs = Inr (offset_bytes ?ends @ kb @ vb)"
    by (simp add: map_write_def map_gather_values [OF maps] kb(1) vb(1))
  have small: "n \<in> set ?ends \<Longrightarrow> n < 2 ^ 64" for n by (rule ends_small [OF size])
  have ro: "read_offsets Io (length vs) (offset_bytes ?ends @ s) = Inr (?ends, s)" for s
    using read_offset_bytes [of ?ends Io s, OF small] by simp
  show ?thesis
  proof (cases "vs = []")
    case True
    then show ?thesis
      using w kb(1) vb(1) empty by (simp add: column_rt_def map_read_def offset_bytes_def)
  next
    case False
    then have "last ?ends = length (concat (map map_keys vs))"
      using last_ends_length [of "map map_keys vs"] by simp
    then show ?thesis
      using False rows w ro kb(2) vb(2) len map_split_values [OF maps, of 0]
      by (simp add: column_rt_def map_read_def Let_def)
  qed
qed

section \<open>Points and nullables\<close>

definition point_value :: "val \<Rightarrow> bool" where
  "point_value v \<longleftrightarrow> (case v of VPoint _ \<Rightarrow> True | _ \<Rightarrow> False)"

definition point_of :: "val \<Rightarrow> point" where
  "point_of v = (case v of VPoint p \<Rightarrow> p | _ \<Rightarrow> (0, 0))"

lemma set_coord_map:
  "length points = length xs \<Longrightarrow>
     set_coord f points (map VFloat64 xs) = Inr (map2 f xs points)"
  by (induction points xs rule: list_induct2) simp_all

lemma traverse_points:
  "list_all point_value vs \<Longrightarrow> traverse point_coords vs = Inr (map point_of vs)"
  by (induction vs) (auto simp: point_value_def point_coords_def point_of_def split: val.splits)

lemma VPoint_point_of: "list_all point_value vs \<Longrightarrow> map (\<lambda>v. VPoint (point_of v)) vs = vs"
  by (induction vs) (auto simp: point_value_def point_of_def split: val.splits)

lemma point_rt:
  assumes points: "list_all point_value vs"
    and floats: "\<And>xs. length xs = length vs \<Longrightarrow> column_rt id write_float read_float (map VFloat64 xs)"
  shows "column_rt id (point_write write_float) (point_read read_float) vs"
proof -
  let ?xs = "map (\<lambda>v. fst (point_of v)) vs" and ?ys = "map (\<lambda>v. snd (point_of v)) vs"
  obtain xb where xb: "write_float (map VFloat64 ?xs) = Inr xb"
    "\<And>r. read_float (length vs) (xb @ r) = Inr (map VFloat64 ?xs, r)"
    using floats [of ?xs] by (auto elim!: column_rtE)
  obtain yb where yb: "write_float (map VFloat64 ?ys) = Inr yb"
    "\<And>r. read_float (length vs) (yb @ r) = Inr (map VFloat64 ?ys, r)"
    using floats [of ?ys] by (auto elim!: column_rtE)
  have "point_write write_float vs = Inr (xb @ yb)"
    using xb(1) yb(1) by (simp add: point_write_def traverse_points [OF points] o_def)
  moreover have "point_read read_float (length vs) ((xb @ yb) @ r)
      = Inr (map (\<lambda>v. VPoint (point_of v)) vs, r)" for r
  proof -
    define half where "half = map (\<lambda>v. (fst (point_of v), 0 :: u64)) vs"
    have "map2 (\<lambda>x p. (x, snd p)) ?xs (replicate (length vs) (0, 0)) = half"
      by (rule nth_equalityI) (simp_all add: half_def)
    then have x: "set_coord (\<lambda>x p. (x, snd p)) (replicate (length vs) (0, 0)) (map VFloat64 ?xs)
        = Inr half"
      using set_coord_map [of "replicate (length vs) (0, 0)" ?xs "\<lambda>x p. (x, snd p)"] by simp
    have "map2 (\<lambda>y p. (fst p, y)) ?ys half = map point_of vs"
      by (rule nth_equalityI) (simp_all add: half_def)
    then have y: "set_coord (\<lambda>y p. (fst p, y)) half (map VFloat64 ?ys) = Inr (map point_of vs)"
      using set_coord_map [of half ?ys "\<lambda>y p. (fst p, y)"] by (simp add: half_def)
    have "point_read read_float (length vs) (xb @ yb @ r) = Inr (map VPoint (map point_of vs), r)"
      by (simp only: point_read_def xb(2) yb(2) x y rbind_simps prod.case)
    then show ?thesis by (simp add: o_def)
  qed
  ultimately show ?thesis by (simp add: column_rt_def VPoint_point_of [OF points])
qed

lemma apply_mask_nulls:
  "(\<And>v. v \<in> set vs \<Longrightarrow> v \<noteq> VNull \<Longrightarrow> f v = v) \<Longrightarrow>
     apply_mask (null_mask vs) (map f vs) = Inr vs"
  by (induction vs) (auto simp: null_mask_def)

lemma nullable_rt:
  assumes "column_rt f write_inner read_inner vs"
    and "\<And>v. v \<in> set vs \<Longrightarrow> v \<noteq> VNull \<Longrightarrow> f v = v"
  shows "column_rt id (nullable_write write_inner) (nullable_read eof read_inner) vs"
proof -
  obtain b where b: "write_inner vs = Inr b" "\<And>r. read_inner (length vs) (b @ r) = Inr (map f vs, r)"
    using assms(1) by (auto elim!: column_rtE)
  have "length (null_mask vs) = length vs" by (simp add: null_mask_def)
  then show ?thesis
    using b apply_mask_nulls [of vs f] assms(2)
    by (simp add: column_rt_def nullable_write_def nullable_read_def)
qed

section \<open>Tuples\<close>

definition tuple_items :: "val \<Rightarrow> val list" where
  "tuple_items v = (case v of VTuple vs \<Rightarrow> vs | _ \<Rightarrow> [])"

definition tuple_value :: "nat \<Rightarrow> val \<Rightarrow> bool" where
  "tuple_value n v \<longleftrightarrow> (case v of VTuple vs \<Rightarrow> length vs = n | _ \<Rightarrow> False)"

text \<open>The columns of the items: the \<open>i\<close>-th holds the \<open>i\<close>-th item of every tuple.\<close>

definition item_columns :: "nat \<Rightarrow> val list \<Rightarrow> val list list" where
  "item_columns n vs = map (\<lambda>i. map (\<lambda>v. tuple_items v ! i) vs) [0..<n]"

definition append_column :: "'a list \<Rightarrow> 'a list list \<Rightarrow> 'a list list" where
  "append_column c ts = map2 (\<lambda>t v. t @ [v]) ts c"

lemma push_row_map2:
  "length row = length columns \<Longrightarrow> push_row columns row = Inr (map2 (\<lambda>c v. c @ [v]) columns row)"
  by (induction row columns rule: list_induct2) simp_all

lemma push_column_append:
  "length c = length ts \<Longrightarrow> push_column ts c = Inr (append_column c ts)"
  by (induction c ts rule: list_induct2) (simp_all add: append_column_def)

lemma tuple_value_parts: "tuple_value n v \<Longrightarrow>
    v = VTuple (tuple_items v) \<and> unwrap_tuple_value v = Inr (tuple_items v) \<and> length (tuple_items v) = n"
  by (cases v) (simp_all add: tuple_value_def tuple_items_def unwrap_tuple_value_def)

lemma tuple_columns_items:
  assumes "list_all (tuple_value n) vs" and "length columns = n"
  shows "tuple_columns columns vs = Inr (map2 (@) columns (item_columns n vs))"
  using assms
proof (induction vs arbitrary: columns)
  case Nil
  then have "map2 (@) columns (item_columns n []) = columns"
    by (intro nth_equalityI) (simp_all add: item_columns_def)
  then show ?case by simp
next
  case (Cons v vs)
  then have v: "tuple_value n v" and vs: "list_all (tuple_value n) vs" by simp_all
  note parts = tuple_value_parts [OF v]
  define cols where "cols = map2 (\<lambda>c v. c @ [v]) columns (tuple_items v)"
  have len: "length cols = n" using parts Cons.prems(2) by (simp add: cols_def)
  have "map2 (@) cols (item_columns n vs) = map2 (@) columns (item_columns n (v # vs))"
    using parts Cons.prems(2) by (intro nth_equalityI) (simp_all add: cols_def item_columns_def)
  then show ?case
    using parts Cons.IH [OF vs len] Cons.prems(2) push_row_map2 [of "tuple_items v" columns]
    by (simp add: cols_def)
qed

lemma fold_append_columns:
  assumes "list_all (tuple_value n) vs" and "k \<le> n"
  shows "fold append_column (item_columns k vs) (replicate (length vs) [])
    = map (\<lambda>v. take k (tuple_items v)) vs"
  using assms(2)
proof (induction k)
  case 0
  show ?case by (rule nth_equalityI) (simp_all add: item_columns_def)
next
  case (Suc k)
  have *: "take k xs @ [xs ! k] = take (Suc k) xs" if "length xs = n" for xs :: "val list"
    using that Suc.prems by (simp add: take_Suc_conv_app_nth)
  have "fold append_column (item_columns (Suc k) vs) (replicate (length vs) [])
      = append_column (map (\<lambda>v. tuple_items v ! k) vs) (map (\<lambda>v. take k (tuple_items v)) vs)"
    using Suc by (simp add: item_columns_def)
  also have "\<dots> = map (\<lambda>v. take k (tuple_items v) @ [tuple_items v ! k]) vs"
    by (rule nth_equalityI) (simp_all add: append_column_def)
  also have "\<dots> = map (\<lambda>v. take (Suc k) (tuple_items v)) vs"
    using assms(1) by (intro map_cong refl *) (auto simp: list_all_iff dest: tuple_value_parts)
  finally show ?case .
qed

lemma read_columns_rt:
  assumes "list_all (\<lambda>(w, p, c). column_rt id w p c \<and> length c = rows) wpc"
  shows "\<exists>bs. write_each (\<lambda>(w, c). w c) (map (\<lambda>(w, p, c). (w, c)) wpc) = Inr bs
    \<and> (\<forall>r ts. length ts = rows \<longrightarrow>
         read_columns rows (map (\<lambda>(w, p, c). p) wpc) ts (bs @ r)
           = Inr (fold append_column (map (\<lambda>(w, p, c). c) wpc) ts, r))"
  using assms
proof (induction wpc)
  case Nil
  show ?case by simp
next
  case (Cons x wpc)
  obtain w p c where x: "x = (w, p, c)" by (cases x)
  then have len: "length c = rows" using Cons.prems by simp
  obtain b where b: "w c = Inr b" "\<And>r. p rows (b @ r) = Inr (c, r)"
    using Cons.prems x len by (auto elim!: column_rtE)
  obtain bs where bs: "write_each (\<lambda>(w, c). w c) (map (\<lambda>(w, p, c). (w, c)) wpc) = Inr bs"
    "\<And>r ts. length ts = rows \<Longrightarrow> read_columns rows (map (\<lambda>(w, p, c). p) wpc) ts (bs @ r)
       = Inr (fold append_column (map (\<lambda>(w, p, c). c) wpc) ts, r)"
    using Cons by auto
  have "length (append_column c ts) = rows" if "length ts = rows" for ts :: "val list list"
    using that len by (simp add: append_column_def)
  then show ?case
    using x b bs len by (auto simp: push_column_append)
qed

lemma tuple_rt:
  assumes tuples: "list_all (tuple_value (length ts)) vs"
    and inner: "\<And>t c. (t, c) \<in> set (zip ts (item_columns (length ts) vs)) \<Longrightarrow> column_rt id (w t) (p t) c"
  shows "column_rt id (tuple_write (map w ts)) (tuple_read (map p ts)) vs"
proof -
  let ?n = "length ts"
  let ?cols = "item_columns ?n vs"
  let ?wpc = "map (\<lambda>(t, c). (w t, p t, c)) (zip ts ?cols)"
  have lc: "length ?cols = ?n" by (simp add: item_columns_def)
  have "c \<in> set ?cols \<Longrightarrow> length c = length vs" for c by (auto simp: item_columns_def)
  then have "list_all (\<lambda>(w, p, c). column_rt id w p c \<and> length c = length vs) ?wpc"
    using inner by (fastforce simp: list_all_iff dest: set_zip_rightD)
  from read_columns_rt [OF this] obtain bs where bs:
    "write_each (\<lambda>(w, c). w c) (map (\<lambda>(w, p, c). (w, c)) ?wpc) = Inr bs"
    "\<And>r us. length us = length vs \<Longrightarrow> read_columns (length vs) (map (\<lambda>(w, p, c). p) ?wpc) us (bs @ r)
       = Inr (fold append_column (map (\<lambda>(w, p, c). c) ?wpc) us, r)"
    by blast
  have shapes: "map (\<lambda>(w, p, c). (w, c)) ?wpc = zip (map w ts) ?cols"
    "map (\<lambda>(w, p, c). p) ?wpc = map p ts" "map (\<lambda>(w, p, c). c) ?wpc = ?cols"
    using lc by (auto intro!: nth_equalityI)
  have "map2 (@) (replicate ?n []) ?cols = ?cols"
    using lc by (intro nth_equalityI) simp_all
  then have "tuple_columns (replicate ?n []) vs = Inr ?cols"
    using tuple_columns_items [OF tuples, of "replicate ?n []"] by simp
  then have "tuple_write (map w ts) vs = Inr bs"
    using bs(1) shapes by (simp add: tuple_write_def)
  moreover have "map VTuple (map (\<lambda>v. take ?n (tuple_items v)) vs) = vs"
    using tuples by (induction vs) (auto dest: tuple_value_parts)
  then have "tuple_read (map p ts) (length vs) (bs @ r) = Inr (vs, r)" for r
    using bs(2) [of "replicate (length vs) []" r] shapes fold_append_columns [OF tuples order_refl]
    by (simp add: tuple_read_def)
  ultimately show ?thesis by (simp add: column_rt_def)
qed

section \<open>Low cardinality\<close>

text \<open>
  What the code relies on in \<open>IndexSet\<close>, for values whose equality is equality: no key
  twice, the keys are the inserted elements, and the first inserted one is the first key.
\<close>

definition index_set :: "(val list \<Rightarrow> val list) \<Rightarrow> bool" where
  "index_set iset \<longleftrightarrow>
     (\<forall>xs. list_all no_object xs \<longrightarrow>
        distinct (iset xs) \<and> set (iset xs) = set xs
        \<and> (xs \<noteq> [] \<longrightarrow> iset xs \<noteq> [] \<and> hd (iset xs) = hd xs))"

lemma index_of_Some:
  assumes "v \<in> set ks" and "list_all no_object ks"
  shows "\<exists>i. index_of ks v = Some i \<and> i < length ks \<and> ks ! i = v"
  using assms
proof (induction ks)
  case Nil
  then show ?case by simp
next
  case (Cons k ks)
  show ?case
  proof (cases "k = v")
    case True
    then show ?thesis by simp
  next
    case False
    then show ?thesis using Cons by (auto simp: value_eq_iff)
  qed
qed

text \<open>The index type of a number of keys, and an index as a value of it.\<close>

definition idx_type :: "nat \<Rightarrow> ty" where
  "idx_type n = (if n > 2 ^ 32 - 1 then UInt64 else if n > 2 ^ 16 - 1 then UInt32
                 else if n > 2 ^ 8 - 1 then UInt16 else UInt8)"

definition idx_val :: "nat \<Rightarrow> nat \<Rightarrow> val" where
  "idx_val n i = (if n > 2 ^ 32 - 1 then VUInt64 (word_of_nat i)
                  else if n > 2 ^ 16 - 1 then VUInt32 (word_of_nat i)
                  else if n > 2 ^ 8 - 1 then VUInt16 (word_of_nat i) else VUInt8 (word_of_nat i))"

lemma lc_flags_read:
  "lc_index_type (lc_flags n) = Inr (idx_type n)"
  "lc_flags n AND HAS_ADDITIONAL_KEYS_BIT \<noteq> 0"
  "lc_flags n AND NEED_GLOBAL_DICTIONARY_BIT = 0"
  by (simp_all add: lc_index_type_def lc_flags_def idx_type_def HAS_ADDITIONAL_KEYS_BIT_def
      NEED_GLOBAL_DICTIONARY_BIT_def)

lemma idx_item: "sized_item eof (idx_type n) (lc_index_bytes n i @ r) = Inr (idx_val n i, r)"
  by (simp add: sized_item_def idx_type_def lc_index_bytes_def idx_val_def read_as_def)

lemma idx_value: "i < n \<Longrightarrow> n < 2 ^ 64 \<Longrightarrow> index_value (idx_val n i) = Inr i"
  by (simp add: index_value_def idx_val_def unat_of_nat)

text \<open>The keys of a column.\<close>

lemma lc_keys_props:
  assumes "index_set iset" and "list_all no_object vs"
  shows "distinct (lc_keys iset nullable vs)"
    and "set (lc_keys iset nullable vs) = (if nullable then insert VNull (set vs) else set vs)"
    and "nullable \<Longrightarrow> lc_keys iset nullable vs ! 0 = VNull"
    and "length (lc_keys iset nullable vs) \<le> Suc (length vs)"
    and "list_all no_object (lc_keys iset nullable vs)"
proof -
  let ?xs = "(if nullable then [VNull] else []) @ vs"
  have "list_all no_object ?xs" using assms(2) by simp
  then have i: "distinct (iset ?xs)" "set (iset ?xs) = set ?xs"
    "?xs \<noteq> [] \<Longrightarrow> iset ?xs \<noteq> [] \<and> hd (iset ?xs) = hd ?xs"
    using assms(1) unfolding index_set_def by blast+
  show "distinct (lc_keys iset nullable vs)"
    "set (lc_keys iset nullable vs) = (if nullable then insert VNull (set vs) else set vs)"
    using i by (simp_all add: lc_keys_def)
  show "nullable \<Longrightarrow> lc_keys iset nullable vs ! 0 = VNull"
    using i(3) by (cases "iset ?xs") (auto simp: lc_keys_def)
  have "length (iset ?xs) = card (set ?xs)"
    using distinct_card [OF i(1)] i(2) by simp
  also have "\<dots> \<le> length ?xs" by (rule card_length)
  also have "\<dots> \<le> Suc (length vs)" by simp
  finally show "length (lc_keys iset nullable vs) \<le> Suc (length vs)" by (simp add: lc_keys_def)
  show "list_all no_object (lc_keys iset nullable vs)"
    using \<open>list_all no_object ?xs\<close> i(2) by (simp add: lc_keys_def list_all_iff)
qed

lemma lc_values_keys:
  assumes "\<And>v. v \<in> set vs \<Longrightarrow> \<exists>i < length keys. index_value (g v) = Inr i \<and>
      (if nullable \<and> i = 0 then v = VNull else keys ! i = v)"
    and "has_additional_keys st" and "\<not> needs_global_dictionary st"
    and "additional_keys st = Some keys" and "lc_nullable st = nullable"
  shows "lc_values st (map g vs) = Inr vs"
proof -
  have "traverse (\<lambda>entry. rbind (index_value entry) (\<lambda>i.
      if lc_nullable st \<and> i = 0 then Inr VNull else get_entry keys i)) (map g vs) = Inr vs"
    using assms(1)
  proof (induction vs)
    case Nil
    show ?case by simp
  next
    case (Cons v vs)
    then obtain i where "i < length keys" "index_value (g v) = Inr i"
      "if nullable \<and> i = 0 then v = VNull else keys ! i = v" by auto
    then show ?case using Cons assms(5) by (auto simp: get_entry_def)
  qed
  then show ?thesis using assms(2-4) by (simp add: lc_values_def need_def)
qed

text \<open>A written column is one run of indexes with additional keys only.\<close>

lemma lc_index_written:
  assumes keys: "distinct keys" "list_all no_object keys" "set vs \<subseteq> set keys" "length keys < 2 ^ 64"
    and null: "nullable \<Longrightarrow> keys \<noteq> [] \<and> keys ! 0 = VNull"
  shows "\<exists>ib g. write_each (\<lambda>v. case index_of keys v of None \<Rightarrow> Inl Panic
           | Some index \<Rightarrow> Inr (lc_index_bytes (length keys) index)) vs = Inr ib
    \<and> (\<forall>r. sized_read (idx_type (length keys)) (length vs) (ib @ r) = Inr (map g vs, r))
    \<and> (\<forall>v \<in> set vs. \<exists>i < length keys. index_value (g v) = Inr i
        \<and> (if nullable \<and> i = 0 then v = VNull else keys ! i = v))"
proof -
  let ?n = "length keys"
  let ?f = "\<lambda>v. case index_of keys v of None \<Rightarrow> Inl Panic
              | Some index \<Rightarrow> Inr (lc_index_bytes ?n index)"
  define pos where "pos v = the (index_of keys v)" for v
  have pos: "index_of keys v = Some (pos v) \<and> pos v < ?n \<and> keys ! pos v = v" if "v \<in> set vs" for v
  proof -
    have "v \<in> set keys" using that keys(3) by blast
    from index_of_Some [OF this keys(2)] show ?thesis by (auto simp: pos_def)
  qed
  have "is_ok (write_each ?f vs)" by (rule write_each_ok) (simp add: pos)
  then obtain ib where ib: "write_each ?f vs = Inr ib" by (auto simp: is_ok_iff)
  have "sized_read (idx_type ?n) (length vs) (ib @ r) = Inr (map (\<lambda>v. idx_val ?n (pos v)) vs, r)" for r
    unfolding sized_read_def
    by (rule read_write_each [OF ib]) (auto simp: pos idx_item)
  moreover have "\<exists>i < ?n. index_value (idx_val ?n (pos v)) = Inr i
      \<and> (if nullable \<and> i = 0 then v = VNull else keys ! i = v)" if "v \<in> set vs" for v
    using pos [OF that] idx_value [of "pos v" ?n] keys(4) null by (intro exI [of _ "pos v"]) auto
  ultimately show ?thesis using ib by blast
qed

lemma low_cardinality_rt:
  assumes iset: "index_set iset" and objs: "list_all no_object vs"
    and size: "length vs < MAX_STRING_SIZE"
    and inner: "column_rt f write_inner read_inner (lc_keys iset nullable vs)"
    and id: "\<And>v. v \<noteq> VNull \<Longrightarrow> f v = v" and nonnull: "\<not> nullable \<Longrightarrow> VNull \<notin> set vs"
  shows "column_rt id (low_cardinality_write iset nullable write_inner)
    (low_cardinality_read nullable read_inner) vs"
proof (cases "vs = []")
  case True
  then show ?thesis
    by (simp add: column_rt_def low_cardinality_write_def low_cardinality_read_def lc_start_def
        lc_loop.simps)
next
  case False
  define ks where "ks = lc_keys iset nullable vs"
  note props = lc_keys_props [OF iset objs, of nullable, folded ks_def]
  have n: "length ks < 2 ^ 64" using props(4) size by (simp add: MAX_STRING_SIZE_def)
  have ne: "ks \<noteq> []" using False props(2) by (auto split: if_splits)
  obtain kb where kb: "write_inner ks = Inr kb"
    "\<And>r. read_inner (length ks) (kb @ r) = Inr (map f ks, r)"
    using inner by (auto simp: ks_def elim!: column_rtE)
  obtain ib g where ib: "write_each (\<lambda>v. case index_of ks v of None \<Rightarrow> Inl Panic
           | Some index \<Rightarrow> Inr (lc_index_bytes (length ks) index)) vs = Inr ib"
    "\<And>r. sized_read (idx_type (length ks)) (length vs) (ib @ r) = Inr (map g vs, r)"
    "\<And>v. v \<in> set vs \<Longrightarrow> \<exists>i < length ks. index_value (g v) = Inr i
        \<and> (if nullable \<and> i = 0 then v = VNull else ks ! i = v)"
  proof -
    have "set vs \<subseteq> set ks" using props(2) by auto
    moreover have "nullable \<Longrightarrow> ks \<noteq> [] \<and> ks ! 0 = VNull" using props(3) ne by simp
    ultimately show ?thesis
      using lc_index_written [OF props(1,5) _ n, of vs nullable] that by blast
  qed
  let ?bs = "put_u64 (lc_flags (length ks)) @ put_u64 (word_of_nat (length ks)) @ kb
    @ put_u64 (word_of_nat (length vs)) @ ib"
  have w: "low_cardinality_write iset nullable write_inner vs = Inr ?bs"
    using False kb(1) ib(1) by (simp add: low_cardinality_write_def ks_def [symmetric] Let_def)
  have lens: "unat (word_of_nat (length ks) :: u64) = length ks"
    "unat (word_of_nat (length vs) :: u64) = length vs"
    using n size by (simp_all add: unat_of_nat_u64 MAX_STRING_SIZE_def)
  define st where "st = (lc_start (length vs))\<lparr>has_additional_keys := True,
    needs_global_dictionary := False, indexed_type := idx_type (length ks), lc_nullable := nullable,
    global_dictionary := None, additional_keys := Some (map f ks),
    num_pending_rows := length vs\<rparr>"
  have head: "lc_header nullable read_inner (lc_start (length vs)) (?bs @ r) = Inr (st, ib @ r)" for r
    using lc_flags_read [of "length ks"] kb(2) lens
    by (simp add: lc_header_def st_def lc_start_def)
  have "\<exists>i < length (map f ks). index_value (g v) = Inr i
      \<and> (if nullable \<and> i = 0 then v = VNull else map f ks ! i = v)" if v: "v \<in> set vs" for v
  proof -
    obtain i where i: "i < length ks" "index_value (g v) = Inr i"
      "if nullable \<and> i = 0 then v = VNull else ks ! i = v" using ib(3) [OF v] by blast
    have "ks ! i = v \<Longrightarrow> \<not> (nullable \<and> i = 0) \<Longrightarrow> v \<noteq> VNull"
      using nonnull v props(3) i(1) ne nth_eq_iff_index_eq [OF props(1) i(1), of 0]
      by (cases nullable) auto
    then show ?thesis using i id by (intro exI [of _ i]) auto
  qed
  then have vals: "lc_values st (map g vs) = Inr vs"
    by (intro lc_values_keys [where nullable = nullable]) (simp_all add: st_def lc_start_def)
  have turn: "lc_turn nullable read_inner (lc_start (length vs)) (?bs @ r)
      = Inr (st\<lparr>limit := 0, num_pending_rows := 0, lc_output := vs\<rparr>, r)" for r
  proof -
    have "num_pending_rows (lc_start (length vs)) = 0" by (simp add: lc_start_def)
    moreover have "limit st = length vs" "num_pending_rows st = length vs"
      "indexed_type st = idx_type (length ks)" "lc_output st = []"
      by (simp_all add: st_def lc_start_def)
    moreover have "\<not> length vs > MAX_STRING_SIZE" using size by simp
    ultimately show ?thesis
      using head [of r] ib(2) [of r] vals by (simp add: lc_turn_def sized_column_def)
  qed
  have "low_cardinality_read nullable read_inner (length vs) (?bs @ r) = Inr (vs, r)" for r
    unfolding low_cardinality_read_def
    using False turn [of r] by (simp add: lc_loop.simps lc_start_def)
  then show ?thesis using w by (simp add: column_rt_def)
qed

section \<open>Columns of values of a type\<close>

definition leaf_type :: "ty \<Rightarrow> bool" where
  "leaf_type t \<longleftrightarrow> sized_type t \<or> string_type t \<or> t = Object"

definition array_items :: "val \<Rightarrow> val list" where
  "array_items v = (case v of VArray vs \<Rightarrow> vs | VRing ps \<Rightarrow> map VPoint ps
     | VPolygon rs \<Rightarrow> map VRing rs | VMultiPolygon ps \<Rightarrow> map VPolygon ps | _ \<Rightarrow> [])"

text \<open>
  The columns the round trip is about: every value belongs to the type, and at every level
  of nesting the number of items is at most \<open>MAX_STRING_SIZE\<close>, the limit of the reader.
  A null stands for a value of a nullable type only, and the inner type of a nullable is a
  type that has no parts (\<open>validate\<close> excludes the composite ones).
\<close>

function col_ok :: "ty \<Rightarrow> val list \<Rightarrow> bool" where
  "col_ok t vs \<longleftrightarrow> length vs \<le> MAX_STRING_SIZE \<and>
     (case t of
        Array inner \<Rightarrow>
          list_all (\<lambda>v. case v of VArray _ \<Rightarrow> True | _ \<Rightarrow> False) vs
          \<and> col_ok inner (concat (map array_items vs))
      | Ring \<Rightarrow>
          list_all (\<lambda>v. case v of VRing _ \<Rightarrow> True | _ \<Rightarrow> False) vs
          \<and> col_ok Point (concat (map array_items vs))
      | Polygon \<Rightarrow>
          list_all (\<lambda>v. case v of VPolygon _ \<Rightarrow> True | _ \<Rightarrow> False) vs
          \<and> col_ok Ring (concat (map array_items vs))
      | MultiPolygon \<Rightarrow>
          list_all (\<lambda>v. case v of VMultiPolygon _ \<Rightarrow> True | _ \<Rightarrow> False) vs
          \<and> col_ok Polygon (concat (map array_items vs))
      | Point \<Rightarrow> list_all point_value vs
      | Tuple ts \<Rightarrow>
          list_all (tuple_value (length ts)) vs
          \<and> list_all (\<lambda>(t, c). col_ok t c) (zip ts (item_columns (length ts) vs))
      | Map k v \<Rightarrow>
          list_all map_value vs
          \<and> col_ok k (concat (map map_keys vs)) \<and> col_ok v (concat (map map_vals vs))
      | Nullable inner \<Rightarrow> leaf_type inner \<and> list_all (null_item_ok inner) vs
      | LowCardinality inner \<Rightarrow>
          length vs < MAX_STRING_SIZE \<and> leaf_type (strip_null inner) \<and> strip_null inner \<noteq> Object
          \<and> (is_nullable inner \<longrightarrow> null_ok (strip_null inner))
          \<and> list_all (if is_nullable inner then null_item_ok (strip_null inner)
                      else item_ok inner) vs
      | _ \<Rightarrow> leaf_type t \<and> list_all (item_ok t) vs)"
  by pat_completeness auto
termination
  by (relation "measure (\<lambda>(t, vs). ty_weight t)")
    (auto simp: less_Suc_eq_le intro: ty_weight_member dest: set_zip_leftD)

declare col_ok.simps [simp del]

lemma item_ok_leaf: "item_ok t v \<Longrightarrow> leaf_type t"
  by (cases t) (simp_all add: item_ok_def leaf_type_def sized_type_def string_type_def)

lemma serialize_leaf:
  "sized_type t \<Longrightarrow> serialize_column iset t vs = sized_write t vs"
  "string_type t \<Longrightarrow> serialize_column iset t vs = string_write t vs"
  "serialize_column iset Object vs = object_write Object vs"
  by (cases t; simp add: sized_type_def string_type_def serialize_column.simps)+

lemma deserialize_leaf:
  assumes "rows \<le> MAX_STRING_SIZE"
  shows "sized_type t \<Longrightarrow> deserialize_column t rows s = sized_read t rows s"
    and "string_type t \<Longrightarrow> deserialize_column t rows s = string_read t rows s"
    and "deserialize_column Object rows s = object_read Object rows s"
  using assms
  by (cases t; simp add: sized_type_def string_type_def deserialize_column.simps)+

lemma deserialize_leaf_sync:
  assumes "rows \<le> MAX_STRING_SIZE"
  shows "sized_type t \<Longrightarrow> deserialize_column_sync t rows s = sized_read_sync t rows s"
    and "string_type t \<Longrightarrow> deserialize_column_sync t rows s = string_read_sync t rows s"
    and "deserialize_column_sync Object rows s = object_read_sync Object rows s"
  using assms
  by (cases t; simp add: sized_type_def string_type_def deserialize_column_sync.simps)+

lemma leaf_rt:
  assumes "leaf_type t" and "list_all (null_item_ok t) vs" and "length vs \<le> MAX_STRING_SIZE"
  shows "column_rt (item_read t) (serialize_column iset t) (deserialize_column t) vs"
    and "column_rt (item_read t) (serialize_column iset t) (deserialize_column_sync t) vs"
proof -
  consider (sized) "sized_type t" | (string) "string_type t" | (object) "t = Object"
    using assms(1) by (auto simp: leaf_type_def)
  then have "column_rt (item_read t) (serialize_column iset t) (deserialize_column t) vs
    \<and> column_rt (item_read t) (serialize_column iset t) (deserialize_column_sync t) vs"
  proof cases
    case sized
    then obtain bs where "sized_write t vs = Inr bs"
      using sized_write_ok [OF sized assms(2)] by (auto simp: is_ok_iff)
    then show ?thesis
      using sized_round [OF sized assms(2)] sized assms(3)
      by (simp add: column_rt_def serialize_leaf deserialize_leaf deserialize_leaf_sync)
  next
    case string
    then obtain bs where "string_write t vs = Inr bs"
      using string_write_ok [OF string assms(2)] by (auto simp: is_ok_iff)
    then show ?thesis
      using string_round [OF string assms(2)] string assms(3)
      by (simp add: column_rt_def serialize_leaf deserialize_leaf deserialize_leaf_sync)
  next
    case object
    then obtain bs where "object_write Object vs = Inr bs"
      using object_write_ok assms(2) by (auto simp: is_ok_iff)
    then show ?thesis
      using object_round object assms(2,3)
      by (simp add: column_rt_def serialize_leaf deserialize_leaf deserialize_leaf_sync)
  qed
  then show "column_rt (item_read t) (serialize_column iset t) (deserialize_column t) vs"
    "column_rt (item_read t) (serialize_column iset t) (deserialize_column_sync t) vs"
    by simp_all
qed

lemma column_rt_map:
  assumes "column_rt f w p vs" and "\<And>v. v \<in> set vs \<Longrightarrow> f v = v"
  shows "column_rt id w p vs"
proof -
  have "map f vs = vs" using assms(2) by (simp add: map_idI)
  then show ?thesis using assms(1) by (simp add: column_rt_def)
qed

lemma item_read_item: "item_ok t v \<Longrightarrow> item_read t v = v"
  using item_ok_not_Null by (auto simp: item_read_def)

lemma leaf_item_rt:
  assumes "leaf_type t" and "list_all (item_ok t) vs" and "length vs \<le> MAX_STRING_SIZE"
  shows "column_rt id (serialize_column iset t) (deserialize_column t) vs"
    and "column_rt id (serialize_column iset t) (deserialize_column_sync t) vs"
proof -
  have ok: "list_all (null_item_ok t) vs" and id: "v \<in> set vs \<Longrightarrow> item_read t v = v" for v
    using assms(2) by (simp_all add: list_all_iff null_item_ok_def item_read_item)
  show "column_rt id (serialize_column iset t) (deserialize_column t) vs"
    by (rule column_rt_map [OF leaf_rt(1) [OF assms(1) ok assms(3)] id])
  show "column_rt id (serialize_column iset t) (deserialize_column_sync t) vs"
    by (rule column_rt_map [OF leaf_rt(2) [OF assms(1) ok assms(3)] id])
qed

end
