(* ===== verification/ColumnTheorems.thy ===== *)
theory ColumnTheorems
  imports ColumnProofs
begin

text \<open>
  The theorems on column codecs: the round trip of every type, the in-memory reader against
  it, and what the readers take from the stream.
\<close>

section \<open>The equations of the composite types\<close>

lemma serialize_composite:
  "serialize_column iset (Array t) vs =
     array_write array_len unwrap_array_value (serialize_column iset t) vs"
  "serialize_column iset (Tuple ts) vs = tuple_write (map (serialize_column iset) ts) vs"
  "serialize_column iset Point vs = point_write (serialize_column iset Float64) vs"
  "serialize_column iset Ring vs = array_write ring_len ring_values (serialize_column iset Point) vs"
  "serialize_column iset Polygon vs =
     array_write polygon_len polygon_values (serialize_column iset Ring) vs"
  "serialize_column iset MultiPolygon vs =
     array_write multi_polygon_len multi_polygon_values (serialize_column iset Polygon) vs"
  "serialize_column iset (Nullable t) vs = nullable_write (serialize_column iset t) vs"
  "serialize_column iset (Map k v) vs =
     map_write (serialize_column iset k) (serialize_column iset v) vs"
  "serialize_column iset (LowCardinality t) vs =
     low_cardinality_write iset (is_nullable t) (serialize_column iset (strip_null t)) vs"
  by (simp_all add: serialize_column.simps)

lemma deserialize_composite:
  assumes "rows \<le> MAX_STRING_SIZE"
  shows
  "deserialize_column (Array t) rows s = array_read Inr VArray (deserialize_column t) rows s"
  "deserialize_column (Tuple ts) rows s = tuple_read (map deserialize_column ts) rows s"
  "deserialize_column Point rows s = point_read (deserialize_column Float64) rows s"
  "deserialize_column Ring rows s = array_read point_item VRing (deserialize_column Point) rows s"
  "deserialize_column Polygon rows s = array_read ring_item VPolygon (deserialize_column Ring) rows s"
  "deserialize_column MultiPolygon rows s =
     array_read polygon_item VMultiPolygon (deserialize_column Polygon) rows s"
  "deserialize_column (Nullable t) rows s = nullable_read Io (deserialize_column t) rows s"
  "deserialize_column (Map k v) rows s =
     map_read (deserialize_column k) (deserialize_column v) rows s"
  "deserialize_column (LowCardinality t) rows s =
     low_cardinality_read (is_nullable t) (deserialize_column (strip_null t)) rows s"
  using assms by (simp_all add: deserialize_column.simps)

lemma deserialize_composite_sync:
  assumes "rows \<le> MAX_STRING_SIZE"
  shows
  "deserialize_column_sync (Array t) rows s =
     array_read_sync Inr VArray (deserialize_column_sync t) rows s"
  "deserialize_column_sync Point rows s = point_read (deserialize_column_sync Float64) rows s"
  "deserialize_column_sync Ring rows s =
     array_read_sync point_item VRing (deserialize_column_sync Point) rows s"
  "deserialize_column_sync Polygon rows s =
     array_read_sync ring_item VPolygon (deserialize_column_sync Ring) rows s"
  "deserialize_column_sync MultiPolygon rows s =
     array_read_sync polygon_item VMultiPolygon (deserialize_column_sync Polygon) rows s"
  "deserialize_column_sync (Nullable t) rows s =
     nullable_read BytesRead (deserialize_column_sync t) rows s"
  using assms by (simp_all add: deserialize_column_sync.simps)

lemma col_ok_composite:
  "col_ok (Array t) vs \<longleftrightarrow> length vs \<le> MAX_STRING_SIZE
     \<and> list_all (\<lambda>v. case v of VArray _ \<Rightarrow> True | _ \<Rightarrow> False) vs \<and> col_ok t (concat (map array_items vs))"
  "col_ok Ring vs \<longleftrightarrow> length vs \<le> MAX_STRING_SIZE
     \<and> list_all (\<lambda>v. case v of VRing _ \<Rightarrow> True | _ \<Rightarrow> False) vs \<and> col_ok Point (concat (map array_items vs))"
  "col_ok Polygon vs \<longleftrightarrow> length vs \<le> MAX_STRING_SIZE
     \<and> list_all (\<lambda>v. case v of VPolygon _ \<Rightarrow> True | _ \<Rightarrow> False) vs \<and> col_ok Ring (concat (map array_items vs))"
  "col_ok MultiPolygon vs \<longleftrightarrow> length vs \<le> MAX_STRING_SIZE
     \<and> list_all (\<lambda>v. case v of VMultiPolygon _ \<Rightarrow> True | _ \<Rightarrow> False) vs
     \<and> col_ok Polygon (concat (map array_items vs))"
  "col_ok Point vs \<longleftrightarrow> length vs \<le> MAX_STRING_SIZE \<and> list_all point_value vs"
  "col_ok (Tuple ts) vs \<longleftrightarrow> length vs \<le> MAX_STRING_SIZE
     \<and> list_all (tuple_value (length ts)) vs
     \<and> list_all (\<lambda>(t, c). col_ok t c) (zip ts (item_columns (length ts) vs))"
  "col_ok (Map k v) vs \<longleftrightarrow> length vs \<le> MAX_STRING_SIZE \<and> list_all map_value vs
     \<and> col_ok k (concat (map map_keys vs)) \<and> col_ok v (concat (map map_vals vs))"
  "col_ok (Nullable t) vs \<longleftrightarrow> length vs \<le> MAX_STRING_SIZE
     \<and> leaf_type t \<and> list_all (null_item_ok t) vs"
  "col_ok (LowCardinality t) vs \<longleftrightarrow> length vs < MAX_STRING_SIZE
     \<and> leaf_type (strip_null t) \<and> strip_null t \<noteq> Object
     \<and> (is_nullable t \<longrightarrow> null_ok (strip_null t))
     \<and> list_all (if is_nullable t then null_item_ok (strip_null t) else item_ok t) vs"
  "leaf_type t \<Longrightarrow> col_ok t vs \<longleftrightarrow> length vs \<le> MAX_STRING_SIZE \<and> list_all (item_ok t) vs"
proof -
  show "leaf_type t \<Longrightarrow> col_ok t vs \<longleftrightarrow> length vs \<le> MAX_STRING_SIZE \<and> list_all (item_ok t) vs"
    by (cases t)
      (simp_all add: col_ok.simps leaf_type_def sized_type_def string_type_def)
qed (simp add: col_ok.simps [of "Array t"], simp add: col_ok.simps [of Ring],
    simp add: col_ok.simps [of Polygon], simp add: col_ok.simps [of MultiPolygon],
    simp add: col_ok.simps [of Point], simp add: col_ok.simps [of "Tuple ts"],
    simp add: col_ok.simps [of "Map k v"], simp add: col_ok.simps [of "Nullable t"],
    auto simp: col_ok.simps [of "LowCardinality t"])

section \<open>The round trip\<close>

lemma write_each_empty_columns:
  "(\<And>t. t \<in> set ts \<Longrightarrow> f t [] = Inr []) \<Longrightarrow>
     write_each (\<lambda>(w, c). w c) (zip (map f ts) (replicate (length ts) [])) = Inr []"
  by (induction ts) simp_all

lemma serialize_column_Nil [simp]: "serialize_column iset t [] = Inr []"
proof (induction "ty_weight t" arbitrary: t rule: less_induct)
  case less
  have tuple: "tuple_write (map (serialize_column iset) ts) [] = Inr []" if "t = Tuple ts" for ts
    using less [of u for u] that ty_weight_member write_each_empty_columns [of ts "serialize_column iset"]
    by (simp add: tuple_write_def less_Suc_eq_le)
  show ?case
  proof (cases t)
    case (Tuple ts)
    then show ?thesis using tuple by (simp add: serialize_composite)
  qed (simp_all add: serialize_leaf sized_type_def string_type_def serialize_composite
      string_write_def sized_write_def object_write_def
      array_write_def point_write_def nullable_write_def null_mask_def map_write_def
      low_cardinality_write_def less)
qed

lemma array_shapes:
  "list_all (\<lambda>v. case v of VArray _ \<Rightarrow> True | _ \<Rightarrow> False) vs \<Longrightarrow>
     list_all (array_shape array_len unwrap_array_value Inr VArray array_items) vs"
  "list_all (\<lambda>v. case v of VRing _ \<Rightarrow> True | _ \<Rightarrow> False) vs \<Longrightarrow>
     list_all (array_shape ring_len ring_values point_item VRing array_items) vs"
  "list_all (\<lambda>v. case v of VPolygon _ \<Rightarrow> True | _ \<Rightarrow> False) vs \<Longrightarrow>
     list_all (array_shape polygon_len polygon_values ring_item VPolygon array_items) vs"
  "list_all (\<lambda>v. case v of VMultiPolygon _ \<Rightarrow> True | _ \<Rightarrow> False) vs \<Longrightarrow>
     list_all (array_shape multi_polygon_len multi_polygon_values polygon_item VMultiPolygon
       array_items) vs"
proof -
  have m: "traverse g (map mk ys) = Inr ys" if "\<And>y. g (mk y) = Inr y"
    for g :: "val \<Rightarrow> 'c res" and mk ys
    using that by (induction ys) simp_all
  have i: "traverse Inr xs = Inr xs" for xs :: "val list" by (induction xs) simp_all
  show "list_all (\<lambda>v. case v of VArray _ \<Rightarrow> True | _ \<Rightarrow> False) vs \<Longrightarrow>
     list_all (array_shape array_len unwrap_array_value Inr VArray array_items) vs"
    by (auto simp: list_all_iff array_shape_def array_len_def unwrap_array_ref_def
        unwrap_array_value_def array_items_def i split: val.splits)
  show "list_all (\<lambda>v. case v of VRing _ \<Rightarrow> True | _ \<Rightarrow> False) vs \<Longrightarrow>
     list_all (array_shape ring_len ring_values point_item VRing array_items) vs"
    by (auto simp: list_all_iff array_shape_def ring_len_def ring_values_def point_item_def
        array_items_def m split: val.splits)
  show "list_all (\<lambda>v. case v of VPolygon _ \<Rightarrow> True | _ \<Rightarrow> False) vs \<Longrightarrow>
     list_all (array_shape polygon_len polygon_values ring_item VPolygon array_items) vs"
    by (auto simp: list_all_iff array_shape_def polygon_len_def polygon_values_def ring_item_def
        array_items_def m split: val.splits)
  show "list_all (\<lambda>v. case v of VMultiPolygon _ \<Rightarrow> True | _ \<Rightarrow> False) vs \<Longrightarrow>
     list_all (array_shape multi_polygon_len multi_polygon_values polygon_item VMultiPolygon
       array_items) vs"
    by (auto simp: list_all_iff array_shape_def multi_polygon_len_def multi_polygon_values_def
        polygon_item_def array_items_def m split: val.splits)
qed

lemma col_ok_length: "col_ok t vs \<Longrightarrow> length vs \<le> MAX_STRING_SIZE"
  by (simp add: col_ok.simps [of t vs])

lemma item_no_object: "item_ok t v \<Longrightarrow> t \<noteq> Object \<Longrightarrow> no_object v"
  by (cases v) (auto simp: item_ok_def split: ty.splits)

text \<open>
  \<open>column_rt\<close> of a type speaks of rows up to the limit only through \<open>length vs\<close>; the
  reader of the limited length is the reader of the arm.
\<close>

lemma column_rt_cong:
  assumes "column_rt f w' p' vs"
    and "w vs = w' vs" and "\<And>s. p (length vs) s = p' (length vs) s"
  shows "column_rt f w p vs"
  using assms by (simp add: column_rt_def)

lemma low_cardinality_column_rt:
  assumes iset: "index_set iset" and ok: "col_ok (LowCardinality t) vs"
  shows "column_rt id
      (low_cardinality_write iset (is_nullable t) (serialize_column iset (strip_null t)))
      (low_cardinality_read (is_nullable t) (deserialize_column (strip_null t))) vs"
proof -
  let ?u = "strip_null t"
  have u: "leaf_type ?u" "?u \<noteq> Object" "length vs < MAX_STRING_SIZE"
    "is_nullable t \<Longrightarrow> null_ok ?u"
    using ok by (simp_all add: col_ok_composite)
  have same: "\<not> is_nullable t \<Longrightarrow> ?u = t"
    by (cases t) (simp_all add: is_nullable_def strip_null_def)
  have vals: "v \<in> set vs \<Longrightarrow> item_ok ?u v \<or> is_nullable t \<and> v = VNull" for v
    using ok same by (auto simp: col_ok_composite list_all_iff null_item_ok_def split: if_splits)
  then have objs: "list_all no_object vs"
    using item_no_object [OF _ u(2)] by (force simp: list_all_iff)
  note props = lc_keys_props [OF iset objs, of "is_nullable t"]
  have "list_all (null_item_ok ?u) (lc_keys iset (is_nullable t) vs)"
    using vals u(4) props(2) by (auto simp: list_all_iff null_item_ok_def split: if_splits)
  moreover have "length (lc_keys iset (is_nullable t) vs) \<le> MAX_STRING_SIZE"
    using props(4) u(3) by simp
  ultimately have inner: "column_rt (item_read ?u) (serialize_column iset ?u) (deserialize_column ?u)
      (lc_keys iset (is_nullable t) vs)"
    by (rule leaf_rt(1) [OF u(1)])
  show ?thesis
    by (rule low_cardinality_rt [OF iset objs u(3) inner])
      (use vals item_ok_not_Null in \<open>auto simp: item_read_def\<close>)
qed

lemma column_rt_type:
  assumes "index_set iset"
  shows "col_ok t vs \<Longrightarrow> column_rt id (serialize_column iset t) (deserialize_column t) vs"
proof (induction "ty_weight t" arbitrary: t vs rule: less_induct)
  case less
  note len = col_ok_length [OF less.prems]
  show ?case
  proof (cases t)
    case (Array u)
    with less.prems have ok: "list_all (\<lambda>v. case v of VArray _ \<Rightarrow> True | _ \<Rightarrow> False) vs"
      "col_ok u (concat (map array_items vs))" by (simp_all add: col_ok_composite)
    have "column_rt id (serialize_column iset u) (deserialize_column u) (concat (map array_items vs))"
      by (rule less.hyps) (simp_all add: Array ok)
    from array_rt(1) [OF array_shapes(1) [OF ok(1)] col_ok_length [OF ok(2)] this]
    show ?thesis by (rule column_rt_cong) (simp_all add: Array serialize_composite deserialize_composite len)
  next
    case Ring
    with less.prems have ok: "list_all (\<lambda>v. case v of VRing _ \<Rightarrow> True | _ \<Rightarrow> False) vs"
      "col_ok Point (concat (map array_items vs))" by (simp_all add: col_ok_composite)
    have "column_rt id (serialize_column iset Point) (deserialize_column Point) (concat (map array_items vs))"
      by (rule less.hyps) (simp_all add: Ring ok)
    from array_rt(1) [OF array_shapes(2) [OF ok(1)] col_ok_length [OF ok(2)] this]
    show ?thesis by (rule column_rt_cong) (simp_all add: Ring serialize_composite deserialize_composite len)
  next
    case Polygon
    with less.prems have ok: "list_all (\<lambda>v. case v of VPolygon _ \<Rightarrow> True | _ \<Rightarrow> False) vs"
      "col_ok Ring (concat (map array_items vs))" by (simp_all add: col_ok_composite)
    have "column_rt id (serialize_column iset Ring) (deserialize_column Ring) (concat (map array_items vs))"
      by (rule less.hyps) (simp_all add: Polygon ok)
    from array_rt(1) [OF array_shapes(3) [OF ok(1)] col_ok_length [OF ok(2)] this]
    show ?thesis by (rule column_rt_cong) (simp_all add: Polygon serialize_composite deserialize_composite len)
  next
    case MultiPolygon
    with less.prems have ok: "list_all (\<lambda>v. case v of VMultiPolygon _ \<Rightarrow> True | _ \<Rightarrow> False) vs"
      "col_ok Polygon (concat (map array_items vs))" by (simp_all add: col_ok_composite)
    have "column_rt id (serialize_column iset Polygon) (deserialize_column Polygon) (concat (map array_items vs))"
      by (rule less.hyps) (simp_all add: MultiPolygon ok)
    from array_rt(1) [OF array_shapes(4) [OF ok(1)] col_ok_length [OF ok(2)] this]
    show ?thesis by (rule column_rt_cong) (simp_all add: MultiPolygon serialize_composite deserialize_composite len)
  next
    case Point
    have "column_rt id (point_write (serialize_column iset Float64)) (point_read (deserialize_column Float64)) vs"
    proof (rule point_rt)
      show "list_all point_value vs" using less.prems Point by (simp add: col_ok_composite)
      show "length xs = length vs \<Longrightarrow>
          column_rt id (serialize_column iset Float64) (deserialize_column Float64) (map VFloat64 xs)" for xs
        using len by (intro leaf_item_rt(1)) (simp_all add: leaf_type_def sized_type_def list_all_iff item_ok_def)
    qed
    then show ?thesis by (rule column_rt_cong) (simp_all add: Point serialize_composite deserialize_composite len)
  next
    case (Tuple ts)
    have "column_rt id (tuple_write (map (serialize_column iset) ts)) (tuple_read (map deserialize_column ts)) vs"
    proof (rule tuple_rt)
      show "list_all (tuple_value (length ts)) vs" using less.prems Tuple by (simp add: col_ok_composite)
    next
      fix u c
      assume uc: "(u, c) \<in> set (zip ts (item_columns (length ts) vs))"
      then have "col_ok u c" using less.prems Tuple by (auto simp: col_ok_composite list_all_iff)
      moreover have "ty_weight u < ty_weight t"
        using ty_weight_member [OF set_zip_leftD [OF uc]] by (simp add: Tuple)
      ultimately show "column_rt id (serialize_column iset u) (deserialize_column u) c"
        by (intro less.hyps)
    qed
    then show ?thesis by (rule column_rt_cong) (simp_all add: Tuple serialize_composite deserialize_composite len)
  next
    case (Map k v)
    with less.prems have ok: "list_all map_value vs" "col_ok k (concat (map map_keys vs))"
      "col_ok v (concat (map map_vals vs))" by (simp_all add: col_ok_composite)
    have "column_rt id (map_write (serialize_column iset k) (serialize_column iset v))
        (map_read (deserialize_column k) (deserialize_column v)) vs"
      by (rule map_rt [OF ok(1) len col_ok_length [OF ok(2)]])
        (use ok in \<open>auto intro: less.hyps simp: Map\<close>)
    then show ?thesis by (rule column_rt_cong) (simp_all add: Map serialize_composite deserialize_composite len)
  next
    case (Nullable u)
    with less.prems have ok: "leaf_type u" "list_all (null_item_ok u) vs" by (simp_all add: col_ok_composite)
    from nullable_rt [OF leaf_rt(1) [OF ok len]]
    show ?thesis by (rule column_rt_cong)
      (simp_all add: item_read_def Nullable serialize_composite deserialize_composite len)
  next
    case (LowCardinality u)
    from low_cardinality_column_rt [OF assms] less.prems
    show ?thesis by (intro column_rt_cong [OF low_cardinality_column_rt [OF assms, of u vs]])
      (simp_all add: LowCardinality serialize_composite deserialize_composite len)
  qed (use less.prems len in \<open>simp_all add: leaf_item_rt(1) col_ok_composite(10) leaf_type_def
      sized_type_def string_type_def\<close>)
qed

text \<open>C1. Column round trip: for every type, a column of values of the type (nulls only
  where the type is nullable, at most \<open>MAX_STRING_SIZE\<close> items at every level) is serialized
  without an error, and the deserializer gives the same values back from these bytes and
  leaves exactly the bytes after the column. The index set of the low-cardinality writer is
  the documented one: no key twice, the first inserted element first.\<close>

theorem column_roundtrip:
  assumes "index_set iset" and "col_ok t vs"
  shows "\<exists>bs. serialize_column iset t vs = Inr bs
    \<and> (\<forall>r. deserialize_column t (length vs) (bs @ r) = Inr (vs, r))"
  using column_rt_type [OF assms] by (simp add: column_rt_def)

text \<open>An index set that keeps the first of equal elements.\<close>

definition first_of_each :: "val list \<Rightarrow> val list" where
  "first_of_each xs = rev (remdups (rev xs))"

lemma last_remdups: "xs \<noteq> [] \<Longrightarrow> last (remdups xs) = last xs"
  by (induction xs) auto

lemma index_set_first_of_each: "index_set first_of_each"
  by (auto simp: index_set_def first_of_each_def hd_rev last_remdups last_rev)

theorem column_roundtrip_witness:
  "\<exists>bs. serialize_column first_of_each (Map String (Array (LowCardinality (Nullable String))))
      [VMap [VString [1, 2]] [VArray [VString [7], VNull, VString [7]]], VMap [] []] = Inr bs
    \<and> (\<forall>r. deserialize_column (Map String (Array (LowCardinality (Nullable String))))
        (length [VMap [VString [1, 2]] [VArray [VString [7], VNull, VString [7]]], VMap [] []])
        (bs @ r)
      = Inr ([VMap [VString [1, 2]] [VArray [VString [7], VNull, VString [7]]], VMap [] []], r))"
proof (rule column_roundtrip [OF index_set_first_of_each])
  show "col_ok (Map String (Array (LowCardinality (Nullable String))))
      [VMap [VString [1, 2]] [VArray [VString [7], VNull, VString [7]]], VMap [] []]"
    by (simp add: col_ok_composite leaf_type_def string_type_def strip_null_def is_nullable_def
        null_ok_def null_item_ok_def item_ok_def map_value_def map_keys_def map_vals_def
        array_items_def MAX_STRING_SIZE_def)
qed

section \<open>The in-memory reader\<close>

text \<open>
  The columns the in-memory reader can read: no tuple, map or low-cardinality part, and no
  array column without rows at any level.
\<close>

function sync_ok :: "ty \<Rightarrow> val list \<Rightarrow> bool" where
  "sync_ok t vs \<longleftrightarrow>
     (case t of
        Array inner \<Rightarrow> vs \<noteq> [] \<and> sync_ok inner (concat (map array_items vs))
      | Ring \<Rightarrow> vs \<noteq> []
      | Polygon \<Rightarrow> vs \<noteq> [] \<and> sync_ok Ring (concat (map array_items vs))
      | MultiPolygon \<Rightarrow> vs \<noteq> [] \<and> sync_ok Polygon (concat (map array_items vs))
      | Tuple _ \<Rightarrow> False
      | Map _ _ \<Rightarrow> False
      | LowCardinality _ \<Rightarrow> False
      | _ \<Rightarrow> True)"
  by pat_completeness auto
termination
  by (relation "measure (\<lambda>(t, vs). ty_weight t)") auto

declare sync_ok.simps [simp del]

lemma sync_ok_composite:
  "sync_ok (Array t) vs \<longleftrightarrow> vs \<noteq> [] \<and> sync_ok t (concat (map array_items vs))"
  "sync_ok Ring vs \<longleftrightarrow> vs \<noteq> []"
  "sync_ok Polygon vs \<longleftrightarrow> vs \<noteq> [] \<and> sync_ok Ring (concat (map array_items vs))"
  "sync_ok MultiPolygon vs \<longleftrightarrow> vs \<noteq> [] \<and> sync_ok Polygon (concat (map array_items vs))"
  "\<not> sync_ok (Tuple ts) vs" "\<not> sync_ok (Map k v) vs" "\<not> sync_ok (LowCardinality t) vs"
  "sync_ok Point vs"
  by (simp_all add: sync_ok.simps [of "Array t"] sync_ok.simps [of Ring] sync_ok.simps [of Polygon]
      sync_ok.simps [of MultiPolygon] sync_ok.simps [of "Tuple ts"] sync_ok.simps [of "Map k v"]
      sync_ok.simps [of "LowCardinality t"] sync_ok.simps [of Point])

lemma column_rt_sync:
  "col_ok t vs \<Longrightarrow> sync_ok t vs \<Longrightarrow>
     column_rt id (serialize_column iset t) (deserialize_column_sync t) vs"
proof (induction "ty_weight t" arbitrary: t vs rule: less_induct)
  case less
  note len = col_ok_length [OF less.prems(1)]
  show ?case
  proof (cases t)
    case (Array u)
    with less.prems have ok: "list_all (\<lambda>v. case v of VArray _ \<Rightarrow> True | _ \<Rightarrow> False) vs"
      "col_ok u (concat (map array_items vs))" "vs \<noteq> []" "sync_ok u (concat (map array_items vs))"
      by (simp_all add: col_ok_composite sync_ok_composite)
    have "column_rt id (serialize_column iset u) (deserialize_column_sync u) (concat (map array_items vs))"
      by (rule less.hyps) (simp_all add: Array ok)
    from array_rt(2) [OF array_shapes(1) [OF ok(1)] col_ok_length [OF ok(2)] this _ ok(3)]
    show ?thesis by (rule column_rt_cong)
      (simp_all add: Array serialize_composite deserialize_composite_sync len)
  next
    case Ring
    with less.prems have ok: "list_all (\<lambda>v. case v of VRing _ \<Rightarrow> True | _ \<Rightarrow> False) vs"
      "col_ok Point (concat (map array_items vs))" "vs \<noteq> []"
      by (simp_all add: col_ok_composite sync_ok_composite)
    have "column_rt id (serialize_column iset Point) (deserialize_column_sync Point) (concat (map array_items vs))"
      by (rule less.hyps) (simp_all add: Ring ok sync_ok_composite)
    from array_rt(2) [OF array_shapes(2) [OF ok(1)] col_ok_length [OF ok(2)] this _ ok(3)]
    show ?thesis by (rule column_rt_cong)
      (simp_all add: Ring serialize_composite deserialize_composite_sync len)
  next
    case Polygon
    with less.prems have ok: "list_all (\<lambda>v. case v of VPolygon _ \<Rightarrow> True | _ \<Rightarrow> False) vs"
      "col_ok Ring (concat (map array_items vs))" "vs \<noteq> []" "sync_ok Ring (concat (map array_items vs))"
      by (simp_all add: col_ok_composite sync_ok_composite)
    have "column_rt id (serialize_column iset Ring) (deserialize_column_sync Ring) (concat (map array_items vs))"
      by (rule less.hyps) (simp_all add: Polygon ok)
    from array_rt(2) [OF array_shapes(3) [OF ok(1)] col_ok_length [OF ok(2)] this _ ok(3)]
    show ?thesis by (rule column_rt_cong)
      (simp_all add: Polygon serialize_composite deserialize_composite_sync len)
  next
    case MultiPolygon
    with less.prems have ok: "list_all (\<lambda>v. case v of VMultiPolygon _ \<Rightarrow> True | _ \<Rightarrow> False) vs"
      "col_ok Polygon (concat (map array_items vs))" "vs \<noteq> []" "sync_ok Polygon (concat (map array_items vs))"
      by (simp_all add: col_ok_composite sync_ok_composite)
    have "column_rt id (serialize_column iset Polygon) (deserialize_column_sync Polygon) (concat (map array_items vs))"
      by (rule less.hyps) (simp_all add: MultiPolygon ok)
    from array_rt(2) [OF array_shapes(4) [OF ok(1)] col_ok_length [OF ok(2)] this _ ok(3)]
    show ?thesis by (rule column_rt_cong)
      (simp_all add: MultiPolygon serialize_composite deserialize_composite_sync len)
  next
    case Point
    have "column_rt id (point_write (serialize_column iset Float64)) (point_read (deserialize_column_sync Float64)) vs"
    proof (rule point_rt)
      show "list_all point_value vs" using less.prems Point by (simp add: col_ok_composite)
      show "length xs = length vs \<Longrightarrow>
          column_rt id (serialize_column iset Float64) (deserialize_column_sync Float64) (map VFloat64 xs)" for xs
        using len by (intro leaf_item_rt(2)) (simp_all add: leaf_type_def sized_type_def list_all_iff item_ok_def)
    qed
    then show ?thesis by (rule column_rt_cong)
      (simp_all add: Point serialize_composite deserialize_composite_sync len)
  next
    case (Nullable u)
    with less.prems have ok: "leaf_type u" "list_all (null_item_ok u) vs" by (simp_all add: col_ok_composite)
    from nullable_rt [OF leaf_rt(2) [OF ok len]]
    show ?thesis by (rule column_rt_cong)
      (simp_all add: item_read_def Nullable serialize_composite deserialize_composite_sync len)
  qed (use less.prems len in \<open>simp_all add: leaf_item_rt(2) col_ok_composite(10) leaf_type_def
      sized_type_def string_type_def sync_ok_composite\<close>)
qed

text \<open>C28. The in-memory writer and reader: the in-memory serializer writes the bytes of the
  asynchronous one, and for every type without a tuple, map or low-cardinality part the
  in-memory deserializer reads the column back, if no array column on the way is empty.\<close>

theorem column_roundtrip_sync:
  assumes "col_ok t vs" and "sync_ok t vs"
  shows "\<exists>bs. serialize_column_sync iset t vs = Inr bs \<and> serialize_column iset t vs = Inr bs
    \<and> (\<forall>r. deserialize_column_sync t (length vs) (bs @ r) = Inr (vs, r))"
  using column_rt_sync [OF assms] by (simp add: column_rt_def serialize_column_sync_eq)

theorem column_roundtrip_sync_witness:
  "\<exists>bs. serialize_column_sync first_of_each (Array (Nullable Int16)) [VArray [VInt16 5, VNull], VArray []] = Inr bs
    \<and> serialize_column first_of_each (Array (Nullable Int16)) [VArray [VInt16 5, VNull], VArray []] = Inr bs
    \<and> (\<forall>r. deserialize_column_sync (Array (Nullable Int16)) (length [VArray [VInt16 5, VNull], VArray []])
        (bs @ r) = Inr ([VArray [VInt16 5, VNull], VArray []], r))"
  by (rule column_roundtrip_sync)
    (simp_all add: col_ok_composite sync_ok_composite sync_ok.simps [of "Nullable _"] leaf_type_def
      sized_type_def null_ok_def null_item_ok_def item_ok_def array_items_def MAX_STRING_SIZE_def)

text \<open>An array column without rows: the asynchronous reader returns no values, the
  in-memory reader panics, for every item type and every input (so it panics on an array of
  arrays whose outer arrays are all empty).\<close>

theorem array_zero_rows:
  "deserialize_column (Array t) 0 s = Inr ([], s)
   \<and> deserialize_column_sync (Array t) 0 s = Inl Panic"
  by (simp_all add: deserialize_composite deserialize_composite_sync array_read_def
      array_read_sync_def read_offsets_def read_as_def)

section \<open>Prefixes\<close>

lemma read_all_concat:
  "(\<And>t r. t \<in> set ts \<Longrightarrow> p t (f t @ r) = Inr ((), r)) \<Longrightarrow>
     read_all p ts (concat (map f ts) @ r) = Inr ((), r)"
  by (induction ts arbitrary: r) simp_all

lemma read_lc_version_put [simp]:
  "read_lc_version eof (put_u64 LOW_CARDINALITY_VERSION @ r) = Inr ((), r)"
  by (simp add: read_lc_version_def)

lemma serialize_prefix_eqs:
  "serialize_prefix_async (Array t) = serialize_prefix_async t"
  "serialize_prefix_async (Tuple ts) = concat (map serialize_prefix_async ts)"
  "serialize_prefix_async (Nullable t) = serialize_prefix_async t"
  "serialize_prefix_async (Map k v) = serialize_prefix_async k @ serialize_prefix_async v"
  "serialize_prefix_async (LowCardinality t) = put_u64 LOW_CARDINALITY_VERSION"
  "serialize_prefix_async Object = [1]"
  "serialize_prefix (Array t) = serialize_prefix t"
  "serialize_prefix (Tuple ts) = concat (map serialize_prefix ts)"
  "serialize_prefix (Nullable t) = serialize_prefix t"
  "serialize_prefix (Map k v) = serialize_prefix k @ serialize_prefix v"
  "serialize_prefix (LowCardinality t) = put_u64 LOW_CARDINALITY_VERSION"
  "serialize_prefix Object = [1]"
  by (simp_all add: serialize_prefix_async.simps [of "Array _"] serialize_prefix_async.simps [of "Tuple _"]
      serialize_prefix_async.simps [of "Nullable _"] serialize_prefix_async.simps [of "Map _ _"]
      serialize_prefix_async.simps [of "LowCardinality _"] serialize_prefix_async.simps [of Object]
      serialize_prefix.simps [of "Array _"] serialize_prefix.simps [of "Tuple _"]
      serialize_prefix.simps [of "Nullable _"] serialize_prefix.simps [of "Map _ _"]
      serialize_prefix.simps [of "LowCardinality _"] serialize_prefix.simps [of Object]
      normalize_map_type_def)

lemma deserialize_prefix_eqs:
  "deserialize_prefix_async (Array t) s = deserialize_prefix_async t s"
  "deserialize_prefix_async (Tuple ts) s = read_all deserialize_prefix_async ts s"
  "deserialize_prefix_async (Nullable t) s = deserialize_prefix_async t s"
  "deserialize_prefix_async (Map k v) s = read_all deserialize_prefix_async [k, v] s"
  "deserialize_prefix_async (LowCardinality t) s = read_lc_version Io s"
  "deserialize_prefix_async Object s = rbind (read_u8 Io s) (\<lambda>(_, s). Inr ((), s))"
  "deserialize_prefix (Array t) s = deserialize_prefix t s"
  "deserialize_prefix (Tuple ts) s = read_all deserialize_prefix ts s"
  "deserialize_prefix (Nullable t) s = deserialize_prefix t s"
  "deserialize_prefix (Map k v) s = read_all deserialize_prefix [k, v] s"
  "deserialize_prefix (LowCardinality t) s = read_lc_version BytesRead s"
  "deserialize_prefix Object s = rbind (read_u8 BytesRead s) (\<lambda>(_, s). Inr ((), s))"
  by (simp_all add: deserialize_prefix_async.simps [of "Array _"] deserialize_prefix_async.simps [of "Tuple _"]
      deserialize_prefix_async.simps [of "Nullable _"] deserialize_prefix_async.simps [of "Map _ _"]
      deserialize_prefix_async.simps [of "LowCardinality _"] deserialize_prefix_async.simps [of Object]
      deserialize_prefix.simps [of "Array _"] deserialize_prefix.simps [of "Tuple _"]
      deserialize_prefix.simps [of "Nullable _"] deserialize_prefix.simps [of "Map _ _"]
      deserialize_prefix.simps [of "LowCardinality _"] deserialize_prefix.simps [of Object]
      normalize_map_type_def)

lemma prefix_roundtrip_both:
  "serialize_prefix t = serialize_prefix_async t
   \<and> (\<forall>r. deserialize_prefix_async t (serialize_prefix_async t @ r) = Inr ((), r)
        \<and> deserialize_prefix t (serialize_prefix_async t @ r) = Inr ((), r))"
proof (induction t)
  case (Tuple ts)
  then have "\<forall>t \<in> set ts. serialize_prefix t = serialize_prefix_async t" by simp
  moreover have "read_all deserialize_prefix_async ts (concat (map serialize_prefix_async ts) @ r) = Inr ((), r)"
    "read_all deserialize_prefix ts (concat (map serialize_prefix_async ts) @ r) = Inr ((), r)" for r
    using Tuple by (auto intro!: read_all_concat)
  ultimately show ?case by (simp add: serialize_prefix_eqs deserialize_prefix_eqs cong: map_cong)
next
  case (Map k v)
  then show ?case by (simp add: serialize_prefix_eqs deserialize_prefix_eqs)
qed (simp_all add: serialize_prefix_eqs deserialize_prefix_eqs,
     simp_all add: serialize_prefix.simps serialize_prefix_async.simps deserialize_prefix.simps
       deserialize_prefix_async.simps)

text \<open>Prefixes: the two prefix writers write the same bytes for every type, and each
  prefix reader takes exactly these bytes.\<close>

theorem prefix_roundtrip:
  "serialize_prefix t = serialize_prefix_async t
   \<and> deserialize_prefix_async t (serialize_prefix_async t @ r) = Inr ((), r)
   \<and> deserialize_prefix t (serialize_prefix t @ r) = Inr ((), r)"
  using prefix_roundtrip_both [of t] by simp

section \<open>The readers only take bytes from the front\<close>

definition consumes :: "'a reader \<Rightarrow> bool" where
  "consumes p \<longleftrightarrow> (\<forall>s x r. p s = Inr (x, r) \<longrightarrow> suffix r s)"

lemma consumesD: "consumes p \<Longrightarrow> p s = Inr (x, r) \<Longrightarrow> suffix r s"
  by (auto simp: consumes_def)

lemma consumes_bind:
  assumes "consumes p" and "\<And>x. consumes (q x)"
  shows "consumes (\<lambda>s. rbind (p s) (\<lambda>(x, s). q x s))"
  using assms unfolding consumes_def
  by (auto simp: rbind_Inr_iff) (metis suffix_order.trans)

lemma consumes_res: "(\<And>x. consumes (f x)) \<Longrightarrow> consumes (\<lambda>s. rbind r (\<lambda>x. f x s))"
  by (cases r) (simp_all add: consumes_def)

lemma consumes_return: "consumes (\<lambda>s. Inr (x, s))"
  by (simp add: consumes_def)

lemma consumes_error: "consumes (\<lambda>s. Inl e)"
  by (simp add: consumes_def)

lemma consumes_if: "consumes p \<Longrightarrow> consumes q \<Longrightarrow> consumes (\<lambda>s. if b then p s else q s)"
  by (simp add: consumes_def)

lemma consumes_option:
  "consumes p \<Longrightarrow> (\<And>x. consumes (q x)) \<Longrightarrow>
     consumes (\<lambda>s. case m of None \<Rightarrow> p s | Some x \<Rightarrow> q x s)"
  by (cases m) simp_all

lemma consumes_read_exact: "consumes (read_exact eof n)"
  by (auto simp: consumes_def read_exact_def suffix_drop)

lemma consumes_read_u8: "consumes (read_u8 eof)"
  by (auto simp: consumes_def read_u8_def suffix_Cons split: list.splits)

lemmas consumes_intros = consumes_bind consumes_res consumes_return consumes_error consumes_if
  consumes_option consumes_read_exact consumes_read_u8

lemma consumes_read_le: "consumes (read_le eof n)"
  unfolding read_le_def [abs_def] by (intro consumes_intros)

lemma consumes_read_as: "consumes p \<Longrightarrow> consumes (read_as f p)"
  unfolding read_as_def [abs_def] by (intro consumes_intros)

lemma consumes_read_n: "consumes p \<Longrightarrow> consumes (read_n n p)"
proof (induction n)
  case 0
  then show ?case by (simp add: consumes_def)
next
  case (Suc n)
  then show ?case unfolding read_n.simps [abs_def] by (intro consumes_intros)
qed

lemma consumes_var_uint_loop: "consumes (read_var_uint_loop k i out)"
proof (induction k arbitrary: i out)
  case 0
  show ?case by (simp add: consumes_def)
next
  case (Suc k)
  then show ?case unfolding read_var_uint_loop.simps [abs_def] Let_def by (intro consumes_intros)
qed

lemma consumes_read_string: "consumes read_string"
  unfolding read_string_def [abs_def] read_var_uint_def [abs_def] Let_def
  by (intro consumes_intros consumes_var_uint_loop)

lemma consumes_uuid: "consumes (read_uuid eof)"
  unfolding read_uuid_def [abs_def] by (intro consumes_intros consumes_read_le)

lemma consumes_enum: "consumes p \<Longrightarrow> consumes (enum_lookup mk pairs p)"
  unfolding enum_lookup_def [abs_def] by (intro consumes_intros)

lemma consumes_sized_item: "consumes (sized_item eof t)"
  by (cases t) (simp_all add: sized_item_def [abs_def] consumes_read_as consumes_read_le
      consumes_read_exact consumes_read_u8 consumes_uuid consumes_enum consumes_error)

lemma consumes_items:
  "consumes (sized_read t n)" "consumes (string_read t n)" "consumes (object_read t n)"
  by (cases t; simp add: sized_read_def [abs_def] string_read_def [abs_def] object_read_def [abs_def]
      consumes_read_n consumes_sized_item consumes_read_as consumes_read_string consumes_read_exact
      consumes_error)+

lemma consumes_array_read:
  "(\<And>n. consumes (p n)) \<Longrightarrow> consumes (array_read f g p n)"
  unfolding array_read_def [abs_def] read_offsets_def
  by (intro consumes_intros consumes_read_as consumes_read_n consumes_read_le)

lemma consumes_point_read: "(\<And>n. consumes (p n)) \<Longrightarrow> consumes (point_read p n)"
  unfolding point_read_def [abs_def] by (intro consumes_intros)

lemma consumes_read_columns:
  "(\<And>p n. p \<in> set ps \<Longrightarrow> consumes (p n)) \<Longrightarrow> consumes (read_columns n ps tuples)"
proof (induction ps arbitrary: tuples)
  case Nil
  show ?case by (simp add: consumes_def)
next
  case (Cons p ps)
  then show ?case unfolding read_columns.simps [abs_def] by (intro consumes_intros) simp_all
qed

lemma consumes_tuple_read:
  "(\<And>p n. p \<in> set ps \<Longrightarrow> consumes (p n)) \<Longrightarrow> consumes (tuple_read ps n)"
  unfolding tuple_read_def [abs_def] by (intro consumes_intros consumes_read_columns)

lemma consumes_map_read:
  "(\<And>n. consumes (p n)) \<Longrightarrow> (\<And>n. consumes (q n)) \<Longrightarrow> consumes (map_read p q n)"
  unfolding map_read_def [abs_def] read_offsets_def Let_def
  by (intro consumes_intros consumes_read_as consumes_read_n consumes_read_le)

lemma consumes_nullable_read:
  "(\<And>n. consumes (p n)) \<Longrightarrow> consumes (nullable_read eof p n)"
  unfolding nullable_read_def [abs_def] by (intro consumes_intros)

lemma consumes_lc_header: "(\<And>n. consumes (p n)) \<Longrightarrow> consumes (lc_header b p st)"
  unfolding lc_header_def [abs_def] Let_def
  by (intro consumes_intros consumes_read_le)

lemma consumes_lc_turn: "(\<And>n. consumes (p n)) \<Longrightarrow> consumes (lc_turn b p st)"
  unfolding lc_turn_def [abs_def] Let_def sized_column_def
  by (intro consumes_intros consumes_lc_header consumes_items)

lemma consumes_lc_loop: "(\<And>n. consumes (p n)) \<Longrightarrow> consumes (lc_loop fuel b p st)"
proof (induction fuel arbitrary: st)
  case 0
  then show ?case by (simp add: lc_loop.simps [of 0, abs_def] consumes_def)
next
  case (Suc fuel)
  then show ?case unfolding lc_loop.simps [of "Suc fuel", abs_def] nat.case
    by (intro consumes_intros consumes_lc_turn Suc.IH Suc.prems)
qed

lemma consumes_low_cardinality: "(\<And>n. consumes (p n)) \<Longrightarrow> consumes (low_cardinality_read b p n)"
  using consumes_lc_loop [of p] by (simp add: consumes_def low_cardinality_read_def)

lemma consumes_deserialize_column: "consumes (deserialize_column t n)"
proof (induction "ty_weight t" arbitrary: t n rule: less_induct)
  case less
  have tuple: "p \<in> set (map deserialize_column ts) \<Longrightarrow> consumes (p k)" if "t = Tuple ts" for ts p k
    using less that ty_weight_member by (auto simp: less_Suc_eq_le)
  have strip: "t = LowCardinality u \<Longrightarrow> consumes (deserialize_column (strip_null u) k)" for u k
    by (rule less) (simp add: less_Suc_eq_le ty_weight_strip_null)
  have tuples: "t = Tuple ts \<Longrightarrow> consumes (tuple_read (map deserialize_column ts) n)" for ts
    by (rule consumes_tuple_read) (rule tuple)
  show ?case
    unfolding deserialize_column.simps [of t, abs_def]
    by (rule consumes_if [OF consumes_error])
      (cases t; simp add: consumes_items consumes_array_read consumes_point_read tuples
        consumes_map_read consumes_nullable_read consumes_low_cardinality less strip)
qed

text \<open>A column reader takes bytes from the front of the stream only.\<close>

lemma column_reader_suffix: "deserialize_column t rows s = Inr (vs, r) \<Longrightarrow> suffix r s"
  by (rule consumesD [OF consumes_deserialize_column])

section \<open>The low-cardinality loop ends\<close>

lemma suffix_length: "suffix r s \<Longrightarrow> length r \<le> length s"
  by (auto simp: suffix_def)

lemma consumes_length: "consumes p \<Longrightarrow> p s = Inr (x, r) \<Longrightarrow> length r \<le> length s"
  by (rule suffix_length [OF consumesD])

lemma read_le_length: "read_le eof n s = Inr (x, r) \<Longrightarrow> length r + n = length s"
  by (auto simp: read_le_def rbind_Inr_iff read_exact_def split: if_splits)

text \<open>A turn without pending rows reads a header, of sixteen bytes at least; after a turn nothing
  is pending or nothing is left to do.\<close>

lemma lc_header_length:
  assumes "\<And>n. consumes (p n)" and "lc_header b p st s = Inr (st', s')"
  shows "length s' + 16 \<le> length s"
proof -
  obtain flags s1 where 1: "read_u64 Io s = Inr (flags, s1)"
    using assms(2) by (auto simp: lc_header_def rbind_Inr_iff)
  have "length s' + 8 \<le> length s1"
    using assms(2) 1
    by (auto simp: lc_header_def rbind_Inr_iff Let_def split: if_splits
        dest!: read_le_length consumes_length [OF assms(1)])
  then show ?thesis using read_le_length [OF 1] by simp
qed

lemma lc_turn_progress:
  assumes p: "\<And>n. consumes (p n)" and st: "num_pending_rows st = 0"
    and turn: "lc_turn b p st s = Inr (st', s')"
  shows "length s' + 16 \<le> length s \<and> (limit st' = 0 \<or> num_pending_rows st' = 0)"
proof -
  obtain st1 s1 entries out where h: "lc_header b p st s = Inr (st1, s1)"
    "sized_column (indexed_type st1) (min (limit st1) (num_pending_rows st1)) s1 = Inr (entries, s')"
    "st' = st1\<lparr>limit := limit st1 - min (limit st1) (num_pending_rows st1),
              num_pending_rows := num_pending_rows st1 - min (limit st1) (num_pending_rows st1),
              lc_output := lc_output st1 @ out\<rparr>"
    using turn st by (auto simp: lc_turn_def Let_def rbind_Inr_iff)
  have "length s' \<le> length s1"
    using h(2) consumes_length [OF consumes_items(1)] by (auto simp: sized_column_def split: if_splits)
  then show ?thesis using lc_header_length [OF p h(1)] h(3) by auto
qed

text \<open>The loop itself, without fuel, as it is run: \<open>lc_run b p n st s res\<close> says that the loop
  started in \<open>st\<close> on the bytes \<open>s\<close> ends after \<open>n\<close> turns with \<open>res\<close>. A loop that
  goes on for ever has no such \<open>n\<close>.\<close>

inductive lc_run ::
  "bool \<Rightarrow> (nat \<Rightarrow> val list reader) \<Rightarrow> nat \<Rightarrow> lc_state \<Rightarrow> byte list \<Rightarrow> (val list \<times> byte list) res \<Rightarrow> bool"
  for b :: bool and p :: "nat \<Rightarrow> val list reader" where
  finished: "limit st = 0 \<Longrightarrow> lc_run b p 0 st s (Inr (lc_output st, s))"
| failed: "limit st \<noteq> 0 \<Longrightarrow> lc_turn b p st s = Inl e \<Longrightarrow> lc_run b p 1 st s (Inl e)"
| turned: "limit st \<noteq> 0 \<Longrightarrow> lc_turn b p st s = Inr (st', s') \<Longrightarrow> lc_run b p n st' s' res
    \<Longrightarrow> lc_run b p (Suc n) st s res"

inductive_cases lc_run_zeroE: "lc_run b p 0 st s res"
inductive_cases lc_run_SucE: "lc_run b p (Suc n) st s res"

lemma lc_run_unique: "lc_run b p n st s res \<Longrightarrow> lc_run b p m st s res' \<Longrightarrow> m = n \<and> res' = res"
proof (induction n arbitrary: m st s)
  case 0
  then have "limit st = 0" "res = Inr (lc_output st, s)" by (auto elim: lc_run_zeroE)
  then show ?case using 0(2) by (cases m) (auto elim: lc_run_zeroE lc_run_SucE)
next
  case (Suc n)
  from Suc.prems(1) have "limit st \<noteq> 0" by (auto elim: lc_run_SucE)
  then obtain m' where m: "m = Suc m'" using Suc.prems(2) by (cases m) (auto elim: lc_run_zeroE)
  show ?case
  proof (cases "lc_turn b p st s")
    case (Inl e)
    then show ?thesis
      using Suc.prems unfolding m by (elim lc_run_SucE) simp_all
  next
    case (Inr r)
    then show ?thesis
      using Suc.prems Suc.IH unfolding m by (elim lc_run_SucE) auto
  qed
qed

lemma lc_loop_runs:
  assumes p: "\<And>n. consumes (p n)"
  shows "length s < fuel \<Longrightarrow> limit st = 0 \<or> num_pending_rows st = 0 \<Longrightarrow>
    \<exists>n. 16 * n \<le> length s + 16 \<and> lc_run b p n st s (lc_loop fuel b p st s)"
proof (induction fuel arbitrary: st s)
  case 0
  then show ?case by simp
next
  case (Suc fuel)
  show ?case
  proof (cases "limit st = 0")
    case True
    then show ?thesis
      using lc_run.finished [OF True, of b p s] by (intro exI [of _ 0]) (simp add: lc_loop.simps)
  next
    case False
    then have st: "num_pending_rows st = 0" using Suc.prems by simp
    show ?thesis
    proof (cases "lc_turn b p st s")
      case (Inl e)
      then show ?thesis
        using lc_run.failed [OF False Inl] False by (intro exI [of _ 1]) (simp add: lc_loop.simps)
    next
      case (Inr r)
      then obtain st' s' where r: "lc_turn b p st s = Inr (st', s')" by (cases r) simp
      note progress = lc_turn_progress [OF p st r]
      then obtain n where "16 * n \<le> length s' + 16" "lc_run b p n st' s' (lc_loop fuel b p st' s')"
        using Suc.IH [of s' st'] Suc.prems(1) by auto
      then show ?thesis
        using progress lc_run.turned [OF False r] False
        by (intro exI [of _ "Suc n"]) (simp add: lc_loop.simps r)
    qed
  qed
qed

text \<open>C27. The loop of the low-cardinality reader ends on every input, for every inner type:
  run without fuel it takes a number of turns, at most one for each sixteen bytes of the
  stream and one more, and ends with what the model gives, and in no other way. So the fuel
  of the model never runs out.\<close>

theorem low_cardinality_loop_ends:
  "\<exists>n. 16 * n \<le> length s + 16
    \<and> (\<forall>m res. lc_run nullable (deserialize_column t) m (lc_start rows) s res
         \<longleftrightarrow> m = n \<and> res = low_cardinality_read nullable (deserialize_column t) rows s)"
proof -
  obtain n where "16 * n \<le> length s + 16"
    "lc_run nullable (deserialize_column t) n (lc_start rows) s
       (low_cardinality_read nullable (deserialize_column t) rows s)"
    using lc_loop_runs [of "deserialize_column t", OF consumes_deserialize_column,
        of s "Suc (length s)" "lc_start rows" nullable]
    by (auto simp: low_cardinality_read_def lc_start_def)
  then show ?thesis using lc_run_unique by blast
qed

text \<open>Two runs of one row each, each with its key: the loop takes two turns, and the reader
  gives what they give.\<close>

definition one_row_run :: "byte \<Rightarrow> byte list" where
  "one_row_run k = put_u64 512 @ put_u64 1 @ [k] @ put_u64 1 @ [0]"

lemma one_row_turn:
  assumes "num_pending_rows st = 0" and "limit st = Suc n"
  shows "\<exists>st'. lc_turn False (deserialize_column UInt8) st (one_row_run k @ r) = Inr (st', r)
    \<and> limit st' = n \<and> num_pending_rows st' = 0 \<and> lc_output st' = lc_output st @ [VUInt8 k]"
  using assms
  by (simp add: lc_turn_def lc_header_def one_row_run_def HAS_ADDITIONAL_KEYS_BIT_def
      NEED_GLOBAL_DICTIONARY_BIT_def NEED_UPDATE_DICTIONARY_BIT_def lc_index_type_def Let_def
      deserialize_column.simps sized_column_def sized_read_def sized_item_def read_as_def
      MAX_STRING_SIZE_def lc_values_def need_def get_entry_def index_value_def)

theorem low_cardinality_loop_ends_witness:
  "low_cardinality_read False (deserialize_column UInt8) 2 (one_row_run 97 @ one_row_run 98 @ [7])
     = Inr ([VUInt8 97, VUInt8 98], [7])"
proof -
  let ?p = "deserialize_column UInt8"
  obtain st where st: "lc_turn False ?p (lc_start 2) (one_row_run 97 @ one_row_run 98 @ [7])
      = Inr (st, one_row_run 98 @ [7])" "limit st = 1" "num_pending_rows st = 0" "lc_output st = [VUInt8 97]"
    using one_row_turn [of "lc_start 2" 1 97 "one_row_run 98 @ [7]"] by (auto simp: lc_start_def)
  obtain st' where st': "lc_turn False ?p st (one_row_run 98 @ [7]) = Inr (st', [7])" "limit st' = 0"
      "lc_output st' = [VUInt8 97, VUInt8 98]"
    using one_row_turn [of st 0 98 "[7]"] st by auto
  have "lc_run False ?p (Suc (Suc 0)) (lc_start 2) (one_row_run 97 @ one_row_run 98 @ [7])
      (Inr ([VUInt8 97, VUInt8 98], [7]))"
    using lc_run.turned [OF _ st(1) lc_run.turned [OF _ st'(1)
        lc_run.finished [OF st'(2), of False ?p "[7]"]]] st(2) st'(3)
    by (simp add: lc_start_def)
  then show ?thesis
    using low_cardinality_loop_ends [of "one_row_run 97 @ one_row_run 98 @ [7]" False UInt8 2] by metis
qed

end
