(* ===== verification/Protocol.thy ===== *)
theory Protocol
  imports Prelude
begin

text \<open>
  The constants and enumerations of the protocol (native/protocol.rs): packet numbers,
  revisions, the negotiation of the chunked mode and the compression methods.
\<close>

section \<open>Revisions\<close>

text \<open>A revision is compared only; it is a natural number here.\<close>

definition REV_CLIENT_INFO :: nat where "REV_CLIENT_INFO = 54032"
definition REV_SERVER_TIMEZONE :: nat where "REV_SERVER_TIMEZONE = 54058"
definition REV_QUOTA_KEY_IN_CLIENT_INFO :: nat where "REV_QUOTA_KEY_IN_CLIENT_INFO = 54060"
definition REV_SERVER_DISPLAY_NAME :: nat where "REV_SERVER_DISPLAY_NAME = 54372"
definition REV_VERSION_PATCH :: nat where "REV_VERSION_PATCH = 54401"
definition REV_SERVER_LOGS :: nat where "REV_SERVER_LOGS = 54406"
definition REV_CLIENT_WRITE_INFO :: nat where "REV_CLIENT_WRITE_INFO = 54420"
definition REV_SETTINGS_AS_STRINGS :: nat where "REV_SETTINGS_AS_STRINGS = 54429"
definition REV_INTERSERVER_SECRET :: nat where "REV_INTERSERVER_SECRET = 54441"
definition REV_OPENTELEMETRY :: nat where "REV_OPENTELEMETRY = 54442"
definition REV_DISTRIBUTED_DEPTH :: nat where "REV_DISTRIBUTED_DEPTH = 54448"
definition REV_QUERY_START_TIME :: nat where "REV_QUERY_START_TIME = 54449"
definition REV_PARALLEL_REPLICAS :: nat where "REV_PARALLEL_REPLICAS = 54453"
definition REV_CUSTOM_SERIALIZATION :: nat where "REV_CUSTOM_SERIALIZATION = 54454"
definition REV_PROFILE_EVENTS_IN_INSERT :: nat where "REV_PROFILE_EVENTS_IN_INSERT = 54456"
definition REV_ADDENDUM :: nat where "REV_ADDENDUM = 54458"
definition REV_QUOTA_KEY :: nat where "REV_QUOTA_KEY = 54458"
definition REV_PARAMETERS :: nat where "REV_PARAMETERS = 54459"
definition REV_SERVER_QUERY_TIME :: nat where "REV_SERVER_QUERY_TIME = 54460"
definition REV_PASSWORD_RULES :: nat where "REV_PASSWORD_RULES = 54461"
definition REV_INTERSERVER_SECRET_V2 :: nat where "REV_INTERSERVER_SECRET_V2 = 54462"
definition REV_TOTAL_BYTES :: nat where "REV_TOTAL_BYTES = 54463"
definition REV_ROWS_BEFORE_AGGREGATION :: nat where "REV_ROWS_BEFORE_AGGREGATION = 54469"
definition REV_CHUNKED_PACKETS :: nat where "REV_CHUNKED_PACKETS = 54470"
definition REV_VERSIONED_REPLICAS :: nat where "REV_VERSIONED_REPLICAS = 54471"
definition REV_GRANTED_ROLES :: nat where "REV_GRANTED_ROLES = 54472"
definition REV_SERVER_SETTINGS :: nat where "REV_SERVER_SETTINGS = 54474"
definition REV_QUERY_AND_LINE_NUMBERS :: nat where "REV_QUERY_AND_LINE_NUMBERS = 54475"
definition REV_JWT :: nat where "REV_JWT = 54476"
definition REV_QUERY_PLAN :: nat where "REV_QUERY_PLAN = 54477"
definition REV_CLUSTER_FUNCTION :: nat where "REV_CLUSTER_FUNCTION = 54479"

definition DBMS_TCP_PROTOCOL_VERSION :: nat where
  "DBMS_TCP_PROTOCOL_VERSION = REV_CLUSTER_FUNCTION"

definition DBMS_PARALLEL_REPLICAS_PROTOCOL_VERSION :: u64 where
  "DBMS_PARALLEL_REPLICAS_PROTOCOL_VERSION = 4"

lemmas revisions = REV_CLIENT_INFO_def REV_SERVER_TIMEZONE_def REV_QUOTA_KEY_IN_CLIENT_INFO_def
  REV_SERVER_DISPLAY_NAME_def REV_VERSION_PATCH_def REV_SERVER_LOGS_def REV_CLIENT_WRITE_INFO_def
  REV_SETTINGS_AS_STRINGS_def REV_INTERSERVER_SECRET_def REV_OPENTELEMETRY_def
  REV_DISTRIBUTED_DEPTH_def REV_QUERY_START_TIME_def REV_PARALLEL_REPLICAS_def
  REV_CUSTOM_SERIALIZATION_def REV_PROFILE_EVENTS_IN_INSERT_def REV_ADDENDUM_def REV_QUOTA_KEY_def
  REV_PARAMETERS_def REV_SERVER_QUERY_TIME_def REV_PASSWORD_RULES_def REV_INTERSERVER_SECRET_V2_def
  REV_TOTAL_BYTES_def REV_ROWS_BEFORE_AGGREGATION_def REV_CHUNKED_PACKETS_def
  REV_VERSIONED_REPLICAS_def REV_GRANTED_ROLES_def REV_SERVER_SETTINGS_def
  REV_QUERY_AND_LINE_NUMBERS_def REV_JWT_def REV_QUERY_PLAN_def REV_CLUSTER_FUNCTION_def
  DBMS_TCP_PROTOCOL_VERSION_def

section \<open>Packets\<close>

datatype server_packet_id =
    PHello | PData | PException | PProgress | PPong | PEndOfStream | PProfileInfo | PTotals
  | PExtremes | PTablesStatusResponse | PLog | PTableColumns | PPartUUIDs | PReadTaskRequest
  | PProfileEvents | PMergeTreeAllRangesAnnouncement | PMergeTreeReadTaskRequest
  | PTimezoneUpdate | PSSHChallenge

definition server_packet_from_u64 :: "u64 \<Rightarrow> server_packet_id res" where
  "server_packet_from_u64 i =
     (if i = 0 then Inr PHello else if i = 1 then Inr PData else if i = 2 then Inr PException
      else if i = 3 then Inr PProgress else if i = 4 then Inr PPong
      else if i = 5 then Inr PEndOfStream else if i = 6 then Inr PProfileInfo
      else if i = 7 then Inr PTotals else if i = 8 then Inr PExtremes
      else if i = 9 then Inr PTablesStatusResponse else if i = 10 then Inr PLog
      else if i = 11 then Inr PTableColumns else if i = 12 then Inr PPartUUIDs
      else if i = 13 then Inr PReadTaskRequest else if i = 14 then Inr PProfileEvents
      else if i = 15 then Inr PMergeTreeAllRangesAnnouncement
      else if i = 16 then Inr PMergeTreeReadTaskRequest
      else if i = 17 then Inr PTimezoneUpdate else if i = 18 then Inr PSSHChallenge
      else Inl Protocol)"

datatype client_packet_id =
    CHello | CQuery | CData | CCancel | CPing | CTablesStatusRequest | CKeepAlive | CScalar
  | CIgnoredPartUUIDs | CReadTaskResponse | CMergeTreeReadTaskResponse | CSSHChallengeRequest
  | CSSHChallengeResponse | CQueryPlan

definition client_packet_num :: "client_packet_id \<Rightarrow> u64" where
  "client_packet_num p =
     (case p of
        CHello \<Rightarrow> 0 | CQuery \<Rightarrow> 1 | CData \<Rightarrow> 2 | CCancel \<Rightarrow> 3 | CPing \<Rightarrow> 4
      | CTablesStatusRequest \<Rightarrow> 5 | CKeepAlive \<Rightarrow> 6 | CScalar \<Rightarrow> 7 | CIgnoredPartUUIDs \<Rightarrow> 8
      | CReadTaskResponse \<Rightarrow> 9 | CMergeTreeReadTaskResponse \<Rightarrow> 10 | CSSHChallengeRequest \<Rightarrow> 11
      | CSSHChallengeResponse \<Rightarrow> 12 | CQueryPlan \<Rightarrow> 13)"

datatype query_processing_stage =
  FetchColumns | WithMergeableState | Complete | WithMergableStateAfterAggregation

definition stage_num :: "query_processing_stage \<Rightarrow> u64" where
  "stage_num s =
     (case s of FetchColumns \<Rightarrow> 0 | WithMergeableState \<Rightarrow> 1 | Complete \<Rightarrow> 2
      | WithMergableStateAfterAggregation \<Rightarrow> 3)"

section \<open>The chunked mode\<close>

datatype chunked_mode = ChunkedOptional | Chunked | NotChunkedOptional | NotChunked

definition mode_str :: "chunked_mode \<Rightarrow> string" where
  "mode_str m =
     (case m of ChunkedOptional \<Rightarrow> ''chunked_optional'' | Chunked \<Rightarrow> ''chunked''
      | NotChunkedOptional \<Rightarrow> ''notchunked_optional'' | NotChunked \<Rightarrow> ''notchunked'')"

definition mode_from_str :: "string \<Rightarrow> chunked_mode res" where
  "mode_from_str s =
     (if s = ''chunked'' then Inr Chunked
      else if s = ''chunked_optional'' then Inr ChunkedOptional
      else if s = ''notchunked'' then Inr NotChunked
      else if s = ''notchunked_optional'' then Inr NotChunkedOptional
      else Inl Protocol)"

definition is_chunked :: "chunked_mode \<Rightarrow> bool" where
  "is_chunked m \<longleftrightarrow> m = Chunked \<or> m = ChunkedOptional"

definition is_optional :: "chunked_mode \<Rightarrow> bool" where
  "is_optional m \<longleftrightarrow> m = ChunkedOptional \<or> m = NotChunkedOptional"

definition negotiate :: "chunked_mode \<Rightarrow> chunked_mode \<Rightarrow> chunked_mode res" where
  "negotiate server_mode client_mode =
     (let server_chunked = is_chunked server_mode; server_optional = is_optional server_mode;
          client_chunked = is_chunked client_mode; client_optional = is_optional client_mode in
      rbind (if server_optional then Inr client_chunked
             else if client_optional then Inr server_chunked
             else if client_chunked \<noteq> server_chunked then Inl Protocol
             else Inr server_chunked)
        (\<lambda>result_chunked. Inr (if result_chunked then Chunked else NotChunked)))"

text \<open>Negotiation of the chunked mode. It fails exactly when both sides insist on
  different modes. Otherwise the outcome is \<open>Chunked\<close> or \<open>NotChunked\<close>; a side that insists
  gets its mode; when both sides are flexible the preference of the client decides. The
  names of the modes parse back to the modes.\<close>

theorem negotiate_spec:
  "(negotiate s c = Inl Protocol \<longleftrightarrow> \<not> is_optional s \<and> \<not> is_optional c \<and> s \<noteq> c)
   \<and> (\<not> is_optional s \<and> \<not> is_optional c \<and> s = c \<longrightarrow> negotiate s c = Inr s)
   \<and> (\<not> is_optional s \<and> is_optional c \<longrightarrow> negotiate s c = Inr s)
   \<and> (is_optional s \<and> \<not> is_optional c \<longrightarrow> negotiate s c = Inr c)
   \<and> (is_optional s \<and> is_optional c \<longrightarrow>
        negotiate s c = Inr (if is_chunked c then Chunked else NotChunked))
   \<and> mode_from_str (mode_str s) = Inr s"
  by (cases s; cases c)
    (simp_all add: negotiate_def is_optional_def is_chunked_def mode_from_str_def mode_str_def)

theorem negotiate_spec_witness:
  "negotiate Chunked NotChunkedOptional = Inr Chunked
   \<and> negotiate ChunkedOptional NotChunked = Inr NotChunked
   \<and> negotiate NotChunkedOptional ChunkedOptional = Inr Chunked
   \<and> negotiate NotChunked NotChunked = Inr NotChunked"
  using negotiate_spec [of Chunked NotChunkedOptional] negotiate_spec [of ChunkedOptional NotChunked]
    negotiate_spec [of NotChunkedOptional ChunkedOptional] negotiate_spec [of NotChunked NotChunked]
  by (simp add: is_optional_def is_chunked_def)

section \<open>Compression methods\<close>

datatype compression_method = NoCompression | LZ4 | ZSTD

definition compression_byte :: "compression_method \<Rightarrow> byte" where
  "compression_byte c = (case c of NoCompression \<Rightarrow> 0x02 | LZ4 \<Rightarrow> 0x82 | ZSTD \<Rightarrow> 0x90)"

definition compression_from :: "string \<Rightarrow> compression_method" where
  "compression_from s =
     (if s = ''lz4'' \<or> s = ''LZ4'' then LZ4
      else if s = ''zstd'' \<or> s = ''ZSTD'' then ZSTD else NoCompression)"

definition compression_from_str :: "string \<Rightarrow> compression_method option" where
  "compression_from_str s =
     (let method = compression_from s in if method = NoCompression then None else Some method)"

definition compression_str :: "compression_method \<Rightarrow> string" where
  "compression_str c = (case c of NoCompression \<Rightarrow> ''None'' | LZ4 \<Rightarrow> ''LZ4'' | ZSTD \<Rightarrow> ''ZSTD'')"

lemma compression_str_from [simp]: "compression_from (compression_str c) = c"
  by (cases c) (simp_all add: compression_from_def compression_str_def)

lemma compression_byte_inj: "compression_byte c = compression_byte d \<longleftrightarrow> c = d"
  by (cases c; cases d) (simp_all add: compression_byte_def)

end
