(* ===== verification/BlockIO.thy ===== *)
theory BlockIO
  imports ColumnTheorems Protocol
begin

text \<open>
  Blocks: the unit of data of the protocol (native/block.rs, native/block_info.rs). A block
  holds its columns one after the other in one vector; it is written with the name, the
  type as text and the data of every column.

  \<open>indexmap::IndexMap\<close> is a parameter: \<open>imap\<close> gives the keys of the map collected from a
  list of keys, in the order the map iterates them. The rows of \<open>from_rows\<close> are given as
  \<open>Row::serialize_row\<close> returns them: that trait is implemented by the caller.
\<close>

section \<open>Block info\<close>

record block_info =
  is_overflows :: bool
  bucket_num :: u32

definition default_block_info :: block_info where
  "default_block_info = \<lparr>is_overflows = False, bucket_num = -1\<rparr>"

definition block_info_write :: "block_info \<Rightarrow> byte list" where
  "block_info_write info =
     write_var_uint 1 @ [if is_overflows info then 1 else 2]
     @ write_var_uint 2 @ put_u32 (bucket_num info) @ write_var_uint 0"

definition block_info_put :: "block_info \<Rightarrow> byte list" where
  "block_info_put info =
     put_var_uint 1 @ [if is_overflows info then 1 else 2]
     @ put_var_uint 2 @ put_u32 (bucket_num info) @ put_var_uint 0"

lemma read_u8_length: "read_u8 eof s = Inr (b, r) \<Longrightarrow> length r < length s"
  by (cases s) auto

lemma try_get_var_uint_length: "try_get_var_uint s = Inr (v, r) \<Longrightarrow> length r < length s"
  by (cases "read_var_uint s") (auto simp: try_get_var_uint_eq dest: read_var_uint_length)

text \<open>The loop over the fields; every turn reads at least the field number.\<close>

function block_info_read_loop :: "block_info \<Rightarrow> block_info reader" where
  "block_info_read_loop new s =
     rbind (read_var_uint s) (\<lambda>(field_num, s).
       if field_num = 0 then Inr (new, s)
       else if field_num = 1 then
         rbind (read_u8 Io s) (\<lambda>(b, s). block_info_read_loop (new\<lparr>is_overflows := (b \<noteq> 0)\<rparr>) s)
       else if field_num = 2 then
         rbind (read_u32 Io s) (\<lambda>(n, s). block_info_read_loop (new\<lparr>bucket_num := n\<rparr>) s)
       else Inl Protocol)"
  by pat_completeness auto
termination
  by (relation "measure (\<lambda>(new, s). length s)")
    (auto dest!: read_var_uint_length read_u8_length read_le_length)

declare block_info_read_loop.simps [simp del]

definition block_info_read :: "block_info reader" where
  "block_info_read s = block_info_read_loop default_block_info s"

function block_info_get_loop :: "block_info \<Rightarrow> block_info reader" where
  "block_info_get_loop new s =
     rbind (try_get_var_uint s) (\<lambda>(field_num, s).
       if field_num = 0 then Inr (new, s)
       else if field_num = 1 then
         rbind (read_u8 BytesRead s) (\<lambda>(b, s). block_info_get_loop (new\<lparr>is_overflows := (b \<noteq> 0)\<rparr>) s)
       else if field_num = 2 then
         rbind (read_u32 BytesRead s) (\<lambda>(n, s). block_info_get_loop (new\<lparr>bucket_num := n\<rparr>) s)
       else Inl Protocol)"
  by pat_completeness auto
termination
  by (relation "measure (\<lambda>(new, s). length s)")
    (auto dest!: try_get_var_uint_length read_u8_length read_le_length)

declare block_info_get_loop.simps [simp del]

definition block_info_get :: "block_info reader" where
  "block_info_get s = block_info_get_loop default_block_info s"

section \<open>Blocks\<close>

record block =
  info :: block_info
  rows :: u64
  column_types :: "(string \<times> ty) list"
  column_data :: "val list"

text \<open>\<open>column_data.drain(..rows)\<close>: the first values and the rest; it panics past the end.\<close>

definition drain :: "nat \<Rightarrow> 'a list \<Rightarrow> ('a list \<times> 'a list) res" where
  "drain n xs = (if length xs < n then Inl Panic else Inr (take n xs, drop n xs))"

text \<open>One column: its name, its type, then the data where the block has rows.\<close>

definition column_write ::
  "(val list \<Rightarrow> val list) \<Rightarrow> nat \<Rightarrow> nat \<Rightarrow> string \<times> ty \<Rightarrow> val list \<Rightarrow> byte list res" where
  "column_write iset revision n column vals =
     (case column of (name, t) \<Rightarrow>
        if length vals \<noteq> n then Inl Protocol
        else rbind (if n > 0 then
               rbind (serialize_column iset t vals) (\<lambda>bs.
                 Inr ((if revision \<ge> REV_CUSTOM_SERIALIZATION then [0] else [])
                      @ serialize_prefix_async t @ bs))
             else Inr []) (\<lambda>body.
          Inr (write_string (str_bytes name) @ write_string (str_bytes (display t)) @ body)))"

fun columns_write ::
  "(val list \<Rightarrow> val list) \<Rightarrow> nat \<Rightarrow> nat \<Rightarrow> (string \<times> ty) list \<Rightarrow> val list \<Rightarrow> byte list res" where
  "columns_write iset revision n [] vals = Inr []"
| "columns_write iset revision n (c # cs) vals =
     rbind (drain n vals) (\<lambda>(column, vals).
     rbind (column_write iset revision n c column) (\<lambda>bs.
     rbind (columns_write iset revision n cs vals) (\<lambda>rest. Inr (bs @ rest))))"

definition block_write :: "(val list \<Rightarrow> val list) \<Rightarrow> nat \<Rightarrow> block \<Rightarrow> byte list res" where
  "block_write iset revision b =
     rbind (columns_write iset revision (unat (rows b)) (column_types b) (column_data b)) (\<lambda>body.
       Inr ((if revision > 0 then block_info_write (info b) else [])
            @ write_var_uint (word_of_nat (length (column_types b)))
            @ write_var_uint (rows b) @ body))"

text \<open>The in-memory writer.\<close>

definition column_put ::
  "(val list \<Rightarrow> val list) \<Rightarrow> nat \<Rightarrow> nat \<Rightarrow> string \<times> ty \<Rightarrow> val list \<Rightarrow> byte list res" where
  "column_put iset revision n column vals =
     (case column of (name, t) \<Rightarrow>
        if length vals \<noteq> n then Inl Protocol
        else rbind (if n > 0 then
               rbind (serialize_column_sync iset t vals) (\<lambda>bs.
                 Inr ((if revision \<ge> REV_CUSTOM_SERIALIZATION then [0] else [])
                      @ serialize_prefix t @ bs))
             else Inr []) (\<lambda>body.
          Inr (put_string (str_bytes name) @ put_string (str_bytes (display t)) @ body)))"

fun columns_put ::
  "(val list \<Rightarrow> val list) \<Rightarrow> nat \<Rightarrow> nat \<Rightarrow> (string \<times> ty) list \<Rightarrow> val list \<Rightarrow> byte list res" where
  "columns_put iset revision n [] vals = Inr []"
| "columns_put iset revision n (c # cs) vals =
     rbind (drain n vals) (\<lambda>(column, vals).
     rbind (column_put iset revision n c column) (\<lambda>bs.
     rbind (columns_put iset revision n cs vals) (\<lambda>rest. Inr (bs @ rest))))"

definition block_put :: "(val list \<Rightarrow> val list) \<Rightarrow> nat \<Rightarrow> block \<Rightarrow> byte list res" where
  "block_put iset revision b =
     rbind (columns_put iset revision (unat (rows b)) (column_types b) (column_data b)) (\<lambda>body.
       Inr ((if revision > 0 then block_info_put (info b) else [])
            @ put_var_uint (word_of_nat (length (column_types b)))
            @ put_var_uint (rows b) @ body))"

text \<open>
  Reading. The custom-serialization byte is read for every column of a recent revision,
  whether the block has rows or not.
\<close>

definition column_read :: "(string \<Rightarrow> tz option) \<Rightarrow> nat \<Rightarrow> nat \<Rightarrow> ((string \<times> ty) \<times> val list) reader" where
  "column_read tzp revision n s =
     rbind (read_utf8_string s) (\<lambda>(name, s).
     rbind (read_utf8_string s) (\<lambda>(type_name, s).
     rbind (if revision \<ge> REV_CUSTOM_SERIALIZATION then read_u8 Io s else Inr (0, s)) (\<lambda>(_, s).
     rbind (from_str tzp type_name) (\<lambda>t.
     rbind (if n > 0 then
              rbind (deserialize_prefix_async t s) (\<lambda>(_, s). deserialize_column t n s)
            else Inr ([], s)) (\<lambda>(row_data, s).
       Inr (((name, t), row_data), s))))))"

definition block_read :: "(string \<Rightarrow> tz option) \<Rightarrow> nat \<Rightarrow> block reader" where
  "block_read tzp revision s =
     rbind (if revision > 0 then block_info_read s else Inr (default_block_info, s)) (\<lambda>(i, s).
     rbind (read_var_uint s) (\<lambda>(columns, s).
     rbind (read_var_uint s) (\<lambda>(n, s).
     rbind (read_n (unat columns) (column_read tzp revision (unat n)) s) (\<lambda>(cols, s).
       Inr (\<lparr>info = i, rows = n, column_types = map fst cols,
             column_data = concat (map snd cols)\<rparr>, s)))))"

definition get_utf8_string :: "string reader" where
  "get_utf8_string s =
     rbind (try_get_string s) (\<lambda>(bs, s).
       if utf8_valid bs then Inr (bytes_str bs, s) else Inl FromUtf8)"

definition column_get :: "(string \<Rightarrow> tz option) \<Rightarrow> nat \<Rightarrow> nat \<Rightarrow> ((string \<times> ty) \<times> val list) reader" where
  "column_get tzp revision n s =
     rbind (get_utf8_string s) (\<lambda>(name, s).
     rbind (get_utf8_string s) (\<lambda>(type_name, s).
     rbind (if revision \<ge> REV_CUSTOM_SERIALIZATION then read_u8 BytesRead s else Inr (0, s)) (\<lambda>(_, s).
     rbind (from_str tzp type_name) (\<lambda>t.
     rbind (if n > 0 then
              rbind (deserialize_prefix t s) (\<lambda>(_, s). deserialize_column_sync t n s)
            else Inr ([], s)) (\<lambda>(row_data, s).
       Inr (((name, t), row_data), s))))))"

definition block_get :: "(string \<Rightarrow> tz option) \<Rightarrow> nat \<Rightarrow> block reader" where
  "block_get tzp revision s =
     rbind (if revision > 0 then block_info_get s else Inr (default_block_info, s)) (\<lambda>(i, s).
     rbind (try_get_var_uint s) (\<lambda>(columns, s).
     rbind (try_get_var_uint s) (\<lambda>(n, s).
     rbind (read_n (unat columns) (column_get tzp revision (unat n)) s) (\<lambda>(cols, s).
       Inr (\<lparr>info = i, rows = n, column_types = map fst cols,
             column_data = concat (map snd cols)\<rparr>, s)))))"

section \<open>Rows of a block\<close>

text \<open>\<open>take_iter_rows\<close>: the columns cut from the data; the block keeps no data.\<close>

fun take_columns :: "nat \<Rightarrow> (string \<times> ty) list \<Rightarrow> val list \<Rightarrow> (string \<times> ty \<times> val list) list res" where
  "take_columns n [] data = Inr []"
| "take_columns n ((name, t) # cs) data =
     rbind (drain n data) (\<lambda>(column, data).
     rbind (take_columns n cs data) (\<lambda>rest. Inr ((name, strip_low_cardinality t, column) # rest)))"

definition take_iter_rows :: "block \<Rightarrow> ((string \<times> ty \<times> val list) list \<times> block) res" where
  "take_iter_rows b =
     rbind (take_columns (unat (rows b)) (column_types b) (column_data b)) (\<lambda>cols.
       Inr (cols, b\<lparr>column_data := []\<rparr>))"

text \<open>
  \<open>next\<close> of the row iterator pops one value of every column; it ends at the first column
  that has none (the values popped before it are lost).
\<close>

fun pop_columns ::
  "(string \<times> ty \<times> val list) list
    \<Rightarrow> (string \<times> ty \<times> val) list option \<times> (string \<times> ty \<times> val list) list" where
  "pop_columns [] = (Some [], [])"
| "pop_columns ((name, t, column) # cs) =
     (case column of
        [] \<Rightarrow> (None, (name, t, []) # cs)
      | v # vs \<Rightarrow>
          (case pop_columns cs of
             (None, cs) \<Rightarrow> (None, (name, t, vs) # cs)
           | (Some out, cs) \<Rightarrow> (Some ((name, t, v) # out), (name, t, vs) # cs)))"

definition next_row ::
  "(string \<times> ty \<times> val list) list
    \<Rightarrow> (string \<times> ty \<times> val) list option \<times> (string \<times> ty \<times> val list) list" where
  "next_row cols = (if cols = [] then (None, []) else pop_columns cols)"

lemma pop_columns_length:
  "pop_columns cols = (Some out, cols') \<Longrightarrow> cols \<noteq> [] \<Longrightarrow>
     sum_list (map (\<lambda>(_, _, c). length c) cols') < sum_list (map (\<lambda>(_, _, c). length c) cols)"
proof (induction cols arbitrary: out cols' rule: pop_columns.induct)
  case 1
  then show ?case by simp
next
  case (2 name t column cs)
  then show ?case
    by (cases "cs = []") (fastforce split: list.splits prod.splits option.splits)+
qed

text \<open>All rows the iterator yields.\<close>

function all_rows :: "(string \<times> ty \<times> val list) list \<Rightarrow> (string \<times> ty \<times> val) list list" where
  "all_rows cols =
     (case next_row cols of
        (None, _) \<Rightarrow> []
      | (Some row, cols) \<Rightarrow> row # all_rows cols)"
  by pat_completeness auto
termination
  by (relation "measure (\<lambda>cols. sum_list (map (\<lambda>(_, _, c). length c) cols))")
    (auto simp: next_row_def split: if_splits dest!: pop_columns_length [OF sym])

declare all_rows.simps [simp del]

subsection \<open>A block from rows\<close>

text \<open>\<open>columns.get_mut(key)\<close> and \<open>push\<close>.\<close>

fun push_value :: "(string \<times> val list) list \<Rightarrow> string \<Rightarrow> val \<Rightarrow> (string \<times> val list) list option" where
  "push_value [] key v = None"
| "push_value ((name, column) # cs) key v =
     (if name = key then Some ((name, column @ [v]) # cs)
      else map_option (Cons (name, column)) (push_value cs key v))"

text \<open>The fields of one row: type from the schema, value checked, value pushed.\<close>

fun push_fields ::
  "(string \<times> ty) list \<Rightarrow> (string \<times> val list) list \<Rightarrow> (string \<times> val) list \<Rightarrow> (string \<times> val list) list res"
where
  "push_fields schema columns [] = Inr columns"
| "push_fields schema columns ((key, v) # fs) =
     (case find (\<lambda>c. fst c = key) schema of
        None \<Rightarrow> Inl Protocol
      | Some c \<Rightarrow>
          rbind (validate_value (snd c) v) (\<lambda>_.
            case push_value columns key v of
              None \<Rightarrow> Inl Protocol
            | Some columns \<Rightarrow> push_fields schema columns fs))"

fun push_rows ::
  "(string \<times> ty) list \<Rightarrow> (string \<times> val list) list \<Rightarrow> (string \<times> val) list res list
    \<Rightarrow> (string \<times> val list) list res" where
  "push_rows schema columns [] = Inr columns"
| "push_rows schema columns (row # rs) =
     rbind row (\<lambda>x. rbind (push_fields schema columns x) (\<lambda>columns. push_rows schema columns rs))"

definition from_rows ::
  "(string list \<Rightarrow> string list) \<Rightarrow> (string \<times> val) list res list \<Rightarrow> (string \<times> ty) list \<Rightarrow> block res" where
  "from_rows imap rs schema =
     (let columns = map (\<lambda>name. (name, [])) (imap (map fst schema)) in
      rbind (push_rows schema columns rs) (\<lambda>columns.
        Inr \<lparr>info = default_block_info, rows = word_of_nat (length rs), column_types = schema,
             column_data = concat (map snd columns)\<rparr>))"

definition estimate_size :: "block \<Rightarrow> nat" where
  "estimate_size b =
     (16 + sum_list (map (\<lambda>(name, t). length name + length (display t) + 10
                                      + unat (rows b) * estimate_capacity t) (column_types b))) * 6 div 5"

section \<open>Reading a written block\<close>

lemma small_var_uint [simp]:
  "read_var_uint (write_var_uint 0 @ r) = Inr (0, r)"
  "read_var_uint (write_var_uint 1 @ r) = Inr (1, r)"
  "read_var_uint (write_var_uint 2 @ r) = Inr (2, r)"
  by (simp_all add: read_var_uint_write take_bit_63)

lemma block_info_written:
  "block_info_read (block_info_write i @ r) = Inr (i\<lparr>is_overflows := True\<rparr>, r)"
  "block_info_get (block_info_put i @ r) = Inr (i\<lparr>is_overflows := True\<rparr>, r)"
  by (simp_all add: block_info_read_def block_info_write_def block_info_read_loop.simps
      block_info_get_def block_info_put_def block_info_get_loop.simps try_get_var_uint_eq
      default_block_info_def)

text \<open>Block info: what is written for a block is read back with the same bucket number,
  but always with \<open>is_overflows\<close> set: the writers put 2 where the flag is unset and the
  readers take any byte other than 0 for a set flag.\<close>

theorem block_info_overflow_read:
  "block_info_read (block_info_write i @ r) = Inr (i\<lparr>is_overflows := True\<rparr>, r)
   \<and> block_info_get (block_info_put i @ r) = Inr (i\<lparr>is_overflows := True\<rparr>, r)"
  by (simp add: block_info_written)

lemma block_put_eq: "block_put iset revision b = block_write iset revision b"
proof -
  have "column_put iset revision n c vals = column_write iset revision n c vals" for n c vals
    using prefix_roundtrip_both
    by (simp add: column_put_def column_write_def serialize_column_sync_eq split: prod.split)
  then have "columns_put iset revision n cs vals = columns_write iset revision n cs vals" for n cs vals
    by (induction cs arbitrary: vals) simp_all
  then show ?thesis
    by (simp add: block_put_def block_write_def block_info_put_def block_info_write_def)
qed

text \<open>A block whose columns can be read back.\<close>

fun data_ok :: "nat \<Rightarrow> (string \<times> ty) list \<Rightarrow> val list \<Rightarrow> bool" where
  "data_ok n [] data \<longleftrightarrow> data = []"
| "data_ok n (c # cs) data \<longleftrightarrow>
     n \<le> length data \<and> (n > 0 \<longrightarrow> col_ok (snd c) (take n data)) \<and> data_ok n cs (drop n data)"

definition header_ok :: "(string \<Rightarrow> tz option) \<Rightarrow> string \<times> ty \<Rightarrow> bool" where
  "header_ok tzp c \<longleftrightarrow>
     wire_str (fst c) \<and> wire_str (display (snd c)) \<and> text_ok tzp (snd c) \<and> canonical (snd c) = snd c"

definition block_ok :: "(string \<Rightarrow> tz option) \<Rightarrow> nat \<Rightarrow> block \<Rightarrow> bool" where
  "block_ok tzp revision b \<longleftrightarrow>
     unat (rows b) < 2 ^ 63 \<and> length (column_types b) < 2 ^ 63
     \<and> list_all (header_ok tzp) (column_types b)
     \<and> data_ok (unat (rows b)) (column_types b) (column_data b)
     \<and> (rows b = 0 \<longrightarrow> revision < REV_CUSTOM_SERIALIZATION \<or> column_types b = [])"

lemma column_written:
  assumes iset: "index_set iset" and c: "header_ok tzp c"
    and parse: "from_str tzp (display (snd c)) = Inr (snd c)"
    and vals: "length vals = n" "n > 0 \<longrightarrow> col_ok (snd c) vals"
    and rev: "n = 0 \<longrightarrow> revision < REV_CUSTOM_SERIALIZATION"
  shows "\<exists>bs. column_write iset revision n c vals = Inr bs
    \<and> (\<forall>r. column_read tzp revision n (bs @ r) = Inr ((c, vals), r))"
proof -
  obtain name t where ct: "c = (name, t)" by (cases c)
  have names: "wire_str name" "wire_str (display t)" using c ct by (simp_all add: header_ok_def)
  note head = utf8_string.dec_enc [OF names(1)] utf8_string.dec_enc [OF names(2)]
  show ?thesis
  proof (cases "n = 0")
    case True
    then show ?thesis
      using vals(1) rev head parse ct by (simp add: column_write_def column_read_def)
  next
    case False
    then obtain bs where bs: "serialize_column iset t vals = Inr bs"
      "\<And>r. deserialize_column t (length vals) (bs @ r) = Inr (vals, r)"
      using column_rt_type [OF iset, of t vals] vals ct by (auto elim!: column_rtE)
    have "deserialize_prefix_async t (serialize_prefix_async t @ r) = Inr ((), r)" for r
      using prefix_roundtrip_both by blast
    then show ?thesis
      using False vals(1) head parse ct bs by (simp add: column_write_def column_read_def)
  qed
qed

lemma columns_written:
  assumes iset: "index_set iset" and rev: "n = 0 \<longrightarrow> revision < REV_CUSTOM_SERIALIZATION"
  shows "list_all (header_ok tzp) cs \<Longrightarrow> data_ok n cs data \<Longrightarrow>
    \<exists>bs cols. columns_write iset revision n cs data = Inr bs
      \<and> map fst cols = cs \<and> concat (map snd cols) = data
      \<and> (\<forall>r. read_n (length cs) (column_read tzp revision n) (bs @ r) = Inr (cols, r))"
proof (induction cs arbitrary: data)
  case Nil
  then show ?case by simp
next
  case (Cons c cs)
  have c: "header_ok tzp c" "n \<le> length data" "n > 0 \<longrightarrow> col_ok (snd c) (take n data)"
    "list_all (header_ok tzp) cs" "data_ok n cs (drop n data)"
    using Cons.prems by simp_all
  have "from_str tzp (display (snd c)) = Inr (snd c)"
    using c(1) from_str_display by (simp add: header_ok_def)
  from column_written [OF iset c(1) this _ c(3) rev] c(2)
  obtain b where b: "column_write iset revision n c (take n data) = Inr b"
    "\<And>r. column_read tzp revision n (b @ r) = Inr ((c, take n data), r)" by auto
  obtain bs cols where bs: "columns_write iset revision n cs (drop n data) = Inr bs"
    "map fst cols = cs" "concat (map snd cols) = drop n data"
    "\<And>r. read_n (length cs) (column_read tzp revision n) (bs @ r) = Inr (cols, r)"
    using Cons.IH [OF c(4,5)] by auto
  have "columns_write iset revision n (c # cs) data = Inr (b @ bs)"
    using b(1) bs(1) c(2) by (simp add: drain_def)
  moreover have "read_n (length (c # cs)) (column_read tzp revision n) ((b @ bs) @ r)
      = Inr ((c, take n data) # cols, r)" for r
    using b(2) bs(4) by simp
  ultimately show ?case using bs(2,3) by (intro exI [of _ "b @ bs"] exI [of _ "(c, take n data) # cols"]) simp
qed

lemma read_block_body:
  assumes "index_set iset" and "block_ok tzp revision b"
  shows "\<exists>body cols. columns_write iset revision (unat (rows b)) (column_types b) (column_data b) = Inr body
    \<and> map fst cols = column_types b \<and> concat (map snd cols) = column_data b
    \<and> (\<forall>r. read_n (length (column_types b)) (column_read tzp revision (unat (rows b))) (body @ r)
         = Inr (cols, r))"
proof (cases "column_types b = []")
  case True
  then show ?thesis using assms(2) by (simp add: block_ok_def)
next
  case False
  then have "unat (rows b) = 0 \<longrightarrow> revision < REV_CUSTOM_SERIALIZATION"
    using assms(2) by (auto simp: block_ok_def unat_eq_zero)
  then show ?thesis
    using columns_written [OF assms(1), of "unat (rows b)" revision tzp "column_types b" "column_data b"]
      assms(2) by (auto simp: block_ok_def)
qed

lemma block_written:
  assumes "index_set iset" and "block_ok tzp revision b"
  shows "\<exists>bs. block_write iset revision b = Inr bs \<and> block_put iset revision b = Inr bs
    \<and> (\<forall>r. block_read tzp revision (bs @ r) = Inr
         (b\<lparr>info := (if revision > 0 then (info b)\<lparr>is_overflows := True\<rparr> else default_block_info)\<rparr>, r))"
proof -
  obtain body cols where body:
    "columns_write iset revision (unat (rows b)) (column_types b) (column_data b) = Inr body"
    "map fst cols = column_types b" "concat (map snd cols) = column_data b"
    "\<And>r. read_n (length (column_types b)) (column_read tzp revision (unat (rows b))) (body @ r)
       = Inr (cols, r)"
    using read_block_body [OF assms] by blast
  have small: "length (column_types b) < 2 ^ 63" "rows b < 2 ^ 63"
    using assms(2) by (simp_all add: block_ok_def word_less_nat_alt)
  have "unat (word_of_nat (length (column_types b)) :: u64) = length (column_types b)"
    using small(1) by (intro unat_of_nat_u64) simp
  moreover have "read_var_uint (write_var_uint (rows b) @ r) = Inr (rows b, r)" for r
    using small(2) by (simp add: read_var_uint_write take_bit_63)
  ultimately show ?thesis
    using body read_var_uint_small [OF small(1)]
    by (cases "revision = 0")
      (simp_all add: block_put_eq block_write_def block_read_def block_info_written)
qed

definition small_block :: block where
  "small_block = \<lparr>info = default_block_info, rows = 2,
     column_types = [(''id'', UInt8), (''tags'', Array String)],
     column_data = [VUInt8 7, VUInt8 8, VArray [VString [65]], VArray []]\<rparr>"

text \<open>C3. Block round trip: a block whose columns hold values of their types, with names and
  types that have a text, is written without an error at every revision and read back with
  its rows, column names, types and data, leaving what follows the block. A block without
  rows must have no columns or an old revision; the overflow flag is the one thing that is
  not kept.\<close>

theorem block_roundtrip:
  assumes "index_set iset" and "block_ok tzp revision b"
  shows "\<exists>bs. block_write iset revision b = Inr bs \<and> block_put iset revision b = Inr bs
    \<and> (\<forall>r. block_read tzp revision (bs @ r) = Inr
         (b\<lparr>info := (if revision > 0 then (info b)\<lparr>is_overflows := True\<rparr> else default_block_info)\<rparr>, r))"
  by (rule block_written [OF assms])

theorem block_roundtrip_witness:
  "\<exists>bs. block_write first_of_each 54479 small_block = Inr bs \<and> block_put first_of_each 54479 small_block = Inr bs
    \<and> (\<forall>r. block_read (\<lambda>_. None) 54479 (bs @ r) = Inr
         (small_block\<lparr>info := (if (54479 :: nat) > 0 then (info small_block)\<lparr>is_overflows := True\<rparr>
            else default_block_info)\<rparr>, r))"
  by (rule block_roundtrip [OF index_set_first_of_each])
    (simp add: block_ok_def small_block_def header_ok_def wire_str_def utf8_str_def MAX_STRING_SIZE_def
      col_ok_composite leaf_type_def sized_type_def string_type_def item_ok_def array_items_def
      utf8_valid.simps utf8_seq_def safe_get_def)

text \<open>A block without rows that declares a column is not readable at a revision with the
  custom-serialization byte: the writer leaves the byte out, the reader takes it, and the
  stream of a block with one column ends there.\<close>

theorem empty_block_unreadable:
  assumes "wire_str name" and "wire_str (display t)" and "revision \<ge> REV_CUSTOM_SERIALIZATION"
  shows "\<exists>bs. block_write iset revision
      \<lparr>info = i, rows = 0, column_types = [(name, t)], column_data = []\<rparr> = Inr bs
    \<and> block_read tzp revision bs = Inl Io"
proof -
  have 1: "read_utf8_string (write_string (str_bytes (display t))) = Inr (display t, [])"
    using utf8_string.dec_enc [OF assms(2), of "[]"] by simp
  have "revision > 0" using assms(3) by (simp add: REV_CUSTOM_SERIALIZATION_def)
  then show ?thesis
    using assms(3) utf8_string.dec_enc [OF assms(1)] 1
    by (simp add: block_write_def block_read_def drain_def column_write_def column_read_def
        block_info_written)
qed

theorem empty_block_unreadable_witness:
  "\<exists>bs. block_write first_of_each 54454
      \<lparr>info = default_block_info, rows = 0, column_types = [(''a'', UInt8)], column_data = []\<rparr> = Inr bs
    \<and> block_read (\<lambda>_. None) 54454 bs = Inl Io"
  by (rule empty_block_unreadable)
    (simp_all add: REV_CUSTOM_SERIALIZATION_def wire_str_def utf8_str_def MAX_STRING_SIZE_def
      utf8_valid.simps utf8_seq_def safe_get_def)

section \<open>Rows in, rows out\<close>

definition row_at :: "(string \<times> ty \<times> val list) list \<Rightarrow> nat \<Rightarrow> (string \<times> ty \<times> val) list" where
  "row_at cols i = map (\<lambda>(name, t, c). (name, t, c ! i)) cols"

lemma pop_columns_full:
  "list_all (\<lambda>(_, _, c). c \<noteq> []) cols \<Longrightarrow>
     pop_columns cols = (Some (row_at cols 0), map (\<lambda>(name, t, c). (name, t, tl c)) cols)"
  by (induction cols rule: pop_columns.induct) (auto simp: row_at_def split: list.split)

lemma pop_columns_empty: "cols \<noteq> [] \<Longrightarrow> list_all (\<lambda>(_, _, c). c = []) cols \<Longrightarrow> fst (pop_columns cols) = None"
  by (cases cols) auto

lemma all_rows_full:
  "cols \<noteq> [] \<Longrightarrow> list_all (\<lambda>(_, _, c). length c = n) cols \<Longrightarrow> all_rows cols = map (row_at cols) [0..<n]"
proof (induction n arbitrary: cols)
  case 0
  then have "fst (pop_columns cols) = None" by (intro pop_columns_empty) (auto simp: list_all_iff)
  then show ?case
    using "0.prems"(1) by (auto simp: all_rows.simps [of cols] next_row_def split: prod.split)
next
  case (Suc n)
  define tls where "tls = map (\<lambda>(name, t, c :: val list). (name :: string, t :: ty, tl c)) cols"
  have full: "list_all (\<lambda>(_, _, c). c \<noteq> []) cols" using Suc.prems(2) by (auto simp: list_all_iff)
  have "all_rows tls = map (row_at tls) [0..<n]"
    by (rule Suc.IH) (use Suc.prems in \<open>auto simp: tls_def list_all_iff\<close>)
  moreover have "row_at tls i = row_at cols (Suc i)" for i
    unfolding row_at_def tls_def map_map
    by (rule map_cong [OF refl]) (use full in \<open>fastforce simp: list_all_iff neq_Nil_conv\<close>)
  ultimately have "all_rows cols = row_at cols 0 # map (\<lambda>i. row_at cols (Suc i)) [0..<n]"
    using Suc.prems(1) pop_columns_full [OF full]
    by (simp add: all_rows.simps [of cols] next_row_def tls_def)
  moreover have "[0..<Suc n] = 0 # map Suc [0..<n]"
    by (simp add: map_Suc_upt upt_conv_Cons del: upt_Suc)
  ultimately show ?case by (simp add: o_def del: upt_Suc)
qed

lemma take_columns_concat:
  "list_all (\<lambda>c. length c = n) cols \<Longrightarrow> length cols = length schema \<Longrightarrow>
     take_columns n schema (concat cols)
       = Inr (map2 (\<lambda>(name, t) c. (name, strip_low_cardinality t, c)) schema cols)"
proof (induction schema arbitrary: cols)
  case Nil
  then show ?case by simp
next
  case (Cons s schema)
  then obtain c cs where "cols = c # cs" by (cases cols) simp_all
  with Cons show ?case by (cases s) (simp add: drain_def)
qed

text \<open>Pushing a row that gives a value for every column, in order.\<close>

lemma push_value_at:
  "key \<notin> set names1 \<Longrightarrow> length names1 = length cols1 \<Longrightarrow>
     push_value (zip names1 cols1 @ (key, c) # r) key v = Some (zip names1 cols1 @ (key, c @ [v]) # r)"
  by (induction names1 cols1 rule: list_induct2') auto

lemma push_fields_zip:
  assumes "distinct (names1 @ names2)" and "length names1 = length cols1"
    and "length names2 = length cols2" and "length names2 = length row"
    and "\<And>key v. (key, v) \<in> set (zip names2 row) \<Longrightarrow>
      \<exists>c. find (\<lambda>c. fst c = key) schema = Some c \<and> validate_value (snd c) v = Inr ()"
  shows "push_fields schema (zip names1 cols1 @ zip names2 cols2) (zip names2 row)
    = Inr (zip names1 cols1 @ zip names2 (map2 (\<lambda>c v. c @ [v]) cols2 row))"
  using assms
proof (induction names2 arbitrary: names1 cols1 cols2 row)
  case Nil
  then show ?case by simp
next
  case (Cons key names2)
  obtain c cs where cs: "cols2 = c # cs" using Cons.prems(3) by (cases cols2) simp_all
  obtain v vs where vs: "row = v # vs" using Cons.prems(4) by (cases row) simp_all
  obtain s where s: "find (\<lambda>c. fst c = key) schema = Some s" "validate_value (snd s) v = Inr ()"
    using Cons.prems(5) [of key v] vs by auto
  have "push_value (zip names1 cols1 @ (key, c) # zip names2 cs) key v
      = Some (zip names1 cols1 @ (key, c @ [v]) # zip names2 cs)"
    by (rule push_value_at) (use Cons.prems in simp_all)
  moreover have "push_fields schema (zip (names1 @ [key]) (cols1 @ [c @ [v]]) @ zip names2 cs) (zip names2 vs)
      = Inr (zip (names1 @ [key]) (cols1 @ [c @ [v]]) @ zip names2 (map2 (\<lambda>c v. c @ [v]) cs vs))"
    using Cons.prems cs vs by (intro Cons.IH) auto
  ultimately show ?case using s cs vs Cons.prems(2) by simp
qed

lemma find_name: "distinct (map fst schema) \<Longrightarrow> c \<in> set schema \<Longrightarrow> find (\<lambda>d. fst d = fst c) schema = Some c"
  by (induction schema) (auto simp: rev_image_eqI)

text \<open>A row of a schema: one valid value for every column.\<close>

definition row_ok :: "(string \<times> ty) list \<Rightarrow> val list \<Rightarrow> bool" where
  "row_ok schema row \<longleftrightarrow> list_all2 (\<lambda>c v. validate_value (snd c) v = Inr ()) schema row"

lemma row_ok_fields:
  assumes "row_ok schema row" and "distinct (map fst schema)"
    and "(key, v) \<in> set (zip (map fst schema) row)"
  shows "\<exists>c. find (\<lambda>c. fst c = key) schema = Some c \<and> validate_value (snd c) v = Inr ()"
proof -
  obtain i where i: "i < length schema" "i < length row" "key = fst (schema ! i)" "v = row ! i"
    using assms(3) by (auto simp: set_zip)
  then show ?thesis
    using assms(1) find_name [OF assms(2), of "schema ! i"]
    by (auto simp: row_ok_def list_all2_conv_all_nth)
qed

text \<open>The columns of a list of rows.\<close>

definition columns_of :: "nat \<Rightarrow> val list list \<Rightarrow> val list list" where
  "columns_of n rs = map (\<lambda>j. map (\<lambda>row. row ! j) rs) [0..<n]"

lemma push_rows_columns:
  assumes "distinct (map fst schema)"
  shows "list_all (row_ok schema) rs \<Longrightarrow> length cols = length schema \<Longrightarrow>
    push_rows schema (zip (map fst schema) cols) (map (\<lambda>row. Inr (zip (map fst schema) row)) rs)
      = Inr (zip (map fst schema) (map2 (@) cols (columns_of (length schema) rs)))"
proof (induction rs arbitrary: cols)
  case Nil
  have "map2 (@) cols (columns_of (length schema) []) = cols"
    using Nil.prems by (intro nth_equalityI) (simp_all add: columns_of_def)
  then show ?case by simp
next
  case (Cons row rs)
  have row: "row_ok schema row" using Cons.prems(1) by simp
  then have len: "length row = length schema" by (simp add: row_ok_def list_all2_lengthD)
  let ?cols = "map2 (\<lambda>c v. c @ [v]) cols row"
  have "push_fields schema (zip (map fst schema) cols) (zip (map fst schema) row)
      = Inr (zip (map fst schema) ?cols)"
    using push_fields_zip [of "[]" "map fst schema" "[]" cols row schema]
      row_ok_fields [OF row assms] assms Cons.prems(2) len by simp
  moreover have "map2 (@) ?cols (columns_of (length schema) rs)
      = map2 (@) cols (columns_of (length schema) (row # rs))"
    using Cons.prems(2) len by (intro nth_equalityI) (simp_all add: columns_of_def)
  ultimately show ?case
    using Cons.IH [of ?cols] Cons.prems len by simp
qed

text \<open>What \<open>from_rows\<close> relies on in \<open>IndexMap\<close>: keys that differ are iterated as inserted.\<close>

definition index_map :: "(string list \<Rightarrow> string list) \<Rightarrow> bool" where
  "index_map imap \<longleftrightarrow> (\<forall>names. distinct names \<longrightarrow> imap names = names)"

text \<open>C24. Rows in, rows out: \<open>from_rows\<close> on rows that give every column of a schema (with
  distinct names) a value valid for its type builds a block, and \<open>take_iter_rows\<close> on this
  block yields exactly these rows, in order, each value under its column's name and type
  (without the low-cardinality wrapper).\<close>

theorem from_rows_take_iter_rows:
  assumes "index_map imap" and "distinct (map fst schema)" and "schema \<noteq> []"
    and "list_all (row_ok schema) rs" and "length rs < 2 ^ 64"
  shows "\<exists>b cols b'. from_rows imap (map (\<lambda>row. Inr (zip (map fst schema) row)) rs) schema = Inr b
    \<and> take_iter_rows b = Inr (cols, b')
    \<and> all_rows cols = map (\<lambda>row. map2 (\<lambda>(name, t) v. (name, strip_low_cardinality t, v)) schema row) rs"
proof -
  let ?n = "length rs" and ?cs = "columns_of (length schema) rs"
  have lens: "length ?cs = length schema" "list_all (\<lambda>c. length c = ?n) ?cs"
    by (auto simp: columns_of_def list_all_iff)
  have "map (\<lambda>name. (name, [] :: val list)) (map fst schema) = zip (map fst schema) (replicate (length schema) [])"
    by (rule nth_equalityI) simp_all
  moreover have "map2 (@) (replicate (length schema) []) ?cs = ?cs"
    using lens by (intro nth_equalityI) simp_all
  ultimately have push: "push_rows schema (map (\<lambda>name. (name, [])) (map fst schema))
      (map (\<lambda>row. Inr (zip (map fst schema) row)) rs) = Inr (zip (map fst schema) ?cs)"
    using push_rows_columns [OF assms(2,4) length_replicate, of "[]"] by (simp only:)
  define b where "b = \<lparr>info = default_block_info, rows = word_of_nat ?n, column_types = schema,
    column_data = concat ?cs\<rparr>"
  define cols where "cols = map2 (\<lambda>(name, t) c. (name, strip_low_cardinality t, c)) schema ?cs"
  have built: "from_rows imap (map (\<lambda>row. Inr (zip (map fst schema) row)) rs) schema = Inr b"
    using push assms(1,2) lens(1) by (simp add: from_rows_def index_map_def b_def)
  have "unat (rows b) = ?n" using assms(5) by (simp add: b_def unat_of_nat_u64)
  then have take: "take_iter_rows b = Inr (cols, b\<lparr>column_data := []\<rparr>)"
    using take_columns_concat [OF lens(2,1)] by (simp add: take_iter_rows_def cols_def b_def)
  have "cols \<noteq> []" "list_all (\<lambda>(_, _, c). length c = ?n) cols"
    using assms(3) lens by (auto simp: cols_def list_all_iff columns_of_def dest!: set_zip_rightD)
  then have "all_rows cols = map (row_at cols) [0..<?n]" by (rule all_rows_full)
  also have "\<dots> = map (\<lambda>row. map2 (\<lambda>(name, t) v. (name, strip_low_cardinality t, v)) schema row) rs"
  proof (rule nth_equalityI)
    fix i assume "i < length (map (row_at cols) [0..<?n])"
    then have i: "i < ?n" by simp
    then have "length (rs ! i) = length schema"
      using assms(4) nth_mem [OF i]
      by (auto simp: list_all_iff row_ok_def dest: list_all2_lengthD [symmetric])
    then show "map (row_at cols) [0..<?n] ! i
        = map (\<lambda>row. map2 (\<lambda>(name, t) v. (name, strip_low_cardinality t, v)) schema row) rs ! i"
      using i by (auto intro!: nth_equalityI simp: row_at_def cols_def columns_of_def split: prod.split)
  qed simp
  finally show ?thesis using built take by blast
qed

theorem from_rows_take_iter_rows_witness:
  "\<exists>b cols b'. from_rows id (map (\<lambda>row. Inr (zip (map fst [(''a'', UInt8), (''b'', LowCardinality String)]) row))
        [[VUInt8 1, VString [65]], [VUInt8 2, VString []]]) [(''a'', UInt8), (''b'', LowCardinality String)] = Inr b
    \<and> take_iter_rows b = Inr (cols, b')
    \<and> all_rows cols = map (\<lambda>row. map2 (\<lambda>(name, t) v. (name, strip_low_cardinality t, v))
        [(''a'', UInt8), (''b'', LowCardinality String)] row) [[VUInt8 1, VString [65]], [VUInt8 2, VString []]]"
  by (rule from_rows_take_iter_rows)
    (simp_all add: index_map_def row_ok_def validate_value_def low_cardinality_inner_def strip_null_def)

end
