(* ===== verification/Compression.thy ===== *)
theory Compression
  imports BlockIO
begin

text \<open>
  Compressed chunks (compression.rs) and the native format over them (formats/native.rs,
  formats/protocol_data.rs).

  The algorithms are not part of the crate: a record of functions stands for
  \<open>lz4_flex\<close>, \<open>zstd\<close> and \<open>cityhash_rs\<close>. The decompressors get the size the header
  announces.
\<close>

section \<open>Chunks\<close>

record codecs =
  lz4_compress :: "byte list \<Rightarrow> byte list"
  lz4_decompress :: "byte list \<Rightarrow> nat \<Rightarrow> byte list option"
  zstd_compress :: "byte list \<Rightarrow> byte list option"
  zstd_decompress :: "byte list \<Rightarrow> nat \<Rightarrow> byte list option"
  cityhash :: "byte list \<Rightarrow> u128"

text \<open>
  The header and payload the checksum covers. \<open>out.len() as u32 + 9\<close> overflows for a
  length close to \<open>2 ^ 32\<close>.
\<close>

definition chunk_body :: "compression_method \<Rightarrow> byte list \<Rightarrow> nat \<Rightarrow> byte list res" where
  "chunk_body compression out decompressed_size =
     (let n = (word_of_nat (length out) :: u32) in
      if unat n + 9 \<ge> 2 ^ 32 then Inl Panic
      else Inr (compression_byte compression # put_u32 (n + 9)
                @ put_u32 (word_of_nat decompressed_size) @ out))"

definition checksum_bytes :: "u128 \<Rightarrow> byte list" where
  "checksum_bytes hash = put_u64 (ucast (drop_bit 64 hash)) @ put_u64 (ucast hash)"

definition compress_data :: "codecs \<Rightarrow> byte list \<Rightarrow> compression_method \<Rightarrow> byte list res" where
  "compress_data cd raw compression =
     (case compression of
        NoCompression \<Rightarrow> Inr []
      | ZSTD \<Rightarrow>
          (case zstd_compress cd raw of
             None \<Rightarrow> Inl SerializeError
           | Some out \<Rightarrow>
               rbind (chunk_body ZSTD out (length raw)) (\<lambda>new_out.
                 Inr (checksum_bytes (cityhash cd new_out) @ new_out)))
      | LZ4 \<Rightarrow>
          rbind (chunk_body LZ4 (lz4_compress cd raw) (length raw)) (\<lambda>new_out.
            Inr (checksum_bytes (cityhash cd new_out) @ new_out)))"

text \<open>Every read error of the header and the payload becomes \<open>Protocol\<close>.\<close>

definition or_protocol :: "'a reader \<Rightarrow> 'a reader" where
  "or_protocol p s = map_err (\<lambda>_. Protocol) (p s)"

definition decompress_payload ::
  "codecs \<Rightarrow> compression_method \<Rightarrow> byte list \<Rightarrow> nat \<Rightarrow> byte list res" where
  "decompress_payload cd compression payload n =
     (case (case compression of
              LZ4 \<Rightarrow> lz4_decompress cd payload n
            | ZSTD \<Rightarrow> zstd_decompress cd payload n
            | NoCompression \<Rightarrow> None) of
        None \<Rightarrow> Inl DeserializeError
      | Some out \<Rightarrow> Inr out)"

definition decompress_data :: "codecs \<Rightarrow> compression_method \<Rightarrow> byte list reader" where
  "decompress_data cd compression s =
     rbind (or_protocol (read_u64 Io) s) (\<lambda>(checksum_high, s).
     rbind (or_protocol (read_u64 Io) s) (\<lambda>(checksum_low, s).
     rbind (or_protocol (read_u8 Io) s) (\<lambda>(type_byte, s).
     if type_byte \<noteq> compression_byte compression then Inl Protocol
     else rbind (or_protocol (read_u32 Io) s) (\<lambda>(compressed_size, s).
     rbind (or_protocol (read_u32 Io) s) (\<lambda>(decompressed_size, s).
     if unat compressed_size > 100000000 \<or> unat decompressed_size > 1000000000 then Inl Protocol
     else if unat compressed_size < 9 then Inl Panic
     else rbind (or_protocol (read_exact Io (unat compressed_size - 9)) s) (\<lambda>(payload, s).
       let compressed = type_byte # put_u32 compressed_size @ put_u32 decompressed_size @ payload in
       if cityhash cd compressed \<noteq> push_bit 64 (ucast checksum_high) OR ucast checksum_low
       then Inl Protocol
       else rbind (decompress_payload cd compression payload (unat decompressed_size)) (\<lambda>out.
         Inr (out, s))))))))"

section \<open>The native format\<close>

definition no_data :: "block \<Rightarrow> bool" where
  "no_data b \<longleftrightarrow> column_data b = [] \<and> column_types b = []"

definition into_option :: "block \<Rightarrow> block option" where
  "into_option b = (if no_data b then None else Some b)"

definition native_read ::
  "codecs \<Rightarrow> (string \<Rightarrow> tz option) \<Rightarrow> nat \<Rightarrow> compression_method \<Rightarrow> block option reader" where
  "native_read cd tzp revision compression s =
     (if compression = NoCompression then read_as into_option (block_read tzp revision) s
      else rbind (decompress_data cd compression s) (\<lambda>(buffer, s).
        rbind (block_get tzp revision buffer) (\<lambda>(b, _). Inr (into_option b, s))))"

definition native_write ::
  "codecs \<Rightarrow> (val list \<Rightarrow> val list) \<Rightarrow> nat \<Rightarrow> compression_method \<Rightarrow> block \<Rightarrow> byte list res" where
  "native_write cd iset revision compression b =
     (if compression = NoCompression then block_write iset revision b
      else rbind (block_put iset revision b) (\<lambda>buffer. compress_data cd buffer compression))"

section \<open>Chunks are read back and checked\<close>

text \<open>What the code relies on: a decompressor undoes its compressor at the announced size.\<close>

definition codecs_ok :: "codecs \<Rightarrow> bool" where
  "codecs_ok cd \<longleftrightarrow>
     (\<forall>raw. lz4_decompress cd (lz4_compress cd raw) (length raw) = Some raw)
     \<and> (\<forall>raw out. zstd_compress cd raw = Some out \<longrightarrow> zstd_decompress cd out (length raw) = Some raw)"

lemma checksum_word: "push_bit 64 (ucast (ucast (drop_bit 64 h) :: u64)) OR ucast (ucast h :: u64) = (h :: u128)"
  by (rule ucast_halves)

definition compressed_payload :: "codecs \<Rightarrow> compression_method \<Rightarrow> byte list \<Rightarrow> byte list option" where
  "compressed_payload cd compression raw =
     (case compression of
        NoCompression \<Rightarrow> None | ZSTD \<Rightarrow> zstd_compress cd raw | LZ4 \<Rightarrow> Some (lz4_compress cd raw))"

lemma compress_data_payload:
  assumes "compressed_payload cd c raw = Some out" and "length out + 9 < 2 ^ 32"
  shows "\<exists>body. body = compression_byte c # put_u32 (word_of_nat (length out + 9))
      @ put_u32 (word_of_nat (length raw)) @ out
    \<and> compress_data cd raw c = Inr (checksum_bytes (cityhash cd body) @ body)"
proof -
  have "unat (word_of_nat (length out) :: u32) = length out"
    using assms(2) by (simp add: unat_of_nat)
  then have "chunk_body c out (length raw) = Inr (compression_byte c # put_u32 (word_of_nat (length out + 9))
      @ put_u32 (word_of_nat (length raw)) @ out)"
    using assms(2) by (simp add: chunk_body_def add.commute)
  then show ?thesis
    using assms(1) by (cases c) (simp_all add: compress_data_def compressed_payload_def)
qed

lemma or_protocol_Inr [simp]: "p s = Inr x \<Longrightarrow> or_protocol p s = Inr x"
  by (simp add: or_protocol_def)

lemma decompress_compress:
  assumes cd: "codecs_ok cd" and out: "compressed_payload cd c raw = Some out"
    and size: "length out + 9 \<le> 100000000" "length raw \<le> 1000000000"
  shows "\<exists>bs. compress_data cd raw c = Inr bs \<and> (\<forall>r. decompress_data cd c (bs @ r) = Inr (raw, r))"
proof -
  define csize :: u32 where "csize = word_of_nat (length out + 9)"
  define dsize :: u32 where "dsize = word_of_nat (length raw)"
  define body where "body = compression_byte c # put_u32 csize @ put_u32 dsize @ out"
  have bs: "compress_data cd raw c = Inr (checksum_bytes (cityhash cd body) @ body)"
    using compress_data_payload [OF out] size by (simp add: body_def csize_def dsize_def)
  have u32: "n \<le> 1000000000 \<Longrightarrow> unat (word_of_nat n :: u32) = n" for n by (simp add: unat_of_nat)
  have "length out + 9 \<le> 1000000000" using size(1) by simp
  from u32 [OF this] u32 [OF size(2)]
  have n: "unat csize = length out + 9" "unat dsize = length raw"
    unfolding csize_def dsize_def .
  have payload: "decompress_payload cd c out (length raw) = Inr raw"
    using cd out by (cases c) (auto simp: decompress_payload_def codecs_ok_def compressed_payload_def)
  have "decompress_data cd c ((checksum_bytes (cityhash cd body) @ body) @ r) = Inr (raw, r)" for r
    using size payload
    by (simp add: decompress_data_def checksum_bytes_def body_def n checksum_word)
  then show ?thesis using bs by blast
qed

text \<open>Compressed chunks: what LZ4 or ZSTD compression writes is read back to the data and
  the stream after the chunk, for every data whose compressed form is within the limits of
  the reader. The compressors are hypotheses: a decompressor undoes its compressor.\<close>

theorem chunk_roundtrip:
  assumes "codecs_ok cd" and "compressed_payload cd c raw = Some out"
    and "length out + 9 \<le> 100000000" and "length raw \<le> 1000000000"
  shows "\<exists>bs. compress_data cd raw c = Inr bs \<and> (\<forall>r. decompress_data cd c (bs @ r) = Inr (raw, r))"
  by (rule decompress_compress [OF assms])

definition stored :: codecs where
  "stored = \<lparr>lz4_compress = (\<lambda>x. x), lz4_decompress = (\<lambda>x n. if length x = n then Some x else None),
     zstd_compress = Some, zstd_decompress = (\<lambda>x n. Some x), cityhash = (\<lambda>x. word_of_nat (length x))\<rparr>"

lemma codecs_ok_stored: "codecs_ok stored"
  by (simp add: codecs_ok_def stored_def)

theorem chunk_roundtrip_witness:
  "\<exists>bs. compress_data stored [1, 2, 3] LZ4 = Inr bs
     \<and> (\<forall>r. decompress_data stored LZ4 (bs @ r) = Inr ([1, 2, 3], r))"
  by (rule chunk_roundtrip [OF codecs_ok_stored, where out = "[1, 2, 3]"])
    (simp_all add: compressed_payload_def stored_def)

lemma or_protocol_Inr_iff: "or_protocol p s = Inr x \<longleftrightarrow> p s = Inr x"
  by (cases "p s") (simp_all add: or_protocol_def)

text \<open>C26. Integrity: whenever the reader returns decompressed data, the chunk it took from
  the stream carries the method it was asked for and a checksum that equals the hash of the
  whole chunk (type, sizes and payload), its sizes are within the limits, and the data is
  what the decompressor made of exactly this payload at the announced size.\<close>

theorem decompress_checked:
  assumes "decompress_data cd c s = Inr (out, r)"
  shows "\<exists>hi lo csize dsize payload.
    s = put_u64 hi @ put_u64 lo
        @ (compression_byte c # put_u32 csize @ put_u32 dsize @ payload) @ r
    \<and> cityhash cd (compression_byte c # put_u32 csize @ put_u32 dsize @ payload)
        = push_bit 64 (ucast hi) OR ucast lo
    \<and> unat csize = length payload + 9 \<and> unat csize \<le> 100000000 \<and> unat dsize \<le> 1000000000
    \<and> decompress_payload cd c payload (unat dsize) = Inr out"
proof -
  obtain hi s1 lo s2 b s3 csize s4 dsize s5 payload s6 where steps:
    "read_u64 Io s = Inr (hi, s1)" "read_u64 Io s1 = Inr (lo, s2)" "read_u8 Io s2 = Inr (b, s3)"
    "b = compression_byte c" "read_u32 Io s3 = Inr (csize, s4)" "read_u32 Io s4 = Inr (dsize, s5)"
    "unat csize \<le> 100000000" "unat dsize \<le> 1000000000" "\<not> unat csize < 9"
    "read_exact Io (unat csize - 9) s5 = Inr (payload, s6)"
    "cityhash cd (b # put_u32 csize @ put_u32 dsize @ payload) = push_bit 64 (ucast hi) OR ucast lo"
    "decompress_payload cd c payload (unat dsize) = Inr out" "s6 = r"
    using assms
    by (auto simp: decompress_data_def rbind_Inr_iff or_protocol_Inr_iff Let_def split: if_splits)
  have "s = put_u64 hi @ s1" "s1 = put_u64 lo @ s2" "s3 = put_u32 csize @ s4" "s4 = put_u32 dsize @ s5"
    using steps(1,2,5,6) by (auto dest!: read_le_Inr_put)
  moreover have "s2 = b # s3" using steps(3) by (cases s2) auto
  moreover have "s5 = payload @ r" "length payload = unat csize - 9"
    using steps(10,13) by (auto simp: read_exact_Inr_iff)
  ultimately show ?thesis
    using steps by (intro exI [of _ hi] exI [of _ lo] exI [of _ csize] exI [of _ dsize] exI [of _ payload]) simp
qed

theorem decompress_checked_witness:
  "\<exists>hi lo csize dsize payload.
    (put_u64 0 @ put_u64 11 @ [0x82] @ put_u32 11 @ put_u32 2 @ [5, 6]) = put_u64 hi @ put_u64 lo
        @ (compression_byte LZ4 # put_u32 csize @ put_u32 dsize @ payload) @ []
    \<and> cityhash stored (compression_byte LZ4 # put_u32 csize @ put_u32 dsize @ payload)
        = push_bit 64 (ucast hi) OR ucast lo
    \<and> unat csize = length payload + 9 \<and> unat csize \<le> 100000000 \<and> unat dsize \<le> 1000000000
    \<and> decompress_payload stored LZ4 payload (unat dsize) = Inr [5, 6]"
proof (rule decompress_checked)
  have "read_exact Io 2 [5, 6 :: byte] = Inr ([5, 6], [])" by (simp add: read_exact_def)
  then show "decompress_data stored LZ4 (put_u64 0 @ put_u64 11 @ [0x82] @ put_u32 11 @ put_u32 2 @ [5, 6])
      = Inr ([5, 6], [])"
    by (simp add: decompress_data_def stored_def compression_byte_def decompress_payload_def)
qed

text \<open>A chunk header of the right method whose compressed size is below nine makes the
  reader panic: the slice after the nine header bytes is out of range. No checksum is
  needed for that.\<close>

theorem short_chunk_panics:
  assumes "unat csize < 9" and "unat dsize \<le> 1000000000"
  shows "decompress_data cd c (put_u64 hi @ put_u64 lo
    @ (compression_byte c # put_u32 csize @ put_u32 dsize @ r)) = Inl Panic"
  using assms by (simp add: decompress_data_def)

theorem short_chunk_panics_witness:
  "decompress_data stored LZ4 (put_u64 0 @ put_u64 0
    @ (compression_byte LZ4 # put_u32 8 @ put_u32 0 @ [])) = Inl Panic"
  by (rule short_chunk_panics) simp_all

section \<open>Blocks in memory\<close>

fun data_sync_ok :: "nat \<Rightarrow> (string \<times> ty) list \<Rightarrow> val list \<Rightarrow> bool" where
  "data_sync_ok n [] data \<longleftrightarrow> True"
| "data_sync_ok n (c # cs) data \<longleftrightarrow>
     (n > 0 \<longrightarrow> sync_ok (snd c) (take n data)) \<and> data_sync_ok n cs (drop n data)"

lemma get_utf8_string_write:
  "wire_str s \<Longrightarrow> get_utf8_string (write_string (str_bytes s) @ r) = Inr (s, r)"
  by (simp add: get_utf8_string_def try_get_string_eq read_string_write wire_str_def utf8_str_def)

lemma column_got:
  assumes c: "header_ok tzp c" and vals: "length vals = n" "n > 0 \<longrightarrow> col_ok (snd c) vals \<and> sync_ok (snd c) vals"
    and rev: "n = 0 \<longrightarrow> revision < REV_CUSTOM_SERIALIZATION"
  shows "\<exists>bs. column_write iset revision n c vals = Inr bs
    \<and> (\<forall>r. column_get tzp revision n (bs @ r) = Inr ((c, vals), r))"
proof -
  obtain name t where ct: "c = (name, t)" by (cases c)
  have names: "wire_str name" "wire_str (display t)" using c ct by (simp_all add: header_ok_def)
  note head = get_utf8_string_write [OF names(1)] get_utf8_string_write [OF names(2)]
  have parse: "from_str tzp (display t) = Inr t"
    using c ct from_str_display [of tzp t] by (simp add: header_ok_def)
  show ?thesis
  proof (cases "n = 0")
    case True
    then show ?thesis
      using vals(1) rev head parse ct by (simp add: column_write_def column_get_def)
  next
    case False
    then obtain bs where bs: "serialize_column iset t vals = Inr bs"
      "\<And>r. deserialize_column_sync t (length vals) (bs @ r) = Inr (vals, r)"
      using column_rt_sync [of t vals iset] vals ct by (auto elim!: column_rtE)
    have "deserialize_prefix t (serialize_prefix_async t @ r) = Inr ((), r)" for r
      using prefix_roundtrip_both by blast
    then show ?thesis
      using False vals(1) head parse ct bs by (simp add: column_write_def column_get_def)
  qed
qed

lemma columns_got:
  assumes rev: "n = 0 \<longrightarrow> revision < REV_CUSTOM_SERIALIZATION"
  shows "list_all (header_ok tzp) cs \<Longrightarrow> data_ok n cs data \<Longrightarrow> data_sync_ok n cs data \<Longrightarrow>
    \<exists>bs cols. columns_write iset revision n cs data = Inr bs
      \<and> map fst cols = cs \<and> concat (map snd cols) = data
      \<and> (\<forall>r. read_n (length cs) (column_get tzp revision n) (bs @ r) = Inr (cols, r))"
proof (induction cs arbitrary: data)
  case Nil
  then show ?case by simp
next
  case (Cons c cs)
  have c: "header_ok tzp c" "n \<le> length data"
    "n > 0 \<longrightarrow> col_ok (snd c) (take n data) \<and> sync_ok (snd c) (take n data)"
    "list_all (header_ok tzp) cs" "data_ok n cs (drop n data)" "data_sync_ok n cs (drop n data)"
    using Cons.prems by simp_all
  from column_got [OF c(1) _ c(3) rev] c(2)
  obtain b where b: "column_write iset revision n c (take n data) = Inr b"
    "\<And>r. column_get tzp revision n (b @ r) = Inr ((c, take n data), r)" by auto
  obtain bs cols where bs: "columns_write iset revision n cs (drop n data) = Inr bs"
    "map fst cols = cs" "concat (map snd cols) = drop n data"
    "\<And>r. read_n (length cs) (column_get tzp revision n) (bs @ r) = Inr (cols, r)"
    using Cons.IH [OF c(4-6)] by auto
  have "columns_write iset revision n (c # cs) data = Inr (b @ bs)"
    using b(1) bs(1) c(2) by (simp add: drain_def)
  moreover have "read_n (length (c # cs)) (column_get tzp revision n) ((b @ bs) @ r)
      = Inr ((c, take n data) # cols, r)" for r
    using b(2) bs(4) by simp
  ultimately show ?case using bs(2,3) by (intro exI [of _ "b @ bs"] exI [of _ "(c, take n data) # cols"]) simp
qed

text \<open>What a block is read back as.\<close>

definition read_back :: "nat \<Rightarrow> block \<Rightarrow> block" where
  "read_back revision b =
     b\<lparr>info := (if revision > 0 then (info b)\<lparr>is_overflows := True\<rparr> else default_block_info)\<rparr>"

lemma block_got:
  assumes "block_ok tzp revision b" and "data_sync_ok (unat (rows b)) (column_types b) (column_data b)"
  shows "\<exists>bs. block_put iset revision b = Inr bs
    \<and> (\<forall>r. block_get tzp revision (bs @ r) = Inr (read_back revision b, r))"
proof -
  have "\<exists>body cols. columns_write iset revision (unat (rows b)) (column_types b) (column_data b) = Inr body
    \<and> map fst cols = column_types b \<and> concat (map snd cols) = column_data b
    \<and> (\<forall>r. read_n (length (column_types b)) (column_get tzp revision (unat (rows b))) (body @ r)
         = Inr (cols, r))"
  proof (cases "column_types b = []")
    case True
    then show ?thesis using assms(1) by (simp add: block_ok_def)
  next
    case False
    then have "unat (rows b) = 0 \<longrightarrow> revision < REV_CUSTOM_SERIALIZATION"
      using assms(1) by (auto simp: block_ok_def unat_eq_zero)
    then show ?thesis
      using columns_got [of "unat (rows b)" revision tzp "column_types b" "column_data b"] assms
      by (auto simp: block_ok_def)
  qed
  then obtain body cols where body:
    "columns_write iset revision (unat (rows b)) (column_types b) (column_data b) = Inr body"
    "map fst cols = column_types b" "concat (map snd cols) = column_data b"
    "\<And>r. read_n (length (column_types b)) (column_get tzp revision (unat (rows b))) (body @ r)
       = Inr (cols, r)" by blast
  have small: "length (column_types b) < 2 ^ 63" "rows b < 2 ^ 63"
    using assms(1) by (simp_all add: block_ok_def word_less_nat_alt)
  have "unat (word_of_nat (length (column_types b)) :: u64) = length (column_types b)"
    using small(1) by (intro unat_of_nat_u64) simp
  moreover have "read_var_uint (write_var_uint (rows b) @ r) = Inr (rows b, r)" for r
    using small(2) by (simp add: read_var_uint_write take_bit_63)
  ultimately show ?thesis
    using body read_var_uint_small [OF small(1)]
      block_info_written(2) [of "info b", unfolded block_info_put_def put_var_uint_eq]
    by (cases "revision = 0")
      (simp_all add: block_put_eq block_write_def block_get_def block_info_write_def
        try_get_var_uint_eq read_back_def)
qed

lemma native_compressed:
  assumes "codecs_ok cd" and "c \<noteq> NoCompression"
    and "block_ok tzp revision b" and "data_sync_ok (unat (rows b)) (column_types b) (column_data b)"
    and "block_put iset revision b = Inr raw" and "compressed_payload cd c raw = Some out"
    and "length out + 9 \<le> 100000000" and "length raw \<le> 1000000000"
  shows "\<exists>bs. native_write cd iset revision c b = Inr bs
    \<and> (\<forall>r. native_read cd tzp revision c (bs @ r) = Inr (into_option (read_back revision b), r))"
proof -
  obtain bs where bs: "compress_data cd raw c = Inr bs" "\<And>r. decompress_data cd c (bs @ r) = Inr (raw, r)"
    using decompress_compress [OF assms(1,6,7,8)] by blast
  have "block_get tzp revision raw = Inr (read_back revision b, [])"
    using block_got [OF assms(3,4), of iset] assms(5) by (metis append_Nil2 sum.inject(2))
  then show ?thesis
    using assms(2,5) bs by (simp add: native_write_def native_read_def)
qed

text \<open>C25. The native format over compression: a block with columns the in-memory reader
  implements is serialized in memory, compressed and sent, and reading the compressed chunk
  gives the block back (nothing for a block without columns and data), leaving the stream
  after the chunk, within the size limits of a chunk.\<close>

theorem native_compressed_roundtrip:
  assumes "codecs_ok cd" and "c \<noteq> NoCompression"
    and "block_ok tzp revision b" and "data_sync_ok (unat (rows b)) (column_types b) (column_data b)"
    and "block_put iset revision b = Inr raw" and "compressed_payload cd c raw = Some out"
    and "length out + 9 \<le> 100000000" and "length raw \<le> 1000000000"
  shows "\<exists>bs. native_write cd iset revision c b = Inr bs
    \<and> (\<forall>r. native_read cd tzp revision c (bs @ r) = Inr (into_option (read_back revision b), r))"
  by (rule native_compressed [OF assms])

lemma native_uncompressed:
  assumes "index_set iset" and "block_ok tzp revision b"
  shows "\<exists>bs. native_write cd iset revision NoCompression b = Inr bs
    \<and> (\<forall>r. native_read cd tzp revision NoCompression (bs @ r) = Inr (into_option (read_back revision b), r))"
  using block_written [OF assms] by (auto simp: native_write_def native_read_def read_as_def read_back_def)

text \<open>A block the native format carries under a compression, in both directions.\<close>

definition sendable ::
  "codecs \<Rightarrow> (string \<Rightarrow> tz option) \<Rightarrow> (val list \<Rightarrow> val list) \<Rightarrow> nat \<Rightarrow> compression_method \<Rightarrow> block \<Rightarrow> bool" where
  "sendable cd tzp iset revision c b \<longleftrightarrow>
     \<not> no_data b \<and> block_ok tzp revision b
     \<and> (if c = NoCompression then index_set iset
        else codecs_ok cd \<and> data_sync_ok (unat (rows b)) (column_types b) (column_data b)
          \<and> (\<exists>raw out. block_put iset revision b = Inr raw \<and> compressed_payload cd c raw = Some out
               \<and> length out + 9 \<le> 100000000 \<and> length raw \<le> 1000000000))"

lemma no_data_read_back [simp]: "no_data (read_back revision b) = no_data b"
  by (simp add: no_data_def read_back_def)

lemma native_written:
  assumes "sendable cd tzp iset revision c b"
  shows "\<exists>bs. native_write cd iset revision c b = Inr bs
    \<and> (\<forall>r. native_read cd tzp revision c (bs @ r) = Inr (Some (read_back revision b), r))"
  using assms native_compressed [of cd c tzp revision b iset]
    native_uncompressed [of iset tzp revision b cd]
  by (auto simp: sendable_def into_option_def split: if_splits)

text \<open>A block for the witness, and what is written for it.\<close>

definition two_rows :: block where
  "two_rows = \<lparr>info = default_block_info, rows = 2, column_types = [(''a'', UInt8)],
     column_data = [VUInt8 7, VUInt8 9]\<rparr>"

definition two_rows_bytes :: "byte list" where
  "two_rows_bytes = block_info_write default_block_info @ write_var_uint 1 @ write_var_uint 2
     @ write_string [97] @ write_string [85, 73, 110, 116, 56] @ [0, 7, 9]"

lemma two_rows_put: "block_put first_of_each 54479 two_rows = Inr two_rows_bytes"
proof -
  have "serialize_column first_of_each UInt8 [VUInt8 7, VUInt8 9] = Inr [7, 9]"
    by (simp add: serialize_column.simps [of _ UInt8] sized_write_def sized_item_bytes_def justify_null_ref_def)
  moreover have "serialize_prefix_async UInt8 = []"
    by (simp add: serialize_prefix_async.simps [of UInt8])
  ultimately show ?thesis
    by (simp add: block_put_eq block_write_def two_rows_def two_rows_bytes_def drain_def
        column_write_def str_bytes_def revisions)
qed

lemma two_rows_ok:
  "block_ok Some 54479 two_rows"
  "data_sync_ok (unat (rows two_rows)) (column_types two_rows) (column_data two_rows)"
proof -
  have "col_ok UInt8 [VUInt8 7, VUInt8 9]"
    by (simp add: col_ok_composite leaf_type_def sized_type_def string_type_def item_ok_def MAX_STRING_SIZE_def)
  moreover have "header_ok Some (''a'', UInt8)"
    by (simp add: header_ok_def wire_str_def utf8_str_def MAX_STRING_SIZE_def utf8_valid.simps
        utf8_seq_def safe_get_def)
  ultimately show "block_ok Some 54479 two_rows"
    by (simp add: block_ok_def two_rows_def)
  show "data_sync_ok (unat (rows two_rows)) (column_types two_rows) (column_data two_rows)"
    by (simp add: two_rows_def sync_ok.simps [of UInt8])
qed

lemma two_rows_size: "length two_rows_bytes \<le> 100"
  using write_var_uint_length [of 1] write_var_uint_length [of 2] write_var_uint_length [of 0]
    write_var_uint_length [of 5]
  by (simp add: two_rows_bytes_def block_info_write_def write_string_def)

theorem native_compressed_roundtrip_witness:
  "\<exists>bs. native_write stored first_of_each 54479 LZ4 two_rows = Inr bs
    \<and> (\<forall>r. native_read stored Some 54479 LZ4 (bs @ r) = Inr (into_option (read_back 54479 two_rows), r))"
proof (rule native_compressed_roundtrip [OF codecs_ok_stored _ two_rows_ok two_rows_put])
  show "compressed_payload stored LZ4 two_rows_bytes = Some two_rows_bytes"
    by (simp add: compressed_payload_def stored_def)
qed (use two_rows_size in simp_all)

end
