(* ===== verification/ArrowBlock.thy ===== *)
theory ArrowBlock
  imports ArrowBack Compression
begin

text \<open>
  Record batches on the wire: \<open>ProtocolData\<close> for \<open>RecordBatch\<close> (arrow/block.rs), the empty
  block test (formats/protocol_data.rs) and the Arrow format (formats/arrow.rs).

  The source writes and reads a block twice with the same steps, once over an asynchronous
  stream and once in memory; here the steps are one definition over a record of the
  stream's primitives. The state of the deserializer is its list of builders: the fields and
  arrays it also holds are moved out at the end of every block, and an error ends the
  connection that owns the state. The memory that is reserved for the announced columns is
  not modelled, the product that computes it is.
\<close>

section \<open>Streams\<close>

record block_output =
  out_info :: "block_info \<Rightarrow> byte list"
  out_uint :: "u64 \<Rightarrow> byte list"
  out_string :: "byte list \<Rightarrow> byte list"
  out_prefix :: "ty \<Rightarrow> byte list"

definition async_output :: block_output where
  "async_output = \<lparr>out_info = block_info_write, out_uint = write_var_uint, out_string = write_string,
     out_prefix = serialize_prefix_async\<rparr>"

definition bytes_output :: block_output where
  "bytes_output = \<lparr>out_info = block_info_put, out_uint = put_var_uint, out_string = put_string,
     out_prefix = serialize_prefix\<rparr>"

record block_input =
  in_info :: "block_info reader"
  in_uint :: "u64 reader"
  in_string :: "string reader"
  in_u8 :: "byte reader"
  in_prefix :: "ty \<Rightarrow> unit reader"
  in_column :: "ty \<Rightarrow> builder \<Rightarrow> data_type \<Rightarrow> nat \<Rightarrow> byte list \<Rightarrow> arr reader"

definition async_block_input :: "arrow_lib \<Rightarrow> block_input" where
  "async_block_input lib = \<lparr>in_info = block_info_read, in_uint = read_var_uint,
     in_string = read_utf8_string, in_u8 = read_u8 Io, in_prefix = deserialize_prefix_async,
     in_column = deserialize_arrow_async lib\<rparr>"

definition get_lossy_string :: "string reader" where
  "get_lossy_string s = rbind (try_get_string s) (\<lambda>(bs, s). Inr (bytes_str (from_utf8_lossy bs), s))"

definition bytes_block_input :: "arrow_lib \<Rightarrow> block_input" where
  "bytes_block_input lib = \<lparr>in_info = block_info_get, in_uint = try_get_var_uint,
     in_string = get_lossy_string, in_u8 = read_u8 BytesRead, in_prefix = deserialize_prefix,
     in_column = deserialize_arrow lib\<rparr>"

section \<open>Writing a batch\<close>

text \<open>
  The type of a column: the one the header of the insert names, or the one of the Arrow
  field; a geometric type is written as the type it stands for.
\<close>

definition column_type ::
  "(string \<Rightarrow> tz option) \<Rightarrow> (string \<times> ty) list option \<Rightarrow> arrow_options \<Rightarrow> field \<Rightarrow> ty res" where
  "column_type tzp header opts f =
     (let maybe_type = Option.bind header (\<lambda>h. find (\<lambda>c. fst c = field_name f) h) in
      rbind (case maybe_type of
               Some c \<Rightarrow> Inr (snd c)
             | None \<Rightarrow> arrow_to_ch_type tzp (field_type f) (field_nullable f) (Some opts)) (\<lambda>t.
        if is_geo t then (case normalize_geo_type t of Inr u \<Rightarrow> Inr u | Inl _ \<Rightarrow> Inl Panic)
        else Inr t))"

definition batch_column_write ::
  "block_output \<Rightarrow> float_conv \<Rightarrow> nat \<Rightarrow> ty \<Rightarrow> field \<Rightarrow> arr \<Rightarrow> byte list res" where
  "batch_column_write out fc revision t f column =
     rbind (if arr_length column = 0 then Inr []
            else rmap (\<lambda>bs. out_prefix out t @ bs) (serialize_arrow fc t column (field_type f))) (\<lambda>body.
       Inr (out_string out (str_bytes (field_name f)) @ out_string out (str_bytes (display t))
            @ (if revision \<ge> REV_CUSTOM_SERIALIZATION then [0] else []) @ body))"

definition batch_write ::
  "block_output \<Rightarrow> (string \<Rightarrow> tz option) \<Rightarrow> float_conv \<Rightarrow> nat \<Rightarrow> (string \<times> ty) list option
    \<Rightarrow> arrow_options \<Rightarrow> batch \<Rightarrow> byte list res" where
  "batch_write out tzp fc revision header opts b =
     rbind (write_each (\<lambda>(f, column).
              rbind (column_type tzp header opts f) (\<lambda>t.
                batch_column_write out fc revision t f column))
            (zip (batch_fields b) (batch_columns b))) (\<lambda>body.
       Inr ((if revision > 0 then out_info out default_block_info else [])
            @ out_uint out (word_of_nat (length (batch_fields b)))
            @ out_uint out (word_of_nat (batch_rows b)) @ body))"

section \<open>Reading a batch\<close>

text \<open>The builder of a column is made at the first block with rows and kept for the next.\<close>

definition column_builder ::
  "arrow_lib \<Rightarrow> builder list \<Rightarrow> nat \<Rightarrow> ty \<Rightarrow> data_type \<Rightarrow> (builder \<times> builder list) res" where
  "column_builder lib builders i t d =
     (if i < length builders then Inr (builders ! i, builders)
      else rmap (\<lambda>b. (b, builders @ [b])) (try_new lib t d))"

definition batch_column_read ::
  "block_input \<Rightarrow> arrow_lib \<Rightarrow> (string \<Rightarrow> tz option) \<Rightarrow> nat \<Rightarrow> arrow_options \<Rightarrow> nat \<Rightarrow> nat \<Rightarrow> builder list
    \<Rightarrow> ((field \<times> arr) \<times> builder list) reader" where
  "batch_column_read inp lib tzp revision opts n i builders s =
     rbind (in_string inp s) (\<lambda>(name, s).
     rbind (in_string inp s) (\<lambda>(type_name, s).
     rbind (from_str tzp type_name) (\<lambda>internal_type.
     rbind (ch_to_arrow_type (Some opts) internal_type) (\<lambda>(arrow_type, nullable).
     rbind (if revision \<ge> REV_CUSTOM_SERIALIZATION then in_u8 inp s else Inr (0, s)) (\<lambda>(_, s).
       let hint = type_hint internal_type arrow_type;
           f = Field name arrow_type nullable in
       if n > 0 then
         rbind (column_builder lib builders i hint arrow_type) (\<lambda>(b, builders).
         rbind (in_prefix inp hint s) (\<lambda>(_, s).
         rbind (in_column inp hint b arrow_type n [] s) (\<lambda>(a, s). Inr (((f, a), builders), s))))
       else Inr (((f, new_empty lib arrow_type), builders), s))))))"

fun batch_columns_read ::
  "block_input \<Rightarrow> arrow_lib \<Rightarrow> (string \<Rightarrow> tz option) \<Rightarrow> nat \<Rightarrow> arrow_options \<Rightarrow> nat \<Rightarrow> nat \<Rightarrow> nat
    \<Rightarrow> builder list \<Rightarrow> ((field \<times> arr) list \<times> builder list) reader" where
  "batch_columns_read inp lib tzp revision opts n i 0 builders s = Inr (([], builders), s)"
| "batch_columns_read inp lib tzp revision opts n i (Suc k) builders s =
     rbind (batch_column_read inp lib tzp revision opts n i builders s) (\<lambda>((c, builders), s).
     rbind (batch_columns_read inp lib tzp revision opts n (Suc i) k builders s)
       (\<lambda>((cs, builders), s). Inr ((c # cs, builders), s)))"

text \<open>
  The block information is read at every revision; \<open>with_capacity\<close> multiplies the announced
  rows by 16 before anything is read.
\<close>

definition batch_read ::
  "block_input \<Rightarrow> arrow_lib \<Rightarrow> (string \<Rightarrow> tz option) \<Rightarrow> nat \<Rightarrow> arrow_options \<Rightarrow> builder list
    \<Rightarrow> (batch \<times> builder list) reader" where
  "batch_read inp lib tzp revision opts builders s =
     rbind (in_info inp s) (\<lambda>(_, s).
     rbind (in_uint inp s) (\<lambda>(columns, s).
     rbind (in_uint inp s) (\<lambda>(n, s).
       if columns = 0 \<and> n = 0 then
         Inr ((\<lparr>batch_fields = [], batch_columns = [], batch_rows = 0\<rparr>, builders), s)
       else if unat n * 16 \<ge> 2 ^ 64 then Inl Panic
       else
         rbind (batch_columns_read inp lib tzp revision opts (unat n) 0 (unat columns) builders s)
           (\<lambda>((cs, builders), s).
         rbind (batch_new lib (map fst cs) (map snd cs)) (\<lambda>b. Inr ((b, builders), s))))))"

section \<open>The Arrow format\<close>

definition batch_no_data :: "batch \<Rightarrow> bool" where
  "batch_no_data b = (batch_rows b = 0 \<and> batch_columns b = [])"

definition batch_into_option :: "batch \<Rightarrow> batch option" where
  "batch_into_option b = (if batch_no_data b then None else Some b)"

definition arrow_format_write ::
  "codecs \<Rightarrow> (string \<Rightarrow> tz option) \<Rightarrow> float_conv \<Rightarrow> batch \<Rightarrow> (string \<times> ty) list option \<Rightarrow> nat
    \<Rightarrow> compression_method \<Rightarrow> arrow_options \<Rightarrow> byte list res" where
  "arrow_format_write cd tzp fc b header revision compression opts =
     (if compression = NoCompression then batch_write async_output tzp fc revision header opts b
      else rbind (batch_write bytes_output tzp fc revision header opts b) (\<lambda>raw.
        compress_data cd raw compression))"

definition arrow_format_read ::
  "codecs \<Rightarrow> arrow_lib \<Rightarrow> (string \<Rightarrow> tz option) \<Rightarrow> nat \<Rightarrow> compression_method \<Rightarrow> arrow_options
    \<Rightarrow> builder list \<Rightarrow> (batch option \<times> builder list) reader" where
  "arrow_format_read cd lib tzp revision compression opts builders s =
     (if compression = NoCompression then
        read_as (\<lambda>(b, builders). (batch_into_option b, builders))
          (batch_read (async_block_input lib) lib tzp revision opts builders) s
      else rbind (decompress_data cd compression s) (\<lambda>(buffer, s).
        rbind (batch_read (bytes_block_input lib) lib tzp revision opts builders buffer)
          (\<lambda>((b, builders), _). Inr ((batch_into_option b, builders), s))))"

definition finish_deser :: "builder list \<Rightarrow> builder list" where
  "finish_deser builders = []"

section \<open>The types of the text\<close>

lemma strip_null_canonical: "strip_null (canonical t) = canonical (strip_null t)"
  by (cases t) (simp_all add: strip_null_def)

lemma is_nullable_canonical: "is_nullable (canonical t) = is_nullable t"
  by (cases t) (simp_all add: is_nullable_def)

lemma traverse_map_eq:
  "(\<And>x. x \<in> set xs \<Longrightarrow> f (g x) = f x) \<Longrightarrow> traverse f (map g xs) = traverse f xs"
  by (induction xs) simp_all

lemma write_default_canonical: "write_default (canonical t) = write_default t"
proof (induction t rule: write_default.induct)
  case (1 t)
  show ?case
    using "1.IH" traverse_map_eq [of _ write_default canonical]
    by (cases "strip_null t")
      (simp_all add: write_default.simps [of t] write_default.simps [of "canonical t"] strip_null_canonical)
qed

text \<open>The text of a type does not tell its binary types from its string types, nor do its bytes.\<close>

lemma column_parts_canonical:
  "serialize_nulls (canonical t) a = serialize_nulls t a"
  "serialize_binary (canonical t) a = serialize_binary t a"
  "serialize_enum (canonical t) a = serialize_enum t a"
  "serialize_primitive fc (canonical t) a d = serialize_primitive fc t a d"
  by (cases "strip_null t"; simp add: serialize_nulls_def serialize_binary_def serialize_enum_def
      serialize_primitive_def strip_null_canonical)+

lemma write_values_canonical: "write_values w (canonical t) keys dict = write_values w t keys dict"
  by (simp add: write_values_def is_nullable_canonical write_default_canonical)

lemma serialize_low_cardinality_canonical:
  "serialize_low_cardinality w (canonical t) (canonical u) a d = serialize_low_cardinality w t u a d"
  unfolding serialize_low_cardinality_def is_nullable_canonical write_values_canonical by (rule refl)

lemma serialize_arrow_canonical: "serialize_arrow fc (canonical t) a d = serialize_arrow fc t a d"
proof (induction fc t a d rule: serialize_arrow.induct)
  case (1 fc t a d)
  note canon = serialize_arrow.simps [of fc "canonical t"] serialize_arrow.simps [of fc t]
    strip_null_canonical is_nullable_canonical column_parts_canonical
  show ?case
  proof (cases "strip_null t")
    case (LowCardinality u)
    then have "serialize_arrow fc (canonical (strip_null u)) = serialize_arrow fc (strip_null u)"
      using "1.IH" by (intro ext) auto
    then show ?thesis
      by (simp add: canon LowCardinality serialize_low_cardinality_canonical)
  next
    case (Array u)
    then have "serialize_arrow fc (canonical u) = serialize_arrow fc u"
      using "1.IH" by (intro ext) auto
    then show ?thesis by (simp add: canon Array)
  next
    case (Map u v)
    then have "\<not> is_nullable t \<Longrightarrow> serialize_arrow fc (canonical u) = serialize_arrow fc u"
      "\<not> is_nullable t \<Longrightarrow> serialize_arrow fc (canonical v) = serialize_arrow fc v"
      using "1.IH" by (auto intro!: ext)
    then show ?thesis by (simp add: canon Map)
  next
    case (Tuple us)
    then have "\<forall>u \<in> set us. serialize_arrow fc (canonical u) = serialize_arrow fc u"
      using "1.IH" by (auto intro!: ext)
    then have "map (serialize_arrow fc) (map canonical us) = map (serialize_arrow fc) us" by simp
    then show ?thesis by (simp add: canon Tuple del: map_map)
  qed (simp_all add: canon normalize_geo_type_def)
qed

lemma serialize_prefix_canonical: "serialize_prefix_async (canonical t) = serialize_prefix_async t"
proof (induction t)
  case (Tuple ts)
  then show ?case by (simp add: serialize_prefix_eqs cong: map_cong)
qed (simp_all add: serialize_prefix_eqs, simp_all add: serialize_prefix_async.simps)

section \<open>Batches that can be read back\<close>

definition batch_law :: "arrow_lib \<Rightarrow> bool" where
  "batch_law lib =
     (\<forall>fs cols n. cols \<noteq> [] \<and> list_all2 fits_field fs cols \<and> (\<forall>c \<in> set cols. arr_length c = n) \<longrightarrow>
        batch_new lib fs cols = Inr \<lparr>batch_fields = fs, batch_columns = cols, batch_rows = n\<rparr>)"

text \<open>
  A column the other side reads with the type \<open>hint\<close>: the text of the type gives the Arrow
  type of the field back, and the array is one that \<open>hint\<close> describes.
\<close>

definition read_hint :: "ty \<Rightarrow> field \<Rightarrow> ty" where
  "read_hint t f = type_hint (canonical t) (field_type f)"

definition batch_column_ok ::
  "arrow_lib \<Rightarrow> (string \<Rightarrow> tz option) \<Rightarrow> arrow_options \<Rightarrow> nat \<Rightarrow> ty \<Rightarrow> field \<Rightarrow> arr \<Rightarrow> bool" where
  "batch_column_ok lib tzp opts n t f a =
     (wire_str (field_name f) \<and> wire_str (display t) \<and> text_ok tzp t
      \<and> ch_to_arrow_type (Some opts) (canonical t) = Inr (field_type f, field_nullable f)
      \<and> canonical (read_hint t f) = canonical t
      \<and> arr_length a = n \<and> fits_field f a
      \<and> (if n = 0 then a = new_empty lib (field_type f) else arrow_column lib (read_hint t f) (field_type f) a))"

definition batch_ok ::
  "arrow_lib \<Rightarrow> (string \<Rightarrow> tz option) \<Rightarrow> (string \<times> ty) list option \<Rightarrow> arrow_options \<Rightarrow> batch \<Rightarrow> bool" where
  "batch_ok lib tzp header opts b =
     (length (batch_fields b) < 2 ^ 63 \<and> batch_rows b * 16 < 2 ^ 64
      \<and> (batch_columns b = [] \<longrightarrow> batch_rows b = 0)
      \<and> list_all2 (\<lambda>f a. case column_type tzp header opts f of
            Inr t \<Rightarrow> batch_column_ok lib tzp opts (batch_rows b) t f a | Inl _ \<Rightarrow> False)
          (batch_fields b) (batch_columns b))"

text \<open>The builders of the columns, in their order.\<close>

definition field_builder ::
  "arrow_lib \<Rightarrow> (string \<Rightarrow> tz option) \<Rightarrow> (string \<times> ty) list option \<Rightarrow> arrow_options \<Rightarrow> field \<Rightarrow> builder res" where
  "field_builder lib tzp header opts f =
     rbind (column_type tzp header opts f) (\<lambda>t. try_new lib (read_hint t f) (field_type f))"

section \<open>The contract of a stream\<close>

locale batch_stream =
  fixes lib :: arrow_lib and out :: block_output and inp :: block_input
  assumes info: "\<exists>i. in_info inp (out_info out default_block_info @ r) = Inr (i, r)"
    and uint: "n < 2 ^ 63 \<Longrightarrow> in_uint inp (out_uint out (word_of_nat n) @ r) = Inr (word_of_nat n, r)"
    and str: "wire_str x \<Longrightarrow> in_string inp (out_string out (str_bytes x) @ r) = Inr (x, r)"
    and u8: "in_u8 inp (c # r) = Inr (c, r)"
    and prefix: "canonical h = canonical t \<Longrightarrow> in_prefix inp h (out_prefix out t @ r) = Inr ((), r)"
    and column: "arrow_column lib h d a \<Longrightarrow> arrow_lib_ok lib \<Longrightarrow> try_new lib h d = Inr b \<Longrightarrow>
      column_back (serialize_arrow fc h a d) (in_column inp h b d (arr_length a) []) a"
begin

lemma column_back_in_batch:
  assumes ok: "batch_column_ok lib tzp opts n t f a" and lib: "arrow_lib_ok lib"
    and b: "0 < n \<Longrightarrow> column_builder lib builders i (read_hint t f) (field_type f) = Inr (b, builders')"
    and new: "0 < n \<Longrightarrow> try_new lib (read_hint t f) (field_type f) = Inr b"
    and none: "n = 0 \<Longrightarrow> builders' = builders"
  shows "\<exists>bs. batch_column_write out fc revision t f a = Inr bs
    \<and> (\<forall>r. batch_column_read inp lib tzp revision opts n i builders (bs @ r) = Inr (((f, a), builders'), r))"
proof -
  have c: "wire_str (field_name f)" "wire_str (display t)" "from_str tzp (display t) = Inr (canonical t)"
    "ch_to_arrow_type (Some opts) (canonical t) = Inr (field_type f, field_nullable f)"
    "canonical (read_hint t f) = canonical t" "arr_length a = n"
    using ok from_str_display by (simp_all add: batch_column_ok_def)
  have f: "Field (field_name f) (field_type f) (field_nullable f) = f" by (cases f) simp
  note head = str [OF c(1)] str [OF c(2)] c(3,4) u8 f
  show ?thesis
  proof (cases "n = 0")
    case True
    then have "a = new_empty lib (field_type f)" using ok by (simp add: batch_column_ok_def)
    then show ?thesis
      using True c(6) none head
      by (simp add: batch_column_write_def batch_column_read_def Let_def)
  next
    case False
    then have "arrow_column lib (read_hint t f) (field_type f) a"
      using ok by (simp add: batch_column_ok_def)
    from column [OF this lib new, of fc] False
    obtain bs where bs: "serialize_arrow fc (read_hint t f) a (field_type f) = Inr bs"
      "\<And>r. in_column inp (read_hint t f) b (field_type f) n [] (bs @ r) = Inr (a, r)"
      by (auto simp: column_back_def c(6))
    have "serialize_arrow fc t a (field_type f) = Inr bs"
      using bs(1) serialize_arrow_canonical [of fc t] serialize_arrow_canonical [of fc "read_hint t f"]
      by (simp add: c(5))
    then show ?thesis
      using False c(6) b head bs(2) prefix [OF c(5)]
      by (simp add: batch_column_write_def batch_column_read_def Let_def read_hint_def)
  qed
qed

lemma builder_at:
  assumes "i < length bs" and "try_new lib t d = Inr (bs ! i)"
  shows "column_builder lib (take (max m i) bs) i t d = Inr (bs ! i, take (max m (Suc i)) bs)"
proof (cases "i < m")
  case True
  then have "max m i = m" "max m (Suc i) = m" by simp_all
  then show ?thesis using assms(1) True by (simp add: column_builder_def)
next
  case False
  then have "max m i = i" "max m (Suc i) = Suc i" by simp_all
  then show ?thesis using assms by (simp add: column_builder_def take_Suc_conv_app_nth)
qed

lemma columns_back:
  assumes lib: "arrow_lib_ok lib"
    and "list_all2 (\<lambda>f a. case column_type tzp header opts f of
            Inr t \<Rightarrow> batch_column_ok lib tzp opts n t f a | Inl _ \<Rightarrow> False) fs cols"
    and "0 < n \<Longrightarrow> i + length fs \<le> length bs
      \<and> (\<forall>j < length fs. field_builder lib tzp header opts (fs ! j) = Inr (bs ! (i + j)))"
  shows "\<exists>body. write_each (\<lambda>(f, column). rbind (column_type tzp header opts f) (\<lambda>t.
              batch_column_write out fc revision t f column)) (zip fs cols) = Inr body
    \<and> (\<forall>r. batch_columns_read inp lib tzp revision opts n i (length fs)
             (if 0 < n then take (max m i) bs else st) (body @ r)
           = Inr ((zip fs cols, if 0 < n then take (max m (i + length fs)) bs else st), r))"
  using assms(2,3)
proof (induction fs arbitrary: cols i)
  case Nil
  then show ?case by simp
next
  case (Cons f fs)
  obtain a as where cols: "cols = a # as" and rest: "list_all2 (\<lambda>f a. case column_type tzp header opts f of
      Inr t \<Rightarrow> batch_column_ok lib tzp opts n t f a | Inl _ \<Rightarrow> False) fs as"
    using Cons.prems(1) by (auto simp: list_all2_Cons1)
  obtain t where t: "column_type tzp header opts f = Inr t" "batch_column_ok lib tzp opts n t f a"
    using Cons.prems(1) by (auto simp: cols split: sum.splits)
  let ?st = "\<lambda>i. if 0 < n then take (max m i) bs else st"
  have new: "try_new lib (read_hint t f) (field_type f) = Inr (bs ! i)" "i < length bs" if "0 < n"
    using Cons.prems(2) that by (auto simp: field_builder_def t(1) dest: spec [of _ 0])
  have "\<exists>b. batch_column_write out fc revision t f a = Inr b
    \<and> (\<forall>r. batch_column_read inp lib tzp revision opts n i (?st i) (b @ r) = Inr (((f, a), ?st (Suc i)), r))"
    by (rule column_back_in_batch [OF t(2) lib, where b = "bs ! i"])
      (simp_all add: new builder_at [OF new(2,1)])
  moreover have "\<exists>body. write_each (\<lambda>(f, column). rbind (column_type tzp header opts f) (\<lambda>t.
              batch_column_write out fc revision t f column)) (zip fs as) = Inr body
    \<and> (\<forall>r. batch_columns_read inp lib tzp revision opts n (Suc i) (length fs) (?st (Suc i)) (body @ r)
           = Inr ((zip fs as, ?st (Suc i + length fs)), r))"
  proof (rule Cons.IH [OF rest])
    assume "0 < n"
    then have p: "i + length (f # fs) \<le> length bs"
      "\<And>j. j < length (f # fs) \<Longrightarrow> field_builder lib tzp header opts ((f # fs) ! j) = Inr (bs ! (i + j))"
      using Cons.prems(2) by blast+
    show "Suc i + length fs \<le> length bs
      \<and> (\<forall>j < length fs. field_builder lib tzp header opts (fs ! j) = Inr (bs ! (Suc i + j)))"
      using p(1) p(2) [of "Suc j" for j] by auto
  qed
  ultimately show ?case by (auto simp: cols t(1))
qed

lemma batch_back:
  assumes lib: "arrow_lib_ok lib" "batch_law lib" and ok: "batch_ok lib tzp header opts b"
    and bs: "traverse (field_builder lib tzp header opts) (batch_fields b) = Inr bs"
    and st: "builders = take m bs" and rev: "0 < revision"
  shows "\<exists>out_bytes. batch_write out tzp fc revision header opts b = Inr out_bytes
    \<and> (\<forall>r. batch_read inp lib tzp revision opts builders (out_bytes @ r)
         = Inr ((b, if 0 < batch_rows b then bs else builders), r))"
proof -
  let ?n = "batch_rows b" and ?fs = "batch_fields b" and ?cols = "batch_columns b"
  have len: "length bs = length ?fs"
    "\<And>j. j < length ?fs \<Longrightarrow> field_builder lib tzp header opts (?fs ! j) = Inr (bs ! j)"
    using bs [unfolded traverse_Inr_nth] by auto
  have good: "list_all2 (\<lambda>f a. fits_field f a \<and> arr_length a = ?n) ?fs ?cols"
    using ok unfolding batch_ok_def
    by (elim conjE list_all2_mono) (auto simp: batch_column_ok_def split: sum.splits)
  then have cols: "length ?cols = length ?fs" "list_all2 fits_field ?fs ?cols"
    "\<And>c. c \<in> set ?cols \<Longrightarrow> arr_length c = ?n"
    by (auto simp: list_all2_conv_all_nth in_set_conv_nth)
  define wr where "wr = (\<lambda>(f, column). rbind (column_type tzp header opts f) (\<lambda>t.
              batch_column_write out fc revision t f column))"
  define start where "start = (if 0 < ?n then take (max m 0) bs else builders)"
  define finish where "finish = (if 0 < ?n then take (max m (0 + length ?fs)) bs else builders)"
  have "\<exists>body. write_each wr (zip ?fs ?cols) = Inr body
    \<and> (\<forall>r. batch_columns_read inp lib tzp revision opts ?n 0 (length ?fs) start (body @ r)
         = Inr ((zip ?fs ?cols, finish), r))"
    unfolding wr_def start_def finish_def
    by (rule columns_back [OF lib(1)]) (use ok len in \<open>simp_all add: batch_ok_def\<close>)
  then obtain body where body: "write_each wr (zip ?fs ?cols) = Inr body"
    "\<And>r. batch_columns_read inp lib tzp revision opts ?n 0 (length ?fs) start (body @ r)
         = Inr ((zip ?fs ?cols, finish), r)"
    by blast
  have sizes: "length ?fs < 2 ^ 63" "?n < 2 ^ 63" "?n * 16 < 2 ^ 64"
    using ok by (simp_all add: batch_ok_def)
  then have words: "unat (word_of_nat (length ?fs) :: u64) = length ?fs" "unat (word_of_nat ?n :: u64) = ?n"
    by (simp_all add: unsigned_of_nat take_bit_nat_eq_self)
  have zero: "(word_of_nat (length ?fs) :: u64) = 0 \<longleftrightarrow> ?fs = []" "(word_of_nat ?n :: u64) = 0 \<longleftrightarrow> ?n = 0"
    using words by (simp_all flip: unat_eq_zero)
  have state: "start = builders" "finish = (if 0 < ?n then bs else builders)"
    by (simp_all add: st start_def finish_def len(1))
  have fin: "?fs = [] \<Longrightarrow> ?n = 0 \<and> ?cols = []"
    using ok cols(1) by (simp add: batch_ok_def)
  have new: "batch_new lib ?fs ?cols = Inr b" if "?cols \<noteq> []"
  proof -
    have "batch_new lib ?fs ?cols = Inr \<lparr>batch_fields = ?fs, batch_columns = ?cols, batch_rows = ?n\<rparr>"
      using lib(2) cols that unfolding batch_law_def by blast
    then show ?thesis by simp
  qed
  have w: "batch_write out tzp fc revision header opts b
    = Inr (out_info out default_block_info @ out_uint out (word_of_nat (length ?fs))
        @ out_uint out (word_of_nat ?n) @ body)"
    using rev body(1) by (simp add: batch_write_def wr_def)
  have "batch_read inp lib tzp revision opts builders
      ((out_info out default_block_info @ out_uint out (word_of_nat (length ?fs))
        @ out_uint out (word_of_nat ?n) @ body) @ r) = Inr ((b, finish), r)" for r
  proof -
    obtain i where "in_info inp (out_info out default_block_info @ out_uint out (word_of_nat (length ?fs))
        @ out_uint out (word_of_nat ?n) @ body @ r)
      = Inr (i, out_uint out (word_of_nat (length ?fs)) @ out_uint out (word_of_nat ?n) @ body @ r)"
      using info by blast
    note head = this uint [OF sizes(1)] uint [OF sizes(2)]
    show ?thesis
    proof (cases "?fs = []")
      case True
      then have "?n = 0" "?cols = []" "finish = builders" "body = []"
        using fin state(2) body(1) by (simp_all add: wr_def)
      then show ?thesis using head True by (cases b) (simp add: batch_read_def)
    next
      case False
      then have "?cols \<noteq> []" using cols(1) by force
      then show ?thesis
        using head zero words sizes(3) body(2) [of r] new cols(1) state(1) False
        by (auto simp: batch_read_def)
    qed
  qed
  then show ?thesis using w state(2) by simp
qed

end

section \<open>The two streams of the crate\<close>

lemma info_written:
  "\<exists>i. block_info_read (block_info_write x @ r) = Inr (i, r)"
  "\<exists>i. block_info_get (block_info_put x @ r) = Inr (i, r)"
  by (simp_all add: block_info_written)

lemma prefix_written:
  assumes "canonical h = canonical t"
  shows "deserialize_prefix_async h (serialize_prefix_async t @ r) = Inr ((), r)"
    and "deserialize_prefix h (serialize_prefix t @ r) = Inr ((), r)"
proof -
  have "serialize_prefix_async t = serialize_prefix_async h"
    using serialize_prefix_canonical [of t] serialize_prefix_canonical [of h] assms by simp
  then show "deserialize_prefix_async h (serialize_prefix_async t @ r) = Inr ((), r)"
    "deserialize_prefix h (serialize_prefix t @ r) = Inr ((), r)"
    using prefix_roundtrip_both [of t] prefix_roundtrip_both [of h] by simp_all
qed

lemma get_lossy_string_write:
  assumes "wire_str x"
  shows "get_lossy_string (write_string (str_bytes x) @ r) = Inr (x, r)"
proof -
  have "utf8_valid (str_bytes x)" "length (str_bytes x) \<le> MAX_STRING_SIZE"
    using assms by (simp_all add: wire_str_def utf8_str_def)
  then show ?thesis
    by (simp add: get_lossy_string_def try_get_string_eq read_string_write from_utf8_lossy_valid)
qed

interpretation async_stream: batch_stream lib async_output "async_block_input lib" for lib
proof
  show "\<exists>i. in_info (async_block_input lib) (out_info async_output default_block_info @ r) = Inr (i, r)" for r
    using info_written(1) by (simp add: async_block_input_def async_output_def)
  show "n < 2 ^ 63 \<Longrightarrow> in_uint (async_block_input lib) (out_uint async_output (word_of_nat n) @ r)
    = Inr (word_of_nat n, r)" for n r
    using read_var_uint_small [of n r] by (simp add: async_block_input_def async_output_def)
  show "wire_str x \<Longrightarrow> in_string (async_block_input lib) (out_string async_output (str_bytes x) @ r) = Inr (x, r)"
    for x r
    using utf8_string.dec_enc by (simp add: async_block_input_def async_output_def)
  show "in_u8 (async_block_input lib) (c # r) = Inr (c, r)" for c r
    by (simp add: async_block_input_def)
  show "canonical h = canonical t \<Longrightarrow>
    in_prefix (async_block_input lib) h (out_prefix async_output t @ r) = Inr ((), r)" for h t r
    using prefix_written(1) by (simp add: async_block_input_def async_output_def)
  show "arrow_column lib h d a \<Longrightarrow> arrow_lib_ok lib \<Longrightarrow> try_new lib h d = Inr b \<Longrightarrow>
      column_back (serialize_arrow fc h a d) (in_column (async_block_input lib) h b d (arr_length a) []) a"
    for h d a b fc
    using async_reader.column_back_all by (simp add: async_block_input_def)
qed

interpretation bytes_stream: batch_stream lib bytes_output "bytes_block_input lib" for lib
proof
  show "\<exists>i. in_info (bytes_block_input lib) (out_info bytes_output default_block_info @ r) = Inr (i, r)" for r
    using info_written(2) by (simp add: bytes_block_input_def bytes_output_def)
  show "n < 2 ^ 63 \<Longrightarrow> in_uint (bytes_block_input lib) (out_uint bytes_output (word_of_nat n) @ r)
    = Inr (word_of_nat n, r)" for n r
    using read_var_uint_small [of n r]
    by (simp add: bytes_block_input_def bytes_output_def try_get_var_uint_eq map_err_def)
  show "wire_str x \<Longrightarrow> in_string (bytes_block_input lib) (out_string bytes_output (str_bytes x) @ r) = Inr (x, r)"
    for x r
    using get_lossy_string_write by (simp add: bytes_block_input_def bytes_output_def)
  show "in_u8 (bytes_block_input lib) (c # r) = Inr (c, r)" for c r
    by (simp add: bytes_block_input_def)
  show "canonical h = canonical t \<Longrightarrow>
    in_prefix (bytes_block_input lib) h (out_prefix bytes_output t @ r) = Inr ((), r)" for h t r
    using prefix_written(2) by (simp add: bytes_block_input_def bytes_output_def)
  show "arrow_column lib h d a \<Longrightarrow> arrow_lib_ok lib \<Longrightarrow> try_new lib h d = Inr b \<Longrightarrow>
      column_back (serialize_arrow fc h a d) (in_column (bytes_block_input lib) h b d (arr_length a) []) a"
    for h d a b fc
    using sync_reader.column_back_all by (simp add: bytes_block_input_def)
qed

text \<open>C4. Record batches: a batch whose columns the driver can read is written at every
  revision from 1 on, and read back with its schema and arrays, leaving what follows: by
  either writer and reader, from fresh builders or from the builders that an earlier block of
  the same columns left behind. The builders are afterwards those of the columns.\<close>

theorem batch_roundtrip:
  assumes "arrow_lib_ok lib" and "batch_law lib" and "batch_ok lib tzp header opts b"
    and "traverse (field_builder lib tzp header opts) (batch_fields b) = Inr bs"
    and "builders = take m bs" and "0 < revision"
  shows "(\<exists>stream. batch_write async_output tzp fc revision header opts b = Inr stream
      \<and> (\<forall>r. batch_read (async_block_input lib) lib tzp revision opts builders (stream @ r)
           = Inr ((b, if 0 < batch_rows b then bs else builders), r)))
    \<and> (\<exists>stream. batch_write bytes_output tzp fc revision header opts b = Inr stream
      \<and> (\<forall>r. batch_read (bytes_block_input lib) lib tzp revision opts builders (stream @ r)
           = Inr ((b, if 0 < batch_rows b then bs else builders), r)))"
  using async_stream.batch_back [OF assms] bytes_stream.batch_back [OF assms] by blast

lemma checked_arrow_batches: "batch_law checked_arrow"
  by (auto simp: batch_law_def checked_arrow_def list_all_iff)

text \<open>Two rows: an integer and a nullable binary string.\<close>

definition id_name_batch :: batch where
  "id_name_batch = \<lparr>batch_fields = [Field ''id'' DInt32 False, Field ''name'' DBinary True],
     batch_columns = [AInt I32 [Some 7, Some (-1)], ABytes KBinary [Some [104], None]], batch_rows = 2\<rparr>"

lemma id_name_types:
  "column_type tzp None arrow_options_new (Field ''id'' DInt32 False) = Inr Int32"
  "column_type tzp None arrow_options_new (Field ''name'' DBinary True) = Inr (Nullable Binary)"
  "read_hint Int32 (Field ''id'' DInt32 False) = Int32"
  "read_hint (Nullable Binary) (Field ''name'' DBinary True) = Nullable Binary"
  by (simp_all add: column_type_def arrow_to_ch_type.simps wrap_nullable_def arrow_options_new_def
      is_geo_def read_hint_def type_hint_def normalize_type.simps strip_null_def is_nullable_def any_binary_def)

lemma id_name_ok: "batch_ok checked_arrow tzp None arrow_options_new id_name_batch"
proof -
  have "batch_column_ok checked_arrow tzp arrow_options_new 2 Int32 (Field ''id'' DInt32 False)
    (AInt I32 [Some 7, Some (-1)])"
    by (auto simp: batch_column_ok_def id_name_types ch_to_arrow_type.simps strip_null_def is_nullable_def
        fits_field_def int_type_def wire_str_def utf8_str_def MAX_STRING_SIZE_def utf8_valid.simps
        utf8_seq_def safe_get_def leaf_array_def slots_ok_def in_kind_def int_signed_def int_bytes_def
        has_null_def slots_null_def intro!: arrow_column.leaf)
  moreover have "batch_column_ok checked_arrow tzp arrow_options_new 2 (Nullable Binary)
    (Field ''name'' DBinary True) (ABytes KBinary [Some [104], None])"
    by (auto simp: batch_column_ok_def id_name_types ch_to_arrow_type.simps strip_null_def is_nullable_def
        fits_field_def bytes_type_def wire_str_def utf8_str_def MAX_STRING_SIZE_def utf8_valid.simps
        utf8_seq_def safe_get_def leaf_array_def slots_ok_def arrow_options_new_def
        intro!: arrow_column.nullable)
  ultimately show ?thesis by (simp add: batch_ok_def id_name_batch_def id_name_types)
qed

theorem batch_roundtrip_witness:
  "(\<exists>stream. batch_write async_output (\<lambda>_. None) no_floats 54479 None arrow_options_new id_name_batch = Inr stream
      \<and> (\<forall>r. batch_read (async_block_input checked_arrow) checked_arrow (\<lambda>_. None) 54479 arrow_options_new
             [] (stream @ r) = Inr ((id_name_batch, [BInt I32, BBinary]), r)))
    \<and> (\<exists>stream. batch_write bytes_output (\<lambda>_. None) no_floats 54479 None arrow_options_new id_name_batch = Inr stream
      \<and> (\<forall>r. batch_read (bytes_block_input checked_arrow) checked_arrow (\<lambda>_. None) 54479 arrow_options_new
             [] (stream @ r) = Inr ((id_name_batch, [BInt I32, BBinary]), r)))"
proof -
  have builders: "traverse (field_builder checked_arrow (\<lambda>_. None) None arrow_options_new)
      (batch_fields id_name_batch) = Inr [BInt I32, BBinary]"
    by (simp add: id_name_batch_def field_builder_def id_name_types try_new.simps strip_null_def)
  have rows: "(if 0 < batch_rows id_name_batch then [BInt I32, BBinary] else []) = [BInt I32, BBinary]"
    by (simp add: id_name_batch_def)
  have "[] = take 0 [BInt I32, BBinary]" "0 < (54479 :: nat)" by simp_all
  from batch_roundtrip [OF checked_arrow_ok checked_arrow_batches id_name_ok builders this]
  show ?thesis unfolding rows .
qed

section \<open>The Arrow format\<close>

text \<open>The format, with and without compression: a batch with columns comes back, a batch
  without columns and rows is nothing.\<close>

lemma arrow_format_back:
  assumes "arrow_lib_ok lib" and "batch_law lib" and "batch_ok lib tzp header opts b"
    and "traverse (field_builder lib tzp header opts) (batch_fields b) = Inr bs"
    and "builders = take m bs" and "0 < revision"
    and "batch_write bytes_output tzp fc revision header opts b = Inr raw"
    and "c \<noteq> NoCompression \<Longrightarrow> codecs_ok cd \<and> compressed_payload cd c raw = Some out
      \<and> length out + 9 \<le> 100000000 \<and> length raw \<le> 1000000000"
  shows "\<exists>stream. arrow_format_write cd tzp fc b header revision c opts = Inr stream
    \<and> (\<forall>r. arrow_format_read cd lib tzp revision c opts builders (stream @ r)
         = Inr ((batch_into_option b, if 0 < batch_rows b then bs else builders), r))"
proof (cases "c = NoCompression")
  case True
  then show ?thesis
    using async_stream.batch_back [OF assms(1-6), of fc]
    by (auto simp: arrow_format_write_def arrow_format_read_def read_as_def)
next
  case False
  then obtain stream where stream: "compress_data cd raw c = Inr stream"
    "\<And>r. decompress_data cd c (stream @ r) = Inr (raw, r)"
    using decompress_compress assms(8) by blast
  have "\<And>r. batch_read (bytes_block_input lib) lib tzp revision opts builders (raw @ r)
      = Inr ((b, if 0 < batch_rows b then bs else builders), r)"
    using bytes_stream.batch_back [OF assms(1-6), of fc] assms(7) by auto
  from this [of "[]"] have "batch_read (bytes_block_input lib) lib tzp revision opts builders raw
      = Inr ((b, if 0 < batch_rows b then bs else builders), [])" by simp
  then show ?thesis
    using False assms(7) stream by (simp add: arrow_format_write_def arrow_format_read_def)
qed

text \<open>
  At revision 0 the writer leaves the block information out and the reader still reads it:
  nothing that is written there is read as a batch of its own columns.
\<close>

lemma revision_zero_info:
  "batch_write out tzp fc 0 header opts b = Inr bytes \<Longrightarrow>
     \<exists>body. bytes = out_uint out (word_of_nat (length (batch_fields b)))
        @ out_uint out (word_of_nat (batch_rows b)) @ body"
  by (auto simp: batch_write_def rbind_Inr_iff)

text \<open>
  A geometric column cannot be read into a batch with rows: its type reaches the builder as it
  is, and the builder is not implemented for it.
\<close>

lemma geo_column_panics:
  assumes "is_geo t" and "length builders \<le> i"
  shows "column_builder lib builders i (type_hint t d) d = Inl Panic"
  using assms
  by (cases t) (auto simp: is_geo_def type_hint_def normalize_type.simps strip_null_def column_builder_def
      try_new.simps is_nullable_def)

end
