(* ===== verification/ArrowLimits.thy ===== *)
theory ArrowLimits
  imports ArrowBack
begin

text \<open>
  Arrow columns that do not come back as they were sent, or not at all: slices of lists,
  UUIDs and IPv4 addresses, enums, dictionaries with a null, empty parts of an array,
  date-times before 1970 and wide integers made from narrow ones.
\<close>

section \<open>Sixteen and four bytes\<close>

lemma uuid_halves_drop: "length b = 16 \<Longrightarrow> uuid_halves b = drop 8 b @ take 8 b"
  by (simp add: uuid_halves_def put_le_le_nat)

text \<open>A UUID: the writer swaps its halves, the readers take the bytes as they come.\<close>

lemma uuid_halves_swapped:
  assumes "length u = 16"
  shows "serialize_arrow fc Uuid (AFixed 16 [Some u]) d = Inr (drop 8 u @ take 8 u)"
    and "deserialize_arrow_async lib Uuid (BFixedSizeBinary 16) d 1 [] (drop 8 u @ take 8 u)
      = Inr (AFixed 16 [Some (drop 8 u @ take 8 u)], [])"
    and "deserialize_arrow lib Uuid (BFixedSizeBinary 16) d 1 [] (drop 8 u @ take 8 u)
      = Inr (AFixed 16 [Some (drop 8 u @ take 8 u)], [])"
  using assms
  by (simp_all add: serialize_arrow.simps deserialize_arrow_async.simps deserialize_arrow.simps
      strip_null_def is_nullable_def normalize_geo_type_def serialize_primitive_def write_uuid_values_def
      write_coerced_def exactly_def uuid_halves_drop deserialize_binary_def deserialize_fixed_def
      fixed_item_def read_rows_def read_exact_def masked_def append_fixed_def usize_small unnull_def)

text \<open>An IPv4 address: the writer sends its bytes in their order, the readers reverse them.\<close>

lemma ipv4_reversed:
  assumes "length u = 4"
  shows "serialize_arrow fc Ipv4 (AFixed 4 [Some u]) d = Inr u"
    and "deserialize_arrow_async lib Ipv4 (BFixedSizeBinary 4) d 1 [] u = Inr (AFixed 4 [Some (rev u)], [])"
    and "deserialize_arrow lib Ipv4 (BFixedSizeBinary 4) d 1 [] u = Inr (AFixed 4 [Some (rev u)], [])"
  using assms
  by (simp_all add: serialize_arrow.simps deserialize_arrow_async.simps deserialize_arrow.simps
      strip_null_def is_nullable_def normalize_geo_type_def serialize_primitive_def write_ipv4_values_def
      write_coerced_def exactly_def put_le_le_nat deserialize_binary_def deserialize_fixed_def
      fixed_item_def read_rows_def read_as_def read_le_def read_exact_def masked_def append_fixed_def
      usize_small unnull_def)

section \<open>Slices\<close>

text \<open>
  A slice of a list array keeps the child of the whole array: the offsets after the first are
  sent as they are, with all the items of the child.
\<close>

lemma list_slice_written:
  assumes "serialize_arrow fc t child (field_type f) = Inr items"
  shows "serialize_arrow fc (Array t) (AList k g (x # os) child v) (DList f)
    = Inr (concat (map (int_le 8) os) @ items)"
  using assms by (simp add: serialize_parts serialize_list_def unwrap_array_data_type_def list_item_def
      tail_offsets_def)

text \<open>C32. A sliced list column is sent wrongly: of an array of lists of 32-bit integers whose
  rows are the lists from position \<open>m\<close> on, the first row is read back with the \<open>m\<close> items
  before it in front, because the offsets are not taken relative to the first one and the
  whole child is sent.\<close>

theorem sliced_list_grows:
  assumes "arrow_lib_ok lib" and "slots_ok (in_kind I32) xs" and "\<not> has_null (AInt I32 xs)"
    and "length xs < 2 ^ 31" and "m \<le> length xs"
    and "f = Field LIST_ITEM_FIELD_NAME DInt32 False"
  shows "\<exists>bs. serialize_arrow fc (Array Int32) (AList KList f [int m, int (length xs)] (AInt I32 xs) None) (DList f)
      = Inr bs
    \<and> deserialize_arrow_async lib (Array Int32) (BList (BInt I32)) (DList f) 1 [] bs
      = Inr (AList KList f [0, int (length xs)] (AInt I32 xs) None, [])"
proof -
  have leaf: "arrow_column lib Int32 DInt32 (AInt I32 xs)"
    by (rule arrow_column.leaf) (simp_all add: leaf_array_def assms(2,3))
  have f: "field_type f = DInt32" using assms(6) by simp
  have "arrow_column lib (Array Int32) (DList f) (AList KList f [0, int (length xs)] (AInt I32 xs) None)"
    by (rule arrow_column.list [where f = f])
      (use leaf assms(4,6) in \<open>simp_all add: offsets_ok_def offset_bound_def int_type_def is_nullable_def
        strip_low_cardinality_def\<close>)
  moreover have "try_new lib (Array Int32) (DList f) = Inr (BList (BInt I32))"
    by (simp add: try_new.simps strip_null_def)
  ultimately have "column_back
    (serialize_arrow fc (Array Int32) (AList KList f [0, int (length xs)] (AInt I32 xs) None) (DList f))
    (deserialize_arrow_async lib (Array Int32) (BList (BInt I32)) (DList f)
      (arr_length (AList KList f [0, int (length xs)] (AInt I32 xs) None)) [])
    (AList KList f [0, int (length xs)] (AInt I32 xs) None)"
    by (intro async_reader.column_back_all assms(1))
  then obtain bs where bs:
    "serialize_arrow fc (Array Int32) (AList KList f [0, int (length xs)] (AInt I32 xs) None) (DList f) = Inr bs"
    "\<And>r. deserialize_arrow_async lib (Array Int32) (BList (BInt I32)) (DList f) 1 [] (bs @ r)
      = Inr (AList KList f [0, int (length xs)] (AInt I32 xs) None, r)"
    by (auto simp: column_back_def)
  obtain items where items: "serialize_arrow fc Int32 (AInt I32 xs) (field_type f) = Inr items"
    using async_reader.column_back_all [OF leaf assms(1), of "BInt I32"] f
    by (auto simp: column_back_def try_new.simps strip_null_def)
  have "serialize_arrow fc (Array Int32) (AList KList f [int m, int (length xs)] (AInt I32 xs) None) (DList f)
    = Inr bs"
    using bs(1) list_slice_written [OF items] by simp
  then show ?thesis using bs(2) [of "[]"] by auto
qed

theorem sliced_list_grows_witness:
  "\<exists>bs. serialize_arrow no_floats (Array Int32)
        (AList KList (Field ''item'' DInt32 False) [int 2, int 3] (AInt I32 [Some 1, Some 2, Some 3]) None)
        (DList (Field ''item'' DInt32 False)) = Inr bs
    \<and> deserialize_arrow_async checked_arrow (Array Int32) (BList (BInt I32))
        (DList (Field ''item'' DInt32 False)) 1 [] bs
      = Inr (AList KList (Field ''item'' DInt32 False) [0, int 3] (AInt I32 [Some 1, Some 2, Some 3]) None, [])"
  using sliced_list_grows [OF checked_arrow_ok, of "[Some 1, Some 2, Some 3]" 2 "Field ''item'' DInt32 False" no_floats]
  by (simp add: slots_ok_def in_kind_def int_signed_def int_bytes_def has_null_def slots_null_def
      LIST_ITEM_FIELD_NAME_def)

section \<open>Enums\<close>

text \<open>An enum column that was read cannot be inserted again unless every name occurs, in the
  order of the declaration: the reader makes a dictionary of the names it meets, and the
  writer refuses a dictionary that is not the list of the declared names.\<close>

theorem read_enum_refused:
  assumes "deserialize_arrow_async lib (Enum8 pairs) BEnum8 d n nulls s = Inr (a, r)"
    and "n < length pairs"
  shows "serialize_arrow fc (Enum8 pairs) a d' = Inl ArrowSerialize"
proof -
  obtain xs s' where xs: "enum_rows (read_u8 Io) pairs nulls 0 n s = Inr (xs, s')" "string_dictionary I8 xs = Inr a"
    using assms(1)
    by (auto simp: deserialize_arrow_async.simps [of lib "Enum8 pairs"] deserialize_enum_def
        async_input_def rbind_Inr_iff)
  have len: "length xs = n" if "enum_rows p ps nulls i n s = Inr (xs, s')"
    for p :: "byte reader" and ps i n s xs s'
    using that by (induction n arbitrary: i s xs) (auto simp: rbind_Inr_iff)
  obtain dict keys where d: "dictionary_keys xs [] = (dict, keys)" by fastforce
  have grow: "length dict \<le> length acc + length xs" if "dictionary_keys xs acc = (dict, keys)"
    for xs acc dict keys
    using that
    by (induction xs acc arbitrary: dict keys rule: dictionary_keys.induct)
      (auto split: option.splits prod.splits intro: le_SucI)
  have "length dict < length pairs"
    using grow [OF d] len [OF xs(1)] assms(2) by simp
  then have "map (slot []) (map Some dict) \<noteq> map (\<lambda>p. str_bytes (fst p)) pairs"
    by (metis length_map nat_neq_iff)
  moreover have "a = ADict I8 keys (ABytes KUtf8 (map Some dict))"
    using xs(2) by (auto simp: string_dictionary_def d split: if_splits)
  ultimately show ?thesis
    by (simp add: serialize_arrow.simps strip_null_def is_nullable_def serialize_enum_def
        write_enum_values_def comp_def)
qed

theorem read_enum_refused_witness:
  "deserialize_arrow_async checked_arrow (Enum8 [(''a'', 1), (''b'', 2)]) BEnum8 DUtf8 1 [] [2]
     = Inr (ADict I8 [Some 0] (ABytes KUtf8 [Some (str_bytes ''b'')]), [])
   \<and> serialize_arrow no_floats (Enum8 [(''a'', 1), (''b'', 2)])
       (ADict I8 [Some 0] (ABytes KUtf8 [Some (str_bytes ''b'')])) DUtf8 = Inl ArrowSerialize"
proof -
  have r: "deserialize_arrow_async checked_arrow (Enum8 [(''a'', 1), (''b'', 2)]) BEnum8 DUtf8 1 [] [2]
     = Inr (ADict I8 [Some 0] (ABytes KUtf8 [Some (str_bytes ''b'')]), [])"
    by (simp add: deserialize_arrow_async.simps deserialize_enum_def async_input_def read_u8_def
        string_dictionary_def int_bytes_def)
  from read_enum_refused [OF this, of no_floats DUtf8] r show ?thesis by simp
qed

section \<open>Dictionaries with a null\<close>

text \<open>The value before a null of a dictionary is lost: of a nullable low-cardinality column
  whose dictionary has its null in the second place, the first entry is sent in the place the
  readers take for the null, so its rows come back as null entries and those of the null as
  an empty text.\<close>

theorem dictionary_null_moved:
  assumes "utf8_valid v" and "length v \<le> MAX_STRING_SIZE" and "arrow_lib_ok lib"
  shows "\<exists>bs. serialize_arrow fc (LowCardinality (Nullable String))
        (ADict I32 [Some 0, Some 1] (ABytes KUtf8 [Some v, None])) (DDictionary DInt32 DUtf8) = Inr bs
    \<and> deserialize_arrow_async lib (LowCardinality (Nullable String)) (BLowCardinality I32 BString)
        (DDictionary DInt32 DUtf8) 2 [] bs
      = Inr (ADict I32 [Some 0, Some 1] (ABytes KUtf8 [None, Some []]), [])"
proof -
  have v: "read_string (write_string v @ r) = Inr (v, r)" for r
    using assms(2) by (rule read_string_write)
  have e: "read_string (write_string [] @ r) = Inr ([], r)" for r
    by (rule read_string_write) simp
  have keys: "keys_ok I32 2 [Some 0, Some 1]"
    by (simp add: keys_ok_def in_kind_def int_signed_def int_bytes_def)
  have w: "serialize_arrow fc (LowCardinality (Nullable String))
        (ADict I32 [Some 0, Some 1] (ABytes KUtf8 [Some v, None])) (DDictionary DInt32 DUtf8)
    = Inr (put_u64 (lc_flags 2) @ put_u64 (word_of_nat 2) @ write_string v @ write_string []
        @ put_u64 (word_of_nat 2)
        @ concat (map (\<lambda>x. lc_key_bytes 2 (dictionary_key 0 x)) [Some 0, Some 1]))"
    by (simp add: serialize_parts serialize_low_cardinality_def int_kind_of_def write_values_def
        is_nullable_def has_null_def slots_null_def strip_null_def serialize_arrow.simps
        serialize_binary_def write_variable_def numeral_2_eq_2 [symmetric])
  have read: "deserialize_arrow_async lib String BString DUtf8 2 [1, 0] (write_string v @ write_string [] @ r)
    = Inr (ABytes KUtf8 [None, Some []], r)" for r
    using assms(1)
    by (simp add: deserialize_arrow_async.simps deserialize_binary_def deserialize_strings_def to_array_def
        read_rows_def numeral_2_eq_2 read_as_def async_input_def v e from_utf8_lossy_valid masked_def
        from_utf8_lossy.simps [of "[]"])
  have "dict_new lib I32 [Some 0, Some 1] (ABytes KUtf8 [None, Some []])
    = Inr (ADict I32 [Some 0, Some 1] (ABytes KUtf8 [None, Some []]))"
    using keys by (intro arrow_lib_okD(4) assms(3)) (simp add: numeral_2_eq_2)
  moreover have two: "length [Some 0, Some (1 :: int)] = 2" "(2 :: nat) < 2 ^ 64" by simp_all
  moreover have "read_bulk async_input (index_width 2) (\<lambda>bs. cast_kind I32 (unsigned_le bs)) 2 []
      (concat (map (\<lambda>x. lc_key_bytes 2 (dictionary_key 0 x)) [Some 0, Some 1]) @ [])
      = Inr ([Some 0, Some 1], [])"
    using keys_read [OF keys two(2), of async_input "[]"] unfolding two(1) .
  moreover have "dictionary_mask True 2 = Inr [1, 0]"
    by (simp add: dictionary_mask_def)
  ultimately show ?thesis
    using read flags_not_empty [of 2]
    by (simp add: w deserialize_arrow_async.simps [of lib "LowCardinality (Nullable String)"]
        deserialize_low_cardinality_def index_bytes_flags is_nullable_def strip_null_def async_input_def
        unat_of_nat)
qed

theorem dictionary_null_moved_witness:
  "\<exists>bs. serialize_arrow no_floats (LowCardinality (Nullable String))
        (ADict I32 [Some 0, Some 1] (ABytes KUtf8 [Some [97], None])) (DDictionary DInt32 DUtf8) = Inr bs
    \<and> deserialize_arrow_async checked_arrow (LowCardinality (Nullable String)) (BLowCardinality I32 BString)
        (DDictionary DInt32 DUtf8) 2 [] bs
      = Inr (ADict I32 [Some 0, Some 1] (ABytes KUtf8 [None, Some []]), [])"
  by (rule dictionary_null_moved [OF _ _ checked_arrow_ok])
    (simp_all add: utf8_valid.simps utf8_seq_def safe_get_def MAX_STRING_SIZE_def)

section \<open>Empty parts\<close>

text \<open>
  A column of arrays of low-cardinality values that are all empty: the writer puts nothing
  for the items, the readers still read the flags of a dictionary. The bytes of one row end
  there.
\<close>

lemma empty_dictionary_unreadable:
  "serialize_arrow fc (Array (LowCardinality String)) (AList KList g [0, 0] (ADict I32 [] vals) None)
      (DList f) = Inr (put_u64 0)"
  "deserialize_arrow_async lib (Array (LowCardinality String)) (BList (BLowCardinality I32 BString))
      (DList (Field x (DDictionary DInt32 DUtf8) n)) 1 [] (put_u64 0) = Inl Io"
  "deserialize_arrow lib (Array (LowCardinality String)) (BList (BLowCardinality I32 BString))
      (DList (Field x (DDictionary DInt32 DUtf8) n)) 1 [] (put_u64 0) = Inl BytesRead"
proof -
  have zero: "put_u64 0 = int_le 8 0" using int_le_word [of 0] by simp
  show "serialize_arrow fc (Array (LowCardinality String)) (AList KList g [0, 0] (ADict I32 [] vals) None)
      (DList f) = Inr (put_u64 0)"
    by (simp add: zero serialize_parts serialize_list_def unwrap_array_data_type_def list_item_def
        tail_offsets_def serialize_low_cardinality_def)
  have off: "read_offset_list io 1 (put_u64 0) = Inr ([0, 0], [])" for io
    using read_offset_list_written [of io "[0]" "[]"] by (simp add: zero)
  have eof: "read_u64 e [] = Inl e" for e by (simp add: read_le_def read_exact_def)
  let ?d = "DList (Field x (DDictionary DInt32 DUtf8) n)"
  show "deserialize_arrow_async lib (Array (LowCardinality String)) (BList (BLowCardinality I32 BString))
      ?d 1 [] (put_u64 0) = Inl Io"
    unfolding async_reader.des_list [OF disjI1 [OF refl]] deserialize_list_def readable_list_item_def
      list_read_def data_type.case option.case builder.case off
    by (simp add: async_reader.des_dictionary deserialize_low_cardinality_def eof async_input_def)
  show "deserialize_arrow lib (Array (LowCardinality String)) (BList (BLowCardinality I32 BString))
      ?d 1 [] (put_u64 0) = Inl BytesRead"
    unfolding sync_reader.des_list [OF disjI1 [OF refl]] deserialize_list_def readable_list_item_def
      list_read_def data_type.case option.case builder.case off
    by (simp add: sync_reader.des_dictionary deserialize_low_cardinality_def eof sync_input_def)
qed

text \<open>A dictionary of a nullable type that arrives without entries: the mask of its null panics.\<close>

lemma empty_nullable_dictionary_panics:
  "deserialize_arrow_async lib (LowCardinality (Nullable String)) (BLowCardinality k vb)
      (DDictionary kd vd) rows nulls (put_u64 (lc_flags 0) @ put_u64 0 @ r) = Inl Panic"
  using flags_not_empty [of 0]
  by (simp add: async_reader.des_dictionary deserialize_low_cardinality_def index_bytes_flags
      dictionary_mask_def is_nullable_def)

text \<open>A tuple of no rows is built from an integer and a string column, whatever its fields are.\<close>

lemma empty_tuple_of_other_fields:
  assumes "\<And>fs cols. \<not> list_all2 fits_field fs cols \<Longrightarrow> struct_with_length lib fs cols None 0 = Inl ArrowError"
    and "fs \<noteq> [Field a DInt32 n, Field b DUtf8 m]" and "fs = [Field a t n, Field b u m]"
  shows "deserialize_arrow_async lib (Tuple us) (BTuple bs) (DStruct fs) 0 [] s = Inl ArrowError"
proof -
  have "\<not> list_all2 fits_field fs [AInt I32 [], ABytes KUtf8 []]"
    using assms(2,3) by (auto simp: fits_field_def int_type_def bytes_type_def)
  then show ?thesis by (simp add: async_reader.des_tuple deserialize_tuple_def assms(1))
qed

section \<open>Times before 1970\<close>

text \<open>A time before 1970 in another unit than the column's is sent as a time far in the
  future, or not at all: a count is taken for an unsigned number before it is divided, so
  that of \<open>n\<close> microseconds before 1970, for a column of milliseconds, \<open>2 ^ 64 - n\<close> is
  divided; a count of seconds to be multiplied panics.\<close>

theorem negative_time_scaled:
  assumes "0 < n" and "n < 2 ^ 63"
  shows "serialize_arrow fc (DateTime64 3 z) (ATimestamp Microsecond zone [Some (- n)]) d
      = Inr (le_bytes 8 (nat (2 ^ 64 - n) div 1000))
    \<and> serialize_arrow fc (DateTime64 3 z) (ATimestamp Second zone [Some (- n)]) d = Inl Panic"
proof -
  have "(- n) mod (2 ^ 64) = (2 ^ 64 - n) mod (2 ^ 64)"
    using mod_add_self1 [of "2 ^ 64" "- n"] by simp
  also have "\<dots> = 2 ^ 64 - n" using assms by (intro mod_pos_pos_trivial) simp_all
  finally have u: "as_u64 (- n) = nat (2 ^ 64 - n)" by (simp add: as_u64_def)
  have "2 ^ 63 < nat (2 ^ 64 - n)" using assms(2) by simp
  then have "as_u64 (- n) * 1000 \<ge> 2 ^ 64" unfolding u by simp
  then show ?thesis
    using u by (simp add: serialize_arrow.simps strip_null_def is_nullable_def normalize_geo_type_def
        serialize_primitive_def write_datetime64_values_def write_datetime64_3_values_def write_scaled_def
        write_coerced_def scale_down_def scale_up_def)
qed

theorem negative_time_scaled_witness:
  "serialize_arrow no_floats (DateTime64 3 ''UTC'') (ATimestamp Microsecond None [Some (- 1000)]) DDate32
      = Inr (le_bytes 8 (nat (2 ^ 64 - 1000) div 1000))
    \<and> serialize_arrow no_floats (DateTime64 3 ''UTC'') (ATimestamp Second None [Some (- 1000)]) DDate32 = Inl Panic"
  by (rule negative_time_scaled) simp_all

section \<open>Wide integers\<close>

text \<open>
  A 64-bit integer sent as a 256-bit one goes out with its highest byte first; the same number
  given as 32 bytes goes out with its lowest byte first.
\<close>

lemma wide_integer_reversed:
  "serialize_arrow fc Int256 (AInt I64 [Some 1]) d = Inr (replicate 31 0 @ [1])"
  "serialize_arrow fc Int256 (AFixed 32 [Some (replicate 31 0 @ [1])]) d = Inr (1 # replicate 31 0)"
proof -
  have zeros: "replicate 16 (0 :: byte) @ replicate 15 0 @ [1] = replicate 31 0 @ [1]"
    using replicate_add [of 16 15 "0 :: byte"] by simp
  have "le_bytes n 0 = replicate n 0" for n by (induction n) simp_all
  then have "le_bytes (Suc 15) 1 = 1 # replicate 15 0" unfolding le_bytes.simps(2) by simp
  then have one: "int_le 16 1 = 1 # replicate 15 0" by (simp add: int_le_def)
  show "serialize_arrow fc Int256 (AInt I64 [Some 1]) d = Inr (replicate 31 0 @ [1])"
    by (simp add: serialize_arrow.simps strip_null_def is_nullable_def normalize_geo_type_def
        serialize_primitive_def write_i256_values_def write_coerced_def extend_256_def one
        swap_endian_256_def zeros)
  show "serialize_arrow fc Int256 (AFixed 32 [Some (replicate 31 0 @ [1])]) d = Inr (1 # replicate 31 0)"
    by (simp add: serialize_arrow.simps strip_null_def is_nullable_def normalize_geo_type_def
        serialize_primitive_def write_i256_values_def write_coerced_def exactly_def
        swap_endian_256_def)
qed

end
