(* ===== verification/ArrowNative.thy ===== *)
theory ArrowNative
  imports ArrowBack
begin

text \<open>
  The two column writers of the driver agree: the Arrow writer sends of an array the bytes
  that the native writer sends of its values. \<open>arr_values\<close> is the abstraction, the values of
  the rows of an array under a ClickHouse type; \<open>native_type\<close> are the types on which the two
  writers are the same. They differ on 256-bit decimals (\<open>decimal256_reversed\<close>), on fixed
  binary strings, which the native writer prefixes with their length, and on the order of a
  dictionary.
\<close>

section \<open>The values of an array\<close>

definition slot_values :: "('a \<Rightarrow> val) \<Rightarrow> 'a option list \<Rightarrow> val list" where
  "slot_values mk xs = map (\<lambda>x. case x of None \<Rightarrow> VNull | Some v \<Rightarrow> mk v) xs"

definition int_value :: "int_kind \<Rightarrow> int \<Rightarrow> val" where
  "int_value k v =
     (case k of I8 \<Rightarrow> VInt8 (word_of_int v) | I16 \<Rightarrow> VInt16 (word_of_int v) | I32 \<Rightarrow> VInt32 (word_of_int v)
      | I64 \<Rightarrow> VInt64 (word_of_int v) | U8 \<Rightarrow> VUInt8 (word_of_int v) | U16 \<Rightarrow> VUInt16 (word_of_int v)
      | U32 \<Rightarrow> VUInt32 (word_of_int v) | U64 \<Rightarrow> VUInt64 (word_of_int v))"

definition decimal_value :: "ty \<Rightarrow> int \<Rightarrow> val" where
  "decimal_value t v =
     (case t of
        Decimal32 s \<Rightarrow> VDecimal32 s (word_of_int v)
      | Decimal64 s \<Rightarrow> VDecimal64 s (word_of_int v)
      | Decimal128 s \<Rightarrow> VDecimal128 s (word_of_int v)
      | Decimal256 s \<Rightarrow> VDecimal256 s (rev (int_le 32 v))
      | _ \<Rightarrow> VNull)"

definition date_value :: "ty \<Rightarrow> int \<Rightarrow> val" where
  "date_value t v =
     (case t of
        Date \<Rightarrow> VDate (word_of_int v)
      | Date32 \<Rightarrow> VDate32 (word_of_int (v + DAYS_1900_TO_1970))
      | DateTime z \<Rightarrow> VDateTime z (word_of_int v)
      | DateTime64 p z \<Rightarrow> VDateTime64 z (word_of_int v) p
      | _ \<Rightarrow> VNull)"

definition fixed_value :: "ty \<Rightarrow> byte list \<Rightarrow> val" where
  "fixed_value t b =
     (case t of
        Int128 \<Rightarrow> VInt128 (word_of_nat (le_nat b))
      | UInt128 \<Rightarrow> VUInt128 (word_of_nat (le_nat b))
      | Int256 \<Rightarrow> VInt256 b
      | UInt256 \<Rightarrow> VUInt256 b
      | Ipv6 \<Rightarrow> VIpv6 b
      | _ \<Rightarrow> VString b)"

definition leaf_values :: "ty \<Rightarrow> arr \<Rightarrow> val list" where
  "leaf_values t a =
     (case a of
        AInt k xs \<Rightarrow> slot_values (int_value k) xs
      | AFloat32 xs \<Rightarrow> slot_values VFloat32 xs
      | AFloat64 xs \<Rightarrow> slot_values VFloat64 xs
      | ADecimal128 p s xs \<Rightarrow> slot_values (decimal_value t) xs
      | ADecimal256 p s xs \<Rightarrow> slot_values (decimal_value t) xs
      | ADate32 xs \<Rightarrow> slot_values (date_value t) xs
      | ATimestamp u z xs \<Rightarrow> slot_values (date_value t) xs
      | ABytes k xs \<Rightarrow> slot_values VString xs
      | AFixed n xs \<Rightarrow> slot_values (fixed_value t) xs
      | _ \<Rightarrow> [])"

text \<open>The items between two offsets.\<close>

fun cut_at :: "int list \<Rightarrow> 'a list \<Rightarrow> 'a list list" where
  "cut_at (x # y # os) items = take (nat (y - x)) (drop (nat x) items) # cut_at (y # os) items"
| "cut_at os items = []"

fun arr_values :: "ty \<Rightarrow> arr \<Rightarrow> val list" where
  "arr_values (Array t) a =
     (case a of AList k f os child v \<Rightarrow> map VArray (cut_at os (arr_values t child)) | _ \<Rightarrow> [])"
| "arr_values (Nullable t) a = leaf_values t a"
| "arr_values t a = leaf_values t a"

definition native_leaf :: "ty \<Rightarrow> bool" where
  "native_leaf t =
     (case t of Decimal256 _ \<Rightarrow> False | FixedSizedBinary _ \<Rightarrow> False | Object \<Rightarrow> False
      | Array _ \<Rightarrow> False | Nullable _ \<Rightarrow> False | Map _ _ \<Rightarrow> False | Tuple _ \<Rightarrow> False
      | LowCardinality _ \<Rightarrow> False | _ \<Rightarrow> True)"

fun native_type :: "ty \<Rightarrow> bool" where
  "native_type (Array t) = native_type t"
| "native_type (Nullable t) = native_leaf t"
| "native_type t = native_leaf t"

section \<open>Columns without parts\<close>

lemma write_each_map: "write_each f (map g xs) = write_each (\<lambda>x. f (g x)) xs"
  by (induction xs) simp_all

lemma write_each_same:
  "(\<And>x. x \<in> set xs \<Longrightarrow> f x = g x) \<Longrightarrow> write_each f xs = write_each g xs"
  by (induction xs) simp_all

lemma coerced_native:
  assumes "slots_ok P xs" and "item VNull = Inr dflt" and "\<And>v. P v \<Longrightarrow> c v = item (mk v)"
  shows "write_coerced dflt c xs = write_each item (slot_values mk xs)"
  unfolding write_coerced_def slot_values_def write_each_map
proof (rule write_each_same)
  fix x
  assume "x \<in> set xs"
  then show "(case x of None \<Rightarrow> Inr dflt | Some v \<Rightarrow> c v)
    = item (case x of None \<Rightarrow> VNull | Some v \<Rightarrow> mk v)"
    using assms(2,3) slots_okD [OF assms(1)] by (cases x rule: option.exhaust) auto
qed

abbreviation sized_slot :: "ty \<Rightarrow> val \<Rightarrow> byte list res" where
  "sized_slot t \<equiv> (\<lambda>value. sized_item_bytes (justify_null_ref value t))"

lemma sized_native:
  "slots_ok P xs \<Longrightarrow> sized_slot t VNull = Inr dflt \<Longrightarrow> (\<And>v. P v \<Longrightarrow> c v = sized_slot t (mk v)) \<Longrightarrow>
     write_coerced dflt c xs = sized_write t (slot_values mk xs)"
  unfolding sized_write_def by (rule coerced_native)

lemma int_le_words:
  "int_le 2 v = put_u16 (word_of_int v)" "int_le 4 v = put_u32 (word_of_int v)"
  "int_le 8 v = put_u64 (word_of_int v)" "int_le 16 v = put_u128 (word_of_int v)"
  by (simp_all add: put_le_word_of_int)

lemma int_le_byte: "int_le 1 v = [word_of_int v]"
proof -
  have "int_le 1 v = put_le 1 (word_of_int v :: byte)" by (simp add: put_le_word_of_int)
  also have "\<dots> = [word_of_int v]"
  proof -
    have "unat (word_of_int v :: byte) < 2 ^ 8" using unsigned_less [of "word_of_int v :: byte"] by simp
    then show ?thesis by (simp add: put_le_def)
  qed
  finally show ?thesis .
qed

lemma all_slots: "slots_ok (\<lambda>_. True) xs"
  by (simp add: slots_ok_def list_all_iff split: option.split)

lemma integer_native:
  assumes "(t, k) \<in> {(Int8, I8), (Int16, I16), (Int32, I32), (Int64, I64),
      (UInt8, U8), (UInt16, U16), (UInt32, U32), (UInt64, U64)}"
  shows "write_simple k (int_bytes k) (AInt k xs) = sized_write t (slot_values (int_value k) xs)"
  unfolding write_simple_coerced
  by (rule sized_native [OF all_slots])
    (use assms in \<open>auto simp: justify_null_ref_def sized_item_bytes_def int_value_def int_bytes_def
      int_le_byte [unfolded One_nat_def] int_le_words\<close>)

lemma sized_column:
  "t \<in> {Int8, Int16, Int32, Int64, UInt8, UInt16, UInt32, UInt64, Int128, UInt128, Int256, UInt256,
      Float32, Float64, Ipv6, Date, Date32} \<or> (\<exists>s. t = Decimal32 s \<or> t = Decimal64 s \<or> t = Decimal128 s)
      \<or> (\<exists>p z. t = DateTime z \<or> t = DateTime64 p z) \<Longrightarrow>
     serialize_column iset t vs = sized_write t vs"
  by (auto simp: serialize_column.simps)

lemma decimal_native:
  assumes "leaf_array lib t d a" and "t = Decimal32 sc \<or> t = Decimal64 sc \<or> t = Decimal128 sc"
  shows "leaf_write fc t a d = sized_write t (leaf_values t a)"
proof -
  obtain p s xs where a: "a = ADecimal128 p s xs"
    using assms by (cases a) (auto simp: leaf_array_def)
  consider "t = Decimal32 sc" | "t = Decimal64 sc" | "t = Decimal128 sc" using assms(2) by blast
  then show ?thesis
  proof cases
    case 1
    then have "slots_ok (fits (- (10 ^ 9 - 1)) (10 ^ 9)) xs" using assms(1) by (simp add: a leaf_array_def)
    then have "write_coerced (int_le 4 0) (in_digits 9 4) xs = sized_write t (slot_values (decimal_value t) xs)"
      by (rule sized_native) (simp_all add: 1 justify_null_ref_def sized_item_bytes_def in_digits_def
          fits_def decimal_value_def int_le_words)
    then show ?thesis
      by (simp add: 1 a leaf_values_def leaf_write_def serialize_primitive_def strip_null_def write_decimal32_values_def)
  next
    case 2
    then have "slots_ok (fits (- (10 ^ 18 - 1)) (10 ^ 18)) xs" using assms(1) by (simp add: a leaf_array_def)
    then have "write_coerced (int_le 8 0) (in_digits 18 8) xs = sized_write t (slot_values (decimal_value t) xs)"
      by (rule sized_native) (simp_all add: 2 justify_null_ref_def sized_item_bytes_def in_digits_def
          fits_def decimal_value_def int_le_words)
    then show ?thesis
      by (simp add: 2 a leaf_values_def leaf_write_def serialize_primitive_def strip_null_def write_decimal64_values_def)
  next
    case 3
    have "write_coerced (int_le 16 0) (\<lambda>v. Inr (int_le 16 v)) xs = sized_write t (slot_values (decimal_value t) xs)"
      by (rule sized_native [OF all_slots]) (simp_all add: 3 justify_null_ref_def sized_item_bytes_def
          decimal_value_def int_le_words)
    then show ?thesis
      by (simp add: 3 a leaf_values_def leaf_write_def serialize_primitive_def strip_null_def write_decimal128_values_def)
  qed
qed

lemma date_native:
  assumes "leaf_array lib t d a" and "t = Date \<or> t = Date32"
  shows "leaf_write fc t a d = sized_write t (leaf_values t a)"
proof -
  obtain xs where a: "a = ADate32 xs"
    using assms by (cases a) (auto simp: leaf_array_def)
  show ?thesis
  proof (cases "t = Date")
    case True
    then have "slots_ok (fits 0 (2 ^ 16)) xs" using assms(1) by (simp add: a leaf_array_def)
    then have "write_coerced (int_le 2 0) (\<lambda>v. if v < 0 \<or> v > 65535 then Inl ArrowSerialize else Inr (int_le 2 v)) xs
      = sized_write t (slot_values (date_value t) xs)"
      by (rule sized_native) (simp_all add: True justify_null_ref_def sized_item_bytes_def
          fits_def date_value_def int_le_words)
    then show ?thesis
      by (simp add: True a leaf_values_def leaf_write_def serialize_primitive_def strip_null_def write_date_values_def)
  next
    case False
    then have t: "t = Date32" using assms(2) by simp
    then have "slots_ok (fits (- (2 ^ 31)) (2 ^ 31 - DAYS_1900_TO_1970)) xs"
      using assms(1) by (simp add: a leaf_array_def)
    then have "write_coerced (int_le 4 0)
        (\<lambda>v. let adjusted = v + DAYS_1900_TO_1970 in
               if adjusted > 2 ^ 31 - 1 then Inl Panic else Inr (int_le 4 adjusted)) xs
      = sized_write t (slot_values (date_value t) xs)"
      by (rule sized_native) (simp_all add: t justify_null_ref_def sized_item_bytes_def
          fits_def date_value_def int_le_words)
    then show ?thesis
      by (simp add: t a leaf_values_def leaf_write_def serialize_primitive_def strip_null_def write_date32_values_def)
  qed
qed

lemma timestamp_native:
  assumes "leaf_array lib t d a" and "t = DateTime name \<or> t = DateTime64 p name"
  shows "leaf_write fc t a d = sized_write t (leaf_values t a)"
proof -
  obtain u z xs where a: "a = ATimestamp u z xs"
    using assms by (cases a) (auto simp: leaf_array_def Let_def)
  show ?thesis
  proof (cases "t = DateTime name")
    case True
    then have u: "u = Second" "slots_ok (fits 0 (2 ^ 32)) xs" using assms(1) by (simp_all add: a leaf_array_def)
    from u(2) have "write_coerced (int_le 4 0) (\<lambda>v. if v > 2 ^ 32 - 1 then Inl ArrowSerialize else Inr (int_le 4 v)) xs
      = sized_write t (slot_values (date_value t) xs)"
      by (rule sized_native) (simp_all add: True justify_null_ref_def sized_item_bytes_def
          fits_def date_value_def int_le_words)
    then show ?thesis
      by (simp add: True a u(1) leaf_values_def leaf_write_def serialize_primitive_def strip_null_def
          write_datetime_values_def)
  next
    case False
    then have t: "t = DateTime64 p name" using assms(2) by simp
    then have u: "timestamp_unit p = Inr u" using assms(1) by (simp add: a leaf_array_def)
    have "write_coerced (int_le 8 0) (\<lambda>v. Inr (int_le 8 v)) xs = sized_write t (slot_values (date_value t) xs)"
      by (rule sized_native [OF all_slots]) (simp_all add: t justify_null_ref_def sized_item_bytes_def
          date_value_def int_le_words)
    then show ?thesis
      using u by (auto simp: t a leaf_values_def leaf_write_def serialize_primitive_def strip_null_def
          timestamp_unit_def write_datetime64_values_def write_datetime64_unknown_values_def
          write_datetime64_3_values_def write_datetime64_6_values_def write_datetime64_9_values_def
          write_scaled_def split: if_splits)
  qed
qed

lemma float_native:
  assumes "leaf_array lib t d a" and "t \<in> {Float32, Float64}"
  shows "leaf_write fc t a d = sized_write t (leaf_values t a)"
proof (cases "t = Float32")
  case True
  then obtain xs where a: "a = AFloat32 xs" using assms(1) by (auto simp: leaf_array_def split: arr.splits)
  have "write_coerced (put_u32 0) (\<lambda>v. Inr (put_u32 v)) xs = sized_write t (slot_values VFloat32 xs)"
    by (rule sized_native [OF all_slots]) (simp_all add: True justify_null_ref_def sized_item_bytes_def)
  then show ?thesis
    by (simp add: True a leaf_values_def leaf_write_def serialize_primitive_def strip_null_def
        write_f32_values_def concat_coerced)
next
  case False
  then have t: "t = Float64" using assms(2) by simp
  then obtain xs where a: "a = AFloat64 xs" using assms(1) by (auto simp: leaf_array_def split: arr.splits)
  have "write_coerced (put_u64 0) (\<lambda>v. Inr (put_u64 v)) xs = sized_write t (slot_values VFloat64 xs)"
    by (rule sized_native [OF all_slots]) (simp_all add: t justify_null_ref_def sized_item_bytes_def)
  then show ?thesis
    by (simp add: t a leaf_values_def leaf_write_def serialize_primitive_def strip_null_def
        write_f64_values_def concat_coerced)
qed

lemma wide_native:
  assumes "leaf_array lib t d a" and "t \<in> {Int128, UInt128, Ipv6, Int256, UInt256}"
  shows "leaf_write fc t a d = sized_write t (leaf_values t a)"
proof (cases "t \<in> {Int128, UInt128, Ipv6}")
  case True
  then have "\<exists>xs. a = AFixed 16 xs \<and> slots_ok (\<lambda>b. length b = 16) xs"
    using assms(1) by (cases a) (auto simp: leaf_array_def)
  then obtain xs where a: "a = AFixed 16 xs" "slots_ok (\<lambda>b. length b = 16) xs" by blast
  have i: "write_coerced (int_le 16 0) (exactly 16 le_u128) xs = sized_write t (slot_values (fixed_value t) xs)"
    if "t \<in> {Int128, UInt128}"
    by (rule sized_native [OF a(2)])
      (use that in \<open>auto simp: justify_null_ref_def sized_item_bytes_def exactly_def le_u128_def fixed_value_def
        int_le_words\<close>)
  have v6: "write_coerced (replicate 16 0) (exactly 16 (\<lambda>b. b)) xs = sized_write t (slot_values (fixed_value t) xs)"
    if "t = Ipv6"
    by (rule sized_native [OF a(2)])
      (use that in \<open>simp_all add: justify_null_ref_def sized_item_bytes_def exactly_def fixed_value_def\<close>)
  show ?thesis
    using True i v6 by (auto simp: a(1) leaf_values_def leaf_write_def serialize_primitive_def strip_null_def
        write_i128_values_def write_u128_values_def write_ipv6_values_def)
next
  case False
  then have t: "t \<in> {Int256, UInt256}" using assms(2) by auto
  then have "\<exists>xs. a = AFixed 32 xs \<and> slots_ok (\<lambda>b. length b = 32) xs"
    using assms(1) by (cases a) (auto simp: leaf_array_def)
  then obtain xs where a: "a = AFixed 32 xs" "slots_ok (\<lambda>b. length b = 32) xs" by blast
  have "write_coerced zero32 (exactly 32 swap_endian_256) xs = sized_write t (slot_values (fixed_value t) xs)"
    by (rule sized_native [OF a(2)])
      (use t in \<open>auto simp: justify_null_ref_def sized_item_bytes_def exactly_def fixed_value_def
        swap_endian_256_def zero32_def\<close>)
  then show ?thesis
    using t by (auto simp: a(1) leaf_values_def leaf_write_def serialize_primitive_def strip_null_def
        write_i256_values_def write_u256_values_def)
qed

lemma string_native:
  assumes "leaf_array lib t d a" and "t = String \<or> t = Binary \<or> t = FixedSizedString n"
  shows "leaf_write fc t a d = string_write t (leaf_values t a)"
proof (cases "t = FixedSizedString n")
  case True
  obtain m xs where a: "a = AFixed m xs"
    using assms(1) by (cases a) (auto simp: True leaf_array_def)
  have "write_coerced (pad_to n []) (\<lambda>v. Inr (pad_to n v)) xs
    = write_each (string_item_bytes emit_bytes t) (slot_values (fixed_value t) xs)"
    by (rule coerced_native [OF all_slots])
      (auto simp: True string_item_bytes_def emit_bytes_def pad_to_def fixed_value_def)
  then show ?thesis
    by (simp add: True a leaf_values_def leaf_write_def serialize_binary_def strip_null_def
        write_fixed_values_def concat_coerced string_write_def)
next
  case False
  then have t: "t = String \<or> t = Binary" using assms(2) by simp
  obtain k xs where a: "a = ABytes k xs"
    using assms(1) t by (cases a) (auto simp: leaf_array_def)
  have "write_coerced (write_string []) (\<lambda>v. Inr (write_string v)) xs
    = write_each (string_item_bytes emit_bytes t) (slot_values VString xs)"
    by (rule coerced_native [OF all_slots])
      (use t in \<open>auto simp: string_item_bytes_def emit_bytes_def\<close>)
  then show ?thesis
    using t by (auto simp: a leaf_values_def leaf_write_def serialize_binary_def strip_null_def
        write_variable_def concat_coerced string_write_def)
qed

lemma leaf_native:
  assumes "leaf_array lib t d a" and "native_leaf t"
  shows "leaf_write fc t a d = serialize_column iset t (leaf_values t a)"
  using assms(1)
proof (cases rule: leaf_array_cases)
  case (integers k)
  then have "\<exists>xs. a = AInt k xs" using assms(1) by (cases a) (auto simp: leaf_array_def)
  then obtain xs where a: "a = AInt k xs" by blast
  have "t = UInt8 \<Longrightarrow> d \<noteq> DBoolean" using assms(1) by (auto simp: leaf_array_def)
  then have "leaf_write fc t a d = write_simple k (int_bytes k) (AInt k xs)"
    using integers by (auto simp: leaf_unfold a not_boolean int_bytes_def write_i8_values_def
        write_i16_values_def write_i32_values_def write_i64_values_def write_u8_values_def
        write_u16_values_def write_u32_values_def write_u64_values_def)
  moreover have "serialize_column iset t (leaf_values t a) = sized_write t (leaf_values t a)"
    by (rule sized_column) (use integers in auto)
  ultimately show ?thesis using integer_native [OF integers] by (simp add: a leaf_values_def)
next
  case floats
  then show ?thesis using float_native [OF assms(1) floats] by (auto simp: sized_column)
next
  case (decimals sc)
  then show ?thesis using decimal_native [OF assms(1) decimals] by (auto simp: sized_column)
next
  case dates
  then show ?thesis using date_native [OF assms(1) dates] by (auto simp: sized_column)
next
  case (timestamps p name)
  then show ?thesis using timestamp_native [OF assms(1) timestamps] by (auto simp: sized_column)
next
  case strings
  then have "t = String \<or> t = Binary" using assms(2) by (auto simp: native_leaf_def)
  then show ?thesis using string_native [OF assms(1)] by (auto simp: serialize_column.simps)
next
  case (fixed_text n)
  then have "t = FixedSizedString n" using assms(2) by (auto simp: native_leaf_def)
  then show ?thesis using string_native [OF assms(1)] by (auto simp: serialize_column.simps)
next
  case wide
  then show ?thesis using wide_native [OF assms(1)] by (auto simp: sized_column)
next
  case wide256
  then show ?thesis using wide_native [OF assms(1)] by (auto simp: sized_column)
qed (use assms(2) in \<open>simp_all add: native_leaf_def\<close>)

text \<open>The arrays of the types without parts, and the types of theirs.\<close>

lemma leaf_array_shape:
  assumes "leaf_array lib t d a"
  shows "case a of
      AInt _ _ \<Rightarrow> True | AFloat32 _ \<Rightarrow> True | AFloat64 _ \<Rightarrow> True | ABytes _ _ \<Rightarrow> True | AFixed _ _ \<Rightarrow> True
    | ADecimal128 _ _ _ \<Rightarrow> (\<exists>s. t = Decimal32 s \<or> t = Decimal64 s \<or> t = Decimal128 s)
    | ADecimal256 _ _ _ \<Rightarrow> (\<exists>s. t = Decimal256 s)
    | ADate32 _ \<Rightarrow> t = Date \<or> t = Date32
    | ATimestamp _ _ _ \<Rightarrow> (\<exists>p z. t = DateTime z \<or> t = DateTime64 p z)
    | _ \<Rightarrow> False"
  using assms by (cases t; cases a) (simp_all add: leaf_array_def)

lemma null_mask_slots:
  "(\<And>v. \<not> value_eq (mk v) VNull) \<Longrightarrow> null_mask (slot_values mk xs) = null_bytes (slots_null xs)"
  by (auto simp: null_mask_def slot_values_def null_bytes_def slots_null_def split: option.split)

lemma leaf_values_mask:
  assumes "leaf_array lib t d a"
  shows "null_mask (leaf_values t a) = null_bytes (arr_null a)"
  using leaf_array_shape [OF assms]
  by (cases a)
    (auto simp: leaf_values_def null_mask_slots int_value_def decimal_value_def date_value_def
      fixed_value_def split: int_kind.split ty.split)

lemma leaf_values_length:
  assumes "leaf_array lib t d a"
  shows "length (leaf_values t a) = arr_length a"
  using leaf_array_shape [OF assms] by (cases a) (simp_all add: leaf_values_def slot_values_def)

section \<open>Arrays\<close>

lemma length_cut: "length (cut_at os items) = length os - 1"
  by (induction os items rule: cut_at.induct) simp_all

lemma array_len_array: "array_len (VArray xs) = Inr (length xs)"
  by (simp add: array_len_def unwrap_array_ref_def)

lemma cut_offsets:
  assumes "sorted (x # os)" and "0 \<le> x" and "last (x # os) \<le> int (length items)"
  shows "array_offsets array_len (nat x) (map VArray (cut_at (x # os) items)) = Inr (concat (map (int_le 8) os))"
  using assms
proof (induction os arbitrary: x)
  case Nil
  then show ?case by simp
next
  case (Cons y os)
  have y: "x \<le> y" "0 \<le> y" "y \<le> int (length items)"
    using Cons.prems by (auto simp: sorted_wrt_append dest: last_in_set split: if_splits)
      (metis last_in_set order_trans)
  have "nat x + nat (y - x) = nat y" using y Cons.prems(2) by simp
  moreover have "length (take (nat (y - x)) (drop (nat x) items)) = nat (y - x)"
    using y Cons.prems(2) by simp
  moreover have "array_offsets array_len (nat y) (map VArray (cut_at (y # os) items)) = Inr (concat (map (int_le 8) os))"
    using Cons.IH [of y] Cons.prems y by simp
  ultimately show ?case
    using y by (simp add: array_len_array int_le_words(3) [symmetric])
qed

lemma concat_cut:
  assumes "sorted (x # os)" and "0 \<le> x"
  shows "concat (cut_at (x # os) items) = take (nat (last (x # os)) - nat x) (drop (nat x) items)"
  using assms
proof (induction os arbitrary: x)
  case Nil
  then show ?case by simp
next
  case (Cons y os)
  have y: "x \<le> y" "0 \<le> y" "y \<le> last (y # os)"
    using Cons.prems by (auto dest: last_in_set)
  have "concat (cut_at (y # os) items) = take (nat (last (y # os)) - nat y) (drop (nat y) items)"
    using Cons.IH [of y] Cons.prems y by simp
  moreover have "take (nat (y - x)) (drop (nat x) items) @ take (nat l - nat y) (drop (nat y) items)
    = take (nat l - nat x) (drop (nat x) items)" if "y \<le> l" for l
  proof -
    have "nat l - nat x = nat (y - x) + (nat l - nat y)" "nat x + nat (y - x) = nat y"
      using that y Cons.prems(2) by simp_all
    then show ?thesis by (simp add: take_add add.commute)
  qed
  ultimately show ?case using y by simp
qed

lemma unwrap_arrays: "traverse unwrap_array_value (map VArray xs) = Inr xs"
  by (induction xs) (simp_all add: unwrap_array_value_def)

lemma array_write_cut:
  assumes "offsets_ok b (x # os) (length items)"
  shows "array_write array_len unwrap_array_value write_inner (map VArray (cut_at (x # os) items))
    = rbind (write_inner items) (\<lambda>bs. Inr (concat (map (int_le 8) os) @ bs))"
proof -
  have x: "x = 0" "sorted (0 # os)" "last (0 # os) = int (length items)"
    using assms by (auto simp: offsets_ok_def)
  have "array_offsets array_len 0 (map VArray (cut_at (0 # os) items)) = Inr (concat (map (int_le 8) os))"
    using cut_offsets [OF x(2), of items] x(3) by simp
  moreover have "concat (cut_at (0 # os) items) = items"
    using concat_cut [OF x(2), of items] x(3) by simp
  ultimately show ?thesis by (simp add: x(1) array_write_def unwrap_arrays)
qed

lemma arr_values_length:
  assumes "arrow_column lib t d a" and "native_type t"
  shows "length (arr_values t a) = arr_length a"
  using assms
proof cases
  case leaf
  have "arr_values t a = leaf_values t a"
    using leaf_array_plain [OF leaf(1)] by (cases t) (simp_all add: unarray_def is_nullable_def)
  then show ?thesis using leaf_values_length [OF leaf(1)] by simp
next
  case (nullable u)
  then show ?thesis using leaf_values_length by simp
qed (use assms(2) in \<open>simp_all add: length_cut native_leaf_def\<close>)

lemma native_column:
  assumes "arrow_column lib t d a" and "native_type t"
  shows "serialize_arrow fc t a d = serialize_column iset t (arr_values t a)"
  using assms
proof (induction rule: arrow_column.induct)
  case (leaf t d a)
  have "arr_values t a = leaf_values t a" "native_leaf t"
    using leaf_array_plain [OF leaf(1)] leaf(3) by (cases t; simp add: unarray_def is_nullable_def)+
  then show ?case using leaf_native [OF leaf(1)] arrow_serialize_leaf(1) [OF leaf(1)] by simp
next
  case (nullable t d a)
  then have "leaf_write fc t a d = serialize_column iset t (leaf_values t a)"
    by (intro leaf_native) simp_all
  moreover have "serialize_column iset (Nullable t) vs
    = rmap (\<lambda>bs. null_mask vs @ bs) (serialize_column iset t vs)" for vs
    by (cases "serialize_column iset t vs") (simp_all add: serialize_column.simps [of iset "Nullable t"] nullable_write_def)
  ultimately show ?case
    using arrow_serialize_leaf(2) [OF nullable(1)] leaf_values_mask [OF nullable(1)] by simp
next
  case (list t f child k os d g)
  obtain x xs where os: "os = x # xs"
    using list.hyps(2) by (auto simp: offsets_ok_def split: list.splits)
  have item: "list_item d = Some f" using list.hyps(3) by (auto simp: list_item_def)
  have IH: "serialize_arrow fc t child (field_type f) = serialize_column iset t (arr_values t child)"
    using list.IH list.prems by simp
  have "length (arr_values t child) = arr_length child"
    using arr_values_length [OF list.hyps(1)] list.prems by simp
  then have "array_write array_len unwrap_array_value (serialize_column iset t)
      (map VArray (cut_at os (arr_values t child)))
    = rbind (serialize_column iset t (arr_values t child)) (\<lambda>bs. Inr (concat (map (int_le 8) xs) @ bs))"
    using array_write_cut [of "offset_bound k" x xs "arr_values t child"] list.hyps(2) os by simp
  then show ?case
    by (simp add: serialize_parts serialize_list_def unwrap_array_data_type_def item os IH
        tail_offsets_def serialize_column.simps [of iset "Array t"])
qed (simp_all add: native_leaf_def)

text \<open>C5. The Arrow writer and the native writer send the same column: for the types of
  \<open>native_type\<close> (numbers, decimals of up to 128 bits, dates, IPv6 addresses, strings, nullable and
  nested arrays of these), the bytes of an array are those of the values of its rows.\<close>

theorem arrow_write_is_native:
  assumes "arrow_column lib t d a" and "native_type t"
  shows "serialize_arrow fc t a d = serialize_column iset t (arr_values t a)"
  by (rule native_column [OF assms])

theorem arrow_write_is_native_witness:
  "serialize_arrow no_floats (Array (Nullable Int32))
      (AList KList (Field ''item'' DInt32 True) [0, 2, 2] (AInt I32 [Some 1, None]) None)
      (DList (Field ''item'' DInt32 True))
    = serialize_column remdups (Array (Nullable Int32)) [VArray [VInt32 1, VNull], VArray []]"
proof -
  have "arrow_column checked_arrow (Array (Nullable Int32)) (DList (Field ''item'' DInt32 True))
    (AList KList (Field ''item'' DInt32 True) [0, 2, 2] (AInt I32 [Some 1, None]) None)"
    by (rule arrow_column.list [where t = "Nullable Int32" and f = "Field ''item'' DInt32 True"])
      (auto simp: leaf_array_def slots_ok_def in_kind_def int_signed_def int_bytes_def offsets_ok_def
        offset_bound_def LIST_ITEM_FIELD_NAME_def int_type_def is_nullable_def strip_low_cardinality_def
        intro!: arrow_column.nullable)
  from arrow_write_is_native [OF this, of no_floats remdups] show ?thesis
    by (simp add: native_leaf_def leaf_values_def slot_values_def int_value_def)
qed

section \<open>Where the writers differ\<close>

text \<open>A 256-bit decimal: the Arrow writer sends its highest byte first, the native writer its
  lowest.\<close>

lemma decimal256_reversed:
  "serialize_arrow fc (Decimal256 s) (ADecimal256 76 sc [Some v]) d = Inr (rev (int_le 32 v))"
  "serialize_column iset (Decimal256 s) [decimal_value (Decimal256 s) v] = Inr (int_le 32 v)"
  by (simp_all add: serialize_arrow.simps strip_null_def is_nullable_def normalize_geo_type_def
      serialize_primitive_def write_decimal256_values_def write_coerced_def swap_endian_256_def
      serialize_column.simps sized_write_def justify_null_ref_def decimal_value_def sized_item_bytes_def)

text \<open>A fixed binary string: only the native writer puts its length in front.\<close>

lemma fixed_binary_differs:
  assumes "length b = n"
  shows "serialize_arrow fc (FixedSizedBinary n) (AFixed m [Some b]) d = Inr b"
    and "serialize_column iset (FixedSizedBinary n) [VString b] = Inr (write_string b)"
  using assms by (simp_all add: serialize_arrow.simps strip_null_def is_nullable_def
      serialize_binary_def write_fixed_values_def pad_to_id serialize_column.simps string_write_def
      string_item_bytes_def emit_bytes_def)

end
