(* ===== verification/Convert.thy ===== *)
theory Convert
  imports Values
begin

text \<open>
  Values of Rust types as values of columns and back (native/convert/std_serialize.rs,
  std_deserialize.rs and the \<open>ToSql\<close> and \<open>FromSql\<close> of native/values/*.rs). A Rust type that
  implements the two traits is a code of \<open>rtype\<close>, and a value of it an element of \<open>rval\<close>
  whose constructor says its type, so that \<open>to_sql\<close> is one function by cases on the value and
  \<open>from_sql\<close> one function by cases on the type asked for. \<open>&T\<close>, \<open>&mut T\<close> and \<open>Box<T>\<close>
  convert as \<open>T\<close> does.

  The value of a float is its bit pattern and a text is its bytes, as in the rest of the
  development. A chrono time is its time zone, its second and its nanosecond in the second. A
  \<open>rust_decimal::Decimal\<close> is its mantissa and its scale. The list of entries of a map is in the
  order the map iterates in. The conversions to serde and geo-types values are not modelled.
\<close>

section \<open>Rust types and values\<close>

datatype map_kind = HashMap | BTreeMap | IndexMap

datatype (plugins only: size code) rtype =
    RBool
  | RU8
  | RU16
  | RU32
  | RU64
  | RU128
  | RI8
  | RI16
  | RI32
  | RI64
  | RI128
  | RF32
  | RF64
  | RUuid
  | RDate
  | RDate32
  | RI256
  | RU256
  | RIpv4
  | RIpv6
  | RPoint
  | RRing
  | RPolygon
  | RMultiPolygon
  | RString | RBytes | RDateTime | RDateTime64 nat | RUtc | RTz
  | RFixed32 nat | RFixed64 nat | RFixed128 nat | RFixed256 nat | RDecimal
  | RVec rtype | RArr nat rtype | RVecTuple rtype | ROption rtype
  | RMap map_kind rtype rtype | RTuple "rtype list" | RValue

datatype (plugins only: size code) rval =
    BoolV bool
  | U8V byte
  | U16V u16
  | U32V u32
  | U64V u64
  | U128V u128
  | I8V byte
  | I16V u16
  | I32V u32
  | I64V u64
  | I128V u128
  | F32V u32
  | F64V u64
  | UuidV u128
  | DateV u16
  | Date32V u32
  | I256V "byte list"
  | U256V "byte list"
  | Ipv4V u32
  | Ipv6V "byte list"
  | PointV point
  | RingV "point list"
  | PolygonV "point list list"
  | MultiPolygonV "point list list list"
  | StringV string | BytesV "byte list" | DateTimeV tz u32 | DateTime64V nat tz u64
  | UtcV int nat | TzV tz int nat
  | Fixed32V nat u32
  | Fixed64V nat u64
  | Fixed128V nat u128
  | Fixed256V nat "byte list"
  | DecimalV int nat
  | VecV rtype "rval list" | ArrV "rval list" | VecTupleV "rval list" | OptionV "rval option"
  | MapV map_kind "(rval \<times> rval) list" | TupleV "rval list" | ValueV val

text \<open>
  The libraries: whether chrono has a date for a second, whether \<open>rust_decimal\<close> has a
  decimal for a mantissa and a scale, and the order in which a map iterates over entries that
  were inserted in the order of the list.
\<close>

record rust_lib =
  chrono_second :: "int \<Rightarrow> bool"
  decimal_exists :: "int \<Rightarrow> nat \<Rightarrow> bool"
  map_order :: "map_kind \<Rightarrow> (rval \<times> rval) list \<Rightarrow> (rval \<times> rval) list"

text \<open>\<open>slice::get\<close>.\<close>

definition list_get :: "'a list \<Rightarrow> nat \<Rightarrow> 'a option" where
  "list_get xs i = (if i < length xs then Some (xs ! i) else None)"

section \<open>Integer casts\<close>

definition in_signed :: "nat \<Rightarrow> int \<Rightarrow> bool" where
  "in_signed w i \<longleftrightarrow> - (2 ^ (w - 1)) \<le> i \<and> i < 2 ^ (w - 1)"

text \<open>\<open>10u64.pow(n)\<close> with overflow checks, and \<open>10u64.pow(9 - n)\<close>.\<close>

definition pow10_u64 :: "nat \<Rightarrow> nat res" where
  "pow10_u64 n = (if 10 ^ n < (2::nat) ^ 64 then Inr (10 ^ n) else Inl Panic)"

definition pow10_rest :: "nat \<Rightarrow> nat res" where
  "pow10_rest n = (if n \<le> 9 then Inr (10 ^ (9 - n)) else Inl Panic)"

text \<open>The digits of a mantissa: \<open>n.abs().ilog10() + 1\<close>.\<close>

fun digit_count :: "nat \<Rightarrow> nat" where
  "digit_count n = (if n < 10 then 1 else Suc (digit_count (n div 10)))"

declare digit_count.simps [simp del]

definition count_digits_i128 :: "int \<Rightarrow> nat" where
  "count_digits_i128 n = digit_count (nat \<bar>n\<bar>)"

section \<open>To a column value\<close>

text \<open>\<open>timestamp_micros().try_into::<u64>()\<close> of a time.\<close>

definition micros_of :: "int \<Rightarrow> nat \<Rightarrow> u64 res" where
  "micros_of secs nanos =
     (let m = secs * 1000000 + int (nanos div 1000) in
      if m < 0 then Inl DeserializeError else Inr (word_of_int m))"

definition decimal_to_sql :: "ty option \<Rightarrow> int \<Rightarrow> nat \<Rightarrow> val res" where
  "decimal_to_sql hint mantissa scale =
     (case hint of
        None \<Rightarrow> Inr (VDecimal128 scale (word_of_int mantissa))
      | Some (Decimal32 s) \<Rightarrow>
          if count_digits_i128 mantissa > 9 \<or> scale > s mod 2 ^ 32 \<or> \<not> in_signed 32 mantissa
          then Inl SerializeError else Inr (VDecimal32 scale (word_of_int mantissa))
      | Some (Decimal64 s) \<Rightarrow>
          if count_digits_i128 mantissa > 18 \<or> scale > s mod 2 ^ 32 \<or> \<not> in_signed 64 mantissa
          then Inl SerializeError else Inr (VDecimal64 scale (word_of_int mantissa))
      | Some (Decimal128 s) \<Rightarrow>
          if count_digits_i128 mantissa > 38 \<or> scale > s mod 2 ^ 32
          then Inl SerializeError else Inr (VDecimal128 scale (word_of_int mantissa))
      | Some _ \<Rightarrow> Inl SerializeError)"

definition bytes_to_sql :: "ty option \<Rightarrow> byte list \<Rightarrow> val" where
  "bytes_to_sql hint bs =
     (case hint of
        Some (Array UInt8) \<Rightarrow> VArray (map VUInt8 bs)
      | Some (Array Int8) \<Rightarrow> VArray (map VInt8 bs)
      | _ \<Rightarrow> VString bs)"

text \<open>The bytes of the items of a vector of \<open>u8\<close> or \<open>i8\<close>.\<close>

definition item_byte :: "rval \<Rightarrow> byte" where
  "item_byte x = (case x of U8V b \<Rightarrow> b | I8V b \<Rightarrow> b | _ \<Rightarrow> 0)"

definition text_hint :: "ty option \<Rightarrow> bool" where
  "text_hint h = (case h of Some String \<Rightarrow> True | Some (FixedSizedString _) \<Rightarrow> True | _ \<Rightarrow> False)"

lemma enumerate_item: "(i, x) \<in> set (enumerate n xs) \<Longrightarrow> x \<in> set xs"
  by (metis enumerate_eq_zip in_set_zipE)

lemma size_entry: "(k, v) \<in> set kvs \<Longrightarrow>
    size k < Suc (size_list (size_prod size size) kvs) \<and> size v < Suc (size_list (size_prod size size) kvs)"
  by (induction kvs) auto

lemma size_item: "x \<in> set xs \<Longrightarrow> size x < Suc (size_list size xs)"
  by (induction xs) auto

text \<open>The containers, over the conversion of their items.\<close>

definition array_to_sql :: "(rval \<Rightarrow> ty option \<Rightarrow> val res) \<Rightarrow> rval list \<Rightarrow> ty option \<Rightarrow> val res" where
  "array_to_sql item_to xs hint =
     rbind (traverse (\<lambda>x. item_to x (Option.bind hint unarray)) xs) (\<lambda>vs. Inr (VArray vs))"

definition vec_to_sql :: "(rval \<Rightarrow> ty option \<Rightarrow> val res) \<Rightarrow> rtype \<Rightarrow> rval list \<Rightarrow> ty option \<Rightarrow> val res" where
  "vec_to_sql item_to r xs hint =
     (let h = Option.bind hint unarray in
      if text_hint h \<and> (r = RU8 \<or> r = RI8) then Inr (VString (map item_byte xs))
      else rbind (traverse (\<lambda>x. item_to x h) xs) (\<lambda>vs. Inr (VArray vs)))"

definition tuple_to_sql :: "(rval \<Rightarrow> ty option \<Rightarrow> val res) \<Rightarrow> rval list \<Rightarrow> ty option \<Rightarrow> val res" where
  "tuple_to_sql item_to xs hint =
     (let h = Option.bind hint untuple in
      rbind (traverse (\<lambda>(i, x). item_to x (Option.bind h (\<lambda>ts. list_get ts i))) (enumerate 0 xs))
        (\<lambda>vs. Inr (VTuple vs)))"

definition vec_tuple_to_sql :: "(rval \<Rightarrow> ty option \<Rightarrow> val res) \<Rightarrow> rval list \<Rightarrow> ty option \<Rightarrow> val res" where
  "vec_tuple_to_sql item_to xs hint =
     rbind (traverse (\<lambda>(i, x). item_to x (Option.bind hint (\<lambda>t. Option.bind (untuple t) (\<lambda>ts. list_get ts i))))
              (enumerate 0 xs)) (\<lambda>vs. Inr (VTuple vs))"

definition map_to_sql ::
  "(rval \<Rightarrow> ty option \<Rightarrow> val res) \<Rightarrow> (rval \<times> rval) list \<Rightarrow> ty option \<Rightarrow> val res" where
  "map_to_sql item_to kvs hint =
     (let h = Option.bind hint unmap in
      rbind (traverse (\<lambda>(k, v). rbind (item_to k (map_option fst h)) (\<lambda>k'.
               rbind (item_to v (map_option snd h)) (\<lambda>v'. Inr (k', v')))) kvs)
        (\<lambda>ps. Inr (VMap (map fst ps) (map snd ps))))"

definition option_to_sql :: "(rval \<Rightarrow> ty option \<Rightarrow> val res) \<Rightarrow> rval option \<Rightarrow> ty option \<Rightarrow> val res" where
  "option_to_sql item_to x hint =
     (case x of None \<Rightarrow> Inr VNull | Some y \<Rightarrow> item_to y (Option.bind hint unnull))"

lemma container_to_sql_cong [fundef_cong]:
  "xs = xs' \<Longrightarrow> hint = hint' \<Longrightarrow> (\<And>x h. x \<in> set xs' \<Longrightarrow> f x h = g x h) \<Longrightarrow>
     array_to_sql f xs hint = array_to_sql g xs' hint'"
  "xs = xs' \<Longrightarrow> hint = hint' \<Longrightarrow> r = r' \<Longrightarrow> (\<And>x h. x \<in> set xs' \<Longrightarrow> f x h = g x h) \<Longrightarrow>
     vec_to_sql f r xs hint = vec_to_sql g r' xs' hint'"
  "xs = xs' \<Longrightarrow> hint = hint' \<Longrightarrow> (\<And>x h. x \<in> set xs' \<Longrightarrow> f x h = g x h) \<Longrightarrow>
     tuple_to_sql f xs hint = tuple_to_sql g xs' hint'"
  "xs = xs' \<Longrightarrow> hint = hint' \<Longrightarrow> (\<And>x h. x \<in> set xs' \<Longrightarrow> f x h = g x h) \<Longrightarrow>
     vec_tuple_to_sql f xs hint = vec_tuple_to_sql g xs' hint'"
  "y = y' \<Longrightarrow> hint = hint' \<Longrightarrow> (\<And>x h. y' = Some x \<Longrightarrow> f x h = g x h) \<Longrightarrow>
     option_to_sql f y hint = option_to_sql g y' hint'"
  unfolding array_to_sql_def vec_to_sql_def tuple_to_sql_def vec_tuple_to_sql_def option_to_sql_def
  by (auto simp: Let_def intro!: arg_cong2 [of _ _ _ _ rbind] traverse_cong dest: enumerate_item
    split: option.split)

lemma map_to_sql_cong [fundef_cong]:
  assumes "kvs = kvs'" and "hint = hint'"
    and "\<And>k v h. (k, v) \<in> set kvs' \<Longrightarrow> f k h = g k h" and "\<And>k v h. (k, v) \<in> set kvs' \<Longrightarrow> f v h = g v h"
  shows "map_to_sql f kvs hint = map_to_sql g kvs' hint'"
  unfolding map_to_sql_def assms(1,2) Let_def
  by (auto intro!: arg_cong2 [of _ _ _ _ rbind] traverse_cong simp: assms(3,4))

function to_sql :: "rval \<Rightarrow> ty option \<Rightarrow> val res" where
  "to_sql (BoolV b) hint = Inr (VUInt8 (if b then 1 else 0))"
| "to_sql (U8V x) hint = Inr (VUInt8 x)"
| "to_sql (U16V x) hint = Inr (VUInt16 x)"
| "to_sql (U32V x) hint = Inr (VUInt32 x)"
| "to_sql (U64V x) hint = Inr (VUInt64 x)"
| "to_sql (U128V x) hint = Inr (VUInt128 x)"
| "to_sql (I8V x) hint = Inr (VInt8 x)"
| "to_sql (I16V x) hint = Inr (VInt16 x)"
| "to_sql (I32V x) hint = Inr (VInt32 x)"
| "to_sql (I64V x) hint = Inr (VInt64 x)"
| "to_sql (I128V x) hint = Inr (VInt128 x)"
| "to_sql (F32V x) hint = Inr (VFloat32 x)"
| "to_sql (F64V x) hint = Inr (VFloat64 x)"
| "to_sql (UuidV x) hint = Inr (VUuid x)"
| "to_sql (DateV x) hint = Inr (VDate x)"
| "to_sql (Date32V x) hint = Inr (VDate32 x)"
| "to_sql (I256V x) hint = Inr (VInt256 x)"
| "to_sql (U256V x) hint = Inr (VUInt256 x)"
| "to_sql (Ipv4V x) hint = Inr (VIpv4 x)"
| "to_sql (Ipv6V x) hint = Inr (VIpv6 x)"
| "to_sql (PointV x) hint = Inr (VPoint x)"
| "to_sql (RingV x) hint = Inr (VRing x)"
| "to_sql (PolygonV x) hint = Inr (VPolygon x)"
| "to_sql (MultiPolygonV x) hint = Inr (VMultiPolygon x)"
| "to_sql (StringV s) hint = Inr (VString (str_bytes s))"
| "to_sql (BytesV bs) hint = Inr (bytes_to_sql hint bs)"
| "to_sql (DateTimeV tz x) hint = Inr (VDateTime tz x)"
| "to_sql (DateTime64V p tz x) hint = Inr (VDateTime64 tz x p)"
| "to_sql (UtcV secs nanos) hint =
     rbind (micros_of secs nanos) (\<lambda>m. Inr (VDateTime64 ''UTC'' m 6))"
| "to_sql (TzV tz secs nanos) hint =
     rbind (micros_of secs nanos) (\<lambda>m. Inr (VDateTime64 tz m 6))"
| "to_sql (Fixed32V s x) hint = Inr (VDecimal32 s x)"
| "to_sql (Fixed64V s x) hint = Inr (VDecimal64 s x)"
| "to_sql (Fixed128V s x) hint = Inr (VDecimal128 s x)"
| "to_sql (Fixed256V s x) hint = Inr (VDecimal256 s x)"
| "to_sql (DecimalV mantissa scale) hint = decimal_to_sql hint mantissa scale"
| "to_sql (VecV r xs) hint = vec_to_sql to_sql r xs hint"
| "to_sql (ArrV xs) hint = array_to_sql to_sql xs hint"
| "to_sql (VecTupleV xs) hint = vec_tuple_to_sql to_sql xs hint"
| "to_sql (OptionV x) hint = option_to_sql to_sql x hint"
| "to_sql (MapV kind kvs) hint = map_to_sql to_sql kvs hint"
| "to_sql (TupleV xs) hint = tuple_to_sql to_sql xs hint"
| "to_sql (ValueV v) hint = Inr v"
  by pat_completeness auto

termination
  by (relation "measure (\<lambda>(x, _). size x)")
    (auto dest: size_item size_entry)

section \<open>From a column value\<close>

text \<open>A string that is not UTF-8 is refused.\<close>

definition from_utf8 :: "byte list \<Rightarrow> string res" where
  "from_utf8 bs = (if utf8_valid bs then Inr (bytes_str bs) else Inl FromUtf8)"

text \<open>A \<open>DateTime64\<close> or \<open>DateTime\<close> value as a chrono time: its second and its nanosecond.\<close>

definition chrono_time :: "rust_lib \<Rightarrow> int \<Rightarrow> nat \<Rightarrow> (int \<times> nat) res" where
  "chrono_time lib secs nanos =
     (if chrono_second lib secs then Inr (secs, nanos) else Inl Panic)"

definition split_units :: "u64 \<Rightarrow> nat \<Rightarrow> (nat \<times> nat) res" where
  "split_units x p =
     rbind (pow10_u64 (p mod 2 ^ 32)) (\<lambda>k.
     rbind (pow10_rest (p mod 2 ^ 32)) (\<lambda>r.
       Inr (unat x div k, unat x mod k * r)))"

definition chrono_from_sql :: "rust_lib \<Rightarrow> ty \<Rightarrow> val \<Rightarrow> (tz \<times> int \<times> nat) res" where
  "chrono_from_sql lib t v =
     (if \<not> (case t of DateTime64 _ _ \<Rightarrow> True | DateTime _ \<Rightarrow> True | _ \<Rightarrow> False) then Inl DeserializeError
      else (case v of
        VDateTime64 tz x p \<Rightarrow>
          rbind (split_units x p) (\<lambda>(secs, nanos).
          if secs < 2 ^ 63 then
            rbind (chrono_time lib (int secs) nanos) (\<lambda>(s, n). Inr (tz, s, n))
          else Inl DeserializeError)
      | VDateTime tz x \<Rightarrow> rbind (chrono_time lib (uint x) 0) (\<lambda>(s, n). Inr (tz, s, n))
      | _ \<Rightarrow> Inl Panic))"

definition decimal_made :: "rust_lib \<Rightarrow> int \<Rightarrow> nat \<Rightarrow> rval res" where
  "decimal_made lib m scale =
     (if decimal_exists lib m (scale mod 2 ^ 32) then Inr (DecimalV m (scale mod 2 ^ 32))
      else Inl DeserializeError)"

definition decimal_from_sql :: "rust_lib \<Rightarrow> val \<Rightarrow> rval res" where
  "decimal_from_sql lib v =
     (case v of
        VInt8 i \<Rightarrow> Inr (DecimalV (sint i) 0)
      | VInt16 i \<Rightarrow> Inr (DecimalV (sint i) 0)
      | VInt32 i \<Rightarrow> Inr (DecimalV (sint i) 0)
      | VInt64 i \<Rightarrow> Inr (DecimalV (sint i) 0)
      | VInt128 i \<Rightarrow> decimal_made lib (sint i) 0
      | VUInt8 i \<Rightarrow> Inr (DecimalV (uint i) 0)
      | VUInt16 i \<Rightarrow> Inr (DecimalV (uint i) 0)
      | VUInt32 i \<Rightarrow> Inr (DecimalV (uint i) 0)
      | VUInt64 i \<Rightarrow> decimal_made lib (uint i) 0
      | VUInt128 i \<Rightarrow>
          if uint i < 2 ^ 127 then decimal_made lib (uint i) 0 else Inl DeserializeError
      | VDecimal32 scale x \<Rightarrow>
          if count_digits_i128 (sint x) > 9 then Inl DeserializeError
          else decimal_made lib (sint x) scale
      | VDecimal64 scale x \<Rightarrow>
          if count_digits_i128 (sint x) > 18 then Inl DeserializeError
          else decimal_made lib (sint x) scale
      | VDecimal128 scale x \<Rightarrow>
          if sint x = - (2 ^ 127) then Inl Panic
          else if count_digits_i128 (sint x) > 28 then Inl DeserializeError
          else decimal_made lib (sint x) scale
      | _ \<Rightarrow> Inl DeserializeError)"

definition byte_from_value :: "val \<Rightarrow> byte res" where
  "byte_from_value v = (case v of VUInt8 x \<Rightarrow> Inr x | VInt8 x \<Rightarrow> Inr x | _ \<Rightarrow> Inl DeserializeError)"

definition bytes_from_sql :: "ty \<Rightarrow> val \<Rightarrow> byte list res" where
  "bytes_from_sql t v =
     (case t of
        String \<Rightarrow> (case v of VString s \<Rightarrow> Inr s | _ \<Rightarrow> Inl Panic)
      | FixedSizedString _ \<Rightarrow> (case v of VString s \<Rightarrow> Inr s | _ \<Rightarrow> Inl Panic)
      | Array UInt8 \<Rightarrow> (case v of VArray vs \<Rightarrow> traverse byte_from_value vs | _ \<Rightarrow> Inl Panic)
      | Array Int8 \<Rightarrow> (case v of VArray vs \<Rightarrow> traverse byte_from_value vs | _ \<Rightarrow> Inl Panic)
      | _ \<Rightarrow> Inl DeserializeError)"

definition string_from_sql :: "ty \<Rightarrow> val \<Rightarrow> string res" where
  "string_from_sql t v =
     (if \<not> (case t of String \<Rightarrow> True | FixedSizedString _ \<Rightarrow> True | Binary \<Rightarrow> True
             | FixedSizedBinary _ \<Rightarrow> True | Object \<Rightarrow> True | _ \<Rightarrow> False) then Inl DeserializeError
      else (case v of VString x \<Rightarrow> from_utf8 x | VObject x \<Rightarrow> from_utf8 x | _ \<Rightarrow> Inl DeserializeError))"

text \<open>
  Equality of map keys: the keys of a map of values are compared by the equality of values,
  the keys of the other types by their content.
\<close>

definition key_eq :: "rval \<Rightarrow> rval \<Rightarrow> bool" where
  "key_eq a b = (case (a, b) of (ValueV v, ValueV w) \<Rightarrow> value_eq v w | _ \<Rightarrow> a = b)"

fun map_insert :: "rval \<Rightarrow> rval \<Rightarrow> (rval \<times> rval) list \<Rightarrow> (rval \<times> rval) list" where
  "map_insert k v [] = [(k, v)]"
| "map_insert k v ((k1, v1) # r) =
     (if key_eq k k1 then (k1, v) # r else (k1, v1) # map_insert k v r)"

definition map_collect :: "(rval \<times> rval) list \<Rightarrow> (rval \<times> rval) list" where
  "map_collect kvs = fold (\<lambda>(k, v) m. map_insert k v m) kvs []"

text \<open>The \<open>FromSql\<close> of the types of native/values; \<open>_ => unimplemented!()\<close> is a panic.\<close>

definition uuid_from_sql :: "ty \<Rightarrow> val \<Rightarrow> u128 res" where
  "uuid_from_sql t v =
     (if t \<noteq> Uuid then Inl DeserializeError
      else (case v of VUuid x \<Rightarrow> Inr x | _ \<Rightarrow> Inl DeserializeError))"

definition date_from_sql :: "ty \<Rightarrow> val \<Rightarrow> u16 res" where
  "date_from_sql t v =
     (if t \<noteq> Date then Inl DeserializeError
      else (case v of VDate x \<Rightarrow> Inr x | _ \<Rightarrow> Inl DeserializeError))"

definition date32_from_sql :: "ty \<Rightarrow> val \<Rightarrow> u32 res" where
  "date32_from_sql t v =
     (if t \<noteq> Date32 then Inl DeserializeError
      else (case v of VDate32 x \<Rightarrow> Inr x | _ \<Rightarrow> Inl DeserializeError))"

definition i256_from_sql :: "ty \<Rightarrow> val \<Rightarrow> (byte list) res" where
  "i256_from_sql t v =
     (if t \<noteq> Int256 then Inl DeserializeError
      else (case v of VInt256 x \<Rightarrow> Inr x | _ \<Rightarrow> Inl Panic))"

definition u256_from_sql :: "ty \<Rightarrow> val \<Rightarrow> (byte list) res" where
  "u256_from_sql t v =
     (if t \<noteq> UInt256 then Inl DeserializeError
      else (case v of VUInt256 x \<Rightarrow> Inr x | _ \<Rightarrow> Inl Panic))"

definition ipv4_from_sql :: "ty \<Rightarrow> val \<Rightarrow> u32 res" where
  "ipv4_from_sql t v =
     (if t \<noteq> Ipv4 then Inl DeserializeError
      else (case v of VIpv4 x \<Rightarrow> Inr x | _ \<Rightarrow> Inl Panic))"

definition ipv6_from_sql :: "ty \<Rightarrow> val \<Rightarrow> (byte list) res" where
  "ipv6_from_sql t v =
     (if t \<noteq> Ipv6 then Inl DeserializeError
      else (case v of VIpv6 x \<Rightarrow> Inr x | _ \<Rightarrow> Inl Panic))"

definition point_from_sql :: "ty \<Rightarrow> val \<Rightarrow> point res" where
  "point_from_sql t v =
     (if t \<noteq> Point then Inl DeserializeError
      else (case v of VPoint x \<Rightarrow> Inr x | _ \<Rightarrow> Inl Panic))"

definition ring_from_sql :: "ty \<Rightarrow> val \<Rightarrow> (point list) res" where
  "ring_from_sql t v =
     (if t \<noteq> Ring then Inl DeserializeError
      else (case v of VRing x \<Rightarrow> Inr x | _ \<Rightarrow> Inl Panic))"

definition polygon_from_sql :: "ty \<Rightarrow> val \<Rightarrow> (point list list) res" where
  "polygon_from_sql t v =
     (if t \<noteq> Polygon then Inl DeserializeError
      else (case v of VPolygon x \<Rightarrow> Inr x | _ \<Rightarrow> Inl Panic))"

definition multi_polygon_from_sql :: "ty \<Rightarrow> val \<Rightarrow> (point list list list) res" where
  "multi_polygon_from_sql t v =
     (if t \<noteq> MultiPolygon then Inl DeserializeError
      else (case v of VMultiPolygon x \<Rightarrow> Inr x | _ \<Rightarrow> Inl Panic))"

definition fixed32_from_sql :: "nat \<Rightarrow> ty \<Rightarrow> val \<Rightarrow> u32 res" where
  "fixed32_from_sql s t v =
     (if \<not> (case t of Decimal32 x \<Rightarrow> x = s | _ \<Rightarrow> False) then Inl DeserializeError
      else (case v of VDecimal32 _ x \<Rightarrow> Inr x | _ \<Rightarrow> Inl Panic))"

definition fixed64_from_sql :: "nat \<Rightarrow> ty \<Rightarrow> val \<Rightarrow> u64 res" where
  "fixed64_from_sql s t v =
     (if \<not> (case t of Decimal64 x \<Rightarrow> x = s | _ \<Rightarrow> False) then Inl DeserializeError
      else (case v of VDecimal64 _ x \<Rightarrow> Inr x | _ \<Rightarrow> Inl Panic))"

definition fixed128_from_sql :: "nat \<Rightarrow> ty \<Rightarrow> val \<Rightarrow> u128 res" where
  "fixed128_from_sql s t v =
     (if \<not> (case t of Decimal128 x \<Rightarrow> x = s | _ \<Rightarrow> False) then Inl DeserializeError
      else (case v of VDecimal128 _ x \<Rightarrow> Inr x | _ \<Rightarrow> Inl Panic))"

definition fixed256_from_sql :: "nat \<Rightarrow> ty \<Rightarrow> val \<Rightarrow> (byte list) res" where
  "fixed256_from_sql s t v =
     (if \<not> (case t of Decimal256 x \<Rightarrow> x = s | _ \<Rightarrow> False) then Inl DeserializeError
      else (case v of VDecimal256 _ x \<Rightarrow> Inr x | _ \<Rightarrow> Inl Panic))"

definition date_time_from_sql :: "ty \<Rightarrow> val \<Rightarrow> (tz \<times> u32) res" where
  "date_time_from_sql t v =
     (if \<not> (case t of DateTime _ \<Rightarrow> True | _ \<Rightarrow> False) then Inl DeserializeError
      else (case v of VDateTime tz x \<Rightarrow> Inr (tz, x) | _ \<Rightarrow> Inl Panic))"

definition date_time64_from_sql :: "nat \<Rightarrow> ty \<Rightarrow> val \<Rightarrow> (tz \<times> u64) res" where
  "date_time64_from_sql p t v =
     (if \<not> (case t of DateTime64 q _ \<Rightarrow> q = p | _ \<Rightarrow> False) then Inl DeserializeError
      else (case v of VDateTime64 tz x q \<Rightarrow> Inr (tz, x) | _ \<Rightarrow> Inl Panic))"

text \<open>The containers, over the conversion of their items.\<close>

definition vec_from_sql :: "rtype \<Rightarrow> (ty \<Rightarrow> val \<Rightarrow> rval res) \<Rightarrow> ty \<Rightarrow> val \<Rightarrow> rval res" where
  "vec_from_sql r item_from t v =
     (case t of
        Array item \<Rightarrow>
          (let sub = strip_low_cardinality item in
           case v of
             VString bs \<Rightarrow>
               if sub = UInt8 \<or> sub = Int8 then
                 (if r = RU8 then Inr (VecV r (map U8V bs))
                  else if r = RI8 then Inr (VecV r (map I8V bs))
                  else Inl DeserializeError)
               else Inl DeserializeError
           | VArray vs \<Rightarrow> rbind (traverse (item_from sub) vs) (\<lambda>xs. Inr (VecV r xs))
           | _ \<Rightarrow> Inl DeserializeError)
      | _ \<Rightarrow> Inl DeserializeError)"

definition array_from_sql :: "nat \<Rightarrow> (ty \<Rightarrow> val \<Rightarrow> rval res) \<Rightarrow> ty \<Rightarrow> val \<Rightarrow> rval res" where
  "array_from_sql n item_from t v =
     (case t of
        Array item \<Rightarrow>
          (case v of
             VArray vs \<Rightarrow>
               if length vs \<noteq> n then Inl DeserializeError
               else rbind (traverse (item_from (strip_low_cardinality item)) vs) (\<lambda>xs. Inr (ArrV xs))
           | _ \<Rightarrow> Inl DeserializeError)
      | _ \<Rightarrow> Inl DeserializeError)"

definition vec_tuple_from_sql :: "(ty \<Rightarrow> val \<Rightarrow> rval res) \<Rightarrow> ty \<Rightarrow> val \<Rightarrow> rval res" where
  "vec_tuple_from_sql item_from t v =
     (case t of
        Tuple subs \<Rightarrow>
          (case v of
             VTuple vs \<Rightarrow>
               if length vs \<noteq> length subs then Inl DeserializeError
               else rbind (traverse (\<lambda>(sub, v). item_from sub v) (zip subs vs)) (\<lambda>xs. Inr (VecTupleV xs))
           | _ \<Rightarrow> Inl DeserializeError)
      | _ \<Rightarrow> Inl DeserializeError)"

definition option_from_sql :: "(ty \<Rightarrow> val \<Rightarrow> rval res) \<Rightarrow> ty \<Rightarrow> val \<Rightarrow> rval res" where
  "option_from_sql item_from t v =
     (case t of
        Nullable item \<Rightarrow>
          (case v of
             VNull \<Rightarrow> Inr (OptionV None)
           | _ \<Rightarrow> rmap (\<lambda>x. OptionV (Some x)) (item_from (strip_low_cardinality item) v))
      | _ \<Rightarrow> Inl DeserializeError)"

definition map_from_sql ::
  "rust_lib \<Rightarrow> map_kind \<Rightarrow> (ty \<Rightarrow> val \<Rightarrow> rval res) \<Rightarrow> (ty \<Rightarrow> val \<Rightarrow> rval res) \<Rightarrow> ty \<Rightarrow> val \<Rightarrow> rval res" where
  "map_from_sql lib kind key_from value_from t v =
     (case t of
        Map kt vt \<Rightarrow>
          (case v of
             VMap ks vs \<Rightarrow>
               rbind (traverse (\<lambda>(k, v).
                   rbind (key_from (strip_low_cardinality kt) k) (\<lambda>k'.
                   rbind (value_from (strip_low_cardinality vt) v) (\<lambda>v'. Inr (k', v')))) (zip ks vs))
                 (\<lambda>kvs. Inr (MapV kind (map_order lib kind (map_collect kvs))))
           | _ \<Rightarrow> Inl DeserializeError)
      | _ \<Rightarrow> Inl DeserializeError)"

definition tuple_from_sql :: "(rtype \<Rightarrow> ty \<Rightarrow> val \<Rightarrow> rval res) \<Rightarrow> rtype list \<Rightarrow> ty \<Rightarrow> val \<Rightarrow> rval res" where
  "tuple_from_sql item_from rs t v =
     (case t of
        Tuple subs \<Rightarrow>
          (case v of
             VTuple vs \<Rightarrow>
               if length vs \<noteq> length subs then Inl DeserializeError
               else if length vs \<noteq> length rs then Inl DeserializeError
               else rbind (traverse (\<lambda>(r, sub, v). item_from r (strip_low_cardinality sub) v)
                             (zip rs (zip subs vs))) (\<lambda>xs. Inr (TupleV xs))
           | _ \<Rightarrow> Inl DeserializeError)
      | _ \<Rightarrow> Inl DeserializeError)"

lemma tuple_from_sql_cong [fundef_cong]:
  assumes "rs = rs'" and "t = t'" and "v = v'" and "\<And>r u w. r \<in> set rs' \<Longrightarrow> f r u w = g r u w"
  shows "tuple_from_sql f rs t v = tuple_from_sql g rs' t' v'"
proof -
  have same: "traverse (\<lambda>(r, sub, v). f r (strip_low_cardinality sub) v) (zip rs' zs)
      = traverse (\<lambda>(r, sub, v). g r (strip_low_cardinality sub) v) (zip rs' zs)" for zs
    by (rule traverse_cong) (auto dest: set_zip_leftD intro: assms(4))
  show ?thesis
    unfolding assms(1,2,3) by (simp add: tuple_from_sql_def same split: ty.split val.split)
qed

lemmas value_from_sql_defs =
  uuid_from_sql_def date_from_sql_def date32_from_sql_def i256_from_sql_def u256_from_sql_def ipv4_from_sql_def ipv6_from_sql_def point_from_sql_def ring_from_sql_def polygon_from_sql_def multi_polygon_from_sql_def fixed32_from_sql_def fixed64_from_sql_def fixed128_from_sql_def fixed256_from_sql_def date_time_from_sql_def date_time64_from_sql_def

lemma size_type: "r \<in> set rs \<Longrightarrow> size (r :: rtype) < Suc (size_list size rs)"
  by (induction rs) auto

text \<open>The value of the Rust type.\<close>

function from_sql :: "rust_lib \<Rightarrow> rtype \<Rightarrow> ty \<Rightarrow> val \<Rightarrow> rval res" where
  "from_sql lib RBool t v =
     (if t \<noteq> UInt8 then Inl DeserializeError
      else (case v of VUInt8 x \<Rightarrow> Inr (BoolV (x \<noteq> 0)) | _ \<Rightarrow> Inl DeserializeError))"
| "from_sql lib RU8 t v =
     (if t \<noteq> UInt8 then Inl DeserializeError
      else (case v of VUInt8 x \<Rightarrow> Inr (U8V x) | _ \<Rightarrow> Inl DeserializeError))"
| "from_sql lib RU16 t v =
     (if t \<noteq> UInt16 then Inl DeserializeError
      else (case v of VUInt16 x \<Rightarrow> Inr (U16V x) | _ \<Rightarrow> Inl DeserializeError))"
| "from_sql lib RU32 t v =
     (if t \<noteq> UInt32 then Inl DeserializeError
      else (case v of VUInt32 x \<Rightarrow> Inr (U32V x) | _ \<Rightarrow> Inl DeserializeError))"
| "from_sql lib RU64 t v =
     (if t \<noteq> UInt64 then Inl DeserializeError
      else (case v of VUInt64 x \<Rightarrow> Inr (U64V x) | _ \<Rightarrow> Inl DeserializeError))"
| "from_sql lib RU128 t v =
     (if t \<noteq> UInt128 then Inl DeserializeError
      else (case v of VUInt128 x \<Rightarrow> Inr (U128V x) | _ \<Rightarrow> Inl DeserializeError))"
| "from_sql lib RI8 t v =
     (if t \<noteq> Int8 then Inl DeserializeError
      else (case v of VInt8 x \<Rightarrow> Inr (I8V x) | _ \<Rightarrow> Inl DeserializeError))"
| "from_sql lib RI16 t v =
     (if t \<noteq> Int16 then Inl DeserializeError
      else (case v of VInt16 x \<Rightarrow> Inr (I16V x) | _ \<Rightarrow> Inl DeserializeError))"
| "from_sql lib RI32 t v =
     (if t \<noteq> Int32 then Inl DeserializeError
      else (case v of VInt32 x \<Rightarrow> Inr (I32V x) | _ \<Rightarrow> Inl DeserializeError))"
| "from_sql lib RI64 t v =
     (if t \<noteq> Int64 then Inl DeserializeError
      else (case v of VInt64 x \<Rightarrow> Inr (I64V x) | _ \<Rightarrow> Inl DeserializeError))"
| "from_sql lib RI128 t v =
     (if t \<noteq> Int128 then Inl DeserializeError
      else (case v of VInt128 x \<Rightarrow> Inr (I128V x) | _ \<Rightarrow> Inl DeserializeError))"
| "from_sql lib RF32 t v =
     (if t \<noteq> Float32 then Inl DeserializeError
      else (case v of VFloat32 x \<Rightarrow> Inr (F32V x) | _ \<Rightarrow> Inl DeserializeError))"
| "from_sql lib RF64 t v =
     (if t \<noteq> Float64 then Inl DeserializeError
      else (case v of VFloat64 x \<Rightarrow> Inr (F64V x) | _ \<Rightarrow> Inl DeserializeError))"
| "from_sql lib RUuid t v = rmap UuidV (uuid_from_sql t v)"
| "from_sql lib RDate t v = rmap DateV (date_from_sql t v)"
| "from_sql lib RDate32 t v = rmap Date32V (date32_from_sql t v)"
| "from_sql lib RI256 t v = rmap I256V (i256_from_sql t v)"
| "from_sql lib RU256 t v = rmap U256V (u256_from_sql t v)"
| "from_sql lib RIpv4 t v = rmap Ipv4V (ipv4_from_sql t v)"
| "from_sql lib RIpv6 t v = rmap Ipv6V (ipv6_from_sql t v)"
| "from_sql lib RPoint t v = rmap PointV (point_from_sql t v)"
| "from_sql lib RRing t v = rmap RingV (ring_from_sql t v)"
| "from_sql lib RPolygon t v = rmap PolygonV (polygon_from_sql t v)"
| "from_sql lib RMultiPolygon t v = rmap MultiPolygonV (multi_polygon_from_sql t v)"
| "from_sql lib RString t v = rmap StringV (string_from_sql t v)"
| "from_sql lib RBytes t v = rmap BytesV (bytes_from_sql t v)"
| "from_sql lib RDateTime t v = rmap (\<lambda>(tz, x). DateTimeV tz x) (date_time_from_sql t v)"
| "from_sql lib (RDateTime64 p) t v = rmap (\<lambda>(tz, x). DateTime64V p tz x) (date_time64_from_sql p t v)"
| "from_sql lib RUtc t v = rmap (\<lambda>(tz, s, n). UtcV s n) (chrono_from_sql lib t v)"
| "from_sql lib RTz t v = rmap (\<lambda>(tz, s, n). TzV tz s n) (chrono_from_sql lib t v)"
| "from_sql lib (RFixed32 s) t v = rmap (Fixed32V s) (fixed32_from_sql s t v)"
| "from_sql lib (RFixed64 s) t v = rmap (Fixed64V s) (fixed64_from_sql s t v)"
| "from_sql lib (RFixed128 s) t v = rmap (Fixed128V s) (fixed128_from_sql s t v)"
| "from_sql lib (RFixed256 s) t v = rmap (Fixed256V s) (fixed256_from_sql s t v)"
| "from_sql lib RDecimal t v = decimal_from_sql lib v"
| "from_sql lib (RVec r) t v = vec_from_sql r (from_sql lib r) t v"
| "from_sql lib (RArr n r) t v = array_from_sql n (from_sql lib r) t v"
| "from_sql lib (RVecTuple r) t v = vec_tuple_from_sql (from_sql lib r) t v"
| "from_sql lib (ROption r) t v = option_from_sql (from_sql lib r) t v"
| "from_sql lib (RMap kind kr vr) t v = map_from_sql lib kind (from_sql lib kr) (from_sql lib vr) t v"
| "from_sql lib (RTuple rs) t v = tuple_from_sql (from_sql lib) rs t v"
| "from_sql lib RValue t v = Inr (ValueV v)"
  by pat_completeness auto

termination
  by (relation "measure (\<lambda>(_, r, _). size r)") (auto intro: size_type)

text \<open>\<open>Value::to_value\<close> and \<open>Value::from_value\<close>.\<close>

definition to_value :: "rust_lib \<Rightarrow> rtype \<Rightarrow> val \<Rightarrow> ty \<Rightarrow> rval res" where
  "to_value lib r v t = from_sql lib r t v"

definition from_value :: "rval \<Rightarrow> val res" where
  "from_value x = to_sql x None"


lemmas container_sql_defs =
  array_to_sql_def vec_to_sql_def tuple_to_sql_def vec_tuple_to_sql_def map_to_sql_def option_to_sql_def
  array_from_sql_def vec_from_sql_def tuple_from_sql_def vec_tuple_from_sql_def map_from_sql_def
  option_from_sql_def

end
