(* ===== verification/Dates.thy ===== *)
theory Dates
  imports Convert "HOL-Library.Signed_Division"
begin

text \<open>
  The dates and times of native/values/date.rs and their conversions: from counts of days,
  seconds and fractions, and from and to the times of chrono. A \<open>NaiveDate\<close> is its number of
  days from 1970-01-01 (so 1900-01-01 is day -25567), a chrono time its time zone, its second
  and its nanosecond. The parameter \<open>date_exists\<close> says which days chrono has; a \<open>DateTime64\<close>
  is its time zone, its count and its precision.
\<close>

section \<open>Days\<close>

definition MILLIS_PER_DAY :: int where
  "MILLIS_PER_DAY = 86400000"

definition EPOCH_1900 :: int where
  "EPOCH_1900 = -25567"

text \<open>The division of an \<open>i64\<close> rounds to zero.\<close>

definition quot :: "int \<Rightarrow> int \<Rightarrow> int" where
  "quot a b = a sdiv b"

definition date_from_days :: "int \<Rightarrow> u16 res" where
  "date_from_days days = (if days < 0 \<or> days > 65535 then Inl Panic else Inr (word_of_int days))"

definition date_from_millis :: "int \<Rightarrow> u16 res" where
  "date_from_millis ms =
     (let days = quot ms MILLIS_PER_DAY in
      if days < 0 \<or> days > 65535 then Inl Panic else Inr (word_of_int days))"

text \<open>\<open>From<NaiveDate> for Date\<close> casts to \<open>u16\<close>, \<open>From<Date> for NaiveDate\<close> adds to the epoch.\<close>

definition date_from_naive :: "int \<Rightarrow> u16" where
  "date_from_naive day = word_of_int day"

definition date_to_naive :: "(int \<Rightarrow> bool) \<Rightarrow> u16 \<Rightarrow> int res" where
  "date_to_naive date_exists d = (if date_exists (uint d) then Inr (uint d) else Inl Panic)"

definition date32_from_days :: "int \<Rightarrow> u32" where
  "date32_from_days days = word_of_int days"

definition date32_from_millis :: "int \<Rightarrow> u32" where
  "date32_from_millis ms = word_of_int (quot ms MILLIS_PER_DAY - 25567)"

definition date32_from_naive :: "int \<Rightarrow> u32" where
  "date32_from_naive day = word_of_int (day - EPOCH_1900)"

definition date32_to_naive :: "(int \<Rightarrow> bool) \<Rightarrow> u32 \<Rightarrow> int res" where
  "date32_to_naive date_exists d =
     (let day = EPOCH_1900 + sint d in if date_exists day then Inr day else Inl Panic)"

section \<open>Seconds\<close>

type_synonym date_time = "tz \<times> u32"

text \<open>A missing time zone is UTC; a name chrono does not know panics in \<open>unwrap\<close>.\<close>

definition tz_or_utc :: "(string \<Rightarrow> tz option) \<Rightarrow> string option \<Rightarrow> tz res" where
  "tz_or_utc tzp tz =
     (case tz of None \<Rightarrow> Inr ''UTC''
      | Some s \<Rightarrow> (case tzp s of None \<Rightarrow> Inl Panic | Some z \<Rightarrow> Inr z))"

definition seconds_in_range :: "int \<Rightarrow> bool" where
  "seconds_in_range seconds \<longleftrightarrow> \<not> (seconds < 0 \<or> seconds > 4294967295)"

definition date_time_from_seconds :: "(string \<Rightarrow> tz option) \<Rightarrow> int \<Rightarrow> string option \<Rightarrow> date_time res" where
  "date_time_from_seconds tzp seconds tz =
     rbind (tz_or_utc tzp tz) (\<lambda>z.
       if seconds_in_range seconds then Inr (z, word_of_int seconds) else Inl Panic)"

definition date_time_from_millis :: "(string \<Rightarrow> tz option) \<Rightarrow> int \<Rightarrow> string option \<Rightarrow> date_time res" where
  "date_time_from_millis tzp ms tz =
     (let seconds = quot ms 1000 in
      if \<not> seconds_in_range seconds then Inl Panic
      else rbind (tz_or_utc tzp tz) (\<lambda>z. Inr (z, word_of_int seconds)))"

definition date_time_from_micros :: "(string \<Rightarrow> tz option) \<Rightarrow> int \<Rightarrow> string option \<Rightarrow> date_time res" where
  "date_time_from_micros tzp us tz =
     (let seconds = quot us 1000000 in
      if \<not> seconds_in_range seconds then Inl Panic
      else rbind (tz_or_utc tzp tz) (\<lambda>z. Inr (z, word_of_int seconds)))"

definition date_time_from_nanos :: "(string \<Rightarrow> tz option) \<Rightarrow> int \<Rightarrow> string option \<Rightarrow> date_time res" where
  "date_time_from_nanos tzp ns tz =
     (let seconds = quot ns 1000000000 in
      if \<not> seconds_in_range seconds then Inl Panic
      else rbind (tz_or_utc tzp tz) (\<lambda>z. Inr (z, word_of_int seconds)))"

type_synonym chrono = "tz \<times> int \<times> nat"

text \<open>The infallible conversions cast the second, the fallible ones check it.\<close>

definition date_time_from_chrono_infallible :: "chrono \<Rightarrow> date_time" where
  "date_time_from_chrono_infallible c = (case c of (tz, secs, _) \<Rightarrow> (tz, word_of_int secs))"

definition date_time_from_chrono_infallible_utc :: "int \<times> nat \<Rightarrow> date_time" where
  "date_time_from_chrono_infallible_utc c = (''UTC'', word_of_int (fst c))"

definition date_time_try_from_chrono :: "chrono \<Rightarrow> date_time res" where
  "date_time_try_from_chrono c =
     (case c of (tz, secs, _) \<Rightarrow>
        if seconds_in_range secs then Inr (tz, word_of_int secs) else Inl DateTimeErr)"

definition date_time_try_from_fixed :: "int \<times> nat \<Rightarrow> date_time res" where
  "date_time_try_from_fixed c =
     (if seconds_in_range (fst c) then Inr (''UTC'', word_of_int (fst c)) else Inl DateTimeErr)"

definition date_time_try_from_utc :: "int \<times> nat \<Rightarrow> date_time res" where
  "date_time_try_from_utc c =
     (if seconds_in_range (fst c) then Inr (''UTC'', word_of_int (fst c)) else Inl DateTimeErr)"

text \<open>To a chrono time, in the zone, in UTC and with a fixed offset: the instant is the same.\<close>

definition date_time_to_chrono :: "rust_lib \<Rightarrow> date_time \<Rightarrow> chrono res" where
  "date_time_to_chrono lib d =
     rbind (chrono_time lib (uint (snd d)) 0) (\<lambda>(s, n). Inr (fst d, s, n))"

definition date_time_to_utc :: "rust_lib \<Rightarrow> date_time \<Rightarrow> (int \<times> nat) res" where
  "date_time_to_utc lib d = chrono_time lib (uint (snd d)) 0"

definition date_time_to_fixed :: "rust_lib \<Rightarrow> date_time \<Rightarrow> (int \<times> nat) res" where
  "date_time_to_fixed lib d = chrono_time lib (uint (snd d)) 0"

section \<open>Counts with a precision\<close>

type_synonym dyn_date_time64 = "tz \<times> u64 \<times> nat"

definition dyn_from_units :: "(string \<Rightarrow> tz option) \<Rightarrow> nat \<Rightarrow> int \<Rightarrow> string option \<Rightarrow> dyn_date_time64 res" where
  "dyn_from_units tzp p units tz =
     rbind (tz_or_utc tzp tz) (\<lambda>z. if units < 0 then Inl Panic else Inr (z, word_of_int units, p))"

definition dyn_from_seconds :: "(string \<Rightarrow> tz option) \<Rightarrow> int \<Rightarrow> string option \<Rightarrow> dyn_date_time64 res" where
  "dyn_from_seconds tzp = dyn_from_units tzp 0"

definition dyn_from_millis :: "(string \<Rightarrow> tz option) \<Rightarrow> int \<Rightarrow> string option \<Rightarrow> dyn_date_time64 res" where
  "dyn_from_millis tzp = dyn_from_units tzp 3"

definition dyn_from_micros :: "(string \<Rightarrow> tz option) \<Rightarrow> int \<Rightarrow> string option \<Rightarrow> dyn_date_time64 res" where
  "dyn_from_micros tzp = dyn_from_units tzp 6"

definition dyn_from_nanos :: "(string \<Rightarrow> tz option) \<Rightarrow> int \<Rightarrow> string option \<Rightarrow> dyn_date_time64 res" where
  "dyn_from_nanos tzp = dyn_from_units tzp 9"

definition dyn_from_date_time64 :: "nat \<Rightarrow> tz \<times> u64 \<Rightarrow> dyn_date_time64" where
  "dyn_from_date_time64 p d = (fst d, snd d, p)"

text \<open>
  To a chrono time: the powers of ten panic above their range, a second beyond \<open>i64\<close> is an
  error. \<open>DateTime64<P>\<close> is \<open>DynDateTime64\<close> with the precision \<open>P\<close>.
\<close>

definition dyn_to_utc :: "rust_lib \<Rightarrow> dyn_date_time64 \<Rightarrow> (int \<times> nat) res" where
  "dyn_to_utc lib d =
     (case d of (tz, x, p) \<Rightarrow>
        rbind (split_units x p) (\<lambda>(secs, nanos).
          if secs < 2 ^ 63 then chrono_time lib (int secs) nanos else Inl DateTimeErr))"

definition dyn_to_chrono :: "rust_lib \<Rightarrow> dyn_date_time64 \<Rightarrow> chrono res" where
  "dyn_to_chrono lib d = rbind (dyn_to_utc lib d) (\<lambda>(s, n). Inr (fst d, s, n))"

definition dyn_to_fixed :: "rust_lib \<Rightarrow> dyn_date_time64 \<Rightarrow> (int \<times> nat) res" where
  "dyn_to_fixed lib d = dyn_to_utc lib d"

definition date_time64_to_utc :: "rust_lib \<Rightarrow> nat \<Rightarrow> tz \<times> u64 \<Rightarrow> (int \<times> nat) res" where
  "date_time64_to_utc lib p d = dyn_to_utc lib (fst d, snd d, p)"

definition date_time64_to_chrono :: "rust_lib \<Rightarrow> nat \<Rightarrow> tz \<times> u64 \<Rightarrow> chrono res" where
  "date_time64_to_chrono lib p d = dyn_to_chrono lib (fst d, snd d, p)"

definition date_time64_to_fixed :: "rust_lib \<Rightarrow> nat \<Rightarrow> tz \<times> u64 \<Rightarrow> (int \<times> nat) res" where
  "date_time64_to_fixed lib p d = dyn_to_fixed lib (fst d, snd d, p)"

text \<open>From a chrono time: a negative second is an error, products and sums of \<open>u64\<close> are checked.\<close>

definition count_units :: "nat \<Rightarrow> int \<Rightarrow> nat \<Rightarrow> u64 res" where
  "count_units p secs nanos =
     (if secs < 0 then Inl DateTimeErr
      else rbind (pow10_u64 (p mod 2 ^ 32)) (\<lambda>k.
        if nat secs * k \<ge> 2 ^ 64 then Inl Panic
        else rbind (pow10_rest (p mod 2 ^ 32)) (\<lambda>r.
          let total = nat secs * k + nanos div r in
          if total \<ge> 2 ^ 64 then Inl Panic else Inr (word_of_nat total))))"

definition date_time64_try_from_utc :: "nat \<Rightarrow> int \<times> nat \<Rightarrow> (tz \<times> u64) res" where
  "date_time64_try_from_utc p c = rmap (\<lambda>x. (''UTC'', x)) (count_units p (fst c) (snd c))"

definition dyn_try_from_utc :: "int \<times> nat \<Rightarrow> nat \<Rightarrow> dyn_date_time64 res" where
  "dyn_try_from_utc c p = rmap (\<lambda>x. (''UTC'', x, p)) (count_units p (fst c) (snd c))"

definition date_time64_try_from_tz :: "nat \<Rightarrow> chrono \<Rightarrow> (tz \<times> u64) res" where
  "date_time64_try_from_tz p c =
     (case c of (tz, secs, nanos) \<Rightarrow> rmap (\<lambda>x. (tz, x)) (count_units p secs nanos))"

definition dyn_try_from_tz :: "chrono \<Rightarrow> nat \<Rightarrow> dyn_date_time64 res" where
  "dyn_try_from_tz c p =
     (case c of (tz, secs, nanos) \<Rightarrow> rmap (\<lambda>x. (tz, x, p)) (count_units p secs nanos))"

section \<open>Days and seconds come back\<close>

text \<open>A \<open>Date\<close> and a \<open>Date32\<close> go to a calendar day and back.\<close>

lemma date_naive_back:
  "date_to_naive e d = Inr day \<Longrightarrow> date_from_naive day = d"
  by (auto simp: date_to_naive_def date_from_naive_def split: if_splits)

lemma date32_naive_back:
  "date32_to_naive e d = Inr day \<Longrightarrow> date32_from_naive day = d"
  by (auto simp: date32_to_naive_def date32_from_naive_def Let_def split: if_splits)

text \<open>A \<open>DateTime\<close> goes to a chrono time of its zone and back; the infallible conversion agrees
  with the fallible one wherever that succeeds.\<close>

lemma date_time_chrono_back:
  "date_time_to_chrono lib d = Inr c \<Longrightarrow> date_time_try_from_chrono c = Inr d"
proof -
  assume c: "date_time_to_chrono lib d = Inr c"
  have "uint (snd d) < 2 ^ 32"
    using uint_lt2p [of "snd d"] by simp
  with c show ?thesis
    by (auto simp: date_time_to_chrono_def date_time_try_from_chrono_def chrono_time_def
      seconds_in_range_def split: if_splits)
qed

lemma date_time_infallible:
  "date_time_try_from_chrono c = Inr d \<Longrightarrow> date_time_from_chrono_infallible c = d"
  by (auto simp: date_time_try_from_chrono_def date_time_from_chrono_infallible_def
    split: prod.splits if_splits)

section \<open>Counts come back\<close>

lemma power_split: "p \<le> 9 \<Longrightarrow> (10::nat) ^ p * 10 ^ (9 - p) = 1000000000"
proof -
  assume "p \<le> 9"
  then have "(10::nat) ^ p * 10 ^ (9 - p) = 10 ^ 9"
    by (simp flip: power_add)
  then show ?thesis by simp
qed

lemma power_u64:
  assumes "p \<le> 9"
  shows "(10::nat) ^ p < 2 ^ 64"
proof -
  have "(10::nat) ^ p \<le> 10 ^ 9"
    using assms by (rule power_increasing) simp
  also have "(10::nat) ^ 9 < 2 ^ 64"
    by simp
  finally show ?thesis .
qed

lemma split_units_eq:
  "p \<le> 9 \<Longrightarrow> split_units x p = Inr (unat x div 10 ^ p, unat x mod 10 ^ p * 10 ^ (9 - p))"
  by (simp add: split_units_def pow10_u64_def pow10_rest_def power_u64 [simplified])

lemma count_split:
  assumes "p \<le> 9"
  shows "count_units p (int (unat x div 10 ^ p)) (unat x mod 10 ^ p * 10 ^ (9 - p)) = Inr x"
proof -
  have below: "unat x < 2 ^ 64"
    using unsigned_less [of x] by simp
  have "unat x div 10 ^ p * 10 ^ p \<le> unat x"
    by simp
  then have product: "unat x div 10 ^ p * 10 ^ p < 2 ^ 64"
    using below by (rule le_less_trans)
  have "unat x div 10 ^ p * 10 ^ p + unat x mod 10 ^ p * 10 ^ (9 - p) div 10 ^ (9 - p) = unat x"
    by (simp add: div_mult_mod_eq)
  with assms below product show ?thesis
    by (simp add: count_units_def pow10_u64_def pow10_rest_def power_u64 [simplified] Let_def)
qed

text \<open>C34. Times with a precision up to nanoseconds: whatever \<open>DateTime64\<close> chrono has a time for
  goes to a chrono time of its zone, to one of UTC and to one with an offset, all the same
  instant, and back to the same count.\<close>

theorem date_time64_chrono_roundtrip:
  assumes "p \<le> 9" and "dyn_to_chrono lib (tz, x, p) = Inr c"
  shows "dyn_try_from_tz c p = Inr (tz, x, p) \<and> date_time64_try_from_tz p c = Inr (tz, x)
    \<and> dyn_to_utc lib (tz, x, p) = Inr (snd c) \<and> dyn_to_fixed lib (tz, x, p) = Inr (snd c)
    \<and> dyn_try_from_utc (snd c) p = Inr (''UTC'', x, p)"
proof -
  have c: "c = (tz, int (unat x div 10 ^ p), unat x mod 10 ^ p * 10 ^ (9 - p))"
    and utc: "dyn_to_utc lib (tz, x, p) = Inr (snd c)"
    using assms(2) by (auto simp: dyn_to_chrono_def dyn_to_utc_def split_units_eq [OF assms(1)]
      chrono_time_def rbind_Inr_iff split: if_splits)
  then show ?thesis
    by (simp add: dyn_to_fixed_def dyn_try_from_tz_def date_time64_try_from_tz_def dyn_try_from_utc_def
      count_split [OF assms(1)])
qed

definition every_second :: rust_lib where
  "every_second = \<lparr>chrono_second = (\<lambda>s. True), decimal_exists = (\<lambda>m s. False), map_order = (\<lambda>_ kvs. kvs)\<rparr>"

theorem date_time64_chrono_roundtrip_witness:
  "dyn_try_from_tz (''UTC'', 1, 500000000) 3 = Inr (''UTC'', 1500, 3)
    \<and> date_time64_try_from_tz 3 (''UTC'', 1, 500000000) = Inr (''UTC'', 1500)
    \<and> dyn_to_utc every_second (''UTC'', 1500, 3) = Inr (snd (''UTC'', 1, 500000000))
    \<and> dyn_to_fixed every_second (''UTC'', 1500, 3) = Inr (snd (''UTC'', 1, 500000000))
    \<and> dyn_try_from_utc (snd (''UTC'', 1, 500000000)) 3 = Inr (''UTC'', 1500, 3)"
  by (rule date_time64_chrono_roundtrip)
    (simp_all add: dyn_to_chrono_def dyn_to_utc_def split_units_eq chrono_time_def every_second_def)

section \<open>What does not come back\<close>

text \<open>A precision above nine digits panics both ways.\<close>

lemma fine_precision_panics:
  assumes "9 < p" and "p < 20"
  shows "dyn_to_utc lib (tz, x, p) = Inl Panic \<and> dyn_try_from_utc (0, n) p = Inl Panic"
proof -
  have "(10::nat) ^ p \<le> 10 ^ 19"
    using assms(2) by (intro power_increasing) auto
  then have "(10::nat) ^ p < 2 ^ 64"
    by simp
  moreover have "p mod 2 ^ 32 = p"
    using assms(2) by simp
  ultimately show ?thesis
    using assms(1) by (simp add: dyn_to_utc_def split_units_def dyn_try_from_utc_def count_units_def
      pow10_u64_def pow10_rest_def)
qed

text \<open>\<open>Date32::from_millis\<close> takes the days between the epochs off instead of adding them: for
  every whole day from 1970 on it gives the day 140 years before the one it was given.\<close>

theorem date32_from_millis_off:
  assumes "0 \<le> day" and "day < 2 ^ 24" and "date_exists (day - 51134)"
  shows "date32_to_naive date_exists (date32_from_millis (day * MILLIS_PER_DAY)) = Inr (day - 51134)
    \<and> date32_to_naive date_exists (date32_from_naive (day - 51134)) = Inr (day - 51134)"
proof -
  have "quot (day * MILLIS_PER_DAY) MILLIS_PER_DAY = day"
    using assms(1) by (cases "day = 0") (simp_all add: quot_def MILLIS_PER_DAY_def signed_divide_int_def sgn_mult)
  moreover have "sint (word_of_int (day - 25567) :: u32) = day - 25567"
    unfolding sint_sbintrunc' using assms(1,2) by (simp add: signed_take_bit_int_eq_self)
  ultimately show ?thesis
    using assms(3) by (simp add: date32_to_naive_def date32_from_millis_def date32_from_naive_def
      EPOCH_1900_def del: of_int_diff)
qed

theorem date32_from_millis_off_witness:
  "date32_to_naive (\<lambda>d. \<bar>d\<bar> < 95000000) (date32_from_millis (0 * MILLIS_PER_DAY)) = Inr (0 - 51134)
    \<and> date32_to_naive (\<lambda>d. \<bar>d\<bar> < 95000000) (date32_from_naive (0 - 51134)) = Inr (0 - 51134)"
  by (rule date32_from_millis_off) simp_all

text \<open>The infallible conversion wraps a time before 1970 or after 2106; so does the conversion
  of a calendar day before 1970 to a \<open>Date\<close>.\<close>

lemma infallible_wraps:
  "date_time_from_chrono_infallible (tz, -1, n) = (tz, 4294967295) \<and> date_from_naive (-1) = 65535"
  by (simp add: date_time_from_chrono_infallible_def date_from_naive_def)

text \<open>Part of a second before 1970 is rounded up to 1970 and accepted.\<close>

lemma negative_part_accepted:
  "date_time_from_millis tzp (-999) None = Inr (''UTC'', 0) \<and> date_from_millis (-1) = Inr 0"
  by (simp add: date_time_from_millis_def date_from_millis_def quot_def signed_divide_int_def MILLIS_PER_DAY_def
    seconds_in_range_def tz_or_utc_def)

end
