(* ===== verification/ArrowValues.thy ===== *)
theory ArrowValues
  imports ArrowNative Dates
begin

text \<open>
  Rows out of Arrow (arrow/utils.rs): the values of an array, the rows of a record batch, and a
  batch cut into smaller ones.

  Two operations of the Arrow library are arguments (\<open>arrow_ops\<close>): \<open>cast\<close> to a type, which may
  fail, and \<open>slice\<close>. \<open>arrow_ops_ok\<close> is what Arrow documents of them: a cast to its own type leaves
  an array as it is, dates and timestamps cast to the integers they are stored as, bytes to
  binary; a slice has the rows from its offset on (\<open>rows_of\<close>), lists and maps with the child they
  had.

  An iterator of the source yields its items one by one, the vectors made of them stop at the
  first that fails. An array is converted under its own type, as \<open>batch_to_rows\<close> does; the types
  of the keys and values of a map are then those of the entries in that type.
\<close>

record arrow_ops =
  cast_arr :: "arr \<Rightarrow> data_type \<Rightarrow> arr option"
  slice_arr :: "nat \<Rightarrow> nat \<Rightarrow> arr \<Rightarrow> arr"

section \<open>Arrays as native items\<close>

definition cast_to :: "arrow_ops \<Rightarrow> arr \<Rightarrow> data_type \<Rightarrow> arr res" where
  "cast_to ops a d = (case cast_arr ops a d of None \<Rightarrow> Inl ArrowError | Some b \<Rightarrow> Inr b)"

text \<open>\<open>array_to_native_iter\<close> for the integers and for the floats.\<close>

definition array_to_ints :: "arrow_ops \<Rightarrow> int_kind \<Rightarrow> arr \<Rightarrow> int option list res" where
  "array_to_ints ops k a =
     rbind (cast_to ops a (int_type k)) (\<lambda>b.
       case b of AInt k' xs \<Rightarrow> if k' = k then Inr xs else Inl ArrowUnsupportedType
       | _ \<Rightarrow> Inl ArrowUnsupportedType)"

definition array_to_f32s :: "arrow_ops \<Rightarrow> arr \<Rightarrow> u32 option list res" where
  "array_to_f32s ops a =
     rbind (cast_to ops a DFloat32) (\<lambda>b.
       case b of AFloat32 xs \<Rightarrow> Inr xs | _ \<Rightarrow> Inl ArrowUnsupportedType)"

definition array_to_f64s :: "arrow_ops \<Rightarrow> arr \<Rightarrow> u64 option list res" where
  "array_to_f64s ops a =
     rbind (cast_to ops a DFloat64) (\<lambda>b.
       case b of AFloat64 xs \<Rightarrow> Inr xs | _ \<Rightarrow> Inl ArrowUnsupportedType)"

definition array_to_bools :: "arrow_ops \<Rightarrow> arr \<Rightarrow> bool option list res" where
  "array_to_bools ops a =
     rbind (cast_to ops a DBoolean) (\<lambda>b.
       case b of ABool xs \<Rightarrow> Inr xs | _ \<Rightarrow> Inl ArrowUnsupportedType)"

definition bytes_of_kind :: "bytes_kind \<Rightarrow> arr \<Rightarrow> byte list option list res" where
  "bytes_of_kind k b =
     (case b of ABytes k' xs \<Rightarrow> if k' = k then Inr xs else Inl ArrowUnsupportedType
      | _ \<Rightarrow> Inl ArrowUnsupportedType)"

definition array_to_binaries :: "arrow_ops \<Rightarrow> arr \<Rightarrow> byte list option list res" where
  "array_to_binaries ops a = rbind (cast_to ops a DBinary) (bytes_of_kind KBinary)"

definition array_to_strings :: "arrow_ops \<Rightarrow> arr \<Rightarrow> byte list option list res" where
  "array_to_strings ops a =
     rbind
       (case cast_arr ops a DUtf8 of
          Some b \<Rightarrow> Inr b
        | None \<Rightarrow> rbind (cast_to ops a DBinary) (\<lambda>b. cast_to ops b DUtf8))
       (bytes_of_kind KUtf8)"

text \<open>\<open>array_to_list_vec\<close>: the rows of a list array, a null row is \<open>None\<close>.\<close>

definition row_where :: "nat \<Rightarrow> validity \<Rightarrow> (nat \<Rightarrow> arr) \<Rightarrow> arr option list" where
  "row_where n v row = map (\<lambda>i. if validity_null n v ! i then None else Some (row i)) [0..<n]"

definition list_rows :: "arrow_ops \<Rightarrow> arr \<Rightarrow> arr option list res" where
  "list_rows ops a =
     (case a of
        AList k f os child v \<Rightarrow>
          Inr (row_where (length os - 1) v (\<lambda>i. slice_arr ops (nat (os ! i)) (nat (os ! Suc i - os ! i)) child))
      | AListView k f os sizes child v \<Rightarrow>
          (if k = KListView then
             Inr (row_where (length os) v (\<lambda>i. slice_arr ops (nat (os ! i)) (nat (sizes ! i)) child))
           else Inl ArrowUnsupportedType)
      | AFixedList f n child v len \<Rightarrow>
          Inr (row_where len v (\<lambda>i. slice_arr ops (i * unat n) (unat n) child))
      | _ \<Rightarrow> Inl ArrowUnsupportedType)"

definition array_to_list_vec ::
  "arrow_ops \<Rightarrow> (arr option \<Rightarrow> 'a res) \<Rightarrow> arr \<Rightarrow> 'a list res" where
  "array_to_list_vec ops caster a = rbind (list_rows ops a) (traverse caster)"

section \<open>Arrays as values\<close>

definition map_or_null :: "('a \<Rightarrow> val res) \<Rightarrow> 'a option list \<Rightarrow> val list res" where
  "map_or_null conv = traverse (\<lambda>x. case x of None \<Rightarrow> Inr VNull | Some v \<Rightarrow> conv v)"

definition uuid_of_bytes :: "byte list \<Rightarrow> val" where
  "uuid_of_bytes b = (if length b = 16 then VUuid (word_of_nat (le_nat (rev b))) else VNull)"

definition date64_zone :: "ty option \<Rightarrow> string option" where
  "date64_zone hint =
     (case hint of
        Some (DateTime64 _ tz) \<Rightarrow> Some tz
      | Some Date \<Rightarrow> Some ''UTC''
      | Some Date32 \<Rightarrow> Some ''UTC''
      | _ \<Rightarrow> None)"

definition timestamp_value ::
  "(string \<Rightarrow> tz option) \<Rightarrow> time_unit \<Rightarrow> string option \<Rightarrow> int \<Rightarrow> val res" where
  "timestamp_value tzp u tz n =
     (let dyn = rmap (\<lambda>(z, x, p). VDateTime64 z x p) in
      case u of
        Second \<Rightarrow> rmap (\<lambda>(z, s). VDateTime z s) (date_time_from_seconds tzp n tz)
      | Millisecond \<Rightarrow> dyn (dyn_from_millis tzp n tz)
      | Microsecond \<Rightarrow> dyn (dyn_from_micros tzp n tz)
      | Nanosecond \<Rightarrow> dyn (dyn_from_nanos tzp n tz))"

text \<open>The name of a dictionary row as an enum value: the first pair of the type with that name.\<close>

definition hinted_enum :: "(string \<Rightarrow> 'n \<Rightarrow> val) \<Rightarrow> (string \<times> 'n) list \<Rightarrow> byte list option \<Rightarrow> val" where
  "hinted_enum mk pairs v =
     (case v of
        None \<Rightarrow> VNull
      | Some b \<Rightarrow>
          (case find (\<lambda>(name, _). str_bytes name = b) pairs of
             None \<Rightarrow> VNull | Some (name, n) \<Rightarrow> mk name n))"

definition hinted_enum_rows :: "arrow_ops \<Rightarrow> data_type \<Rightarrow> ty option \<Rightarrow> arr \<Rightarrow> val list res option" where
  "hinted_enum_rows ops kd hint a =
     (case (kd, hint) of
        (DInt8, Some (Enum8 pairs)) \<Rightarrow> Some (rmap (map (hinted_enum VEnum8 pairs)) (array_to_strings ops a))
      | (DInt16, Some (Enum16 pairs)) \<Rightarrow> Some (rmap (map (hinted_enum VEnum16 pairs)) (array_to_strings ops a))
      | _ \<Rightarrow> None)"

definition first_value :: "val list \<Rightarrow> val res" where
  "first_value vs = (case vs of [] \<Rightarrow> Inl Panic | v # _ \<Rightarrow> Inr v)"

text \<open>The types without parts.\<close>

definition flat_values ::
  "arrow_ops \<Rightarrow> (string \<Rightarrow> tz option) \<Rightarrow> arr \<Rightarrow> data_type \<Rightarrow> ty option \<Rightarrow> val list res" where
  "flat_values ops tzp a d hint =
     (let ints = (\<lambda>k conv. rbind (array_to_ints ops k a) (map_or_null conv));
          binary = rbind (array_to_binaries ops a) (map_or_null (\<lambda>b. Inr (VString b))) in
      case d of
        DInt8 \<Rightarrow> ints I8 (\<lambda>v. Inr (int_value I8 v))
      | DInt16 \<Rightarrow> ints I16 (\<lambda>v. Inr (int_value I16 v))
      | DInt32 \<Rightarrow> ints I32 (\<lambda>v. Inr (int_value I32 v))
      | DInt64 \<Rightarrow> ints I64 (\<lambda>v. Inr (int_value I64 v))
      | DUInt8 \<Rightarrow> ints U8 (\<lambda>v. Inr (int_value U8 v))
      | DUInt16 \<Rightarrow> ints U16 (\<lambda>v. Inr (int_value U16 v))
      | DUInt32 \<Rightarrow> ints U32 (\<lambda>v. Inr (int_value U32 v))
      | DUInt64 \<Rightarrow> ints U64 (\<lambda>v. Inr (int_value U64 v))
      | DFloat32 \<Rightarrow> rbind (array_to_f32s ops a) (map_or_null (\<lambda>v. Inr (VFloat32 v)))
      | DFloat64 \<Rightarrow> rbind (array_to_f64s ops a) (map_or_null (\<lambda>v. Inr (VFloat64 v)))
      | DBinary \<Rightarrow> binary
      | DLargeBinary \<Rightarrow> binary
      | DBinaryView \<Rightarrow> binary
      | DFixedSizeBinary n \<Rightarrow>
          (if hint \<noteq> Some Uuid then binary
           else if n = 16 then rbind (array_to_binaries ops a) (map_or_null (\<lambda>b. Inr (uuid_of_bytes b)))
           else Inl ArrowUnsupportedType)
      | DUtf8 \<Rightarrow> rbind (array_to_strings ops a) (map_or_null (\<lambda>b. Inr (VString b)))
      | DLargeUtf8 \<Rightarrow> rbind (array_to_strings ops a) (map_or_null (\<lambda>b. Inr (VString b)))
      | DUtf8View \<Rightarrow> rbind (array_to_strings ops a) (map_or_null (\<lambda>b. Inr (VString b)))
      | DBoolean \<Rightarrow> rbind (array_to_bools ops a) (map_or_null (\<lambda>b. Inr (VUInt8 (if b then 1 else 0))))
      | DDecimal128 p _ \<Rightarrow>
          (case a of
             ADecimal128 _ _ xs \<Rightarrow> map_or_null (\<lambda>v. Inr (VDecimal128 (unat p) (word_of_int v))) xs
           | _ \<Rightarrow> Inl ArrowDeserialize)
      | DDecimal256 p _ \<Rightarrow>
          (case a of
             ADecimal256 _ _ xs \<Rightarrow> map_or_null (\<lambda>v. Inr (VDecimal256 (unat p) (rev (int_le 32 v)))) xs
           | _ \<Rightarrow> Inl ArrowDeserialize)
      | DDate32 \<Rightarrow> ints I32 (\<lambda>v. rmap VDate (date_from_days v))
      | DDate64 \<Rightarrow> ints I64 (\<lambda>v. timestamp_value tzp Millisecond (date64_zone hint) v)
      | DTimestamp u tz \<Rightarrow> ints I64 (timestamp_value tzp u tz)
      | DNull \<Rightarrow> Inr (replicate (arr_length a) VNull)
      | _ \<Rightarrow> Inl ArrowUnsupportedType)"

definition list_value_type :: "data_type \<Rightarrow> field option" where
  "list_value_type d =
     (case d of DList f \<Rightarrow> Some f | DLargeList f \<Rightarrow> Some f | DFixedSizeList f _ \<Rightarrow> Some f | _ \<Rightarrow> None)"

lemma list_value_type_size: "list_value_type d = Some f \<Longrightarrow> size (field_type f) < size d"
  using size_field_type [of f] by (cases d) (simp_all add: list_value_type_def)

definition struct_fields :: "data_type \<Rightarrow> field list option" where
  "struct_fields d = (case d of DStruct fs \<Rightarrow> Some fs | _ \<Rightarrow> None)"

definition map_types :: "data_type \<Rightarrow> (data_type \<times> data_type) option res" where
  "map_types d =
     (case d of
        DMap f _ \<Rightarrow>
          (case field_type f of DStruct (k # v # _) \<Rightarrow> Inr (Some (field_type k, field_type v)) | _ \<Rightarrow> Inl Panic)
      | _ \<Rightarrow> Inr None)"

definition dictionary_types :: "data_type \<Rightarrow> (data_type \<times> data_type) option" where
  "dictionary_types d = (case d of DDictionary k v \<Rightarrow> Some (k, v) | _ \<Rightarrow> None)"

lemma struct_fields_size: "struct_fields d = Some fs \<Longrightarrow> f \<in> set fs \<Longrightarrow> size (field_type f) < size d"
  using size_field_member [of f fs] by (cases d) (simp_all add: struct_fields_def)

lemma map_types_size: "map_types d = Inr (Some (k, v)) \<Longrightarrow> size k < size d \<and> size v < size d"
  using map_entry_fields_size
  by (cases d) (fastforce simp: map_types_def map_entry_fields_def split: data_type.splits list.splits)+

lemma dictionary_types_size: "dictionary_types d = Some (k, v) \<Longrightarrow> size v < size d"
  by (cases d) (simp_all add: dictionary_types_def)

text \<open>The rows of a structure: of every column the slice of one row; of a map, the slices of an
  entry.\<close>

definition column_at :: "arr list \<Rightarrow> nat \<Rightarrow> arr option" where
  "column_at cols j = (if j < length cols then Some (cols ! j) else None)"

definition entry_rows ::
  "arrow_ops \<Rightarrow> int list \<Rightarrow> arr \<Rightarrow> arr \<Rightarrow> validity \<Rightarrow> (arr \<times> arr) option list" where
  "entry_rows ops os ks vs v =
     map (\<lambda>i. if validity_null (length os - 1) v ! i then None
              else (let x = nat (os ! i); n = nat (os ! Suc i - os ! i)
                    in Some (slice_arr ops x n ks, slice_arr ops x n vs)))
       [0..<length os - 1]"

function array_to_values ::
  "arrow_ops \<Rightarrow> (string \<Rightarrow> tz option) \<Rightarrow> arr \<Rightarrow> data_type \<Rightarrow> ty option \<Rightarrow> val list res" where
  "array_to_values ops tzp a d hint =
     (case list_value_type d of
        Some f \<Rightarrow>
          array_to_list_vec ops
            (\<lambda>row. case row of
               None \<Rightarrow> Inr VNull
             | Some b \<Rightarrow>
                 rmap VArray
                   (array_to_values ops tzp b (field_type f)
                      (case hint of Some (Array inner) \<Rightarrow> Some inner | _ \<Rightarrow> None))) a
      | None \<Rightarrow>
     (case struct_fields d of
        Some fs \<Rightarrow>
          (case a of
             AStruct _ cols v n \<Rightarrow>
               traverse
                 (\<lambda>i. if validity_null n v ! i then Inr VNull
                      else rmap VTuple
                        (traverse
                           (\<lambda>(f, col). case col of
                              None \<Rightarrow> Inl Panic
                            | Some c \<Rightarrow>
                                rbind (array_to_values ops tzp (slice_arr ops i 1 c) (field_type f) None) first_value)
                           (zip fs (map (column_at cols) [0..<length fs]))))
                 [0..<n]
           | _ \<Rightarrow> Inl ArrowDeserialize)
      | None \<Rightarrow>
     (case dictionary_types d of
        Some (kd, vd) \<Rightarrow>
          (case hinted_enum_rows ops kd hint a of
             Some r \<Rightarrow> r
           | None \<Rightarrow> rbind (cast_to ops a vd) (\<lambda>b. array_to_values ops tzp b vd hint))
      | None \<Rightarrow>
     (case map_types d of
        Inl e \<Rightarrow> Inl e
      | Inr (Some (kd, vd)) \<Rightarrow>
          (case a of
             AMap _ os ks vs v \<Rightarrow>
               traverse
                 (\<lambda>entry. case entry of
                    None \<Rightarrow> Inr VNull
                  | Some (k, x) \<Rightarrow>
                      rbind (array_to_values ops tzp k kd None) (\<lambda>keys.
                      rbind (array_to_values ops tzp x vd None) (\<lambda>vals. Inr (VMap keys vals))))
                 (entry_rows ops os ks vs v)
           | _ \<Rightarrow> Inl ArrowDeserialize)
      | Inr None \<Rightarrow> flat_values ops tzp a d hint))))"
  by pat_completeness auto
termination
  by (relation "measure (\<lambda>(ops, tzp, a, d, hint). size d)")
    (auto dest: list_value_type_size struct_fields_size dictionary_types_size map_types_size set_zip_leftD)

declare array_to_values.simps [simp del]

section \<open>Rows of a batch\<close>

definition hint_for :: "(string \<times> ty) list option \<Rightarrow> string \<Rightarrow> ty option" where
  "hint_for hints name =
     (case hints of
        None \<Rightarrow> None
      | Some hs \<Rightarrow> (case find (\<lambda>(n, _). n = name) hs of None \<Rightarrow> None | Some (_, t) \<Rightarrow> Some t))"

definition value_at :: "nat \<Rightarrow> val list \<Rightarrow> val res" where
  "value_at i vs = (if i < length vs then Inr (vs ! i) else Inl Panic)"

definition batch_to_rows ::
  "arrow_ops \<Rightarrow> (string \<Rightarrow> tz option) \<Rightarrow> batch \<Rightarrow> (string \<times> ty) list option \<Rightarrow> val list list res" where
  "batch_to_rows ops tzp b hints =
     rbind
       (traverse (\<lambda>(f, c). array_to_values ops tzp c (arr_type c) (hint_for hints (field_name f)))
          (zip (batch_fields b) (batch_columns b)))
       (\<lambda>cols. traverse (\<lambda>i. traverse (value_at i) cols) [0..<batch_rows b])"

definition batch_slice :: "arrow_ops \<Rightarrow> nat \<Rightarrow> nat \<Rightarrow> batch \<Rightarrow> batch" where
  "batch_slice ops i n b =
     b\<lparr>batch_columns := map (slice_arr ops i n) (batch_columns b), batch_rows := n\<rparr>"

text \<open>The loop of \<open>split_record_batch\<close> from an offset on.\<close>

function cut_batch :: "arrow_ops \<Rightarrow> batch \<Rightarrow> nat \<Rightarrow> nat \<Rightarrow> batch list" where
  "cut_batch ops b most offset =
     (if most = 0 \<or> batch_rows b \<le> offset then []
      else
        (let n = min (batch_rows b - offset) most
         in batch_slice ops offset n b # cut_batch ops b most (offset + n)))"
  by pat_completeness auto
termination
  by (relation "measure (\<lambda>(ops, b, most, offset). batch_rows b - offset)") auto

declare cut_batch.simps [simp del]

definition split_record_batch :: "arrow_ops \<Rightarrow> batch \<Rightarrow> nat \<Rightarrow> batch list" where
  "split_record_batch ops b most =
     (if most = 0 then []
      else if batch_rows b = 0 \<or> batch_rows b < most then [b]
      else cut_batch ops b most 0)"

section \<open>What Arrow documents of a slice and of a cast\<close>

fun rows_of :: "nat \<Rightarrow> nat \<Rightarrow> arr \<Rightarrow> arr" where
  "rows_of i n (AInt k xs) = AInt k (take n (drop i xs))"
| "rows_of i n (ABool xs) = ABool (take n (drop i xs))"
| "rows_of i n (AFloat16 xs) = AFloat16 (take n (drop i xs))"
| "rows_of i n (AFloat32 xs) = AFloat32 (take n (drop i xs))"
| "rows_of i n (AFloat64 xs) = AFloat64 (take n (drop i xs))"
| "rows_of i n (ADecimal128 p s xs) = ADecimal128 p s (take n (drop i xs))"
| "rows_of i n (ADecimal256 p s xs) = ADecimal256 p s (take n (drop i xs))"
| "rows_of i n (ADate32 xs) = ADate32 (take n (drop i xs))"
| "rows_of i n (ATimestamp u z xs) = ATimestamp u z (take n (drop i xs))"
| "rows_of i n (ABytes k xs) = ABytes k (take n (drop i xs))"
| "rows_of i n (AFixed m xs) = AFixed m (take n (drop i xs))"
| "rows_of i n (AList k f os child v) = AList k f (take (Suc n) (drop i os)) child (map_option (\<lambda>bs. take n (drop i bs)) v)"
| "rows_of i n (AListView k f os sizes child v) =
     AListView k f (take n (drop i os)) (take n (drop i sizes)) child (map_option (\<lambda>bs. take n (drop i bs)) v)"
| "rows_of i n (AFixedList f m child v len) =
     AFixedList f m (rows_of (i * unat m) (n * unat m) child) (map_option (\<lambda>bs. take n (drop i bs)) v) n"
| "rows_of i n (AMap f os ks vs v) =
     AMap f (take (Suc n) (drop i os)) ks vs (map_option (\<lambda>bs. take n (drop i bs)) v)"
| "rows_of i n (AStruct fs cols v len) =
     AStruct fs (map (rows_of i n) cols) (map_option (\<lambda>bs. take n (drop i bs)) v) n"
| "rows_of i n (ADict k keys vals) = ADict k (take n (drop i keys)) vals"
| "rows_of i n (AOther d len) = AOther d n"

definition slice_law :: "arrow_ops \<Rightarrow> bool" where
  "slice_law ops = (\<forall>i n a. i + n \<le> arr_length a \<longrightarrow> slice_arr ops i n a = rows_of i n a)"

definition cast_law :: "arrow_ops \<Rightarrow> bool" where
  "cast_law ops =
     ((\<forall>a. cast_arr ops a (arr_type a) = Some a)
      \<and> (\<forall>xs. cast_arr ops (ADate32 xs) DInt32 = Some (AInt I32 xs))
      \<and> (\<forall>u z xs. cast_arr ops (ATimestamp u z xs) DInt64 = Some (AInt I64 xs))
      \<and> (\<forall>m xs. cast_arr ops (AFixed m xs) DBinary = Some (ABytes KBinary xs)))"

definition arrow_ops_ok :: "arrow_ops \<Rightarrow> bool" where
  "arrow_ops_ok ops = (slice_law ops \<and> cast_law ops)"

text \<open>An instance: slices as documented, and the casts of the law.\<close>

definition plain_cast :: "arr \<Rightarrow> data_type \<Rightarrow> arr option" where
  "plain_cast a d =
     (if d = arr_type a then Some a
      else
        (case (a, d) of
           (ADate32 xs, DInt32) \<Rightarrow> Some (AInt I32 xs)
         | (ATimestamp _ _ xs, DInt64) \<Rightarrow> Some (AInt I64 xs)
         | (AFixed _ xs, DBinary) \<Rightarrow> Some (ABytes KBinary xs)
         | _ \<Rightarrow> None))"

definition plain_ops :: arrow_ops where
  "plain_ops = \<lparr>cast_arr = plain_cast, slice_arr = rows_of\<rparr>"

lemma plain_ops_ok: "arrow_ops_ok plain_ops"
  by (simp add: arrow_ops_ok_def slice_law_def cast_law_def plain_ops_def plain_cast_def)

end
