(* ===== verification/ArrowRows.thy ===== *)
theory ArrowRows
  imports ArrowValues ColumnTheorems
begin

text \<open>
  The rows that arrow/utils.rs takes out of Arrow arrays are the rows the native reader would
  have read, for the types of \<open>rows_ok\<close>; and the places where they are not. The pieces of a
  batch that is cut are its rows, in order.
\<close>

section \<open>Columns without parts\<close>

lemma traverse_map: "traverse f (map g xs) = traverse (\<lambda>x. f (g x)) xs"
  by (induction xs) simp_all

lemma map_or_null_slots:
  assumes "slots_ok P xs" and "\<And>v. P v \<Longrightarrow> conv v = Inr (mk v)"
  shows "map_or_null conv xs = Inr (slot_values mk xs)"
  unfolding map_or_null_def slot_values_def
proof (rule traverse_Inr_map)
  fix x
  assume "x \<in> set xs"
  then show "(case x of None \<Rightarrow> Inr VNull | Some v \<Rightarrow> conv v) = Inr (case x of None \<Rightarrow> VNull | Some v \<Rightarrow> mk v)"
    using slots_okD [OF assms(1)] assms(2) by (cases x rule: option.exhaust) auto
qed

lemma all_slots_ok: "slots_ok (\<lambda>_. True) xs"
  by (simp add: slots_ok_def list_all_iff split: option.split)

lemma map_or_null_plain [simp]: "map_or_null (\<lambda>v. Inr (mk v)) xs = Inr (slot_values mk xs)"
  by (rule map_or_null_slots [OF all_slots_ok]) simp

definition row_leaf :: "ty \<Rightarrow> bool" where
  "row_leaf t =
     (case t of
        Int8 \<Rightarrow> True | Int16 \<Rightarrow> True | Int32 \<Rightarrow> True | Int64 \<Rightarrow> True
      | UInt8 \<Rightarrow> True | UInt16 \<Rightarrow> True | UInt32 \<Rightarrow> True | UInt64 \<Rightarrow> True
      | Float32 \<Rightarrow> True | Float64 \<Rightarrow> True
      | String \<Rightarrow> True | Binary \<Rightarrow> True | FixedSizedString _ \<Rightarrow> True
      | Date \<Rightarrow> True | DateTime _ \<Rightarrow> True | DateTime64 p _ \<Rightarrow> p \<in> {3, 6, 9}
      | _ \<Rightarrow> False)"

text \<open>A time has a zone, a known one, and is not before 1970.\<close>

definition leaf_rows_ok :: "(string \<Rightarrow> tz option) \<Rightarrow> ty \<Rightarrow> arr \<Rightarrow> bool" where
  "leaf_rows_ok tzp t a =
     (row_leaf t \<and>
      (case a of
         ATimestamp u z xs \<Rightarrow> z \<noteq> None \<and> tzp (the z) = z \<and> slots_ok (\<lambda>v. 0 \<le> v \<and> v < 2 ^ 63) xs
       | _ \<Rightarrow> True))"

fun rows_ok :: "(string \<Rightarrow> tz option) \<Rightarrow> ty \<Rightarrow> arr \<Rightarrow> bool" where
  "rows_ok tzp (Array t) a = (case a of AList _ _ _ child _ \<Rightarrow> rows_ok tzp t child | _ \<Rightarrow> False)"
| "rows_ok tzp (Nullable t) a = leaf_rows_ok tzp t a"
| "rows_ok tzp t a = leaf_rows_ok tzp t a"

lemmas value_types = array_to_values.simps list_value_type_def struct_fields_def dictionary_types_def
  map_types_def flat_values_def

lemma arrow_ops_okD:
  assumes "arrow_ops_ok ops"
  shows "cast_to ops a (arr_type a) = Inr a"
    and "cast_to ops (ADate32 ds) DInt32 = Inr (AInt I32 ds)"
    and "cast_to ops (ATimestamp u z ts) DInt64 = Inr (AInt I64 ts)"
    and "cast_to ops (AFixed m bs) DBinary = Inr (ABytes KBinary bs)"
    and "i + n \<le> arr_length a \<Longrightarrow> slice_arr ops i n a = rows_of i n a"
  using assms by (simp_all add: arrow_ops_ok_def cast_law_def slice_law_def cast_to_def)

lemma cast_own:
  assumes "arrow_ops_ok ops"
  shows "cast_to ops (AInt k xs) (int_type k) = Inr (AInt k xs)"
    and "cast_to ops (AFloat32 fs) DFloat32 = Inr (AFloat32 fs)"
    and "cast_to ops (AFloat64 ds) DFloat64 = Inr (AFloat64 ds)"
    and "cast_to ops (ABytes KBinary bs) DBinary = Inr (ABytes KBinary bs)"
    and "cast_arr ops (ABytes KUtf8 bs) DUtf8 = Some (ABytes KUtf8 bs)"
proof -
  have own: "cast_arr ops a (arr_type a) = Some a" for a
    using assms by (simp add: arrow_ops_ok_def cast_law_def)
  show "cast_to ops (AInt k xs) (int_type k) = Inr (AInt k xs)"
    using own [of "AInt k xs"] by (simp add: cast_to_def)
  show "cast_to ops (AFloat32 fs) DFloat32 = Inr (AFloat32 fs)"
    using own [of "AFloat32 fs"] by (simp add: cast_to_def)
  show "cast_to ops (AFloat64 ds) DFloat64 = Inr (AFloat64 ds)"
    using own [of "AFloat64 ds"] by (simp add: cast_to_def)
  show "cast_to ops (ABytes KBinary bs) DBinary = Inr (ABytes KBinary bs)"
    using own [of "ABytes KBinary bs"] by (simp add: cast_to_def bytes_type_def)
  show "cast_arr ops (ABytes KUtf8 bs) DUtf8 = Some (ABytes KUtf8 bs)"
    using own [of "ABytes KUtf8 bs"] by (simp add: bytes_type_def)
qed

lemma leaf_arrays:
  assumes "leaf_array lib t d a" and "leaf_rows_ok tzp t a"
  obtains
      (int) k xs where "a = AInt k xs"
    | (f32) xs where "a = AFloat32 xs"
    | (f64) xs where "a = AFloat64 xs"
    | (utf8) xs where "a = ABytes KUtf8 xs"
    | (binary) xs where "a = ABytes KBinary xs"
    | (fixed) n m xs where "a = AFixed m xs" "t = FixedSizedString n"
    | (date) xs where "a = ADate32 xs" "t = Date" "slots_ok (fits 0 (2 ^ 16)) xs"
    | (time) z xs where "a = ATimestamp Second (Some z) xs" "t = DateTime z" "tzp z = Some z"
        "slots_ok (fits 0 (2 ^ 32)) xs"
    | (time64) p z u xs where "a = ATimestamp u (Some z) xs" "t = DateTime64 p z" "tzp z = Some z"
        "p \<in> {3, 6, 9}" "timestamp_unit p = Inr u" "slots_ok (\<lambda>v. 0 \<le> v \<and> v < 2 ^ 63) xs"
proof (cases a)
  case (ABytes k xs)
  then have "k = KUtf8 \<or> k = KBinary"
    using assms by (cases t) (simp_all add: leaf_array_def leaf_rows_ok_def row_leaf_def)
  then show thesis using utf8 binary ABytes by auto
next
  case (AFixed m xs)
  then have "\<exists>n. t = FixedSizedString n"
    using assms by (cases t) (simp_all add: leaf_array_def leaf_rows_ok_def row_leaf_def)
  then show thesis using fixed AFixed by auto
next
  case (ADate32 xs)
  then have "t = Date"
    using assms leaf_array_shape [OF assms(1)] by (auto simp: leaf_rows_ok_def row_leaf_def)
  then show thesis using date ADate32 assms(1) by (simp add: leaf_array_def)
next
  case (ATimestamp u z xs)
  then obtain p n where t: "t = DateTime n \<or> t = DateTime64 p n"
    using leaf_array_shape [OF assms(1)] by auto
  then show thesis
    using time time64 ATimestamp assms
    by (auto simp: leaf_array_def leaf_rows_ok_def row_leaf_def Let_def split: if_splits)
qed (use int f32 f64 assms leaf_array_shape [OF assms(1)] in \<open>auto simp: leaf_rows_ok_def row_leaf_def\<close>)

lemma leaf_to_values:
  assumes "leaf_array lib t d a" and "leaf_rows_ok tzp t a" and "arrow_ops_ok ops" and "hint \<noteq> Some Uuid"
  shows "array_to_values ops tzp a (arr_type a) hint = Inr (leaf_values t a)"
  using assms(1,2)
proof (cases rule: leaf_arrays)
  case (int k xs)
  then show ?thesis
    using cast_own(1) [OF assms(3), of k xs]
    by (cases k) (simp_all add: value_types int_type_def array_to_ints_def leaf_values_def)
next
  case (f32 xs)
  then show ?thesis
    using cast_own(2) [OF assms(3)] by (simp add: value_types array_to_f32s_def leaf_values_def)
next
  case (f64 xs)
  then show ?thesis
    using cast_own(3) [OF assms(3)] by (simp add: value_types array_to_f64s_def leaf_values_def)
next
  case (utf8 xs)
  then show ?thesis
    using cast_own(5) [OF assms(3)]
    by (simp add: value_types array_to_strings_def bytes_of_kind_def leaf_values_def bytes_type_def)
next
  case (binary xs)
  then show ?thesis
    using cast_own(4) [OF assms(3)]
    by (simp add: value_types array_to_binaries_def bytes_of_kind_def leaf_values_def bytes_type_def)
next
  case (fixed n m xs)
  have "fixed_value (FixedSizedString n) = VString"
    by (rule ext) (simp add: fixed_value_def)
  then show ?thesis
    using fixed arrow_ops_okD(4) [OF assms(3)] assms(4)
    by (simp add: value_types array_to_binaries_def bytes_of_kind_def leaf_values_def)
next
  case (date xs)
  have "map_or_null (\<lambda>v. rmap VDate (date_from_days v)) xs = Inr (slot_values (date_value Date) xs)"
    by (rule map_or_null_slots [OF date(3)]) (simp add: fits_def date_from_days_def date_value_def)
  then show ?thesis
    using date arrow_ops_okD(2) [OF assms(3)]
    by (simp add: value_types array_to_ints_def int_type_def leaf_values_def)
next
  case (time z xs)
  have "map_or_null (timestamp_value tzp Second (Some z)) xs = Inr (slot_values (date_value (DateTime z)) xs)"
    by (rule map_or_null_slots [OF time(4)])
      (simp add: time(3) fits_def timestamp_value_def date_time_from_seconds_def tz_or_utc_def
        seconds_in_range_def date_value_def)
  then show ?thesis
    using time arrow_ops_okD(3) [OF assms(3)]
    by (simp add: value_types array_to_ints_def int_type_def leaf_values_def)
next
  case (time64 p z u xs)
  have "map_or_null (timestamp_value tzp u (Some z)) xs = Inr (slot_values (date_value (DateTime64 p z)) xs)"
    using time64(4,5)
    by (intro map_or_null_slots [OF time64(6)])
      (auto simp: time64(3) timestamp_unit_def timestamp_value_def dyn_from_millis_def dyn_from_micros_def
        dyn_from_nanos_def dyn_from_units_def tz_or_utc_def date_value_def)
  then show ?thesis
    using time64 arrow_ops_okD(3) [OF assms(3)]
    by (simp add: value_types array_to_ints_def int_type_def leaf_values_def)
qed

text \<open>Slices of such a column.\<close>

lemma slots_ok_part: "slots_ok P xs \<Longrightarrow> slots_ok P (take n (drop i xs))"
  by (auto simp: slots_ok_def list_all_iff dest: in_set_takeD in_set_dropD)

lemma leaf_slice:
  assumes "leaf_array lib t d a" and "leaf_rows_ok tzp t a"
  shows "leaf_array lib t d (rows_of i n a) \<and> leaf_rows_ok tzp t (rows_of i n a)
    \<and> arr_type (rows_of i n a) = arr_type a
    \<and> leaf_values t (rows_of i n a) = take n (drop i (leaf_values t a))"
  using assms leaf_array_shape [OF assms(1)]
  by (cases a; simp add: leaf_rows_ok_def leaf_values_def slot_values_def slots_ok_part take_map drop_map)
    (cases t; simp add: leaf_array_def row_leaf_def slots_ok_part)+

lemma leaf_rows_of:
  assumes "leaf_array lib t d a" and "leaf_rows_ok tzp t a" and "arrow_ops_ok ops" and "hint \<noteq> Some Uuid"
  shows "array_to_values ops tzp (rows_of i n a) (arr_type a) hint
    = Inr (take n (drop i (leaf_values t a)))"
  using leaf_slice [OF assms(1,2), of i n] leaf_to_values [OF _ _ assms(3,4)] by metis

section \<open>Nested columns\<close>

lemma cut_at_nth:
  "j < length os - 1 \<Longrightarrow>
     cut_at os items ! j = take (nat (os ! Suc j - os ! j)) (drop (nat (os ! j)) items)"
proof (induction os items arbitrary: j rule: cut_at.induct)
  case (1 x y os items)
  then show ?case by (cases j) simp_all
qed simp_all

text \<open>The offsets of a row are those of a slice of the items.\<close>

lemma offsets_in_range:
  assumes "offsets_ok b os len" and "j < length os - 1"
  shows "nat (os ! j) + nat (os ! Suc j - os ! j) \<le> len"
proof -
  have s: "sorted os" and l: "last os = int len" and ne: "os \<noteq> []" and z: "os ! 0 = 0"
    using assms(1) by (auto simp: offsets_ok_def split: list.splits)
  have "os ! 0 \<le> os ! j" "os ! j \<le> os ! Suc j" "os ! Suc j \<le> os ! (length os - 1)"
    using assms(2) by (auto intro!: sorted_nth_mono [OF s])
  then show ?thesis
    using l z ne by (simp add: last_conv_nth)
qed

lemma list_rows_of:
  assumes ops: "arrow_ops_ok ops" and os: "offsets_ok b os (arr_length child)" and k: "k = KList \<or> k = KLargeList"
    and "i + n \<le> length os - 1" and len: "length vals = arr_length child"
    and item: "\<And>x m. x + m \<le> arr_length child \<Longrightarrow>
      array_to_values ops tzp (rows_of x m child) (field_type g) (Some t) = Inr (take m (drop x vals))"
  shows "array_to_values ops tzp (rows_of i n (AList k g os child None)) (list_type k g) (Some (Array t))
    = Inr (take n (drop i (map VArray (cut_at os vals))))"
proof -
  let ?os = "take (Suc n) (drop i os)"
  let ?row = "\<lambda>j. slice_arr ops (nat (os ! (i + j))) (nat (os ! Suc (i + j) - os ! (i + j))) child"
  have ne: "os \<noteq> []" using os by (auto simp: offsets_ok_def)
  then have length_os: "length ?os - 1 = n" using assms(4) by (cases os) auto
  have vt: "list_value_type (list_type k g) = Some g"
    using k by (auto simp: list_value_type_def list_type_def)
  have row: "array_to_values ops tzp (?row j) (field_type g) (Some t) = Inr (cut_at os vals ! (i + j))"
    if "j < n" for j
  proof -
    have j: "i + j < length os - 1" using that assms(4) by simp
    from offsets_in_range [OF os j] show ?thesis
      using item arrow_ops_okD(5) [OF ops] by (simp add: cut_at_nth [OF j])
  qed
  have "array_to_values ops tzp (rows_of i n (AList k g os child None)) (list_type k g) (Some (Array t))
    = traverse (\<lambda>j. rmap VArray (array_to_values ops tzp (?row j) (field_type g) (Some t))) [0..<n]"
    using length_os assms(4) ne
    by (subst array_to_values.simps)
      (auto simp: vt array_to_list_vec_def list_rows_def row_where_def validity_null_def traverse_map
        intro!: traverse_cong)
  also have "\<dots> = Inr (map (\<lambda>j. VArray (cut_at os vals ! (i + j))) [0..<n])"
    by (rule traverse_Inr_map) (simp add: row)
  also have "map (\<lambda>j. VArray (cut_at os vals ! (i + j))) [0..<n] = take n (drop i (map VArray (cut_at os vals)))"
    using assms(4) by (intro nth_equalityI) (simp_all add: length_cut)
  finally show ?thesis .
qed

lemma column_rows_of:
  assumes "arrow_column lib t d a" and "native_type t" and "rows_ok tzp t a" and "arrow_ops_ok ops"
    and "i + n \<le> arr_length a"
  shows "array_to_values ops tzp (rows_of i n a) (arr_type a) (Some t) = Inr (take n (drop i (arr_values t a)))"
  using assms(1-3,5)
proof (induction arbitrary: i n rule: arrow_column.induct)
  case (leaf t d a)
  have "arr_values t a = leaf_values t a" "rows_ok tzp t a = leaf_rows_ok tzp t a" "t \<noteq> Uuid"
    using leaf_array_plain [OF leaf(1)] leaf(1) by (cases t; simp add: unarray_def is_nullable_def leaf_array_def)+
  then show ?case
    using leaf_rows_of [OF leaf(1) _ assms(4), of tzp "Some t"] leaf.prems by simp
next
  case (nullable t d a)
  then show ?case
    using leaf_rows_of [OF nullable(1) _ assms(4), of tzp "Some (Nullable t)"] by simp
next
  case (list t f child k os d g)
  have len: "length (arr_values t child) = arr_length child"
    using arr_values_length [OF list.hyps(1)] list.prems(1) by simp
  have k: "k = KList \<or> k = KLargeList" and g: "field_type g = arr_type child"
    using list.hyps(3,4) by auto
  have item: "array_to_values ops tzp (rows_of x m child) (field_type g) (Some t)
      = Inr (take m (drop x (arr_values t child)))" if "x + m \<le> arr_length child" for x m
    using list.IH [OF _ _ that] list.prems by (simp add: g)
  from list_rows_of [OF assms(4) list.hyps(2) k _ len item, of i n] list.prems(3)
  show ?case by simp
qed (simp_all add: native_leaf_def)

lemma whole_rows:
  assumes "arrow_column lib t d a" and "native_type t"
  shows "rows_of 0 (arr_length a) a = a"
  using assms
proof cases
  case leaf
  then show ?thesis using leaf_array_shape [OF leaf(1)] by (cases a) auto
next
  case (nullable u)
  then show ?thesis using leaf_array_shape [OF nullable(2)] by (cases a) auto
next
  case (list t f child k os g)
  then show ?thesis by (cases os) (auto simp: offsets_ok_def)
qed (use assms(2) in \<open>simp_all add: native_leaf_def\<close>)

lemma column_rows:
  assumes "arrow_column lib t d a" and "native_type t" and "rows_ok tzp t a" and "arrow_ops_ok ops"
  shows "array_to_values ops tzp a (arr_type a) (Some t) = Inr (arr_values t a)"
  using column_rows_of [OF assms, of 0 "arr_length a"] whole_rows [OF assms(1,2)]
    arr_values_length [OF assms(1,2)] by simp

text \<open>C14. The rows of an Arrow column are the values the native reader reads: for the types of
  \<open>native_type\<close> and \<open>rows_ok\<close>, of the bytes that the Arrow writer sends of an array the native
  reader makes the values that \<open>array_to_values\<close> takes out of the array.\<close>

theorem rows_are_native:
  assumes "arrow_ops_ok ops" and "index_set iset"
    and "arrow_column lib t d a" and "native_type t" and "rows_ok tzp t a" and "col_ok t (arr_values t a)"
  shows "\<exists>bs vs. serialize_arrow fc t a d = Inr bs
    \<and> (\<forall>r. deserialize_column t (arr_length a) (bs @ r) = Inr (vs, r))
    \<and> array_to_values ops tzp a (arr_type a) (Some t) = Inr vs"
proof -
  have "column_rt id (serialize_column iset t) (deserialize_column t) (arr_values t a)"
    by (rule column_rt_type [OF assms(2,6)])
  then obtain bs where "serialize_column iset t (arr_values t a) = Inr bs"
    and "\<forall>r. deserialize_column t (arr_length a) (bs @ r) = Inr (arr_values t a, r)"
    using arr_values_length [OF assms(3,4)] by (auto simp: column_rt_def)
  then show ?thesis
    using native_column [OF assms(3,4), of fc iset] column_rows [OF assms(3-5,1)] by simp
qed

theorem rows_are_native_witness:
  "\<exists>bs vs. serialize_arrow no_floats (Array (Nullable Date))
      (AList KList (Field ''item'' DDate32 True) [0, 2, 2] (ADate32 [Some 19000, None]) None)
      (DList (Field ''item'' DDate32 True)) = Inr bs
    \<and> (\<forall>r. deserialize_column (Array (Nullable Date))
          (arr_length (AList KList (Field ''item'' DDate32 True) [0, 2, 2] (ADate32 [Some 19000, None]) None))
          (bs @ r) = Inr (vs, r))
    \<and> array_to_values plain_ops Some (AList KList (Field ''item'' DDate32 True) [0, 2, 2] (ADate32 [Some 19000, None]) None)
        (arr_type (AList KList (Field ''item'' DDate32 True) [0, 2, 2] (ADate32 [Some 19000, None]) None))
        (Some (Array (Nullable Date))) = Inr vs"
proof (rule rows_are_native [where lib = checked_arrow, OF plain_ops_ok index_set_first_of_each])
  show "arrow_column checked_arrow (Array (Nullable Date))
    (DList (Field ''item'' DDate32 True))
    (AList KList (Field ''item'' DDate32 True) [0, 2, 2] (ADate32 [Some 19000, None]) None)"
    by (rule arrow_column.list [where t = "Nullable Date" and f = "Field ''item'' DDate32 True"])
      (auto simp: leaf_array_def slots_ok_def fits_def offsets_ok_def offset_bound_def
        LIST_ITEM_FIELD_NAME_def is_nullable_def strip_low_cardinality_def intro!: arrow_column.nullable)
  show "col_ok (Array (Nullable Date)) (arr_values (Array (Nullable Date))
    (AList KList (Field ''item'' DDate32 True) [0, 2, 2] (ADate32 [Some 19000, None]) None))"
    by (simp add: leaf_values_def slot_values_def date_value_def col_ok_composite leaf_type_def
      sized_type_def null_ok_def null_item_ok_def item_ok_def array_items_def MAX_STRING_SIZE_def)
qed (simp_all add: native_leaf_def leaf_rows_ok_def row_leaf_def)

section \<open>Batches\<close>

lemma arr_type_rows_of [simp]: "arr_type (rows_of i n a) = arr_type a"
  by (cases a) simp_all

definition batch_rows_ok :: "arrow_lib \<Rightarrow> (string \<Rightarrow> tz option) \<Rightarrow> ty list \<Rightarrow> batch \<Rightarrow> bool" where
  "batch_rows_ok lib tzp types b =
     (length types = length (batch_columns b) \<and> length (batch_fields b) = length (batch_columns b)
      \<and> distinct (map field_name (batch_fields b))
      \<and> (\<forall>j < length types. native_type (types ! j) \<and> rows_ok tzp (types ! j) (batch_columns b ! j)
           \<and> (\<exists>d. arrow_column lib (types ! j) d (batch_columns b ! j))
           \<and> arr_length (batch_columns b ! j) = batch_rows b))"

definition header_of :: "ty list \<Rightarrow> batch \<Rightarrow> (string \<times> ty) list" where
  "header_of types b = zip (map field_name (batch_fields b)) types"

text \<open>The rows: in row \<open>i\<close>, value \<open>i\<close> of every column.\<close>

definition native_rows :: "ty list \<Rightarrow> batch \<Rightarrow> val list list" where
  "native_rows types b =
     map (\<lambda>i. map2 (\<lambda>t c. arr_values t c ! i) types (batch_columns b)) [0..<batch_rows b]"

lemma find_zip:
  "distinct names \<Longrightarrow> length names = length ts \<Longrightarrow> j < length ts \<Longrightarrow>
     find (\<lambda>(n, _). n = names ! j) (zip names ts) = Some (names ! j, ts ! j)"
proof (induction names ts arbitrary: j rule: list_induct2')
  case (4 x xs y ys)
  then show ?case by (cases j) auto
qed simp_all

lemma hint_of_column:
  assumes "batch_rows_ok lib tzp types b" and "j < length types"
  shows "hint_for (Some (header_of types b)) (field_name (batch_fields b ! j)) = Some (types ! j)"
proof -
  let ?names = "map field_name (batch_fields b)"
  have "find (\<lambda>(n, _). n = ?names ! j) (zip ?names types) = Some (?names ! j, types ! j)"
    using assms by (intro find_zip) (auto simp: batch_rows_ok_def)
  then show ?thesis
    using assms by (simp add: hint_for_def header_of_def batch_rows_ok_def)
qed

lemma rows_of_columns:
  assumes "\<And>vs. vs \<in> set cols \<Longrightarrow> length vs = n"
  shows "traverse (\<lambda>i. traverse (value_at i) cols) [0..<n] = Inr (map (\<lambda>i. map (\<lambda>vs. vs ! i) cols) [0..<n])"
  by (intro traverse_Inr_map) (simp add: assms value_at_def)

lemma batch_slice_rows:
  assumes "batch_rows_ok lib tzp types b" and "arrow_ops_ok ops" and "i + n \<le> batch_rows b"
  shows "batch_to_rows ops tzp (batch_slice ops i n b) (Some (header_of types b))
    = Inr (take n (drop i (native_rows types b)))"
proof -
  let ?cs = "batch_columns b" and ?fs = "batch_fields b"
  let ?part = "\<lambda>j. take n (drop i (arr_values (types ! j) (?cs ! j)))"
  have lens: "length types = length ?cs" "length ?fs = length ?cs"
    using assms(1) by (simp_all add: batch_rows_ok_def)
  have col: "array_to_values ops tzp (slice_arr ops i n (?cs ! j)) (arr_type (slice_arr ops i n (?cs ! j)))
      (hint_for (Some (header_of types b)) (field_name (?fs ! j))) = Inr (?part j)"
    and len: "length (arr_values (types ! j) (?cs ! j)) = batch_rows b" if "j < length ?cs" for j
  proof -
    note j = that
    obtain d where c: "arrow_column lib (types ! j) d (?cs ! j)" "native_type (types ! j)"
      "rows_ok tzp (types ! j) (?cs ! j)" "arr_length (?cs ! j) = batch_rows b"
      using assms(1) j lens by (auto simp: batch_rows_ok_def)
    from column_rows_of [OF c(1-3) assms(2), of i n] show "array_to_values ops tzp (slice_arr ops i n (?cs ! j))
        (arr_type (slice_arr ops i n (?cs ! j))) (hint_for (Some (header_of types b)) (field_name (?fs ! j)))
        = Inr (?part j)"
      using hint_of_column [OF assms(1)] that lens c(4) assms(3) arrow_ops_okD(5) [OF assms(2)] by simp
    show "length (arr_values (types ! j) (?cs ! j)) = batch_rows b"
      using arr_values_length [OF c(1,2)] c(4) by simp
  qed
  have zip: "zip ?fs (map (slice_arr ops i n) ?cs) = map (\<lambda>j. (?fs ! j, slice_arr ops i n (?cs ! j))) [0..<length ?cs]"
    using lens by (intro nth_equalityI) simp_all
  have "traverse (\<lambda>(f, c). array_to_values ops tzp c (arr_type c) (hint_for (Some (header_of types b)) (field_name f)))
      (zip ?fs (map (slice_arr ops i n) ?cs)) = Inr (map ?part [0..<length ?cs])"
    unfolding zip traverse_map by (rule traverse_Inr_map) (simp add: col)
  moreover have "traverse (\<lambda>r. traverse (value_at r) (map ?part [0..<length ?cs])) [0..<n]
      = Inr (map (\<lambda>r. map (\<lambda>vs. vs ! r) (map ?part [0..<length ?cs])) [0..<n])"
    using assms(3) by (intro rows_of_columns) (auto simp: len)
  moreover have "map (\<lambda>r. map (\<lambda>vs. vs ! r) (map ?part [0..<length ?cs])) [0..<n]
      = take n (drop i (native_rows types b))"
    using assms(3) lens by (intro nth_equalityI) (auto simp: native_rows_def len intro!: nth_equalityI)
  ultimately show ?thesis
    by (simp add: batch_to_rows_def batch_slice_def)
qed

lemma batch_rows:
  assumes "batch_rows_ok lib tzp types b" and "arrow_ops_ok ops"
  shows "batch_to_rows ops tzp b (Some (header_of types b)) = Inr (native_rows types b)"
proof -
  have "slice_arr ops 0 (batch_rows b) c = c" if "c \<in> set (batch_columns b)" for c
  proof -
    note c = that
    obtain j where j: "j < length (batch_columns b)" "c = batch_columns b ! j"
      using c by (auto simp: in_set_conv_nth)
    then obtain d where "arrow_column lib (types ! j) d c" "native_type (types ! j)" "arr_length c = batch_rows b"
      using assms(1) by (auto simp: batch_rows_ok_def)
    then show ?thesis
      using whole_rows arrow_ops_okD(5) [OF assms(2)] by fastforce
  qed
  then have "batch_slice ops 0 (batch_rows b) b = b"
    by (simp add: batch_slice_def map_idI)
  moreover have "length (native_rows types b) = batch_rows b"
    by (simp add: native_rows_def)
  ultimately show ?thesis
    using batch_slice_rows [OF assms, of 0 "batch_rows b"] by simp
qed

lemma take_then_drop: "take n (drop i xs) @ drop (i + n) xs = drop i xs"
  using append_take_drop_id [of n "drop i xs"] by (simp add: add.commute)

lemma cut_batch_rows:
  assumes "batch_rows_ok lib tzp types b" and "arrow_ops_ok ops" and "0 < most"
  shows "\<exists>parts. traverse (\<lambda>p. batch_to_rows ops tzp p (Some (header_of types b))) (cut_batch ops b most offset) = Inr parts
    \<and> concat parts = drop offset (native_rows types b) \<and> (\<forall>p \<in> set (cut_batch ops b most offset). batch_rows p \<le> most)"
  using assms
proof (induction ops b most offset rule: cut_batch.induct)
  case (1 ops b most offset)
  show ?case
  proof (cases "batch_rows b \<le> offset")
    case True
    then show ?thesis by (simp add: cut_batch.simps [of ops b] native_rows_def)
  next
    case False
    define n where "n = min (batch_rows b - offset) most"
    from "1.IH" [OF _ n_def "1.prems"] False "1.prems"(3) obtain parts where
      parts: "traverse (\<lambda>p. batch_to_rows ops tzp p (Some (header_of types b))) (cut_batch ops b most (offset + n)) = Inr parts"
        "concat parts = drop (offset + n) (native_rows types b)"
        "\<forall>p \<in> set (cut_batch ops b most (offset + n)). batch_rows p \<le> most"
      by auto
    have "offset + n \<le> batch_rows b" using False by (simp add: n_def)
    from batch_slice_rows [OF "1.prems"(1,2) this] parts False "1.prems"(3) show ?thesis
      by (subst (1 2) cut_batch.simps)
        (simp add: Let_def flip: n_def, simp add: n_def batch_slice_def take_then_drop)
  qed
qed

text \<open>C15. A batch cut into pieces of at most \<open>most\<close> rows: the rows of the pieces, one piece after
  the other, are the rows of the batch, and these are the values of the native reader.\<close>

theorem split_batch_rows:
  assumes "batch_rows_ok lib tzp types b" and "arrow_ops_ok ops" and "0 < most"
  shows "\<exists>parts. traverse (\<lambda>p. batch_to_rows ops tzp p (Some (header_of types b))) (split_record_batch ops b most) = Inr parts
    \<and> concat parts = native_rows types b
    \<and> batch_to_rows ops tzp b (Some (header_of types b)) = Inr (concat parts)
    \<and> (\<forall>p \<in> set (split_record_batch ops b most). batch_rows p \<le> most)"
  using cut_batch_rows [OF assms, of 0] batch_rows [OF assms(1,2)] assms(3)
  by (auto simp: split_record_batch_def)

text \<open>Three numbers, in pieces of two.\<close>

definition three_rows :: batch where
  "three_rows = \<lparr>batch_fields = [Field ''n'' DInt32 True],
     batch_columns = [AInt I32 [Some 1, None, Some 3]], batch_rows = 3\<rparr>"

theorem split_batch_rows_witness:
  "\<exists>parts. traverse (\<lambda>p. batch_to_rows plain_ops Some p (Some (header_of [Nullable Int32] three_rows)))
      (split_record_batch plain_ops three_rows 2) = Inr parts
    \<and> concat parts = [[VInt32 1], [VNull], [VInt32 3]]"
proof -
  have "arrow_column checked_arrow (Nullable Int32) DInt32 (AInt I32 [Some 1, None, Some 3])"
    by (rule arrow_column.nullable)
      (simp add: leaf_array_def slots_ok_def in_kind_def int_signed_def int_bytes_def)
  then have "batch_rows_ok checked_arrow Some [Nullable Int32] three_rows"
    by (auto simp: batch_rows_ok_def three_rows_def native_leaf_def leaf_rows_ok_def row_leaf_def)
  moreover have "native_rows [Nullable Int32] three_rows = [[VInt32 1], [VNull], [VInt32 3]]"
    by (simp add: native_rows_def three_rows_def leaf_values_def slot_values_def int_value_def upt_rec)
  ultimately show ?thesis
    using split_batch_rows [of checked_arrow Some "[Nullable Int32]" three_rows plain_ops 2] plain_ops_ok
    by auto
qed

section \<open>Where the rows differ\<close>

text \<open>A decimal is made with the precision of its Arrow type where a value has the scale.\<close>

lemma decimal_scale_lost:
  "array_to_values ops tzp (ADecimal128 38 s [Some v]) (DDecimal128 38 s) hint
     = Inr [VDecimal128 38 (word_of_int v)]"
  by (simp add: value_types slot_values_def)

text \<open>Days before 1970 panic, for a \<open>Date32\<close> column too; so do such times with a precision.\<close>

lemma day_before_epoch_panics:
  assumes "arrow_ops_ok ops"
  shows "array_to_values ops tzp (ADate32 [Some (-1)]) DDate32 (Some Date32) = Inl Panic"
  using arrow_ops_okD(2) [OF assms]
  by (simp add: value_types array_to_ints_def int_type_def map_or_null_def date_from_days_def)

lemma time_before_epoch_panics:
  assumes "arrow_ops_ok ops" and "tzp z = Some z"
  shows "array_to_values ops tzp (ATimestamp Millisecond (Some z) [Some (-1)]) (DTimestamp Millisecond (Some z))
    (Some (DateTime64 3 z)) = Inl Panic"
  using arrow_ops_okD(3) [OF assms(1)] assms(2)
  by (simp add: value_types array_to_ints_def int_type_def map_or_null_def timestamp_value_def
    dyn_from_millis_def dyn_from_units_def tz_or_utc_def)

text \<open>A UUID is one under the hint \<open>Uuid\<close> only, not under \<open>Nullable(Uuid)\<close>.\<close>

lemma nullable_uuid_as_bytes:
  assumes "arrow_ops_ok ops" and "length b = 16"
  shows "array_to_values ops tzp (AFixed 16 [Some b]) (DFixedSizeBinary 16) (Some (Nullable Uuid)) = Inr [VString b]"
    and "array_to_values ops tzp (AFixed 16 [Some b]) (DFixedSizeBinary 16) (Some Uuid)
      = Inr [VUuid (word_of_nat (le_nat (rev b)))]"
  using arrow_ops_okD(4) [OF assms(1)] assms(2)
  by (simp_all add: value_types array_to_binaries_def bytes_of_kind_def slot_values_def uuid_of_bytes_def)

end
