(* ===== verification/Settings.thy ===== *)
theory Settings
  imports ClickIO Protocol
begin

text \<open>
  Query settings and query parameters (settings.rs, query.rs): the values, the collection
  with its lookup and update, and both formats of the wire.

  The text of a float and its parser (\<open>f64::to_string\<close> and \<open>f64::from_str\<close>) are
  parameters: a record of two functions. A float is its bit pattern.
\<close>

section \<open>Values\<close>

record float_text =
  show_f64 :: "u64 \<Rightarrow> string"
  parse_f64 :: "string \<Rightarrow> u64 option"

datatype setting_value = SInt u64 | SBool bool | SFloat u64 | SString string

text \<open>\<open>SInt\<close> holds an \<open>i64\<close>: the word is read as signed.\<close>

definition f64_nan :: "u64 \<Rightarrow> bool" where
  "f64_nan w \<longleftrightarrow> drop_bit 52 w AND 0x7FF = 0x7FF \<and> w AND 0xFFFFFFFFFFFFF \<noteq> 0"

definition f64_eq :: "u64 \<Rightarrow> u64 \<Rightarrow> bool" where
  "f64_eq a b \<longleftrightarrow> \<not> f64_nan a \<and> \<not> f64_nan b \<and> (a = b \<or> push_bit 1 a = 0 \<and> push_bit 1 b = 0)"

fun setting_value_eq :: "setting_value \<Rightarrow> setting_value \<Rightarrow> bool" where
  "setting_value_eq (SInt a) (SInt b) \<longleftrightarrow> a = b"
| "setting_value_eq (SBool a) (SBool b) \<longleftrightarrow> a = b"
| "setting_value_eq (SFloat a) (SFloat b) \<longleftrightarrow> f64_eq a b"
| "setting_value_eq (SString a) (SString b) \<longleftrightarrow> a = b"
| "setting_value_eq _ _ \<longleftrightarrow> False"

definition setting_value_text :: "float_text \<Rightarrow> setting_value \<Rightarrow> string" where
  "setting_value_text ft v =
     (case v of
        SInt i \<Rightarrow> show_int (sint i)
      | SBool b \<Rightarrow> (if b then ''true'' else ''false'')
      | SFloat f \<Rightarrow> show_f64 ft f
      | SString s \<Rightarrow> s)"

text \<open>
  \<open>to_lowercase\<close>, compared with the ASCII words \<open>true\<close> and \<open>false\<close> only: no character
  outside ASCII has a lower case within these words, so the ASCII case mapping decides it.
\<close>

definition ascii_lower :: "char \<Rightarrow> char" where
  "ascii_lower c =
     (let n = (of_char c :: nat) in if 65 \<le> n \<and> n \<le> 90 then char_of (n + 32) else c)"

definition parse_setting_value :: "float_text \<Rightarrow> string \<Rightarrow> setting_value" where
  "parse_setting_value ft s =
     (let lower = map ascii_lower s in
      if lower = ''true'' \<or> lower = ''1'' then SBool True
      else if lower = ''false'' \<or> lower = ''0'' then SBool False
      else case parse_signed 64 s of
             Some i \<Rightarrow> SInt (word_of_int i)
           | None \<Rightarrow>
               (case parse_f64 ft s of
                  Some f \<Rightarrow> SFloat f
                | None \<Rightarrow> SString s))"

section \<open>Settings\<close>

record setting =
  key :: string
  svalue :: setting_value
  important :: bool
  custom :: bool

type_synonym settings = "setting list"

definition plain_setting :: "string \<Rightarrow> setting_value \<Rightarrow> setting" where
  "plain_setting k v = \<lparr>key = k, svalue = v, important = False, custom = False\<rparr>"

definition settings_get :: "settings \<Rightarrow> string \<Rightarrow> setting option" where
  "settings_get ss k = find (\<lambda>s. key s = k) ss"

text \<open>\<open>add_setting\<close> (and \<open>with_setting\<close>): the first setting of the key gets the value, its
  flags stay; a new key goes to the end.\<close>

fun add_setting :: "settings \<Rightarrow> string \<Rightarrow> setting_value \<Rightarrow> settings" where
  "add_setting [] k v = [plain_setting k v]"
| "add_setting (s # ss) k v =
     (if key s = k then s\<lparr>svalue := v\<rparr> # ss else s # add_setting ss k v)"

definition settings_from :: "(string \<times> setting_value) list \<Rightarrow> settings" where
  "settings_from kvs = map (\<lambda>(k, v). plain_setting k v) kvs"

definition encode_to_key_value_strings :: "float_text \<Rightarrow> settings \<Rightarrow> (string \<times> string) list" where
  "encode_to_key_value_strings ft ss = map (\<lambda>s. (key s, setting_value_text ft (svalue s))) ss"

definition encode_to_strings :: "float_text \<Rightarrow> settings \<Rightarrow> string list" where
  "encode_to_strings ft ss = map (\<lambda>s. key s @ '' = '' @ setting_value_text ft (svalue s)) ss"

text \<open>
  \<open>FromIterator::from_iter\<close> of \<open>Settings\<close> and of \<open>QueryParams\<close> is
  \<open>iter.into_iter().collect()\<close>, and \<open>collect\<close> is \<open>from_iter\<close>: \<open>None\<close> is a call that
  does not return.
\<close>

partial_function (option) settings_from_iter ::
  "(string \<times> setting_value) list \<Rightarrow> settings option" where
  "settings_from_iter kvs = settings_from_iter kvs"

type_synonym query_params = "(string \<times> setting_value) list"

text \<open>\<open>Settings::from(QueryParams)\<close>.\<close>

definition settings_from_params :: "query_params \<Rightarrow> settings option" where
  "settings_from_params params = settings_from_iter params"

section \<open>The wire\<close>

definition SETTING_FLAG_IMPORTANT :: u64 where "SETTING_FLAG_IMPORTANT = 1"
definition SETTING_FLAG_CUSTOM :: u64 where "SETTING_FLAG_CUSTOM = 2"

definition encode_field_dump :: "setting \<Rightarrow> string res" where
  "encode_field_dump s = (case svalue s of SString v \<Rightarrow> Inr v | _ \<Rightarrow> Inl UnsupportedFieldType)"

definition setting_flags :: "setting \<Rightarrow> u64" where
  "setting_flags s =
     (let flags = (0 :: u64);
          flags = (if important s then flags OR SETTING_FLAG_IMPORTANT else flags)
      in if custom s then flags OR SETTING_FLAG_CUSTOM else flags)"

definition setting_encode :: "float_text \<Rightarrow> nat \<Rightarrow> setting \<Rightarrow> byte list res" where
  "setting_encode ft revision s =
     (if revision \<le> REV_SETTINGS_AS_STRINGS then
        (case svalue s of
           SInt i \<Rightarrow> Inr (write_string (str_bytes (key s)) @ write_var_uint i)
         | SBool b \<Rightarrow> Inr (write_string (str_bytes (key s)) @ write_var_uint (if b then 1 else 0))
         | _ \<Rightarrow> Inl UnsupportedSettingType)
      else
        rbind (if custom s then encode_field_dump s
               else Inr (setting_value_text ft (svalue s))) (\<lambda>v.
          Inr (write_string (str_bytes (key s)) @ write_var_uint (setting_flags s)
               @ write_string (str_bytes v))))"

definition settings_encode :: "float_text \<Rightarrow> nat \<Rightarrow> settings \<Rightarrow> byte list res" where
  "settings_encode ft revision ss = rmap concat (traverse (setting_encode ft revision) ss)"

fun encode_with_ignore :: "float_text \<Rightarrow> nat \<Rightarrow> settings \<Rightarrow> settings \<Rightarrow> byte list res" where
  "encode_with_ignore ft revision [] ignore = Inr []"
| "encode_with_ignore ft revision (s # ss) ignore =
     (if (case settings_get ignore (key s) of
            None \<Rightarrow> False | Some i \<Rightarrow> setting_value_eq (svalue i) (svalue s))
      then encode_with_ignore ft revision ss ignore
      else rbind (setting_encode ft revision s) (\<lambda>bs.
           rbind (encode_with_ignore ft revision ss ignore) (\<lambda>rest. Inr (bs @ rest))))"

definition lossy :: "byte list \<Rightarrow> string" where
  "lossy bs = bytes_str (from_utf8_lossy bs)"

definition setting_decode :: "float_text \<Rightarrow> string \<Rightarrow> setting reader" where
  "setting_decode ft k s =
     rbind (read_var_uint s) (\<lambda>(flags, s).
       let is_important = (flags AND SETTING_FLAG_IMPORTANT \<noteq> 0);
           is_custom = (flags AND SETTING_FLAG_CUSTOM \<noteq> 0) in
       rbind (read_string s) (\<lambda>(bs, s).
         Inr (\<lparr>key = k,
               svalue = (if is_custom then SString (lossy bs) else parse_setting_value ft (lossy bs)),
               important = is_important, custom = is_custom\<rparr>, s)))"

lemma setting_decode_length: "setting_decode ft k s = Inr (v, r) \<Longrightarrow> length r < length s"
  by (auto simp: setting_decode_def rbind_Inr_iff Let_def
      dest!: read_var_uint_length read_string_length)

function settings_decode :: "float_text \<Rightarrow> settings reader" where
  "settings_decode ft s =
     rbind (read_string s) (\<lambda>(k, s).
       if k = [] then Inr ([], s)
       else rbind (setting_decode ft (lossy k) s) (\<lambda>(x, s).
         rbind (settings_decode ft s) (\<lambda>(xs, s). Inr (x # xs, s))))"
  by pat_completeness auto
termination
  by (relation "measure (\<lambda>(ft, s). length s)")
    (auto dest!: read_string_length setting_decode_length)

declare settings_decode.simps [simp del]

section \<open>Lookup and update\<close>

text \<open>
  The contract of a store of values by key: what a lookup gives after an update. Its
  clients rely on the last value written; the order of the entries is not part of it.
\<close>

locale keyed_store =
  fixes lookup :: "'s \<Rightarrow> 'k \<Rightarrow> 'v option"
    and update :: "'s \<Rightarrow> 'k \<Rightarrow> 'v \<Rightarrow> 's"
  assumes lookup_update: "lookup (update s k v) k' = (if k' = k then Some v else lookup s k')"
begin

lemma lookup_updates:
  "lookup (foldl (\<lambda>s (k, v). update s k v) s kvs) k =
     (case map_of (rev kvs) k of Some v \<Rightarrow> Some v | None \<Rightarrow> lookup s k)"
proof (induction kvs rule: rev_induct)
  case Nil
  then show ?case by simp
next
  case (snoc kv kvs)
  then show ?case by (cases kv) (simp add: lookup_update)
qed

lemma lookup_update_twice:
  "lookup (update (update s k v) k w) k' = lookup (update s k w) k'"
  by (simp add: lookup_update)

lemma lookup_update_commute:
  "k \<noteq> l \<Longrightarrow> lookup (update (update s k v) l w) k' = lookup (update (update s l w) k v) k'"
  by (simp add: lookup_update)

end

lemma settings_get_simps [simp]:
  "settings_get [] k = None"
  "settings_get (s # ss) k = (if key s = k then Some s else settings_get ss k)"
  by (simp_all add: settings_get_def)

lemma settings_get_add:
  "settings_get (add_setting ss k v) k' =
     (if k' = k
      then Some (case settings_get ss k of None \<Rightarrow> plain_setting k v | Some s \<Rightarrow> s\<lparr>svalue := v\<rparr>)
      else settings_get ss k')"
  by (induction ss) (auto simp: plain_setting_def)

interpretation setting_store: keyed_store "\<lambda>ss k. map_option svalue (settings_get ss k)" add_setting
  by unfold_locales (simp add: settings_get_add plain_setting_def split: option.split)

lemma add_setting_keys:
  "map key (add_setting ss k v) = (if k \<in> key ` set ss then map key ss else map key ss @ [k])"
  by (induction ss) (auto simp: plain_setting_def)

lemma add_settings_distinct:
  "distinct (map key ss) \<Longrightarrow> distinct (map key (foldl (\<lambda>ss (k, v). add_setting ss k v) ss kvs))"
proof (induction kvs arbitrary: ss)
  case Nil
  then show ?case by simp
next
  case (Cons kv kvs)
  then have "distinct (map key (add_setting ss (fst kv) (snd kv)))"
    by (auto simp: add_setting_keys)
  then show ?case using Cons.IH by (simp add: case_prod_beta)
qed

text \<open>Settings as a store: after any sequence of \<open>add_setting\<close> on settings without
  repeated keys, there is still one setting per key, and the value found under a key is the
  last one added for it, or the old one where none was added.\<close>

theorem add_setting_last_write:
  assumes "distinct (map key ss)"
  shows "distinct (map key (foldl (\<lambda>ss (k, v). add_setting ss k v) ss kvs))
    \<and> map_option svalue (settings_get (foldl (\<lambda>ss (k, v). add_setting ss k v) ss kvs) k)
      = (case map_of (rev kvs) k of
           Some v \<Rightarrow> Some v | None \<Rightarrow> map_option svalue (settings_get ss k))"
  using assms by (simp add: add_settings_distinct setting_store.lookup_updates)

theorem add_setting_last_write_witness:
  "distinct (map key (foldl (\<lambda>ss (k, v). add_setting ss k v) [plain_setting ''a'' (SInt 1)]
      [(''b'', SBool True), (''b'', SInt 7)]))
    \<and> map_option svalue (settings_get (foldl (\<lambda>ss (k, v). add_setting ss k v) [plain_setting ''a'' (SInt 1)]
      [(''b'', SBool True), (''b'', SInt 7)]) ''b'')
      = (case map_of (rev [(''b'', SBool True), (''b'', SInt 7)]) ''b'' of
           Some v \<Rightarrow> Some v | None \<Rightarrow> map_option svalue (settings_get [plain_setting ''a'' (SInt 1)] ''b''))"
  by (rule add_setting_last_write) simp

section \<open>Collecting from an iterator\<close>

lemma settings_from_iter_Some: "settings_from_iter kvs = Some ss \<Longrightarrow> False"
  by (rule settings_from_iter.raw_induct [of "\<lambda>_ _. False" kvs ss])

text \<open>Collecting key-value pairs into \<open>Settings\<close> never returns, for any pairs, and so
  neither does the conversion of query parameters into settings.\<close>

lemma from_iter_diverges: "settings_from_iter kvs = None \<and> settings_from_params params = None"
proof -
  have "settings_from_iter l = None" for l
    using settings_from_iter_Some [of l] by (cases "settings_from_iter l") auto
  then show ?thesis by (simp add: settings_from_params_def)
qed

section \<open>The round trip of settings\<close>

definition setting_text :: "float_text \<Rightarrow> setting \<Rightarrow> string" where
  "setting_text ft s = setting_value_text ft (svalue s)"

definition is_string :: "setting_value \<Rightarrow> bool" where
  "is_string v \<longleftrightarrow> (case v of SString _ \<Rightarrow> True | _ \<Rightarrow> False)"

definition setting_ok :: "float_text \<Rightarrow> setting \<Rightarrow> bool" where
  "setting_ok ft s \<longleftrightarrow> key s \<noteq> [] \<and> wire_str (key s) \<and> wire_str (setting_text ft s)
     \<and> (custom s \<longrightarrow> is_string (svalue s))"

text \<open>What a setting is read back as: the text of its value is parsed again.\<close>

definition setting_read_back :: "float_text \<Rightarrow> setting \<Rightarrow> setting" where
  "setting_read_back ft s =
     (if custom s then s else s\<lparr>svalue := parse_setting_value ft (setting_text ft s)\<rparr>)"

lemma lossy_str_bytes [simp]: "utf8_str s \<Longrightarrow> lossy (str_bytes s) = s"
  by (simp add: lossy_def utf8_str_def from_utf8_lossy_valid)

lemma read_string_str: "wire_str s \<Longrightarrow> read_string (write_string (str_bytes s) @ r) = Inr (str_bytes s, r)"
  by (simp add: wire_str_def read_string_write)

lemma setting_flags_bits:
  "setting_flags s AND SETTING_FLAG_IMPORTANT \<noteq> 0 \<longleftrightarrow> important s"
  "setting_flags s AND SETTING_FLAG_CUSTOM \<noteq> 0 \<longleftrightarrow> custom s"
  "setting_flags s < 2 ^ 63"
  by (simp_all add: setting_flags_def SETTING_FLAG_IMPORTANT_def SETTING_FLAG_CUSTOM_def)

lemma setting_written:
  assumes "setting_ok ft s" and "revision > REV_SETTINGS_AS_STRINGS"
  shows "\<exists>bs. setting_encode ft revision s = Inr (write_string (str_bytes (key s)) @ bs)
    \<and> (\<forall>r. setting_decode ft (key s) (bs @ r) = Inr (setting_read_back ft s, r))"
proof -
  have ok: "wire_str (setting_text ft s)" "custom s \<longrightarrow> is_string (svalue s)"
    using assms(1) by (simp_all add: setting_ok_def)
  let ?bs = "write_var_uint (setting_flags s) @ write_string (str_bytes (setting_text ft s))"
  have shown: "svalue s = SString v \<Longrightarrow> setting_text ft s = v" for v
    by (simp add: setting_text_def setting_value_text_def)
  have "custom s \<Longrightarrow> encode_field_dump s = Inr (setting_text ft s)"
    using ok(2) shown by (auto simp: encode_field_dump_def is_string_def split: setting_value.splits)
  then have enc: "setting_encode ft revision s = Inr (write_string (str_bytes (key s)) @ ?bs)"
    using assms(2) by (simp add: setting_encode_def setting_text_def)
  have "custom s \<Longrightarrow> svalue s = SString (setting_text ft s)"
    using ok(2) shown by (auto simp: is_string_def split: setting_value.splits)
  then have "setting_decode ft (key s) (?bs @ r) = Inr (setting_read_back ft s, r)" for r
    using ok(1) setting_flags_bits
    by (simp add: setting_decode_def var_uint.dec_enc read_string_str Let_def wire_str_def
        setting_read_back_def)
  then show ?thesis using enc by blast
qed

lemma settings_written:
  assumes "revision > REV_SETTINGS_AS_STRINGS"
  shows "list_all (setting_ok ft) ss \<Longrightarrow> \<exists>bs. settings_encode ft revision ss = Inr bs
    \<and> (\<forall>r. settings_decode ft (bs @ write_string [] @ r) = Inr (map (setting_read_back ft) ss, r))"
proof (induction ss)
  case Nil
  have "read_string (write_string [] @ r) = Inr ([], r)" for r
    using read_string_write [of "[]" r] by (simp add: MAX_STRING_SIZE_def)
  then show ?case
    by (simp add: settings_encode_def settings_decode.simps)
next
  case (Cons s ss)
  then obtain bs where bs: "settings_encode ft revision ss = Inr bs"
    "\<And>r. settings_decode ft (bs @ write_string [] @ r) = Inr (map (setting_read_back ft) ss, r)"
    by auto
  have ok: "setting_ok ft s" using Cons.prems by simp
  obtain b where b: "setting_encode ft revision s = Inr (write_string (str_bytes (key s)) @ b)"
    "\<And>r. setting_decode ft (key s) (b @ r) = Inr (setting_read_back ft s, r)"
    using setting_written [OF ok assms] by blast
  have k: "wire_str (key s)" "key s \<noteq> []" using ok by (simp_all add: setting_ok_def)
  then have "str_bytes (key s) \<noteq> []" by (cases "key s") simp_all
  then have "settings_decode ft ((write_string (str_bytes (key s)) @ b @ bs) @ write_string [] @ r)
      = Inr (map (setting_read_back ft) (s # ss), r)" for r
    using k b(2) bs(2) by (simp add: settings_decode.simps [of ft "write_string _ @ _"]
        read_string_str wire_str_def)
  then show ?case
    using b(1) bs(1)
    by (auto simp: settings_encode_def rmap_Inr_iff rbind_Inr_iff
        intro!: exI [of _ "write_string (str_bytes (key s)) @ b @ bs"])
qed

definition no_float_text :: float_text where
  "no_float_text = \<lparr>show_f64 = (\<lambda>_. ''0.5''), parse_f64 = (\<lambda>s. if s = ''0.5'' then Some 0x3FE0000000000000 else None)\<rparr>"

text \<open>C29. Settings over the wire, at a revision with settings as strings: what \<open>encode\<close>
  writes for settings with non-empty keys, followed by the empty string that ends them, is
  decoded to the same keys and flags in order, each custom value as it was and each other
  value as the parser of values reads its text; the stream after the settings is left.\<close>

theorem settings_roundtrip:
  assumes "list_all (setting_ok ft) ss" and "revision > REV_SETTINGS_AS_STRINGS"
  shows "\<exists>bs. settings_encode ft revision ss = Inr bs
    \<and> (\<forall>r. settings_decode ft (bs @ write_string [] @ r) = Inr (map (setting_read_back ft) ss, r))"
  using settings_written [OF assms(2,1)] .

definition some_settings :: settings where
  "some_settings = [plain_setting ''a'' (SInt 7), plain_setting ''b'' (SString ''x'')\<lparr>custom := True\<rparr>]"

lemma some_settings_ok: "list_all (setting_ok no_float_text) some_settings"
  by (simp add: some_settings_def plain_setting_def setting_ok_def wire_str_def utf8_str_def
      MAX_STRING_SIZE_def setting_text_def setting_value_text_def show_int_def show_nat.simps
      digit_char_def is_string_def utf8_valid.simps utf8_seq_def safe_get_def)

theorem settings_roundtrip_witness:
  "\<exists>bs. settings_encode no_float_text 54479 some_settings = Inr bs
    \<and> (\<forall>r. settings_decode no_float_text (bs @ write_string [] @ r)
         = Inr (map (setting_read_back no_float_text) some_settings, r))"
  by (rule settings_roundtrip [OF some_settings_ok]) (simp add: revisions)

lemma ascii_lower_digit: "is_digit c \<Longrightarrow> ascii_lower c = c"
  by (simp add: is_digit_def ascii_lower_def Let_def)

lemma ascii_lower_show_nat: "map ascii_lower (show_nat n) = show_nat n"
  using show_nat_digits [of n] by (auto simp: list_all_iff ascii_lower_digit intro!: map_idI)

lemma ascii_lower_show_int: "map ascii_lower (show_int i) = show_int i"
  by (simp add: show_int_def ascii_lower_show_nat ascii_lower_def Let_def)

lemma show_int_words:
  assumes "- (2 ^ 63) \<le> i" and "i < 2 ^ 63"
  shows "show_int i \<noteq> ''true''" "show_int i \<noteq> ''false''"
    "show_int i = ''1'' \<longleftrightarrow> i = 1" "show_int i = ''0'' \<longleftrightarrow> i = 0"
proof -
  have p: "parse_signed 64 (show_int i) = Some i"
    by (rule parse_signed_show_int) (use assms in simp_all)
  have "parse_signed 64 ''true'' = None" "parse_signed 64 ''false'' = None"
    "parse_signed 64 ''1'' = Some 1" "parse_signed 64 ''0'' = Some 0"
    by (simp_all add: parse_signed_def parse_digits_def is_digit_def digits_val_def digit_val_def Let_def)
  moreover have shown: "show_int 1 = ''1''" "show_int 0 = ''0''"
    by code_simp+
  ultimately show "show_int i \<noteq> ''true''" "show_int i \<noteq> ''false''"
    "show_int i = ''1'' \<longleftrightarrow> i = 1" "show_int i = ''0'' \<longleftrightarrow> i = 0"
    using p shown by auto
qed

lemma parse_number_text:
  assumes "map ascii_lower z = z" and "z \<noteq> ''true''" and "z \<noteq> ''false''"
    and "z = ''1'' \<longleftrightarrow> i = 1" and "z = ''0'' \<longleftrightarrow> i = 0" and "parse_signed 64 z = Some (sint i)"
  shows "parse_setting_value ft z = (if i = 0 then SBool False else if i = 1 then SBool True else SInt i)"
  using assms(2-6) unfolding parse_setting_value_def Let_def assms(1) by auto

lemma reparse_int:
  "parse_setting_value ft (show_int (sint i)) =
     (if i = 0 then SBool False else if i = 1 then SBool True else SInt i)"
proof -
  have r: "- (2 ^ 63) \<le> sint i" "sint i < 2 ^ 63"
    using sint_greater_eq [of i] sint_less [of i] by simp_all
  have "sint i = 0 \<longleftrightarrow> i = 0" "sint i = 1 \<longleftrightarrow> i = 1"
    using signed_word_eqI [of i 0] signed_word_eqI [of i 1] by auto
  then have words: "show_int (sint i) \<noteq> ''true''" "show_int (sint i) \<noteq> ''false''"
    "show_int (sint i) = ''1'' \<longleftrightarrow> i = 1" "show_int (sint i) = ''0'' \<longleftrightarrow> i = 0"
    using show_int_words [OF r] by simp_all
  have "parse_signed 64 (show_int (sint i)) = Some (sint i)"
    by (rule parse_signed_show_int) (use r in simp_all)
  then show ?thesis by (rule parse_number_text [OF ascii_lower_show_int words])
qed

text \<open>Which values survive their text. A boolean does, and an integer other than 0 and 1;
  the integers 0 and 1 come back as booleans; a string survives exactly when it does not
  look like a boolean (in any case), an integer of 64 bits or a float.\<close>

theorem setting_text_reparsed:
  "parse_setting_value ft (setting_value_text ft (SBool b)) = SBool b
   \<and> parse_setting_value ft (setting_value_text ft (SInt i)) =
       (if i = 0 then SBool False else if i = 1 then SBool True else SInt i)
   \<and> (parse_setting_value ft (setting_value_text ft (SString s)) = SString s \<longleftrightarrow>
       map ascii_lower s \<notin> {''true'', ''false'', ''1'', ''0''}
       \<and> parse_signed 64 s = None \<and> parse_f64 ft s = None)"
proof (intro conjI)
  show "parse_setting_value ft (setting_value_text ft (SBool b)) = SBool b"
    by (simp add: parse_setting_value_def setting_value_text_def ascii_lower_def Let_def)
  show "parse_setting_value ft (setting_value_text ft (SInt i)) =
      (if i = 0 then SBool False else if i = 1 then SBool True else SInt i)"
    by (simp only: setting_value_text_def setting_value.case reparse_int)
  show "parse_setting_value ft (setting_value_text ft (SString s)) = SString s \<longleftrightarrow>
      map ascii_lower s \<notin> {''true'', ''false'', ''1'', ''0''}
      \<and> parse_signed 64 s = None \<and> parse_f64 ft s = None"
    by (auto simp: parse_setting_value_def setting_value_text_def Let_def split: option.split)
qed

lemma encode_with_ignore_eq:
  "encode_with_ignore ft revision ss ignore = settings_encode ft revision
     (filter (\<lambda>s. case settings_get ignore (key s) of
        None \<Rightarrow> True | Some i \<Rightarrow> \<not> setting_value_eq (svalue i) (svalue s)) ss)"
  by (induction ss)
    (auto simp: settings_encode_def rbind_def rmap_def split: option.splits sum.splits)

lemma settings_encode_append:
  "settings_encode ft revision (ss @ ts) =
     rbind (settings_encode ft revision ss) (\<lambda>a.
     rbind (settings_encode ft revision ts) (\<lambda>b. Inr (a @ b)))"
  by (induction ss) (auto simp: settings_encode_def rbind_def rmap_def split: sum.splits)

text \<open>Settings a query repeats: \<open>encode_with_ignore\<close> writes what \<open>encode\<close> writes for the
  settings whose value differs from the one the other side has under the key, or that it
  does not have.\<close>

theorem encode_with_ignore_filter:
  "encode_with_ignore ft revision ss ignore = settings_encode ft revision
     (filter (\<lambda>s. case settings_get ignore (key s) of
        None \<Rightarrow> True | Some i \<Rightarrow> \<not> setting_value_eq (svalue i) (svalue s)) ss)"
  by (rule encode_with_ignore_eq)

text \<open>The legacy format (revisions up to 54429) takes integers and booleans only: any other
  value among the settings makes the whole encoding fail with \<open>UnsupportedSettingType\<close>, and
  otherwise it succeeds, whatever the flags. A value is written as a variable-length
  integer, so the sign of a negative integer is lost.\<close>

theorem settings_encode_legacy:
  "revision \<le> REV_SETTINGS_AS_STRINGS \<Longrightarrow>
     settings_encode ft revision ss =
       (if list_all (\<lambda>s. case svalue s of SInt _ \<Rightarrow> True | SBool _ \<Rightarrow> True | _ \<Rightarrow> False) ss
        then Inr (concat (map (\<lambda>s. write_string (str_bytes (key s)) @ write_var_uint
               (case svalue s of SInt i \<Rightarrow> i | SBool b \<Rightarrow> if b then 1 else 0 | _ \<Rightarrow> 0)) ss))
        else Inl UnsupportedSettingType)"
  by (induction ss)
    (auto simp: settings_encode_def setting_encode_def rbind_def rmap_def
      split: setting_value.splits sum.splits if_splits)

theorem settings_encode_legacy_witness:
  "settings_encode no_float_text 54429 [plain_setting ''a'' (SInt 7)] =
     Inr (concat (map (\<lambda>s. write_string (str_bytes (key s)) @ write_var_uint
               (case svalue s of SInt i \<Rightarrow> i | SBool b \<Rightarrow> if b then 1 else 0 | _ \<Rightarrow> 0))
            [plain_setting ''a'' (SInt 7)]))
   \<and> settings_encode no_float_text 54429 [plain_setting ''a'' (SString ''x'')] = Inl UnsupportedSettingType"
  using settings_encode_legacy [of 54429 no_float_text "[plain_setting ''a'' (SInt 7)]"]
    settings_encode_legacy [of 54429 no_float_text "[plain_setting ''a'' (SString ''x'')]"]
  by (simp add: revisions plain_setting_def)

end
