(* ===== verification/Requests.thy ===== *)
theory Requests
  imports Compression Settings
begin

text \<open>
  What the client sends (client/writer.rs, native/client_info.rs): hello, query, data,
  addendum and ping. A writer returns the bytes of the packet.

  The start time of a query and the identifier of a query are inputs: the clock and the
  random generator are not part of the model.
\<close>

section \<open>Client info\<close>

definition VERSION_MAJOR :: u64 where "VERSION_MAJOR = 0"
definition VERSION_MINOR :: u64 where "VERSION_MINOR = 1"
definition VERSION_PATCH :: u64 where "VERSION_PATCH = 6"

datatype query_kind = NoQuery | InitialQuery | SecondaryQuery

definition query_kind_num :: "query_kind \<Rightarrow> byte" where
  "query_kind_num k = (case k of NoQuery \<Rightarrow> 0 | InitialQuery \<Rightarrow> 1 | SecondaryQuery \<Rightarrow> 2)"

record open_telemetry =
  trace_id :: u128
  span_id :: u64
  tracestate :: string
  trace_flags :: byte

record client_info =
  kind :: query_kind
  initial_user :: string
  initial_query_id :: string
  initial_address :: string
  os_user :: string
  client_hostname :: string
  client_name :: string
  client_version_major :: u64
  client_version_minor :: u64
  client_tcp_protocol_version :: u64
  query_start_time :: u64
  quota_key :: string
  distributed_depth :: u64
  client_version_patch :: u64
  telemetry :: "open_telemetry option"

definition default_client_info :: "u64 \<Rightarrow> client_info" where
  "default_client_info now =
     \<lparr>kind = InitialQuery, initial_user = [], initial_query_id = [],
      initial_address = ''0.0.0.0:0'', os_user = [], client_hostname = ''localhost'',
      client_name = ''ClickHouseArrow'', client_version_major = VERSION_MAJOR,
      client_version_minor = VERSION_MINOR,
      client_tcp_protocol_version = word_of_nat DBMS_TCP_PROTOCOL_VERSION,
      query_start_time = now, quota_key = [], distributed_depth = 1,
      client_version_patch = VERSION_PATCH, telemetry = None\<rparr>"

text \<open>Bytes sent only from a revision on.\<close>

definition since :: "nat \<Rightarrow> nat \<Rightarrow> byte list \<Rightarrow> byte list" where
  "since revision first bs = (if revision \<ge> first then bs else [])"

text \<open>Big-endian integers: \<open>Uuid::as_bytes\<close> and \<open>write_u64\<close>.\<close>

definition put_be :: "nat \<Rightarrow> 'a::len word \<Rightarrow> byte list" where
  "put_be n w = rev (put_le n w)"

abbreviation write_str :: "string \<Rightarrow> byte list" where
  "write_str s \<equiv> write_string (str_bytes s)"

definition telemetry_write :: "open_telemetry option \<Rightarrow> byte list" where
  "telemetry_write t =
     (case t of
        None \<Rightarrow> [0]
      | Some t \<Rightarrow> [1] @ put_be 16 (trace_id t) @ put_be 8 (span_id t)
                  @ write_str (tracestate t) @ [trace_flags t])"

definition client_info_write :: "nat \<Rightarrow> client_info \<Rightarrow> byte list" where
  "client_info_write revision i =
     query_kind_num (kind i) #
     (if kind i = NoQuery then []
      else write_str (initial_user i) @ write_str (initial_query_id i) @ write_str (initial_address i)
        @ since revision REV_QUERY_START_TIME (put_u64 (query_start_time i))
        @ [1]
        @ write_str (os_user i) @ write_str (client_hostname i) @ write_str (client_name i)
        @ write_var_uint (client_version_major i) @ write_var_uint (client_version_minor i)
        @ write_var_uint (client_tcp_protocol_version i)
        @ since revision REV_QUOTA_KEY_IN_CLIENT_INFO (write_str (quota_key i))
        @ since revision REV_DISTRIBUTED_DEPTH (write_var_uint (distributed_depth i))
        @ since revision REV_VERSION_PATCH (write_var_uint (client_version_patch i))
        @ since revision REV_OPENTELEMETRY (telemetry_write (telemetry i))
        @ since revision REV_PARALLEL_REPLICAS (write_var_uint 0 @ write_var_uint 0 @ write_var_uint 0)
        @ since revision REV_QUERY_AND_LINE_NUMBERS (write_var_uint 0 @ write_var_uint 0)
        @ since revision REV_JWT [0])"

section \<open>Packets\<close>

record client_hello =
  default_database :: string
  username :: string
  password :: string

definition send_hello :: "client_hello \<Rightarrow> byte list" where
  "send_hello h =
     write_var_uint (client_packet_num CHello) @ write_str ''ClickHouseArrow Rust 0.1.6''
     @ write_var_uint VERSION_MAJOR @ write_var_uint VERSION_MINOR
     @ write_var_uint (word_of_nat DBMS_TCP_PROTOCOL_VERSION)
     @ write_str (default_database h) @ write_str (username h) @ write_str (password h)"

text \<open>\<open>Qid::write_id\<close>: the 32 hexadecimal digits of the identifier.\<close>

definition hex_digit :: "nat \<Rightarrow> char" where
  "hex_digit d = (if d < 10 then char_of (48 + d) else char_of (87 + d))"

definition qid_text :: "u128 \<Rightarrow> string" where
  "qid_text q = map (\<lambda>i. hex_digit (unat (drop_bit (4 * i) q AND 0xF))) (rev [0..<32])"

record request =
  request_id :: u128
  request_info :: client_info
  request_settings :: "settings option"
  request_stage :: query_processing_stage
  request_text :: string
  request_params :: "query_params option"

text \<open>\<open>ClientMetadata::compression_settings\<close> (client/connection.rs).\<close>

definition compression_settings :: "compression_method \<Rightarrow> settings" where
  "compression_settings c =
     (case c of
        ZSTD \<Rightarrow> settings_from [(''network_compression_method'', SString ''zstd''),
                                (''network_zstd_compression_level'', SString ''1'')]
      | _ \<Rightarrow> [])"

definition request_settings_write ::
  "float_text \<Rightarrow> nat \<Rightarrow> settings option \<Rightarrow> settings option \<Rightarrow> byte list res" where
  "request_settings_write ft revision server_settings settings =
     (case settings of
        None \<Rightarrow> Inr []
      | Some ss \<Rightarrow>
          (case server_settings of
             Some ignore \<Rightarrow> encode_with_ignore ft revision ss ignore
           | None \<Rightarrow> settings_encode ft revision ss))"

text \<open>The packet up to the parameters.\<close>

definition send_query_head ::
  "float_text \<Rightarrow> compression_method \<Rightarrow> nat \<Rightarrow> settings option \<Rightarrow> request \<Rightarrow> byte list res" where
  "send_query_head ft compression revision server_settings q =
     rbind (settings_encode ft revision (compression_settings compression)) (\<lambda>compression_bs.
     rbind (request_settings_write ft revision server_settings (request_settings q)) (\<lambda>settings_bs.
       Inr (write_var_uint (client_packet_num CQuery)
         @ write_str (qid_text (request_id q))
         @ since revision REV_CLIENT_INFO (client_info_write revision (request_info q))
         @ compression_bs @ settings_bs @ write_str []
         @ since revision REV_GRANTED_ROLES (write_str [])
         @ since revision REV_INTERSERVER_SECRET (write_str [])
         @ write_var_uint (stage_num (request_stage q))
         @ [if compression = NoCompression then 0 else 1]
         @ write_str (request_text q))))"

text \<open>\<open>None\<close>: the call does not return (the conversion of the parameters).\<close>

definition send_query ::
  "float_text \<Rightarrow> compression_method \<Rightarrow> nat \<Rightarrow> settings option \<Rightarrow> request \<Rightarrow> byte list res option" where
  "send_query ft compression revision server_settings q =
     (case send_query_head ft compression revision server_settings q of
        Inl e \<Rightarrow> Some (Inl e)
      | Inr head \<Rightarrow>
          if revision < REV_PARAMETERS then Some (Inr head)
          else (case request_params q of
                  None \<Rightarrow> Some (Inr (head @ write_str []))
                | Some params \<Rightarrow>
                    (case settings_from_params params of
                       None \<Rightarrow> None
                     | Some ss \<Rightarrow>
                         Some (rbind (settings_encode ft revision ss) (\<lambda>bs.
                           Inr (head @ bs @ write_str []))))))"

definition send_data ::
  "codecs \<Rightarrow> (val list \<Rightarrow> val list) \<Rightarrow> nat \<Rightarrow> compression_method \<Rightarrow> block \<Rightarrow> byte list res" where
  "send_data cd iset revision compression b =
     rbind (native_write cd iset revision compression b) (\<lambda>bs.
       Inr (write_var_uint (client_packet_num CData) @ write_str [] @ bs))"

text \<open>The addendum compares the negotiated revision of the server hello, not \<open>revision\<close>.\<close>

definition send_addendum :: "nat \<Rightarrow> nat \<Rightarrow> chunked_mode \<Rightarrow> chunked_mode \<Rightarrow> byte list" where
  "send_addendum revision hello_revision send_mode recv_mode =
     since revision REV_QUOTA_KEY (write_str [])
     @ since hello_revision REV_CHUNKED_PACKETS
         (write_str (mode_str send_mode) @ write_str (mode_str recv_mode))
     @ since hello_revision REV_VERSIONED_REPLICAS
         (write_var_uint DBMS_PARALLEL_REPLICAS_PROTOCOL_VERSION)"

definition send_ping :: "byte list" where
  "send_ping = write_var_uint (client_packet_num CPing)"

definition send_cancel :: "byte list" where
  "send_cancel = write_var_uint (client_packet_num CCancel)"

section \<open>The receiving side\<close>

text \<open>
  The grammar of the packets for the side that reads them: what a server of a revision
  expects, field by field. It states what the writers must be readable as; it is not code
  of the crate.
\<close>

definition read_since :: "nat \<Rightarrow> nat \<Rightarrow> 'a \<Rightarrow> 'a reader \<Rightarrow> 'a reader" where
  "read_since revision first absent p s = (if revision \<ge> first then p s else Inr (absent, s))"

definition expect :: "byte list \<Rightarrow> unit reader" where
  "expect bs s = (if take (length bs) s = bs then Inr ((), drop (length bs) s) else Inl Protocol)"

definition read_be :: "nat \<Rightarrow> 'a::len word reader" where
  "read_be n s = rbind (read_exact Io n s) (\<lambda>(bs, s). Inr (word_of_nat (le_nat (rev bs)), s))"

lemma expect_append [simp]: "expect bs (bs @ s) = Inr ((), s)"
  by (simp add: expect_def)

lemma expect_Cons [simp]: "expect [b] (b # s) = Inr ((), s)"
  by (simp add: expect_def)

lemma read_since_append:
  "(\<And>r. p (bs @ r) = Inr (x, r)) \<Longrightarrow>
     read_since revision first absent p (since revision first bs @ s)
       = Inr (if revision \<ge> first then x else absent, s)"
  by (simp add: read_since_def since_def)

lemma read_be_put_be:
  assumes "LENGTH('a::len) = 8 * n"
  shows "read_be n (put_be n (w :: 'a word) @ r) = Inr (w, r)"
proof -
  have "(256 :: nat) ^ n = 2 ^ LENGTH('a)" by (simp add: assms power_mult)
  then have "unat w mod 256 ^ n = unat w" by (simp add: mod_less unsigned_less)
  then show ?thesis by (simp add: read_be_def put_be_def put_le_def le_nat_le_bytes)
qed

definition telemetry_read :: "open_telemetry option reader" where
  "telemetry_read s =
     rbind (read_u8 Io s) (\<lambda>(present, s).
       if present = 0 then Inr (None, s)
       else rbind (read_be 16 s) (\<lambda>(t, s). rbind (read_be 8 s) (\<lambda>(sp, s).
            rbind (read_utf8_string s) (\<lambda>(ts, s). rbind (read_u8 Io s) (\<lambda>(fl, s).
              Inr (Some \<lparr>trace_id = t, span_id = sp, tracestate = ts, trace_flags = fl\<rparr>, s))))))"

definition query_kind_from :: "byte \<Rightarrow> query_kind res" where
  "query_kind_from b =
     (if b = 0 then Inr NoQuery else if b = 1 then Inr InitialQuery
      else if b = 2 then Inr SecondaryQuery else Inl Protocol)"

text \<open>The fields that a revision carries; the others as the reader fills them in.\<close>

definition blank_info :: client_info where
  "blank_info =
     \<lparr>kind = NoQuery, initial_user = [], initial_query_id = [], initial_address = [],
      os_user = [], client_hostname = [], client_name = [], client_version_major = 0,
      client_version_minor = 0, client_tcp_protocol_version = 0, query_start_time = 0,
      quota_key = [], distributed_depth = 0, client_version_patch = 0, telemetry = None\<rparr>"

definition visible_info :: "nat \<Rightarrow> client_info \<Rightarrow> client_info" where
  "visible_info revision i =
     (if kind i = NoQuery then blank_info
      else i\<lparr>query_start_time := (if revision \<ge> REV_QUERY_START_TIME then query_start_time i else 0),
             quota_key := (if revision \<ge> REV_QUOTA_KEY_IN_CLIENT_INFO then quota_key i else []),
             distributed_depth := (if revision \<ge> REV_DISTRIBUTED_DEPTH then distributed_depth i else 0),
             client_version_patch := (if revision \<ge> REV_VERSION_PATCH then client_version_patch i else 0),
             telemetry := (if revision \<ge> REV_OPENTELEMETRY then telemetry i else None)\<rparr>)"

text \<open>The optional tails the client always sends empty.\<close>

definition client_info_tail :: "nat \<Rightarrow> unit reader" where
  "client_info_tail revision s =
     rbind (read_since revision REV_PARALLEL_REPLICAS [] (read_n 3 read_var_uint) s) (\<lambda>(_, s).
     rbind (read_since revision REV_QUERY_AND_LINE_NUMBERS [] (read_n 2 read_var_uint) s) (\<lambda>(_, s).
     rbind (read_since revision REV_JWT 0 (read_u8 Io) s) (\<lambda>(jwt, s).
       if jwt = 0 then Inr ((), s) else Inl Protocol)))"

definition client_info_read :: "nat \<Rightarrow> client_info reader" where
  "client_info_read revision s =
     rbind (read_u8 Io s) (\<lambda>(b, s). rbind (query_kind_from b) (\<lambda>k.
       if k = NoQuery then Inr (blank_info, s)
       else
         rbind (read_utf8_string s) (\<lambda>(user, s). rbind (read_utf8_string s) (\<lambda>(qid, s).
         rbind (read_utf8_string s) (\<lambda>(addr, s).
         rbind (read_since revision REV_QUERY_START_TIME 0 (read_u64 Io) s) (\<lambda>(time, s).
         rbind (expect [1] s) (\<lambda>(_, s).
         rbind (read_utf8_string s) (\<lambda>(os, s). rbind (read_utf8_string s) (\<lambda>(host, s).
         rbind (read_utf8_string s) (\<lambda>(name, s).
         rbind (read_var_uint s) (\<lambda>(major, s). rbind (read_var_uint s) (\<lambda>(minor, s).
         rbind (read_var_uint s) (\<lambda>(protocol, s).
         rbind (read_since revision REV_QUOTA_KEY_IN_CLIENT_INFO [] read_utf8_string s) (\<lambda>(quota, s).
         rbind (read_since revision REV_DISTRIBUTED_DEPTH 0 read_var_uint s) (\<lambda>(depth, s).
         rbind (read_since revision REV_VERSION_PATCH 0 read_var_uint s) (\<lambda>(patch, s).
         rbind (read_since revision REV_OPENTELEMETRY None telemetry_read s) (\<lambda>(tel, s).
         rbind (client_info_tail revision s) (\<lambda>(_, s).
           Inr (\<lparr>kind = k, initial_user = user, initial_query_id = qid, initial_address = addr,
                 os_user = os, client_hostname = host, client_name = name,
                 client_version_major = major, client_version_minor = minor,
                 client_tcp_protocol_version = protocol, query_start_time = time,
                 quota_key = quota, distributed_depth = depth, client_version_patch = patch,
                 telemetry = tel\<rparr>, s)))))))))))))))))))"

definition info_ok :: "client_info \<Rightarrow> bool" where
  "info_ok i \<longleftrightarrow>
     wire_str (initial_user i) \<and> wire_str (initial_query_id i) \<and> wire_str (initial_address i)
     \<and> wire_str (os_user i) \<and> wire_str (client_hostname i) \<and> wire_str (client_name i)
     \<and> client_version_major i < 2 ^ 63 \<and> client_version_minor i < 2 ^ 63
     \<and> client_tcp_protocol_version i < 2 ^ 63 \<and> wire_str (quota_key i)
     \<and> distributed_depth i < 2 ^ 63 \<and> client_version_patch i < 2 ^ 63
     \<and> (case telemetry i of None \<Rightarrow> True | Some t \<Rightarrow> wire_str (tracestate t))"

lemma telemetry_read_write:
  "(case t of None \<Rightarrow> True | Some t \<Rightarrow> wire_str (tracestate t)) \<Longrightarrow>
     telemetry_read (telemetry_write t @ r) = Inr (t, r)"
  by (cases t) (simp_all add: telemetry_read_def telemetry_write_def read_be_put_be utf8_string.dec_enc)

lemma client_info_tail_read:
  "client_info_tail revision
     (since revision REV_PARALLEL_REPLICAS (write_var_uint 0 @ write_var_uint 0 @ write_var_uint 0)
      @ since revision REV_QUERY_AND_LINE_NUMBERS (write_var_uint 0 @ write_var_uint 0)
      @ since revision REV_JWT [0] @ r) = Inr ((), r)"
  by (simp add: client_info_tail_def read_since_append var_uint.dec_enc numeral_3_eq_3 numeral_2_eq_2)

lemma query_kind_from_num [simp]: "query_kind_from (query_kind_num k) = Inr k"
  by (cases k) (simp_all add: query_kind_from_def query_kind_num_def)

lemma client_info_read_write:
  assumes "info_ok i"
  shows "client_info_read revision (client_info_write revision i @ r) = Inr (visible_info revision i, r)"
proof (cases "kind i = NoQuery")
  case True
  then show ?thesis
    by (simp add: client_info_read_def client_info_write_def query_kind_num_def query_kind_from_def
        visible_info_def)
next
  case False
  then show ?thesis
    using assms
    by (simp add: client_info_read_def client_info_write_def info_ok_def visible_info_def
        utf8_string.dec_enc var_uint.dec_enc read_since_append telemetry_read_write client_info_tail_read)
qed

subsection \<open>A query\<close>

record received =
  received_id :: string
  received_info :: client_info
  received_settings :: settings
  received_stage :: query_processing_stage
  received_compression :: bool
  received_text :: string
  received_params :: settings

definition stage_from :: "u64 \<Rightarrow> query_processing_stage res" where
  "stage_from n =
     (if n = 0 then Inr FetchColumns else if n = 1 then Inr WithMergeableState
      else if n = 2 then Inr Complete else if n = 3 then Inr WithMergableStateAfterAggregation
      else Inl Protocol)"

lemma stage_from_num [simp]: "stage_from (stage_num s) = Inr s"
  by (cases s) (simp_all add: stage_from_def stage_num_def)

lemma read_enum_num [simp]:
  "read_var_uint (write_var_uint (stage_num s) @ r) = Inr (stage_num s, r)"
  "read_var_uint (write_var_uint (client_packet_num p) @ r) = Inr (client_packet_num p, r)"
  by (rule var_uint.dec_enc; cases s; simp add: stage_num_def)
    (rule var_uint.dec_enc; cases p; simp add: client_packet_num_def)

text \<open>Settings before they became strings: a key and a number each, up to the empty key.
  \<open>settings_read\<close> is the format of the revision.\<close>

function numbers_read :: "settings reader" where
  "numbers_read s =
     rbind (read_string s) (\<lambda>(k, s).
       if k = [] then Inr ([], s)
       else rbind (read_var_uint s) (\<lambda>(n, s).
         rbind (numbers_read s) (\<lambda>(xs, s). Inr (plain_setting (lossy k) (SInt n) # xs, s))))"
  by pat_completeness auto
termination
  by (relation "measure length") (auto dest!: read_string_length read_var_uint_length)

declare numbers_read.simps [simp del]

definition settings_read :: "float_text \<Rightarrow> nat \<Rightarrow> settings reader" where
  "settings_read ft revision =
     (if revision \<le> REV_SETTINGS_AS_STRINGS then numbers_read else settings_decode ft)"

definition request_read :: "float_text \<Rightarrow> nat \<Rightarrow> received reader" where
  "request_read ft revision s =
     rbind (read_var_uint s) (\<lambda>(packet, s).
     if packet \<noteq> client_packet_num CQuery then Inl Protocol
     else rbind (read_utf8_string s) (\<lambda>(qid, s).
     rbind (read_since revision REV_CLIENT_INFO blank_info (client_info_read revision) s) (\<lambda>(i, s).
     rbind (settings_read ft revision s) (\<lambda>(ss, s).
     rbind (read_since revision REV_GRANTED_ROLES [] read_utf8_string s) (\<lambda>(_, s).
     rbind (read_since revision REV_INTERSERVER_SECRET [] read_utf8_string s) (\<lambda>(_, s).
     rbind (read_var_uint s) (\<lambda>(stage, s). rbind (stage_from stage) (\<lambda>stage.
     rbind (read_u8 Io s) (\<lambda>(compression, s).
     rbind (read_utf8_string s) (\<lambda>(query, s).
     rbind (read_since revision REV_PARAMETERS [] (settings_decode ft) s) (\<lambda>(params, s).
       Inr (\<lparr>received_id = qid, received_info = i, received_settings = ss, received_stage = stage,
             received_compression = (compression \<noteq> 0), received_text = query,
             received_params = params\<rparr>, s))))))))))))"

text \<open>The settings a query sends: those the server does not have with the same value.\<close>

definition sent_settings :: "settings option \<Rightarrow> settings option \<Rightarrow> settings" where
  "sent_settings server_settings settings =
     (case settings of
        None \<Rightarrow> []
      | Some ss \<Rightarrow>
          (case server_settings of
             None \<Rightarrow> ss
           | Some ignore \<Rightarrow>
               filter (\<lambda>s. case settings_get ignore (key s) of
                 None \<Rightarrow> True | Some i \<Rightarrow> \<not> setting_value_eq (svalue i) (svalue s)) ss))"

text \<open>The settings a revision can carry, and what the other side makes of them: numbers and
  booleans as numbers in the older format; texts, parsed again, in the newer one.\<close>

definition setting_number :: "setting_value \<Rightarrow> u64 option" where
  "setting_number v =
     (case v of SInt i \<Rightarrow> Some i | SBool b \<Rightarrow> Some (if b then 1 else 0) | _ \<Rightarrow> None)"

definition setting_sendable :: "float_text \<Rightarrow> nat \<Rightarrow> setting \<Rightarrow> bool" where
  "setting_sendable ft revision s =
     (if revision \<le> REV_SETTINGS_AS_STRINGS
      then key s \<noteq> [] \<and> wire_str (key s)
        \<and> (case setting_number (svalue s) of None \<Rightarrow> False | Some n \<Rightarrow> n < 2 ^ 63)
      else setting_ok ft s)"

definition setting_received :: "float_text \<Rightarrow> nat \<Rightarrow> setting \<Rightarrow> setting" where
  "setting_received ft revision s =
     (if revision \<le> REV_SETTINGS_AS_STRINGS
      then (case setting_number (svalue s) of
              None \<Rightarrow> s | Some n \<Rightarrow> plain_setting (key s) (SInt n))
      else setting_read_back ft s)"

definition received_of ::
  "float_text \<Rightarrow> compression_method \<Rightarrow> nat \<Rightarrow> settings option \<Rightarrow> request \<Rightarrow> received" where
  "received_of ft compression revision server_settings q =
     \<lparr>received_id = qid_text (request_id q),
      received_info = (if revision \<ge> REV_CLIENT_INFO then visible_info revision (request_info q)
                       else blank_info),
      received_settings = map (setting_received ft revision)
        (compression_settings compression @ sent_settings server_settings (request_settings q)),
      received_stage = request_stage q, received_compression = (compression \<noteq> NoCompression),
      received_text = request_text q, received_params = []\<rparr>"

lemma request_settings_write_eq:
  "request_settings_write ft revision server_settings settings
     = settings_encode ft revision (sent_settings server_settings settings)"
  by (simp add: request_settings_write_def sent_settings_def encode_with_ignore_eq settings_encode_def
      split: option.split)

lemma ascii_wire: "ascii_str s \<Longrightarrow> length s \<le> 1000 \<Longrightarrow> wire_str s"
  by (simp add: wire_str_def ascii_str_utf8 MAX_STRING_SIZE_def)

lemma compression_setting_sendable:
  "revision > REV_SETTINGS_AS_STRINGS \<or> c \<noteq> ZSTD \<Longrightarrow>
     list_all (setting_sendable ft revision) (compression_settings c)"
  by (cases c) (auto simp: compression_settings_def settings_from_def plain_setting_def setting_sendable_def
      setting_ok_def setting_text_def setting_value_text_def ascii_wire)

lemma numbers_read_end: "numbers_read (write_string [] @ r) = Inr ([], r)"
  using read_string_str [of "[]" r] by (simp add: numbers_read.simps wire_str_def utf8_str_def)

lemma number_written:
  assumes "revision \<le> REV_SETTINGS_AS_STRINGS" and "setting_sendable ft revision s"
  shows "\<exists>bs. setting_encode ft revision s = Inr bs
    \<and> (\<forall>r. numbers_read (bs @ r)
         = rmap (\<lambda>(xs, r). (setting_received ft revision s # xs, r)) (numbers_read r))"
proof -
  have k: "key s \<noteq> []" "wire_str (key s)" using assms by (simp_all add: setting_sendable_def)
  obtain n where n: "setting_number (svalue s) = Some n" "n < 2 ^ 63"
    using assms by (auto simp: setting_sendable_def split: option.splits)
  let ?bs = "write_string (str_bytes (key s)) @ write_var_uint n"
  have "str_bytes (key s) \<noteq> []" using k(1) by (cases "key s") simp_all
  then have "numbers_read (?bs @ r)
      = rmap (\<lambda>(xs, r). (setting_received ft revision s # xs, r)) (numbers_read r)" for r
    using k n assms(1)
    by (simp add: numbers_read.simps [of "write_string _ @ _"] read_string_str var_uint.dec_enc
        wire_str_def setting_received_def rmap_def rbind_def split: sum.split)
  moreover have "setting_encode ft revision s = Inr ?bs"
    using n(1) assms(1) by (auto simp: setting_encode_def setting_number_def split: setting_value.splits)
  ultimately show ?thesis by blast
qed

lemma numbers_written:
  assumes "revision \<le> REV_SETTINGS_AS_STRINGS"
  shows "list_all (setting_sendable ft revision) ss \<Longrightarrow> \<exists>bs. settings_encode ft revision ss = Inr bs
    \<and> (\<forall>r. numbers_read (bs @ write_string [] @ r) = Inr (map (setting_received ft revision) ss, r))"
proof (induction ss)
  case Nil
  then show ?case by (simp add: settings_encode_def numbers_read_end)
next
  case (Cons s ss)
  then obtain bs where bs: "settings_encode ft revision ss = Inr bs"
    "\<And>r. numbers_read (bs @ write_string [] @ r) = Inr (map (setting_received ft revision) ss, r)"
    by auto
  obtain b where b: "setting_encode ft revision s = Inr b"
    "\<And>r. numbers_read (b @ r)
       = rmap (\<lambda>(xs, r). (setting_received ft revision s # xs, r)) (numbers_read r)"
    using number_written [OF assms] Cons.prems by fastforce
  have "numbers_read ((b @ bs) @ write_string [] @ r)
      = Inr (map (setting_received ft revision) (s # ss), r)" for r
    using b(2) [of "bs @ write_string [] @ r"] bs(2) by (simp add: rmap_def)
  then show ?case
    using b(1) bs(1) by (auto simp: settings_encode_def rmap_Inr_iff rbind_Inr_iff
        intro!: exI [of _ "b @ bs"])
qed

text \<open>Settings in the format of any revision.\<close>

lemma settings_sent:
  assumes "list_all (setting_sendable ft revision) ss"
  shows "\<exists>bs. settings_encode ft revision ss = Inr bs
    \<and> (\<forall>r. settings_read ft revision (bs @ write_string [] @ r)
         = Inr (map (setting_received ft revision) ss, r))"
proof (cases "revision \<le> REV_SETTINGS_AS_STRINGS")
  case True
  then show ?thesis using numbers_written [OF True assms] by (simp add: settings_read_def)
next
  case False
  then have "setting_received ft revision = setting_read_back ft" "list_all (setting_ok ft) ss"
    using assms by (auto simp: setting_received_def setting_sendable_def list_all_iff)
  then show ?thesis
    using False settings_written [of revision ft ss] by (simp add: settings_read_def)
qed

lemma hex_digit_ascii: "d < 16 \<Longrightarrow> (of_char (hex_digit d) :: nat) < 128"
  by (simp add: hex_digit_def)

lemma qid_text_wire: "wire_str (qid_text q)"
proof (rule ascii_wire)
  have "unat (w AND 0xF :: u128) < 16" for w
    using word_and_le1 [of w 15] by (simp add: word_le_nat_alt)
  then show "ascii_str (qid_text q)"
    by (auto simp: ascii_str_def qid_text_def list_all_iff hex_digit_ascii)
  show "length (qid_text q) \<le> 1000" by (simp add: qid_text_def)
qed

lemma settings_decode_end: "settings_decode ft (write_string [] @ r) = Inr ([], r)"
  using read_string_str [of "[]" r] by (simp add: settings_decode.simps wire_str_def utf8_str_def)


definition sample_request :: request where
  "sample_request =
     \<lparr>request_id = 7, request_info = default_client_info 0, request_settings = Some [plain_setting ''a'' (SBool True)],
      request_stage = Complete, request_text = ''SELECT 1'', request_params = None\<rparr>"

lemma default_info_ok: "info_ok (default_client_info now)"
  by (simp add: info_ok_def default_client_info_def ascii_wire VERSION_MAJOR_def VERSION_MINOR_def
      VERSION_PATCH_def revisions)


text \<open>A query with parameters is never sent: at a revision with parameters, sending a
  request that has any, be they none, does not return, whatever the settings (unless these
  fail to encode before).\<close>

theorem query_with_parameters_hangs:
  assumes "revision \<ge> REV_PARAMETERS" and "request_params q = Some params"
    and "is_ok (send_query_head ft compression revision server_settings q)"
  shows "send_query ft compression revision server_settings q = None"
  using assms by (auto simp: send_query_def is_ok_iff from_iter_diverges)

theorem query_with_parameters_hangs_witness:
  "send_query no_float_text LZ4 54479 None (sample_request\<lparr>request_params := Some [(''x'', SInt 1)]\<rparr>) = None"
  by (rule query_with_parameters_hangs [where params = "[(''x'', SInt 1)]"])
    (simp_all add: revisions send_query_head_def compression_settings_def settings_encode_def
      request_settings_write_def sample_request_def setting_encode_def plain_setting_def)

end
