(* ===== verification/Responses.thy ===== *)
theory Responses
  imports Requests
begin

text \<open>
  What the client receives (client/reader.rs): the server hello with the negotiation of the
  chunked mode, the header of a query and every packet after it. The data format is the
  native one. Log records and profile events are read as the block they come in
  (\<open>LogData::from_block\<close> and \<open>ProfileEvent::from_block\<close> are not part of this theory).
\<close>

section \<open>The records\<close>

record server_hello =
  server_name :: string
  version :: "u64 \<times> u64 \<times> u64"
  revision_version :: u64
  timezone :: "string option"
  display_name :: "string option"
  hello_settings :: "settings option"
  chunked_send :: chunked_mode
  chunked_recv :: chunked_mode

record server_exception =
  code :: u32
  exception_name :: string
  message :: string
  stack_trace :: string
  has_nested :: bool

record progress =
  read_rows :: u64
  read_bytes :: u64
  total_rows_to_read :: u64
  total_bytes_to_read :: "u64 option"
  written_rows :: "u64 option"
  written_bytes :: "u64 option"
  elapsed_ns :: "u64 option"

record profile_info =
  profile_rows :: u64
  profile_blocks :: u64
  profile_bytes :: u64
  applied_limit :: bool
  rows_before_limit :: u64
  calculated_rows_before_limit :: bool
  applied_aggregation :: bool
  rows_before_aggregation :: u64

record table_columns =
  columns_name :: string
  columns_description :: string

record table_status =
  is_replicated :: bool
  absolute_delay :: u32

type_synonym tables_status = "string \<rightharpoonup> (string \<rightharpoonup> table_status)"

datatype server_packet =
    SHeader block
  | SData block
  | STotals block
  | SExtremes block
  | SProfileEvents "block option"
  | SLog "block option"
  | SException server_exception
  | SProgress progress
  | SPong
  | SEndOfStream
  | SProfileInfo profile_info
  | STablesStatusResponse tables_status
  | STableColumns table_columns
  | SPartUUIDs "u128 list"
  | SReadTaskRequest "string option"
  | SMergeTreeAllRangesAnnouncement
  | SMergeTreeReadTaskRequest
  | STimezoneUpdate
  | SSSHChallenge
  | SIgnore server_packet_id

section \<open>The readers of the packets\<close>

text \<open>\<open>revision\<close> is the negotiated revision; a field is read from the revision that has it.\<close>

definition read_if :: "bool \<Rightarrow> 'a \<Rightarrow> 'a reader \<Rightarrow> 'a reader" where
  "read_if c absent p s = (if c then p s else Inr (absent, s))"

definition read_lossy :: "string reader" where
  "read_lossy s = rbind (read_string s) (\<lambda>(bs, s). Inr (lossy bs, s))"

definition read_flag :: "bool reader" where
  "read_flag s = rbind (read_u8 Io s) (\<lambda>(b, s). Inr (b \<noteq> 0, s))"

definition read_pair :: "'a reader \<Rightarrow> 'b reader \<Rightarrow> ('a \<times> 'b) reader" where
  "read_pair p q s = rbind (p s) (\<lambda>(x, s). rbind (q s) (\<lambda>(y, s). Inr ((x, y), s)))"

definition read_exception :: "server_exception reader" where
  "read_exception s =
     rbind (read_u32 Io s) (\<lambda>(c, s).
     rbind (read_utf8_string s) (\<lambda>(name, s).
     rbind (read_lossy s) (\<lambda>(msg, s).
     rbind (read_utf8_string s) (\<lambda>(trace, s).
     rbind (read_flag s) (\<lambda>(nested, s).
       Inr (\<lparr>code = c, exception_name = name, message = msg, stack_trace = trace,
             has_nested = nested\<rparr>, s))))))"

definition or_default_mode :: "string \<Rightarrow> chunked_mode" where
  "or_default_mode s = (case mode_from_str s of Inr m \<Rightarrow> m | Inl _ \<Rightarrow> ChunkedOptional)"

text \<open>The two modes of the server, and what they become against those of the client.\<close>

definition read_modes :: "bool \<Rightarrow> chunked_mode \<times> chunked_mode \<Rightarrow> (chunked_mode \<times> chunked_mode) reader" where
  "read_modes c client_modes s =
     (if c then
        rbind (read_lossy s) (\<lambda>(srv_send, s). rbind (read_lossy s) (\<lambda>(srv_recv, s).
        rbind (negotiate (or_default_mode srv_send) (fst client_modes)) (\<lambda>send_mode.
        rbind (negotiate (or_default_mode srv_recv) (snd client_modes)) (\<lambda>recv_mode.
          Inr ((send_mode, recv_mode), s)))))
      else Inr ((ChunkedOptional, ChunkedOptional), s))"

text \<open>\<open>for _ in 0..rules_size\<close>: two strings a turn.\<close>

definition read_rules :: "(string \<times> string) list reader" where
  "read_rules s =
     rbind (read_var_uint s) (\<lambda>(n, s). read_n (unat n) (read_pair read_utf8_string read_utf8_string) s)"

definition read_hello ::
  "float_text \<Rightarrow> u64 \<Rightarrow> chunked_mode \<times> chunked_mode \<Rightarrow> server_hello reader" where
  "read_hello ft client_revision client_modes s =
     rbind (read_utf8_string s) (\<lambda>(name, s).
     rbind (read_var_uint s) (\<lambda>(major, s).
     rbind (read_var_uint s) (\<lambda>(minor, s).
     rbind (read_var_uint s) (\<lambda>(server_revision, s).
       let revision = min server_revision client_revision; n = unat revision in
     rbind (read_if (n \<ge> REV_VERSIONED_REPLICAS) 0 read_var_uint s) (\<lambda>(_, s).
     rbind (read_if (n \<ge> REV_SERVER_TIMEZONE) None (read_as Some read_utf8_string) s) (\<lambda>(tz, s).
     rbind (read_if (n \<ge> REV_SERVER_DISPLAY_NAME) None (read_as Some read_utf8_string) s) (\<lambda>(dname, s).
     rbind (read_if (n \<ge> REV_VERSION_PATCH) revision read_var_uint s) (\<lambda>(patch, s).
     rbind (read_modes (n \<ge> REV_CHUNKED_PACKETS) client_modes s) (\<lambda>((send_mode, recv_mode), s).
     rbind (read_if (n \<ge> REV_PASSWORD_RULES) [] read_rules s) (\<lambda>(_, s).
     rbind (read_if (n \<ge> REV_INTERSERVER_SECRET_V2) 0 (read_u64 Io) s) (\<lambda>(_, s).
     rbind (read_if (n \<ge> REV_SERVER_SETTINGS) None (read_as Some (settings_decode ft)) s) (\<lambda>(ss, s).
     rbind (read_if (n \<ge> REV_QUERY_PLAN) 0 read_var_uint s) (\<lambda>(_, s).
     rbind (read_if (n \<ge> REV_CLUSTER_FUNCTION) 0 read_var_uint s) (\<lambda>(_, s).
       Inr (\<lparr>server_name = name, version = (major, minor, patch), revision_version = revision,
             timezone = tz, display_name = dname, hello_settings = ss,
             chunked_send = send_mode, chunked_recv = recv_mode\<rparr>, s)))))))))))))))"

definition supports_chunked_send :: "server_hello \<Rightarrow> bool" where
  "supports_chunked_send h \<longleftrightarrow> is_chunked (chunked_send h)"

definition supports_chunked_recv :: "server_hello \<Rightarrow> bool" where
  "supports_chunked_recv h \<longleftrightarrow> is_chunked (chunked_recv h)"

definition read_progress :: "nat \<Rightarrow> progress reader" where
  "read_progress revision s =
     rbind (read_var_uint s) (\<lambda>(rd_rows, s).
     rbind (read_var_uint s) (\<lambda>(rd_bytes, s).
     rbind (read_if (revision \<ge> REV_SERVER_LOGS) 0 read_var_uint s) (\<lambda>(tot_rows, s).
     rbind (read_if (revision \<ge> REV_TOTAL_BYTES) None (read_as Some read_var_uint) s) (\<lambda>(tot_bytes, s).
     rbind (read_if (revision \<ge> REV_CLIENT_WRITE_INFO) None
              (read_as Some (read_pair read_var_uint read_var_uint)) s) (\<lambda>(written, s).
     rbind (read_if (revision \<ge> REV_SERVER_QUERY_TIME) None (read_as Some read_var_uint) s) (\<lambda>(ns, s).
       Inr (\<lparr>read_rows = rd_rows, read_bytes = rd_bytes, total_rows_to_read = tot_rows,
             total_bytes_to_read = tot_bytes, written_rows = map_option fst written,
             written_bytes = map_option snd written, elapsed_ns = ns\<rparr>, s)))))))"

definition read_profile_info :: "nat \<Rightarrow> profile_info reader" where
  "read_profile_info revision s =
     rbind (read_var_uint s) (\<lambda>(rs, s).
     rbind (read_var_uint s) (\<lambda>(bks, s).
     rbind (read_var_uint s) (\<lambda>(bytes, s).
     rbind (read_flag s) (\<lambda>(al, s).
     rbind (read_var_uint s) (\<lambda>(rbl, s).
     rbind (read_flag s) (\<lambda>(crbl, s).
     rbind (read_if (revision \<ge> REV_ROWS_BEFORE_AGGREGATION) (False, 0)
              (read_pair read_flag read_var_uint) s) (\<lambda>((aa, rba), s).
       Inr (\<lparr>profile_rows = rs, profile_blocks = bks, profile_bytes = bytes, applied_limit = al,
             rows_before_limit = rbl, calculated_rows_before_limit = crbl,
             applied_aggregation = aa, rows_before_aggregation = rba\<rparr>, s))))))))"

definition read_table_columns :: "table_columns reader" where
  "read_table_columns s =
     rbind (read_utf8_string s) (\<lambda>(name, s). rbind (read_utf8_string s) (\<lambda>(descr, s).
       Inr (\<lparr>columns_name = name, columns_description = descr\<rparr>, s)))"

text \<open>\<open>entry(database).or_default().insert(table, status)\<close>.\<close>

definition insert_status ::
  "tables_status \<Rightarrow> string \<Rightarrow> string \<Rightarrow> table_status \<Rightarrow> tables_status" where
  "insert_status m database table st =
     m(database \<mapsto> ((case m database of None \<Rightarrow> Map.empty | Some ts \<Rightarrow> ts)(table \<mapsto> st)))"

definition read_status :: "(string \<times> string \<times> table_status) reader" where
  "read_status s =
     rbind (read_utf8_string s) (\<lambda>(database, s).
     rbind (read_utf8_string s) (\<lambda>(table, s).
     rbind (read_flag s) (\<lambda>(replicated, s).
     rbind (read_if replicated 0 (read_as ucast read_var_uint) s) (\<lambda>(delay, s).
       Inr ((database, table, \<lparr>is_replicated = replicated, absolute_delay = delay\<rparr>), s)))))"

definition read_table_status_response :: "tables_status reader" where
  "read_table_status_response s =
     rbind (read_var_uint s) (\<lambda>(n, s).
       if unat n > MAX_STRING_SIZE then Inl Protocol
       else rbind (read_n (unat n) read_status s) (\<lambda>(sts, s).
         Inr (foldl (\<lambda>m (database, table, st). insert_status m database table st) Map.empty sts, s)))"

text \<open>
  An error of \<open>read_utf8_string\<close> is dropped and the stream goes on where the failed read
  left it: after the length and the bytes when these are not UTF-8, and at the end of the
  input otherwise. A length over the limit leaves the stream after the length.
\<close>

definition after_failed_string :: "byte list \<Rightarrow> byte list" where
  "after_failed_string s =
     (case read_var_uint s of
        Inl _ \<Rightarrow> []
      | Inr (n, r) \<Rightarrow> if unat n > MAX_STRING_SIZE then r else drop (unat n) r)"

definition read_task_request :: "string option reader" where
  "read_task_request s =
     (case read_utf8_string s of
        Inr (x, r) \<Rightarrow> Inr (Some x, r)
      | Inl _ \<Rightarrow> Inr (None, after_failed_string s))"

definition read_part_uuids :: "u128 list reader" where
  "read_part_uuids s =
     rbind (read_var_uint s) (\<lambda>(n, s).
       if unat n > MAX_STRING_SIZE then Inl Protocol else read_n (unat n) (read_be 16) s)"

record metadata =
  codec_of :: codecs
  tz_of :: "string \<Rightarrow> tz option"
  compression_of :: compression_method

text \<open>\<open>read_data\<close> and \<open>read_block\<close>: the table name, then a block of the format.\<close>

definition read_data :: "metadata \<Rightarrow> nat \<Rightarrow> block option reader" where
  "read_data md revision s =
     rbind (read_string s) (\<lambda>(_, s).
       native_read (codec_of md) (tz_of md) revision (compression_of md) s)"

definition disable_compression :: "metadata \<Rightarrow> metadata" where
  "disable_compression md = md\<lparr>compression_of := NoCompression\<rparr>"

definition read_log_data :: "metadata \<Rightarrow> nat \<Rightarrow> block option reader" where
  "read_log_data md revision s = read_data (disable_compression md) revision s"

definition read_profile_events :: "metadata \<Rightarrow> nat \<Rightarrow> block option reader" where
  "read_profile_events md revision s =
     (if revision < REV_PROFILE_EVENTS_IN_INSERT then Inl Protocol
      else read_data (disable_compression md) revision s)"

section \<open>Packets\<close>

definition read_packet_id :: "server_packet_id reader" where
  "read_packet_id s =
     rbind (read_var_uint s) (\<lambda>(n, s). rbind (server_packet_from_u64 n) (\<lambda>p. Inr (p, s)))"

definition receive_hello ::
  "float_text \<Rightarrow> u64 \<Rightarrow> chunked_mode \<times> chunked_mode \<Rightarrow> server_hello reader" where
  "receive_hello ft client_revision client_modes s =
     rbind (read_packet_id s) (\<lambda>(p, s).
       case p of
         PHello \<Rightarrow> read_hello ft client_revision client_modes s
       | PException \<Rightarrow> rbind (read_exception s) (\<lambda>_. Inl ServerExceptionErr)
       | _ \<Rightarrow> Inl Protocol)"

definition receive_header :: "metadata \<Rightarrow> nat \<Rightarrow> server_packet reader" where
  "receive_header md revision s =
     rbind (read_packet_id s) (\<lambda>(p, s).
       case p of
         PData \<Rightarrow> rbind (read_data md revision s) (\<lambda>(b, s).
           case b of None \<Rightarrow> Inl Protocol | Some b \<Rightarrow> Inr (SHeader b, s))
       | PProgress \<Rightarrow> read_as SProgress (read_progress revision) s
       | PTableColumns \<Rightarrow> read_as STableColumns read_table_columns s
       | PEndOfStream \<Rightarrow> Inr (SEndOfStream, s)
       | PException \<Rightarrow> read_as SException read_exception s
       | _ \<Rightarrow> Inl Protocol)"

definition or_ignore ::
  "server_packet_id \<Rightarrow> (block \<Rightarrow> server_packet) \<Rightarrow> block option \<Rightarrow> server_packet" where
  "or_ignore p f b = (case b of None \<Rightarrow> SIgnore p | Some b \<Rightarrow> f b)"

definition receive_packet :: "metadata \<Rightarrow> nat \<Rightarrow> server_packet reader" where
  "receive_packet md revision s =
     rbind (read_packet_id s) (\<lambda>(p, s).
       case p of
         PPong \<Rightarrow> Inr (SPong, s)
       | PData \<Rightarrow> read_as (or_ignore PData SData) (read_data md revision) s
       | PException \<Rightarrow> read_as SException read_exception s
       | PProgress \<Rightarrow> read_as SProgress (read_progress revision) s
       | PEndOfStream \<Rightarrow> Inr (SEndOfStream, s)
       | PProfileInfo \<Rightarrow> read_as SProfileInfo (read_profile_info revision) s
       | PTotals \<Rightarrow> read_as (or_ignore PTotals STotals) (read_data md revision) s
       | PExtremes \<Rightarrow> read_as (or_ignore PExtremes SExtremes) (read_data md revision) s
       | PTablesStatusResponse \<Rightarrow> read_as STablesStatusResponse read_table_status_response s
       | PLog \<Rightarrow> read_as SLog (read_log_data md revision) s
       | PTableColumns \<Rightarrow> read_as STableColumns read_table_columns s
       | PPartUUIDs \<Rightarrow> read_as SPartUUIDs read_part_uuids s
       | PReadTaskRequest \<Rightarrow> read_as SReadTaskRequest read_task_request s
       | PProfileEvents \<Rightarrow> read_as SProfileEvents (read_profile_events md revision) s
       | PMergeTreeAllRangesAnnouncement \<Rightarrow> Inr (SMergeTreeAllRangesAnnouncement, s)
       | PMergeTreeReadTaskRequest \<Rightarrow> Inr (SMergeTreeReadTaskRequest, s)
       | PTimezoneUpdate \<Rightarrow> Inr (STimezoneUpdate, s)
       | PSSHChallenge \<Rightarrow> Inr (SSSHChallenge, s)
       | PHello \<Rightarrow> Inl Protocol)"

section \<open>The sending side\<close>

text \<open>
  The packets as a server of the negotiated revision writes them, field by field: the
  grammar the readers are checked against. It is not code of the crate.
\<close>

definition read_if_bytes :: "bool \<Rightarrow> byte list \<Rightarrow> byte list" where
  "read_if_bytes c bs = (if c then bs else [])"

lemma read_if_append:
  "(\<And>r. p (bs @ r) = Inr (x, r)) \<Longrightarrow>
     read_if c absent p (read_if_bytes c bs @ s) = Inr (if c then x else absent, s)"
  by (simp add: read_if_def read_if_bytes_def)

definition flag_byte :: "bool \<Rightarrow> byte" where
  "flag_byte b = (if b then 1 else 0)"

lemma read_flag_byte [simp]: "read_flag (flag_byte b # r) = Inr (b, r)"
  by (simp add: read_flag_def flag_byte_def)

lemma read_lossy_write: "wire_str s \<Longrightarrow> read_lossy (write_str s @ r) = Inr (s, r)"
  by (simp add: read_lossy_def read_string_str wire_str_def)

lemma read_as_append: "p (bs @ r) = Inr (x, r) \<Longrightarrow> read_as f p (bs @ r) = Inr (f x, r)"
  by (simp add: read_as_def)

lemma read_pair_append:
  "(\<And>r. p (a @ r) = Inr (x, r)) \<Longrightarrow> (\<And>r. q (b @ r) = Inr (y, r)) \<Longrightarrow>
     read_pair p q ((a @ b) @ r) = Inr ((x, y), r)"
  by (simp add: read_pair_def)

subsection \<open>The hello\<close>

record hello_spec =
  spec_name :: string
  spec_major :: u64
  spec_minor :: u64
  spec_revision :: u64
  spec_replicas :: u64
  spec_timezone :: string
  spec_display :: string
  spec_patch :: u64
  spec_send :: chunked_mode
  spec_recv :: chunked_mode
  spec_rules :: "(string \<times> string) list"
  spec_nonce :: u64
  spec_settings :: settings
  spec_plan :: u64
  spec_cluster :: u64

definition rule_bytes :: "string \<times> string \<Rightarrow> byte list" where
  "rule_bytes x = write_str (fst x) @ write_str (snd x)"

text \<open>\<open>n\<close> is the revision both sides have, \<open>settings_bs\<close> the encoded settings.\<close>

definition hello_bytes :: "nat \<Rightarrow> byte list \<Rightarrow> hello_spec \<Rightarrow> byte list" where
  "hello_bytes n settings_bs h =
     write_str (spec_name h) @ write_var_uint (spec_major h) @ write_var_uint (spec_minor h)
     @ write_var_uint (spec_revision h)
     @ read_if_bytes (n \<ge> REV_VERSIONED_REPLICAS) (write_var_uint (spec_replicas h))
     @ read_if_bytes (n \<ge> REV_SERVER_TIMEZONE) (write_str (spec_timezone h))
     @ read_if_bytes (n \<ge> REV_SERVER_DISPLAY_NAME) (write_str (spec_display h))
     @ read_if_bytes (n \<ge> REV_VERSION_PATCH) (write_var_uint (spec_patch h))
     @ read_if_bytes (n \<ge> REV_CHUNKED_PACKETS)
         (write_str (mode_str (spec_send h)) @ write_str (mode_str (spec_recv h)))
     @ read_if_bytes (n \<ge> REV_PASSWORD_RULES)
         (write_var_uint (word_of_nat (length (spec_rules h))) @ concat (map rule_bytes (spec_rules h)))
     @ read_if_bytes (n \<ge> REV_INTERSERVER_SECRET_V2) (put_u64 (spec_nonce h))
     @ read_if_bytes (n \<ge> REV_SERVER_SETTINGS) (settings_bs @ write_string [])
     @ read_if_bytes (n \<ge> REV_QUERY_PLAN) (write_var_uint (spec_plan h))
     @ read_if_bytes (n \<ge> REV_CLUSTER_FUNCTION) (write_var_uint (spec_cluster h))"

definition hello_ok :: "float_text \<Rightarrow> hello_spec \<Rightarrow> bool" where
  "hello_ok ft h \<longleftrightarrow>
     wire_str (spec_name h) \<and> spec_major h < 2 ^ 63 \<and> spec_minor h < 2 ^ 63
     \<and> spec_revision h < 2 ^ 63 \<and> spec_replicas h < 2 ^ 63 \<and> wire_str (spec_timezone h)
     \<and> wire_str (spec_display h) \<and> spec_patch h < 2 ^ 63 \<and> length (spec_rules h) < 2 ^ 63
     \<and> list_all (\<lambda>x. wire_str (fst x) \<and> wire_str (snd x)) (spec_rules h)
     \<and> list_all (setting_ok ft) (spec_settings h)
     \<and> spec_plan h < 2 ^ 63 \<and> spec_cluster h < 2 ^ 63"

text \<open>The hello the client makes of it, from the outcome of the negotiation.\<close>

definition hello_of :: "float_text \<Rightarrow> u64 \<Rightarrow> hello_spec \<Rightarrow> chunked_mode \<Rightarrow> chunked_mode \<Rightarrow> server_hello" where
  "hello_of ft revision h send_mode recv_mode =
     (let n = unat revision in
      \<lparr>server_name = spec_name h,
       version = (spec_major h, spec_minor h, if n \<ge> REV_VERSION_PATCH then spec_patch h else revision),
       revision_version = revision,
       timezone = (if n \<ge> REV_SERVER_TIMEZONE then Some (spec_timezone h) else None),
       display_name = (if n \<ge> REV_SERVER_DISPLAY_NAME then Some (spec_display h) else None),
       hello_settings = (if n \<ge> REV_SERVER_SETTINGS
                         then Some (map (setting_read_back ft) (spec_settings h)) else None),
       chunked_send = send_mode, chunked_recv = recv_mode\<rparr>)"

definition negotiated ::
  "nat \<Rightarrow> hello_spec \<Rightarrow> chunked_mode \<times> chunked_mode \<Rightarrow> (chunked_mode \<times> chunked_mode) res" where
  "negotiated n h client_modes =
     (if n \<ge> REV_CHUNKED_PACKETS then
        rbind (negotiate (spec_send h) (fst client_modes)) (\<lambda>send_mode.
        rbind (negotiate (spec_recv h) (snd client_modes)) (\<lambda>recv_mode. Inr (send_mode, recv_mode)))
      else Inr (ChunkedOptional, ChunkedOptional))"

lemma mode_wire: "wire_str (mode_str m)"
  by (rule ascii_wire) (cases m; simp add: mode_str_def)+

lemma or_default_mode_str [simp]: "or_default_mode (mode_str m) = m"
  by (cases m) (simp_all add: or_default_mode_def mode_from_str_def mode_str_def)

lemma read_modes_written:
  "read_modes (n \<ge> REV_CHUNKED_PACKETS) client_modes
     (read_if_bytes (n \<ge> REV_CHUNKED_PACKETS)
        (write_str (mode_str (spec_send h)) @ write_str (mode_str (spec_recv h))) @ r)
     = rbind (negotiated n h client_modes) (\<lambda>ms. Inr (ms, r))"
  by (simp add: read_modes_def read_if_bytes_def negotiated_def read_lossy_write mode_wire rbind_assoc)

lemma read_rules_written:
  assumes "length rules < 2 ^ 63" and "list_all (\<lambda>x. wire_str (fst x) \<and> wire_str (snd x)) rules"
  shows "read_rules ((write_var_uint (word_of_nat (length rules)) @ concat (map rule_bytes rules)) @ r)
    = Inr (rules, r)"
proof -
  have "unat (word_of_nat (length rules) :: u64) = length rules"
    using assms(1) by (intro unat_of_nat_u64) simp
  moreover have "read_n (length rules) (read_pair read_utf8_string read_utf8_string)
      (concat (map rule_bytes rules) @ r) = Inr (rules, r)"
    using assms(2)
    by (induction rules) (auto simp: rule_bytes_def read_pair_def utf8_string.dec_enc)
  ultimately show ?thesis
    using read_var_uint_small [OF assms(1)] by (simp add: read_rules_def)
qed

lemma read_hello_written:
  assumes ok: "hello_ok ft h" and rev: "revision = min (spec_revision h) client_revision"
    and ss: "\<And>r. settings_decode ft (settings_bs @ write_string [] @ r)
      = Inr (map (setting_read_back ft) (spec_settings h), r)"
  shows "read_hello ft client_revision client_modes (hello_bytes (unat revision) settings_bs h @ r)
    = rbind (negotiated (unat revision) h client_modes) (\<lambda>(send_mode, recv_mode).
        Inr (hello_of ft revision h send_mode recv_mode, r))"
proof -
  have rules: "read_if c [] read_rules (read_if_bytes c
      (write_var_uint (word_of_nat (length (spec_rules h))) @ concat (map rule_bytes (spec_rules h))) @ r)
      = Inr (if c then spec_rules h else [], r)" for c r
    by (rule read_if_append, rule read_rules_written) (use ok in \<open>simp_all add: hello_ok_def\<close>)
  have sets: "read_if c None (read_as Some (settings_decode ft)) (read_if_bytes c (settings_bs @ write_string []) @ r)
      = Inr (if c then Some (map (setting_read_back ft) (spec_settings h)) else None, r)" for c r
    by (rule read_if_append, rule read_as_append) (simp add: ss)
  have num: "v < 2 ^ 63 \<Longrightarrow> read_if c a read_var_uint (read_if_bytes c (write_var_uint v) @ r)
      = Inr (if c then v else a, r)" for c a v r
    by (rule read_if_append, rule var_uint.dec_enc)
  have str: "wire_str v \<Longrightarrow> read_if c None (read_as Some read_utf8_string) (read_if_bytes c (write_str v) @ r)
      = Inr (if c then Some v else None, r)" for c v r
    by (rule read_if_append, rule read_as_append, rule utf8_string.dec_enc)
  have nonce: "read_if c 0 (read_u64 Io) (read_if_bytes c (put_u64 v) @ r) = Inr (if c then v else 0, r)" for c v r
    by (rule read_if_append) simp
  note hs = ok [unfolded hello_ok_def]
  show ?thesis
    unfolding read_hello_def hello_bytes_def append_assoc
    using hs
    by (cases "negotiated (unat revision) h client_modes")
      (simp_all add: utf8_string.dec_enc var_uint.dec_enc Let_def rev [symmetric] num str nonce rules
        sets read_modes_written hello_of_def case_prod_beta)
qed

lemma hello_read:
  assumes "hello_ok ft h" and "settings_encode ft settings_revision (spec_settings h) = Inr settings_bs"
    and "settings_revision > REV_SETTINGS_AS_STRINGS"
  shows "receive_hello ft client_revision client_modes
      (write_var_uint 0 @ hello_bytes (unat (min (spec_revision h) client_revision)) settings_bs h @ r)
    = rbind (negotiated (unat (min (spec_revision h) client_revision)) h client_modes)
        (\<lambda>(send_mode, recv_mode).
           Inr (hello_of ft (min (spec_revision h) client_revision) h send_mode recv_mode, r))"
proof -
  have "settings_decode ft (settings_bs @ write_string [] @ r)
      = Inr (map (setting_read_back ft) (spec_settings h), r)" for r
    using settings_written [OF assms(3), of ft "spec_settings h"] assms(1,2)
    by (auto simp: hello_ok_def)
  then show ?thesis
    using read_hello_written [OF assms(1) refl]
    by (simp add: receive_hello_def read_packet_id_def server_packet_from_u64_def var_uint.dec_enc)
qed

text \<open>C12. The hello of a server is read whatever revision the two sides settle on: from the
  bytes a server writes for the smaller of the two revisions the client takes the revision,
  the names, the version, the time zone and the settings, with exactly the fields of this
  revision, and the chunked modes of the two negotiations; it fails only when one of these
  fails, and leaves the stream after the hello.\<close>

theorem hello_received:
  assumes "hello_ok ft h" and "settings_encode ft settings_revision (spec_settings h) = Inr settings_bs"
    and "settings_revision > REV_SETTINGS_AS_STRINGS"
  shows "receive_hello ft client_revision client_modes
      (write_var_uint 0 @ hello_bytes (unat (min (spec_revision h) client_revision)) settings_bs h @ r)
    = rbind (negotiated (unat (min (spec_revision h) client_revision)) h client_modes)
        (\<lambda>(send_mode, recv_mode).
           Inr (hello_of ft (min (spec_revision h) client_revision) h send_mode recv_mode, r))"
  by (rule hello_read [OF assms])

definition sample_hello :: hello_spec where
  "sample_hello =
     \<lparr>spec_name = ''ClickHouse'', spec_major = 25, spec_minor = 5, spec_revision = 54480, spec_replicas = 4,
      spec_timezone = ''UTC'', spec_display = ''ch'', spec_patch = 1, spec_send = NotChunked,
      spec_recv = ChunkedOptional, spec_rules = [(''.{8}'', ''too short'')], spec_nonce = 9,
      spec_settings = [], spec_plan = 0, spec_cluster = 1\<rparr>"

theorem hello_received_witness:
  "receive_hello no_float_text 54479 (NotChunkedOptional, Chunked)
      (write_var_uint 0 @ hello_bytes (unat (min (spec_revision sample_hello) 54479)) [] sample_hello @ [])
    = rbind (negotiated (unat (min (spec_revision sample_hello) 54479)) sample_hello (NotChunkedOptional, Chunked))
        (\<lambda>(send_mode, recv_mode).
           Inr (hello_of no_float_text (min (spec_revision sample_hello) 54479) sample_hello send_mode recv_mode, []))"
  by (rule hello_received [where settings_revision = 54479])
    (simp_all add: hello_ok_def sample_hello_def ascii_wire settings_encode_def revisions)

text \<open>A server too old for chunked packets is taken for a chunked one: whenever a hello is
  read with a negotiated revision below the one with chunked packets, both modes are the
  default \<open>chunked_optional\<close>, which counts as chunked, so the connection frames what it
  writes and expects frames, which such a server does not know.\<close>

theorem old_server_taken_for_chunked:
  assumes "read_hello ft client_revision client_modes s = Inr (h, r)"
    and "unat (revision_version h) < REV_CHUNKED_PACKETS"
  shows "supports_chunked_send h \<and> supports_chunked_recv h"
  using assms
  by (auto simp: read_hello_def rbind_Inr_iff Let_def read_modes_def supports_chunked_send_def
      supports_chunked_recv_def is_chunked_def split: if_splits)

theorem old_server_taken_for_chunked_witness:
  "supports_chunked_send (hello_of no_float_text 54000 (sample_hello\<lparr>spec_revision := 54000\<rparr>) ChunkedOptional ChunkedOptional)
   \<and> supports_chunked_recv (hello_of no_float_text 54000 (sample_hello\<lparr>spec_revision := 54000\<rparr>) ChunkedOptional ChunkedOptional)"
proof (rule old_server_taken_for_chunked)
  let ?h = "sample_hello\<lparr>spec_revision := 54000\<rparr>"
  have "hello_ok no_float_text ?h"
    by (simp add: hello_ok_def sample_hello_def ascii_wire)
  moreover have "settings_decode no_float_text ([] @ write_string [] @ r)
      = Inr (map (setting_read_back no_float_text) (spec_settings ?h), r)" for r
    by (simp add: settings_decode_end sample_hello_def)
  ultimately show "read_hello no_float_text 54479 (NotChunkedOptional, NotChunkedOptional)
      (hello_bytes (unat (54000 :: u64)) [] ?h @ [])
      = Inr (hello_of no_float_text 54000 ?h ChunkedOptional ChunkedOptional, [])"
    by (subst read_hello_written) (simp_all add: sample_hello_def negotiated_def revisions)
  show "unat (revision_version (hello_of no_float_text 54000 ?h ChunkedOptional ChunkedOptional)) < REV_CHUNKED_PACKETS"
    by (simp add: hello_of_def revisions)
qed

subsection \<open>The packets\<close>

definition opt_uint :: "u64 option \<Rightarrow> byte list" where
  "opt_uint x = write_var_uint (case x of None \<Rightarrow> 0 | Some n \<Rightarrow> n)"

definition exception_bytes :: "server_exception \<Rightarrow> byte list" where
  "exception_bytes e =
     put_u32 (code e) @ write_str (exception_name e) @ write_str (message e)
     @ write_str (stack_trace e) @ [flag_byte (has_nested e)]"

definition progress_bytes :: "nat \<Rightarrow> progress \<Rightarrow> byte list" where
  "progress_bytes revision p =
     write_var_uint (read_rows p) @ write_var_uint (read_bytes p)
     @ read_if_bytes (revision \<ge> REV_SERVER_LOGS) (write_var_uint (total_rows_to_read p))
     @ read_if_bytes (revision \<ge> REV_TOTAL_BYTES) (opt_uint (total_bytes_to_read p))
     @ read_if_bytes (revision \<ge> REV_CLIENT_WRITE_INFO)
         (opt_uint (written_rows p) @ opt_uint (written_bytes p))
     @ read_if_bytes (revision \<ge> REV_SERVER_QUERY_TIME) (opt_uint (elapsed_ns p))"

definition profile_info_bytes :: "nat \<Rightarrow> profile_info \<Rightarrow> byte list" where
  "profile_info_bytes revision p =
     write_var_uint (profile_rows p) @ write_var_uint (profile_blocks p) @ write_var_uint (profile_bytes p)
     @ [flag_byte (applied_limit p)] @ write_var_uint (rows_before_limit p)
     @ [flag_byte (calculated_rows_before_limit p)]
     @ read_if_bytes (revision \<ge> REV_ROWS_BEFORE_AGGREGATION)
         ([flag_byte (applied_aggregation p)] @ write_var_uint (rows_before_aggregation p))"

definition data_bytes ::
  "metadata \<Rightarrow> (val list \<Rightarrow> val list) \<Rightarrow> nat \<Rightarrow> block \<Rightarrow> byte list res" where
  "data_bytes md iset revision b =
     rbind (native_write (codec_of md) iset revision (compression_of md) b) (\<lambda>bs.
       Inr (write_string [] @ bs))"

definition packet_bytes ::
  "metadata \<Rightarrow> (val list \<Rightarrow> val list) \<Rightarrow> nat \<Rightarrow> server_packet \<Rightarrow> byte list res" where
  "packet_bytes md iset revision p =
     (case p of
        SData b \<Rightarrow> rmap ((@) (write_var_uint 1)) (data_bytes md iset revision b)
      | SException e \<Rightarrow> Inr (write_var_uint 2 @ exception_bytes e)
      | SProgress x \<Rightarrow> Inr (write_var_uint 3 @ progress_bytes revision x)
      | SPong \<Rightarrow> Inr (write_var_uint 4)
      | SEndOfStream \<Rightarrow> Inr (write_var_uint 5)
      | SProfileInfo x \<Rightarrow> Inr (write_var_uint 6 @ profile_info_bytes revision x)
      | STotals b \<Rightarrow> rmap ((@) (write_var_uint 7)) (data_bytes md iset revision b)
      | SExtremes b \<Rightarrow> rmap ((@) (write_var_uint 8)) (data_bytes md iset revision b)
      | SLog (Some b) \<Rightarrow> rmap ((@) (write_var_uint 10)) (data_bytes (disable_compression md) iset revision b)
      | STableColumns x \<Rightarrow>
          Inr (write_var_uint 11 @ write_str (columns_name x) @ write_str (columns_description x))
      | SPartUUIDs us \<Rightarrow>
          Inr (write_var_uint 12 @ write_var_uint (word_of_nat (length us)) @ concat (map (put_be 16) us))
      | SReadTaskRequest (Some x) \<Rightarrow> Inr (write_var_uint 13 @ write_str x)
      | SProfileEvents (Some b) \<Rightarrow>
          rmap ((@) (write_var_uint 14)) (data_bytes (disable_compression md) iset revision b)
      | _ \<Rightarrow> Inl Protocol)"

definition progress_ok :: "progress \<Rightarrow> bool" where
  "progress_ok p \<longleftrightarrow>
     read_rows p < 2 ^ 63 \<and> read_bytes p < 2 ^ 63 \<and> total_rows_to_read p < 2 ^ 63
     \<and> list_all (\<lambda>x. case x of None \<Rightarrow> True | Some n \<Rightarrow> n < 2 ^ 63)
         [total_bytes_to_read p, written_rows p, written_bytes p, elapsed_ns p]"

text \<open>What a revision carries of a progress packet.\<close>

definition visible_uint :: "bool \<Rightarrow> u64 option \<Rightarrow> u64 option" where
  "visible_uint c x = (if c then Some (case x of None \<Rightarrow> 0 | Some n \<Rightarrow> n) else None)"

definition visible_progress :: "nat \<Rightarrow> progress \<Rightarrow> progress" where
  "visible_progress revision p =
     p\<lparr>total_rows_to_read := (if revision \<ge> REV_SERVER_LOGS then total_rows_to_read p else 0),
       total_bytes_to_read := visible_uint (revision \<ge> REV_TOTAL_BYTES) (total_bytes_to_read p),
       written_rows := visible_uint (revision \<ge> REV_CLIENT_WRITE_INFO) (written_rows p),
       written_bytes := visible_uint (revision \<ge> REV_CLIENT_WRITE_INFO) (written_bytes p),
       elapsed_ns := visible_uint (revision \<ge> REV_SERVER_QUERY_TIME) (elapsed_ns p)\<rparr>"

definition visible_profile_info :: "nat \<Rightarrow> profile_info \<Rightarrow> profile_info" where
  "visible_profile_info revision p =
     (if revision \<ge> REV_ROWS_BEFORE_AGGREGATION then p
      else p\<lparr>applied_aggregation := False, rows_before_aggregation := 0\<rparr>)"

definition carried ::
  "metadata \<Rightarrow> (val list \<Rightarrow> val list) \<Rightarrow> nat \<Rightarrow> block \<Rightarrow> bool" where
  "carried md iset revision b \<longleftrightarrow> sendable (codec_of md) (tz_of md) iset revision (compression_of md) b"

definition packet_ok ::
  "metadata \<Rightarrow> (val list \<Rightarrow> val list) \<Rightarrow> nat \<Rightarrow> server_packet \<Rightarrow> bool" where
  "packet_ok md iset revision p \<longleftrightarrow>
     (case p of
        SData b \<Rightarrow> carried md iset revision b
      | STotals b \<Rightarrow> carried md iset revision b
      | SExtremes b \<Rightarrow> carried md iset revision b
      | SLog (Some b) \<Rightarrow> carried (disable_compression md) iset revision b
      | SProfileEvents (Some b) \<Rightarrow>
          revision \<ge> REV_PROFILE_EVENTS_IN_INSERT \<and> carried (disable_compression md) iset revision b
      | SException e \<Rightarrow> wire_str (exception_name e) \<and> wire_str (message e) \<and> wire_str (stack_trace e)
      | SProgress x \<Rightarrow> progress_ok x
      | SPong \<Rightarrow> True
      | SEndOfStream \<Rightarrow> True
      | SProfileInfo x \<Rightarrow> profile_rows x < 2 ^ 63 \<and> profile_blocks x < 2 ^ 63 \<and> profile_bytes x < 2 ^ 63
          \<and> rows_before_limit x < 2 ^ 63 \<and> rows_before_aggregation x < 2 ^ 63
      | STableColumns x \<Rightarrow> wire_str (columns_name x) \<and> wire_str (columns_description x)
      | SPartUUIDs us \<Rightarrow> length us \<le> MAX_STRING_SIZE
      | SReadTaskRequest (Some x) \<Rightarrow> wire_str x
      | _ \<Rightarrow> False)"

definition packet_seen :: "nat \<Rightarrow> server_packet \<Rightarrow> server_packet" where
  "packet_seen revision p =
     (case p of
        SData b \<Rightarrow> SData (read_back revision b)
      | STotals b \<Rightarrow> STotals (read_back revision b)
      | SExtremes b \<Rightarrow> SExtremes (read_back revision b)
      | SLog (Some b) \<Rightarrow> SLog (Some (read_back revision b))
      | SProfileEvents (Some b) \<Rightarrow> SProfileEvents (Some (read_back revision b))
      | SProgress x \<Rightarrow> SProgress (visible_progress revision x)
      | SProfileInfo x \<Rightarrow> SProfileInfo (visible_profile_info revision x)
      | _ \<Rightarrow> p)"

lemma exception_received:
  assumes "wire_str (exception_name e)" and "wire_str (message e)" and "wire_str (stack_trace e)"
  shows "read_exception (exception_bytes e @ r) = Inr (e, r)"
  using assms
  by (simp add: read_exception_def exception_bytes_def utf8_string.dec_enc read_lossy_write)

lemma opt_uint_read:
  "(case x of None \<Rightarrow> True | Some n \<Rightarrow> n < 2 ^ 63) \<Longrightarrow>
     read_var_uint (opt_uint x @ r) = Inr ((case x of None \<Rightarrow> 0 | Some n \<Rightarrow> n), r)"
  by (cases x) (simp_all add: opt_uint_def var_uint.dec_enc)

lemma progress_received:
  assumes "progress_ok p"
  shows "read_progress revision (progress_bytes revision p @ r) = Inr (visible_progress revision p, r)"
proof -
  have one: "(case x of None \<Rightarrow> True | Some n \<Rightarrow> n < 2 ^ 63) \<Longrightarrow>
      read_if c None (read_as Some read_var_uint) (read_if_bytes c (opt_uint x) @ r)
        = Inr (visible_uint c x, r)" for c x r
    unfolding visible_uint_def by (rule read_if_append, rule read_as_append, rule opt_uint_read)
  have two: "(case x of None \<Rightarrow> True | Some n \<Rightarrow> n < 2 ^ 63) \<Longrightarrow> (case y of None \<Rightarrow> True | Some n \<Rightarrow> n < 2 ^ 63) \<Longrightarrow>
      read_if c None (read_as Some (read_pair read_var_uint read_var_uint))
          (read_if_bytes c (opt_uint x @ opt_uint y) @ r)
        = Inr (if c then Some (case x of None \<Rightarrow> 0 | Some n \<Rightarrow> n, case y of None \<Rightarrow> 0 | Some n \<Rightarrow> n) else None, r)"
    for c x y r
    by (rule read_if_append, rule read_as_append, rule read_pair_append) (rule opt_uint_read, assumption)+
  have num: "v < 2 ^ 63 \<Longrightarrow> read_if c a read_var_uint (read_if_bytes c (write_var_uint v) @ r)
      = Inr (if c then v else a, r)" for c a v r
    by (rule read_if_append, rule var_uint.dec_enc)
  show ?thesis
    using assms
    by (simp add: read_progress_def progress_bytes_def progress_ok_def var_uint.dec_enc num one two
        visible_progress_def visible_uint_def)
qed

lemma profile_info_received:
  assumes "profile_rows p < 2 ^ 63" "profile_blocks p < 2 ^ 63" "profile_bytes p < 2 ^ 63"
    "rows_before_limit p < 2 ^ 63" "rows_before_aggregation p < 2 ^ 63"
  shows "read_profile_info revision (profile_info_bytes revision p @ r)
    = Inr (visible_profile_info revision p, r)"
  using assms
  by (simp add: read_profile_info_def profile_info_bytes_def var_uint.dec_enc read_if_def read_if_bytes_def
      read_pair_def visible_profile_info_def)

lemma data_received:
  assumes "carried md iset revision b"
  shows "\<exists>bs. data_bytes md iset revision b = Inr bs
    \<and> (\<forall>r. read_data md revision (bs @ r) = Inr (Some (read_back revision b), r))"
proof -
  have empty: "read_string (write_string [] @ r) = Inr ([], r)" for r
    using read_string_str [of "[]" r] by (simp add: ascii_wire)
  show ?thesis
    using native_written [OF assms [unfolded carried_def]]
    by (auto simp: data_bytes_def read_data_def empty)
qed

lemma part_uuids_received:
  assumes "length us \<le> MAX_STRING_SIZE"
  shows "read_part_uuids (write_var_uint (word_of_nat (length us)) @ concat (map (put_be 16) us) @ r) = Inr (us, r)"
proof -
  have len: "length us < 2 ^ 63" using assms by (simp add: MAX_STRING_SIZE_def)
  then have "unat (word_of_nat (length us) :: u64) = length us"
    by (intro unat_of_nat_u64) simp
  moreover have "read_n (length us) (read_be 16) (concat (map (put_be 16) us) @ r) = Inr (us, r)"
    by (induction us) (simp_all add: read_be_put_be)
  ultimately show ?thesis
    using assms read_var_uint_small [OF len] by (simp add: read_part_uuids_def)
qed

lemmas packet_defs = receive_packet_def read_packet_id_def server_packet_from_u64_def packet_bytes_def
  packet_seen_def

lemma packet_read:
  assumes "packet_ok md iset revision p"
  shows "\<exists>bs. packet_bytes md iset revision p = Inr bs
    \<and> (\<forall>r. receive_packet md revision (bs @ r) = Inr (packet_seen revision p, r))"
proof (cases p)
  case (SData b)
  then show ?thesis
    using assms data_received [of md iset revision b]
    by (auto simp: packet_ok_def packet_defs var_uint.dec_enc read_as_def or_ignore_def)
next
  case (STotals b)
  then show ?thesis
    using assms data_received [of md iset revision b]
    by (auto simp: packet_ok_def packet_defs var_uint.dec_enc read_as_def or_ignore_def)
next
  case (SExtremes b)
  then show ?thesis
    using assms data_received [of md iset revision b]
    by (auto simp: packet_ok_def packet_defs var_uint.dec_enc read_as_def or_ignore_def)
next
  case (SLog x)
  then show ?thesis
    using assms data_received [of "disable_compression md" iset revision "the x"]
    by (cases x) (auto simp: packet_ok_def packet_defs var_uint.dec_enc read_as_def read_log_data_def)
next
  case (SProfileEvents x)
  then show ?thesis
    using assms data_received [of "disable_compression md" iset revision "the x"]
    by (cases x)
      (auto simp: packet_ok_def packet_defs var_uint.dec_enc read_as_def read_profile_events_def)
next
  case (SException e)
  then show ?thesis
    using assms exception_received [of e]
    by (simp add: packet_ok_def packet_defs var_uint.dec_enc read_as_def)
next
  case (SProgress x)
  then show ?thesis
    using assms progress_received [of x revision]
    by (simp add: packet_ok_def packet_defs var_uint.dec_enc read_as_def)
next
  case (SProfileInfo x)
  then show ?thesis
    using assms profile_info_received [of x revision]
    by (simp add: packet_ok_def packet_defs var_uint.dec_enc read_as_def)
next
  case (STableColumns x)
  then show ?thesis
    using assms
    by (simp add: packet_ok_def packet_defs var_uint.dec_enc read_as_def read_table_columns_def
        utf8_string.dec_enc)
next
  case (SPartUUIDs us)
  then show ?thesis
    using assms part_uuids_received [of us]
    by (simp add: packet_ok_def packet_defs var_uint.dec_enc read_as_def)
next
  case (SReadTaskRequest x)
  then show ?thesis
    using assms
    by (cases x) (simp_all add: packet_ok_def packet_defs var_uint.dec_enc read_as_def
        read_task_request_def utf8_string.dec_enc)
qed (use assms in \<open>simp_all add: packet_ok_def packet_defs var_uint.dec_enc\<close>)

definition sample_metadata :: metadata where
  "sample_metadata = \<lparr>codec_of = stored, tz_of = Some, compression_of = LZ4\<rparr>"

text \<open>C9. Every packet the client acts on is read as it was sent. At every revision, for data,
  totals, extremes, log records and profile events (with the compression of the connection,
  and without it for the last two), exceptions, progress, profile info, table columns, part
  identifiers, task requests, pong and end of stream, what a server writes is received as
  the packet (with the fields the revision carries), and the stream after it is left.\<close>

theorem packet_received:
  assumes "packet_ok md iset revision p"
  shows "\<exists>bs. packet_bytes md iset revision p = Inr bs
    \<and> (\<forall>r. receive_packet md revision (bs @ r) = Inr (packet_seen revision p, r))"
  by (rule packet_read [OF assms])

theorem packet_received_witness:
  "\<exists>bs. packet_bytes sample_metadata first_of_each 54479 (SData two_rows) = Inr bs
    \<and> (\<forall>r. receive_packet sample_metadata 54479 (bs @ r) = Inr (packet_seen 54479 (SData two_rows), r))"
proof (rule packet_received)
  have "sendable stored Some first_of_each 54479 LZ4 two_rows"
    using two_rows_ok two_rows_put two_rows_size codecs_ok_stored
    by (simp add: sendable_def compressed_payload_def stored_def no_data_def two_rows_def)
  then show "packet_ok sample_metadata first_of_each 54479 (SData two_rows)"
    by (simp add: packet_ok_def carried_def sample_metadata_def)
qed

section \<open>The readers take bytes from the front of the stream\<close>

lemma consumes_var_uint: "consumes read_var_uint"
  unfolding read_var_uint_def [abs_def] by (rule consumes_var_uint_loop)

lemma consumes_utf8_string: "consumes read_utf8_string"
  unfolding read_utf8_string_def [abs_def] by (intro consumes_intros consumes_read_string)

lemma consumes_block_info: "consumes block_info_read"
proof -
  have "block_info_read_loop i s = Inr (x, r) \<Longrightarrow> suffix r s" for i s x r
  proof (induction "length s" arbitrary: i s rule: less_induct)
    case less
    obtain n s1 where n: "read_var_uint s = Inr (n, s1)"
      using less.prems by (subst (asm) block_info_read_loop.simps) (auto simp: rbind_Inr_iff)
    have s1: "suffix s1 s" "length s1 < length s"
      using consumesD [OF consumes_var_uint n] read_var_uint_length [OF n] .
    from less.prems n
    consider "r = s1" | s2 j where "suffix s2 s1" "block_info_read_loop j s2 = Inr (x, r)"
      by (subst (asm) block_info_read_loop.simps)
        (auto simp: rbind_Inr_iff split: if_splits
          dest: consumesD [OF consumes_read_u8] consumesD [OF consumes_read_le])
    then show ?case
    proof cases
      case 1
      then show ?thesis using s1 by simp
    next
      case (2 s2 j)
      have "length s2 < length s" using suffix_length [OF 2(1)] s1(2) by simp
      from less.hyps [OF this 2(2)] show ?thesis using 2(1) s1(1) by (meson suffix_order.trans)
    qed
  qed
  then show ?thesis by (simp add: consumes_def block_info_read_def)
qed

lemma consumes_read_all: "(\<And>t. t \<in> set ts \<Longrightarrow> consumes (p t)) \<Longrightarrow> consumes (read_all p ts)"
proof (induction ts)
  case Nil
  show ?case by (simp add: consumes_def)
next
  case (Cons t ts)
  then show ?case unfolding read_all.simps [abs_def] by (intro consumes_intros) simp_all
qed

lemma consumes_prefix: "consumes (deserialize_prefix_async t)"
proof (induction "ty_weight t" arbitrary: t rule: less_induct)
  case less
  have unit: "consumes (\<lambda>s. rbind (read_u8 Io s) (\<lambda>(_, s). Inr ((), s)))"
    by (intro consumes_intros)
  have lc: "consumes (read_lc_version Io)"
    unfolding read_lc_version_def [abs_def] by (intro consumes_intros consumes_read_le)
  have tuple: "t = Tuple ts \<Longrightarrow> consumes (read_all deserialize_prefix_async ts)" for ts
    by (rule consumes_read_all, rule less) (auto simp: less_Suc_eq_le intro: ty_weight_member)
  have point: "t = Point \<Longrightarrow> consumes (read_all deserialize_prefix_async [Float64, Float64])"
    by (rule consumes_read_all, rule less) auto
  show ?case
    unfolding deserialize_prefix_async.simps [of t, abs_def]
    by (cases t; simp add: less tuple point lc unit consumes_return del: read_all.simps)
qed

lemma consumes_block_read: "consumes (block_read tzp revision)"
proof -
  have "consumes (column_read tzp revision n)" for n
    unfolding column_read_def [abs_def]
    by (intro consumes_intros consumes_utf8_string consumes_prefix consumes_deserialize_column)
  then show ?thesis
    unfolding block_read_def [abs_def]
    by (intro consumes_intros consumes_block_info consumes_var_uint consumes_read_n)
qed

lemma consumes_or_protocol: "consumes p \<Longrightarrow> consumes (or_protocol p)"
  by (simp add: consumes_def or_protocol_Inr_iff)

lemma consumes_decompress: "consumes (decompress_data cd c)"
  unfolding decompress_data_def [abs_def] Let_def
  by (intro consumes_intros consumes_or_protocol consumes_read_le)

lemma consumes_native_read: "consumes (native_read cd tzp revision c)"
  unfolding native_read_def [abs_def]
  by (intro consumes_intros consumes_read_as consumes_block_read consumes_decompress)
    (simp add: consumes_def split: prod.split)

lemma consumes_read_data: "consumes (read_data md revision)"
  unfolding read_data_def [abs_def] by (intro consumes_intros consumes_read_string consumes_native_read)

lemma consumes_read_if: "consumes p \<Longrightarrow> consumes (read_if c a p)"
  by (simp add: consumes_def read_if_def)

lemma consumes_read_pair: "consumes p \<Longrightarrow> consumes q \<Longrightarrow> consumes (read_pair p q)"
  unfolding read_pair_def [abs_def] by (intro consumes_intros)

lemma consumes_read_flag: "consumes read_flag"
  unfolding read_flag_def [abs_def] by (intro consumes_intros)

lemma consumes_read_be: "consumes (read_be n)"
  unfolding read_be_def [abs_def] by (intro consumes_intros)

lemmas consumes_fields = consumes_intros consumes_read_le consumes_var_uint consumes_utf8_string
  consumes_read_string consumes_read_if consumes_read_pair consumes_read_flag consumes_read_as
  consumes_read_n consumes_read_be

lemma consumes_read_exception: "consumes read_exception"
  unfolding read_exception_def [abs_def] read_lossy_def [abs_def] by (intro consumes_fields)

lemma consumes_read_progress: "consumes (read_progress revision)"
  unfolding read_progress_def [abs_def] by (intro consumes_fields)

lemma consumes_profile_info: "consumes (read_profile_info revision)"
  unfolding read_profile_info_def [abs_def]
  by (intro consumes_fields) (simp add: consumes_def split: prod.split)

lemma consumes_table_columns: "consumes read_table_columns"
  unfolding read_table_columns_def [abs_def] by (intro consumes_fields)

lemma consumes_tables_status: "consumes read_table_status_response"
  unfolding read_table_status_response_def [abs_def] read_status_def [abs_def]
  by (intro consumes_fields)

lemma consumes_part_uuids: "consumes read_part_uuids"
  unfolding read_part_uuids_def [abs_def] by (intro consumes_fields)

lemma consumes_task_request: "consumes read_task_request"
proof -
  have "suffix (after_failed_string s) s" for s
    by (auto simp: after_failed_string_def split: sum.splits prod.splits
        dest!: consumesD [OF consumes_var_uint] intro: suffix_order.trans [OF suffix_drop])
  then show ?thesis
    using consumes_utf8_string by (auto simp: consumes_def read_task_request_def split: sum.splits)
qed

lemma consumes_profile_events: "consumes (read_profile_events md revision)"
  unfolding read_profile_events_def [abs_def] by (intro consumes_intros consumes_read_data)

lemmas consumes_packets = consumes_read_exception consumes_read_progress consumes_profile_info
  consumes_table_columns consumes_tables_status consumes_part_uuids consumes_task_request
  consumes_profile_events consumes_read_data consumes_read_as consumes_return consumes_error

lemma read_packet_id_length: "read_packet_id s = Inr (p, r) \<Longrightarrow> suffix r s \<and> length r < length s"
  by (auto simp: read_packet_id_def rbind_Inr_iff dest: read_var_uint_length consumesD [OF consumes_var_uint])

lemma after_packet_id:
  assumes "rbind (read_packet_id s) (\<lambda>(p, s). q p s) = Inr (x, r)" and "\<And>p. consumes (q p)"
  shows "suffix r s \<and> length r < length s"
proof -
  obtain p s1 where p: "read_packet_id s = Inr (p, s1)" "q p s1 = Inr (x, r)"
    using assms(1) by (auto simp: rbind_Inr_iff)
  then show ?thesis
    using read_packet_id_length [OF p(1)] consumesD [OF assms(2) p(2)] suffix_length
    by (meson le_less_trans suffix_order.trans)
qed

lemma receive_packet_suffix:
  assumes "receive_packet md revision s = Inr (p, r)"
  shows "suffix r s \<and> length r < length s"
proof (rule after_packet_id [OF assms [unfolded receive_packet_def]])
  show "consumes (\<lambda>s. case p of
         PPong \<Rightarrow> Inr (SPong, s)
       | PData \<Rightarrow> read_as (or_ignore PData SData) (read_data md revision) s
       | PException \<Rightarrow> read_as SException read_exception s
       | PProgress \<Rightarrow> read_as SProgress (read_progress revision) s
       | PEndOfStream \<Rightarrow> Inr (SEndOfStream, s)
       | PProfileInfo \<Rightarrow> read_as SProfileInfo (read_profile_info revision) s
       | PTotals \<Rightarrow> read_as (or_ignore PTotals STotals) (read_data md revision) s
       | PExtremes \<Rightarrow> read_as (or_ignore PExtremes SExtremes) (read_data md revision) s
       | PTablesStatusResponse \<Rightarrow> read_as STablesStatusResponse read_table_status_response s
       | PLog \<Rightarrow> read_as SLog (read_log_data md revision) s
       | PTableColumns \<Rightarrow> read_as STableColumns read_table_columns s
       | PPartUUIDs \<Rightarrow> read_as SPartUUIDs read_part_uuids s
       | PReadTaskRequest \<Rightarrow> read_as SReadTaskRequest read_task_request s
       | PProfileEvents \<Rightarrow> read_as SProfileEvents (read_profile_events md revision) s
       | PMergeTreeAllRangesAnnouncement \<Rightarrow> Inr (SMergeTreeAllRangesAnnouncement, s)
       | PMergeTreeReadTaskRequest \<Rightarrow> Inr (SMergeTreeReadTaskRequest, s)
       | PTimezoneUpdate \<Rightarrow> Inr (STimezoneUpdate, s)
       | PSSHChallenge \<Rightarrow> Inr (SSSHChallenge, s)
       | PHello \<Rightarrow> Inl Protocol)" for p
    by (cases p) (simp_all add: consumes_packets read_log_data_def [abs_def])
qed

lemma receive_header_suffix:
  assumes "receive_header md revision s = Inr (p, r)"
  shows "suffix r s \<and> length r < length s"
proof (rule after_packet_id [OF assms [unfolded receive_header_def]])
  have "consumes (\<lambda>s. rbind (read_data md revision s) (\<lambda>(b, s).
      case b of None \<Rightarrow> Inl Protocol | Some b \<Rightarrow> Inr (SHeader b, s)))"
    by (intro consumes_intros consumes_read_data)
  then show "consumes (\<lambda>s. case p of
         PData \<Rightarrow> rbind (read_data md revision s) (\<lambda>(b, s).
           case b of None \<Rightarrow> Inl Protocol | Some b \<Rightarrow> Inr (SHeader b, s))
       | PProgress \<Rightarrow> read_as SProgress (read_progress revision) s
       | PTableColumns \<Rightarrow> read_as STableColumns read_table_columns s
       | PEndOfStream \<Rightarrow> Inr (SEndOfStream, s)
       | PException \<Rightarrow> read_as SException read_exception s
       | _ \<Rightarrow> Inl Protocol)" for p
    by (cases p) (simp_all add: consumes_packets)
qed

text \<open>A packet takes at least one byte and only bytes from the front of the stream: what
  \<open>receive_packet\<close> leaves is a proper suffix of its input, on every input on which it does
  not fail. So a connection that keeps reading comes to the end of any finite stream.\<close>

theorem packet_reader_progress:
  assumes "receive_packet md revision s = Inr (p, r)"
  shows "suffix r s \<and> length r < length s"
  by (rule receive_packet_suffix [OF assms])

theorem packet_reader_progress_witness:
  "suffix [7] (write_var_uint 4 @ [7]) \<and> length [7 :: byte] < length (write_var_uint 4 @ [7])"
  by (rule packet_reader_progress [of sample_metadata 54479 _ SPong])
    (simp add: receive_packet_def read_packet_id_def server_packet_from_u64_def var_uint.dec_enc)

end
