(* ===== verification/ChunkIO.thy ===== *)
theory ChunkIO
  imports ClickIO "HOL-Library.Sublist"
begin

text \<open>
  The framing of the chunked protocol (client/chunk.rs): a writer that buffers until the end
  of a logical chunk, and a reader that strips the frames, poll by poll.

  The inner stream of the reader is what its polls deliver: segments of bytes that are
  available at once, and points where a poll finds nothing yet (\<open>Wait\<close>). After the last
  segment the stream is at its end: a poll succeeds with no bytes.
\<close>

section \<open>The writer\<close>

record chunk_writer =
  wbuffer :: "byte list"
  wout :: "byte list"

definition poll_write :: "byte list \<Rightarrow> chunk_writer \<Rightarrow> nat \<times> chunk_writer" where
  "poll_write bs w = (length bs, w\<lparr>wbuffer := wbuffer w @ bs\<rparr>)"

definition finish_chunk :: "chunk_writer \<Rightarrow> chunk_writer" where
  "finish_chunk w =
     (if wbuffer w = [] then w
      else w\<lparr>wbuffer := [],
             wout := wout w @ put_u32 (word_of_nat (length (wbuffer w))) @ wbuffer w @ put_u32 0\<rparr>)"

section \<open>The reader\<close>

datatype avail = Avail "byte list" | Wait

fun poll_inner :: "avail list \<Rightarrow> nat \<Rightarrow> byte list option \<times> avail list" where
  "poll_inner [] n = (Some [], [])"
| "poll_inner (Wait # src) n = (None, src)"
| "poll_inner (Avail bs # src) n =
     (if bs = [] then poll_inner src n
      else if n = 0 then (Some [], Avail bs # src)
      else (Some (take n bs), if length bs \<le> n then src else Avail (drop n bs) # src))"

datatype reader_state = Header | Data

record chunk_reader =
  inner :: "avail list"
  state :: reader_state
  rbuffer :: "byte list"
  buffer_pos :: nat
  chunk_size :: u32

definition new_chunk_reader :: "avail list \<Rightarrow> chunk_reader" where
  "new_chunk_reader src =
     \<lparr>inner = src, state = Header, rbuffer = [], buffer_pos = 0, chunk_size = 0\<rparr>"

datatype poll = Pending | Ready | Failed err

text \<open>
  One turn of the loop of \<open>poll_read\<close>: \<open>m\<close> bytes of the caller's buffer remain, \<open>out\<close> has
  been put into it by this call. \<open>Inl\<close>: the call returns; \<open>Inr\<close>: the loop goes on. The
  header array keeps its zeros where the inner poll delivers fewer than four bytes, and its
  length, which the code tests, is always four.
\<close>

definition header_turn ::
  "chunk_reader \<Rightarrow> nat \<Rightarrow> byte list
    \<Rightarrow> (poll \<times> byte list \<times> chunk_reader) + (chunk_reader \<times> nat \<times> byte list)" where
  "header_turn r m out =
     (case poll_inner (inner r) 4 of
        (None, src) \<Rightarrow> Inl (Pending, out, r\<lparr>inner := src\<rparr>)
      | (Some bs, src) \<Rightarrow>
          (let header = bs @ replicate (4 - length bs) 0;
               size = (word_of_nat (le_nat header) :: u32);
               r = r\<lparr>inner := src, chunk_size := size\<rparr> in
           if size = 0 then Inr (r, m, out)
           else if size > 100000000 then Inl (Failed Io, out, r)
           else Inr (r\<lparr>state := Data\<rparr>, m, out)))"

definition data_turn ::
  "chunk_reader \<Rightarrow> nat \<Rightarrow> byte list
    \<Rightarrow> (poll \<times> byte list \<times> chunk_reader) + (chunk_reader \<times> nat \<times> byte list)" where
  "data_turn r m out =
     (let to_read = min m (unat (chunk_size r)) in
      if to_read = 0 \<and> m > 0 then Inr (r\<lparr>state := Header\<rparr>, m, out)
      else case poll_inner (inner r) to_read of
             (None, src) \<Rightarrow> Inl (Pending, out, r\<lparr>inner := src\<rparr>)
           | (Some filled, src) \<Rightarrow>
               if filled = [] \<and> chunk_size r > 0 then Inl (Failed Io, out, r\<lparr>inner := src\<rparr>)
               else
                 (let to_copy = min (length filled) m;
                      out = out @ take to_copy filled;
                      size = chunk_size r - word_of_nat (length filled);
                      r = r\<lparr>inner := src,
                            rbuffer := (if to_copy < length filled then drop to_copy filled else rbuffer r),
                            chunk_size := size,
                            state := (if size = 0 then Header else state r)\<rparr> in
                  if m - to_copy = 0 then Inl (Ready, out, r) else Inr (r, m - to_copy, out)))"

definition chunk_turn ::
  "chunk_reader \<Rightarrow> nat \<Rightarrow> byte list
    \<Rightarrow> (poll \<times> byte list \<times> chunk_reader) + (chunk_reader \<times> nat \<times> byte list)" where
  "chunk_turn r m out = (case state r of Header \<Rightarrow> header_turn r m out | Data \<Rightarrow> data_turn r m out)"

text \<open>\<open>None\<close> is a call that does not return.\<close>

partial_function (option) chunk_loop ::
  "chunk_reader \<Rightarrow> nat \<Rightarrow> byte list \<Rightarrow> (poll \<times> byte list \<times> chunk_reader) option" where
  "chunk_loop r m out =
     (case chunk_turn r m out of
        Inl res \<Rightarrow> Some res
      | Inr next \<Rightarrow> (case next of (r, m, out) \<Rightarrow> chunk_loop r m out))"

text \<open>\<open>poll_read\<close> with room for \<open>m\<close> bytes: buffered bytes first, else the loop.\<close>

definition chunk_poll_read ::
  "chunk_reader \<Rightarrow> nat \<Rightarrow> (poll \<times> byte list \<times> chunk_reader) option" where
  "chunk_poll_read r m =
     (if buffer_pos r < length (rbuffer r) then
        (let available = drop (buffer_pos r) (rbuffer r);
             to_copy = min (length available) m;
             pos = buffer_pos r + to_copy in
         Some (Ready, take to_copy available,
               if pos \<ge> length (rbuffer r) then r\<lparr>rbuffer := [], buffer_pos := 0\<rparr>
               else r\<lparr>buffer_pos := pos\<rparr>))
      else chunk_loop r m [])"

section \<open>The frames\<close>

datatype chunk = Terminator | Chunk "byte list"

fun chunk_bytes :: "chunk \<Rightarrow> byte list" where
  "chunk_bytes Terminator = put_u32 0"
| "chunk_bytes (Chunk d) = put_u32 (word_of_nat (length d)) @ d"

fun payload :: "chunk \<Rightarrow> byte list" where
  "payload Terminator = []"
| "payload (Chunk d) = d"

fun chunk_ok :: "chunk \<Rightarrow> bool" where
  "chunk_ok Terminator \<longleftrightarrow> True"
| "chunk_ok (Chunk d) \<longleftrightarrow> d \<noteq> [] \<and> length d \<le> 100000000"

abbreviation wire :: "chunk list \<Rightarrow> byte list" where
  "wire cs \<equiv> concat (map chunk_bytes cs)"

abbreviation payloads :: "chunk list \<Rightarrow> byte list" where
  "payloads cs \<equiv> concat (map payload cs)"

text \<open>
  The reader is in the middle of a stream of frames that is available at once: \<open>d\<close> is left
  of the current chunk, then the frames \<open>cs\<close> come.
\<close>

definition at :: "chunk_reader \<Rightarrow> byte list \<Rightarrow> chunk list \<Rightarrow> bool" where
  "at r d cs \<longleftrightarrow>
     inner r = (if d @ wire cs = [] then [] else [Avail (d @ wire cs)])
     \<and> rbuffer r = [] \<and> buffer_pos r = 0 \<and> list_all chunk_ok cs
     \<and> (if d = [] then state r = Header
        else state r = Data \<and> length d \<le> 100000000 \<and> chunk_size r = word_of_nat (length d))"

section \<open>Reading through the frames\<close>

lemma le_nat_put_u32: "le_nat (put_u32 w) = unat w"
proof -
  have "unat w < 2 ^ LENGTH(32)" by (rule unsigned_less)
  then show ?thesis by (simp add: put_le_def le_nat_le_bytes)
qed

lemma unat_chunk_size: "n \<le> 100000000 \<Longrightarrow> unat (word_of_nat n :: u32) = n"
  by (simp add: unat_of_nat)

lemma poll_inner_take:
  assumes "0 < n" and "n \<le> length bs"
  shows "poll_inner [Avail bs] n
    = (Some (take n bs), if drop n bs = [] then [] else [Avail (drop n bs)])"
  using assms by auto

lemma poll_inner_avail:
  assumes "0 < n" and "n \<le> length bs"
  shows "poll_inner (if bs = [] then [] else [Avail bs]) n
    = (Some (take n bs), if drop n bs = [] then [] else [Avail (drop n bs)])"
  using assms poll_inner_take [OF assms] by (cases "bs = []") simp_all

lemma header_turn_at:
  assumes "at r [] (c # cs)"
  shows "\<exists>r'. chunk_turn r m out = Inr (r', m, out) \<and> at r' (payload c) cs"
proof -
  have a: "inner r = (if wire (c # cs) = [] then [] else [Avail (wire (c # cs))])" "state r = Header"
    "rbuffer r = []" "buffer_pos r = 0" "chunk_ok c" "list_all chunk_ok cs"
    using assms by (simp_all add: at_def)
  define size :: u32 where "size = word_of_nat (length (payload c))"
  have size: "unat size = length (payload c)"
    using a(5) by (cases c) (simp_all add: size_def unat_chunk_size)
  have c: "chunk_bytes c = put_u32 size @ payload c" by (cases c) (simp_all add: size_def)
  have "poll_inner (inner r) 4 = (Some (put_u32 size),
      if payload c @ wire cs = [] then [] else [Avail (payload c @ wire cs)])"
    unfolding a(1) using poll_inner_avail [of 4 "wire (c # cs)"] by (simp add: c)
  moreover have "(word_of_nat (le_nat (put_u32 size)) :: u32) = size"
    by (simp add: le_nat_put_u32)
  moreover have "size = 0 \<longleftrightarrow> payload c = []"
    using size by (metis length_0_conv unat_eq_zero)
  moreover have "\<not> size > 100000000"
    using size a(5) by (cases c) (simp_all add: word_less_nat_alt)
  ultimately show ?thesis
    using a by (cases c) (auto simp: chunk_turn_def header_turn_def Let_def at_def size_def)
qed

lemma data_turn_at:
  assumes "at r d cs" and "d \<noteq> []" and "0 < m"
  shows "\<exists>r'. at r' (drop m d) cs \<and> chunk_turn r m out =
    (if m \<le> length d then Inl (Ready, out @ take m d, r') else Inr (r', m - length d, out @ d))"
proof -
  have a: "inner r = [Avail (d @ wire cs)]" "rbuffer r = []" "buffer_pos r = 0" "list_all chunk_ok cs"
    "state r = Data" "length d \<le> 100000000" "chunk_size r = word_of_nat (length d)"
    using assms by (simp_all add: at_def)
  have size: "unat (chunk_size r) = length d" using a(6,7) by (simp add: unat_chunk_size)
  let ?n = "min m (length d)"
  have n: "0 < ?n" using assms(2,3) by simp
  have polled: "poll_inner (inner r) ?n = (Some (take ?n d),
      if drop ?n d @ wire cs = [] then [] else [Avail (drop ?n d @ wire cs)])"
    unfolding a(1) using poll_inner_take [OF n, of "d @ wire cs"] by simp
  have left: "chunk_size r - word_of_nat ?n = (word_of_nat (length (drop m d)) :: u32)"
    by (simp add: a(7) of_nat_diff min_def)
  have zero: "(word_of_nat (length (drop m d)) :: u32) = 0 \<longleftrightarrow> drop m d = []"
  proof -
    have "unat (word_of_nat (length (drop m d)) :: u32) = length (drop m d)"
      using a(6) by (intro unat_chunk_size) simp
    then show ?thesis by (metis length_0_conv unat_eq_zero)
  qed
  have "take ?n d \<noteq> []" using n assms(2) by simp
  have eq: "take ?n d = take m d" "drop ?n d = drop m d" by (simp_all add: min_def)
  let ?r = "r\<lparr>inner := (if drop m d @ wire cs = [] then [] else [Avail (drop m d @ wire cs)]),
              chunk_size := word_of_nat (length (drop m d)),
              state := (if drop m d = [] then Header else Data)\<rparr>"
  have nonempty: "take m d \<noteq> []" using n assms(2) by simp
  have len: "length (take m d) = ?n" by (simp add: min.commute)
  have "chunk_turn r m out = (if m - ?n = 0 then Inl (Ready, out @ take m d, ?r) else Inr (?r, m - ?n, out @ take m d))"
    unfolding chunk_turn_def a(5) reader_state.case data_turn_def Let_def size polled eq prod.case
      option.case len left zero
    using n nonempty a(2,5) by (simp add: min_def len)
  then have "chunk_turn r m out =
    (if m \<le> length d then Inl (Ready, out @ take m d, ?r) else Inr (?r, m - length d, out @ d))"
    using assms(3) by (auto simp: min_def)
  moreover have "at ?r (drop m d) cs"
    using a le_trans [OF diff_le_self a(6)] by (simp add: at_def)
  ultimately show ?thesis by blast
qed

lemma chunk_loop_unfold:
  "chunk_loop r m out =
     (case chunk_turn r m out of
        Inl res \<Rightarrow> Some res
      | Inr next \<Rightarrow> (case next of (r, m, out) \<Rightarrow> chunk_loop r m out))"
  by (rule chunk_loop.simps)

lemma chunk_loop_next:
  "chunk_turn r m out = Inr (r', m', out') \<Longrightarrow> chunk_loop r m out = chunk_loop r' m' out'"
  by (simp add: chunk_loop_unfold [of r m out])

lemma chunk_loop_returns: "chunk_turn r m out = Inl res \<Longrightarrow> chunk_loop r m out = Some res"
  by (simp add: chunk_loop_unfold [of r m out])

lemma chunk_loop_at:
  "at r d cs \<Longrightarrow> 0 < m \<Longrightarrow> m \<le> length (d @ payloads cs) \<Longrightarrow>
    \<exists>r' d' cs'. chunk_loop r m out = Some (Ready, out @ take m (d @ payloads cs), r')
      \<and> at r' d' cs' \<and> d' @ payloads cs' = drop m (d @ payloads cs)"
proof (induction cs arbitrary: r d m out)
  case Nil
  then have d: "d \<noteq> []" "m \<le> length d" by auto
  from data_turn_at [OF Nil.prems(1) d(1) Nil.prems(2)] obtain r' where r': "at r' (drop m d) []"
    "chunk_turn r m out = Inl (Ready, out @ take m d, r')" using d(2) by auto
  then have "chunk_loop r m out = Some (Ready, out @ take m d, r')" by (simp add: chunk_loop_unfold)
  then show ?case using r'(1) by (intro exI [of _ r'] exI [of _ "drop m d"] exI [of _ "[]"]) simp
next
  case (Cons c cs)
  have header: "\<exists>r' d' cs'. chunk_loop r m out = Some (Ready, out @ take m (payloads (c # cs)), r')
      \<and> at r' d' cs' \<and> d' @ payloads cs' = drop m (payloads (c # cs))"
    if r: "at r [] (c # cs)" and m: "0 < m" "m \<le> length (payloads (c # cs))" for r m out
  proof -
    obtain r' where "chunk_turn r m out = Inr (r', m, out)" "at r' (payload c) cs"
      using header_turn_at [OF r] by blast
    then show ?thesis
      using Cons.IH [of r' "payload c" m out] m by (subst chunk_loop_unfold) simp
  qed
  show ?case
  proof (cases "d = []")
    case True
    then show ?thesis using header [of r m out] Cons.prems by simp
  next
    case False
    obtain r' where r': "at r' (drop m d) (c # cs)"
      "chunk_turn r m out =
         (if m \<le> length d then Inl (Ready, out @ take m d, r') else Inr (r', m - length d, out @ d))"
      using data_turn_at [OF Cons.prems(1) False Cons.prems(2)] by blast
    show ?thesis
    proof (cases "m \<le> length d")
      case True
      then show ?thesis
        using r' by (subst chunk_loop_unfold) (auto intro!: exI [of _ "drop m d"] exI [of _ "c # cs"])
    next
      case False
      then show ?thesis
        using r' header [of r' "m - length d" "out @ d"] Cons.prems(3)
        by (subst chunk_loop_unfold) simp
    qed
  qed
qed

text \<open>The frames a writer leaves for a list of packets, each finished as one chunk.\<close>

definition write_packets :: "byte list list \<Rightarrow> chunk_writer \<Rightarrow> chunk_writer" where
  "write_packets ps w = foldl (\<lambda>w p. finish_chunk (snd (poll_write p w))) w ps"

definition frames :: "byte list list \<Rightarrow> chunk list" where
  "frames ps = concat (map (\<lambda>p. if p = [] then [] else [Chunk p, Terminator]) ps)"

lemma write_packets_wire:
  "wbuffer w = [] \<Longrightarrow> wbuffer (write_packets ps w) = [] \<and> wout (write_packets ps w) = wout w @ wire (frames ps)"
proof (induction ps arbitrary: w)
  case Nil
  then show ?case by (simp add: write_packets_def frames_def)
next
  case (Cons p ps)
  then show ?case
    using Cons.IH [of "finish_chunk (snd (poll_write p w))"]
    by (simp add: write_packets_def frames_def finish_chunk_def poll_write_def)
qed

lemma payloads_frames: "payloads (frames ps) = concat ps"
  by (induction ps) (simp_all add: frames_def)

text \<open>C11. The chunked protocol carries the bytes. The packets given to the writer, each ended
  with \<open>finish_chunk\<close>, put on the wire what the reader, where all of it is available,
  strips to exactly the bytes written: a poll with room for some of them returns these,
  whatever the boundaries of the chunks, and leaves a reader that goes on with the rest.
  Packets are below the limit of the reader (a hundred million bytes).\<close>

theorem chunked_roundtrip:
  assumes "list_all (\<lambda>p. length p \<le> 100000000) ps" and "0 < m" and "m \<le> length (concat ps)"
  shows "\<exists>r' d' cs'.
    chunk_poll_read (new_chunk_reader [Avail (wout (write_packets ps \<lparr>wbuffer = [], wout = []\<rparr>))]) m
      = Some (Ready, take m (concat ps), r')
    \<and> at r' d' cs' \<and> d' @ payloads cs' = drop m (concat ps)"
proof -
  have "list_all chunk_ok (frames ps)"
    using assms(1) by (induction ps) (simp_all add: frames_def)
  moreover have "wire (frames ps) \<noteq> []"
  proof
    assume empty: "wire (frames ps) = []"
    have "0 < length (chunk_bytes c)" for c by (cases c) simp_all
    then have "frames ps = []" using empty by (cases "frames ps") auto
    then have "length (payloads (frames ps)) = 0" by simp
    then show False using assms(2,3) unfolding payloads_frames by linarith
  qed
  ultimately have "at (new_chunk_reader [Avail (wire (frames ps))]) [] (frames ps)"
    by (simp add: at_def new_chunk_reader_def)
  from chunk_loop_at [OF this assms(2), of "[]"] show ?thesis
    using assms(3) write_packets_wire [of "\<lparr>wbuffer = [], wout = []\<rparr>" ps]
    by (simp add: payloads_frames chunk_poll_read_def new_chunk_reader_def)
qed

theorem chunked_roundtrip_witness:
  "\<exists>r' d' cs'.
    chunk_poll_read (new_chunk_reader [Avail (wout (write_packets [[1, 2], [], [3]] \<lparr>wbuffer = [], wout = []\<rparr>))]) 3
      = Some (Ready, take 3 (concat [[1, 2], [], [3]]), r')
    \<and> at r' d' cs' \<and> d' @ payloads cs' = drop 3 (concat [[1, 2], [], [3]])"
  by (rule chunked_roundtrip) simp_all

section \<open>Streams that are not there at once\<close>

lemma padding:
  "replicate 4 (0 :: byte) = [0, 0, 0, 0]" "replicate 3 (0 :: byte) = [0, 0, 0]"
  by (simp_all add: numeral_eq_Suc)

lemma le_bytes_4: "le_bytes 4 n = word_of_nat (n mod 256) # le_bytes 3 (n div 256)"
  using le_bytes.simps(2) [of 3 n] by simp

lemma no_header:
  assumes "chunk_loop r m out = Some res"
  shows "\<not> (state r = Header \<and> inner r = [])"
proof (rule chunk_loop.raw_induct [OF _ assms])
  fix loop r m out res
  assume IH: "\<And>r m out res. loop r m out = Some res \<Longrightarrow> \<not> (state r = Header \<and> inner r = [])"
    and turn: "(case chunk_turn r m out of Inl res \<Rightarrow> Some res
      | Inr (r, m, out) \<Rightarrow> loop r m out) = Some res"
  show "\<not> (state r = Header \<and> inner r = [])"
  proof
    assume r: "state r = Header \<and> inner r = []"
    then have "chunk_turn r m out = Inr (r\<lparr>inner := [], chunk_size := 0\<rparr>, m, out)"
      by (simp add: chunk_turn_def header_turn_def Let_def padding)
    then have "loop (r\<lparr>inner := [], chunk_size := 0\<rparr>) m out = Some res" using turn by simp
    from IH [OF this] r show False by simp
  qed
qed

text \<open>A connection that the server closes between two chunks is never reported. The check
  for an incomplete header tests the length of the array the header is read into, which is
  four whatever was read; at the end of the stream the header reads as four zeros, the
  terminator of a chunk, so the loop goes round and the poll does not return, however often
  it is tried.\<close>

theorem closed_at_header_hangs:
  assumes "buffer_pos r \<ge> length (rbuffer r)" and "state r = Header" and "inner r = []"
  shows "chunk_poll_read r m = None"
proof -
  have "chunk_loop r m [] = None"
    using no_header [of r m "[]"] assms(2,3) by (cases "chunk_loop r m []") auto
  then show ?thesis using assms(1) by (simp add: chunk_poll_read_def)
qed

theorem closed_at_header_hangs_witness: "chunk_poll_read (new_chunk_reader []) 8 = None"
  by (rule closed_at_header_hangs) (simp_all add: new_chunk_reader_def)

text \<open>A poll may answer \<open>Pending\<close> after it has put bytes into the caller's buffer, which
  the contract of a reader forbids: where the caller asks for more than the current chunk
  holds and the next header has not arrived, the payload of the chunk is in the buffer, the
  answer is \<open>Pending\<close>, and the reader no longer has those bytes.\<close>

theorem pending_after_put:
  assumes "d \<noteq> []" and "length d < m" and "length d \<le> 100000000"
  shows "\<exists>r'. chunk_poll_read (new_chunk_reader (Avail (chunk_bytes (Chunk d)) # Wait # src)) m
    = Some (Pending, d, r') \<and> inner r' = src \<and> rbuffer r' = []"
proof -
  define size :: u32 where "size = word_of_nat (length d)"
  have size: "unat size = length d" using assms(3) by (simp add: size_def unat_chunk_size)
  have nz: "size \<noteq> 0" "\<not> size > 100000000"
    using size assms(1,3) by (auto simp: word_less_nat_alt)
  let ?r0 = "new_chunk_reader (Avail (put_u32 size @ d) # Wait # src)"
  let ?r1 = "?r0\<lparr>inner := Avail d # Wait # src, chunk_size := size, state := Data\<rparr>"
  let ?r2 = "?r1\<lparr>inner := Wait # src, chunk_size := 0, state := Header\<rparr>"
  have "chunk_turn ?r0 m [] = Inr (?r1, m, [])"
    using nz assms(1) by (simp add: chunk_turn_def header_turn_def new_chunk_reader_def Let_def
      le_nat_put_u32 [unfolded put_le_def] put_le_def)
  moreover have "chunk_turn ?r1 m [] = Inr (?r2, m - length d, d)"
    using nz assms size by (simp add: chunk_turn_def data_turn_def new_chunk_reader_def Let_def
      min_def size_def [symmetric])
  moreover have "chunk_turn ?r2 (m - length d) d = Inl (Pending, d, ?r2\<lparr>inner := src\<rparr>)"
    by (simp add: chunk_turn_def header_turn_def)
  ultimately have "chunk_loop ?r0 m [] = Some (Pending, d, ?r2\<lparr>inner := src\<rparr>)"
    using chunk_loop_next [of ?r0] chunk_loop_next [of ?r1] chunk_loop_returns [of ?r2] by metis
  then show ?thesis
    by (simp add: chunk_poll_read_def new_chunk_reader_def size_def)
qed

theorem pending_after_put_witness:
  "\<exists>r'. chunk_poll_read (new_chunk_reader (Avail (chunk_bytes (Chunk [7])) # Wait # [])) 4
    = Some (Pending, [7], r') \<and> inner r' = [] \<and> rbuffer r' = []"
  by (rule pending_after_put) simp_all

text \<open>A header that arrives in two parts is misread: the bytes that have come are taken,
  padded with zeros, for the whole size of the chunk, and the rest of the header is handed to
  the caller as payload.\<close>

theorem split_header_misread:
  assumes "length d \<le> 100000000" and "3 \<le> length d mod 256"
  shows "\<exists>r'. chunk_poll_read
      (new_chunk_reader [Avail (take 1 (chunk_bytes (Chunk d))), Avail (drop 1 (chunk_bytes (Chunk d)))]) 3
    = Some (Ready, take 3 (drop 1 (chunk_bytes (Chunk d))), r')"
proof -
  let ?n = "length d" and ?all = "chunk_bytes (Chunk d)"
  let ?b = "word_of_nat (?n mod 256) :: byte"
  define rest where "rest = drop 1 ?all"
  have all: "?all = ?b # rest"
    using assms(1) by (simp add: rest_def put_le_def le_bytes_4 unat_of_nat)
  have rest: "3 \<le> length rest" using assms(1) by (simp add: rest_def)
  let ?size = "word_of_nat (?n mod 256) :: u32"
  have size: "unat ?size = ?n mod 256" by (rule unat_chunk_size) (simp add: less_imp_le)
  have b: "unat ?b = ?n mod 256" by (simp add: unat_of_nat)
  have nz: "?size \<noteq> 0" "\<not> ?size > 100000000"
    using size assms(2) by (auto simp: word_less_nat_alt)
  let ?r0 = "new_chunk_reader [Avail [?b], Avail rest]"
  let ?r1 = "?r0\<lparr>inner := [Avail rest], chunk_size := ?size, state := Data\<rparr>"
  have "chunk_turn ?r0 3 [] = Inr (?r1, 3, [])"
    using nz b by (simp add: chunk_turn_def header_turn_def new_chunk_reader_def Let_def padding)
  moreover obtain r' where "chunk_turn ?r1 3 [] = Inl (Ready, take 3 rest, r')"
  proof -
    have "poll_inner [Avail rest] 3 = (Some (take 3 rest), if drop 3 rest = [] then [] else [Avail (drop 3 rest)])"
      using rest by (intro poll_inner_take) simp_all
    then have "\<exists>r'. chunk_turn ?r1 3 [] = Inl (Ready, take 3 rest, r')"
      using size assms(2) rest
      by (auto simp: chunk_turn_def data_turn_def new_chunk_reader_def Let_def min_def simp del: poll_inner.simps)
    then show ?thesis using that by blast
  qed
  ultimately have "\<exists>r'. chunk_loop ?r0 3 [] = Some (Ready, take 3 rest, r')"
    using chunk_loop_next [of ?r0] chunk_loop_returns [of ?r1] by metis
  then show ?thesis
    unfolding rest_def [symmetric] all by (simp add: chunk_poll_read_def new_chunk_reader_def)
qed

theorem split_header_misread_witness:
  "\<exists>r'. chunk_poll_read
      (new_chunk_reader [Avail (take 1 (chunk_bytes (Chunk [5, 6, 7]))), Avail (drop 1 (chunk_bytes (Chunk [5, 6, 7])))]) 3
    = Some (Ready, take 3 (drop 1 (chunk_bytes (Chunk [5, 6, 7]))), r')"
  by (rule split_header_misread) simp_all

end
