(* ===== verification/Conn.thy ===== *)
theory Conn
  imports Responses ErrorCodes ChunkIO
begin

text \<open>
  The task that owns one connection (client/internal.rs), for the native format: the queue of
  queries, the query that executes, the operations of the clients and the packets of the
  server.

  The senders of channels are numbers; what a step answers on them is a list of effects. The
  queue of operations and the bytes of the server are those still to come, so that the run of
  a connection is a sequence of choices between taking an operation and taking a packet.
\<close>

section \<open>Operations, queries and the connection\<close>

type_synonym sender = nat

datatype operation =
    OpPing sender
  | OpQuery string "settings option" "query_params option" sender "sender option"
  | OpInsert block sender
  | OpInsertMany "block list" sender

datatype message = Operation u128 operation | Shutdown

datatype chunk_boundary = NoBoundary | Flush

datatype operation_task = TChunk chunk_boundary | TPing sender | TShutdown

datatype query_state = QHeader | QInProgress

record executing_query =
  exec_qid :: u128
  exec_state :: query_state
  exec_header :: "(string \<times> ty) list option"
  header_response :: "sender option"
  exec_response :: sender

record pending_query =
  pending_qid :: u128
  query_text :: string
  query_settings :: "settings option"
  query_params :: "query_params option"
  pending_response :: sender
  pending_header :: "sender option"

record internal_conn =
  pending :: "pending_query list"
  executing :: "executing_query option"

definition new_conn :: internal_conn where
  "new_conn = \<lparr>pending = [], executing = None\<rparr>"

text \<open>What the connection was given: the handshake's result, the metadata, the clock.\<close>

record link =
  link_metadata :: metadata
  link_iset :: "val list \<Rightarrow> val list"
  link_floats :: float_text
  link_hello :: server_hello
  link_now :: u64

abbreviation link_revision :: "link \<Rightarrow> nat" where
  "link_revision k \<equiv> unat (revision_version (link_hello k))"

text \<open>What a step does outside of the connection: the answer to a query is the receiving end of
  its data channel, which has the number of the query's sender.\<close>

datatype effect =
    Accepted sender
  | Rejected sender err
  | Inserted sender
  | Ponged sender "unit res"
  | Dropped sender
  | HeaderTo sender "(string \<times> ty) list"
  | DataTo sender block
  | ErrorTo sender err
  | Closed sender
  | ProgressEvent u128 progress
  | ProfileEvent u128 "block option"

section \<open>Writing\<close>

definition conn_send_data :: "link \<Rightarrow> block \<Rightarrow> byte list res" where
  "conn_send_data k b =
     send_data (codec_of (link_metadata k)) (link_iset k) (link_revision k)
       (compression_of (link_metadata k)) b"

definition empty_block :: block where
  "empty_block = \<lparr>info = default_block_info, rows = 0, column_types = [], column_data = []\<rparr>"

definition send_delimiter :: "link \<Rightarrow> byte list res" where
  "send_delimiter k = conn_send_data k empty_block"

definition request_of :: "link \<Rightarrow> pending_query \<Rightarrow> request" where
  "request_of k q =
     \<lparr>request_id = pending_qid q, request_info = default_client_info (link_now k),
      request_settings = query_settings q, request_stage = Complete,
      request_text = query_text q, request_params = query_params q\<rparr>"

text \<open>
  The result of a handler: the connection after it, the bytes it has written, its effects and
  how it ended. The bytes of a write that failed half-way are not kept: the task ends then.
\<close>

type_synonym 'a handled = "internal_conn \<times> byte list \<times> effect list \<times> 'a res"

definition start_query :: "pending_query \<Rightarrow> executing_query" where
  "start_query q =
     \<lparr>exec_qid = pending_qid q, exec_state = QHeader, exec_header = None,
      header_response = pending_header q, exec_response = pending_response q\<rparr>"

text \<open>\<open>None\<close>: the call does not return.\<close>

definition conn_send_query :: "link \<Rightarrow> internal_conn \<Rightarrow> pending_query \<Rightarrow> unit handled option" where
  "conn_send_query k c q =
     (case send_query (link_floats k) (compression_of (link_metadata k)) (link_revision k)
             (hello_settings (link_hello k)) (request_of k q) of
        None \<Rightarrow> None
      | Some (Inl e) \<Rightarrow> Some (c, [], [Rejected (pending_response q) ClientErr], Inl e)
      | Some (Inr bs) \<Rightarrow>
          (let c = c\<lparr>executing := Some (start_query q)\<rparr>;
               accepted = [Accepted (pending_response q)] in
           case send_delimiter k of
             Inl e \<Rightarrow> Some (c, bs, accepted, Inl e)
           | Inr delimiter \<Rightarrow> Some (c, bs @ delimiter, accepted, Inr ())))"

datatype insert_state = InsertData block | InsertBatch "block list"

fun send_blocks :: "link \<Rightarrow> block list \<Rightarrow> byte list res" where
  "send_blocks k [] = Inr []"
| "send_blocks k (b # bs) =
     rbind (conn_send_data k b) (\<lambda>x. rbind (send_blocks k bs) (\<lambda>xs. Inr (x @ xs)))"

definition send_insert :: "link \<Rightarrow> insert_state \<Rightarrow> byte list res" where
  "send_insert k i =
     (case i of
        InsertData b \<Rightarrow> rbind (conn_send_data k b) (\<lambda>x. rbind (send_delimiter k) (\<lambda>d. Inr (x @ d)))
      | InsertBatch bs \<Rightarrow>
          rbind (if bs = [] then Inr [] else send_blocks k bs) (\<lambda>x.
            rbind (send_delimiter k) (\<lambda>d. Inr (x @ d))))"

section \<open>Operations\<close>

definition idle :: "internal_conn \<Rightarrow> bool" where
  "idle c \<longleftrightarrow> pending c = [] \<and> executing c = None"

text \<open>The end of an insert: the error goes to the query that executes, the sender is dropped.\<close>

definition finish_insert ::
  "internal_conn \<Rightarrow> sender \<Rightarrow> byte list res \<Rightarrow> operation_task handled" where
  "finish_insert c response result =
     (case result of
        Inl e \<Rightarrow>
          (c, [], (case executing c of None \<Rightarrow> [] | Some x \<Rightarrow> [ErrorTo (exec_response x) ClientErr])
                  @ [Dropped response], Inl e)
      | Inr bs \<Rightarrow> (c, bs, [Inserted response], Inr (TChunk Flush)))"

definition handle_operation ::
  "link \<Rightarrow> internal_conn \<Rightarrow> operation \<Rightarrow> u128 \<Rightarrow> operation_task handled option" where
  "handle_operation k c op qid =
     (case op of
        OpPing response \<Rightarrow>
          Some (if idle c then (c, send_ping, [], Inr (TPing response))
                else (c, [], [Dropped response], Inr (TChunk NoBoundary)))
      | OpQuery query settings params response header \<Rightarrow>
          (let q = \<lparr>pending_qid = qid, query_text = query, query_settings = settings,
                    query_params = params, pending_response = response,
                    pending_header = header\<rparr> in
           if idle c then
             map_option (\<lambda>(c, bs, effs, r). (c, bs, effs, rbind r (\<lambda>_. Inr (TChunk Flush))))
               (conn_send_query k c q)
           else Some (c\<lparr>pending := pending c @ [q]\<rparr>, [], [], Inr (TChunk NoBoundary)))
      | OpInsert block response \<Rightarrow>
          Some (finish_insert c response (send_insert k (InsertData block)))
      | OpInsertMany blocks response \<Rightarrow>
          Some (finish_insert c response (send_insert k (InsertBatch blocks))))"

section \<open>Packets\<close>

text \<open>A query that is dropped closes its channels.\<close>

definition drop_query :: "executing_query \<Rightarrow> effect list" where
  "drop_query x =
     (case header_response x of None \<Rightarrow> [] | Some h \<Rightarrow> [Dropped h]) @ [Closed (exec_response x)]"

definition handle_packet ::
  "internal_conn \<Rightarrow> executing_query \<Rightarrow> server_packet \<Rightarrow> internal_conn \<times> effect list \<times> unit res" where
  "handle_packet c x p =
     (case p of
        SHeader b \<Rightarrow>
          (c\<lparr>executing := Some (x\<lparr>exec_state := QInProgress, exec_header := Some (column_types b),
                                 header_response := None\<rparr>)\<rparr>,
           (case header_response x of None \<Rightarrow> [] | Some h \<Rightarrow> [HeaderTo h (column_types b)]), Inr ())
      | SData b \<Rightarrow> (c, [DataTo (exec_response x) b], Inr ())
      | SProfileEvents e \<Rightarrow> (c, [ProfileEvent (exec_qid x) e], Inr ())
      | SProgress p \<Rightarrow> (c, [ProgressEvent (exec_qid x) p], Inr ())
      | SException e \<Rightarrow>
          (c\<lparr>executing := None\<rparr>, ErrorTo (exec_response x) ServerExceptionErr # drop_query x,
           if is_fatal (sint (code e)) then Inl ServerExceptionErr else Inr ())
      | SEndOfStream \<Rightarrow> (c\<lparr>executing := None\<rparr>, drop_query x, Inr ())
      | _ \<Rightarrow> (c, [], Inr ()))"

definition next_packet :: "link \<Rightarrow> executing_query \<Rightarrow> server_packet reader" where
  "next_packet k x s =
     (if exec_state x = QHeader then receive_header (link_metadata k) (link_revision k) s
      else receive_packet (link_metadata k) (link_revision k) s)"

definition conn_receive_packet ::
  "link \<Rightarrow> internal_conn \<Rightarrow> byte list \<Rightarrow> internal_conn \<times> effect list \<times> byte list res" where
  "conn_receive_packet k c s =
     (case executing c of
        None \<Rightarrow> (c, [], Inl Protocol)
      | Some x \<Rightarrow>
          (case next_packet k x s of
             Inl e \<Rightarrow> (c, [], Inl e)
           | Inr (p, s) \<Rightarrow>
               (case handle_packet c x p of (c, effs, r) \<Rightarrow> (c, effs, rbind r (\<lambda>_. Inr s)))))"

text \<open>
  \<open>receive_ping\<close>: one packet, which has to be a pong. \<open>lost\<close> is where a read that fails
  leaves the stream.
\<close>

definition receive_ping :: "link \<Rightarrow> byte list \<Rightarrow> byte list \<Rightarrow> unit res \<times> byte list" where
  "receive_ping k lost s =
     (case receive_packet (link_metadata k) (link_revision k) s of
        Inl e \<Rightarrow> (Inl e, lost)
      | Inr (p, s) \<Rightarrow> (case p of SPong \<Rightarrow> Inr () | _ \<Rightarrow> Inl Protocol, s))"

section \<open>The loop\<close>

datatype run_status = Running | Ended "unit res"

record config =
  conn :: internal_conn
  inbox :: "message list"
  incoming :: "byte list"
  outgoing :: chunk_writer
  status :: run_status

definition start_config :: "message list \<Rightarrow> byte list \<Rightarrow> config" where
  "start_config ms s =
     \<lparr>conn = new_conn, inbox = ms, incoming = s, outgoing = \<lparr>wbuffer = [], wout = []\<rparr>,
      status = Running\<rparr>"

text \<open>\<open>run\<close> writes to the stream; \<open>run_chunked\<close> through the chunk writer, which it finishes at a
  boundary and after a ping.\<close>

definition put_out :: "bool \<Rightarrow> byte list \<Rightarrow> chunk_writer \<Rightarrow> chunk_writer" where
  "put_out chunked bs w =
     (if chunked then snd (poll_write bs w) else w\<lparr>wout := wout w @ bs\<rparr>)"

definition finish_turn :: "bool \<Rightarrow> operation_task \<Rightarrow> chunk_writer \<Rightarrow> chunk_writer" where
  "finish_turn chunked task w =
     (if \<not> chunked then w
      else case task of
             TChunk Flush \<Rightarrow> finish_chunk w
           | TChunk NoBoundary \<Rightarrow> w
           | TPing _ \<Rightarrow> finish_chunk w
           | TShutdown \<Rightarrow> w)"

text \<open>The end of the task drops the connection: its query and the queries that wait.\<close>

definition drop_conn :: "internal_conn \<Rightarrow> effect list" where
  "drop_conn c =
     (case executing c of None \<Rightarrow> [] | Some x \<Rightarrow> drop_query x)
     @ map (\<lambda>q. Dropped (pending_response q)) (pending c)"

definition end_run :: "effect list \<Rightarrow> unit res \<Rightarrow> config \<Rightarrow> effect list \<times> config" where
  "end_run effs r g = (effs @ drop_conn (conn g), g\<lparr>status := Ended r\<rparr>)"

text \<open>
  A turn that takes the first operation; \<open>s\<close> is what is left of the server's bytes.
  \<open>None\<close>: there is no operation, or it does not return.
\<close>

definition operation_turn ::
  "link \<Rightarrow> bool \<Rightarrow> byte list \<Rightarrow> byte list \<Rightarrow> config \<Rightarrow> (effect list \<times> config) option" where
  "operation_turn k chunked s lost g =
     (case inbox g of
        [] \<Rightarrow> None
      | Shutdown # ms \<Rightarrow> Some (end_run [] (Inr ()) (g\<lparr>inbox := ms, incoming := s\<rparr>))
      | Operation qid op # ms \<Rightarrow>
          (case handle_operation k (conn g) op qid of
             None \<Rightarrow> None
           | Some (c, bs, effs, r) \<Rightarrow>
               (let g = g\<lparr>conn := c, inbox := ms, incoming := s\<rparr> in
                case r of
                  Inl e \<Rightarrow> Some (end_run effs (Inl e) g)
                | Inr task \<Rightarrow>
                    (let g = g\<lparr>outgoing := finish_turn chunked task (put_out chunked bs (outgoing g))\<rparr> in
                     case task of
                       TPing response \<Rightarrow>
                         (case receive_ping k lost s of
                            (res, s) \<Rightarrow> Some (effs @ [Ponged response res], g\<lparr>incoming := s\<rparr>))
                     | _ \<Rightarrow> Some (effs, g)))))"

text \<open>A turn that takes a packet, and starts the next query where that ends the current one.\<close>

definition packet_turn :: "link \<Rightarrow> bool \<Rightarrow> config \<Rightarrow> (effect list \<times> config) option" where
  "packet_turn k chunked g =
     (case conn_receive_packet k (conn g) (incoming g) of
        (c, effs, Inl e) \<Rightarrow> Some (end_run effs (Inl e) (g\<lparr>conn := c\<rparr>))
      | (c, effs, Inr s) \<Rightarrow>
          (let g = g\<lparr>conn := c, incoming := s\<rparr> in
           case (executing c, pending c) of
             (None, q # qs) \<Rightarrow>
               (case conn_send_query k (c\<lparr>pending := qs\<rparr>) q of
                  None \<Rightarrow> None
                | Some (c, bs, sent, Inl e) \<Rightarrow> Some (end_run (effs @ sent) (Inl e) (g\<lparr>conn := c\<rparr>))
                | Some (c, bs, sent, Inr _) \<Rightarrow>
                    Some (effs @ sent, g\<lparr>conn := c,
                      outgoing := finish_turn chunked (TChunk Flush) (put_out chunked bs (outgoing g))\<rparr>))
           | _ \<Rightarrow> Some (effs, g)))"

text \<open>
  The turn waits for an operation and a packet at once, and drops the wait that did not win
  (\<open>tokio::select!\<close>). A read of a packet that is dropped has consumed what it had read: any
  bytes of the packet but not all, or all of a packet whose content waits for room in the
  query's channel.
\<close>

definition awaits :: "server_packet \<Rightarrow> bool" where
  "awaits p \<longleftrightarrow> (case p of SData _ \<Rightarrow> True | SException _ \<Rightarrow> True | _ \<Rightarrow> False)"

definition cancelled :: "link \<Rightarrow> internal_conn \<Rightarrow> byte list \<Rightarrow> byte list \<Rightarrow> bool" where
  "cancelled k c s s' \<longleftrightarrow>
     (case executing c of
        None \<Rightarrow> s' = s
      | Some x \<Rightarrow>
          suffix s' s
          \<and> (case next_packet k x s of
               Inl e \<Rightarrow> True
             | Inr (p, r) \<Rightarrow> length r < length s' \<or> s' = r \<and> awaits p))"

inductive conn_step :: "link \<Rightarrow> bool \<Rightarrow> config \<Rightarrow> effect list \<Rightarrow> config \<Rightarrow> bool"
  for k :: link and chunked :: bool where
  take_operation:
    "status g = Running \<Longrightarrow> cancelled k (conn g) (incoming g) s \<Longrightarrow> suffix lost s \<Longrightarrow>
       operation_turn k chunked s lost g = Some (effs, g') \<Longrightarrow> conn_step k chunked g effs g'"
| take_packet:
    "status g = Running \<Longrightarrow> executing (conn g) \<noteq> None \<Longrightarrow>
       packet_turn k chunked g = Some (effs, g') \<Longrightarrow> conn_step k chunked g effs g'"
| no_sender:
    "status g = Running \<Longrightarrow> executing (conn g) = None \<Longrightarrow> inbox g = [] \<Longrightarrow>
       conn_step k chunked g [] g"

inductive conn_run :: "link \<Rightarrow> bool \<Rightarrow> config \<Rightarrow> effect list \<Rightarrow> config \<Rightarrow> bool"
  for k :: link and chunked :: bool and g0 :: config where
  run_start: "conn_run k chunked g0 [] g0"
| run_step: "conn_run k chunked g0 effs g \<Longrightarrow> conn_step k chunked g es g' \<Longrightarrow>
    conn_run k chunked g0 (effs @ es) g'"

section \<open>What a run promises\<close>

text \<open>
  The specification of the effects: at any time at most one query is answered, between the
  moment it is accepted and the moment its channel is closed, and data and errors go to that
  query only. \<open>flow\<close> follows the current query through the effects; \<open>None\<close> is a violation.
\<close>

definition effect_step :: "sender option \<Rightarrow> effect \<Rightarrow> sender option option" where
  "effect_step cur e =
     (case e of
        Accepted r \<Rightarrow> if cur = None then Some (Some r) else None
      | DataTo r _ \<Rightarrow> if cur = Some r then Some cur else None
      | ErrorTo r _ \<Rightarrow> if cur = Some r then Some cur else None
      | Closed r \<Rightarrow> if cur = Some r then Some None else None
      | _ \<Rightarrow> Some cur)"

fun flow :: "sender option \<Rightarrow> effect list \<Rightarrow> sender option option" where
  "flow cur [] = Some cur"
| "flow cur (e # es) = (case effect_step cur e of None \<Rightarrow> None | Some cur \<Rightarrow> flow cur es)"

lemma flow_append: "flow cur (xs @ ys) = (case flow cur xs of None \<Rightarrow> None | Some cur \<Rightarrow> flow cur ys)"
  by (induction xs arbitrary: cur) (simp_all split: option.split)

lemma effect_step_simps [simp]:
  "effect_step None (Accepted r) = Some (Some r)"
  "effect_step (Some r) (DataTo r b) = Some (Some r)"
  "effect_step (Some r) (ErrorTo r e) = Some (Some r)"
  "effect_step (Some r) (Closed r) = Some None"
  "effect_step cur (Rejected r e) = Some cur"
  "effect_step cur (Inserted r) = Some cur"
  "effect_step cur (Ponged r res) = Some cur"
  "effect_step cur (Dropped r) = Some cur"
  "effect_step cur (HeaderTo r h) = Some cur"
  "effect_step cur (ProgressEvent q p) = Some cur"
  "effect_step cur (ProfileEvent q ev) = Some cur"
  by (simp_all add: effect_step_def)

text \<open>The queries in the order in which they are accepted, and those still to be.\<close>

fun accepted :: "effect list \<Rightarrow> sender list" where
  "accepted [] = []"
| "accepted (Accepted r # es) = r # accepted es"
| "accepted (_ # es) = accepted es"

lemma accepted_append [simp]: "accepted (xs @ ys) = accepted xs @ accepted ys"
  by (induction xs rule: accepted.induct) simp_all

fun queries :: "message list \<Rightarrow> sender list" where
  "queries [] = []"
| "queries (Operation _ (OpQuery _ _ _ r _) # ms) = r # queries ms"
| "queries (_ # ms) = queries ms"

definition current :: "internal_conn \<Rightarrow> sender option" where
  "current c = map_option exec_response (executing c)"

definition waiting :: "config \<Rightarrow> sender list" where
  "waiting g = map pending_response (pending (conn g)) @ queries (inbox g)"

definition queue_ok :: "internal_conn \<Rightarrow> bool" where
  "queue_ok c \<longleftrightarrow> (executing c = None \<longrightarrow> pending c = [])"

text \<open>What one turn keeps.\<close>

definition turn_ok :: "config \<Rightarrow> effect list \<Rightarrow> config \<Rightarrow> bool" where
  "turn_ok g effs g' \<longleftrightarrow>
     (if status g' = Running then
        queue_ok (conn g') \<and> wbuffer (outgoing g') = []
        \<and> flow (current (conn g)) effs = Some (current (conn g'))
        \<and> accepted effs @ waiting g' = waiting g
      else flow (current (conn g)) effs = Some None \<and> prefix (accepted effs) (waiting g))"

lemma flow_drop_query: "flow (Some (exec_response x)) (drop_query x) = Some None"
  by (cases "header_response x") (simp_all add: drop_query_def)

lemma accepted_drop_query [simp]: "accepted (drop_query x) = []"
  by (cases "header_response x") (simp_all add: drop_query_def)

lemma flow_dropped: "flow cur (map (\<lambda>q. Dropped (f q)) qs) = Some cur"
  by (induction qs) simp_all

lemma accepted_dropped [simp]: "accepted (map (\<lambda>q. Dropped (f q)) qs) = []"
  by (induction qs) simp_all

lemma flow_drop_conn: "flow (current c) (drop_conn c) = Some None"
  by (cases "executing c")
    (simp_all add: drop_conn_def current_def flow_append flow_dropped flow_drop_query)

lemma accepted_drop_conn [simp]: "accepted (drop_conn c) = []"
  by (cases "executing c") (simp_all add: drop_conn_def)

lemma end_run_ok:
  assumes "flow (current (conn g)) effs = Some (current (conn h))" "prefix (accepted effs) (waiting g)"
    and "end_run effs r h = (effs', g')"
  shows "turn_ok g effs' g'"
  using assms flow_drop_conn [of "conn h"]
  by (auto simp: end_run_def turn_ok_def flow_append)

lemma wbuffer_flushed [simp]: "wbuffer (finish_chunk w) = []"
  by (simp add: finish_chunk_def)

lemma wbuffer_put_out:
  "wbuffer w = [] \<Longrightarrow> wbuffer (put_out chunked bs w) = (if chunked then bs else [])"
  by (simp add: put_out_def poll_write_def)

lemma conn_send_query_cases:
  assumes "conn_send_query k c q = Some (c', bs, effs, r)"
  obtains (sent) "r = Inr ()" "c' = c\<lparr>executing := Some (start_query q)\<rparr>" "effs = [Accepted (pending_response q)]"
    | (half_sent) e where "r = Inl e" "c' = c\<lparr>executing := Some (start_query q)\<rparr>" "effs = [Accepted (pending_response q)]"
    | (failed) e where "r = Inl e" "c' = c" "effs = [Rejected (pending_response q) ClientErr]"
  using assms
  by (auto simp: conn_send_query_def Let_def split: option.splits sum.splits)

lemma current_started [simp]:
  "current (c\<lparr>executing := Some (start_query q)\<rparr>) = Some (pending_response q)"
  by (simp add: current_def start_query_def)

lemma idle_queue: "queue_ok c \<Longrightarrow> idle c \<longleftrightarrow> executing c = None"
  by (auto simp: idle_def queue_ok_def)

lemma current_idle: "executing c = None \<Longrightarrow> current c = None"
  by (simp add: current_def)

text \<open>An operation keeps the connection's promises, whether it is sent, queued or refused.\<close>

lemma handle_operation_ok:
  assumes "handle_operation k c op qid = Some (c', bs, effs, r)" and "queue_ok c"
  shows "flow (current c) effs = Some (current c')
    \<and> accepted effs @ map pending_response (pending c') = map pending_response (pending c) @ queries [Operation qid op]
    \<or> (\<exists>e. r = Inl e) \<and> flow (current c) effs = Some (current c') \<and> accepted effs = []
      \<and> pending c' = pending c"
    and "queue_ok c'" and "r = Inr (TChunk NoBoundary) \<Longrightarrow> bs = []" and "r \<noteq> Inr TShutdown"
    and "r = Inr (TPing p) \<Longrightarrow> executing c' = None"
proof -
  note ok = idle_queue [OF assms(2)]
  have "(flow (current c) effs = Some (current c')
      \<and> accepted effs @ map pending_response (pending c') = map pending_response (pending c) @ queries [Operation qid op]
      \<or> (\<exists>e. r = Inl e) \<and> flow (current c) effs = Some (current c') \<and> accepted effs = []
        \<and> pending c' = pending c)
    \<and> queue_ok c' \<and> (r = Inr (TChunk NoBoundary) \<longrightarrow> bs = []) \<and> r \<noteq> Inr TShutdown
    \<and> (\<forall>p. r = Inr (TPing p) \<longrightarrow> executing c' = None)"
  proof (cases op)
    case (OpPing response)
    then show ?thesis
      using assms ok by (auto simp: handle_operation_def split: if_splits)
  next
    case (OpQuery query settings params response header)
    let ?q = "\<lparr>pending_qid = qid, query_text = query, query_settings = settings,
      query_params = params, pending_response = response, pending_header = header\<rparr>"
    show ?thesis
    proof (cases "idle c")
      case True
      then have c: "executing c = None" "pending c = []" by (simp_all add: idle_def)
      obtain r' where r': "conn_send_query k c ?q = Some (c', bs, effs, r')" "r = rbind r' (\<lambda>_. Inr (TChunk Flush))"
        using assms(1) True OpQuery by (auto simp: handle_operation_def)
      from r'(1) show ?thesis
        by (cases rule: conn_send_query_cases)
          (simp_all add: r'(2) c OpQuery current_idle queue_ok_def start_query_def current_def)
    next
      case False
      then show ?thesis
        using assms ok OpQuery
        by (auto simp: handle_operation_def Let_def queue_ok_def current_def)
    qed
  next
    case (OpInsert block response)
    then show ?thesis
      using assms
      by (auto simp: handle_operation_def finish_insert_def current_def split: sum.splits option.splits)
  next
    case (OpInsertMany blocks response)
    then show ?thesis
      using assms
      by (auto simp: handle_operation_def finish_insert_def current_def split: sum.splits option.splits)
  qed
  then show "flow (current c) effs = Some (current c')
    \<and> accepted effs @ map pending_response (pending c') = map pending_response (pending c) @ queries [Operation qid op]
    \<or> (\<exists>e. r = Inl e) \<and> flow (current c) effs = Some (current c') \<and> accepted effs = []
      \<and> pending c' = pending c" and "queue_ok c'" "r = Inr (TChunk NoBoundary) \<Longrightarrow> bs = []" "r \<noteq> Inr TShutdown"
    "r = Inr (TPing p) \<Longrightarrow> executing c' = None"
    by blast+
qed

lemma queries_Operation: "queries (Operation qid op # ms) = queries [Operation qid op] @ queries ms"
  by (cases op) simp_all

lemma operation_turn_ok:
  assumes "operation_turn k chunked s lost g = Some (effs, g')"
    and "status g = Running" "queue_ok (conn g)" "wbuffer (outgoing g) = []"
  shows "turn_ok g effs g'"
proof (cases "inbox g")
  case (Cons m ms)
  show ?thesis
  proof (cases m)
    case Shutdown
    have "end_run [] (Inr ()) (g\<lparr>inbox := ms, incoming := s\<rparr>) = (effs, g')"
      using assms(1) Cons Shutdown by (simp add: operation_turn_def)
    then show ?thesis by (rule end_run_ok [rotated 2]) (simp_all add: waiting_def)
  next
    case (Operation qid op)
    obtain c bs es r where h: "handle_operation k (conn g) op qid = Some (c, bs, es, r)"
      using assms(1) Cons Operation by (auto simp: operation_turn_def split: option.splits)
    note ok = handle_operation_ok [OF h assms(3)]
    have w: "waiting g = map pending_response (pending (conn g)) @ queries [Operation qid op] @ queries ms"
      by (simp add: waiting_def Cons Operation queries_Operation [of qid op ms])
    show ?thesis
    proof (cases r)
      case (Inl e)
      have "end_run es (Inl e) (g\<lparr>conn := c, inbox := ms, incoming := s\<rparr>) = (effs, g')"
        using assms(1) Cons Operation h Inl by (simp add: operation_turn_def)
      moreover have "prefix (accepted es) (waiting g)"
      proof (cases "accepted es = []")
        case False
        then have "map pending_response (pending (conn g)) @ queries [Operation qid op]
            = accepted es @ map pending_response (pending c)" using ok(1) by auto
        then show ?thesis unfolding w by (metis append_assoc prefixI)
      qed simp
      moreover have "flow (current (conn g)) es = Some (current c)" using ok(1) by auto
      ultimately show ?thesis by (intro end_run_ok) simp_all
    next
      case (Inr task)
      let ?w = "finish_turn chunked task (put_out chunked bs (outgoing g))"
      have g': "conn g' = c" "inbox g' = ms" "outgoing g' = ?w" "status g' = Running"
          "accepted effs = accepted es" "flow (current (conn g)) effs = flow (current (conn g)) es"
        using assms(1,2) Cons Operation h Inr
        by (auto simp: operation_turn_def Let_def flow_append split: operation_task.splits prod.splits option.splits)
      have "wbuffer ?w = []"
        using assms(4) ok(3,4) Inr
        by (auto simp: finish_turn_def wbuffer_put_out split: operation_task.splits chunk_boundary.splits)
      moreover have "accepted effs @ waiting g' = waiting g"
        unfolding w using ok(1) Inr g' by (auto simp: waiting_def)
      ultimately show ?thesis using ok(1,2) Inr g' by (auto simp: turn_ok_def)
    qed
  qed
qed (use assms in \<open>simp add: operation_turn_def\<close>)

text \<open>So does a packet: its effects are the current query's.\<close>

lemma handle_packet_ok:
  assumes "handle_packet c x p = (c', effs, r)" and "executing c = Some x"
  shows "flow (Some (exec_response x)) effs = Some (current c') \<and> accepted effs = [] \<and> pending c' = pending c"
  using assms flow_drop_query [of x]
  by (cases p) (auto simp: handle_packet_def current_def split: option.splits)

lemma receive_packet_ok:
  assumes "conn_receive_packet k c s = (c', effs, r)"
  shows "flow (current c) effs = Some (current c') \<and> accepted effs = [] \<and> pending c' = pending c"
proof (cases "executing c")
  case None
  then show ?thesis using assms by (auto simp: conn_receive_packet_def)
next
  case (Some x)
  then have "current c = Some (exec_response x)" by (simp add: current_def)
  then show ?thesis
    using assms Some handle_packet_ok [OF _ Some]
    by (auto simp: conn_receive_packet_def current_def split: sum.splits prod.splits)
qed

lemma packet_turn_ok:
  assumes "packet_turn k chunked g = Some (effs, g')"
    and "status g = Running" "wbuffer (outgoing g) = []"
  shows "turn_ok g effs g'"
proof -
  obtain c es r where recv: "conn_receive_packet k (conn g) (incoming g) = (c, es, r)"
    by (cases "conn_receive_packet k (conn g) (incoming g)")
  note ok = receive_packet_ok [OF recv]
  show ?thesis
  proof (cases r)
    case (Inl e)
    have "end_run es (Inl e) (g\<lparr>conn := c\<rparr>) = (effs, g')"
      using assms(1) recv Inl by (simp add: packet_turn_def)
    then show ?thesis using ok by (intro end_run_ok) simp_all
  next
    case (Inr s)
    show ?thesis
    proof (cases "executing c = None \<and> pending c \<noteq> []")
      case False
      then have "effs = es \<and> g' = g\<lparr>conn := c, incoming := s\<rparr>"
        using assms(1) recv Inr
        by (auto simp: packet_turn_def Let_def split: option.splits list.splits)
      then show ?thesis
        using ok assms(2,3) False by (auto simp: turn_ok_def queue_ok_def waiting_def)
    next
      case True
      then obtain q qs where q: "pending c = q # qs" by (auto simp: neq_Nil_conv)
      let ?g = "g\<lparr>conn := c, incoming := s\<rparr>"
      obtain c' bs sent r' where sent: "conn_send_query k (c\<lparr>pending := qs\<rparr>) q = Some (c', bs, sent, r')"
        using assms(1) recv Inr True q
        by (auto simp: packet_turn_def Let_def split: option.splits)
      have idle: "flow (current (conn g)) es = Some None" "accepted es = []"
        using ok True by (simp_all add: current_def)
      have pend: "pending (conn g) = q # qs" using ok q by simp
      then have w: "waiting g = pending_response q # map pending_response qs @ queries (inbox g)"
        by (simp add: waiting_def)
      have turn: "(effs, g') = (case r' of
          Inl e \<Rightarrow> end_run (es @ sent) (Inl e) (?g\<lparr>conn := c'\<rparr>)
        | Inr _ \<Rightarrow> (es @ sent, ?g\<lparr>conn := c',
            outgoing := finish_turn chunked (TChunk Flush) (put_out chunked bs (outgoing g))\<rparr>))"
        using assms(1) recv Inr True q sent
        by (auto simp: packet_turn_def Let_def split: sum.splits)
      from sent show ?thesis
      proof (cases rule: conn_send_query_cases)
        case sent
        then show ?thesis
          using turn idle assms(2,3)
          by (auto simp: turn_ok_def queue_ok_def flow_append finish_turn_def put_out_def pend waiting_def current_def start_query_def)
      next
        case (half_sent e)
        then have "end_run (es @ sent) (Inl e) (?g\<lparr>conn := c'\<rparr>) = (effs, g')" using turn by simp
        then show ?thesis
          using half_sent idle by (intro end_run_ok) (simp_all add: flow_append w)
      next
        case (failed e)
        then have "end_run (es @ sent) (Inl e) (?g\<lparr>conn := c'\<rparr>) = (effs, g')" using turn by simp
        then show ?thesis
          using failed idle True by (intro end_run_ok) (simp_all add: flow_append current_def)
      qed
    qed
  qed
qed

lemma conn_step_ok:
  assumes "conn_step k chunked g effs g'" and "queue_ok (conn g)" "wbuffer (outgoing g) = []"
  shows "turn_ok g effs g'"
  using assms
proof (cases rule: conn_step.cases)
  case (take_operation s lost)
  then show ?thesis using assms by (intro operation_turn_ok) auto
next
  case take_packet
  then show ?thesis using assms by (intro packet_turn_ok) auto
next
  case no_sender
  then show ?thesis using assms by (simp add: turn_ok_def)
qed

lemma ended_stays: "conn_step k chunked g effs g' \<Longrightarrow> status g = Running"
  by (cases rule: conn_step.cases) auto

text \<open>The invariant of a run from the start.\<close>

definition run_ok :: "sender list \<Rightarrow> effect list \<Rightarrow> config \<Rightarrow> bool" where
  "run_ok asked effs g \<longleftrightarrow>
     (if status g = Running then
        queue_ok (conn g) \<and> wbuffer (outgoing g) = []
        \<and> flow None effs = Some (current (conn g)) \<and> accepted effs @ waiting g = asked
      else flow None effs = Some None \<and> prefix (accepted effs) asked)"

lemma conn_run_ok: "conn_run k chunked (start_config ms s) effs g \<Longrightarrow> run_ok (queries ms) effs g"
proof (induction rule: conn_run.induct)
  case run_start
  then show ?case
    by (simp add: run_ok_def start_config_def new_conn_def queue_ok_def current_def waiting_def)
next
  case (run_step effs g es g')
  have "turn_ok g es g'"
    using run_step ended_stays [OF run_step(2)] by (intro conn_step_ok [OF run_step(2)]) (simp_all add: run_ok_def)
  then show ?case
    using run_step.IH ended_stays [OF run_step(2)]
    by (auto simp: turn_ok_def run_ok_def flow_append prefix_def split: if_splits) metis
qed

text \<open>C6. The queue of a connection is first in, first out, and nothing is lost or duplicated in
  it: at every moment of a run, the queries accepted so far, then those that wait, then those
  not yet taken are the queries asked, in the order in which they were asked; when the run
  has ended, the accepted ones are the first of them.\<close>

theorem queries_in_order:
  assumes "conn_run k chunked (start_config ms s) effs g"
  shows "if status g = Running
    then accepted effs @ map pending_response (pending (conn g)) @ queries (inbox g) = queries ms
    else prefix (accepted effs) (queries ms)"
  using conn_run_ok [OF assms] by (auto simp: run_ok_def waiting_def split: if_splits)

text \<open>C2. Answers never cross: over a whole run the effects follow the discipline of one query at
  a time. A query is accepted only when no other is being answered; data and errors go only
  to the query that was accepted last and whose channel is open; and the channel of every
  accepted query is closed, at the latest when the run ends.\<close>

theorem answers_do_not_cross:
  assumes "conn_run k chunked (start_config ms s) effs g"
  shows "flow None effs = Some (if status g = Running then map_option exec_response (executing (conn g)) else None)"
  using conn_run_ok [OF assms] by (auto simp: run_ok_def current_def split: if_splits)

text \<open>C13. A running connection never leaves a query waiting while it has nothing to execute, and
  never leaves bytes of a chunk behind a turn: in the chunked protocol the writer is finished
  at the end of every turn that wrote.\<close>

theorem run_invariant:
  assumes "conn_run k chunked (start_config ms s) effs g" and "status g = Running"
  shows "(pending (conn g) \<noteq> [] \<longrightarrow> executing (conn g) \<noteq> None) \<and> wbuffer (outgoing g) = []"
  using conn_run_ok [OF assms(1)] assms(2) by (auto simp: run_ok_def queue_ok_def)

section \<open>Delivering an answer\<close>

fun packet_turns :: "link \<Rightarrow> bool \<Rightarrow> nat \<Rightarrow> config \<Rightarrow> (effect list \<times> config) option" where
  "packet_turns k chunked 0 g = Some ([], g)"
| "packet_turns k chunked (Suc n) g =
     (case packet_turn k chunked g of
        None \<Rightarrow> None
      | Some (effs, g) \<Rightarrow> map_option (\<lambda>(es, g). (effs @ es, g)) (packet_turns k chunked n g))"

text \<open>What the answered query gets for the packets that leave it running.\<close>

definition carries_on :: "server_packet \<Rightarrow> bool" where
  "carries_on p \<longleftrightarrow> (case p of SException _ \<Rightarrow> False | SEndOfStream \<Rightarrow> False | SHeader _ \<Rightarrow> False | _ \<Rightarrow> True)"

definition answer :: "executing_query \<Rightarrow> server_packet \<Rightarrow> effect list" where
  "answer x p =
     (case p of
        SData b \<Rightarrow> [DataTo (exec_response x) b]
      | SProfileEvents e \<Rightarrow> [ProfileEvent (exec_qid x) e]
      | SProgress i \<Rightarrow> [ProgressEvent (exec_qid x) i]
      | _ \<Rightarrow> [])"

fun answer_bytes :: "link \<Rightarrow> server_packet list \<Rightarrow> byte list res" where
  "answer_bytes k [] = packet_bytes (link_metadata k) (link_iset k) (link_revision k) SEndOfStream"
| "answer_bytes k (p # ps) =
     rbind (packet_bytes (link_metadata k) (link_iset k) (link_revision k) p) (\<lambda>x.
       rbind (answer_bytes k ps) (\<lambda>xs. Inr (x @ xs)))"

lemma carries_on_seen: "carries_on (packet_seen revision p) \<longleftrightarrow> carries_on p"
  by (cases p) (auto simp: carries_on_def packet_seen_def split: option.splits)

lemma handle_carries_on: "carries_on p \<Longrightarrow> handle_packet c x p = (c, answer x p, Inr ())"
  by (cases p) (simp_all add: carries_on_def answer_def handle_packet_def)

lemma packet_turn_carries_on:
  assumes "executing (conn g) = Some x" "exec_state x = QInProgress" "carries_on p"
    and "receive_packet (link_metadata k) (link_revision k) (incoming g) = Inr (p, r)"
  shows "packet_turn k chunked g = Some (answer x p, g\<lparr>incoming := r\<rparr>)"
  using assms
  by (simp add: packet_turn_def conn_receive_packet_def next_packet_def handle_carries_on)

lemma packet_turn_end:
  assumes "executing (conn g) = Some x" "exec_state x = QInProgress" "pending (conn g) = []"
    and "receive_packet (link_metadata k) (link_revision k) (incoming g) = Inr (SEndOfStream, r)"
  shows "packet_turn k chunked g = Some (drop_query x, g\<lparr>conn := new_conn, incoming := r\<rparr>)"
  using assms
  by (simp add: packet_turn_def conn_receive_packet_def next_packet_def handle_packet_def new_conn_def)

lemma end_of_stream_read:
  "receive_packet md revision (write_var_uint 5 @ r) = Inr (SEndOfStream, r)"
  using packet_read [of md first_of_each revision SEndOfStream]
  by (auto simp: packet_ok_def packet_bytes_def packet_seen_def)

text \<open>C10. A query gets its whole answer. Where the server sends the packets of an answer and the
  end of the stream to a query in progress, taking as many packets as it sent, in both
  protocols, puts every data block, in order and as it reads back, on the query's channel,
  raises the progress and profile events under the query's identifier, closes the channel,
  and leaves the connection idle at the first byte after the answer.\<close>

theorem answer_delivered:
  assumes "executing (conn g) = Some x" and "exec_state x = QInProgress" and "pending (conn g) = []"
    and "list_all (\<lambda>p. carries_on p \<and> packet_ok (link_metadata k) (link_iset k) (link_revision k) p) ps"
    and "answer_bytes k ps = Inr bs" and "incoming g = bs @ tail"
  shows "packet_turns k chunked (length ps + 1) g
    = Some (concat (map (\<lambda>p. answer x (packet_seen (link_revision k) p)) ps) @ drop_query x,
            g\<lparr>conn := new_conn, incoming := tail\<rparr>)"
  using assms
proof (induction ps arbitrary: g bs)
  case Nil
  then have "incoming g = write_var_uint 5 @ tail" by (simp add: packet_bytes_def)
  then show ?case
    using packet_turn_end [OF Nil.prems(1-3), of k tail chunked] by (simp add: end_of_stream_read)
next
  case (Cons p ps)
  obtain b bs' where b: "packet_bytes (link_metadata k) (link_iset k) (link_revision k) p = Inr b"
    "answer_bytes k ps = Inr bs'" "bs = b @ bs'"
    using Cons.prems(5) by (auto simp: rbind_Inr_iff)
  have ok: "carries_on p" "packet_ok (link_metadata k) (link_iset k) (link_revision k) p"
    using Cons.prems(4) by simp_all
  have "receive_packet (link_metadata k) (link_revision k) (incoming g)
      = Inr (packet_seen (link_revision k) p, bs' @ tail)"
    using packet_read [OF ok(2)] b(1,3) Cons.prems(6) by auto
  then have "packet_turn k chunked g
      = Some (answer x (packet_seen (link_revision k) p), g\<lparr>incoming := bs' @ tail\<rparr>)"
    using ok(1) by (intro packet_turn_carries_on [OF Cons.prems(1,2)]) (simp_all add: carries_on_seen)
  then show ?case
    using Cons.IH [of "g\<lparr>incoming := bs' @ tail\<rparr>" bs'] Cons.prems b(2) by simp
qed

lemma sample_packet_ok: "packet_ok sample_metadata first_of_each 54479 (SData two_rows)"
proof -
  have "sendable stored Some first_of_each 54479 LZ4 two_rows"
    using two_rows_ok two_rows_put two_rows_size codecs_ok_stored
    by (simp add: sendable_def compressed_payload_def stored_def no_data_def two_rows_def)
  then show ?thesis by (simp add: packet_ok_def carried_def sample_metadata_def)
qed

definition sample_link :: link where
  "sample_link =
     \<lparr>link_metadata = sample_metadata, link_iset = first_of_each, link_floats = no_float_text,
      link_hello = hello_of no_float_text 54479 sample_hello ChunkedOptional ChunkedOptional,
      link_now = 0\<rparr>"

lemma sample_link_simps [simp]:
  "link_metadata sample_link = sample_metadata" "link_iset sample_link = first_of_each"
  "revision_version (link_hello sample_link) = 54479" "link_floats sample_link = no_float_text"
  by (simp_all add: sample_link_def hello_of_def Let_def)

definition sample_query :: executing_query where
  "sample_query =
     \<lparr>exec_qid = 1, exec_state = QInProgress, exec_header = None, header_response = None,
      exec_response = 7\<rparr>"

theorem answer_delivered_witness:
  "\<exists>bs. answer_bytes sample_link [SData two_rows, SPong] = Inr bs
    \<and> packet_turns sample_link True (length [SData two_rows, SPong] + 1)
        (start_config [] (bs @ [9])\<lparr>conn := \<lparr>pending = [], executing = Some sample_query\<rparr>\<rparr>)
      = Some (concat (map (\<lambda>p. answer sample_query (packet_seen (link_revision sample_link) p))
                [SData two_rows, SPong]) @ drop_query sample_query,
              start_config [] (bs @ [9])
                \<lparr>conn := \<lparr>pending = [], executing = Some sample_query\<rparr>\<rparr>\<lparr>conn := new_conn, incoming := [9]\<rparr>)"
proof -
  obtain b where "packet_bytes sample_metadata first_of_each 54479 (SData two_rows) = Inr b"
    using packet_read [OF sample_packet_ok] by auto
  then obtain bs where bs: "answer_bytes sample_link [SData two_rows, SPong] = Inr bs"
    by (simp add: packet_bytes_def)
  then show ?thesis
    using sample_packet_ok
    by (intro exI [of _ bs] conjI answer_delivered [where bs = bs])
       (simp_all add: start_config_def sample_query_def carries_on_def packet_ok_def)
qed

section \<open>Where the loop goes wrong\<close>

lemma put_out_nothing [simp]: "put_out chunked [] w = w"
  by (simp add: put_out_def poll_write_def)

lemma next_packet_suffix: "next_packet k x s = Inr (p, r) \<Longrightarrow> suffix r s \<and> length r < length s"
  using receive_packet_suffix receive_header_suffix
  by (auto simp: next_packet_def split: if_splits)

lemma two_steps:
  assumes "conn_step k chunked g es h" "conn_step k chunked h es' h'"
  shows "conn_run k chunked g (es @ es') h'"
  using run_step [OF run_step [OF run_start assms(1)] assms(2)] by simp

text \<open>C35. A block of data can be lost without a trace. Where a block has been read and waits for
  room in its query's channel, and an operation arrives, be it a ping, the turn takes the
  operation and drops the read with the block; the next packet ends the answer, and the
  query's channel is closed with no data and no error. The ping itself is dropped without an
  answer, because the connection is busy.\<close>

theorem block_lost:
  assumes "status g = Running" and "executing (conn g) = Some x" and "exec_state x = QInProgress"
    and "pending (conn g) = []" and "inbox g = Operation qid (OpPing response) # ms"
    and "receive_packet (link_metadata k) (link_revision k) (incoming g) = Inr (SData b, r)"
    and "receive_packet (link_metadata k) (link_revision k) r = Inr (SEndOfStream, r')"
  shows "\<exists>g'. conn_run k chunked g (Dropped response # drop_query x) g'
    \<and> status g' = Running \<and> conn g' = new_conn \<and> incoming g' = r'"
proof -
  let ?h = "g\<lparr>inbox := ms, incoming := r\<rparr>"
  let ?g' = "?h\<lparr>conn := new_conn, incoming := r'\<rparr>"
  have "suffix r (incoming g)" using receive_packet_suffix [OF assms(6)] by simp
  then have "cancelled k (conn g) (incoming g) r"
    using assms(2,3,6) by (simp add: cancelled_def next_packet_def awaits_def)
  moreover have "operation_turn k chunked r r g = Some ([Dropped response], ?h)"
    using assms(2,5)
    by (cases g) (simp add: operation_turn_def handle_operation_def idle_def finish_turn_def Let_def)
  ultimately have "conn_step k chunked g [Dropped response] ?h"
    by (intro take_operation [OF assms(1)]) auto
  moreover have "packet_turn k chunked ?h = Some (drop_query x, ?g')"
    using packet_turn_end [of ?h x k r' chunked] assms(2-4,7) by simp
  then have "conn_step k chunked ?h (drop_query x) ?g'"
    using assms(1,2) by (intro take_packet) simp_all
  ultimately have "conn_run k chunked g ([Dropped response] @ drop_query x) ?g'"
    by (rule two_steps)
  then show ?thesis using assms(1) by (intro exI [of _ ?g']) simp
qed

theorem block_lost_witness:
  "\<exists>bs g'. packet_bytes sample_metadata first_of_each 54479 (SData two_rows) = Inr bs
    \<and> conn_run sample_link True
        (start_config [Operation 2 (OpPing 3)] (bs @ write_var_uint 5)
          \<lparr>conn := \<lparr>pending = [], executing = Some sample_query\<rparr>\<rparr>)
        (Dropped 3 # drop_query sample_query) g'
    \<and> status g' = Running \<and> conn g' = new_conn \<and> incoming g' = []"
proof -
  obtain bs where bs: "packet_bytes sample_metadata first_of_each 54479 (SData two_rows) = Inr bs"
    "\<forall>r. receive_packet sample_metadata 54479 (bs @ r) = Inr (SData (read_back 54479 two_rows), r)"
    using packet_read [OF sample_packet_ok] by (auto simp: packet_seen_def)
  then show ?thesis
    using block_lost [of "start_config [Operation 2 (OpPing 3)] (bs @ write_var_uint 5)
        \<lparr>conn := \<lparr>pending = [], executing = Some sample_query\<rparr>\<rparr>" sample_query 2 3 "[]" sample_link
        "read_back 54479 two_rows" "write_var_uint 5" "[]" True]
      end_of_stream_read [of sample_metadata 54479 "[]"]
    by (auto simp: start_config_def sample_query_def)
qed

text \<open>C36. The data of an insert can go to another query. Where the server refuses the query of an
  insert with an exception that leaves the connection up, and another query waits, the next
  query is sent; the data of the refused insert, which its caller sends on its own, are then
  written behind that query, and the insert is reported as sent.\<close>

theorem insert_after_refusal:
  assumes "status g = Running" and "executing (conn g) = Some x" and "pending (conn g) = [q]"
    and "next_packet k x (incoming g) = Inr (SException e, r)" and "\<not> is_fatal (sint (code e))"
    and "inbox g = Operation (exec_qid x) (OpInsert b response) # ms"
    and "conn_send_query k \<lparr>pending = [], executing = None\<rparr> q = Some (c, query_bytes, sent, Inr ())"
    and "send_insert k (InsertData b) = Inr insert_bytes"
  shows "\<exists>g' es. conn_run k False g es g' \<and> status g' = Running
    \<and> executing (conn g') = Some (start_query q)
    \<and> es = ErrorTo (exec_response x) ServerExceptionErr # drop_query x
          @ [Accepted (pending_response q), Inserted response]
    \<and> wout (outgoing g') = wout (outgoing g) @ query_bytes @ insert_bytes"
proof -
  let ?c = "\<lparr>pending = [], executing = Some (start_query q)\<rparr>"
  let ?es = "ErrorTo (exec_response x) ServerExceptionErr # drop_query x @ [Accepted (pending_response q)]"
  let ?h = "g\<lparr>conn := ?c, incoming := r, outgoing := put_out False query_bytes (outgoing g)\<rparr>"
  let ?g' = "?h\<lparr>inbox := ms, outgoing := put_out False insert_bytes (outgoing ?h)\<rparr>"
  have c: "c = ?c" "sent = [Accepted (pending_response q)]"
    using assms(7) by (auto elim: conn_send_query_cases)
  have dropped: "conn g\<lparr>executing := None, pending := []\<rparr> = \<lparr>pending = [], executing = None\<rparr>" by simp
  have "packet_turn k False g = Some (?es, ?h)"
    using assms(2-5,7) unfolding c
    by (simp add: packet_turn_def conn_receive_packet_def handle_packet_def dropped finish_turn_def)
  then have first: "conn_step k False g ?es ?h" using assms(1,2) by (intro take_packet) simp_all
  have "operation_turn k False r r ?h = Some ([Inserted response], ?g')"
    using assms(6,8)
    by (simp add: operation_turn_def handle_operation_def finish_insert_def finish_turn_def)
  moreover have "cancelled k ?c r r"
    using next_packet_suffix by (auto simp: cancelled_def split: sum.splits)
  ultimately have "conn_step k False ?h [Inserted response] ?g'"
    using assms(1) by (intro take_operation [where s = r and lost = r]) simp_all
  with first have "conn_run k False g (?es @ [Inserted response]) ?g'" by (rule two_steps)
  then show ?thesis
    using assms(1) by (intro exI [of _ ?g'] exI [of _ "?es @ [Inserted response]"]) (simp add: put_out_def)
qed

section \<open>A sample run\<close>

definition sample_pending :: pending_query where
  "sample_pending =
     \<lparr>pending_qid = 2, query_text = ''SELECT 1'', query_settings = None, query_params = None,
      pending_response = 5, pending_header = None\<rparr>"

lemma small_chunk: "length out \<le> 100 \<Longrightarrow> \<exists>x. chunk_body c out n = Inr x"
  by (simp add: chunk_body_def Let_def unat_of_nat)

lemma empty_block_sent: "\<exists>d. conn_send_data sample_link empty_block = Inr d"
proof -
  let ?raw = "block_info_put default_block_info @ put_var_uint 0 @ put_var_uint 0"
  have "block_put iset 54479 empty_block = Inr ?raw" for iset
    by (simp add: block_put_def empty_block_def)
  moreover have small: "length ?raw \<le> 100"
    using write_var_uint_length [of 1] write_var_uint_length [of 2] write_var_uint_length [of 0]
    by (simp add: block_info_put_def)
  then have "\<exists>x. chunk_body LZ4 ?raw (length ?raw) = Inr x" by (rule small_chunk)
  ultimately show ?thesis
    by (auto simp: conn_send_data_def send_data_def sample_metadata_def native_write_def
      compress_data_def stored_def)
qed

lemma sample_query_sent:
  "\<exists>bs. conn_send_query sample_link c sample_pending
     = Some (c\<lparr>executing := Some (start_query sample_pending)\<rparr>, bs, [Accepted 5], Inr ())"
proof -
  obtain d where "send_delimiter sample_link = Inr d"
    using empty_block_sent by (auto simp: send_delimiter_def)
  then show ?thesis
    by (simp add: conn_send_query_def send_query_def send_query_head_def request_of_def sample_pending_def
      request_settings_write_def sample_metadata_def compression_settings_def settings_encode_def Let_def)
qed

lemma sample_run:
  "\<exists>g. conn_run sample_link True (start_config [Operation 2 (OpQuery ''SELECT 1'' None None 5 None)] [])
     [Accepted 5] g \<and> status g = Running"
proof -
  let ?g = "start_config [Operation 2 (OpQuery ''SELECT 1'' None None 5 None)] []"
  obtain bs where "conn_send_query sample_link new_conn sample_pending
      = Some (new_conn\<lparr>executing := Some (start_query sample_pending)\<rparr>, bs, [Accepted 5], Inr ())"
    using sample_query_sent by blast
  then obtain g where "operation_turn sample_link True [] [] ?g = Some ([Accepted 5], g)" "status g = Running"
    by (simp add: operation_turn_def handle_operation_def idle_def start_config_def new_conn_def
      sample_pending_def Let_def)
  then have "conn_step sample_link True ?g [Accepted 5] g"
    by (intro take_operation [where s = "[]" and lost = "[]"])
      (simp_all add: start_config_def new_conn_def cancelled_def)
  from run_step [OF run_start this] \<open>status g = Running\<close> show ?thesis by auto
qed

theorem queries_in_order_witness:
  "\<exists>g :: config. accepted [Accepted 5] @ map pending_response (pending (conn g)) @ queries (inbox g)
    = queries [Operation 2 (OpQuery ''SELECT 1'' None None 5 None)]"
proof -
  obtain g where "conn_run sample_link True (start_config [Operation 2 (OpQuery ''SELECT 1'' None None 5 None)] [])
     [Accepted 5] g" "status g = Running" using sample_run by blast
  from queries_in_order [OF this(1)] this(2)
  have "accepted [Accepted 5] @ map pending_response (pending (conn g)) @ queries (inbox g)
      = queries [Operation 2 (OpQuery ''SELECT 1'' None None 5 None)]" by simp
  then show ?thesis by blast
qed

theorem answers_do_not_cross_witness:
  "\<exists>g :: config. flow None [Accepted 5] = Some (map_option exec_response (executing (conn g)))"
proof -
  obtain g where "conn_run sample_link True (start_config [Operation 2 (OpQuery ''SELECT 1'' None None 5 None)] [])
     [Accepted 5] g" "status g = Running" using sample_run by blast
  from answers_do_not_cross [OF this(1)] this(2)
  have "flow None [Accepted 5] = Some (map_option exec_response (executing (conn g)))" by simp
  then show ?thesis by blast
qed

theorem run_invariant_witness:
  "\<exists>g. conn_run sample_link True (start_config [Operation 2 (OpQuery ''SELECT 1'' None None 5 None)] [])
     [Accepted 5] g \<and> wbuffer (outgoing g) = []"
proof -
  obtain g where "conn_run sample_link True (start_config [Operation 2 (OpQuery ''SELECT 1'' None None 5 None)] [])
     [Accepted 5] g" "status g = Running" using sample_run by blast
  then show ?thesis using run_invariant by blast
qed

definition sample_exception :: server_exception where
  "sample_exception =
     \<lparr>code = 60, exception_name = [], message = [], stack_trace = [], has_nested = False\<rparr>"

theorem insert_after_refusal_witness:
  "\<exists>g g' es. conn_run sample_link False g es g' \<and> status g' = Running
    \<and> executing (conn g') = Some (start_query sample_pending)
    \<and> es = ErrorTo 7 ServerExceptionErr # drop_query sample_query @ [Accepted 5, Inserted 8]"
proof -
  obtain qbs where q: "conn_send_query sample_link \<lparr>pending = [], executing = None\<rparr> sample_pending
      = Some (\<lparr>pending = [], executing = Some (start_query sample_pending)\<rparr>, qbs, [Accepted 5], Inr ())"
    using sample_query_sent [of "\<lparr>pending = [], executing = None\<rparr>"] by auto
  obtain ibs where i: "send_insert sample_link (InsertData empty_block) = Inr ibs"
    using empty_block_sent by (auto simp: send_insert_def send_delimiter_def)
  have "packet_ok sample_metadata first_of_each 54479 (SException sample_exception)"
    by (simp add: packet_ok_def sample_exception_def ascii_wire)
  from packet_read [OF this] obtain bs where bs:
    "\<forall>r. receive_packet sample_metadata 54479 (bs @ r) = Inr (SException sample_exception, r)"
    by (auto simp: packet_seen_def)
  let ?g = "start_config [Operation 1 (OpInsert empty_block 8)] (bs @ [])
    \<lparr>conn := \<lparr>pending = [sample_pending], executing = Some sample_query\<rparr>\<rparr>"
  have "\<exists>g' es. conn_run sample_link False ?g es g' \<and> status g' = Running
    \<and> executing (conn g') = Some (start_query sample_pending)
    \<and> es = ErrorTo (exec_response sample_query) ServerExceptionErr # drop_query sample_query
          @ [Accepted (pending_response sample_pending), Inserted 8]
    \<and> wout (outgoing g') = wout (outgoing ?g) @ qbs @ ibs"
  proof (rule insert_after_refusal)
    show "next_packet sample_link sample_query (incoming ?g) = Inr (SException sample_exception, [])"
      using bs by (simp add: next_packet_def sample_query_def start_config_def del: append_Nil2)
    show "\<not> is_fatal (sint (code sample_exception))"
      by (simp add: is_fatal_codes sample_exception_def)
  qed (use q i in \<open>simp_all add: start_config_def sample_query_def\<close>)
  then show ?thesis by (simp add: sample_query_def sample_pending_def) blast
qed

end
