(* ===== verification/Load.thy ===== *)
theory Load
  imports Prelude
begin

unbundle bit_operations_syntax

text \<open>
  The load balancer of a client (client/connection.rs, module \<open>load\<close>): one atomic counter
  holds a byte of load for each of at most four connections. The weights of the operations
  (client/internal.rs) and the calls of the client that take and give back load (client.rs)
  are here too, each up to its success. \<open>usize\<close> has 64 bits.

  A counter moves by \<open>fetch_add\<close> and \<open>fetch_sub\<close>, which wrap; an assignment without a key
  reads the counter before it adds to it.
\<close>

section \<open>The counter\<close>

record atomic_load =
  load_counter :: u64
  max_connections :: byte

definition load_new :: "byte \<Rightarrow> atomic_load res" where
  "load_new m =
     (if \<not> m \<le> 4 then Inl Panic
      else if \<not> m > 0 then Inl Panic
      else Inr \<lparr>load_counter = 0, max_connections = m\<rparr>)"

definition lane :: "u64 \<Rightarrow> nat \<Rightarrow> u64" where
  "lane w i = drop_bit (i * 8) w AND 0xFF"

text \<open>\<open>min_by_key\<close>: the first of the least.\<close>

fun min_by_key :: "('a \<Rightarrow> 'b::linorder) \<Rightarrow> 'a list \<Rightarrow> 'a option" where
  "min_by_key f [] = None"
| "min_by_key f (x # xs) =
     (case min_by_key f xs of None \<Rightarrow> Some x | Some y \<Rightarrow> if f x \<le> f y then Some x else Some y)"

definition load_choose :: "atomic_load \<Rightarrow> nat option \<Rightarrow> nat" where
  "load_choose l key =
     (case key of
        Some k \<Rightarrow> k mod unat (max_connections l)
      | None \<Rightarrow> (case min_by_key (lane (load_counter l)) [0..<unat (max_connections l)] of
                   Some i \<Rightarrow> i | None \<Rightarrow> 0))"

definition load_assign :: "nat option \<Rightarrow> nat \<Rightarrow> atomic_load \<Rightarrow> nat \<times> atomic_load" where
  "load_assign key weight l =
     (let idx = load_choose l key in
      if weight = 0 then (idx, l)
      else (idx, l\<lparr>load_counter := load_counter l + push_bit (idx * 8) (word_of_nat weight)\<rparr>))"

definition load_finish :: "nat \<Rightarrow> nat \<Rightarrow> atomic_load \<Rightarrow> atomic_load" where
  "load_finish weight idx l =
     (if weight = 0 then l
      else l\<lparr>load_counter := load_counter l - push_bit (idx * 8) (word_of_nat weight)\<rparr>)"

section \<open>The weights\<close>

datatype op_kind = KPing | KQuery | KInsert | KInsertMany

definition weight :: "op_kind \<Rightarrow> bool \<Rightarrow> nat" where
  "weight op finished =
     (case op of
        KQuery \<Rightarrow> if finished then 1 else 3
      | KInsertMany \<Rightarrow> 3
      | KInsert \<Rightarrow> 2
      | KPing \<Rightarrow> 0)"

definition weight_query :: nat where "weight_query = 1"
definition weight_insert :: nat where "weight_insert = 5"
definition weight_insert_many :: nat where "weight_insert_many = 6"

text \<open>\<open>Qid::key\<close>: the sum of the bytes of the identifier.\<close>

definition qid_key :: "u128 \<Rightarrow> nat" where
  "qid_key q = sum_list (map (\<lambda>i. unat (drop_bit (8 * i) q AND 0xFF)) (rev [0..<16]))"

text \<open>The connection an operation goes to, in \<open>Connection::send_operation\<close>.\<close>

definition assign_operation :: "op_kind \<Rightarrow> u128 \<Rightarrow> bool \<Rightarrow> atomic_load \<Rightarrow> nat \<times> atomic_load" where
  "assign_operation op qid finished l =
     load_assign
       (if op = KQuery \<and> \<not> finished \<or> op = KInsert \<or> op = KInsertMany then Some (qid_key qid) else None)
       (weight op finished) l"

section \<open>What the calls of the client do to the load\<close>

definition load_of_insert :: "u128 \<Rightarrow> atomic_load \<Rightarrow> atomic_load" where
  "load_of_insert qid l =
     (let (idx, l) = assign_operation KQuery qid False l;
          (_, l) = assign_operation KInsert qid True l in
      load_finish weight_insert idx l)"

definition load_of_insert_many :: "u128 \<Rightarrow> atomic_load \<Rightarrow> atomic_load" where
  "load_of_insert_many qid l =
     (let (idx, l) = assign_operation KQuery qid False l;
          (_, l) = assign_operation KInsertMany qid True l in
      load_finish weight_insert_many idx l)"

definition load_of_query_raw :: "u128 \<Rightarrow> atomic_load \<Rightarrow> atomic_load" where
  "load_of_query_raw qid l =
     (let (idx, l) = assign_operation KQuery qid True l in load_finish weight_query idx l)"

definition load_of_insert_rows :: "u128 \<Rightarrow> atomic_load \<Rightarrow> atomic_load" where
  "load_of_insert_rows qid l =
     (let (idx, l) = assign_operation KQuery qid False l;
          (_, l) = assign_operation KInsert qid True l in
      load_finish weight_query idx l)"

definition load_of_arrow_query_rows :: "u128 \<Rightarrow> atomic_load \<Rightarrow> atomic_load" where
  "load_of_arrow_query_rows qid l =
     (let (idx, l) = assign_operation KQuery qid True l in load_finish weight_insert_many idx l)"

section \<open>Choosing a connection\<close>

lemma min_by_key_Some:
  "xs \<noteq> [] \<Longrightarrow> \<exists>x. min_by_key f xs = Some x \<and> x \<in> set xs \<and> (\<forall>y\<in>set xs. f x \<le> f y)"
proof (induction xs)
  case (Cons x xs)
  show ?case
  proof (cases "xs = []")
    case False
    with Cons.IH obtain y where "min_by_key f xs = Some y" "y \<in> set xs" "\<forall>z\<in>set xs. f y \<le> f z"
      by blast
    then show ?thesis by (auto intro: order_trans)
  qed simp
qed simp

lemma load_choose_bound:
  assumes pos: "0 < unat (max_connections l)"
  shows "load_choose l key < unat (max_connections l)"
proof (cases key)
  case None
  then show ?thesis
    using pos min_by_key_Some [of "[0..<unat (max_connections l)]" "lane (load_counter l)"]
    by (auto simp: load_choose_def)
next
  case (Some k)
  then show ?thesis using pos by (simp add: load_choose_def)
qed

lemma load_choose_least:
  assumes "i < unat (max_connections l)"
  shows "lane (load_counter l) (load_choose l None) \<le> lane (load_counter l) i"
  using assms min_by_key_Some [of "[0..<unat (max_connections l)]" "lane (load_counter l)"]
  by (auto simp: load_choose_def)

lemma fst_load_assign: "fst (load_assign key w l) = load_choose l key"
  by (simp add: load_assign_def Let_def)

lemma load_choose_keyed:
  "max_connections l' = max_connections l \<Longrightarrow> load_choose l' (Some k) = load_choose l (Some k)"
  by (simp add: load_choose_def)

text \<open>C39. The balancer always names a connection it has, an operation without a key goes to a
  connection of the least load, and the data of an insert, which carries the identifier of
  its query, goes to the connection of the query, whatever the load has become.\<close>

theorem load_choice:
  assumes "0 < unat (max_connections l)" and "max_connections l' = max_connections l"
  shows "load_choose l key < unat (max_connections l)
    \<and> (\<forall>i<unat (max_connections l). lane (load_counter l) (load_choose l None) \<le> lane (load_counter l) i)
    \<and> fst (assign_operation KInsert qid True l') = fst (assign_operation KQuery qid False l)
    \<and> fst (assign_operation KInsertMany qid True l') = fst (assign_operation KQuery qid False l)"
  using assms load_choose_bound load_choose_least load_choose_keyed [OF assms(2)]
  by (simp add: assign_operation_def fst_load_assign)

theorem load_choice_witness:
  "load_choose \<lparr>load_counter = 0x0305, max_connections = 2\<rparr> None < 2
    \<and> lane 0x0305 (load_choose \<lparr>load_counter = 0x0305, max_connections = 2\<rparr> None) \<le> lane 0x0305 0
    \<and> lane 0x0305 (load_choose \<lparr>load_counter = 0x0305, max_connections = 2\<rparr> None) \<le> lane 0x0305 1
    \<and> fst (assign_operation KInsert 7 True \<lparr>load_counter = 0, max_connections = 2\<rparr>)
        = fst (assign_operation KQuery 7 False \<lparr>load_counter = 0x0305, max_connections = 2\<rparr>)"
  using load_choice [of "\<lparr>load_counter = 0x0305, max_connections = 2\<rparr>"
    "\<lparr>load_counter = 0, max_connections = 2\<rparr>" None 7] by simp

section \<open>The counter as a vector of loads\<close>

text \<open>
  The specification of the balancer: for each connection the load that was given out on it
  and has not come back, an integer. The counter is its value in base 256.
\<close>

datatype load_event = Assign "nat option" nat | Finish nat nat

fun load_run :: "load_event list \<Rightarrow> atomic_load \<Rightarrow> atomic_load" where
  "load_run [] l = l"
| "load_run (Assign key w # evs) l = load_run evs (snd (load_assign key w l))"
| "load_run (Finish w i # evs) l = load_run evs (load_finish w i l)"

fun load_owed :: "load_event list \<Rightarrow> atomic_load \<Rightarrow> (nat \<Rightarrow> int) \<Rightarrow> nat \<Rightarrow> int" where
  "load_owed [] l out = out"
| "load_owed (Assign key w # evs) l out =
     (let i = load_choose l key in
      load_owed evs (snd (load_assign key w l)) (out(i := out i + int w)))"
| "load_owed (Finish w i # evs) l out = load_owed evs (load_finish w i l) (out(i := out i - int w))"

definition packed :: "(nat \<Rightarrow> int) \<Rightarrow> u64" where
  "packed out = word_of_int (out 0 + 2 ^ 8 * out 1 + 2 ^ 16 * out 2 + 2 ^ 24 * out 3)"

lemma below_four: "i < 4 \<Longrightarrow> i = 0 \<or> i = 1 \<or> i = 2 \<or> i = (3 :: nat)"
  by linarith

lemma push_weight: "push_bit n (word_of_nat w :: u64) = word_of_int (2 ^ n * int w)"
  by (simp add: push_bit_eq_mult)

lemma packed_moved:
  assumes "i < 4"
  shows "packed (out(i := out i + d)) = packed out + word_of_int (2 ^ (i * 8) * d)"
proof -
  have "(out(i := out i + d)) 0 + 2 ^ 8 * (out(i := out i + d)) 1 + 2 ^ 16 * (out(i := out i + d)) 2
      + 2 ^ 24 * (out(i := out i + d)) 3
    = out 0 + 2 ^ 8 * out 1 + 2 ^ 16 * out 2 + 2 ^ 24 * out 3 + 2 ^ (i * 8) * d"
    using below_four [OF assms] by auto
  then show ?thesis unfolding packed_def by (simp only: wi_hom_add)
qed

lemma packed_add:
  assumes "i < 4"
  shows "packed (out(i := out i + int w)) = packed out + push_bit (i * 8) (word_of_nat w)"
  unfolding push_weight by (rule packed_moved [OF assms])

lemma packed_sub:
  assumes "i < 4"
  shows "packed (out(i := out i - int w)) = packed out - push_bit (i * 8) (word_of_nat w)"
  using packed_moved [OF assms, of out "- int w"] unfolding push_weight by simp

lemma load_run_packed:
  assumes "unat (max_connections l) \<le> 4" "0 < unat (max_connections l)"
    and "\<forall>w i. Finish w i \<in> set evs \<longrightarrow> i < 4" and "load_counter l = packed out"
  shows "load_counter (load_run evs l) = packed (load_owed evs l out)"
  using assms
proof (induction evs l out rule: load_owed.induct)
  case (2 key w evs l out)
  let ?i = "load_choose l key"
  have i: "?i < 4" using load_choose_bound [of l key] 2(2,3) by linarith
  have "load_counter (snd (load_assign key w l)) = packed (out(?i := out ?i + int w))"
    using packed_add [OF i] 2(5) by (simp add: load_assign_def Let_def)
  moreover have "max_connections (snd (load_assign key w l)) = max_connections l"
    by (simp add: load_assign_def Let_def)
  ultimately have "load_counter (load_run evs (snd (load_assign key w l)))
      = packed (load_owed evs (snd (load_assign key w l)) (out(?i := out ?i + int w)))"
    using 2(2-4) by (intro 2(1) [OF refl]) (auto simp: fun_upd_def)
  then show ?case by (simp only: load_run.simps load_owed.simps Let_def)
next
  case (3 w i evs l out)
  then have i: "i < 4" by auto
  have "load_counter (load_finish w i l) = packed (out(i := out i - int w))"
    using packed_sub [OF i] 3(5) by (simp add: load_finish_def)
  moreover have "max_connections (load_finish w i l) = max_connections l"
    by (simp add: load_finish_def)
  ultimately have "load_counter (load_run evs (load_finish w i l))
      = packed (load_owed evs (load_finish w i l) (out(i := out i - int w)))"
    using 3(2-4) by (intro 3(1)) (auto simp: fun_upd_def)
  then show ?case by (simp only: load_run.simps load_owed.simps)
qed simp

lemma unat_lane: "unat (lane w i) = unat w div 2 ^ (i * 8) mod 256"
proof -
  have "lane w i = take_bit 8 (drop_bit (i * 8) w)"
    by (simp add: lane_def take_bit_eq_mask mask_eq_exp_minus_1)
  moreover have "unat w mod 18446744073709551616 = unat w"
    using unsigned_less [of w, where 'a = nat] by simp
  ultimately show ?thesis
    by (simp only: unsigned_take_bit_eq unsigned_drop_bit_eq) (simp add: take_bit_eq_mod drop_bit_eq_div)
qed

lemma digit: "(a :: nat) < 256 \<Longrightarrow> (a + 256 * x) mod 256 = a \<and> (a + 256 * x) div 256 = x"
  by simp

lemma digits:
  fixes a b c d :: nat
  assumes "a < 256" "b < 256" "c < 256" "d < 256"
  defines "n \<equiv> a + 256 * (b + 256 * (c + 256 * d))"
  shows "n mod 256 = a" "n div 256 mod 256 = b" "n div 256 div 256 mod 256 = c" "n div 256 div 256 div 256 mod 256 = d"
  by (simp_all only: n_def digit assms(1-4) mod_less)

lemma lane_packed:
  assumes "\<forall>i<4. 0 \<le> out i \<and> out i < 256" and "i < 4"
  shows "int (unat (lane (packed out) i)) = out i"
proof -
  define d where "d i = nat (out i)" for i
  have d: "\<forall>i<4. d i < 256" "\<forall>i<4. out i = int (d i)" using assms(1) by (auto simp: d_def)
  define n where "n = d 0 + 256 * (d 1 + 256 * (d 2 + 256 * d 3))"
  have less: "d 0 < 256" "d 1 < 256" "d 2 < 256" "d 3 < 256" using d(1) by simp_all
  have "packed out = word_of_nat n"
    using d(2) by (simp add: packed_def n_def algebra_simps)
  moreover have "n < 2 ^ LENGTH(64)" using less by (simp add: n_def)
  then have "unat (word_of_nat n :: u64) = n" by (simp add: unat_of_nat)
  ultimately have n: "unat (packed out) = d 0 + 256 * (d 1 + 256 * (d 2 + 256 * d 3))"
    by (simp only: n_def)
  have "unat (lane (packed out) i) = d i"
    using below_four [OF assms(2)] digits [OF less]
    unfolding unat_lane n by (auto simp: div_mult2_eq [symmetric])
  then show ?thesis using d(2) assms(2) by simp
qed

text \<open>C23. The lanes of the counter are the loads: whatever was assigned and finished, in any
  order, starting from an empty balancer, a lane holds exactly what was given out on its
  connection and has not come back, as long as every connection owes between 0 and 255 at
  the end. No lane spills into its neighbour, even where it had spilled in between.\<close>

theorem load_refines:
  assumes "load_new m = Inr l" and "\<forall>w i. Finish w i \<in> set evs \<longrightarrow> i < 4"
    and "\<forall>i<4. 0 \<le> load_owed evs l (\<lambda>_. 0) i \<and> load_owed evs l (\<lambda>_. 0) i < 256" and "i < 4"
  shows "int (unat (lane (load_counter (load_run evs l)) i)) = load_owed evs l (\<lambda>_. 0) i"
proof -
  have l: "max_connections l = m" "m \<le> 4" "m > 0" "load_counter l = 0"
    using assms(1) by (auto simp: load_new_def split: if_splits)
  then have "unat (max_connections l) \<le> 4" "0 < unat (max_connections l)"
    by (simp_all add: word_le_nat_alt word_less_nat_alt)
  then have "load_counter (load_run evs l) = packed (load_owed evs l (\<lambda>_. 0))"
    using assms(2) l(4) by (intro load_run_packed) (simp_all add: packed_def)
  then show ?thesis using lane_packed [OF assms(3,4)] by simp
qed

theorem load_refines_witness:
  "int (unat (lane (load_counter (load_run [Assign (Some 1) 3, Assign None 1, Finish 1 0]
        \<lparr>load_counter = 0, max_connections = 2\<rparr>)) 1))
    = load_owed [Assign (Some 1) 3, Assign None 1, Finish 1 0]
        \<lparr>load_counter = 0, max_connections = 2\<rparr> (\<lambda>_. 0) 1"
proof (rule load_refines)
  show "load_new 2 = Inr \<lparr>load_counter = 0, max_connections = 2\<rparr>" by (simp add: load_new_def)
  show "\<forall>i<4. 0 \<le> load_owed [Assign (Some 1) 3, Assign None 1, Finish 1 0]
        \<lparr>load_counter = 0, max_connections = 2\<rparr> (\<lambda>_. 0) i
      \<and> load_owed [Assign (Some 1) 3, Assign None 1, Finish 1 0]
        \<lparr>load_counter = 0, max_connections = 2\<rparr> (\<lambda>_. 0) i < 256"
    by (simp add: load_choose_def load_assign_def load_finish_def lane_def upt_rec)
qed simp_all

section \<open>Giving back what was taken\<close>

lemmas load_calls = assign_operation_def load_assign_def load_finish_def weight_def Let_def

lemma idx_again [simp]:
  "load_choose (l\<lparr>load_counter := c\<rparr>) (Some k) = load_choose l (Some k)"
  by (simp add: load_choose_def)

lemma load_given_back:
  "load_of_insert qid l = l \<and> load_of_insert_many qid l = l \<and> load_of_query_raw qid l = l"
  by (simp add: load_of_insert_def load_of_insert_many_def load_of_query_raw_def load_calls
    weight_insert_def weight_insert_many_def weight_query_def push_bit_eq_mult algebra_simps)

text \<open>A successful insert, an insert of many blocks and a raw query give back exactly the
  load they took: the balancer is as it was before the call. An insert of rows takes five and
  gives back one, so every call leaves four on its connection for good; a query of rows in
  the Arrow format takes one and gives back six, so every call leaves its lane five short,
  which from an empty balancer wraps the counter.\<close>

theorem load_not_given_back:
  "load_of_insert qid l = l \<and> load_of_insert_many qid l = l \<and> load_of_query_raw qid l = l
   \<and> load_counter (load_of_insert_rows qid l)
      = load_counter l + push_bit (load_choose l (Some (qid_key qid)) * 8) 4
   \<and> load_counter (load_of_arrow_query_rows qid l)
      = load_counter l - push_bit (load_choose l None * 8) 5"
  by (simp add: load_given_back load_of_insert_rows_def load_of_arrow_query_rows_def load_calls
    weight_insert_many_def weight_query_def push_bit_eq_mult algebra_simps)

end
