(* ===== verification/Connection.thy ===== *)
theory Connection
  imports Conn Load
begin

text \<open>
  A client's connections (client/connection.rs): the handshake, the state of each connection
  with its status and channel, the choice of a connection for an operation and the check by
  ping. The connections of the inner pool share one load balancer.

  The channel of a connection is open while its task runs. The random identifier of a ping is
  not used: a ping has no key.
\<close>

section \<open>The handshake\<close>

text \<open>The bytes the client writes, the hello it gets and what is left of the stream.\<close>

definition perform_handshake ::
  "float_text \<Rightarrow> client_hello \<Rightarrow> chunked_mode \<times> chunked_mode \<Rightarrow> byte list
    \<Rightarrow> (byte list \<times> server_hello \<times> byte list) res" where
  "perform_handshake ft hello modes s =
     rbind (receive_hello ft (word_of_nat DBMS_TCP_PROTOCOL_VERSION) modes s) (\<lambda>(h, s).
       let revision = unat (revision_version h) in
       Inr (send_hello hello
            @ since revision REV_ADDENDUM
                (send_addendum revision revision (chunked_send h) (chunked_recv h)), h, s))"

section \<open>Status\<close>

datatype connection_status = StatusOpen | StatusClosed | StatusError

definition status_from :: "byte \<Rightarrow> connection_status" where
  "status_from b = (if b = 0 then StatusOpen else if b = 1 then StatusClosed else StatusError)"

definition status_num :: "connection_status \<Rightarrow> byte" where
  "status_num st = (case st of StatusOpen \<Rightarrow> 0 | StatusClosed \<Rightarrow> 1 | StatusError \<Rightarrow> 2)"

text \<open>What the task of a connection leaves as its status when its loop ends.\<close>

definition status_after_run :: "unit res \<Rightarrow> connection_status" where
  "status_after_run r = (case r of Inl _ \<Rightarrow> StatusError | Inr _ \<Rightarrow> StatusClosed)"

record connect_state =
  conn_status :: byte
  channel_closed :: bool

record connection =
  conn_states :: "connect_state list"
  load_balancer :: atomic_load

text \<open>\<open>connect\<close> with the size of the inner pool: \<open>None\<close> where it is not configured.\<close>

definition pool_size :: "nat option \<Rightarrow> nat" where
  "pool_size fast = (case fast of None \<Rightarrow> 2 | Some s \<Rightarrow> max 2 (min s 4))"

definition connect :: "nat option \<Rightarrow> connection res" where
  "connect fast =
     rbind (load_new 2) (\<lambda>l.
       Inr \<lparr>conn_states = replicate (1 + pool_size fast) \<lparr>conn_status = 0, channel_closed = False\<rparr>,
            load_balancer = l\<rparr>)"

section \<open>Operations\<close>

definition set_status :: "nat \<Rightarrow> connection_status \<Rightarrow> connection \<Rightarrow> connection" where
  "set_status i st c =
     c\<lparr>conn_states := (conn_states c)[i := (conn_states c ! i)\<lparr>conn_status := status_num st\<rparr>]\<rparr>"

definition connection_send ::
  "op_kind \<Rightarrow> u128 \<Rightarrow> bool \<Rightarrow> connection \<Rightarrow> nat res \<times> connection" where
  "connection_send op qid fin c =
     (let (idx, l) = assign_operation op qid fin (load_balancer c);
          c = c\<lparr>load_balancer := l\<rparr> in
      if length (conn_states c) \<le> idx then (Inl Panic, c)
      else if conn_status (conn_states c ! idx) > 0 then (Inl ClientErr, c)
      else if channel_closed (conn_states c ! idx) then
        (Inl ChannelClosed, set_status idx StatusClosed c)
      else (Inr idx, c))"

definition connection_finish :: "nat \<Rightarrow> nat \<Rightarrow> connection \<Rightarrow> connection" where
  "connection_finish idx w c = c\<lparr>load_balancer := load_finish w idx (load_balancer c)\<rparr>"

definition check_channel :: "connection \<Rightarrow> unit res \<times> connection" where
  "check_channel c =
     (if channel_closed (conn_states c ! 0) then (Inl ChannelClosed, set_status 0 StatusClosed c)
      else (Inr (), c))"

text \<open>What becomes of the sender a ping carries: dropped, or used.\<close>

datatype ping_reply = SenderDropped | Replied "unit res"

definition check_connection :: "bool \<Rightarrow> u128 \<Rightarrow> ping_reply \<Rightarrow> connection \<Rightarrow> unit res \<times> connection" where
  "check_connection ping qid reply c =
     (case check_channel c of
        (Inl e, c) \<Rightarrow> (Inl e, c)
      | (Inr _, c) \<Rightarrow>
          if \<not> ping then (Inr (), c)
          else
            (case connection_send KPing qid True c of
               (Inl e, c) \<Rightarrow> (Inl e, c)
             | (Inr idx, c) \<Rightarrow>
                 (case reply of
                    SenderDropped \<Rightarrow> (Inl ChannelClosed, set_status idx StatusClosed c)
                  | Replied (Inl e) \<Rightarrow> (Inl e, set_status idx StatusError c)
                  | Replied (Inr _) \<Rightarrow> (Inr (), c))))"

definition current_status :: "connection \<Rightarrow> connection_status" where
  "current_status c = status_from (conn_status (conn_states c ! 0))"

section \<open>Properties\<close>

lemma status_from_num [simp]: "status_from (status_num st) = st"
  by (cases st) (simp_all add: status_from_def status_num_def)

text \<open>The connections the client has, and the two it uses.\<close>

definition connection_ok :: "connection \<Rightarrow> bool" where
  "connection_ok c \<longleftrightarrow> max_connections (load_balancer c) = 2 \<and> 3 \<le> length (conn_states c)"

lemma set_status_ok [simp]: "connection_ok (set_status i st c) = connection_ok c"
  by (simp add: connection_ok_def set_status_def)

lemma max_connections_kept:
  "max_connections (snd (assign_operation op qid fin l)) = max_connections l"
  by (simp add: assign_operation_def load_assign_def Let_def)

lemma connection_send_ok:
  assumes "connection_ok c" and "connection_send op qid fin c = (r, c')"
  shows "connection_ok c' \<and> length (conn_states c') = length (conn_states c) \<and> r \<noteq> Inl Panic
    \<and> (\<forall>i. r = Inr i \<longrightarrow> i < 2) \<and> (\<forall>i\<ge>2. conn_states c' ! i = conn_states c ! i)"
proof -
  obtain idx l where l: "assign_operation op qid fin (load_balancer c) = (idx, l)" by fastforce
  have "idx < 2"
    using load_choose_bound [of "load_balancer c"] assms(1) l
    by (auto simp: assign_operation_def load_assign_def connection_ok_def Let_def split: if_splits)
  moreover have "max_connections l = 2"
    using max_connections_kept [of op qid fin "load_balancer c"] assms(1) l
    by (simp add: connection_ok_def)
  ultimately show ?thesis
    using assms l by (auto simp: connection_send_def connection_ok_def set_status_def Let_def split: if_splits)
qed

text \<open>The connections beyond the first two are opened and never used. However large the inner
  pool is configured, three connections or more are opened, sending any operation never
  panics, goes to one of the first two, keeps this so, and never touches the others.\<close>

theorem spare_connections_unused:
  "(\<forall>fast c. connect fast = Inr c \<longrightarrow> connection_ok c)
   \<and> (\<forall>c op qid fin r c'. connection_ok c \<longrightarrow> connection_send op qid fin c = (r, c') \<longrightarrow>
        connection_ok c' \<and> r \<noteq> Inl Panic \<and> (\<forall>i. r = Inr i \<longrightarrow> i < 2)
        \<and> (\<forall>i\<ge>2. conn_states c' ! i = conn_states c ! i))"
proof -
  have "connect fast = Inr c \<Longrightarrow> connection_ok c" for fast c
    by (auto simp: connect_def connection_ok_def load_new_def pool_size_def split: option.splits)
  then show ?thesis using connection_send_ok by blast
qed

theorem spare_connections_unused_witness:
  "\<exists>c. connect (Some 9) = Inr c \<and> length (conn_states c) = 5 \<and> connection_ok c"
proof -
  obtain c where c: "connect (Some 9) = Inr c" "length (conn_states c) = 5"
    by (simp add: connect_def load_new_def pool_size_def)
  then show ?thesis using spare_connections_unused by blast
qed

text \<open>A ping on a busy connection closes it. The task of a connection that executes a query
  drops the ping without an answer and writes nothing; the client takes the dropped sender
  for a closed channel and marks the connection, and from then on refuses every operation
  that the balancer gives to it, though its task still runs.\<close>

theorem busy_ping_closes:
  assumes "\<not> idle ic" and "check_channel c = (Inr (), c)"
    and "connection_send KPing pid True c = (Inr idx, c1)"
  shows "handle_operation k ic (OpPing response) pid
      = Some (ic, [], [Dropped response], Inr (TChunk NoBoundary))
    \<and> check_connection True pid SenderDropped c = (Inl ChannelClosed, set_status idx StatusClosed c1)
    \<and> (fst (assign_operation op qid fin (load_balancer c1)) = idx \<longrightarrow>
         fst (connection_send op qid fin (set_status idx StatusClosed c1)) = Inl ClientErr)"
proof -
  have "idx < length (conn_states c1)"
    using assms(3) by (auto simp: connection_send_def set_status_def Let_def split: if_splits prod.splits)
  then show ?thesis
    using assms
    by (auto simp: handle_operation_def check_connection_def connection_send_def set_status_def
      status_num_def Let_def split: prod.splits)
qed

definition fresh_connection :: connection where
  "fresh_connection =
     \<lparr>conn_states = replicate 3 \<lparr>conn_status = 0, channel_closed = False\<rparr>,
      load_balancer = \<lparr>load_counter = 0, max_connections = 2\<rparr>\<rparr>"

theorem busy_ping_closes_witness:
  "check_connection True 1 SenderDropped fresh_connection
      = (Inl ChannelClosed, set_status 0 StatusClosed fresh_connection)
    \<and> fst (connection_send KQuery 4 False (set_status 0 StatusClosed fresh_connection)) = Inl ClientErr"
proof -
  have "\<not> idle \<lparr>pending = [], executing = Some sample_query\<rparr>" by (simp add: idle_def)
  moreover have "check_channel fresh_connection = (Inr (), fresh_connection)"
    by (simp add: check_channel_def fresh_connection_def)
  moreover have "connection_send KPing 1 True fresh_connection = (Inr 0, fresh_connection)"
    by (simp add: connection_send_def fresh_connection_def assign_operation_def load_assign_def
      load_choose_def weight_def lane_def upt_rec)
  moreover have "qid_key 4 = 4" by code_simp
  then have "fst (assign_operation KQuery 4 False (load_balancer fresh_connection)) = 0"
    by (simp add: fresh_connection_def assign_operation_def fst_load_assign load_choose_def)
  ultimately show ?thesis
    using busy_ping_closes [of "\<lparr>pending = [], executing = Some sample_query\<rparr>" fresh_connection 1 0 fresh_connection] by blast
qed

lemma negotiate_fixed: "negotiate s c = Inr m \<Longrightarrow> m = Chunked \<or> m = NotChunked"
  by (cases s; cases c) (auto simp: negotiate_def is_chunked_def is_optional_def Let_def)

lemma hello_modes_fixed:
  assumes "receive_hello ft client_revision client_modes s = Inr (h, r)"
    and "unat (revision_version h) \<ge> REV_CHUNKED_PACKETS"
  shows "(chunked_send h = Chunked \<or> chunked_send h = NotChunked)
    \<and> (chunked_recv h = Chunked \<or> chunked_recv h = NotChunked)"
proof -
  obtain p s' where p: "read_packet_id s = Inr (p, s')"
    using assms(1) by (auto simp: receive_hello_def rbind_Inr_iff)
  have "p = PHello \<and> read_hello ft client_revision client_modes s' = Inr (h, r)"
    using assms(1) p by (cases p) (auto simp: receive_hello_def rbind_Inr_iff)
  then show ?thesis
    using assms(2)
    by (auto simp: read_hello_def rbind_Inr_iff Let_def read_modes_def dest!: negotiate_fixed)
qed

text \<open>C30. The handshake settles what the connection does. With a server whose revision has chunked
  packets, the client writes its hello and the addendum, the last part of the addendum names
  the two modes, none of them optional any more, and the connection frames what it writes,
  or strips frames from what it reads, exactly where the name announced is \<open>chunked\<close>.\<close>

theorem handshake_announces_modes:
  assumes "perform_handshake ft hello modes s = Inr (out, h, r)"
    and "unat (revision_version h) \<ge> REV_CHUNKED_PACKETS"
  shows "\<exists>send_mode recv_mode. out = send_hello hello @ write_str []
      @ (write_str (mode_str send_mode) @ write_str (mode_str recv_mode))
      @ since (unat (revision_version h)) REV_VERSIONED_REPLICAS
          (write_var_uint DBMS_PARALLEL_REPLICAS_PROTOCOL_VERSION)
    \<and> \<not> is_optional send_mode \<and> \<not> is_optional recv_mode
    \<and> (supports_chunked_send h \<longleftrightarrow> mode_str send_mode = ''chunked'')
    \<and> (supports_chunked_recv h \<longleftrightarrow> mode_str recv_mode = ''chunked'')"
proof -
  obtain s' where h: "receive_hello ft (word_of_nat DBMS_TCP_PROTOCOL_VERSION) modes s = Inr (h, s')"
    and out: "out = send_hello hello
      @ since (unat (revision_version h)) REV_ADDENDUM
          (send_addendum (unat (revision_version h)) (unat (revision_version h)) (chunked_send h) (chunked_recv h))"
    using assms(1) by (auto simp: perform_handshake_def rbind_Inr_iff Let_def)
  from hello_modes_fixed [OF h assms(2)] show ?thesis
    using assms(2) unfolding out
    by (intro exI [of _ "chunked_send h"] exI [of _ "chunked_recv h"])
       (auto simp: send_addendum_def since_def revisions is_optional_def supports_chunked_send_def
         supports_chunked_recv_def is_chunked_def mode_str_def)
qed

theorem handshake_announces_modes_witness:
  "\<exists>out h send_mode recv_mode.
     perform_handshake no_float_text \<lparr>default_database = [], username = ''u'', password = []\<rparr>
       (NotChunkedOptional, Chunked)
       (write_var_uint 0 @ hello_bytes 54479 [] sample_hello @ []) = Inr (out, h, [])
    \<and> out = send_hello \<lparr>default_database = [], username = ''u'', password = []\<rparr> @ write_str []
      @ (write_str (mode_str send_mode) @ write_str (mode_str recv_mode))
      @ since (unat (revision_version h)) REV_VERSIONED_REPLICAS
          (write_var_uint DBMS_PARALLEL_REPLICAS_PROTOCOL_VERSION)
    \<and> \<not> is_optional send_mode \<and> \<not> is_optional recv_mode
    \<and> (supports_chunked_send h \<longleftrightarrow> mode_str send_mode = ''chunked'')
    \<and> (supports_chunked_recv h \<longleftrightarrow> mode_str recv_mode = ''chunked'')"
proof -
  let ?hello = "\<lparr>default_database = [], username = ''u'', password = []\<rparr> :: client_hello"
  let ?s = "write_var_uint 0 @ hello_bytes 54479 [] sample_hello @ []"
  have "hello_ok no_float_text sample_hello" by (simp add: hello_ok_def sample_hello_def ascii_wire)
  moreover have "settings_encode no_float_text 54479 (spec_settings sample_hello) = Inr []"
    by (simp add: sample_hello_def settings_encode_def)
  ultimately have "receive_hello no_float_text (word_of_nat DBMS_TCP_PROTOCOL_VERSION) (NotChunkedOptional, Chunked) ?s
      = Inr (hello_of no_float_text 54479 sample_hello NotChunked Chunked, [])"
    using hello_read [of no_float_text sample_hello 54479 "[]" "word_of_nat DBMS_TCP_PROTOCOL_VERSION"
        "(NotChunkedOptional, Chunked)" "[]"]
    by (simp add: sample_hello_def revisions negotiated_def negotiate_def is_chunked_def is_optional_def Let_def)
  then obtain out where out: "perform_handshake no_float_text ?hello (NotChunkedOptional, Chunked) ?s
      = Inr (out, hello_of no_float_text 54479 sample_hello NotChunked Chunked, [])"
    by (simp add: perform_handshake_def Let_def)
  have "unat (revision_version (hello_of no_float_text 54479 sample_hello NotChunked Chunked)) \<ge> REV_CHUNKED_PACKETS"
    by (simp add: hello_of_def revisions Let_def)
  from handshake_announces_modes [OF out this] out show ?thesis by blast
qed

end
