(* ===== verification/RustColumns.thy ===== *)
theory RustColumns
  imports Convert ColumnTheorems
begin

text \<open>
  Rust values in columns: what \<open>to_sql\<close> makes of a value \<open>from_sql\<close> turns back into it, through
  a column of the wire too; and the conversions that do not give the value back.
\<close>

section \<open>Values a column type holds\<close>

text \<open>
  The hint a value is converted with is the type of its column, or, inside a low-cardinality
  column, the type with the low cardinality around it or nothing.
\<close>

definition hint_ok :: "ty \<Rightarrow> ty option \<Rightarrow> bool" where
  "hint_ok t h \<longleftrightarrow>
     h = Some t \<or> (h = None \<or> h = Some (LowCardinality t)) \<and> low_cardinality_inner (strip_null t)"

definition item_ok_type :: "ty \<Rightarrow> bool" where
  "item_ok_type item =
     (case item of LowCardinality t \<Rightarrow> low_cardinality_inner (strip_null t) | _ \<Rightarrow> True)"

lemma hint_ok_self [simp]: "hint_ok t (Some t)"
  by (simp add: hint_ok_def)

lemma hint_ok_item: "item_ok_type item \<Longrightarrow> hint_ok (strip_low_cardinality item) (Some item)"
  by (cases item) (simp_all add: hint_ok_def item_ok_type_def strip_low_cardinality_def)

definition not_null :: "rval \<Rightarrow> bool" where
  "not_null x = (case x of OptionV _ \<Rightarrow> False | ValueV v \<Rightarrow> v \<noteq> VNull | _ \<Rightarrow> True)"

definition plain_key :: "rval \<Rightarrow> bool" where
  "plain_key k = (case k of ValueV v \<Rightarrow> no_object v | _ \<Rightarrow> True)"

definition chrono_ok :: "rust_lib \<Rightarrow> int \<Rightarrow> nat \<Rightarrow> bool" where
  "chrono_ok lib secs nanos \<longleftrightarrow>
     chrono_second lib secs \<and> 0 \<le> secs \<and> secs < 2 ^ 44 \<and> nanos < 1000000000 \<and> nanos mod 1000 = 0"

text \<open>
  \<open>sql_value lib r t x\<close>: \<open>x\<close> is a value of the Rust type \<open>r\<close> and the column type \<open>t\<close> holds it.
\<close>

inductive sql_value :: "rust_lib \<Rightarrow> rtype \<Rightarrow> ty \<Rightarrow> rval \<Rightarrow> bool" for lib where
  bool: "sql_value lib RBool UInt8 (BoolV b)"
| u8v: "sql_value lib RU8 UInt8 (U8V x)"
| u16v: "sql_value lib RU16 UInt16 (U16V x)"
| u32v: "sql_value lib RU32 UInt32 (U32V x)"
| u64v: "sql_value lib RU64 UInt64 (U64V x)"
| u128v: "sql_value lib RU128 UInt128 (U128V x)"
| i8v: "sql_value lib RI8 Int8 (I8V x)"
| i16v: "sql_value lib RI16 Int16 (I16V x)"
| i32v: "sql_value lib RI32 Int32 (I32V x)"
| i64v: "sql_value lib RI64 Int64 (I64V x)"
| i128v: "sql_value lib RI128 Int128 (I128V x)"
| f32v: "sql_value lib RF32 Float32 (F32V x)"
| f64v: "sql_value lib RF64 Float64 (F64V x)"
| uuidv: "sql_value lib RUuid Uuid (UuidV x)"
| datev: "sql_value lib RDate Date (DateV x)"
| date32v: "sql_value lib RDate32 Date32 (Date32V x)"
| i256v: "sql_value lib RI256 Int256 (I256V x)"
| u256v: "sql_value lib RU256 UInt256 (U256V x)"
| ipv4v: "sql_value lib RIpv4 Ipv4 (Ipv4V x)"
| ipv6v: "sql_value lib RIpv6 Ipv6 (Ipv6V x)"
| pointv: "sql_value lib RPoint Point (PointV x)"
| ringv: "sql_value lib RRing Ring (RingV x)"
| polygonv: "sql_value lib RPolygon Polygon (PolygonV x)"
| multipolygonv: "sql_value lib RMultiPolygon MultiPolygon (MultiPolygonV x)"
| fixed32v: "sql_value lib (RFixed32 s) (Decimal32 s) (Fixed32V s x)"
| fixed64v: "sql_value lib (RFixed64 s) (Decimal64 s) (Fixed64V s x)"
| fixed128v: "sql_value lib (RFixed128 s) (Decimal128 s) (Fixed128V s x)"
| fixed256v: "sql_value lib (RFixed256 s) (Decimal256 s) (Fixed256V s x)"
| string_v: "utf8_str s \<Longrightarrow> t = String \<or> t = Binary \<or> t = FixedSizedString n \<or> t = FixedSizedBinary n \<or> t = Object
    \<Longrightarrow> sql_value lib RString t (StringV s)"
| bytes_v: "t = String \<or> t = FixedSizedString n \<or> t = Array UInt8 \<or> t = Array Int8
    \<Longrightarrow> sql_value lib RBytes t (BytesV bs)"
| datetime_v: "sql_value lib RDateTime (DateTime z) (DateTimeV tz x)"
| datetime64_v: "sql_value lib (RDateTime64 p) (DateTime64 p z) (DateTime64V p tz x)"
| utc_v: "chrono_ok lib secs nanos \<Longrightarrow> t = DateTime64 p z \<or> t = DateTime z
    \<Longrightarrow> sql_value lib RUtc t (UtcV secs nanos)"
| tz_v: "chrono_ok lib secs nanos \<Longrightarrow> t = DateTime64 p z \<or> t = DateTime z
    \<Longrightarrow> sql_value lib RTz t (TzV tz secs nanos)"
| decimal32: "count_digits_i128 m \<le> 9 \<Longrightarrow> in_signed 32 m \<Longrightarrow> sc \<le> s mod 2 ^ 32 \<Longrightarrow> decimal_exists lib m sc
    \<Longrightarrow> sql_value lib RDecimal (Decimal32 s) (DecimalV m sc)"
| decimal64: "count_digits_i128 m \<le> 18 \<Longrightarrow> in_signed 64 m \<Longrightarrow> sc \<le> s mod 2 ^ 32 \<Longrightarrow> decimal_exists lib m sc
    \<Longrightarrow> sql_value lib RDecimal (Decimal64 s) (DecimalV m sc)"
| decimal128: "count_digits_i128 m \<le> 28 \<Longrightarrow> - (2 ^ 127) < m \<Longrightarrow> in_signed 128 m \<Longrightarrow> sc \<le> s mod 2 ^ 32 \<Longrightarrow> decimal_exists lib m sc
    \<Longrightarrow> sql_value lib RDecimal (Decimal128 s) (DecimalV m sc)"
| vec_v: "item_ok_type item \<Longrightarrow> (\<And>x. x \<in> set xs \<Longrightarrow> sql_value lib r (strip_low_cardinality item) x)
    \<Longrightarrow> r = RU8 \<or> r = RI8 \<Longrightarrow> item = UInt8 \<or> item = Int8
    \<Longrightarrow> sql_value lib (RVec r) (Array item) (VecV r xs)"
| vec_items: "item_ok_type item \<Longrightarrow> (\<And>x. x \<in> set xs \<Longrightarrow> sql_value lib r (strip_low_cardinality item) x)
    \<Longrightarrow> r \<noteq> RU8 \<and> r \<noteq> RI8
    \<Longrightarrow> sql_value lib (RVec r) (Array item) (VecV r xs)"
| arr_v: "item_ok_type item \<Longrightarrow> (\<And>x. x \<in> set xs \<Longrightarrow> sql_value lib r (strip_low_cardinality item) x)
    \<Longrightarrow> sql_value lib (RArr (length xs) r) (Array item) (ArrV xs)"
| vec_tuple_v: "length xs = length subs \<Longrightarrow> (\<And>i. i < length xs \<Longrightarrow> sql_value lib r (subs ! i) (xs ! i))
    \<Longrightarrow> sql_value lib (RVecTuple r) (Tuple subs) (VecTupleV xs)"
| none_v: "sql_value lib (ROption r) (Nullable item) (OptionV None)"
| some_v: "strip_low_cardinality item = item \<Longrightarrow> strip_null item = item \<Longrightarrow> not_null x \<Longrightarrow> sql_value lib r item x
    \<Longrightarrow> sql_value lib (ROption r) (Nullable item) (OptionV (Some x))"
| map_v: "item_ok_type kt \<Longrightarrow> item_ok_type vt
    \<Longrightarrow> (\<And>k v. (k, v) \<in> set kvs \<Longrightarrow> sql_value lib kr (strip_low_cardinality kt) k)
    \<Longrightarrow> (\<And>k v. (k, v) \<in> set kvs \<Longrightarrow> sql_value lib vr (strip_low_cardinality vt) v)
    \<Longrightarrow> distinct (map fst kvs) \<Longrightarrow> list_all plain_key (map fst kvs) \<Longrightarrow> map_order lib kind kvs = kvs
    \<Longrightarrow> sql_value lib (RMap kind kr vr) (Map kt vt) (MapV kind kvs)"
| tuple_v: "length xs = length subs \<Longrightarrow> length rs = length subs
    \<Longrightarrow> (\<And>i. i < length xs \<Longrightarrow> item_ok_type (subs ! i))
    \<Longrightarrow> (\<And>i. i < length xs \<Longrightarrow> sql_value lib (rs ! i) (strip_low_cardinality (subs ! i)) (xs ! i))
    \<Longrightarrow> sql_value lib (RTuple rs) (Tuple subs) (TupleV xs)"
| value_v: "sql_value lib RValue t (ValueV v)"

section \<open>Lists of conversions\<close>

lemma traverse_all2: "traverse f xs = Inr ys \<longleftrightarrow> list_all2 (\<lambda>x y. f x = Inr y) xs ys"
  by (induction xs arbitrary: ys) (auto simp: rbind_Inr_iff list_all2_Cons1)

lemma traverse_back:
  assumes "\<And>x. x \<in> set xs \<Longrightarrow> \<exists>v. f x = Inr v \<and> g v = Inr x"
  shows "\<exists>vs. traverse f xs = Inr vs \<and> traverse g vs = Inr xs"
  using assms
proof (induction xs)
  case (Cons x xs)
  then show ?case by fastforce
qed simp

lemma traverse_back_nth:
  assumes "\<And>i. i < length xs \<Longrightarrow> \<exists>v. f (i, xs ! i) = Inr v \<and> g i v = Inr (xs ! i)"
  shows "\<exists>vs. traverse f (enumerate 0 xs) = Inr vs \<and> length vs = length xs
    \<and> (\<forall>i<length xs. g i (vs ! i) = Inr (xs ! i))"
proof -
  from assms obtain v where v: "\<And>i. i < length xs \<Longrightarrow> f (i, xs ! i) = Inr (v i) \<and> g i (v i) = Inr (xs ! i)"
    by metis
  then show ?thesis
    by (intro exI [of _ "map v [0..<length xs]"])
      (simp add: traverse_all2 list_all2_conv_all_nth nth_enumerate_eq)
qed

lemma traverse_zip_nth:
  assumes "length vs = length xs" and "length ts = length xs"
    and "\<forall>i<length xs. g (ts ! i) (vs ! i) = Inr (xs ! i)"
  shows "traverse (\<lambda>(t, v). g t v) (zip ts vs) = Inr xs"
  using assms by (simp add: traverse_all2 list_all2_conv_all_nth)

section \<open>Collected maps\<close>

lemma key_eq_plain: "plain_key k \<Longrightarrow> key_eq k k1 \<longleftrightarrow> k = k1"
  by (auto simp: key_eq_def plain_key_def value_eq_iff split: rval.splits)

lemma map_insert_new:
  "plain_key k \<Longrightarrow> k \<notin> fst ` set m \<Longrightarrow> map_insert k v m = m @ [(k, v)]"
  by (induction m) (auto simp: key_eq_plain)

lemma map_collect_fold:
  assumes "distinct (map fst (m @ kvs))" and "list_all plain_key (map fst kvs)"
  shows "fold (\<lambda>(k, v) m. map_insert k v m) kvs m = m @ kvs"
  using assms
proof (induction kvs arbitrary: m)
  case (Cons kv kvs)
  obtain k v where kv: "kv = (k, v)" by (cases kv)
  have "map_insert k v m = m @ [(k, v)]"
    using Cons.prems kv by (intro map_insert_new) auto
  then show ?case
    using Cons.IH [of "m @ [(k, v)]"] Cons.prems kv by auto
qed simp

lemma map_collect_distinct:
  "distinct (map fst kvs) \<Longrightarrow> list_all plain_key (map fst kvs) \<Longrightarrow> map_collect kvs = kvs"
  using map_collect_fold [of "[]" kvs] by (simp add: map_collect_def)

section \<open>Times\<close>

lemma split_micros:
  assumes "0 \<le> secs" and "secs < 2 ^ 44" and "nanos < 1000000000" and "nanos mod 1000 = 0"
  shows "\<exists>m. micros_of secs nanos = Inr m \<and> split_units m 6 = Inr (nat secs, nanos)"
proof -
  define u where "u = nat secs * 1000000 + nanos div 1000"
  have total: "secs * 1000000 + int (nanos div 1000) = int u"
    using assms(1) by (simp add: u_def)
  have below: "nanos div 1000 < 1000000" and small: "u < 2 ^ 64"
    using assms by (simp_all add: u_def)
  have "unat (word_of_int (int u) :: u64) = u"
    using small by (simp add: unsigned_of_nat take_bit_nat_eq_self)
  moreover have "u div 1000000 = nat secs" "u mod 1000000 * 1000 = nanos"
    using below div_mult_mod_eq [of nanos 1000] assms(4) by (simp_all add: u_def)
  ultimately show ?thesis
    by (simp add: micros_of_def total split_units_def pow10_u64_def pow10_rest_def Let_def)
qed


section \<open>A value comes back\<close>

definition comes_back :: "rust_lib \<Rightarrow> rtype \<Rightarrow> ty \<Rightarrow> rval \<Rightarrow> bool" where
  "comes_back lib r t x \<longleftrightarrow>
     (\<forall>h. hint_ok t h \<longrightarrow> (\<exists>v. to_sql x h = Inr v \<and> from_sql lib r t v = Inr x))"

lemma comes_backI:
  "(\<And>h. hint_ok t h \<Longrightarrow> \<exists>v. to_sql x h = Inr v \<and> from_sql lib r t v = Inr x) \<Longrightarrow> comes_back lib r t x"
  by (simp add: comes_back_def)

lemma to_sql_not_null: "to_sql x h = Inr v \<Longrightarrow> not_null x \<Longrightarrow> v \<noteq> VNull"
  by (cases x)
    (auto simp: not_null_def bytes_to_sql_def decimal_to_sql_def rbind_Inr_iff Let_def container_sql_defs
      split: if_splits option.splits ty.splits)

lemma items_back:
  assumes "item_ok_type item"
    and "\<And>x. x \<in> set xs \<Longrightarrow> comes_back lib r (strip_low_cardinality item) x"
  shows "\<exists>vs. traverse (\<lambda>x. to_sql x (Some item)) xs = Inr vs
    \<and> traverse (from_sql lib r (strip_low_cardinality item)) vs = Inr xs"
  using assms(2) hint_ok_item [OF assms(1)]
  by (intro traverse_back) (auto simp: comes_back_def)

lemma hint_composite:
  "hint_ok (Array u) h \<longleftrightarrow> h = Some (Array u)" "hint_ok (Tuple us) h \<longleftrightarrow> h = Some (Tuple us)"
  "hint_ok (Map k v) h \<longleftrightarrow> h = Some (Map k v)"
  "hint_ok (Decimal32 s) h \<longleftrightarrow> h = Some (Decimal32 s)" "hint_ok (Decimal64 s) h \<longleftrightarrow> h = Some (Decimal64 s)"
  "hint_ok (Decimal128 s) h \<longleftrightarrow> h = Some (Decimal128 s)"
  by (auto simp: hint_ok_def strip_null_def low_cardinality_inner_def)

lemma un_simps:
  "unarray (Array u) = Some u" "untuple (Tuple us) = Some us" "unmap (Map k w) = Some (k, w)"
  "unnull (Nullable u) = Some u"
  by (simp_all add: unarray_def untuple_def unmap_def unnull_def)


lemma chrono_back:
  assumes "chrono_ok lib secs nanos" and "t = DateTime64 p z \<or> t = DateTime z"
  shows "\<exists>m. micros_of secs nanos = Inr m
    \<and> chrono_from_sql lib t (VDateTime64 tz m 6) = Inr (tz, secs, nanos)"
proof -
  obtain m where "micros_of secs nanos = Inr m" "split_units m 6 = Inr (nat secs, nanos)"
    using assms(1) split_micros [of secs nanos] by (auto simp: chrono_ok_def)
  with assms show ?thesis
    by (auto simp: chrono_from_sql_def chrono_ok_def chrono_time_def)
qed

lemma sint_back: "in_signed LENGTH('a) m \<Longrightarrow> sint (word_of_int m :: 'a::len word) = m"
  by (simp add: in_signed_def sint_sbintrunc' signed_take_bit_int_eq_self)

lemma decimal_back:
  "in_signed 32 m \<Longrightarrow> sint (word_of_int m :: u32) = m"
  "in_signed 64 m \<Longrightarrow> sint (word_of_int m :: u64) = m"
  "in_signed 128 m \<Longrightarrow> sint (word_of_int m :: u128) = m"
  by (rule sint_back; simp)+

lemma scale_back: "sc \<le> s mod (2 :: nat) ^ 32 \<Longrightarrow> sc mod 2 ^ 32 = sc"
proof -
  assume "sc \<le> s mod 2 ^ 32"
  also have "\<dots> < 2 ^ 32" by simp
  finally show ?thesis by simp
qed

lemma byte_items_back:
  "traverse byte_from_value (map VUInt8 bs) = Inr bs" "traverse byte_from_value (map VInt8 bs) = Inr bs"
  by (induction bs) (simp_all add: byte_from_value_def)

lemma vec_tuple_back:
  assumes "length xs = length subs" and "\<And>i. i < length xs \<Longrightarrow> comes_back lib r (subs ! i) (xs ! i)"
  shows "comes_back lib (RVecTuple r) (Tuple subs) (VecTupleV xs)"
proof -
  have "\<exists>v. to_sql (xs ! i) (list_get subs i) = Inr v \<and> from_sql lib r (subs ! i) v = Inr (xs ! i)"
    if "i < length xs" for i
    using assms(2) [OF that] assms(1) that
    by (simp add: comes_back_def list_get_def)
  then obtain vs where vs: "traverse (\<lambda>(i, x). to_sql x (list_get subs i)) (enumerate 0 xs) = Inr vs"
    "length vs = length xs" "\<forall>i<length xs. from_sql lib r (subs ! i) (vs ! i) = Inr (xs ! i)"
    using traverse_back_nth [of xs "\<lambda>(i, x). to_sql x (list_get subs i)"
        "\<lambda>i. from_sql lib r (subs ! i)"] by auto
  have "traverse (\<lambda>(t, v). from_sql lib r t v) (zip subs vs) = Inr xs"
    by (rule traverse_zip_nth) (use vs assms(1) in simp_all)
  with vs assms(1) show ?thesis
    by (intro comes_backI) (simp add: hint_composite un_simps container_sql_defs Let_def)
qed

lemma rust_tuple_back:
  assumes "length xs = length subs" and "length rs = length subs"
    and "\<And>i. i < length xs \<Longrightarrow> item_ok_type (subs ! i)"
    and "\<And>i. i < length xs \<Longrightarrow> comes_back lib (rs ! i) (strip_low_cardinality (subs ! i)) (xs ! i)"
  shows "comes_back lib (RTuple rs) (Tuple subs) (TupleV xs)"
proof -
  have "\<exists>v. to_sql (xs ! i) (list_get subs i) = Inr v
      \<and> from_sql lib (rs ! i) (strip_low_cardinality (subs ! i)) v = Inr (xs ! i)"
    if "i < length xs" for i
    using assms(4) [OF that] assms(1) hint_ok_item [OF assms(3) [OF that]] that
    by (simp add: comes_back_def list_get_def)
  then obtain vs where vs: "traverse (\<lambda>(i, x). to_sql x (list_get subs i)) (enumerate 0 xs) = Inr vs"
    "length vs = length xs"
    "\<forall>i<length xs. from_sql lib (rs ! i) (strip_low_cardinality (subs ! i)) (vs ! i) = Inr (xs ! i)"
    using traverse_back_nth [of xs "\<lambda>(i, x). to_sql x (list_get subs i)"
        "\<lambda>i. from_sql lib (rs ! i) (strip_low_cardinality (subs ! i))"] by auto
  have "traverse (\<lambda>(r, sub, v). from_sql lib r (strip_low_cardinality sub) v) (zip rs (zip subs vs)) = Inr xs"
    using vs assms by (simp add: traverse_all2 list_all2_conv_all_nth)
  with vs assms(1,2) show ?thesis
    by (intro comes_backI) (simp add: hint_composite un_simps container_sql_defs Let_def)
qed

lemma some_back:
  assumes "strip_low_cardinality item = item" and "strip_null item = item" and "not_null x"
    and "comes_back lib r item x"
  shows "comes_back lib (ROption r) (Nullable item) (OptionV (Some x))"
proof (rule comes_backI)
  fix h
  assume "hint_ok (Nullable item) h"
  then have "hint_ok item (Option.bind h unnull)"
    using assms(2) by (auto simp: hint_ok_def unnull_def strip_null_def)
  then obtain v where v: "to_sql x (Option.bind h unnull) = Inr v" "from_sql lib r item v = Inr x"
    using assms(4) by (auto simp: comes_back_def)
  then have "v \<noteq> VNull"
    using to_sql_not_null assms(3) by blast
  with v assms(1) show "\<exists>v. to_sql (OptionV (Some x)) h = Inr v
      \<and> from_sql lib (ROption r) (Nullable item) v = Inr (OptionV (Some x))"
    by (cases v) (simp_all add: container_sql_defs)
qed

lemma rust_map_back:
  assumes "item_ok_type kt" and "item_ok_type vt"
    and "\<And>k v. (k, v) \<in> set kvs \<Longrightarrow> comes_back lib kr (strip_low_cardinality kt) k"
    and "\<And>k v. (k, v) \<in> set kvs \<Longrightarrow> comes_back lib vr (strip_low_cardinality vt) v"
    and "distinct (map fst kvs)" and "list_all plain_key (map fst kvs)" and "map_order lib kind kvs = kvs"
  shows "comes_back lib (RMap kind kr vr) (Map kt vt) (MapV kind kvs)"
proof -
  define f where "f = (\<lambda>(k, v). rbind (to_sql k (Some kt)) (\<lambda>k'.
      rbind (to_sql v (Some vt)) (\<lambda>v'. Inr (k', v'))))"
  define g where "g = (\<lambda>(k, v). rbind (from_sql lib kr (strip_low_cardinality kt) k) (\<lambda>k'.
      rbind (from_sql lib vr (strip_low_cardinality vt) v) (\<lambda>v'. Inr (k', v'))))"
  have "\<exists>y. f kv = Inr y \<and> g y = Inr kv" if "kv \<in> set kvs" for kv
  proof -
    obtain k v where kv: "kv = (k, v)" by (cases kv)
    note member = that [unfolded kv]
    obtain k' where "to_sql k (Some kt) = Inr k'" "from_sql lib kr (strip_low_cardinality kt) k' = Inr k"
      using assms(3) [OF member] hint_ok_item [OF assms(1)] by (auto simp: comes_back_def)
    moreover obtain v' where "to_sql v (Some vt) = Inr v'" "from_sql lib vr (strip_low_cardinality vt) v' = Inr v"
      using assms(4) [OF member] hint_ok_item [OF assms(2)] by (auto simp: comes_back_def)
    ultimately show ?thesis
      by (simp add: kv f_def g_def)
  qed
  then obtain ps where ps: "traverse f kvs = Inr ps" "traverse g ps = Inr kvs"
    using traverse_back [of kvs f g] by blast
  have "map_collect kvs = kvs"
    using assms(5,6) by (rule map_collect_distinct)
  with ps assms(7) show ?thesis
    by (intro comes_backI) (simp add: hint_composite un_simps container_sql_defs Let_def f_def g_def zip_map_fst_snd)
qed

lemma vec_back:
  assumes "item_ok_type item" and "\<And>x. x \<in> set xs \<Longrightarrow> comes_back lib r (strip_low_cardinality item) x"
    and "(r \<noteq> RU8 \<and> r \<noteq> RI8) \<or> item = UInt8 \<or> item = Int8"
  shows "comes_back lib (RVec r) (Array item) (VecV r xs)"
proof -
  obtain vs where "traverse (\<lambda>x. to_sql x (Some item)) xs = Inr vs"
    "traverse (from_sql lib r (strip_low_cardinality item)) vs = Inr xs"
    using items_back [OF assms(1,2)] by blast
  moreover have "\<not> (text_hint (Some item) \<and> (r = RU8 \<or> r = RI8))"
    using assms(3) by (auto simp: text_hint_def)
  ultimately show ?thesis
    by (intro comes_backI) (simp add: hint_composite un_simps container_sql_defs Let_def)
qed

lemma arr_back:
  assumes "item_ok_type item" and "\<And>x. x \<in> set xs \<Longrightarrow> comes_back lib r (strip_low_cardinality item) x"
  shows "comes_back lib (RArr (length xs) r) (Array item) (ArrV xs)"
proof -
  obtain vs where vs: "traverse (\<lambda>x. to_sql x (Some item)) xs = Inr vs"
    "traverse (from_sql lib r (strip_low_cardinality item)) vs = Inr xs"
    using items_back [OF assms] by blast
  moreover have "length vs = length xs"
    using vs(1) by (rule traverse_length)
  ultimately show ?thesis
    by (intro comes_backI) (simp add: hint_composite un_simps container_sql_defs Let_def)
qed

lemma bytes_back:
  "t = String \<or> t = FixedSizedString n \<or> t = Array UInt8 \<or> t = Array Int8 \<Longrightarrow> comes_back lib RBytes t (BytesV bs)"
  by (intro comes_backI)
    (auto simp: hint_ok_def bytes_to_sql_def bytes_from_sql_def byte_items_back
      low_cardinality_inner_def strip_null_def)

lemma string_back:
  "utf8_str s \<Longrightarrow> t = String \<or> t = Binary \<or> t = FixedSizedString n \<or> t = FixedSizedBinary n \<or> t = Object
    \<Longrightarrow> comes_back lib RString t (StringV s)"
  by (intro comes_backI) (auto simp: string_from_sql_def from_utf8_def utf8_str_def)

lemma time_back:
  assumes "chrono_ok lib secs nanos" and "t = DateTime64 p z \<or> t = DateTime z"
  shows "comes_back lib RUtc t (UtcV secs nanos)" "comes_back lib RTz t (TzV tz secs nanos)"
  using chrono_back [OF assms, of "''UTC''"] chrono_back [OF assms, of tz]
  by (auto intro!: comes_backI)

lemma rust_decimal_back:
  "\<lbrakk>count_digits_i128 m \<le> 9; in_signed 32 m; sc \<le> s mod 2 ^ 32; decimal_exists lib m sc\<rbrakk>
    \<Longrightarrow> comes_back lib RDecimal (Decimal32 s) (DecimalV m sc)"
  "\<lbrakk>count_digits_i128 m \<le> 18; in_signed 64 m; sc \<le> s mod 2 ^ 32; decimal_exists lib m sc\<rbrakk>
    \<Longrightarrow> comes_back lib RDecimal (Decimal64 s) (DecimalV m sc)"
  "\<lbrakk>count_digits_i128 m \<le> 28; - (2 ^ 127) < m; in_signed 128 m; sc \<le> s mod 2 ^ 32; decimal_exists lib m sc\<rbrakk>
    \<Longrightarrow> comes_back lib RDecimal (Decimal128 s) (DecimalV m sc)"
  by (rule comes_backI,
      simp add: hint_composite decimal_to_sql_def decimal_from_sql_def decimal_back decimal_made_def
        scale_back not_less)+

lemma sql_value_back: "sql_value lib r t x \<Longrightarrow> comes_back lib r t x"
proof (induction rule: sql_value.induct)
  case (vec_v item xs r)
  then show ?case by (intro vec_back) auto
next
  case (vec_items item xs r)
  then show ?case by (intro vec_back) auto
next
  case (none_v r item)
  then show ?case by (intro comes_backI) (simp add: container_sql_defs)
qed ((rule string_back bytes_back time_back rust_decimal_back arr_back vec_tuple_back some_back rust_map_back
      rust_tuple_back; assumption) | (intro comes_backI, simp add: value_from_sql_defs))+


lemma sql_value_backD:
  "sql_value lib r t x \<Longrightarrow> \<exists>v. to_sql x (Some t) = Inr v \<and> from_sql lib r t v = Inr x"
  using sql_value_back [of lib r t x] by (simp add: comes_back_def)

section \<open>Rows of a Rust type in a column\<close>


definition any_lib :: rust_lib where
  "any_lib = \<lparr>chrono_second = (\<lambda>s. \<bar>s\<bar> < 8000000000000), decimal_exists = (\<lambda>m s. \<bar>m\<bar> < 2 ^ 96 \<and> s \<le> 28),
     map_order = (\<lambda>_ kvs. kvs)\<rparr>"


section \<open>Decimals are not rescaled\<close>




text \<open>A chrono time converts to microseconds whatever the precision of its column, and the check of
  a column of another precision or of another time zone refuses it.\<close>

lemma chrono_only_micros:
  "to_sql (UtcV secs nanos) (Some (DateTime64 p tz)) = Inr v \<Longrightarrow> p \<noteq> 6 \<or> tz \<noteq> ''UTC'' \<Longrightarrow>
   validate_value (DateTime64 p tz) v \<noteq> Inr ()"
  by (auto simp: rbind_Inr_iff validate_value_def)

text \<open>Bytes of a vector written to a text column are not read back as a vector.\<close>

lemma traverse_bytes: "traverse (\<lambda>x. to_sql x h) (map U8V bs) = Inr (map VUInt8 bs)"
  by (induction bs) simp_all

lemma vec_bytes_text:
  "inner_validate_value String (VArray (map VUInt8 bs))
   \<and> to_sql (VecV RU8 (map U8V bs)) (Some String) = Inr (VArray (map VUInt8 bs))
   \<and> from_sql lib (RVec RU8) String v = Inl DeserializeError"
  by (simp add: traverse_bytes list_all_iff is_byte_value_def unarray_def text_hint_def Let_def container_sql_defs)

text \<open>\<open>VecTuple\<close> hands the part types to its items as they are, a tuple strips the low
  cardinality: the same column is read as a tuple and refused as a \<open>VecTuple\<close>.\<close>

lemma vec_tuple_low_cardinality:
  "utf8_valid bs \<Longrightarrow>
   from_sql lib (RTuple [RString]) (Tuple [LowCardinality String]) (VTuple [VString bs])
     = Inr (TupleV [StringV (bytes_str bs)])
   \<and> from_sql lib (RVecTuple RString) (Tuple [LowCardinality String]) (VTuple [VString bs])
     = Inl DeserializeError"
  by (simp add: string_from_sql_def from_utf8_def strip_low_cardinality_def container_sql_defs)

end
