(* ===== verification/RawRow.thy ===== *)
theory RawRow
  imports RustColumns
begin

text \<open>
  Rows without a type (native/convert/raw_row.rs) and rows of one value
  (native/convert/unit_value.rs). A raw row is a list of slots; a slot is empty once its value
  was taken.
\<close>

section \<open>Raw rows\<close>

type_synonym raw_slot = "(string \<times> ty \<times> val) option"
type_synonym raw_row = "raw_slot list"

definition raw_deserialize_row :: "(string \<times> ty \<times> val) list \<Rightarrow> raw_row res" where
  "raw_deserialize_row cells = Inr (map Some cells)"

definition raw_serialize_row :: "raw_row \<Rightarrow> (string \<times> val) list res" where
  "raw_serialize_row row =
     traverse (\<lambda>s. case s of None \<Rightarrow> Inl Panic | Some (name, _, v) \<Rightarrow> Inr (name, v)) row"

text \<open>The name of a slot, empty when its value was taken.\<close>

definition slot_name :: "raw_slot \<Rightarrow> string" where
  "slot_name s = (case s of None \<Rightarrow> [] | Some (name, _) \<Rightarrow> name)"

fun raw_position :: "('a \<Rightarrow> bool) \<Rightarrow> 'a list \<Rightarrow> nat option" where
  "raw_position p [] = None"
| "raw_position p (x # xs) = (if p x then Some 0 else map_option Suc (raw_position p xs))"

datatype row_index = ByPosition nat | ByName string

definition row_index_get :: "row_index \<Rightarrow> string list \<Rightarrow> nat option" where
  "row_index_get i columns =
     (case i of
        ByPosition n \<Rightarrow> if length columns \<ge> n then Some n else None
      | ByName name \<Rightarrow> raw_position (\<lambda>x. x = name) columns)"

definition raw_is_empty :: "raw_row \<Rightarrow> bool" where
  "raw_is_empty row = (row = [])"

definition raw_len :: "raw_row \<Rightarrow> nat" where
  "raw_len row = length row"

definition raw_into_values :: "raw_row \<Rightarrow> (ty \<times> val) list res" where
  "raw_into_values row = traverse (\<lambda>s. case s of None \<Rightarrow> Inl Panic | Some (_, t, v) \<Rightarrow> Inr (t, v)) row"

text \<open>\<open>get_mut(index).unwrap()\<close> panics past the end; the value is taken before it is converted.\<close>

definition raw_try_get :: "rust_lib \<Rightarrow> row_index \<Rightarrow> rtype \<Rightarrow> raw_row \<Rightarrow> rval res \<times> raw_row" where
  "raw_try_get lib i r row =
     (case row_index_get i (map slot_name row) of
        None \<Rightarrow> (Inl OutOfBounds, row)
      | Some n \<Rightarrow>
          if n \<ge> length row then (Inl Panic, row)
          else (case row ! n of
            None \<Rightarrow> (Inl DoubleFetch, row)
          | Some (_, t, v) \<Rightarrow> (from_sql lib r t v, row[n := None])))"

definition or_panic :: "'a res \<Rightarrow> 'a res" where
  "or_panic x = (case x of Inl _ \<Rightarrow> Inl Panic | Inr y \<Rightarrow> Inr y)"

definition raw_get :: "rust_lib \<Rightarrow> row_index \<Rightarrow> rtype \<Rightarrow> raw_row \<Rightarrow> rval res \<times> raw_row" where
  "raw_get lib i r row = (let (x, row') = raw_try_get lib i r row in (or_panic x, row'))"

definition raw_try_set_typed :: "string \<Rightarrow> ty option \<Rightarrow> rval \<Rightarrow> raw_row \<Rightarrow> raw_row res" where
  "raw_try_set_typed name t x row =
     rbind (to_sql x t) (\<lambda>v.
       let t' = (case t of Some u \<Rightarrow> u | None \<Rightarrow> guess_type v) in
       case raw_position (\<lambda>s. slot_name s = name) row of
         Some n \<Rightarrow>
           (case row ! n of
              None \<Rightarrow> Inl Panic
            | Some (old, _, _) \<Rightarrow> Inr (row[n := Some (old, t', v)]))
       | None \<Rightarrow> Inr (row @ [Some (name, t', v)]))"

definition raw_try_set :: "string \<Rightarrow> rval \<Rightarrow> raw_row \<Rightarrow> raw_row res" where
  "raw_try_set name x row = raw_try_set_typed name None x row"

definition raw_set :: "string \<Rightarrow> rval \<Rightarrow> raw_row \<Rightarrow> raw_row res" where
  "raw_set name x row = or_panic (raw_try_set name x row)"

definition raw_set_typed :: "string \<Rightarrow> ty option \<Rightarrow> rval \<Rightarrow> raw_row \<Rightarrow> raw_row res" where
  "raw_set_typed name t x row = or_panic (raw_try_set_typed name t x row)"

section \<open>Rows of one value\<close>

definition unit_deserialize_row :: "rust_lib \<Rightarrow> rtype \<Rightarrow> (string \<times> ty \<times> val) list \<Rightarrow> rval res" where
  "unit_deserialize_row lib r cells =
     (case cells of [] \<Rightarrow> Inl MissingField | (_, t, v) # _ \<Rightarrow> from_sql lib r t v)"

definition unit_serialize_row :: "rval \<Rightarrow> (string \<times> ty) list \<Rightarrow> (string \<times> val) list res" where
  "unit_serialize_row x hints =
     rbind (to_sql x (case hints of [] \<Rightarrow> None | (_, t) # _ \<Rightarrow> Some t)) (\<lambda>v. Inr [(''_'', v)])"

section \<open>What was set is fetched once\<close>

lemma raw_position_Some:
  "raw_position p xs = Some n \<Longrightarrow> n < length xs \<and> p (xs ! n) \<and> (\<forall>i<n. \<not> p (xs ! i))"
proof (induction xs arbitrary: n)
  case (Cons x xs)
  then show ?case
    by (auto simp: nth_Cons' split: if_splits)
qed simp

lemma raw_position_None: "raw_position p xs = None \<longleftrightarrow> (\<forall>x\<in>set xs. \<not> p x)"
  by (induction xs) auto

lemma raw_position_first:
  "n < length xs \<Longrightarrow> p (xs ! n) \<Longrightarrow> (\<And>i. i < n \<Longrightarrow> \<not> p (xs ! i)) \<Longrightarrow> raw_position p xs = Some n"
proof (induction xs arbitrary: n)
  case (Cons x xs)
  show ?case
  proof (cases n)
    case 0
    with Cons.prems show ?thesis by simp
  next
    case (Suc m)
    have "\<not> p x"
      using Cons.prems(3) [of 0] Suc by simp
    moreover have "raw_position p xs = Some m"
      using Cons.prems Suc Cons.IH [of m] Cons.prems(3) [of "Suc _"] by auto
    ultimately show ?thesis
      using Suc by simp
  qed
qed simp

lemma raw_position_map: "raw_position p (map f xs) = raw_position (\<lambda>x. p (f x)) xs"
  by (induction xs) auto

text \<open>The slot of a name after it was set.\<close>

lemma raw_set_slot:
  assumes "raw_try_set_typed name (Some t) x row = Inr row'" and "name \<noteq> []"
  obtains n v where "to_sql x (Some t) = Inr v" and "n < length row'" and "row' ! n = Some (name, t, v)"
    and "raw_position (\<lambda>s. slot_name s = name) row' = Some n"
proof -
  obtain v where v: "to_sql x (Some t) = Inr v"
    using assms(1) by (auto simp: raw_try_set_typed_def rbind_Inr_iff)
  show ?thesis
  proof (cases "raw_position (\<lambda>s. slot_name s = name) row")
    case None
    then have "row' = row @ [Some (name, t, v)]"
      using assms(1) v by (simp add: raw_try_set_typed_def)
    moreover have "slot_name (row ! i) \<noteq> name" if "i < length row" for i
      using None that by (simp add: raw_position_None)
    ultimately show ?thesis
      by (intro that [of v "length row"] raw_position_first v)
        (auto simp: nth_append slot_name_def)
  next
    case (Some n)
    note found = raw_position_Some [OF Some]
    then obtain old where old: "row ! n = Some (name, old)"
      using assms(2) by (auto simp: slot_name_def split: option.splits)
    then have row': "row' = row[n := Some (name, t, v)]"
      using assms(1) v Some by (cases old) (simp add: raw_try_set_typed_def)
    show ?thesis
      by (intro that [of v n] raw_position_first v)
        (use found row' in \<open>auto simp: slot_name_def\<close>)
  qed
qed

text \<open>C21. A value set in a raw row under a name that is not empty and under a type that holds it
  is fetched by the name, equal to what was set, whatever the row held before; the fetch
  leaves every other slot. Fetched again, it is refused: by its position as a double fetch, and
  by the name as a column the row does not have, unless another slot has the same name.\<close>

theorem raw_row_get_set:
  assumes "raw_try_set_typed name (Some t) x row = Inr row'" and "name \<noteq> []" and "sql_value lib r t x"
  shows "\<exists>n row2. raw_try_get lib (ByName name) r row' = (Inr x, row2)
    \<and> n < length row' \<and> row2 = row'[n := None]
    \<and> raw_try_get lib (ByPosition n) r row2 = (Inl DoubleFetch, row2)
    \<and> ((\<forall>i < length row'. i \<noteq> n \<longrightarrow> slot_name (row' ! i) \<noteq> name)
        \<longrightarrow> raw_try_get lib (ByName name) r row2 = (Inl OutOfBounds, row2))"
proof -
  obtain n v where n: "to_sql x (Some t) = Inr v" "n < length row'" "row' ! n = Some (name, t, v)"
    "raw_position (\<lambda>s. slot_name s = name) row' = Some n"
    using raw_set_slot [OF assms(1,2)] .
  have got: "from_sql lib r t v = Inr x"
    using sql_value_backD [OF assms(3)] n(1) by auto
  have empty: "slot_name None \<noteq> name" using assms(2) by (simp add: slot_name_def)
  have "raw_position (\<lambda>s. slot_name s = name) (row'[n := None]) = None"
    if other: "\<forall>i < length row'. i \<noteq> n \<longrightarrow> slot_name (row' ! i) \<noteq> name"
    unfolding raw_position_None
  proof
    fix s
    assume "s \<in> set (row'[n := None])"
    then obtain i where "i < length row'" "s = (if i = n then None else row' ! i)"
      by (auto simp: in_set_conv_nth nth_list_update)
    then show "slot_name s \<noteq> name" using other empty by simp
  qed
  then have "raw_try_get lib (ByName name) r (row'[n := None]) = (Inl OutOfBounds, row'[n := None])"
    if "\<forall>i < length row'. i \<noteq> n \<longrightarrow> slot_name (row' ! i) \<noteq> name"
    using that by (simp add: raw_try_get_def row_index_get_def raw_position_map)
  with n got show ?thesis
    by (auto simp: raw_try_get_def row_index_get_def raw_position_map intro!: exI [of _ n])
qed

lemma some_row_set:
  "raw_try_set_typed ''a'' (Some UInt8) (U8V 7) [None, Some (''a'', Int8, VInt8 0)]
   = Inr [None, Some (''a'', UInt8, VUInt8 7)]"
  by (simp add: raw_try_set_typed_def slot_name_def)

theorem raw_row_get_set_witness:
  "raw_try_get any_lib (ByName ''a'') RU8 [None, Some (''a'', UInt8, VUInt8 7)] = (Inr (U8V 7), [None, None])
    \<and> raw_try_get any_lib (ByName ''a'') RU8 [None, None] = (Inl OutOfBounds, [None, None])"
proof -
  let ?row = "[None, Some (''a'', UInt8, VUInt8 7)] :: raw_row"
  obtain n row2 where n: "raw_try_get any_lib (ByName ''a'') RU8 ?row = (Inr (U8V 7), row2)"
    "n < length ?row" "row2 = ?row[n := None]"
    "(\<forall>i < length ?row. i \<noteq> n \<longrightarrow> slot_name (?row ! i) \<noteq> ''a'')
        \<longrightarrow> raw_try_get any_lib (ByName ''a'') RU8 row2 = (Inl OutOfBounds, row2)"
    using raw_row_get_set [OF some_row_set, of any_lib RU8] by (auto simp: sql_value.u8v)
  have "row2 = [None, None]"
    using n(1) by (simp add: raw_try_get_def row_index_get_def slot_name_def)
  moreover from this have "n = 1" using n(2,3) by (cases n) auto
  ultimately show ?thesis using n(1,4) by (simp add: slot_name_def less_Suc_eq)
qed

text \<open>The position just past the end passes the bounds check of \<open>RowIndex for usize\<close>:
  \<open>try_get\<close> panics there, where its comment promises an error.\<close>

theorem raw_row_length_panics:
  "raw_try_get lib (ByPosition (length row)) r row = (Inl Panic, row)
   \<and> raw_try_get lib (ByPosition (Suc (length row))) r row = (Inl OutOfBounds, row)"
  by (simp add: raw_try_get_def row_index_get_def)

text \<open>A column named by the empty text is taken for one whose value was taken: setting it panics.\<close>

lemma raw_set_empty_name:
  "to_sql x t = Inr v \<Longrightarrow> raw_try_set_typed [] t x (None # row) = Inl Panic"
  by (simp add: raw_try_set_typed_def slot_name_def)

text \<open>A row of one value is written under the name \<open>_\<close> and read back from its first column.\<close>

lemma unit_row_back:
  assumes "sql_value lib r t x"
  shows "\<exists>v. unit_serialize_row x ((name, t) # hints) = Inr [(''_'', v)]
    \<and> unit_deserialize_row lib r ((name, t, v) # cells) = Inr x"
  using sql_value_backD [OF assms]
  by (auto simp: unit_serialize_row_def unit_deserialize_row_def)

end
