(* ===== verification/Schema.thy ===== *)
theory Schema
  imports ArrowTypes TypeText Settings "HOL-Library.Sublist"
begin

text \<open>
  Statements that create databases and tables (schema.rs): engines, the options of a table and
  their clauses, the columns of a table from an Arrow schema or from the static schema of a row
  type. Text is a list of characters as everywhere; a map from column names is a function to
  an option.
\<close>

section \<open>Engines\<close>

datatype click_house_engine =
    MergeTree | AggregatingMergeTree | CollapsingMergeTree | ReplacingMergeTree | SummingMergeTree
  | Memory | Log | StripeLog | TinyLog | OtherEngine string

definition ascii_upper :: "char \<Rightarrow> char" where
  "ascii_upper c =
     (let n = (of_char c :: nat) in if 97 \<le> n \<and> n \<le> 122 then char_of (n - 32) else c)"

text \<open>
  \<open>to_uppercase\<close>: the letters of ASCII, and the other letters with an upper case in ASCII (the
  dotless i, the long s, the sharp s and the ligatures), as UTF-8 bytes. Every other letter stays
  outside ASCII and is kept as it is here.
\<close>

fun to_uppercase :: "string \<Rightarrow> string" where
  "to_uppercase [] = []"
| "to_uppercase (a # s) =
     (case s of
        b # t \<Rightarrow>
          if a = CHR 0xC4 \<and> b = CHR 0xB1 then CHR ''I'' # to_uppercase t
          else if a = CHR 0xC5 \<and> b = CHR 0xBF then CHR ''S'' # to_uppercase t
          else if a = CHR 0xC3 \<and> b = CHR 0x9F then ''SS'' @ to_uppercase t
          else (case t of
            c # u \<Rightarrow>
              if a = CHR 0xEF \<and> b = CHR 0xAC \<and> c = CHR 0x80 then ''FF'' @ to_uppercase u
              else if a = CHR 0xEF \<and> b = CHR 0xAC \<and> c = CHR 0x81 then ''FI'' @ to_uppercase u
              else if a = CHR 0xEF \<and> b = CHR 0xAC \<and> c = CHR 0x82 then ''FL'' @ to_uppercase u
              else if a = CHR 0xEF \<and> b = CHR 0xAC \<and> c = CHR 0x83 then ''FFI'' @ to_uppercase u
              else if a = CHR 0xEF \<and> b = CHR 0xAC \<and> c = CHR 0x84 then ''FFL'' @ to_uppercase u
              else if a = CHR 0xEF \<and> b = CHR 0xAC \<and> (c = CHR 0x85 \<or> c = CHR 0x86)
                then ''ST'' @ to_uppercase u
              else ascii_upper a # to_uppercase (b # c # u)
          | [] \<Rightarrow> ascii_upper a # to_uppercase [b])
      | [] \<Rightarrow> [ascii_upper a])"

definition engine_from :: "string \<Rightarrow> click_house_engine" where
  "engine_from engine =
     (let upper = to_uppercase engine in
      if upper = ''MERGETREE'' then MergeTree
      else if upper = ''AGGREGATINGMERGETREE'' then AggregatingMergeTree
      else if upper = ''COLLAPSINGMERGETREE'' then CollapsingMergeTree
      else if upper = ''REPLACINGMERGETREE'' then ReplacingMergeTree
      else if upper = ''SUMMINGMERGETREE'' then SummingMergeTree
      else if upper = ''MEMORY'' then Memory
      else if upper = ''LOG'' then Log
      else if upper = ''STRIPELOG'' then StripeLog
      else if upper = ''TINYLOG'' then TinyLog
      else OtherEngine engine)"

fun engine_text :: "click_house_engine \<Rightarrow> string" where
  "engine_text MergeTree = ''MergeTree''"
| "engine_text AggregatingMergeTree = ''AggregatingMergeTree''"
| "engine_text CollapsingMergeTree = ''CollapsingMergeTree''"
| "engine_text ReplacingMergeTree = ''ReplacingMergeTree''"
| "engine_text SummingMergeTree = ''SummingMergeTree''"
| "engine_text Memory = ''Memory''"
| "engine_text Log = ''Log''"
| "engine_text StripeLog = ''StripeLog''"
| "engine_text TinyLog = ''TinyLog''"
| "engine_text (OtherEngine engine) = engine"

section \<open>The options of a table\<close>

record create_options =
  engine :: string
  order_by :: "string list"
  primary_keys :: "string list"
  partition_by :: "string option"
  sampling :: "string option"
  table_settings :: settings
  ttl :: "string option"
  conversions :: "schema_conversions option"
  column_defaults :: "(string \<Rightarrow> string option) option"
  defaults_for_nullable :: bool

definition create_options_new :: "string \<Rightarrow> create_options" where
  "create_options_new e = \<lparr>engine = e, order_by = [], primary_keys = [], partition_by = None,
     sampling = None, table_settings = [], ttl = None, conversions = None, column_defaults = None,
     defaults_for_nullable = False\<rparr>"

definition create_options_from_engine :: "click_house_engine \<Rightarrow> create_options" where
  "create_options_from_engine e = create_options_new (engine_text e)"

definition with_order_by :: "string list \<Rightarrow> create_options \<Rightarrow> create_options" where
  "with_order_by ks o1 = o1\<lparr>order_by := filter (\<lambda>k. k \<noteq> []) ks\<rparr>"

definition with_primary_keys :: "string list \<Rightarrow> create_options \<Rightarrow> create_options" where
  "with_primary_keys ks o1 = o1\<lparr>primary_keys := filter (\<lambda>k. k \<noteq> []) ks\<rparr>"

definition with_partition_by :: "string \<Rightarrow> create_options \<Rightarrow> create_options" where
  "with_partition_by p o1 = (if p \<noteq> [] then o1\<lparr>partition_by := Some p\<rparr> else o1)"

definition with_sample_by :: "string \<Rightarrow> create_options \<Rightarrow> create_options" where
  "with_sample_by s o1 = (if s \<noteq> [] then o1\<lparr>sampling := Some s\<rparr> else o1)"

definition with_settings :: "settings \<Rightarrow> create_options \<Rightarrow> create_options" where
  "with_settings ss o1 = o1\<lparr>table_settings := ss\<rparr>"

definition with_ttl :: "string \<Rightarrow> create_options \<Rightarrow> create_options" where
  "with_ttl t o1 = (if t \<noteq> [] then o1\<lparr>ttl := Some t\<rparr> else o1)"

definition with_setting :: "string \<Rightarrow> setting_value \<Rightarrow> create_options \<Rightarrow> create_options" where
  "with_setting k v o1 = o1\<lparr>table_settings := add_setting (table_settings o1) k v\<rparr>"

definition with_defaults :: "(string \<times> string) list \<Rightarrow> create_options \<Rightarrow> create_options" where
  "with_defaults kvs o1 = o1\<lparr>column_defaults := Some (map_of (rev kvs))\<rparr>"

definition with_defaults_for_nullable :: "create_options \<Rightarrow> create_options" where
  "with_defaults_for_nullable o1 = o1\<lparr>defaults_for_nullable := True\<rparr>"

definition with_schema_conversions :: "schema_conversions \<Rightarrow> create_options \<Rightarrow> create_options" where
  "with_schema_conversions c o1 = o1\<lparr>conversions := Some c\<rparr>"

text \<open>\<open>build\<close>: the clauses in their order. \<open>contains\<close> is the search for a part of a text.\<close>

definition contains :: "string \<Rightarrow> string \<Rightarrow> bool" where
  "contains s part = sublist part s"

definition log_engine :: "string \<Rightarrow> bool" where
  "log_engine e = (contains e ''log'' \<or> contains e ''LOG'' \<or> contains e ''Log'')"

definition clause :: "string \<Rightarrow> string option \<Rightarrow> string list" where
  "clause word x = (case x of None \<Rightarrow> [] | Some s \<Rightarrow> [word @ s])"

definition order_clause :: "create_options \<Rightarrow> string res" where
  "order_clause o1 =
     (if order_by o1 = [] then
        (if primary_keys o1 \<noteq> [] \<or> (case sampling o1 of None \<Rightarrow> False | Some s \<Rightarrow> s \<noteq> [])
         then Inl DDLMalformed else Inr ''ORDER BY tuple()'')
      else if primary_keys o1 \<noteq> []
        \<and> \<not> list_all (\<lambda>i. i < length (order_by o1) \<and> order_by o1 ! i = primary_keys o1 ! i)
              [0..<length (primary_keys o1)]
      then Inl DDLMalformed
      else if (case sampling o1 of None \<Rightarrow> False
               | Some sample \<Rightarrow> \<not> list_ex (\<lambda>k. contains sample k) (order_by o1))
      then Inl DDLMalformed
      else Inr (''ORDER BY ('' @ join '', '' (order_by o1) @ '')''))"

definition build :: "float_text \<Rightarrow> create_options \<Rightarrow> string res" where
  "build ft o1 =
     (if engine o1 = [] then Inl DDLMalformed
      else if log_engine (engine o1) then Inr (''ENGINE = '' @ engine o1)
      else rbind (order_clause o1) (\<lambda>order.
        Inr (join ''\<newline>''
          ([''ENGINE = '' @ engine o1, order]
           @ (if primary_keys o1 = [] then []
              else [''PRIMARY KEY ('' @ join '', '' (primary_keys o1) @ '')''])
           @ clause ''PARTITION BY '' (partition_by o1)
           @ clause ''SAMPLE BY '' (sampling o1)
           @ clause ''TTL '' (ttl o1)
           @ (if table_settings o1 = [] then []
              else [''SETTINGS '' @ join '', '' (encode_to_strings ft (table_settings o1))])))))"

section \<open>Databases\<close>

definition create_db_statement :: "string \<Rightarrow> string res" where
  "create_db_statement database =
     (if database = [] then Inl DDLMalformed
      else if map ascii_lower database = ''default'' then Inl DDLMalformed
      else Inr (''CREATE DATABASE IF NOT EXISTS '' @ database))"

definition drop_db_statement :: "string \<Rightarrow> bool \<Rightarrow> string res" where
  "drop_db_statement database sync =
     (if database = [] then Inl DDLMalformed
      else if map ascii_lower database = ''default'' then Inl DDLMalformed
      else Inr (''DROP DATABASE IF EXISTS '' @ database @ (if sync then '' SYNC'' else [])))"

section \<open>Tables\<close>

type_synonym column_definition = "string \<times> ty \<times> string option"

text \<open>
  The columns of an Arrow schema, and those of a row type. The default value of a row type is
  a value; here it is the text the statement prints of it.
\<close>

definition batch_definitions ::
  "(string \<Rightarrow> tz option) \<Rightarrow> arrow_options option \<Rightarrow> (string \<Rightarrow> string option) option
    \<Rightarrow> schema_conversions option \<Rightarrow> field list \<Rightarrow> column_definition list res" where
  "batch_definitions tzp opts defs convs fs =
     traverse (\<lambda>f. rbind (schema_conversion tzp f convs opts) (\<lambda>t.
       Inr (field_name f, t,
         case Option.bind defs (\<lambda>d. d (field_name f)) of
           None \<Rightarrow> None
         | Some d \<Rightarrow> if d \<noteq> [] \<and> d \<noteq> ''NULL'' then Some d else None))) fs"

definition row_definitions ::
  "schema_conversions option \<Rightarrow> column_definition list option \<Rightarrow> column_definition list option" where
  "row_definitions convs definitions =
     (case definitions of
        None \<Rightarrow> None
      | Some static \<Rightarrow>
          (case convs of
             None \<Rightarrow> Some static
           | Some c \<Rightarrow> Some (map (\<lambda>(name, t, d). (name, case c name of None \<Rightarrow> t | Some u \<Rightarrow> u, d)) static)))"

definition trim_backticks :: "string \<Rightarrow> string" where
  "trim_backticks s = rev (dropWhile (\<lambda>c. c = CHR ''`'') (rev (dropWhile (\<lambda>c. c = CHR ''`'') s)))"

definition column_text :: "create_options \<Rightarrow> column_definition \<Rightarrow> string" where
  "column_text o1 col =
     (case col of (name, t, dv) \<Rightarrow>
        ''  '' @ name @ '' '' @ display t
        @ (case (case Option.bind (column_defaults o1) (\<lambda>d. d name) of Some d \<Rightarrow> Some d | None \<Rightarrow> dv) of
             Some d \<Rightarrow> '' DEFAULT'' @ (if d \<noteq> [] \<and> d \<noteq> ''NULL'' then '' '' @ d else [])
           | None \<Rightarrow> if defaults_for_nullable o1 \<and> is_nullable t then '' DEFAULT'' else []))"

text \<open>The loop writes a comma and a line end after every column but the last.\<close>

fun columns_text :: "create_options \<Rightarrow> nat \<Rightarrow> nat \<Rightarrow> column_definition list \<Rightarrow> string" where
  "columns_text o1 n i [] = []"
| "columns_text o1 n i (c # cs) =
     column_text o1 c @ (if i < n - 1 then '',\<newline>'' else []) @ columns_text o1 n (Suc i) cs"

definition create_table_statement ::
  "float_text \<Rightarrow> string option \<Rightarrow> string \<Rightarrow> column_definition list option \<Rightarrow> create_options \<Rightarrow> string res"
where
  "create_table_statement ft database table definitions o1 =
     (case definitions of
        None \<Rightarrow> Inl DDLMalformed
      | Some cs \<Rightarrow>
          if cs = [] then Inl DDLMalformed
          else rbind (build ft o1) (\<lambda>clauses.
            Inr (''CREATE TABLE IF NOT EXISTS ''
              @ (case database of None \<Rightarrow> [] | Some d \<Rightarrow> d @ ''.'')
              @ ''`'' @ trim_backticks table @ ''` (\<newline>''
              @ columns_text o1 (length cs) 0 cs @ ''\<newline>)\<newline>'' @ clauses)))"

definition create_table_from_arrow ::
  "float_text \<Rightarrow> (string \<Rightarrow> tz option) \<Rightarrow> string option \<Rightarrow> string \<Rightarrow> field list \<Rightarrow> create_options
    \<Rightarrow> arrow_options option \<Rightarrow> string res" where
  "create_table_from_arrow ft tzp database table fs o1 opts =
     (if fs = [] then Inl DDLMalformed
      else rbind (batch_definitions tzp opts (column_defaults o1) (conversions o1) fs) (\<lambda>cs.
        create_table_statement ft database table (Some cs) o1))"

text \<open>Of a row type no instance is passed, so \<open>runtime_definitions\<close> is not asked.\<close>

definition create_table_from_native ::
  "float_text \<Rightarrow> string option \<Rightarrow> string \<Rightarrow> column_definition list option \<Rightarrow> create_options \<Rightarrow> string res"
where
  "create_table_from_native ft database table definitions o1 =
     create_table_statement ft database table definitions o1"

section \<open>Engines keep their names\<close>

lemma engine_names_upper:
  "to_uppercase ''MergeTree'' = ''MERGETREE''"
  "to_uppercase ''AggregatingMergeTree'' = ''AGGREGATINGMERGETREE''"
  "to_uppercase ''CollapsingMergeTree'' = ''COLLAPSINGMERGETREE''"
  "to_uppercase ''ReplacingMergeTree'' = ''REPLACINGMERGETREE''"
  "to_uppercase ''SummingMergeTree'' = ''SUMMINGMERGETREE''"
  "to_uppercase ''Memory'' = ''MEMORY''" "to_uppercase ''Log'' = ''LOG''"
  "to_uppercase ''StripeLog'' = ''STRIPELOG''" "to_uppercase ''TinyLog'' = ''TINYLOG''"
  by code_simp+

lemma engine_from_text: "engine_from (engine_text e) = e \<or> (\<exists>x. e = OtherEngine x)"
  by (cases e) (simp_all del: to_uppercase.simps add: engine_from_def engine_names_upper)

lemma engine_text_case: "to_uppercase (engine_text (engine_from e)) = to_uppercase e"
  by (simp del: to_uppercase.simps add: engine_from_def engine_names_upper Let_def)

section \<open>What a table accepts\<close>

text \<open>
  The rules \<open>build\<close> checks: an engine, primary keys that start the order keys, and a sampling
  expression that mentions an order key (its comment asks for a primary key there).
\<close>

definition options_accepted :: "create_options \<Rightarrow> bool" where
  "options_accepted o1 =
     (engine o1 \<noteq> []
      \<and> (log_engine (engine o1)
         \<or> (if order_by o1 = [] then primary_keys o1 = [] \<and> (sampling o1 = None \<or> sampling o1 = Some [])
            else prefix (primary_keys o1) (order_by o1)
                 \<and> (case sampling o1 of None \<Rightarrow> True
                    | Some s \<Rightarrow> list_ex (\<lambda>k. sublist k s) (order_by o1)))))"

lemma keys_start_order:
  "list_all (\<lambda>i. i < length ys \<and> ys ! i = xs ! i) [0..<length xs] \<longleftrightarrow> prefix xs ys"
proof
  assume all: "list_all (\<lambda>i. i < length ys \<and> ys ! i = xs ! i) [0..<length xs]"
  have inside: "i < length ys \<and> ys ! i = xs ! i" if "i < length xs" for i
    using all that by (simp add: list_all_iff)
  have "length xs \<le> length ys"
    using inside [of "length xs - 1"] by (cases xs) auto
  moreover from this have "take (length xs) ys = xs"
    using inside by (intro nth_equalityI) auto
  ultimately show "prefix xs ys"
    by (metis take_is_prefix)
next
  assume "prefix xs ys"
  then show "list_all (\<lambda>i. i < length ys \<and> ys ! i = xs ! i) [0..<length xs]"
    by (auto simp: prefix_def list_all_iff nth_append)
qed

lemma order_clause_accepted:
  "(\<exists>s. order_clause o1 = Inr s) \<longleftrightarrow>
   (if order_by o1 = [] then primary_keys o1 = [] \<and> (sampling o1 = None \<or> sampling o1 = Some [])
    else prefix (primary_keys o1) (order_by o1)
         \<and> (case sampling o1 of None \<Rightarrow> True | Some s \<Rightarrow> list_ex (\<lambda>k. sublist k s) (order_by o1)))"
  by (auto simp: order_clause_def keys_start_order contains_def [abs_def] split: option.splits)

text \<open>\<open>build\<close> gives the clauses of a table exactly for these options.\<close>

lemma build_accepts:
  "(\<exists>s. build ft o1 = Inr s) \<longleftrightarrow> options_accepted o1"
  using order_clause_accepted [of o1]
  by (cases "order_clause o1") (auto simp: build_def options_accepted_def)

text \<open>A refused table is a malformed statement and nothing else.\<close>

lemma build_refused: "build ft o1 = Inl e \<Longrightarrow> e = DDLMalformed"
  by (auto simp: build_def order_clause_def split: if_splits option.splits)

text \<open>The engine is searched for \<open>log\<close> in all of its text, arguments included, so a
  replicated table whose path names a log is created without its order, its keys, its
  partition, its time to live and its settings, and no option of it is checked.\<close>

theorem log_path_drops_clauses:
  assumes "engine o1 = name @ args" and "contains args ''log''"
  shows "build ft o1 = Inr (''ENGINE = '' @ name @ args)"
proof -
  have "contains (name @ args) ''log''"
    using assms(2) by (auto simp: contains_def sublist_def) (metis append.assoc)
  moreover have "args \<noteq> []"
    using assms(2) by (auto simp: contains_def)
  ultimately show ?thesis
    by (simp add: build_def log_engine_def assms(1))
qed

theorem log_path_drops_clauses_witness:
  "build no_float_text (with_order_by [''id''] (with_primary_keys [''other'']
     (create_options_new ''ReplicatedMergeTree('/tables/logs', 'r1')'')))
   = Inr ''ENGINE = ReplicatedMergeTree('/tables/logs', 'r1')''"
proof -
  have "contains ''('/tables/logs', 'r1')'' ''log''"
    by code_simp
  then show ?thesis
    using log_path_drops_clauses [of "with_order_by [''id''] (with_primary_keys [''other'']
       (create_options_new ''ReplicatedMergeTree('/tables/logs', 'r1')''))"
       "''ReplicatedMergeTree''" "''('/tables/logs', 'r1')''" no_float_text]
    by (simp add: with_order_by_def with_primary_keys_def create_options_new_def)
qed

section \<open>The columns of a table\<close>

lemma columns_text_join:
  "n = i + length cs \<Longrightarrow> columns_text o1 n i cs = join '',\<newline>'' (map (column_text o1) cs)"
proof (induction cs arbitrary: i)
  case (Cons c cs)
  then show ?case
    by (cases cs) auto
qed simp

text \<open>What a column's line says of its default: the default of the options, without a value for
  the empty one and for \<open>NULL\<close>; else a bare default for a nullable type where they are asked for.\<close>

definition default_text :: "create_options \<Rightarrow> string \<Rightarrow> ty \<Rightarrow> string" where
  "default_text o1 name t =
     (case Option.bind (column_defaults o1) (\<lambda>d. d name) of
        Some d \<Rightarrow> '' DEFAULT'' @ (if d = [] \<or> d = ''NULL'' then [] else '' '' @ d)
      | None \<Rightarrow> if defaults_for_nullable o1 \<and> is_nullable t then '' DEFAULT'' else [])"

lemma batch_definitions_lines:
  "rmap (map (column_text o1)) (batch_definitions tzp opts (column_defaults o1) convs fs)
   = rmap (\<lambda>ts. map2 (\<lambda>f t. ''  '' @ field_name f @ '' '' @ display t @ default_text o1 (field_name f) t) fs ts)
       (traverse (\<lambda>f. schema_conversion tzp f convs opts) fs)"
proof (induction fs)
  case Nil
  then show ?case by (simp add: batch_definitions_def rmap_def)
next
  case (Cons f fs)
  have line: "column_text o1 (field_name f, t, case Option.bind (column_defaults o1) (\<lambda>d. d (field_name f)) of
           None \<Rightarrow> None | Some d \<Rightarrow> if d \<noteq> [] \<and> d \<noteq> ''NULL'' then Some d else None)
      = ''  '' @ field_name f @ '' '' @ display t @ default_text o1 (field_name f) t" for t
    by (simp add: column_text_def default_text_def split: option.split)
  show ?case
    using Cons.IH
    by (cases "schema_conversion tzp f convs opts";
        cases "traverse (\<lambda>f. schema_conversion tzp f convs opts) fs")
      (auto simp: batch_definitions_def rmap_def rbind_def line split: sum.splits)
qed

lemma build_engine: "build ft o1 = Inr clauses \<Longrightarrow> prefix (''ENGINE = '' @ engine o1) clauses"
  by (auto simp: build_def rbind_Inr_iff prefix_def split: if_splits)

text \<open>C20. A statement is made from an Arrow schema exactly when the schema has a field, every
  field has a type by the schema conversion and \<open>build\<close> accepts the options. It names the table
  and lists one column for each field, in the order of the schema, each on its line with the
  name of the field, the text of its type and its default; the clauses of \<open>build\<close>, the engine
  first, end it. The text of a type parses back to the type in its canonical form, for the
  types of \<open>text_ok\<close> (known time zones, enum names without quotes).\<close>

theorem create_table_columns:
  "create_table_from_arrow ft tzp database table fs o1 opts = Inr s \<longleftrightarrow>
   fs \<noteq> [] \<and> (\<exists>ts clauses.
      traverse (\<lambda>f. schema_conversion tzp f (conversions o1) opts) fs = Inr ts
      \<and> build ft o1 = Inr clauses \<and> prefix (''ENGINE = '' @ engine o1) clauses
      \<and> s = ''CREATE TABLE IF NOT EXISTS ''
          @ (case database of None \<Rightarrow> [] | Some d \<Rightarrow> d @ ''.'')
          @ ''`'' @ trim_backticks table @ ''` (\<newline>''
          @ join '',\<newline>'' (map2 (\<lambda>f t. ''  '' @ field_name f @ '' '' @ display t
              @ default_text o1 (field_name f) t) fs ts)
          @ ''\<newline>)\<newline>'' @ clauses
      \<and> (\<forall>t \<in> set ts. text_ok tzp t \<longrightarrow> from_str tzp (display t) = Inr (canonical t)))"
proof -
  let ?cs = "batch_definitions tzp opts (column_defaults o1) (conversions o1) fs"
  let ?ts = "traverse (\<lambda>f. schema_conversion tzp f (conversions o1) opts) fs"
  note lines = batch_definitions_lines [of o1 tzp opts "conversions o1" fs]
  show ?thesis
  proof (cases ?ts)
    case (Inl e)
    with lines obtain e' where "?cs = Inl e'" by (cases ?cs) (auto simp: rmap_def)
    then show ?thesis using Inl by (simp add: create_table_from_arrow_def)
  next
    case (Inr ts)
    with lines obtain cs where cs: "?cs = Inr cs" "map (column_text o1) cs
        = map2 (\<lambda>f t. ''  '' @ field_name f @ '' '' @ display t @ default_text o1 (field_name f) t) fs ts"
      by (cases ?cs) (auto simp: rmap_def)
    have "length ts = length fs" using Inr by (simp add: traverse_Inr_nth)
    then have "fs \<noteq> [] \<Longrightarrow> cs \<noteq> []" using cs(2) by auto
    then show ?thesis
      using Inr cs build_engine [of ft o1]
      by (cases "build ft o1")
        (auto simp: create_table_from_arrow_def create_table_statement_def columns_text_join from_str_display)
  qed
qed

definition some_options :: create_options where
  "some_options = with_defaults_for_nullable (with_defaults [(''n'', ''7'')]
     (with_order_by [''id''] (create_options_new ''MergeTree'')))"

definition some_fields :: "field list" where
  "some_fields = [Field ''id'' DInt32 False, Field ''n'' DInt64 False, Field ''s'' DUtf8 True]"

lemma some_table_made:
  "create_table_from_arrow no_float_text Some (Some ''db'') ''t'' some_fields some_options None
   = Inr ''CREATE TABLE IF NOT EXISTS db.`t` (\<newline>  id Int32,\<newline>  n Int64 DEFAULT 7,\<newline>  s Nullable(String) DEFAULT\<newline>)\<newline>ENGINE = MergeTree\<newline>ORDER BY (id)''"
  by code_simp

text \<open>The witness reads the lines and the types off the statement of three columns.\<close>

theorem create_table_columns_witness:
  "traverse (\<lambda>f. schema_conversion Some f (conversions some_options) None) some_fields
     = Inr [Int32, Int64, Nullable String]
   \<and> from_str Some (display (Nullable String)) = Inr (canonical (Nullable String))"
proof -
  have "traverse (\<lambda>f. schema_conversion Some f (conversions some_options) None) some_fields
     = Inr [Int32, Int64, Nullable String]"
    by code_simp
  moreover have "text_ok Some (Nullable String)" by code_simp
  ultimately show ?thesis
    using create_table_columns [of no_float_text Some "Some ''db''" "''t''" some_fields some_options None,
        THEN iffD1, OF some_table_made]
    by auto
qed

end
