(* ===== verification/Wide.thy ===== *)
theory Wide
  imports Dates
begin

text \<open>
  The 256-bit integers of native/values/int256.rs and the fixed-point numbers of
  native/values/fixed_point.rs. A 256-bit integer is its 32 bytes, most significant first; an
  \<open>i128\<close> is a word read with \<open>sint\<close>. The conversions to \<open>f64\<close> are not modelled.
\<close>

section \<open>Halves\<close>

definition be_nat :: "byte list \<Rightarrow> nat" where
  "be_nat bs = le_nat (rev bs)"

definition be_u128 :: "u128 \<Rightarrow> byte list" where
  "be_u128 w = rev (put_le 16 w)"

definition to_halves :: "byte list \<Rightarrow> u128 \<times> u128" where
  "to_halves bs = (word_of_nat (be_nat (take 16 bs)), word_of_nat (be_nat (drop 16 bs)))"

definition from_halves :: "u128 \<times> u128 \<Rightarrow> byte list" where
  "from_halves hl = be_u128 (fst hl) @ be_u128 (snd hl)"

text \<open>\<open>From<i128>\<close>: a negative number by the complement of its absolute value.\<close>

definition i256_from_i128 :: "u128 \<Rightarrow> byte list" where
  "i256_from_i128 v =
     (if sint v < 0 then
        let abs_value = word_of_int (- sint v) :: u128 in from_halves (-1, - 1 - abs_value + 1)
      else from_halves (0, v))"

definition i128_mul :: "u128 \<Rightarrow> int \<Rightarrow> u128 res" where
  "i128_mul v k =
     (if in_signed 128 k \<and> in_signed 128 (sint v * k) then Inr (word_of_int (sint v * k)) else Inl Panic)"

definition i256_from_scaled :: "u128 \<Rightarrow> byte \<Rightarrow> byte list res" where
  "i256_from_scaled v scale =
     rbind (i128_mul v (10 ^ unat scale)) (\<lambda>scaled.
       Inr (if sint scaled < 0 then
              let abs_value = word_of_int (- sint scaled) :: u128 in from_halves (-1, - 1 - abs_value + 1)
            else from_halves (0, scaled)))"

definition hex_upper :: "nat \<Rightarrow> char" where
  "hex_upper d = (if d < 10 then char_of (48 + d) else char_of (55 + d))"

definition i256_text :: "byte list \<Rightarrow> string" where
  "i256_text bs = ''0x'' @ concat (map (\<lambda>b. [hex_upper (unat b div 16), hex_upper (unat b mod 16)]) bs)"

section \<open>The product\<close>

definition low_abs :: "u128 \<Rightarrow> u128 \<Rightarrow> u128" where
  "low_abs high low = (if high AND push_bit 127 1 \<noteq> 0 then NOT low + 1 else low)"

definition i256_mul :: "byte list \<Rightarrow> byte list \<Rightarrow> byte list" where
  "i256_mul a b =
     (let (a_high, a_low) = to_halves a;
          (b_high, b_low) = to_halves b in
      if a_high = 0 \<and> b_high = 0 then from_halves (0, a_low * b_low)
      else
        let a_negative = a_high AND push_bit 127 1 \<noteq> 0;
            b_negative = b_high AND push_bit 127 1 \<noteq> 0;
            result = low_abs a_high a_low * low_abs b_high b_low in
        if a_negative \<noteq> b_negative then from_halves (-1, NOT result + 1)
        else from_halves (0, result))"

section \<open>Fixed-point numbers\<close>

text \<open>\<open>10i32.pow(SCALE as u32)\<close> and its 64-bit and 128-bit forms.\<close>

definition modulus :: "nat \<Rightarrow> nat \<Rightarrow> int res" where
  "modulus w s = (if in_signed w (10 ^ (s mod 2 ^ 32)) then Inr (10 ^ (s mod 2 ^ 32)) else Inl Panic)"

definition fixed32_modulus :: "nat \<Rightarrow> int res" where
  "fixed32_modulus s = modulus 32 s"

definition fixed32_integer :: "nat \<Rightarrow> u32 \<Rightarrow> int res" where
  "fixed32_integer s x = rbind (modulus 32 s) (\<lambda>m. Inr (sint x sdiv m))"

definition fixed32_fraction :: "nat \<Rightarrow> u32 \<Rightarrow> int res" where
  "fixed32_fraction s x = rbind (modulus 32 s) (\<lambda>m. Inr (sint x smod m))"

definition fixed64_modulus :: "nat \<Rightarrow> int res" where
  "fixed64_modulus s = modulus 64 s"

definition fixed64_integer :: "nat \<Rightarrow> u64 \<Rightarrow> int res" where
  "fixed64_integer s x = rbind (modulus 64 s) (\<lambda>m. Inr (sint x sdiv m))"

definition fixed64_fraction :: "nat \<Rightarrow> u64 \<Rightarrow> int res" where
  "fixed64_fraction s x = rbind (modulus 64 s) (\<lambda>m. Inr (sint x smod m))"

definition fixed128_modulus :: "nat \<Rightarrow> int res" where
  "fixed128_modulus s = modulus 128 s"

definition fixed128_integer :: "nat \<Rightarrow> u128 \<Rightarrow> int res" where
  "fixed128_integer s x = rbind (modulus 128 s) (\<lambda>m. Inr (sint x sdiv m))"

definition fixed128_fraction :: "nat \<Rightarrow> u128 \<Rightarrow> int res" where
  "fixed128_fraction s x = rbind (modulus 128 s) (\<lambda>m. Inr (sint x smod m))"

definition max_i256 :: "byte list" where
  "max_i256 = 0x7F # replicate 31 0xFF"

definition min_i256 :: "byte list" where
  "min_i256 = 0x80 # replicate 31 0"

definition from_raw :: "u128 \<Rightarrow> byte list" where
  "from_raw v = i256_from_i128 v"

definition times_ten :: "byte list \<Rightarrow> byte list" where
  "times_ten r = i256_mul r (i256_from_i128 10)"

text \<open>\<open>SCALE as i32 - exponent\<close> is checked, as are the power and the product of an \<open>i128\<close>.\<close>

definition from_parts :: "nat \<Rightarrow> u128 \<Rightarrow> int \<Rightarrow> byte list res" where
  "from_parts s v exponent =
     (let effective_scale = sint (word_of_nat s :: u32) - exponent in
      if \<not> in_signed 32 effective_scale then Inl Panic
      else if effective_scale > 38 then Inr ((times_ten ^^ nat effective_scale) (i256_from_i128 v))
      else if effective_scale \<ge> 0 then rmap i256_from_i128 (i128_mul v (10 ^ nat effective_scale))
      else if \<not> in_signed 32 (- effective_scale) \<or> \<not> in_signed 128 (10 ^ nat (- effective_scale)) then Inl Panic
      else Inr (i256_from_i128 (word_of_int (sint v sdiv 10 ^ nat (- effective_scale)))))"

definition is_negative :: "byte list \<Rightarrow> bool" where
  "is_negative bs = (fst (to_halves bs) AND push_bit 127 1 \<noteq> 0)"

text \<open>The error is one of \<open>rust_decimal\<close>.\<close>

definition to_decimal :: "rust_lib \<Rightarrow> nat \<Rightarrow> byte list \<Rightarrow> (int \<times> nat) res" where
  "to_decimal lib s bs =
     (let (high, low) = to_halves bs;
          made = (\<lambda>m. if decimal_exists lib m (s mod 2 ^ 32) then Inr (m, s mod 2 ^ 32) else Inl External) in
      if high \<noteq> 0 \<and> high \<noteq> -1 then Inl External
      else if is_negative bs then
        (let low_plus_one = NOT low + 1;
             high_bits = (if low_plus_one = 0 then NOT high + 1 else NOT high) in
         if high_bits \<noteq> 0 then Inl External
         else if low_plus_one = push_bit 127 1 then Inl Panic
         else made (- sint low_plus_one))
      else made (sint low))"

definition from_decimal :: "nat \<Rightarrow> int \<Rightarrow> nat \<Rightarrow> byte list res" where
  "from_decimal s mantissa scale = from_parts s (word_of_int mantissa) (int scale)"

section \<open>The number 256 bits stand for\<close>

definition i256_int :: "byte list \<Rightarrow> int" where
  "i256_int bs =
     (if be_nat bs \<ge> 2 ^ 255 then int (be_nat bs) - 2 ^ 256 else int (be_nat bs))"

lemma le_nat_append: "le_nat (xs @ ys) = le_nat xs + 256 ^ length xs * le_nat ys"
  by (induction xs) (simp_all add: algebra_simps)

lemma be_u128_nat: "be_nat (be_u128 w) = unat w"
proof -
  have "unat w < 256 ^ 16"
    using unsigned_less [of w] by simp
  then show ?thesis
    by (simp add: be_nat_def be_u128_def put_le_def le_nat_le_bytes)
qed

lemma length_be_u128 [simp]: "length (be_u128 w) = 16"
  by (simp add: be_u128_def put_le_def)

lemma to_from_halves [simp]: "to_halves (from_halves hl) = hl"
  by (cases hl) (simp add: to_halves_def from_halves_def be_u128_nat)

lemma be_nat_halves: "be_nat (from_halves (h, l)) = 2 ^ 128 * unat h + unat l"
proof -
  have "be_nat (from_halves (h, l)) = be_nat (be_u128 l) + 256 ^ 16 * be_nat (be_u128 h)"
    by (simp add: be_nat_def from_halves_def le_nat_append be_u128_def put_le_def)
  then show ?thesis
    by (simp add: be_u128_nat)
qed

lemma unat_u128: "unat (w :: u128) < 2 ^ 128"
  using unsigned_less [of w] by simp

lemma i256_int_low: "i256_int (from_halves (0, l)) = uint l"
  using unat_u128 [of l] by (simp add: i256_int_def be_nat_halves)

lemma i256_int_high: "i256_int (from_halves (-1, l)) = uint l - 2 ^ 128"
proof -
  have "unat (-1 :: u128) = 2 ^ 128 - 1"
    by (simp add: unsigned_minus_1_eq_mask mask_eq_exp_minus_1)
  then show ?thesis
    using unat_u128 [of l] by (simp add: i256_int_def be_nat_halves)
qed


section \<open>Conversions and products are right in 128 bits\<close>

lemma uint_minus_word: "(w :: u128) \<noteq> 0 \<Longrightarrow> uint (- w) = 2 ^ 128 - uint w"
  using uint_lt2p [of w] by (simp add: uint_word_ariths(4) zmod_zminus1_eq_if word_uint_eq_iff)

lemma sint_u128: "sint (w :: u128) = (if uint w < 2 ^ 127 then uint w else uint w - 2 ^ 128)"
proof -
  have below: "uint w < 2 ^ 128" and pos: "0 \<le> uint w"
    using uint_lt2p [of w] by simp_all
  have "sint w = (uint w + 2 ^ 127) mod 2 ^ 128 - 2 ^ 127"
    using int_word_sint [of "uint w", where 'a = 128] by simp
  moreover have "(uint w + 2 ^ 127) mod 2 ^ 128 = uint w + 2 ^ 127" if "uint w < 2 ^ 127"
    using that pos by (intro mod_pos_pos_trivial) simp_all
  moreover have "(uint w + 2 ^ 127) mod 2 ^ 128 = uint w - 2 ^ 127" if "\<not> uint w < 2 ^ 127"
  proof -
    have "(uint w + 2 ^ 127) mod 2 ^ 128 = (uint w + 2 ^ 127 - 2 ^ 128) mod 2 ^ 128"
      by (rule minus_mod_self2 [symmetric])
    also have "\<dots> = uint w + 2 ^ 127 - 2 ^ 128"
      using that below by (intro mod_pos_pos_trivial) simp_all
    finally show ?thesis by simp
  qed
  ultimately show ?thesis
    by (simp split: if_split)
qed

lemma abs_word: "word_of_int (- sint v) = - (v :: u128)"
  by simp

lemma i256_from_i128_eq: "i256_from_i128 v = from_halves (if sint v < 0 then -1 else 0, v)"
  by (simp add: i256_from_i128_def Let_def abs_word del: of_int_minus)

lemma i256_from_i128_int: "i256_int (i256_from_i128 v) = sint v"
  using sint_u128 [of v] uint_lt2p [of v]
  by (simp add: i256_from_i128_eq i256_int_low i256_int_high split: if_splits)


lemma sign_bit: "(0 :: u128) AND push_bit 127 1 = 0" "(- 1 :: u128) AND push_bit 127 1 \<noteq> 0"
  by simp_all

lemma low_abs_minus: "low_abs (- 1) l = - l" "low_abs 0 l = l"
proof -
  have "NOT l + 1 = - l"
    by (simp add: not_eq_complement)
  then show "low_abs (- 1) l = - l" "low_abs 0 l = l"
    unfolding low_abs_def using sign_bit by simp_all
qed

lemma abs_low_abs: "uint (low_abs (if sint v < 0 then -1 else 0) v) = \<bar>sint v\<bar>"
proof (cases "sint v < 0")
  case True
  then have "v \<noteq> 0" "sint v = uint v - 2 ^ 128"
    by (auto simp: sint_u128 split: if_splits)
  then show ?thesis
    using True by (simp add: low_abs_minus uint_minus_word)
next
  case False
  then have "sint v = uint v"
    using uint_lt2p [of v] by (auto simp: sint_u128 split: if_splits)
  with False show ?thesis
    by (simp add: low_abs_minus)
qed

lemma i256_mul_signs:
  "i256_mul (i256_from_i128 v) (i256_from_i128 w) =
     (let result = low_abs (if sint v < 0 then -1 else 0) v * low_abs (if sint w < 0 then -1 else 0) w in
      if (sint v < 0) \<noteq> (sint w < 0) then from_halves (-1, - result) else from_halves (0, result))"
proof -
  have minus: "NOT x + 1 = - x" for x :: u128
    by (simp add: not_eq_complement)
  show ?thesis
    unfolding i256_mul_def i256_from_i128_eq to_from_halves Let_def prod.case minus
    using sign_bit by (simp add: low_abs_minus)
qed

text \<open>C37. The product of two 256-bit integers made from \<open>i128\<close> values is their product when that
  is below 2^128 in size, unless one of them is negative and the other zero.\<close>

theorem i256_mul_exact:
  assumes "\<bar>sint v * sint w\<bar> < 2 ^ 128" and "sint v * sint w \<noteq> 0 \<or> (0 \<le> sint v \<and> 0 \<le> sint w)"
  shows "i256_int (i256_mul (i256_from_i128 v) (i256_from_i128 w)) = sint v * sint w"
proof -
  let ?r = "low_abs (if sint v < 0 then -1 else 0) v * low_abs (if sint w < 0 then -1 else 0) w"
  have "uint ?r = \<bar>sint v\<bar> * \<bar>sint w\<bar>"
    using assms(1) unfolding abs_low_abs [symmetric] abs_mult by (simp only: flip: uint_mult_lem) simp
  then have r: "uint ?r = \<bar>sint v * sint w\<bar>"
    by (simp add: abs_mult)
  show ?thesis
  proof (cases "(sint v < 0) = (sint w < 0)")
    case True
    then have "0 \<le> sint v * sint w"
      by (auto simp: not_less zero_le_mult_iff)
    with True r show ?thesis
      by (simp add: i256_mul_signs Let_def i256_int_low)
  next
    case False
    then have neg: "sint v * sint w < 0"
      using assms(2) by (auto simp: not_less mult_less_0_iff)
    then have "?r \<noteq> 0"
      using r by auto
    then have "i256_int (from_halves (-1, - ?r)) = - uint ?r"
      using uint_minus_word [of ?r] by (simp add: i256_int_high)
    with False r neg show ?thesis
      by (simp add: i256_mul_signs Let_def)
  qed
qed

theorem i256_mul_exact_witness:
  "i256_int (i256_mul (i256_from_i128 (- 3)) (i256_from_i128 10)) = sint (- 3 :: u128) * sint (10 :: u128)"
  by (rule i256_mul_exact) simp_all

text \<open>A negative number times zero is not zero.\<close>

lemma i256_negative_times_zero:
  "i256_int (i256_mul (i256_from_i128 (- 1)) (i256_from_i128 0)) = - (2 ^ 128)"
  by (simp add: i256_mul_signs Let_def low_abs_minus i256_int_high)

section \<open>Fixed-point numbers from their parts\<close>

lemma sint_of_int128: "in_signed 128 m \<Longrightarrow> sint (word_of_int m :: u128) = m"
  by (simp add: in_signed_def sint_sbintrunc' signed_take_bit_int_eq_self)

lemma i128_mul_sint: "i128_mul v k = Inr w \<Longrightarrow> sint w = sint v * k"
proof -
  assume "i128_mul v k = Inr w"
  then have "in_signed 128 (sint v * k)" and "w = word_of_int (sint v * k)"
    unfolding i128_mul_def by (simp_all only: sum.inject sum.distinct split: if_splits)
  then show ?thesis
    by (simp only: sint_of_int128)
qed

lemma in_signed_sdiv:
  assumes "0 < b"
  shows "in_signed 128 (sint (v :: u128) sdiv b)"
proof -
  have v: "- (2 ^ 127) \<le> sint v" "sint v < 2 ^ 127"
    using sint_range_size [of v] by (simp_all add: size_word_def)
  have d: "\<bar>sint v\<bar> div b \<le> \<bar>sint v\<bar>" "0 \<le> \<bar>sint v\<bar> div b"
    using assms zdiv_mono2 [of "\<bar>sint v\<bar>" 1 b] pos_imp_zdiv_nonneg_iff [of b "\<bar>sint v\<bar>"] by simp_all
  have "sint v sdiv b = sgn (sint v) * (\<bar>sint v\<bar> div b)"
    using assms by (simp add: signed_divide_int_def sgn_mult)
  with v d show ?thesis
    by (cases "sint v" "0 :: int" rule: linorder_cases) (simp_all add: in_signed_def)
qed

text \<open>No product is beyond 2^128 in size.\<close>

lemma i256_mul_bound: "\<bar>i256_int (i256_mul a b)\<bar> \<le> 2 ^ 128"
proof -
  have "\<bar>i256_int (from_halves (0, l))\<bar> \<le> 2 ^ 128" "\<bar>i256_int (from_halves (-1, l))\<bar> \<le> 2 ^ 128" for l
    using uint_lt2p [of l] by (simp_all add: i256_int_low i256_int_high)
  then show ?thesis
    by (simp add: i256_mul_def Let_def split: prod.split)
qed

text \<open>\<open>from_parts\<close> multiplies by ten to the scale of the type \<^emph>\<open>less\<close> the exponent, where the
  number it is documented to make has the scale and the exponent added: the exponent is taken
  the other way round. What the code computes is that product, exact up to 38 digits, the
  quotient rounded to zero where the shift is negative; for a shift of more than 38 digits it
  is not even that product, for every number but zero, because the product keeps 128 bits.\<close>

theorem from_parts_scaled:
  assumes "s < 2 ^ 31" and "from_parts s v e = Inr r"
  shows "if int s - e > 38 then sint v = 0 \<or> i256_int r \<noteq> sint v * 10 ^ nat (int s - e)
    else if int s - e \<ge> 0 then i256_int r = sint v * 10 ^ nat (int s - e)
    else i256_int r = sint v sdiv 10 ^ nat (e - int s)"
proof -
  define k where "k = int s - e"
  have "sint (word_of_nat s :: u32) = int s"
    using assms(1) by (simp add: signed_of_nat signed_take_bit_int_eq_self)
  then have parts: "from_parts s v e =
     (if \<not> in_signed 32 k then Inl Panic
      else if k > 38 then Inr ((times_ten ^^ nat k) (i256_from_i128 v))
      else if k \<ge> 0 then rmap i256_from_i128 (i128_mul v (10 ^ nat k))
      else if \<not> in_signed 32 (- k) \<or> \<not> in_signed 128 (10 ^ nat (- k)) then Inl Panic
      else Inr (i256_from_i128 (word_of_int (sint v sdiv 10 ^ nat (- k)))))"
    by (simp add: from_parts_def k_def Let_def)
  consider (wide) "k > 38" | (up) "0 \<le> k" "k \<le> 38" | (down) "k < 0" by linarith
  then show ?thesis
  proof cases
    case wide
    then obtain n where n: "nat k = Suc n" by (cases "nat k") auto
    have "\<bar>i256_int r\<bar> \<le> 2 ^ 128"
      using assms(2) wide n i256_mul_bound by (auto simp: parts times_ten_def split: if_splits)
    moreover have "2 ^ 128 < \<bar>sint v * 10 ^ nat k\<bar>" if "sint v \<noteq> 0"
    proof -
      have "(2::int) ^ 128 < 10 ^ 39" by simp
      also have "\<dots> \<le> 10 ^ nat k"
        using wide by (intro power_increasing) auto
      also have "\<dots> \<le> \<bar>sint v\<bar> * 10 ^ nat k"
        using that mult_right_mono [of 1 "\<bar>sint v\<bar>" "10 ^ nat k"] by simp
      finally show ?thesis by (simp add: abs_mult)
    qed
    ultimately show ?thesis
      using wide unfolding k_def by auto
  next
    case up
    then have "i128_mul v (10 ^ nat k) \<noteq> Inl Panic \<and> (\<exists>w. i128_mul v (10 ^ nat k) = Inr w \<and> r = i256_from_i128 w)"
      using assms(2) by (auto simp: parts rmap_Inr_iff split: if_splits)
    then have "i256_int r = sint v * 10 ^ nat k"
      by (auto simp: i256_from_i128_int i128_mul_sint)
    with up show ?thesis
      unfolding k_def by simp
  next
    case down
    have "r = i256_from_i128 (word_of_int (sint v sdiv 10 ^ nat (- k)))"
      using assms(2) down by (simp add: parts split: if_splits)
    then have "i256_int r = sint v sdiv 10 ^ nat (- k)"
      by (simp add: i256_from_i128_int sint_of_int128 in_signed_sdiv)
    with down show ?thesis
      unfolding k_def by simp
  qed
qed


lemma some_parts: "from_parts 4 15 1 = Inr (i256_from_i128 15000)"
  by (simp add: from_parts_def i128_mul_def in_signed_def)

theorem from_parts_scaled_witness:
  "i256_int (i256_from_i128 15000) = sint (15 :: u128) * 10 ^ nat (int 4 - 1)"
  using from_parts_scaled [OF _ some_parts] by simp

end
