(* ===== verification/Builder.thy ===== *)
theory Builder
  imports Connection ArrowTypes
begin

text \<open>
  How a client is configured and where it connects (client/options.rs, client/tcp.rs,
  client/builder.rs, the start of \<open>Client::connect\<close>, client/cloud.rs).

  Host lookup is the parameter \<open>resolver\<close>: for a host with a port and for a text, the addresses
  the system finds, or \<open>None\<close> where it reports an error. A password is its text, the flag of the
  cloud tracker an address. What is left out of a connection is the socket itself: the result of
  \<open>build\<close> is the address it is opened to and the server name TLS checks, where TLS is used.
\<close>

section \<open>Addresses\<close>

text \<open>\<open>SocketAddr\<close>: a V4 address and a port; a V6 address (big-endian), a port, a flow and a scope.\<close>

datatype sock_addr = V4 u32 u16 | V6 "byte list" u16 u32 u32

fun is_v4 :: "sock_addr \<Rightarrow> bool" where
  "is_v4 (V4 _ _) = True"
| "is_v4 (V6 _ _ _ _) = False"

text \<open>\<open>Display\<close> of \<open>Ipv4Addr\<close>, and of \<open>Ipv6Addr\<close>: the first of the longest runs of two or more
  zero segments is written \<open>::\<close>, an IPv4-mapped address with the IPv4 text at its end.\<close>

definition ipv4_text :: "nat \<Rightarrow> string" where
  "ipv4_text n =
     show_nat (n div 2 ^ 24 mod 256) @ ''.'' @ show_nat (n div 2 ^ 16 mod 256) @ ''.''
     @ show_nat (n div 2 ^ 8 mod 256) @ ''.'' @ show_nat (n mod 256)"

definition hex_lower :: "nat \<Rightarrow> char" where
  "hex_lower d = (if d < 10 then digit_char d else char_of (87 + d))"

fun hex_nat :: "nat \<Rightarrow> string" where
  "hex_nat n = (if n < 16 then [hex_lower n] else hex_nat (n div 16) @ [hex_lower (n mod 16)])"

declare hex_nat.simps [simp del]

fun v6_segments :: "byte list \<Rightarrow> nat list" where
  "v6_segments (a # b # bs) = (256 * unat a + unat b) # v6_segments bs"
| "v6_segments _ = []"

fun zero_run :: "nat \<Rightarrow> nat list \<Rightarrow> nat \<times> nat \<Rightarrow> nat \<times> nat \<Rightarrow> nat \<times> nat" where
  "zero_run i [] cur longest = longest"
| "zero_run i (x # xs) cur longest =
     (if x = 0 then
        (let cur = (if snd cur = 0 then i else fst cur, Suc (snd cur))
         in zero_run (Suc i) xs cur (if snd cur > snd longest then cur else longest))
      else zero_run (Suc i) xs (0, 0) longest)"

fun segments_text :: "nat list \<Rightarrow> string" where
  "segments_text [] = []"
| "segments_text [x] = hex_nat x"
| "segments_text (x # xs) = hex_nat x @ '':'' @ segments_text xs"

definition ipv6_text :: "byte list \<Rightarrow> string" where
  "ipv6_text bs =
     (let segs = v6_segments bs in
      if take 6 segs = [0, 0, 0, 0, 0, 65535] then
        ''::ffff:'' @ ipv4_text (65536 * segs ! 6 + segs ! 7)
      else
        (case zero_run 0 segs (0, 0) (0, 0) of
           (start, n) \<Rightarrow>
             if n > 1 then
               segments_text (take start segs) @ ''::'' @ segments_text (drop (start + n) segs)
             else segments_text segs))"

fun ip_text :: "sock_addr \<Rightarrow> string" where
  "ip_text (V4 a _) = ipv4_text (unat a)"
| "ip_text (V6 a _ _ _) = ipv6_text a"

fun sock_text :: "sock_addr \<Rightarrow> string" where
  "sock_text (V4 a p) = ipv4_text (unat a) @ '':'' @ show_nat (unat p)"
| "sock_text (V6 a p _ scope) =
     ''['' @ ipv6_text a @ (if scope = 0 then '''' else ''%'' @ show_nat (unat scope)) @ '']:''
     @ show_nat (unat p)"

section \<open>Destinations\<close>

datatype destination =
    SocketAddrs "sock_addr list"
  | SocketAddr sock_addr
  | HostPort string u16
  | Endpoint string

record resolver =
  lookup_pair :: "string \<Rightarrow> u16 \<Rightarrow> sock_addr list option"
  lookup_text :: "string \<Rightarrow> sock_addr list option"

definition allowed :: "bool \<Rightarrow> sock_addr list option \<Rightarrow> sock_addr list res" where
  "allowed ipv4_only found =
     (case found of
        None \<Rightarrow> Inl MalformedConnectionInformation
      | Some addrs \<Rightarrow> Inr (filter (\<lambda>a. \<not> ipv4_only \<or> is_v4 a) addrs))"

fun resolve :: "resolver \<Rightarrow> bool \<Rightarrow> destination \<Rightarrow> sock_addr list res" where
  "resolve r ipv4_only (SocketAddrs addrs) = Inr addrs"
| "resolve r ipv4_only (SocketAddr a) = Inr [a]"
| "resolve r ipv4_only (HostPort host port) = allowed ipv4_only (lookup_pair r host port)"
| "resolve r ipv4_only (Endpoint endpoint) = allowed ipv4_only (lookup_text r endpoint)"

text \<open>\<open>domain\<close>: the name TLS checks where none is given.\<close>

fun destination_domain :: "destination \<Rightarrow> string" where
  "destination_domain (SocketAddrs addrs) = (case addrs of [] \<Rightarrow> [] | a # _ \<Rightarrow> ip_text a)"
| "destination_domain (SocketAddr a) = ip_text a"
| "destination_domain (HostPort host _) = host"
| "destination_domain (Endpoint endpoint) = takeWhile (\<lambda>c. c \<noteq> CHR '':'') endpoint"

fun destination_text :: "destination \<Rightarrow> string" where
  "destination_text (SocketAddrs addrs) = (case addrs of [] \<Rightarrow> [] | a # _ \<Rightarrow> sock_text a)"
| "destination_text (SocketAddr a) = sock_text a"
| "destination_text (HostPort host port) = host @ '':'' @ show_nat (unat port)"
| "destination_text (Endpoint endpoint) = endpoint"

section \<open>Options\<close>

record cloud_options =
  cloud_timeout :: "u64 option"
  cloud_wakeup :: bool

record extension =
  ext_arrow :: "arrow_options option"
  ext_cloud :: cloud_options
  ext_chunked_send :: chunked_mode
  ext_chunked_recv :: chunked_mode
  ext_fast_mode_size :: "byte option"

record client_options =
  opt_username :: string
  opt_password :: string
  opt_default_database :: string
  opt_domain :: "string option"
  opt_ipv4_only :: bool
  opt_cafile :: "string option"
  opt_use_tls :: bool
  opt_compression :: compression_method
  opt_ext :: extension

definition extension_default :: extension where
  "extension_default =
     \<lparr>ext_arrow = None, ext_cloud = \<lparr>cloud_timeout = None, cloud_wakeup = False\<rparr>,
      ext_chunked_send = ChunkedOptional, ext_chunked_recv = ChunkedOptional, ext_fast_mode_size = None\<rparr>"

definition client_options_default :: client_options where
  "client_options_default =
     \<lparr>opt_username = ''default'', opt_password = [], opt_default_database = [], opt_domain = None,
      opt_ipv4_only = False, opt_cafile = None, opt_use_tls = False, opt_compression = LZ4,
      opt_ext = extension_default\<rparr>"

definition opts_with_username :: "string \<Rightarrow> client_options \<Rightarrow> client_options" where
  "opts_with_username s opts = opts\<lparr>opt_username := s\<rparr>"

definition opts_with_password :: "string \<Rightarrow> client_options \<Rightarrow> client_options" where
  "opts_with_password s opts = opts\<lparr>opt_password := s\<rparr>"

definition opts_with_default_database :: "string \<Rightarrow> client_options \<Rightarrow> client_options" where
  "opts_with_default_database s opts = opts\<lparr>opt_default_database := s\<rparr>"

definition opts_with_domain :: "string \<Rightarrow> client_options \<Rightarrow> client_options" where
  "opts_with_domain s opts = opts\<lparr>opt_domain := Some s\<rparr>"

definition opts_with_ipv4_only :: "bool \<Rightarrow> client_options \<Rightarrow> client_options" where
  "opts_with_ipv4_only b opts = opts\<lparr>opt_ipv4_only := b\<rparr>"

definition opts_with_cafile :: "string \<Rightarrow> client_options \<Rightarrow> client_options" where
  "opts_with_cafile s opts = opts\<lparr>opt_cafile := Some s\<rparr>"

definition opts_with_use_tls :: "bool \<Rightarrow> client_options \<Rightarrow> client_options" where
  "opts_with_use_tls b opts = opts\<lparr>opt_use_tls := b\<rparr>"

definition opts_with_compression :: "compression_method \<Rightarrow> client_options \<Rightarrow> client_options" where
  "opts_with_compression c opts = opts\<lparr>opt_compression := c\<rparr>"

definition opts_with_extension :: "extension \<Rightarrow> client_options \<Rightarrow> client_options" where
  "opts_with_extension e opts = opts\<lparr>opt_ext := e\<rparr>"

definition opts_extend :: "(extension \<Rightarrow> extension) \<Rightarrow> client_options \<Rightarrow> client_options" where
  "opts_extend f opts = opts\<lparr>opt_ext := f (opt_ext opts)\<rparr>"

definition ext_with_arrow :: "arrow_options \<Rightarrow> extension \<Rightarrow> extension" where
  "ext_with_arrow o1 e = e\<lparr>ext_arrow := Some o1\<rparr>"

definition ext_with_set_arrow :: "(arrow_options \<Rightarrow> arrow_options) \<Rightarrow> extension \<Rightarrow> extension" where
  "ext_with_set_arrow f e =
     e\<lparr>ext_arrow := Some (f (case ext_arrow e of None \<Rightarrow> arrow_options_new | Some o1 \<Rightarrow> o1))\<rparr>"

definition ext_with_chunked_send_mode :: "chunked_mode \<Rightarrow> extension \<Rightarrow> extension" where
  "ext_with_chunked_send_mode mode e = e\<lparr>ext_chunked_send := mode\<rparr>"

definition ext_with_chunked_recv_mode :: "chunked_mode \<Rightarrow> extension \<Rightarrow> extension" where
  "ext_with_chunked_recv_mode mode e = e\<lparr>ext_chunked_recv := mode\<rparr>"

definition ext_with_cloud :: "cloud_options \<Rightarrow> extension \<Rightarrow> extension" where
  "ext_with_cloud c e = e\<lparr>ext_cloud := c\<rparr>"

definition ext_with_fast_mode_size :: "byte \<Rightarrow> extension \<Rightarrow> extension" where
  "ext_with_fast_mode_size n e = e\<lparr>ext_fast_mode_size := Some n\<rparr>"

text \<open>The options of Arrow by name; a name that is none of them is warned of and left.\<close>

definition arrow_with_strings_as_strings :: "bool \<Rightarrow> arrow_options \<Rightarrow> arrow_options" where
  "arrow_with_strings_as_strings b o1 = o1\<lparr>strings_as_strings := b\<rparr>"

definition arrow_with_use_date32_for_date :: "bool \<Rightarrow> arrow_options \<Rightarrow> arrow_options" where
  "arrow_with_use_date32_for_date b o1 = o1\<lparr>use_date32_for_date := b\<rparr>"

definition arrow_with_strict_schema :: "bool \<Rightarrow> arrow_options \<Rightarrow> arrow_options" where
  "arrow_with_strict_schema b o1 = o1\<lparr>strict_schema := b\<rparr>"

definition arrow_with_disable_strict_schema_ddl :: "bool \<Rightarrow> arrow_options \<Rightarrow> arrow_options" where
  "arrow_with_disable_strict_schema_ddl b o1 = o1\<lparr>disable_strict_schema_ddl := b\<rparr>"

definition arrow_with_nullable_array_default_empty :: "bool \<Rightarrow> arrow_options \<Rightarrow> arrow_options" where
  "arrow_with_nullable_array_default_empty b o1 = o1\<lparr>nullable_array_default_empty := b\<rparr>"

definition arrow_with_setting :: "string \<Rightarrow> bool \<Rightarrow> arrow_options \<Rightarrow> arrow_options" where
  "arrow_with_setting name b o1 =
     (if name = ''strings_as_strings'' then arrow_with_strings_as_strings b o1
      else if name = ''use_date32_for_date'' then arrow_with_use_date32_for_date b o1
      else if name = ''strict_schema'' then arrow_with_strict_schema b o1
      else if name = ''disable_strict_schema_ddl'' then arrow_with_disable_strict_schema_ddl b o1
      else if name = ''nullable_array_default_empty'' then
        arrow_with_nullable_array_default_empty b o1
      else o1)"

definition arrow_options_from :: "(string \<times> bool) list \<Rightarrow> arrow_options" where
  "arrow_options_from kvs = foldl (\<lambda>o1 (k, b). arrow_with_setting k b o1) arrow_options_new kvs"

section \<open>The builder\<close>

record connection_context =
  ctx_trace :: "u64 option option"
  ctx_cloud :: "nat option"

definition context_default :: connection_context where
  "context_default = \<lparr>ctx_trace = None, ctx_cloud = None\<rparr>"

record client_builder =
  b_destination :: "destination option"
  b_options :: client_options
  b_settings :: "settings option"
  b_context :: "connection_context option"
  b_verified :: bool

definition builder_new :: client_builder where
  "builder_new =
     \<lparr>b_destination = None, b_options = client_options_default, b_settings = None,
      b_context = None, b_verified = False\<rparr>"

definition builder_with_destination :: "destination \<Rightarrow> client_builder \<Rightarrow> client_builder" where
  "builder_with_destination d b = b\<lparr>b_destination := Some d, b_verified := False\<rparr>"

definition builder_with_socket_addr :: "sock_addr \<Rightarrow> client_builder \<Rightarrow> client_builder" where
  "builder_with_socket_addr a b = builder_with_destination (SocketAddr a) b"

definition builder_with_host_port :: "string \<Rightarrow> u16 \<Rightarrow> client_builder \<Rightarrow> client_builder" where
  "builder_with_host_port host port b = builder_with_destination (HostPort host port) b"

definition builder_with_endpoint :: "string \<Rightarrow> client_builder \<Rightarrow> client_builder" where
  "builder_with_endpoint endpoint b = builder_with_destination (Endpoint endpoint) b"

definition builder_with_options :: "client_options \<Rightarrow> client_builder \<Rightarrow> client_builder" where
  "builder_with_options opts b = b\<lparr>b_options := opts, b_verified := False\<rparr>"

definition builder_with_ext :: "(extension \<Rightarrow> extension) \<Rightarrow> client_builder \<Rightarrow> client_builder" where
  "builder_with_ext f b = b\<lparr>b_options := opts_extend f (b_options b)\<rparr>"

definition builder_with_tls :: "bool \<Rightarrow> client_builder \<Rightarrow> client_builder" where
  "builder_with_tls tls b =
     (if opt_use_tls (b_options b) \<noteq> tls then
        b\<lparr>b_options := (b_options b)\<lparr>opt_use_tls := tls\<rparr>, b_verified := False\<rparr>
      else b)"

definition builder_with_cafile :: "string \<Rightarrow> client_builder \<Rightarrow> client_builder" where
  "builder_with_cafile f b = b\<lparr>b_options := (b_options b)\<lparr>opt_cafile := Some f\<rparr>\<rparr>"

definition builder_with_ipv4_only :: "bool \<Rightarrow> client_builder \<Rightarrow> client_builder" where
  "builder_with_ipv4_only enabled b = b\<lparr>b_options := (b_options b)\<lparr>opt_ipv4_only := enabled\<rparr>\<rparr>"

definition builder_with_settings :: "settings \<Rightarrow> client_builder \<Rightarrow> client_builder" where
  "builder_with_settings ss b = b\<lparr>b_settings := Some ss\<rparr>"

definition builder_with_setting :: "string \<Rightarrow> setting_value \<Rightarrow> client_builder \<Rightarrow> client_builder" where
  "builder_with_setting k v b =
     b\<lparr>b_settings := Some (add_setting (case b_settings b of None \<Rightarrow> [] | Some ss \<Rightarrow> ss) k v)\<rparr>"

definition builder_with_username :: "string \<Rightarrow> client_builder \<Rightarrow> client_builder" where
  "builder_with_username s b = b\<lparr>b_options := (b_options b)\<lparr>opt_username := s\<rparr>\<rparr>"

definition builder_with_password :: "string \<Rightarrow> client_builder \<Rightarrow> client_builder" where
  "builder_with_password s b = b\<lparr>b_options := (b_options b)\<lparr>opt_password := s\<rparr>\<rparr>"

definition builder_with_database :: "string \<Rightarrow> client_builder \<Rightarrow> client_builder" where
  "builder_with_database s b = b\<lparr>b_options := (b_options b)\<lparr>opt_default_database := s\<rparr>\<rparr>"

definition builder_with_domain :: "string \<Rightarrow> client_builder \<Rightarrow> client_builder" where
  "builder_with_domain s b =
     b\<lparr>b_options := (b_options b)\<lparr>opt_domain := Some s\<rparr>, b_verified := False\<rparr>"

definition builder_with_compression :: "compression_method \<Rightarrow> client_builder \<Rightarrow> client_builder" where
  "builder_with_compression c b = b\<lparr>b_options := (b_options b)\<lparr>opt_compression := c\<rparr>\<rparr>"

definition builder_with_arrow_options :: "arrow_options \<Rightarrow> client_builder \<Rightarrow> client_builder" where
  "builder_with_arrow_options o1 b =
     b\<lparr>b_options := (b_options b)\<lparr>opt_ext := (opt_ext (b_options b))\<lparr>ext_arrow := Some o1\<rparr>\<rparr>\<rparr>"

definition context_of :: "client_builder \<Rightarrow> connection_context" where
  "context_of b = (case b_context b of None \<Rightarrow> context_default | Some c \<Rightarrow> c)"

definition builder_with_trace_context :: "u64 option \<Rightarrow> client_builder \<Rightarrow> client_builder" where
  "builder_with_trace_context t b = b\<lparr>b_context := Some ((context_of b)\<lparr>ctx_trace := Some t\<rparr>)\<rparr>"

definition builder_with_cloud_wakeup :: "bool \<Rightarrow> client_builder \<Rightarrow> client_builder" where
  "builder_with_cloud_wakeup ping b =
     builder_with_ext (\<lambda>e. e\<lparr>ext_cloud := (ext_cloud e)\<lparr>cloud_wakeup := ping\<rparr>\<rparr>) b"

definition builder_with_cloud_timeout :: "u64 \<Rightarrow> client_builder \<Rightarrow> client_builder" where
  "builder_with_cloud_timeout t b =
     builder_with_ext (\<lambda>e. e\<lparr>ext_cloud := (ext_cloud e)\<lparr>cloud_timeout := Some t\<rparr>\<rparr>) b"

definition builder_with_cloud_track :: "nat \<Rightarrow> client_builder \<Rightarrow> client_builder" where
  "builder_with_cloud_track flag b = b\<lparr>b_context := Some ((context_of b)\<lparr>ctx_cloud := Some flag\<rparr>)\<rparr>"

text \<open>\<open>verify\<close>: the destination becomes the addresses it resolves to; where TLS is used and no
  domain set, the domain becomes that of the destination.\<close>

definition builder_verify :: "resolver \<Rightarrow> client_builder \<Rightarrow> client_builder res" where
  "builder_verify r b =
     (case b_destination b of
        None \<Rightarrow> Inl MissingConnectionInformation
      | Some d \<Rightarrow>
          rbind (resolve r (opt_ipv4_only (b_options b)) d) (\<lambda>addrs.
            if addrs = [] then Inl MalformedConnectionInformation
            else
              rbind
                (if opt_use_tls (b_options b) \<and> opt_domain (b_options b) = None then
                   (if destination_domain d = [] then Inl MalformedConnectionInformation
                    else Inr (Some (destination_domain d)))
                 else Inr (opt_domain (b_options b)))
                (\<lambda>domain.
                  Inr (b\<lparr>b_options := (b_options b)\<lparr>opt_domain := domain\<rparr>,
                         b_destination := Some (SocketAddrs addrs), b_verified := True\<rparr>))))"

section \<open>Connecting\<close>

text \<open>\<open>connect_tls\<close> and \<open>connect_socket\<close>: the server name checked and the address connected to.\<close>

definition connect_socket :: "sock_addr list \<Rightarrow> sock_addr res" where
  "connect_socket addrs = (case addrs of [] \<Rightarrow> Inl MissingConnectionInformation | a # _ \<Rightarrow> Inr a)"

definition connect_tls :: "sock_addr list \<Rightarrow> string option \<Rightarrow> (string \<times> sock_addr) res" where
  "connect_tls addrs domain =
     rbind
       (case domain of
          Some d \<Rightarrow> Inr d
        | None \<Rightarrow> (case addrs of [] \<Rightarrow> Inl Panic | a # _ \<Rightarrow> Inr (ip_text a)))
       (\<lambda>d. rbind (connect_socket addrs) (\<lambda>a. Inr (d, a)))"

definition connect_inner :: "sock_addr list \<Rightarrow> client_options \<Rightarrow> (string option \<times> sock_addr) res" where
  "connect_inner addrs opts =
     (if opt_use_tls opts then
        rbind (connect_tls addrs (opt_domain opts)) (\<lambda>(d, a). Inr (Some d, a))
      else rbind (connect_socket addrs) (\<lambda>a. Inr (None, a)))"

definition client_connect ::
  "resolver \<Rightarrow> destination \<Rightarrow> client_options \<Rightarrow> (string option \<times> sock_addr) res" where
  "client_connect r d opts =
     rbind (resolve r (opt_ipv4_only opts) d) (\<lambda>addrs. connect_inner addrs opts)"

definition builder_build :: "resolver \<Rightarrow> client_builder \<Rightarrow> (string option \<times> sock_addr) res" where
  "builder_build r b =
     rbind (if b_verified b then Inr b else builder_verify r b) (\<lambda>b.
       case b_destination b of
         None \<Rightarrow> Inl Panic
       | Some d \<Rightarrow> client_connect r d (b_options b))"

text \<open>\<open>connection_identifier\<close>; \<open>hash\<close> is what the hasher makes of a password.\<close>

definition connection_identifier :: "(string \<Rightarrow> u64) \<Rightarrow> client_builder \<Rightarrow> string" where
  "connection_identifier hash b =
     (case b_destination b of None \<Rightarrow> [] | Some d \<Rightarrow> destination_domain d)
     @ opt_username (b_options b) @ show_nat (unat (hash (opt_password (b_options b))))
     @ opt_default_database (b_options b)
     @ (case opt_domain (b_options b) of None \<Rightarrow> [] | Some d \<Rightarrow> d)"

text \<open>
  The request that wakes a cloud instance: its address and its timeout in seconds (\<open>None\<close>: no
  limit). \<open>started\<close> is the flag of the tracker, \<open>env\<close> the number in the environment variable
  \<open>CLICKHOUSE_CLOUD_WAKEUP_TIMEOUT\<close> where that is one.
\<close>

definition cloud_timeout_of :: "u64 option \<Rightarrow> u64 option \<Rightarrow> u64 option" where
  "cloud_timeout_of env timeout =
     (let t = (case env of
                 Some n \<Rightarrow> n
               | None \<Rightarrow> (case timeout of Some n \<Rightarrow> n | None \<Rightarrow> 300))
      in if t = 0 then None else Some t)"

definition cloud_endpoint :: "string \<Rightarrow> string option" where
  "cloud_endpoint endpoint =
     (let e = takeWhile (\<lambda>c. c \<noteq> CHR '':'') endpoint in
      if 5 \<le> length e \<and> drop (length e - 5) e = ''cloud'' then Some e else None)"

definition cloud_request ::
  "u64 option \<Rightarrow> bool \<Rightarrow> client_options \<Rightarrow> (string \<times> u64 option) option" where
  "cloud_request env started opts =
     (case opt_domain opts of
        None \<Rightarrow> None
      | Some domain \<Rightarrow>
          if \<not> cloud_wakeup (ext_cloud (opt_ext opts)) \<or> domain = [] then None
          else
            (case cloud_endpoint domain of
               None \<Rightarrow> None
             | Some e \<Rightarrow>
                 if started then None
                 else Some (''https://'' @ e @ '':8443/ping'',
                        cloud_timeout_of env (cloud_timeout (ext_cloud (opt_ext opts))))))"

section \<open>Every builder\<close>

text \<open>The builders a caller can make.\<close>

inductive builder_made :: "client_builder \<Rightarrow> bool" where
  made_new: "builder_made builder_new"
| made_destination: "builder_made b \<Longrightarrow> builder_made (builder_with_destination d b)"
| made_options: "builder_made b \<Longrightarrow> builder_made (builder_with_options opts b)"
| made_ext: "builder_made b \<Longrightarrow> builder_made (builder_with_ext f b)"
| made_tls: "builder_made b \<Longrightarrow> builder_made (builder_with_tls tls b)"
| made_cafile: "builder_made b \<Longrightarrow> builder_made (builder_with_cafile s b)"
| made_ipv4_only: "builder_made b \<Longrightarrow> builder_made (builder_with_ipv4_only v4 b)"
| made_settings: "builder_made b \<Longrightarrow> builder_made (builder_with_settings ss b)"
| made_setting: "builder_made b \<Longrightarrow> builder_made (builder_with_setting k v b)"
| made_username: "builder_made b \<Longrightarrow> builder_made (builder_with_username s b)"
| made_password: "builder_made b \<Longrightarrow> builder_made (builder_with_password s b)"
| made_database: "builder_made b \<Longrightarrow> builder_made (builder_with_database s b)"
| made_domain: "builder_made b \<Longrightarrow> builder_made (builder_with_domain s b)"
| made_compression: "builder_made b \<Longrightarrow> builder_made (builder_with_compression c b)"
| made_arrow_options: "builder_made b \<Longrightarrow> builder_made (builder_with_arrow_options o1 b)"
| made_trace_context: "builder_made b \<Longrightarrow> builder_made (builder_with_trace_context t b)"
| made_cloud_track: "builder_made b \<Longrightarrow> builder_made (builder_with_cloud_track flag b)"
| made_verify: "builder_made b \<Longrightarrow> builder_verify r b = Inr b' \<Longrightarrow> builder_made b'"

lemmas builder_ops =
  builder_with_destination_def builder_with_options_def builder_with_ext_def opts_extend_def
  builder_with_tls_def builder_with_cafile_def builder_with_ipv4_only_def builder_with_settings_def
  builder_with_setting_def builder_with_username_def builder_with_password_def
  builder_with_database_def builder_with_domain_def builder_with_compression_def
  builder_with_arrow_options_def builder_with_trace_context_def builder_with_cloud_track_def

text \<open>The other methods go through these.\<close>

lemma made_socket_addr: "builder_made b \<Longrightarrow> builder_made (builder_with_socket_addr a b)"
  by (simp add: builder_with_socket_addr_def made_destination)

lemma made_host_port: "builder_made b \<Longrightarrow> builder_made (builder_with_host_port h p b)"
  by (simp add: builder_with_host_port_def made_destination)

lemma made_endpoint: "builder_made b \<Longrightarrow> builder_made (builder_with_endpoint e b)"
  by (simp add: builder_with_endpoint_def made_destination)

lemma made_cloud_wakeup: "builder_made b \<Longrightarrow> builder_made (builder_with_cloud_wakeup ping b)"
  by (simp add: builder_with_cloud_wakeup_def made_ext)

lemma made_cloud_timeout: "builder_made b \<Longrightarrow> builder_made (builder_with_cloud_timeout t b)"
  by (simp add: builder_with_cloud_timeout_def made_ext)

text \<open>A verified builder has addresses and, where TLS is used, a domain.\<close>

definition builder_ok :: "client_builder \<Rightarrow> bool" where
  "builder_ok b \<longleftrightarrow>
     (b_verified b \<longrightarrow>
        (\<exists>a addrs. b_destination b = Some (SocketAddrs (a # addrs)))
        \<and> (opt_use_tls (b_options b) \<longrightarrow> opt_domain (b_options b) \<noteq> None))"

lemma builder_verifyE:
  assumes "builder_verify r b = Inr b'"
  obtains d a addrs domain where "b_destination b = Some d"
    and "resolve r (opt_ipv4_only (b_options b)) d = Inr (a # addrs)"
    and "b' = b\<lparr>b_options := (b_options b)\<lparr>opt_domain := domain\<rparr>,
                b_destination := Some (SocketAddrs (a # addrs)), b_verified := True\<rparr>"
    and "domain = (if opt_use_tls (b_options b) \<and> opt_domain (b_options b) = None
          then Some (destination_domain d) else opt_domain (b_options b))"
    and "opt_use_tls (b_options b) \<Longrightarrow> opt_domain (b_options b) = None \<Longrightarrow> destination_domain d \<noteq> []"
  using assms by (auto simp: builder_verify_def rbind_Inr_iff neq_Nil_conv split: option.splits if_splits)

lemma builder_verify_ok: "builder_verify r b = Inr b' \<Longrightarrow> builder_ok b' \<and> b_verified b'"
  by (erule builder_verifyE) (auto simp: builder_ok_def)

lemma builder_made_ok: "builder_made b \<Longrightarrow> builder_ok b"
proof (induction rule: builder_made.induct)
  case (made_verify b r b')
  then show ?case using builder_verify_ok by blast
qed (auto simp: builder_ok_def builder_new_def builder_ops)

section \<open>Where a builder connects\<close>

text \<open>The contract of \<open>build\<close>: the first address allowed of the destination, and the name of the
  certificate, the domain set or else that of the destination.\<close>

definition target_of :: "resolver \<Rightarrow> destination \<Rightarrow> client_options \<Rightarrow> (string option \<times> sock_addr) res" where
  "target_of r d opts =
     (case resolve r (opt_ipv4_only opts) d of
        Inl e \<Rightarrow> Inl e
      | Inr [] \<Rightarrow> Inl MalformedConnectionInformation
      | Inr (a # _) \<Rightarrow>
          if \<not> opt_use_tls opts then Inr (None, a)
          else
            (case opt_domain opts of
               Some name \<Rightarrow> Inr (Some name, a)
             | None \<Rightarrow>
                 if destination_domain d = [] then Inl MalformedConnectionInformation
                 else Inr (Some (destination_domain d), a)))"

lemma build_unverified:
  assumes "\<not> b_verified b"
  shows "builder_build r b =
    (case b_destination b of
       None \<Rightarrow> Inl MissingConnectionInformation
     | Some d \<Rightarrow> target_of r d (b_options b))"
  using assms
  by (auto simp: builder_build_def builder_verify_def target_of_def client_connect_def connect_inner_def
    connect_tls_def connect_socket_def rbind_def split: option.splits list.splits sum.splits)

lemma build_verified:
  assumes "builder_ok b" and "b_verified b"
  obtains a addrs where "b_destination b = Some (SocketAddrs (a # addrs))"
    and "\<And>r. builder_build r b = Inr (if opt_use_tls (b_options b) then opt_domain (b_options b) else None, a)"
proof -
  from assms obtain a addrs
    where d: "b_destination b = Some (SocketAddrs (a # addrs))"
      and dom: "opt_use_tls (b_options b) \<Longrightarrow> opt_domain (b_options b) \<noteq> None"
    by (auto simp: builder_ok_def)
  then have "builder_build r b = Inr (if opt_use_tls (b_options b) then opt_domain (b_options b) else None, a)" for r
    using assms(2) by (auto simp: builder_build_def client_connect_def connect_inner_def connect_tls_def
      connect_socket_def)
  with d show thesis by (rule that)
qed

lemma resolve_no_panic: "resolve r v4 d \<noteq> Inl Panic"
  by (cases d) (auto simp: allowed_def split: option.splits)

lemma target_no_panic: "target_of r d opts \<noteq> Inl Panic"
  using resolve_no_panic [of r "opt_ipv4_only opts" d]
  by (auto simp: target_of_def split: sum.splits list.splits option.splits)

text \<open>C22. Whatever methods a builder was made with, \<open>build\<close> never panics. A verified builder
  looks no host up and has an address, for TLS with a name; any other connects to the first
  address its destination resolves to, and for TLS under the name stored in its options, else
  under the name of the destination. A stored name may be that of an earlier destination
  (\<open>stale_tls_domain\<close>), and the name of an endpoint ends at its first colon
  (\<open>ipv6_endpoint_domain\<close>), so it need not be the name of the host connected to.\<close>

theorem build_connects:
  assumes "builder_made b"
  shows "builder_build r b \<noteq> Inl Panic
    \<and> (b_verified b \<longrightarrow> (\<exists>name a. (\<forall>r'. builder_build r' b = Inr (name, a))
         \<and> (name = None \<longleftrightarrow> \<not> opt_use_tls (b_options b))))
    \<and> (\<not> b_verified b \<longrightarrow> builder_build r b =
         (case b_destination b of
            None \<Rightarrow> Inl MissingConnectionInformation
          | Some d \<Rightarrow> target_of r d (b_options b)))"
proof (cases "b_verified b")
  case True
  with assms obtain a where
    "\<And>r. builder_build r b = Inr (if opt_use_tls (b_options b) then opt_domain (b_options b) else None, a)"
    using builder_made_ok by (metis build_verified)
  moreover have "opt_use_tls (b_options b) \<Longrightarrow> opt_domain (b_options b) \<noteq> None"
    using builder_made_ok [OF assms] True by (simp add: builder_ok_def)
  ultimately show ?thesis using True by auto
next
  case False
  then show ?thesis
    by (auto simp: build_unverified target_no_panic split: option.splits)
qed

definition one_host :: resolver where
  "one_host = \<lparr>lookup_pair = (\<lambda>_ p. Some [V6 (replicate 15 0 @ [1]) p 0 0, V4 2130706433 p]),
     lookup_text = (\<lambda>t. if t = ''db:9440'' then Some [V4 167772161 9440]
        else if t = ''other:9440'' then Some [V4 167772162 9440] else None)\<rparr>"

definition tls_builder :: client_builder where
  "tls_builder = builder_with_endpoint ''db:9440'' (builder_with_tls True builder_new)"

lemma tls_builder_made: "builder_made tls_builder"
  by (simp add: tls_builder_def made_endpoint made_tls made_new)

theorem build_connects_witness:
  "builder_build one_host tls_builder = Inr (Some ''db'', V4 167772161 9440)"
proof -
  have "\<not> b_verified tls_builder" and "b_destination tls_builder = Some (Endpoint ''db:9440'')"
    and "target_of one_host (Endpoint ''db:9440'') (b_options tls_builder)
      = Inr (Some ''db'', V4 167772161 9440)"
    by (simp_all add: tls_builder_def builder_with_endpoint_def builder_with_tls_def builder_new_def
      client_options_default_def builder_with_destination_def target_of_def one_host_def allowed_def)
  with build_connects [OF tls_builder_made, of one_host] show ?thesis by simp
qed

text \<open>A verified builder verified again, with any resolver, is the same builder.\<close>

lemma verify_again:
  assumes "builder_verify r b = Inr b'"
  shows "builder_verify r' b' = Inr b'"
  using assms by (elim builder_verifyE) (auto simp: builder_verify_def)

text \<open>The restriction to IPv4 has no effect once the builder is verified: \<open>with_ipv4_only\<close>
  does not ask for another verification.\<close>

lemma late_ipv4_only:
  assumes "builder_verify r b = Inr b'"
  shows "builder_build r' (builder_with_ipv4_only True b') = builder_build r' b'"
  using assms
  by (elim builder_verifyE) (auto simp: builder_with_ipv4_only_def builder_build_def client_connect_def
    connect_inner_def)

text \<open>C33. The domain that \<open>verify\<close> takes from a destination stays in the options: a verified TLS
  builder that is given another destination connects to that one and checks its certificate
  for the name of the first.\<close>

theorem stale_tls_domain:
  assumes "opt_use_tls (b_options b)" and "opt_domain (b_options b) = None"
    and "b_destination b = Some d1" and "builder_verify r b = Inr b1"
    and "resolve r' (opt_ipv4_only (b_options b)) d2 = Inr (a # addrs)"
  shows "builder_build r' (builder_with_destination d2 b1) = Inr (Some (destination_domain d1), a)"
proof -
  from assms obtain addrs1 where "b1 = b\<lparr>b_options := (b_options b)\<lparr>opt_domain := Some (destination_domain d1)\<rparr>,
      b_destination := Some (SocketAddrs addrs1), b_verified := True\<rparr>"
    by (elim builder_verifyE) auto
  then show ?thesis
    using assms(1,5) by (simp add: build_unverified builder_with_destination_def target_of_def)
qed

theorem stale_tls_domain_witness:
  "\<exists>b1. builder_verify one_host tls_builder = Inr b1
    \<and> builder_build one_host (builder_with_destination (Endpoint ''other:9440'') b1)
        = Inr (Some ''db'', V4 167772162 9440)"
proof -
  have h: "opt_use_tls (b_options tls_builder)" "opt_domain (b_options tls_builder) = None"
    "b_destination tls_builder = Some (Endpoint ''db:9440'')"
    "resolve one_host (opt_ipv4_only (b_options tls_builder)) (Endpoint ''other:9440'') = Inr [V4 167772162 9440]"
    by (simp_all add: tls_builder_def builder_with_endpoint_def builder_with_tls_def builder_new_def
      client_options_default_def builder_with_destination_def one_host_def allowed_def)
  obtain b1 where b1: "builder_verify one_host tls_builder = Inr b1"
    by (simp add: tls_builder_def builder_with_endpoint_def builder_with_tls_def builder_new_def
      client_options_default_def builder_with_destination_def one_host_def allowed_def builder_verify_def)
  have "destination_domain (Endpoint ''db:9440'') = ''db''"
    by simp
  with stale_tls_domain [OF h(1-3) b1 h(4)] b1 show ?thesis
    by metis
qed

section \<open>What else a caller should know\<close>

text \<open>\<open>Client::connect\<close> called directly panics where TLS is used without a domain and the host
  has no address that is allowed; \<open>verify\<close> reports an error in this case.\<close>

lemma connect_without_address_panics:
  assumes "opt_use_tls opts" and "opt_domain opts = None"
    and "resolve r (opt_ipv4_only opts) d = Inr []"
  shows "client_connect r d opts = Inl Panic"
  using assms by (simp add: client_connect_def connect_inner_def connect_tls_def)

text \<open>The identifier of a connection has no port in it, and no bounds between its parts.\<close>

lemma identifier_without_port:
  "connection_identifier hash (builder_with_host_port h p b)
     = connection_identifier hash (builder_with_host_port h q b)"
  by (simp add: connection_identifier_def builder_with_host_port_def builder_with_destination_def)

lemma identifier_without_bounds:
  "connection_identifier hash (builder_with_username ''xy'' (builder_with_host_port ''h'' p b))
     = connection_identifier hash (builder_with_username ''y'' (builder_with_host_port ''hx'' p b))"
  by (simp add: connection_identifier_def builder_with_host_port_def builder_with_destination_def
    builder_with_username_def)

text \<open>The domain of an endpoint ends at its first colon, also in an IPv6 address.\<close>

lemma ipv6_endpoint_domain: "destination_domain (Endpoint ''[::1]:9440'') = ''[''"
  by simp

text \<open>The file of certificate authorities has no part in a connection.\<close>

lemma cafile_unused: "builder_build r (builder_with_cafile file b) = builder_build r b"
proof -
  have "target_of r d (b_options (builder_with_cafile file b)) = target_of r d (b_options b)" for d
    by (simp add: target_of_def builder_with_cafile_def split: sum.splits list.splits option.splits)
  moreover have "client_connect r d (b_options (builder_with_cafile file b)) = client_connect r d (b_options b)" for d
    by (simp add: client_connect_def connect_inner_def builder_with_cafile_def cong: if_cong)
  moreover have "b_verified (builder_with_cafile file b) = b_verified b"
    and "b_destination (builder_with_cafile file b) = b_destination b"
    by (simp_all add: builder_with_cafile_def)
  ultimately show ?thesis
    by (cases "b_verified b") (auto simp: build_unverified split: option.split, auto simp: builder_build_def split: option.split)
qed

text \<open>The names of the Arrow options: each sets its own field.\<close>

lemma arrow_with_setting_names:
  "arrow_with_setting ''strings_as_strings'' v o1 = o1\<lparr>strings_as_strings := v\<rparr>"
  "arrow_with_setting ''use_date32_for_date'' v o1 = o1\<lparr>use_date32_for_date := v\<rparr>"
  "arrow_with_setting ''strict_schema'' v o1 = o1\<lparr>strict_schema := v\<rparr>"
  "arrow_with_setting ''disable_strict_schema_ddl'' v o1 = o1\<lparr>disable_strict_schema_ddl := v\<rparr>"
  "arrow_with_setting ''nullable_array_default_empty'' v o1 = o1\<lparr>nullable_array_default_empty := v\<rparr>"
  by (simp_all add: arrow_with_setting_def arrow_with_strings_as_strings_def
    arrow_with_use_date32_for_date_def arrow_with_strict_schema_def
    arrow_with_disable_strict_schema_ddl_def arrow_with_nullable_array_default_empty_def)

text \<open>Some addresses and their texts.\<close>

lemma address_texts:
  "ip_text (V4 2130706433 0) = ''127.0.0.1''"
  "ip_text (V6 [0, 0, 0, 0, 0, 0, 0, 0, 0, 0, 0, 0, 0, 0, 0, 1] 9000 0 0) = ''::1''"
  "sock_text (V6 [0x20, 1, 0xd, 0xb8, 0, 0, 0, 0, 0, 0, 0, 0, 0xab, 0xcd, 0, 1] 9000 0 3) = ''[2001:db8::abcd:1%3]:9000''"
  by (simp_all add: ipv4_text_def ipv6_text_def show_nat.simps hex_nat.simps hex_lower_def digit_char_def
    char_of_def bit_0)

end
