(* ===== verification/Pool.thy ===== *)
theory Pool
  imports Builder
begin

text \<open>
  The connections of a pool (pool.rs): the manager the bb8 pool makes and checks its
  connections with, and the intervals between attempts. The bb8 pool itself is a library: its
  own options (\<open>configure_pool\<close>) are left out.

  A duration is a number of nanoseconds. The factor of the intervals is 2, so that the \<open>f64\<close>
  product of an interval is the interval with a greater exponent: it is exact below the cap.
\<close>

section \<open>The manager\<close>

record pool_builder =
  pool_client :: client_builder
  pool_check_health :: bool

record manager =
  mgr_builder :: client_builder
  mgr_check_health :: bool

definition pool_new :: "destination \<Rightarrow> pool_builder" where
  "pool_new d = \<lparr>pool_client = builder_with_destination d builder_new, pool_check_health = False\<rparr>"

definition pool_with_client_builder :: "client_builder \<Rightarrow> pool_builder" where
  "pool_with_client_builder b = \<lparr>pool_client = b, pool_check_health = False\<rparr>"

definition pool_with_check :: "pool_builder \<Rightarrow> pool_builder" where
  "pool_with_check p = p\<lparr>pool_check_health := True\<rparr>"

definition pool_configure_client :: "(client_builder \<Rightarrow> client_builder) \<Rightarrow> pool_builder \<Rightarrow> pool_builder" where
  "pool_configure_client f p = p\<lparr>pool_client := f (pool_client p)\<rparr>"

definition manager_with_builder :: "resolver \<Rightarrow> client_builder \<Rightarrow> manager res" where
  "manager_with_builder r b =
     rbind (builder_verify r b) (\<lambda>b. Inr \<lparr>mgr_builder = b, mgr_check_health = False\<rparr>)"

definition manager_new ::
  "resolver \<Rightarrow> destination \<Rightarrow> client_options \<Rightarrow> settings option \<Rightarrow> u64 option \<Rightarrow> manager res" where
  "manager_new r d opts ss span =
     manager_with_builder r
       (builder_with_settings (case ss of None \<Rightarrow> [] | Some ss \<Rightarrow> ss)
          (builder_with_trace_context span
             (builder_with_destination d (builder_with_options opts builder_new))))"

definition manager_with_check :: "bool \<Rightarrow> manager \<Rightarrow> manager" where
  "manager_with_check check m = m\<lparr>mgr_check_health := check\<rparr>"

definition manager_with_cloud_track :: "nat \<Rightarrow> manager \<Rightarrow> manager" where
  "manager_with_cloud_track flag m = m\<lparr>mgr_builder := builder_with_cloud_track flag (mgr_builder m)\<rparr>"

definition build_manager :: "resolver \<Rightarrow> pool_builder \<Rightarrow> manager res" where
  "build_manager r p =
     rbind (manager_with_builder r (pool_client p)) (\<lambda>m. Inr (manager_with_check (pool_check_health p) m))"

definition manager_connect :: "resolver \<Rightarrow> manager \<Rightarrow> (string option \<times> sock_addr) res" where
  "manager_connect r m = builder_build r (mgr_builder m)"

section \<open>Health\<close>

text \<open>
  \<open>is_valid\<close>: an open connection is checked for at most two seconds; \<open>reply\<close> is \<open>None\<close> where a
  ping that was sent is not answered in that time, else what becomes of its sender.
\<close>

definition ping_sent :: "u128 \<Rightarrow> connection \<Rightarrow> connection option" where
  "ping_sent qid c =
     (case check_channel c of
        (Inl _, _) \<Rightarrow> None
      | (Inr _, c) \<Rightarrow>
          (case connection_send KPing qid True c of (Inl _, _) \<Rightarrow> None | (Inr _, c) \<Rightarrow> Some c))"

definition is_valid ::
  "bool \<Rightarrow> u128 \<Rightarrow> ping_reply option \<Rightarrow> connection \<Rightarrow> unit res \<times> connection" where
  "is_valid check qid reply c =
     (case current_status c of
        StatusError \<Rightarrow> (Inl ConnectionGone, c)
      | StatusClosed \<Rightarrow> (Inl ConnectionGone, c)
      | StatusOpen \<Rightarrow>
          (case (reply, if check then ping_sent qid c else None) of
             (None, Some c1) \<Rightarrow> (Inl ConnectionTimeout, c1)
           | (Some ans, _) \<Rightarrow> check_connection check qid ans c
           | (None, None) \<Rightarrow> check_connection check qid SenderDropped c))"

definition has_broken :: "connection \<Rightarrow> bool" where
  "has_broken c = (current_status c = StatusError \<or> current_status c = StatusClosed)"

section \<open>Intervals\<close>

record backoff =
  current_interval :: nat
  max_interval :: nat
  max_elapsed_time :: "nat option"
  attempts :: nat

definition millis :: "nat \<Rightarrow> nat" where "millis n = n * 1000000"
definition secs :: "nat \<Rightarrow> nat" where "secs n = n * 1000000000"

definition backoff_new :: backoff where
  "backoff_new =
     \<lparr>current_interval = millis 10, max_interval = secs 60, max_elapsed_time = Some (secs 900),
      attempts = 0\<rparr>"

text \<open>A duration has at most 2^64 - 1 seconds.\<close>

definition duration :: "nat \<Rightarrow> nat res" where
  "duration n = (if n < secs (2 ^ 64) then Inr n else Inl Panic)"

definition next_backoff :: "backoff \<Rightarrow> nat option res \<times> backoff" where
  "next_backoff b =
     (if attempts b + 1 \<ge> 2 ^ 32 then (Inl Panic, b)
      else
        (let b = b\<lparr>attempts := attempts b + 1\<rparr> in
         (rbind
            (case max_elapsed_time b of
               None \<Rightarrow> Inr False
             | Some t \<Rightarrow> rbind (duration (current_interval b * attempts b)) (\<lambda>n. Inr (n > t)))
            (\<lambda>late.
              if late then Inr None
              else
                rbind (duration (current_interval b * 2 ^ (attempts b - 1))) (\<lambda>n.
                  Inr (Some (min n (max_interval b))))), b)))"

section \<open>Properties\<close>

text \<open>C38. A pool looks its host up once: every connection its manager makes goes to the same
  address under the same name, the one a client built at once would connect to, whatever the
  host resolves to later.\<close>

theorem pool_connects_alike:
  assumes "manager_with_builder r b = Inr m"
  shows "\<exists>target. (\<forall>r'. manager_connect r' (manager_with_check check m) = Inr target)
    \<and> (\<not> b_verified b \<longrightarrow> builder_build r b = Inr target)"
proof -
  from assms have v: "builder_verify r b = Inr (mgr_builder m)"
    by (auto simp: manager_with_builder_def rbind_Inr_iff)
  then have ok: "builder_ok (mgr_builder m)" "b_verified (mgr_builder m)"
    using builder_verify_ok by auto
  obtain target where t: "\<And>r'. builder_build r' (mgr_builder m) = Inr target"
    using build_verified [OF ok] by metis
  have "builder_build r b = builder_build r (mgr_builder m)" if "\<not> b_verified b"
    using that v ok(2) by (simp add: builder_build_def)
  with t show ?thesis
    by (auto simp: manager_connect_def manager_with_check_def)
qed

theorem pool_connects_alike_witness:
  "\<exists>m target. manager_with_builder one_host tls_builder = Inr m
    \<and> (\<forall>r'. manager_connect r' (manager_with_check True m) = Inr target)"
proof -
  obtain m where m: "manager_with_builder one_host tls_builder = Inr m"
    by (simp add: tls_builder_def builder_with_endpoint_def builder_with_tls_def builder_new_def
      client_options_default_def builder_with_destination_def one_host_def allowed_def
      builder_verify_def manager_with_builder_def)
  with pool_connects_alike [OF m, of True] show ?thesis by blast
qed

text \<open>A check that succeeds changes no status.\<close>

lemma connection_send_keeps:
  "connection_send op qid fin c = (Inr i, c') \<Longrightarrow> conn_states c' = conn_states c"
  by (auto simp: connection_send_def Let_def split: if_splits prod.splits)

lemma check_channel_keeps: "check_channel c = (Inr u, c') \<Longrightarrow> c' = c \<and> \<not> channel_closed (conn_states c ! 0)"
  by (simp add: check_channel_def split: if_splits)

lemma check_connection_keeps:
  "check_connection check qid reply c = (Inr (), c') \<Longrightarrow>
     conn_states c' = conn_states c \<and> \<not> channel_closed (conn_states c ! 0)"
  unfolding check_connection_def
  by (auto dest: check_channel_keeps connection_send_keeps
    split: if_splits prod.splits sum.splits ping_reply.splits)

lemma valid_not_broken:
  assumes "is_valid check qid reply c = (Inr (), c')"
  shows "\<not> has_broken c' \<and> \<not> channel_closed (conn_states c' ! 0)"
proof -
  have st: "current_status c = StatusOpen" and "\<exists>a. check_connection check qid a c = (Inr (), c')"
    using assms by (auto simp: is_valid_def split: connection_status.splits option.splits)
  then have "conn_states c' = conn_states c" and "\<not> channel_closed (conn_states c ! 0)"
    using check_connection_keeps by blast+
  with st show ?thesis
    by (simp add: has_broken_def current_status_def)
qed

text \<open>The pool looks at the first connection of a client only: with the second one closed
  and the first open, a check finds no fault, \<open>has_broken\<close> says no, and the client stays in the
  pool, though every operation the balancer gives to the second connection is refused.\<close>

theorem second_connection_unchecked:
  assumes "conn_status (conn_states c ! 0) = 0" and "\<not> channel_closed (conn_states c ! 0)"
    and "1 < length (conn_states c)" and "conn_status (conn_states c ! 1) > 0"
  shows "is_valid False qid reply c = (Inr (), c) \<and> \<not> has_broken c
    \<and> (fst (assign_operation op q fin (load_balancer c)) = 1 \<longrightarrow>
         fst (connection_send op q fin c) = Inl ClientErr)"
  using assms
  by (auto simp: is_valid_def check_connection_def check_channel_def has_broken_def current_status_def
    status_from_def connection_send_def Let_def split: option.splits prod.splits)

definition half_closed :: connection where
  "half_closed = set_status 1 StatusClosed fresh_connection"

theorem second_connection_unchecked_witness:
  "is_valid False 0 None half_closed = (Inr (), half_closed) \<and> \<not> has_broken half_closed
    \<and> fst (connection_send KQuery 5 False half_closed) = Inl ClientErr"
proof -
  have "qid_key 5 = 5" by code_simp
  then have "fst (assign_operation KQuery 5 False (load_balancer half_closed)) = 1"
    by (simp add: half_closed_def set_status_def fresh_connection_def assign_operation_def
      fst_load_assign load_choose_def)
  moreover have "conn_status (conn_states half_closed ! 0) = 0"
    "\<not> channel_closed (conn_states half_closed ! 0)" "1 < length (conn_states half_closed)"
    "conn_status (conn_states half_closed ! 1) > 0"
    by (simp_all add: half_closed_def set_status_def fresh_connection_def status_num_def)
  ultimately show ?thesis
    using second_connection_unchecked [of half_closed 0 None KQuery 5 False] by blast
qed

text \<open>After \<open>n\<close> calls.\<close>

definition backoff_after :: "nat \<Rightarrow> backoff" where
  "backoff_after n = backoff_new\<lparr>attempts := n\<rparr>"

lemma power_two_bound: "(2::nat) ^ n < 100 * 2 ^ 64 \<longleftrightarrow> n \<le> 70"
proof
  assume "(2::nat) ^ n < 100 * 2 ^ 64"
  also have "(100::nat) * 2 ^ 64 < 2 ^ 71" by simp
  finally show "n \<le> 70" using power_strict_increasing_iff [of "2::nat" n 71] by simp
next
  assume "n \<le> 70"
  then have "(2::nat) ^ n \<le> 2 ^ 70" by (intro power_increasing) auto
  also have "\<dots> < 100 * 2 ^ 64" by simp
  finally show "(2::nat) ^ n < 100 * 2 ^ 64" .
qed

text \<open>The intervals double from ten milliseconds up to a minute; the 72nd call and the ones
  after it panic, because the interval is capped only after it has been computed, and not before
  the 90001st call is the elapsed time taken to be over.\<close>

theorem backoff_intervals:
  assumes "n < 2 ^ 32 - 1"
  shows "next_backoff (backoff_after n) =
    (if n \<ge> 90000 then Inr None
     else if n > 70 then Inl Panic
     else Inr (Some (min (millis 10 * 2 ^ n) (secs 60))), backoff_after (Suc n))"
proof -
  have "millis 10 * 2 ^ n < secs (2 ^ 64) \<longleftrightarrow> n \<le> 70"
    using power_two_bound [of n] by (simp add: millis_def secs_def)
  moreover have "millis 10 * Suc n < secs (2 ^ 64)"
    using assms by (simp add: millis_def secs_def)
  moreover have "millis 10 * Suc n > secs 900 \<longleftrightarrow> n \<ge> 90000"
    by (auto simp: millis_def secs_def)
  ultimately show ?thesis
    using assms by (simp add: next_backoff_def backoff_after_def backoff_new_def duration_def)
qed

theorem backoff_intervals_witness:
  "next_backoff (backoff_after 71) = (Inl Panic, backoff_after 72)"
  using backoff_intervals [of 71] by simp

end
