(* ===== verification/Spec2Isabelle.thy ===== *)
theory Spec2Isabelle
  imports ArrowBlock ArrowLimits ArrowRows Connection RawRow Schema Wide Pool
begin

text \<open>
  The clickhouse-arrow client: a verified model of its core.

  The crate (clickhouse-arrow/src) talks to a ClickHouse server over the native TCP protocol.
  A client opens connections; for each a task owns the socket and runs a loop over the
  operations of the callers and the packets of the server. Queries, settings and blocks of
  data are written by the packet writers, everything the server sends comes in through the
  packet readers, blocks are columns of typed values with a codec for each type, optionally
  compressed in chunks, and in the chunked protocol every logical packet is framed.

  \<^bold>\<open>Conventions.\<close> A reader takes the bytes that remain of the stream and returns a value and
  the bytes after it, or an error; a writer returns the bytes it emits, or an error. Errors are
  the variants of \<open>Error\<close> without their texts, and a panic is the error \<open>Panic\<close>. Integers are
  words at their width, \<open>usize\<close> is a natural number except in the packed load counter,
  floats are bit patterns, strings are their UTF-8 bytes, the 256-bit integers and IPv6
  addresses are big-endian byte lists. The asynchronous and the in-memory form of a routine
  are two routines in the source and two definitions here; their agreement is proved. The
  overflow checks of the debug profile are on: an overflowing addition of lengths is a panic.

  \<^bold>\<open>The theories and what they model.\<close>
  \<^item> Prelude, Text: results, readers, little-endian integers, UTF-8, numbers as text.
  \<^item> ClickIO (io.rs): variable-length integers and length-prefixed strings. Every \<open>u64\<close> is
    read back modulo 63 bits; the in-memory readers agree with the asynchronous ones.
  \<^item> ChTypes, Values (native/types.rs, native/values.rs): \<open>Type\<close>, \<open>Value\<close>, their accessors,
    validity, defaults and equality.
  \<^item> TypeParser, TypeText (native/types/deserialize.rs, native/types.rs): the text of a type
    and its parser; a printed type parses back to its canonical form (\<open>Binary\<close> is printed as
    \<open>String\<close>), for numbers in range, known time zones and enum names without quotes.
  \<^item> Items, Columns (native/types/serialize/, native/types/deserialize/): every column codec.
    ColumnProofs and ColumnTheorems show the round trip of every type, that the loop of the
    low-cardinality reader ends, that readers only take bytes from the front, and the same
    for the in-memory forms.
  \<^item> BlockIO (native/block.rs, native/block_info.rs): blocks on the wire, from and as rows.
  \<^item> Compression (compression.rs, formats/native.rs): chunks with checksums and the native
    format over them.
  \<^item> Protocol (native/protocol.rs): packet numbers, revisions, negotiation of the chunked mode.
  \<^item> Settings (settings.rs, query.rs): the collection, its lookup and update, both wire forms.
    The locale \<open>keyed_store\<close> is the contract of the collection.
  \<^item> Requests (client/writer.rs, native/client_info.rs): every packet the client writes. The
    receiving grammar in that theory, for each revision, is a specification, not code. A query
    is read back at every revision; one with parameters is never sent where a revision has them.
  \<^item> Responses (client/reader.rs): every packet the client reads. The packets as a server
    writes them, in that theory, are a specification.
  \<^item> ChunkIO (client/chunk.rs): the framing, with a reader that is polled against a stream
    that may not have all of its bytes yet.
  \<^item> ErrorCodes (native/error_codes.rs): the table of codes and which of them are fatal.
  \<^item> Conn (client/internal.rs): the loop of a connection as the step relation \<open>conn_step\<close>,
    its runs \<open>conn_run\<close>, and the promises over all runs: the queue is first in first out,
    answers do not cross, nothing waits without a query executing, an answer is delivered.
    A read that \<open>tokio::select!\<close> drops is the predicate \<open>cancelled\<close>.
  \<^item> ArrowTypes (arrow/types.rs, client/options.rs): the conversions between the types of Arrow
    and of ClickHouse, the schema conversions and the normalization of a type. The
    types that come back from Arrow as they are, are exactly those of \<open>arrow_stable\<close>; the
    normalized type has the same Arrow type.
  \<^item> ArrowWrite (arrow/serialize/), ArrowRead (arrow/builder.rs, arrow/deserialize/): arrays,
    their writer, the builders and the two readers. ArrowProofs and ArrowLeaf show the round
    trip of the types without parts; ArrowBack has the locale \<open>arrow_reader\<close>, the contract
    that both readers are instances of, and the round trip of every column. ArrowNative: the
    Arrow writer sends the bytes of the native writer. ArrowLimits: what does not come back.
  \<^item> ArrowBlock (arrow/block.rs, formats/arrow.rs): record batches on both streams (the locale
    \<open>batch_stream\<close>), the builders kept between blocks, and the Arrow format.
  \<^item> ArrowValues, ArrowRows (arrow/utils.rs): the values of an array, the rows of a batch and the
    pieces it is cut into; they are what the native reader would have read.
  \<^item> Convert, RustColumns (native/convert/, native/values/): \<open>ToSql\<close> and \<open>FromSql\<close>. A Rust
    type is a code of \<open>rtype\<close>, a Rust value an element of \<open>rval\<close>; values go through a column of
    the wire and come back. RawRow (raw_row.rs, unit_value.rs): rows without a type.
  \<^item> Dates (native/values/date.rs): dates and times made from numbers, from chrono dates and
    times, and back. Wide (int256.rs, fixed_point.rs): the arithmetic of \<open>i256\<close>, the parts of
    fixed-point numbers, and the scaling of decimals to 256 bits.
  \<^item> Schema (schema.rs): engines, table options and the statements that create tables, with each
    line of a table made from an Arrow schema spelled out.
  \<^item> Load, Connection (client/connection.rs, client.rs): the packed load counter and its
    refinement to one load per connection, handshake, status, the choice of a connection.
  \<^item> Builder (client/options.rs, client/builder.rs, client/tcp.rs, client/cloud.rs): options, the
    builder and every state it can be in, destinations, and what a client connects to. Pool
    (pool.rs): the manager of a pool, its health check, the intervals between attempts.

  \<^bold>\<open>How the parts interact.\<close> \<open>Conn.handle_operation\<close> writes with \<open>Requests.send_query\<close> and
  \<open>Requests.send_data\<close>; the latter writes a block with \<open>Compression.native_write\<close>, which uses
  \<open>BlockIO.block_write\<close>, which uses \<open>Columns.serialize_column\<close> and \<open>TypeText.display\<close>.
  \<open>Conn.conn_receive_packet\<close> reads with \<open>Responses.receive_header\<close> until the header of a
  query has come and with \<open>Responses.receive_packet\<close> after it, down to
  \<open>Columns.deserialize_column\<close>; \<open>ErrorCodes.is_fatal\<close> decides whether an exception ends the
  run. The turns of the loop finish chunks with \<open>ChunkIO.finish_chunk\<close>.
  \<open>Builder.builder_build\<close> and \<open>Pool.manager_connect\<close> choose the address of a connection,
  \<open>Connection.connection_send\<close> chooses a connection with the balancer of Load.

  \<^bold>\<open>Parameters.\<close> What is not under src/ is an argument: \<open>tz_parse\<close> (the names \<open>chrono_tz\<close>
  knows), \<open>arrow_lib\<close> (the constructors of Arrow arrays and batches, which check their parts; the
  laws are \<open>arrow_lib_ok\<close> and \<open>batch_law\<close>, the instance \<open>checked_arrow\<close>), \<open>arrow_ops\<close>
  (cast and slice of Arrow; the law is \<open>arrow_ops_ok\<close>, the instance \<open>plain_ops\<close>), \<open>rust_lib\<close>
  (which times chrono has, which decimals \<open>rust_decimal\<close> has, the order a map iterates in), \<open>float_conv\<close>
  (conversions between float widths), \<open>resolver\<close> (the addresses host lookup finds), \<open>iset\<close> and \<open>imap\<close> (the iteration order of \<open>IndexSet\<close> and \<open>IndexMap\<close>; the laws are
  \<open>index_set\<close> and \<open>index_map\<close>), \<open>codecs\<close> (lz4, zstd and cityhash; the law \<open>codecs_ok\<close> says
  that decompression undoes compression), \<open>float_text\<close> (printing and parsing \<open>f64\<close>). Each law
  has an instance in a witness.

  \<^bold>\<open>Calls that do not return.\<close> The reader of low-cardinality columns carries fuel;
  \<open>ColumnTheorems.low_cardinality_loop_ends\<close> proves that the same loop without fuel (the
  relation \<open>lc_run\<close>) ends on every input, after at most one turn for each sixteen bytes and
  one more, with the result of the model, so the fuel never runs out. The loop of the chunk reader and the
  collection of settings from an iterator are \<open>partial_function (option)\<close>: \<open>None\<close> is a call
  that does not return, and the theorems state which calls these are.

  \<^bold>\<open>Not modelled.\<close> Sockets, the TLS session, host lookup, the bb8 pool, tracing, environment flags
  and the spawning of tasks are input and output or calls into libraries. The conversions to
  serde_json and geo-types values, \<open>Debug\<close> and \<open>Display\<close> of values, and the queries
  of arrow/schema.rs are left out.
\<close>

end

